(* ===== verification/Json.thy ===== *)
theory Json
  imports Prelude
begin

text \<open>
  The dynamic values the agent handles (JSON documents, parsed YAML, request payloads) and
  the canonical text \<open>json.dumps(v, sort_keys=True, separators=(",", ":"),
  ensure_ascii=True)\<close> that every digest of the agent is taken of. Numbers are
  integers: no document modelled here holds a float. The main fact is \<open>json_dumps_inj\<close>:
  two values with the same canonical text are the same value up to the order of keys.
\<close>

section \<open>Values\<close>

datatype pyval =
    VNull
  | VBool bool
  | VInt int
  | VStr string
  | VList "pyval list"
  | VDict "(string \<times> pyval) list"

text \<open>\<open>bool(v)\<close>, \<open>d.get(k)\<close> and \<open>v or w\<close>.\<close>

fun truthy :: "pyval \<Rightarrow> bool" where
  "truthy VNull = False"
| "truthy (VBool b) = b"
| "truthy (VInt i) = (i \<noteq> 0)"
| "truthy (VStr s) = (s \<noteq> [])"
| "truthy (VList vs) = (vs \<noteq> [])"
| "truthy (VDict d) = (d \<noteq> [])"

definition dget :: "(string \<times> pyval) list \<Rightarrow> string \<Rightarrow> pyval" where
  "dget d k = (case map_of d k of None \<Rightarrow> VNull | Some v \<Rightarrow> v)"

definition dget_default :: "(string \<times> pyval) list \<Rightarrow> string \<Rightarrow> pyval \<Rightarrow> pyval" where
  "dget_default d k v0 = (case map_of d k of None \<Rightarrow> v0 | Some v \<Rightarrow> v)"

definition py_or :: "pyval \<Rightarrow> pyval \<Rightarrow> pyval" where
  "py_or v w = (if truthy v then v else w)"

fun is_dict :: "pyval \<Rightarrow> bool" where
  "is_dict (VDict _) = True" | "is_dict _ = False"

fun is_str :: "pyval \<Rightarrow> bool" where
  "is_str (VStr _) = True" | "is_str _ = False"

fun is_bool :: "pyval \<Rightarrow> bool" where
  "is_bool (VBool _) = True" | "is_bool _ = False"

text \<open>\<open>isinstance(v, int)\<close> holds of booleans too, as in Python.\<close>

fun is_int :: "pyval \<Rightarrow> bool" where
  "is_int (VInt _) = True" | "is_int (VBool _) = True" | "is_int _ = False"

fun items_of :: "pyval \<Rightarrow> (string \<times> pyval) list" where
  "items_of (VDict d) = d" | "items_of _ = []"

section \<open>Decimal numbers\<close>

definition digit_char :: "nat \<Rightarrow> char" where
  "digit_char n = char_of (48 + n)"

definition digit_val :: "char \<Rightarrow> nat" where
  "digit_val c = of_char c - 48"

definition is_digit :: "char \<Rightarrow> bool" where
  "is_digit c \<longleftrightarrow> 48 \<le> (of_char c :: nat) \<and> (of_char c :: nat) \<le> 57"

fun show_nat :: "nat \<Rightarrow> string" where
  "show_nat n = (if n < 10 then [digit_char n] else show_nat (n div 10) @ [digit_char (n mod 10)])"

declare show_nat.simps [simp del]

definition show_int :: "int \<Rightarrow> string" where
  "show_int i = (if i < 0 then CHR ''-'' # show_nat (nat (- i)) else show_nat (nat i))"

definition read_nat :: "string \<Rightarrow> nat" where
  "read_nat = foldl (\<lambda>a c. 10 * a + digit_val c) 0"

lemma of_char_digit [simp]: "n < 10 \<Longrightarrow> (of_char (digit_char n) :: nat) = 48 + n"
  by (simp add: digit_char_def)

lemma digit_char_simps [simp]:
  "n < 10 \<Longrightarrow> digit_val (digit_char n) = n" "n < 10 \<Longrightarrow> is_digit (digit_char n)"
  by (simp_all add: digit_val_def is_digit_def)

lemma show_nat_digits: "\<forall>c \<in> set (show_nat n). is_digit c"
proof (induction n rule: show_nat.induct)
  case (1 n)
  then show ?case by (subst show_nat.simps) auto
qed

lemma show_nat_ne [simp]: "show_nat n \<noteq> []"
  by (subst show_nat.simps) simp

lemma read_show_nat [simp]: "read_nat (show_nat n) = n"
proof (induction n rule: show_nat.induct)
  case (1 n)
  then show ?case by (subst show_nat.simps) (auto simp: read_nat_def)
qed

lemma show_nat_inj [simp]: "show_nat m = show_nat n \<longleftrightarrow> m = n"
  by (metis read_show_nat)

text \<open>
  \<open>int(text)\<close>: surrounding whitespace, a sign, decimal digits, and single underscores
  between digits.
\<close>

definition read_int :: "string \<Rightarrow> int option" where
  "read_int s0 = (let s = strip s0;
      neg = (s \<noteq> [] \<and> hd s = CHR ''-'');
      ds = (if s \<noteq> [] \<and> hd s \<in> {CHR ''-'', CHR ''+''} then tl s else s);
      groups = split_char (CHR ''_'') ds
    in if list_all (\<lambda>w. w \<noteq> [] \<and> list_all is_digit w) groups
       then Some (if neg then - int (read_nat (concat groups)) else int (read_nat (concat groups)))
       else None)"

lemma not_digit_simps [simp]:
  "\<not> is_digit (CHR ''-'')" "\<not> is_digit (CHR ''\"'')" "\<not> is_digit (CHR '','')"
  "\<not> is_digit (CHR '']'')" "\<not> is_digit (CHR ''}'')" "\<not> is_digit (CHR ''['')"
  "\<not> is_digit (CHR ''{'')" "\<not> is_digit (CHR ''n'')" "\<not> is_digit (CHR ''t'')"
  "\<not> is_digit (CHR ''f'')" "\<not> is_digit (CHR ''+'')" "\<not> is_digit (CHR ''_'')"
  by (simp_all add: is_digit_def)

lemma digit_not_space: "is_digit c \<Longrightarrow> \<not> py_space c"
  by (auto simp: is_digit_def py_space_def)

lemma hd_show_nat [simp]: "is_digit (hd (show_nat n))"
  using show_nat_digits by (metis hd_in_set show_nat_ne)

lemma last_show_nat [simp]: "is_digit (last (show_nat n))"
  using show_nat_digits by (metis last_in_set show_nat_ne)

lemma show_int_ne [simp]: "show_int i \<noteq> []"
  by (simp add: show_int_def)

lemma strip_show_int [simp]: "strip (show_int i) = show_int i"
proof -
  have "\<not> py_space (hd (show_int i))"
    by (auto simp: show_int_def digit_not_space) (simp add: py_space_def)
  moreover have "\<not> py_space (last (show_int i))"
    by (auto simp: show_int_def digit_not_space)
  ultimately show ?thesis by (simp add: strip_def lstrip_id rstrip_id)
qed

lemma read_show_int [simp]: "read_int (show_int i) = Some i"
proof -
  have *: "hd (show_nat n) \<noteq> CHR ''-''" "hd (show_nat n) \<noteq> CHR ''+''" for n
    using hd_show_nat[of n] by (metis not_digit_simps)+
  have d: "list_all is_digit (show_nat n)" for n
    using show_nat_digits by (simp add: list_all_iff)
  have u: "split_char (CHR ''_'') (show_nat n) = [show_nat n]" for n
    using show_nat_digits[of n] not_digit_simps by (intro split_char_word) blast
  show ?thesis
    unfolding read_int_def strip_show_int Let_def
    by (auto simp: show_int_def * d u)
qed

lemma show_int_inj [simp]: "show_int i = show_int j \<longleftrightarrow> i = j"
  by (metis read_show_int option.inject)

section \<open>Canonical JSON text\<close>

definition hex_char :: "nat \<Rightarrow> char" where
  "hex_char n = (if n < 10 then char_of (48 + n) else char_of (87 + n))"

definition hex_val :: "char \<Rightarrow> nat" where
  "hex_val c = (let n = of_char c :: nat in if n < 58 then n - 48 else n - 87)"

text \<open>The flag is \<open>ensure_ascii\<close>: it decides whether characters above \<open>~\<close> are escaped.\<close>

definition printable :: "bool \<Rightarrow> char \<Rightarrow> bool" where
  "printable asc c \<longleftrightarrow> 32 \<le> (of_char c :: nat) \<and> (asc \<longrightarrow> (of_char c :: nat) \<le> 126)"

definition esc_char :: "bool \<Rightarrow> char \<Rightarrow> string" where
  "esc_char asc c =
     (if c = CHR ''\"'' then [CHR 0x5C, CHR ''\"'']
      else if c = CHR 0x5C then [CHR 0x5C, CHR 0x5C]
      else if c = CHR 0x0A then [CHR 0x5C, CHR ''n'']
      else if c = CHR 0x0D then [CHR 0x5C, CHR ''r'']
      else if c = CHR 0x09 then [CHR 0x5C, CHR ''t'']
      else if c = CHR 0x08 then [CHR 0x5C, CHR ''b'']
      else if c = CHR 0x0C then [CHR 0x5C, CHR ''f'']
      else if printable asc c then [c]
      else [CHR 0x5C, CHR ''u'', CHR ''0'', CHR ''0'',
            hex_char (of_char c div 16), hex_char (of_char c mod 16)])"

definition enc_str :: "bool \<Rightarrow> string \<Rightarrow> string" where
  "enc_str asc s = CHR ''\"'' # concat (map (esc_char asc) s) @ [CHR ''\"'']"

fun enc :: "bool \<Rightarrow> pyval \<Rightarrow> string"
  and enc_elems :: "bool \<Rightarrow> pyval list \<Rightarrow> string"
  and enc_items :: "bool \<Rightarrow> (string \<times> pyval) list \<Rightarrow> string" where
  "enc asc VNull = ''null''"
| "enc asc (VBool b) = (if b then ''true'' else ''false'')"
| "enc asc (VInt i) = show_int i"
| "enc asc (VStr s) = enc_str asc s"
| "enc asc (VList vs) = CHR ''['' # (case vs of [] \<Rightarrow> '']'' | v # ws \<Rightarrow> enc asc v @ enc_elems asc ws)"
| "enc asc (VDict d) = CHR ''{'' # (case d of [] \<Rightarrow> ''}''
     | (k, v) # e \<Rightarrow> enc_str asc k @ CHR '':'' # enc asc v @ enc_items asc e)"
| "enc_elems asc [] = '']''"
| "enc_elems asc (v # vs) = CHR '','' # enc asc v @ enc_elems asc vs"
| "enc_items asc [] = ''}''"
| "enc_items asc ((k, v) # d) = CHR '','' # enc_str asc k @ CHR '':'' # enc asc v @ enc_items asc d"

text \<open>\<open>sort_keys=True\<close> at every level, which is also what reading the text back gives.\<close>

fun json_norm :: "pyval \<Rightarrow> pyval" where
  "json_norm (VList vs) = VList (map json_norm vs)"
| "json_norm (VDict d) = VDict (sorted_items (map (\<lambda>(k, v). (k, json_norm v)) d))"
| "json_norm v = v"

definition json_dumps :: "pyval \<Rightarrow> string" where
  "json_dumps v = enc True (json_norm v)"

text \<open>The same with \<open>ensure_ascii=False\<close>, as \<open>verification_profile._canonical_json\<close> writes it.\<close>

definition json_dumps_utf8 :: "pyval \<Rightarrow> string" where
  "json_dumps_utf8 v = enc False (json_norm v)"

text \<open>The inverse of the escaping, used to show that a string's text determines it.\<close>

definition unesc :: "string \<Rightarrow> (char \<times> string) option" where
  "unesc s = (case s of
     [] \<Rightarrow> None
   | a # r \<Rightarrow> (if a \<noteq> CHR 0x5C then Some (a, r) else (case r of
       [] \<Rightarrow> None
     | b # r' \<Rightarrow>
        (if b = CHR ''n'' then Some (CHR 0x0A, r') else if b = CHR ''r'' then Some (CHR 0x0D, r')
         else if b = CHR ''t'' then Some (CHR 0x09, r') else if b = CHR ''b'' then Some (CHR 0x08, r')
         else if b = CHR ''f'' then Some (CHR 0x0C, r')
         else if b = CHR ''u''
           then Some (char_of (16 * hex_val (r' ! 2) + hex_val (r' ! 3)), drop 4 r')
         else Some (b, r')))))"

lemma hex_val_char [simp]: "n < 16 \<Longrightarrow> hex_val (hex_char n) = n"
  by (auto simp: hex_val_def hex_char_def Let_def)

lemma of_char_lt [simp]: "(of_char c :: nat) < 256"
  using of_char_mod_256[of c, where 'a = nat] by (metis mod_less_divisor zero_less_numeral)

lemma esc_unesc: "unesc (esc_char asc c @ r) = Some (c, r)"
proof -
  have *: "16 * ((of_char c :: nat) div 16) + of_char c mod 16 = of_char c" by simp
  have **: "(of_char c :: nat) div 16 < 16" using of_char_lt[of c] by linarith
  show ?thesis
    unfolding esc_char_def unesc_def by (auto simp: * **)
qed

lemma esc_not_quote [simp]:
  "esc_char asc c @ y \<noteq> CHR ''\"'' # r" "CHR ''\"'' # r \<noteq> esc_char asc c @ y"
  by (auto simp: esc_char_def split: if_splits)

lemma esc_body_inj:
  "concat (map (esc_char asc) s) @ CHR ''\"'' # r = concat (map (esc_char asc) t) @ CHR ''\"'' # u
    \<Longrightarrow> s = t \<and> r = u"
proof (induction s arbitrary: t)
  case Nil
  then show ?case by (cases t) auto
next
  case (Cons c s)
  show ?case
  proof (cases t)
    case Nil
    with Cons.prems show ?thesis by simp
  next
    case t: (Cons c' t')
    let ?x = "concat (map (esc_char asc) s) @ CHR ''\"'' # r"
    let ?y = "concat (map (esc_char asc) t') @ CHR ''\"'' # u"
    from Cons.prems t have "esc_char asc c @ ?x = esc_char asc c' @ ?y" by simp
    then have "unesc (esc_char asc c @ ?x) = unesc (esc_char asc c' @ ?y)" by (rule arg_cong)
    then have "c = c'" "?x = ?y" by (simp_all only: esc_unesc option.inject prod.inject)
    with Cons.IH t show ?thesis by blast
  qed
qed

lemma enc_str_inj: "enc_str asc s @ r = enc_str asc t @ u \<Longrightarrow> s = t \<and> r = u"
  using esc_body_inj[of asc s r t u] by (simp add: enc_str_def)

text \<open>What may follow a value inside a document.\<close>

definition delim :: "string \<Rightarrow> bool" where
  "delim r \<longleftrightarrow> r = [] \<or> hd r \<in> {CHR '','', CHR '']'', CHR ''}''}"

lemma delim_simps [simp]:
  "delim []" "delim (CHR '','' # r)" "delim (CHR '']'' # r)" "delim (CHR ''}'' # r)"
  by (simp_all add: delim_def)

lemma delim_tails [simp]: "delim (enc_elems asc vs @ r)" "delim (enc_items asc d @ r)"
  by (cases vs; simp) (cases d; auto)

lemma show_nat_prefix:
  assumes "show_nat m @ r = show_nat n @ u" "delim r" "delim u"
  shows "m = n \<and> r = u"
proof -
  have tw: "takeWhile is_digit (show_nat k @ t) = show_nat k" if "delim t" for k t
    using that show_nat_digits[of k] by (cases t) (auto simp: delim_def)
  from assms have "show_nat m = show_nat n" by (metis tw)
  with assms show ?thesis by simp
qed

lemma show_int_prefix:
  assumes "show_int i @ r = show_int j @ u" "delim r" "delim u"
  shows "i = j \<and> r = u"
proof -
  have h: "hd (show_nat n @ t) \<noteq> CHR ''-''" for n t
    using hd_show_nat[of n] by (metis hd_append2 not_digit_simps(1) show_nat_ne)
  show ?thesis
  proof (cases "i < 0"; cases "j < 0")
    assume "i < 0" "j < 0"
    with assms show ?thesis by (auto simp: show_int_def dest!: show_nat_prefix)
  next
    assume "\<not> i < 0" "\<not> j < 0"
    with assms show ?thesis by (auto simp: show_int_def dest!: show_nat_prefix)
  next
    assume "i < 0" "\<not> j < 0"
    with assms(1) have "CHR ''-'' # show_nat (nat (- i)) @ r = show_nat (nat j) @ u"
      by (simp add: show_int_def)
    then show ?thesis by (metis h list.sel(1))
  next
    assume "\<not> i < 0" "j < 0"
    with assms(1) have "CHR ''-'' # show_nat (nat (- j)) @ u = show_nat (nat i) @ r"
      by (simp add: show_int_def)
    then show ?thesis by (metis h list.sel(1))
  qed
qed

fun tag :: "pyval \<Rightarrow> char" where
  "tag VNull = CHR ''n''" | "tag (VBool b) = (if b then CHR ''t'' else CHR ''f'')"
| "tag (VInt i) = CHR ''0''" | "tag (VStr s) = CHR ''\"''"
| "tag (VList vs) = CHR ''[''" | "tag (VDict d) = CHR ''{''"

definition tag_of :: "char \<Rightarrow> char" where
  "tag_of c = (if is_digit c \<or> c = CHR ''-'' then CHR ''0'' else c)"

lemma enc_ne: "enc asc v \<noteq> []"
  by (cases v) (auto simp: enc_str_def)

lemma tag_of_enc: "tag_of (hd (enc asc v @ r)) = tag v"
proof (cases v)
  case (VInt i)
  then show ?thesis by (auto simp: tag_of_def show_int_def hd_append)
qed (auto simp: tag_of_def enc_str_def)

lemma enc_tag: "enc asc v @ r = enc asc w @ u \<Longrightarrow> tag v = tag w"
  by (metis tag_of_enc)

lemma enc_no_close: "hd (enc asc v @ r) \<noteq> CHR '']''"
proof
  assume "hd (enc asc v @ r) = CHR '']''"
  then have "tag v = tag_of (CHR '']'')" by (metis tag_of_enc)
  then show False by (cases v) (auto simp: tag_of_def split: if_splits)
qed

lemma enc_head_cases:
  "enc asc v @ r = enc asc w @ u \<Longrightarrow>
    (\<exists>i j. v = VInt i \<and> w = VInt j) \<or> (\<exists>s t. v = VStr s \<and> w = VStr t)
    \<or> (\<exists>vs ws. v = VList vs \<and> w = VList ws) \<or> (\<exists>d e. v = VDict d \<and> w = VDict e) \<or> v = w"
  by (drule enc_tag; cases v; cases w) (auto split: if_splits)

lemma enc_prefix:
  "enc asc v @ r = enc asc w @ u \<Longrightarrow> delim r \<Longrightarrow> delim u \<Longrightarrow> v = w \<and> r = u"
  "enc_elems asc vs @ r = enc_elems asc ws @ u \<Longrightarrow> vs = ws \<and> r = u"
  "enc_items asc d @ r = enc_items asc e @ u \<Longrightarrow> d = e \<and> r = u"
proof (induction asc v and asc vs and asc d arbitrary: w r u and ws r u and e r u rule: enc_enc_elems_enc_items.induct)
  case (5 asc vs)
  from enc_head_cases[OF 5(3)] obtain ws where w: "w = VList ws" by auto
  show ?case
  proof (cases vs)
    case Nil
    with 5(3) w show ?thesis using enc_no_close by (cases ws) (auto, metis list.sel(1))
  next
    case v: (Cons v vs')
    show ?thesis
    proof (cases ws)
      case Nil
      with 5(3) w v show ?thesis using enc_no_close[of asc v] by (auto, metis list.sel(1))
    next
      case (Cons w' ws')
      with 5(3) w v have "enc asc v @ enc_elems asc vs' @ r = enc asc w' @ enc_elems asc ws' @ u" by simp
      with 5(1)[OF v this] 5(2)[OF v] v w Cons show ?thesis by auto
    qed
  qed
next
  case (6 asc d)
  from enc_head_cases[OF 6(3)] obtain e where w: "w = VDict e" by auto
  show ?case
  proof (cases d)
    case Nil
    with 6(3) w show ?thesis by (cases e) (auto simp: enc_str_def)
  next
    case d: (Cons kv d')
    obtain k v where kv: "kv = (k, v)" by (cases kv)
    show ?thesis
    proof (cases e)
      case Nil
      with 6(3) w d kv show ?thesis by (auto simp: enc_str_def)
    next
      case (Cons lw e')
      obtain l w' where lw: "lw = (l, w')" by (cases lw)
      from 6(3) w d kv lw Cons
      have "enc_str asc k @ CHR '':'' # enc asc v @ enc_items asc d' @ r
          = enc_str asc l @ CHR '':'' # enc asc w' @ enc_items asc e' @ u" by simp
      from enc_str_inj[OF this] have "k = l" and
        eq: "enc asc v @ enc_items asc d' @ r = enc asc w' @ enc_items asc e' @ u" by auto
      with 6(1)[OF d kv[symmetric] eq] 6(2)[OF d kv[symmetric]] d kv w lw Cons show ?thesis by auto
    qed
  qed
next
  case (8 asc v vs)
  from 8(3) obtain w' ws' where ws: "ws = w' # ws'" by (cases ws) auto
  with 8(3) have eq: "enc asc v @ enc_elems asc vs @ r = enc asc w' @ enc_elems asc ws' @ u" by simp
  from 8(1)[OF eq] 8(2) ws show ?case by auto
next
  case (10 asc k v d)
  from 10(3) obtain l w' e' where e: "e = (l, w') # e'" by (cases e) auto
  with 10(3) have "enc_str asc k @ CHR '':'' # enc asc v @ enc_items asc d @ r
      = enc_str asc l @ CHR '':'' # enc asc w' @ enc_items asc e' @ u" by simp
  from enc_str_inj[OF this] have "k = l" and
    eq: "enc asc v @ enc_items asc d @ r = enc asc w' @ enc_items asc e' @ u" by auto
  from 10(1)[OF eq] 10(2) e \<open>k = l\<close> show ?case by auto
next
  case (1 asc w r u) then show ?case using enc_head_cases[of asc VNull r w u] by auto
next
  case (2 asc b w r u) then show ?case using enc_head_cases[of asc "VBool b" r w u] by auto
next
  case (3 asc i w r u)
  from enc_head_cases[OF 3(1)] obtain j where "w = VInt j" by auto
  with 3 show ?case by (auto dest: show_int_prefix)
next
  case (4 asc s w r u)
  from enc_head_cases[OF 4(1)] obtain t where "w = VStr t" by auto
  with 4 show ?case by (auto dest: enc_str_inj)
next
  case (7 asc ws r u) then show ?case by (cases ws) auto
next
  case (9 asc e r u) then show ?case by (cases e) auto
qed

lemma enc_inj [simp]: "enc asc v = enc asc w \<longleftrightarrow> v = w"
  using enc_prefix(1)[of asc v "[]" w "[]"] by auto

lemma json_dumps_inj: "json_dumps v = json_dumps w \<longleftrightarrow> json_norm v = json_norm w"
  by (simp add: json_dumps_def)

lemma json_dumps_utf8_inj: "json_dumps_utf8 v = json_dumps_utf8 w \<longleftrightarrow> json_norm v = json_norm w"
  by (simp add: json_dumps_utf8_def)

lemma json_norm_simps [simp]:
  "json_norm (VList vs) = VList (map json_norm vs)"
  "json_norm VNull = VNull" "json_norm (VBool b) = VBool b" "json_norm (VInt i) = VInt i"
  "json_norm (VStr s) = VStr s"
  by simp_all

lemma dget_norm:
  assumes "distinct (keys d)"
  shows "dget (items_of (json_norm (VDict d))) k = json_norm (dget d k)"
proof -
  have "distinct (keys (map (\<lambda>(k, v). (k, json_norm v)) d))"
    using assms by (simp only: keys_map_values)
  from map_of_sorted_items[OF this] show ?thesis
    by (simp add: dget_def map_of_map split: option.split)
qed

text \<open>The digest of a value: SHA-256, a parameter \<open>sha\<close>, of its canonical text.\<close>

definition digest :: "(string \<Rightarrow> string) \<Rightarrow> pyval \<Rightarrow> string" where
  "digest sha v = sha (json_dumps v)"

lemma digest_inj: "inj sha \<Longrightarrow> digest sha v = digest sha w \<longleftrightarrow> json_norm v = json_norm w"
  by (simp add: digest_def inj_eq json_dumps_inj)

section \<open>Conversions\<close>

text \<open>The exceptions the conversions and the policy code raise.\<close>

datatype py_exn = ValueError | TypeError | KeyError | AttributeError | OSError | RuntimeError

type_synonym 'a py = "(py_exn, 'a) result"

fun py_int :: "pyval \<Rightarrow> int py" where
  "py_int (VInt i) = Inr i"
| "py_int (VBool b) = Inr (if b then 1 else 0)"
| "py_int (VStr s) = of_option ValueError (read_int s)"
| "py_int _ = Inl TypeError"

text \<open>\<open>try: int(v) except (TypeError, ValueError): raise ValueError\<close>.\<close>

definition int_or_value_error :: "pyval \<Rightarrow> int py" where
  "int_or_value_error v = (case py_int v of Inl _ \<Rightarrow> Inl ValueError | Inr i \<Rightarrow> Inr i)"

definition repr_char :: "char \<Rightarrow> char \<Rightarrow> string" where
  "repr_char q c =
     (if c = q \<or> c = CHR 0x5C then [CHR 0x5C, c]
      else if c = CHR 0x0A then [CHR 0x5C, CHR ''n'']
      else if c = CHR 0x0D then [CHR 0x5C, CHR ''r'']
      else if c = CHR 0x09 then [CHR 0x5C, CHR ''t'']
      else if printable True c then [c]
      else [CHR 0x5C, CHR ''x'', hex_char (of_char c div 16), hex_char (of_char c mod 16)])"

definition repr_str :: "string \<Rightarrow> string" where
  "repr_str s = (let q = (if CHR 0x27 \<in> set s \<and> CHR ''\"'' \<notin> set s then CHR ''\"'' else CHR 0x27)
     in q # concat (map (repr_char q) s) @ [q])"

fun py_repr :: "pyval \<Rightarrow> string"
  and repr_elems :: "pyval list \<Rightarrow> string"
  and repr_items :: "(string \<times> pyval) list \<Rightarrow> string" where
  "py_repr VNull = ''None''"
| "py_repr (VBool b) = (if b then ''True'' else ''False'')"
| "py_repr (VInt i) = show_int i"
| "py_repr (VStr s) = repr_str s"
| "py_repr (VList vs) = ''['' @ (case vs of [] \<Rightarrow> '']'' | v # ws \<Rightarrow> py_repr v @ repr_elems ws)"
| "py_repr (VDict d) = ''{'' @ (case d of [] \<Rightarrow> ''}''
     | (k, v) # e \<Rightarrow> repr_str k @ '': '' @ py_repr v @ repr_items e)"
| "repr_elems [] = '']''"
| "repr_elems (v # vs) = '', '' @ py_repr v @ repr_elems vs"
| "repr_items [] = ''}''"
| "repr_items ((k, v) # d) = '', '' @ repr_str k @ '': '' @ py_repr v @ repr_items d"

text \<open>\<open>str(v)\<close>.\<close>

definition py_str :: "pyval \<Rightarrow> string" where
  "py_str v = (case v of VStr s \<Rightarrow> s | _ \<Rightarrow> py_repr v)"

text \<open>\<open>str(v or "").strip()\<close>, the form in which the agent reads almost every text field.\<close>

definition text_or_empty :: "pyval \<Rightarrow> string" where
  "text_or_empty v = strip (py_str (py_or v (VStr [])))"

lemma py_str_VStr [simp]: "py_str (VStr s) = s"
  by (simp add: py_str_def)

lemma text_or_empty_VStr [simp]: "text_or_empty (VStr s) = strip s"
  by (simp add: text_or_empty_def py_or_def)

lemma text_or_empty_VNull [simp]: "text_or_empty VNull = []"
  by (simp add: text_or_empty_def py_or_def strip_def lstrip_def rstrip_def)

lemma strip_text_or_empty [simp]: "strip (text_or_empty v) = text_or_empty v"
  by (simp add: text_or_empty_def)

lemma int_or_value_error_iff [simp]:
  "int_or_value_error v = Inr i \<longleftrightarrow> py_int v = Inr i"
  "int_or_value_error v = Inl e \<longleftrightarrow> (\<exists>e'. py_int v = Inl e') \<and> e = ValueError"
  by (auto simp: int_or_value_error_def split: sum.splits)

end
