(* ===== verification/Paths.thy ===== *)
theory Paths
  imports Prelude
begin

text \<open>
  The part of \<open>pathlib.PurePosixPath\<close> the agent's policy checks use: parsing, printing,
  joining, \<open>parent\<close>, \<open>is_relative_to\<close> and the overlap test of \<open>policy.py\<close>.
  \<open>Path.resolve\<close> asks the operating system and is a parameter of the definitions that
  call it: a function to \<open>path option\<close>, where \<open>None\<close> is the \<open>OSError\<close> or
  \<open>RuntimeError\<close> it may raise. Paths are POSIX paths (parts compared exactly); the
  special anchor of a path that starts with exactly two slashes is not modelled.
\<close>

datatype path = Path (is_absolute: bool) (parts: "string list")

type_synonym resolver = "path \<Rightarrow> path option"

definition plain_part :: "string \<Rightarrow> bool" where
  "plain_part w \<longleftrightarrow> w \<noteq> [] \<and> w \<noteq> ''.'' \<and> CHR ''/'' \<notin> set w"

definition wf_path :: "path \<Rightarrow> bool" where
  "wf_path p \<longleftrightarrow> list_all plain_part (parts p)"

definition path_of_text :: "string \<Rightarrow> path" where
  "path_of_text s = Path (startswith s ''/'')
     (filter (\<lambda>w. w \<noteq> [] \<and> w \<noteq> ''.'') (split_char (CHR ''/'') s))"

definition path_text :: "path \<Rightarrow> string" where
  "path_text p = (if is_absolute p then CHR ''/'' # join_char (CHR ''/'') (parts p)
     else if parts p = [] then ''.'' else join_char (CHR ''/'') (parts p))"

text \<open>\<open>p / q\<close>: an absolute right operand replaces the left one.\<close>

definition path_join :: "path \<Rightarrow> path \<Rightarrow> path" where
  "path_join p q = (if is_absolute q then q else Path (is_absolute p) (parts p @ parts q))"

definition path_child :: "path \<Rightarrow> string \<Rightarrow> path" where
  "path_child p name = path_join p (path_of_text name)"

definition path_parent :: "path \<Rightarrow> path" where
  "path_parent p = Path (is_absolute p) (butlast (parts p))"

definition path_name :: "path \<Rightarrow> string" where
  "path_name p = (if parts p = [] then [] else last (parts p))"

definition is_relative_to :: "path \<Rightarrow> path \<Rightarrow> bool" where
  "is_relative_to p q \<longleftrightarrow> is_absolute p = is_absolute q
     \<and> take (length (parts q)) (parts p) = parts q"

definition paths_overlap :: "path \<Rightarrow> path \<Rightarrow> bool" where
  "paths_overlap l r \<longleftrightarrow> l = r \<or> is_relative_to l r \<or> is_relative_to r l"

section \<open>Laws\<close>

lemma is_relative_to_iff:
  "is_relative_to p q \<longleftrightarrow> is_absolute p = is_absolute q \<and> (\<exists>r. parts p = parts q @ r)"
proof -
  have "take (length b) a = b \<longleftrightarrow> (\<exists>r. a = b @ r)" for a b :: "string list"
    by (metis append_eq_conv_conj append_take_drop_id)
  then show ?thesis by (simp add: is_relative_to_def)
qed

lemma is_relative_to_refl [simp]: "is_relative_to p p"
  by (simp add: is_relative_to_def)

lemma is_relative_to_trans [trans]:
  "is_relative_to p q \<Longrightarrow> is_relative_to q r \<Longrightarrow> is_relative_to p r"
  by (auto simp: is_relative_to_iff)

lemma is_relative_to_antisym: "is_relative_to p q \<Longrightarrow> is_relative_to q p \<Longrightarrow> p = q"
  by (cases p; cases q) (auto simp: is_relative_to_iff)

lemma overlap_refl [simp]: "paths_overlap p p"
  by (simp add: paths_overlap_def)

lemma overlap_sym: "paths_overlap p q = paths_overlap q p"
  by (auto simp: paths_overlap_def)

lemma overlap_iff: "paths_overlap p q \<longleftrightarrow> is_relative_to p q \<or> is_relative_to q p"
  by (auto simp: paths_overlap_def)

text \<open>Two paths with a common descendant overlap: one of them contains the other.\<close>

lemma common_descendant_overlap:
  "is_relative_to x p \<Longrightarrow> is_relative_to x q \<Longrightarrow> paths_overlap p q"
  unfolding overlap_iff is_relative_to_iff
  by (auto simp: append_eq_append_conv2; metis)

lemma not_overlap_below:
  "\<not> paths_overlap p q \<Longrightarrow> is_relative_to x p \<Longrightarrow> \<not> is_relative_to x q"
  using common_descendant_overlap by blast

lemma not_overlap_children:
  "\<not> paths_overlap p q \<Longrightarrow> is_relative_to x p \<Longrightarrow> is_relative_to y q \<Longrightarrow> \<not> paths_overlap x y"
  by (metis is_relative_to_trans not_overlap_below overlap_iff overlap_sym)

lemma relative_to_parent [simp]: "is_relative_to p (path_parent p)"
  by (cases "parts p" rule: rev_cases) (auto simp: path_parent_def is_relative_to_def)

lemma relative_to_join [simp]: "\<not> is_absolute q \<Longrightarrow> is_relative_to (path_join p q) p"
  by (simp add: path_join_def is_relative_to_def)

lemma path_text_inverse: "wf_path p \<Longrightarrow> path_of_text (path_text p) = p"
proof -
  assume wf: "wf_path p"
  then have plain: "\<forall>w \<in> set (parts p). CHR ''/'' \<notin> set w"
    and keep: "filter (\<lambda>w. w \<noteq> [] \<and> w \<noteq> ''.'') (parts p) = parts p"
    by (auto simp: wf_path_def plain_part_def list_all_iff intro: filter_True)
  have split: "split_char (CHR ''/'') (join_char (CHR ''/'') (parts p)) = parts p"
    if "parts p \<noteq> []" using split_join_char[OF that plain] .
  have hd: "\<not> startswith (join_char (CHR ''/'') (parts p)) ''/''" if ne: "parts p \<noteq> []"
  proof -
    obtain a as where ps: "parts p = a # as" using ne by (cases "parts p") auto
    with wf have "a \<noteq> []" "hd a \<noteq> CHR ''/''"
      by (auto simp: wf_path_def plain_part_def) (metis hd_in_set)
    with ps show ?thesis by (cases as; cases a) (auto simp: startswith_def)
  qed
  show ?thesis
  proof (cases "parts p = []")
    case True
    then show ?thesis
      by (cases p) (auto simp: path_of_text_def path_text_def startswith_def)
  next
    case False
    with split keep hd show ?thesis
      by (cases p) (auto simp: path_of_text_def path_text_def startswith_def)
  qed
qed

lemma path_text_inj: "wf_path p \<Longrightarrow> wf_path q \<Longrightarrow> path_text p = path_text q \<longleftrightarrow> p = q"
  by (metis path_text_inverse)

lemma wf_path_of_text [simp]: "wf_path (path_of_text s)"
proof -
  have "CHR ''/'' \<notin> set w" if "w \<in> set (split_char (CHR ''/'') s)" for w
    using that by (induction s arbitrary: w) (auto split: list.splits if_splits)
  then show ?thesis by (auto simp: wf_path_def path_of_text_def plain_part_def list_all_iff)
qed

lemma path_of_plain [simp]: "plain_part w \<Longrightarrow> path_of_text w = Path False [w]"
  by (auto simp: path_of_text_def plain_part_def split_char_word startswith_def)
    (metis list.set_intros(1) take_Suc_Cons take0 list.sel(1) neq_Nil_conv)

lemma path_child_plain [simp]:
  "plain_part w \<Longrightarrow> path_child p w = Path (is_absolute p) (parts p @ [w])"
  by (simp add: path_child_def path_join_def)

end
