(* ===== verification/Verification.thy ===== *)
theory Verification
  imports Json Paths
begin

text \<open>
  \<open>verification_profile.py\<close>: the bounded Node/npm verification profile and the
  immutable inputs (source snapshot, dependency capsule) of a scoped verification run.
  Mappings are \<open>VDict\<close> values; every rejection of the module is \<open>ValueError\<close>.
  The hash \<open>sha\<close> is a parameter.
\<close>

section \<open>Bounded identifiers, digests and relative paths\<close>

definition is_lower_hex :: "char \<Rightarrow> bool" where
  "is_lower_hex c \<longleftrightarrow> is_digit c \<or> (97 \<le> (of_char c :: nat) \<and> (of_char c :: nat) \<le> 102)"

definition is_upper :: "char \<Rightarrow> bool" where
  "is_upper c \<longleftrightarrow> 65 \<le> (of_char c :: nat) \<and> (of_char c :: nat) \<le> 90"

definition is_alpha :: "char \<Rightarrow> bool" where
  "is_alpha c \<longleftrightarrow> is_upper c \<or> (97 \<le> (of_char c :: nat) \<and> (of_char c :: nat) \<le> 122)"

definition is_alnum :: "char \<Rightarrow> bool" where
  "is_alnum c \<longleftrightarrow> is_alpha c \<or> is_digit c"

definition logical_id :: "string \<Rightarrow> bool" where
  "logical_id s \<longleftrightarrow> s \<noteq> [] \<and> is_alnum (hd s) \<and> length (tl s) \<le> 63
     \<and> list_all (\<lambda>c. is_alnum c \<or> c \<in> set ''._-'') (tl s)"

definition validate_profile_id :: "pyval \<Rightarrow> string py" where
  "validate_profile_id v = (let text = text_or_empty v in
     if logical_id text then Inr text else Inl ValueError)"

definition validate_logical_id :: "pyval \<Rightarrow> string py" where
  "validate_logical_id v = (let text = text_or_empty v in
     if logical_id text then Inr text else Inl ValueError)"

definition sha256_text :: "string \<Rightarrow> bool" where
  "sha256_text s \<longleftrightarrow> length s = 64 \<and> list_all is_lower_hex s"

definition normalize_sha256 :: "pyval \<Rightarrow> string py" where
  "normalize_sha256 v = (let text = casefold (text_or_empty v) in
     if sha256_text text then Inr text else Inl ValueError)"

definition git_sha :: "string \<Rightarrow> bool" where
  "git_sha s \<longleftrightarrow> length s = 40 \<and> list_all (\<lambda>c. is_lower_hex (lower_char c)) s"

definition windows_drive :: "string \<Rightarrow> bool" where
  "windows_drive s \<longleftrightarrow> (case s of c # d # _ \<Rightarrow> is_alpha c \<and> d = CHR '':'' | _ \<Rightarrow> False)"

definition normalize_relative_path :: "int \<Rightarrow> pyval \<Rightarrow> string py" where
  "normalize_relative_path max_chars v =
     (let text = replace_char (CHR 0x5C) (CHR ''/'') (text_or_empty v) in
      if text = [] \<or> int (length text) > max_chars \<or> CHR 0x00 \<in> set text then Inl ValueError
      else if startswith text ''/'' \<or> windows_drive text then Inl ValueError
      else (let ps = split_char (CHR ''/'') text in
        if list_ex (\<lambda>w. w \<in> {[], ''.'', ''..''}) ps then Inl ValueError
        else Inr (join_char (CHR ''/'') ps)))"

text \<open>What an accepted relative path looks like.\<close>

definition safe_relative :: "string \<Rightarrow> bool" where
  "safe_relative s \<longleftrightarrow> s \<noteq> [] \<and> \<not> windows_drive s
     \<and> list_all (\<lambda>w. w \<notin> {[], ''.'', ''..''}) (split_char (CHR ''/'') s)"

section \<open>Resource limits\<close>

record resource_limits =
  source_max_total_bytes :: int
  source_max_files :: int
  dependency_max_total_bytes :: int
  dependency_max_files :: int
  max_single_file_bytes :: int
  max_relative_path_chars :: int

definition default_limits :: resource_limits where
  "default_limits = \<lparr>source_max_total_bytes = 536870912, source_max_files = 50000,
     dependency_max_total_bytes = 1073741824, dependency_max_files = 50000,
     max_single_file_bytes = 268435456, max_relative_path_chars = 512\<rparr>"

definition hard_ceilings :: resource_limits where
  "hard_ceilings = \<lparr>source_max_total_bytes = 2147483648, source_max_files = 200000,
     dependency_max_total_bytes = 4294967296, dependency_max_files = 200000,
     max_single_file_bytes = 1073741824, max_relative_path_chars = 1024\<rparr>"

definition limit_fields :: "string list" where
  "limit_fields = [''source_max_total_bytes'', ''source_max_files'', ''dependency_max_total_bytes'',
     ''dependency_max_files'', ''max_single_file_bytes'', ''max_relative_path_chars'']"

definition parse_limit :: "(string \<times> pyval) list \<Rightarrow> string \<Rightarrow> (resource_limits \<Rightarrow> int) \<Rightarrow> int py" where
  "parse_limit d name field =
     rbind (int_or_value_error (dget_default d name (VInt (field default_limits)))) (\<lambda>parsed.
       if parsed \<le> 0 then Inl ValueError
       else if parsed > field hard_ceilings then Inl ValueError
       else Inr parsed)"

definition limits_from_mapping :: "pyval \<Rightarrow> resource_limits py" where
  "limits_from_mapping v = (case v of
     VNull \<Rightarrow> Inr default_limits
   | VDict d \<Rightarrow>
      (if \<not> set (keys d) \<subseteq> set limit_fields then Inl ValueError else
       rbind (parse_limit d ''source_max_total_bytes'' source_max_total_bytes) (\<lambda>a.
       rbind (parse_limit d ''source_max_files'' source_max_files) (\<lambda>b.
       rbind (parse_limit d ''dependency_max_total_bytes'' dependency_max_total_bytes) (\<lambda>c.
       rbind (parse_limit d ''dependency_max_files'' dependency_max_files) (\<lambda>e.
       rbind (parse_limit d ''max_single_file_bytes'' max_single_file_bytes) (\<lambda>f.
       rbind (parse_limit d ''max_relative_path_chars'' max_relative_path_chars) (\<lambda>g.
         Inr \<lparr>source_max_total_bytes = a, source_max_files = b, dependency_max_total_bytes = c,
           dependency_max_files = e, max_single_file_bytes = f, max_relative_path_chars = g\<rparr>)))))))
   | _ \<Rightarrow> Inl ValueError)"

definition limits_payload :: "resource_limits \<Rightarrow> pyval" where
  "limits_payload l = VDict [(''source_max_total_bytes'', VInt (source_max_total_bytes l)),
     (''source_max_files'', VInt (source_max_files l)),
     (''dependency_max_total_bytes'', VInt (dependency_max_total_bytes l)),
     (''dependency_max_files'', VInt (dependency_max_files l)),
     (''max_single_file_bytes'', VInt (max_single_file_bytes l)),
     (''max_relative_path_chars'', VInt (max_relative_path_chars l))]"

definition verification_digest :: "(string \<Rightarrow> string) \<Rightarrow> pyval \<Rightarrow> string" where
  "verification_digest sha v = sha (json_dumps_utf8 v)"

definition limits_digest :: "(string \<Rightarrow> string) \<Rightarrow> resource_limits \<Rightarrow> string" where
  "limits_digest sha l = verification_digest sha (limits_payload l)"

text \<open>Every limit is positive and below its hard ceiling.\<close>

definition limits_bounded :: "resource_limits \<Rightarrow> bool" where
  "limits_bounded l \<longleftrightarrow>
     (\<forall>f \<in> {source_max_total_bytes, source_max_files, dependency_max_total_bytes,
        dependency_max_files, max_single_file_bytes, max_relative_path_chars}.
        0 < f l \<and> f l \<le> f hard_ceilings)"

lemma parse_limit_bounded:
  "parse_limit d name f = Inr n \<Longrightarrow> 0 < n \<and> n \<le> f hard_ceilings"
  by (auto simp: parse_limit_def result_simps split: if_splits)

lemma limits_from_mapping_bounded: "limits_from_mapping v = Inr l \<Longrightarrow> limits_bounded l"
  by (auto simp: limits_from_mapping_def limits_bounded_def result_simps
      default_limits_def hard_ceilings_def
      dest!: parse_limit_bounded split: pyval.splits if_splits)

lemma normalize_relative_path_safe:
  assumes "normalize_relative_path n v = Inr s"
  shows "safe_relative s" "int (length s) \<le> n" "CHR 0x5C \<notin> set s"
proof -
  let ?t = "replace_char (CHR 0x5C) (CHR ''/'') (text_or_empty v)"
  have s: "s = ?t" and "?t \<noteq> []" "\<not> windows_drive ?t" "int (length ?t) \<le> n"
    "\<not> list_ex (\<lambda>w. w \<in> {[], ''.'', ''..''}) (split_char (CHR ''/'') ?t)"
    using assms by (auto simp: normalize_relative_path_def Let_def split: if_splits)
  then show "safe_relative s" "int (length s) \<le> n"
    by (auto simp: safe_relative_def list_ex_iff list_all_iff)
  show "CHR 0x5C \<notin> set s" by (auto simp: s replace_char_def)
qed

end
