(* ===== verification/Identity.thy ===== *)
theory Identity
  imports Json Paths
begin

text \<open>
  The two identities a mutation scope is bound to, from \<open>mutation_placement.py\<close>:
  \<open>RepositoryIdentity\<close> with its canonical URL form and \<open>SemanticIdentity\<close>. The part of
  \<open>urllib.parse.urlsplit\<close> the code reads (\<open>hostname\<close> and \<open>port\<close>) is modelled here; the
  address inside the brackets of an IPv6 literal is not validated.
\<close>

section \<open>Searching text\<close>

text \<open>\<open>s.partition(c)\<close> and \<open>s.rpartition(c)[2]\<close> for one character.\<close>

definition before_char :: "char \<Rightarrow> string \<Rightarrow> string" where
  "before_char c s = takeWhile (\<lambda>x. x \<noteq> c) s"

definition after_char :: "char \<Rightarrow> string \<Rightarrow> string" where
  "after_char c s = tl (dropWhile (\<lambda>x. x \<noteq> c) s)"

definition after_last_char :: "char \<Rightarrow> string \<Rightarrow> string" where
  "after_last_char c s = rev (takeWhile (\<lambda>x. x \<noteq> c) (rev s))"

fun contains :: "string \<Rightarrow> string \<Rightarrow> bool" where
  "contains s [] = True"
| "contains [] (p # ps) = False"
| "contains (c # cs) p = (startswith (c # cs) p \<or> contains cs p)"

section \<open>The network location of a URL\<close>

definition scheme_char :: "char \<Rightarrow> bool" where
  "scheme_char c \<longleftrightarrow> (let n = of_char (lower_char c) :: nat in (97 \<le> n \<and> n \<le> 122))
     \<or> is_digit c \<or> c \<in> set ''+-.''"

definition drop_scheme :: "string \<Rightarrow> string" where
  "drop_scheme url = (let sch = before_char (CHR '':'') url in
     if CHR '':'' \<in> set url \<and> sch \<noteq> [] \<and> list_all scheme_char sch
        \<and> \<not> is_digit (hd sch) \<and> hd sch \<notin> set ''+-.''
     then after_char (CHR '':'') url else url)"

definition clean_url :: "string \<Rightarrow> string" where
  "clean_url s = filter (\<lambda>c. c \<notin> {CHR 0x09, CHR 0x0A, CHR 0x0D})
     (dropWhile (\<lambda>c. (of_char c :: nat) \<le> 32) s)"

definition netloc :: "string \<Rightarrow> string py" where
  "netloc url0 = (let url = drop_scheme (clean_url url0) in
     if startswith url ''//'' then
       (let loc = takeWhile (\<lambda>c. c \<notin> {CHR ''/'', CHR ''?'', CHR ''#''}) (drop 2 url) in
        if (CHR ''['' \<in> set loc) \<noteq> (CHR '']'' \<in> set loc) then Inl ValueError else Inr loc)
     else Inr [])"

definition hostinfo :: "string \<Rightarrow> string \<times> string" where
  "hostinfo loc = (let h = after_last_char (CHR ''@'') loc in
     if CHR ''['' \<in> set h then
       (let b = after_char (CHR ''['') h in
         (before_char (CHR '']'') b, after_char (CHR '':'') (after_char (CHR '']'') b)))
     else (before_char (CHR '':'') h, after_char (CHR '':'') h))"

definition url_hostname :: "string \<Rightarrow> string" where
  "url_hostname loc = (let h = fst (hostinfo loc) in
     casefold (before_char (CHR ''%'') h) @ dropWhile (\<lambda>c. c \<noteq> CHR ''%'') h)"

definition url_port :: "string \<Rightarrow> nat option py" where
  "url_port loc = (let p = snd (hostinfo loc) in
     if p = [] then Inr None
     else if list_all is_digit p \<and> read_nat p \<le> 65535 then Inr (Some (read_nat p))
     else Inl ValueError)"

section \<open>Repository identity\<close>

record repository_identity =
  rid_vcs :: string
  rid_authority :: string
  rid_path :: string

definition drop_git_suffix :: "string \<Rightarrow> string" where
  "drop_git_suffix p = (if endswith (casefold p) ''.git'' then take (length p - 4) p else p)"

definition identity_path :: "string \<Rightarrow> string" where
  "identity_path p = drop_git_suffix
     (strip_char (CHR ''/'') (replace_char (CHR 0x5C) (CHR ''/'') (strip p)))"

definition path_segments :: "string \<Rightarrow> string list" where
  "path_segments p = filter (\<lambda>w. w \<noteq> []) (split_char (CHR ''/'') p)"

definition authority_text :: "string \<Rightarrow> nat option \<Rightarrow> string" where
  "authority_text hostname port =
     (let h = casefold hostname; host = (if CHR '':'' \<in> set h then ''['' @ h @ '']'' else h)
      in (case port of None \<Rightarrow> host | Some n \<Rightarrow> host @ CHR '':'' # show_nat n))"

definition repository_canonical :: "repository_identity \<Rightarrow> string py" where
  "repository_canonical r =
     (let vcs = casefold (strip (rid_vcs r));
          raw = replace_char (CHR 0x5C) (CHR ''/'') (strip (rid_authority r));
          path = identity_path (rid_path r)
      in if vcs = [] \<or> raw = [] \<or> path = [] then Inl ValueError else
         rbind (netloc (if contains raw ''://'' then raw else ''//'' @ raw)) (\<lambda>loc.
         if url_hostname loc = [] then Inl ValueError else
         rbind (url_port loc) (\<lambda>port.
         let segs = path_segments path in
         if list_ex (\<lambda>w. w \<in> {''.'', ''..''}) segs then Inl ValueError
         else if segs = [] then Inl ValueError
         else Inr (vcs @ ''://'' @ authority_text (url_hostname loc) port
                   @ CHR ''/'' # join_char (CHR ''/'') segs))))"

section \<open>Semantic identity\<close>

record semantic_identity =
  project_id :: string
  task_id :: string
  run_id :: string
  attempt_id :: string
  slice_id :: "string option"

definition slice_text :: "string option \<Rightarrow> string" where
  "slice_text s = (case s of None \<Rightarrow> [] | Some x \<Rightarrow> strip x)"

definition semantic_canonical :: "semantic_identity \<Rightarrow> string list py" where
  "semantic_canonical m =
     (let vs = [strip (project_id m), strip (task_id m), strip (run_id m), strip (attempt_id m)]
      in if list_ex (\<lambda>w. w = []) vs then Inl ValueError
         else Inr (vs @ [slice_text (slice_id m)]))"

lemma semantic_canonical_fields:
  "semantic_canonical m = Inr vs \<Longrightarrow>
     vs = [strip (project_id m), strip (task_id m), strip (run_id m), strip (attempt_id m),
           slice_text (slice_id m)]"
  by (auto simp: semantic_canonical_def Let_def split: if_splits)

lemma semantic_canonical_error:
  "semantic_canonical m = Inl e \<longleftrightarrow> e = ValueError \<and>
     (strip (project_id m) = [] \<or> strip (task_id m) = [] \<or> strip (run_id m) = []
      \<or> strip (attempt_id m) = [])"
  by (auto simp: semantic_canonical_def Let_def)

lemma repository_canonical_error: "repository_canonical r = Inl e \<Longrightarrow> e = ValueError"
  by (auto simp: repository_canonical_def netloc_def url_port_def Let_def result_simps
      split: if_splits)

text \<open>No segment of an accepted repository path is empty, \<open>.\<close> or \<open>..\<close>.\<close>

lemma repository_canonical_shape:
  assumes "repository_canonical r = Inr c"
  obtains host port segs where
    "c = casefold (strip (rid_vcs r)) @ ''://'' @ authority_text host port
         @ CHR ''/'' # join_char (CHR ''/'') segs"
    "segs \<noteq> []" "\<forall>w \<in> set segs. w \<notin> {[], ''.'', ''..''} \<and> CHR ''/'' \<notin> set w"
    "host \<noteq> []" "casefold (strip (rid_vcs r)) \<noteq> []"
proof -
  have plain: "CHR ''/'' \<notin> set w" if "w \<in> set (split_char (CHR ''/'') s)" for w s
    using that by (induction s arbitrary: w) (auto split: list.splits if_splits)
  from assms show ?thesis
    by (auto simp: repository_canonical_def Let_def result_simps list_ex_iff path_segments_def
        split: if_splits intro!: that dest: plain)
qed

end
