(* ===== verification/MutationPolicy.thy ===== *)
theory MutationPolicy
  imports Verification Identity
begin

text \<open>
  \<open>MutationExecutionPolicy\<close> of \<open>policy.py\<close>: the provider-owned mutation policy and the
  functions that parse it from the \<open>mutation_execution\<close> block of the configuration
  (host roots, the canonical repository inventory, the verification profiles). The
  operating system enters through \<open>os\<close>: \<open>Path.resolve(strict=False)\<close> and
  \<open>Path.expanduser\<close>, each \<open>None\<close> where the call raises.
\<close>

record os =
  os_resolve :: resolver
  os_expanduser :: resolver

section \<open>Host roots\<close>

definition canonical_host_root :: "os \<Rightarrow> pyval \<Rightarrow> path py" where
  "canonical_host_root sys v =
     (let text = text_or_empty v in
      if text = [] then Inl ValueError else
      rbind (of_option RuntimeError (os_expanduser sys (path_of_text text))) (\<lambda>root.
      if \<not> is_absolute root then Inl ValueError
      else of_option ValueError (os_resolve sys root)))"

definition path_key :: "path \<Rightarrow> string" where
  "path_key p = casefold (path_text p)"

definition canonical_host_roots :: "os \<Rightarrow> pyval \<Rightarrow> path list py" where
  "canonical_host_roots sys v = (case v of
     VNull \<Rightarrow> Inr []
   | VList vs \<Rightarrow> rbind (rmap (canonical_host_root sys) vs) (\<lambda>roots.
       Inr (sort_key path_key (remdups roots)))
   | _ \<Rightarrow> Inl ValueError)"

section \<open>Canonical repository inventory\<close>

record canonical_repository =
  cr_root :: path
  cr_identity :: string
  cr_branch :: "string option"
  cr_provenance :: string

definition canonical_repository_identity :: "pyval \<Rightarrow> string py" where
  "canonical_repository_identity v = (case v of
     VDict d \<Rightarrow> repository_canonical \<lparr>rid_vcs = py_str (py_or (dget d ''vcs'') (VStr [])),
        rid_authority = py_str (py_or (dget d ''authority'') (VStr [])),
        rid_path = py_str (py_or (dget d ''path'') (VStr []))\<rparr>
   | _ \<Rightarrow> Inl ValueError)"

record inventory_state =
  inv_specs :: "canonical_repository list"
  inv_diagnostics :: "string list"
  inv_seen :: "string list"

definition diagnose :: "string \<Rightarrow> inventory_state \<Rightarrow> inventory_state" where
  "diagnose d s = s\<lparr>inv_diagnostics := inv_diagnostics s @ [d]\<rparr>"

text \<open>
  One entry of the list. A \<open>ValueError\<close> of the two parsers is turned into a diagnostic;
  the \<open>RuntimeError\<close> of \<open>expanduser\<close> is not caught there and ends the loop.
\<close>

definition inventory_entry :: "os \<Rightarrow> pyval \<Rightarrow> inventory_state \<Rightarrow> inventory_state py" where
  "inventory_entry sys entry s = (case entry of
     VDict d \<Rightarrow>
      (case rbind (canonical_host_root sys (dget d ''root'')) (\<lambda>root.
              rbind (canonical_repository_identity (dget d ''repository'')) (\<lambda>ident. Inr (root, ident))) of
         Inl ValueError \<Rightarrow> Inr (diagnose ''canonical_repository_entry_invalid'' s)
       | Inl e \<Rightarrow> Inl e
       | Inr (root, ident) \<Rightarrow>
          (let s1 = (if path_key root \<in> set (inv_seen s)
                     then diagnose ''canonical_repository_duplicate_root'' s else s);
               s2 = s1\<lparr>inv_seen := path_key root # inv_seen s1\<rparr>;
               branch_text = text_or_empty (dget d ''canonical_branch'');
               branch = (if branch_text = [] then None else Some branch_text);
               s3 = (if startswith ident ''git://'' \<and> branch = None
                     then diagnose ''canonical_repository_git_branch_missing'' s2 else s2)
           in Inr (s3\<lparr>inv_specs := inv_specs s3 @ [\<lparr>cr_root = root, cr_identity = ident,
                 cr_branch = branch, cr_provenance = ''operator_config''\<rparr>]\<rparr>)))
   | _ \<Rightarrow> Inr (diagnose ''canonical_repository_entry_not_mapping'' s))"

fun inventory_entries :: "os \<Rightarrow> pyval list \<Rightarrow> inventory_state \<Rightarrow> inventory_state py" where
  "inventory_entries sys [] s = Inr s"
| "inventory_entries sys (v # vs) s =
     rbind (inventory_entry sys v s) (\<lambda>s'. inventory_entries sys vs s')"

fun overlap_diagnostics :: "path option \<Rightarrow> canonical_repository list \<Rightarrow> string list" where
  "overlap_diagnostics ws [] = []"
| "overlap_diagnostics ws (l # rest) =
     (case ws of Some w \<Rightarrow> if paths_overlap (cr_root l) w
        then [''canonical_repository_overlaps_workspace_root''] else [] | None \<Rightarrow> [])
     @ concat (map (\<lambda>r. if paths_overlap (cr_root l) (cr_root r)
                        then [''canonical_repository_roots_overlap''] else []) rest)
     @ overlap_diagnostics ws rest"

definition canonical_repository_inventory ::
  "os \<Rightarrow> pyval \<Rightarrow> path option \<Rightarrow> (canonical_repository list \<times> bool \<times> string list) py" where
  "canonical_repository_inventory sys v ws = (case v of
     VNull \<Rightarrow> Inr ([], True, [])
   | VList vs \<Rightarrow>
      rbind (inventory_entries sys vs \<lparr>inv_specs = [], inv_diagnostics = [], inv_seen = []\<rparr>) (\<lambda>s.
      let ordered = sort_key (path_key \<circ> cr_root) (inv_specs s);
          diags = dict_fromkeys (inv_diagnostics s @ overlap_diagnostics ws ordered)
      in Inr (ordered, diags = [], diags))
   | _ \<Rightarrow> Inr ([], False, [''canonical_repository_inventory_not_list'']))"

section \<open>Verification profiles\<close>

record verification_profile =
  vp_profile_id :: string
  vp_toolchain_root :: path
  vp_source_snapshot_root :: path
  vp_dependency_capsule_root :: path
  vp_node_relative :: string
  vp_npm_cli_relative :: string
  vp_kind :: string
  vp_contract_revision :: int
  vp_capsule_manifest_revision :: int
  vp_limits :: resource_limits

text \<open>\<open>NodeNpmVerificationProfile.__post_init__\<close>.\<close>

definition profile_post_init :: "verification_profile \<Rightarrow> verification_profile py" where
  "profile_post_init p =
     rbind (validate_profile_id (VStr (vp_profile_id p))) (\<lambda>pid.
     if vp_kind p \<noteq> ''node_npm_v1'' then Inl ValueError
     else if vp_contract_revision p \<noteq> 1 then Inl ValueError
     else if vp_capsule_manifest_revision p \<noteq> 1 then Inl ValueError else
     rbind (normalize_relative_path 1024 (VStr (vp_node_relative p))) (\<lambda>node.
     rbind (normalize_relative_path 1024 (VStr (vp_npm_cli_relative p))) (\<lambda>npm.
       Inr (p\<lparr>vp_profile_id := pid, vp_node_relative := node, vp_npm_cli_relative := npm\<rparr>))))"

definition resolve_within :: "os \<Rightarrow> path \<Rightarrow> string \<Rightarrow> path py" where
  "resolve_within sys root relative =
     rbind (normalize_relative_path 1024 (VStr relative)) (\<lambda>normalized.
     rbind (of_option ValueError (os_resolve sys root)) (\<lambda>croot.
     rbind (of_option ValueError (os_resolve sys
              (path_join croot (Path False (split_char (CHR ''/'') normalized))))) (\<lambda>candidate.
     if candidate = croot \<or> \<not> is_relative_to candidate croot then Inl ValueError
     else Inr candidate)))"

definition profile_fields :: "string list" where
  "profile_fields = [''kind'', ''toolchain_root'', ''node_relative'', ''npm_cli_relative'',
     ''source_snapshot_root'', ''dependency_capsule_root'', ''capsule_manifest_revision'', ''limits'']"

text \<open>The overlap checks over the three roots of one profile, in the order of the loop.\<close>

fun check_profile_roots :: "path list \<Rightarrow> path list \<Rightarrow> path list \<Rightarrow> path list py" where
  "check_profile_roots forbidden admitted [] = Inr admitted"
| "check_profile_roots forbidden admitted (root # rest) =
     (if list_ex (paths_overlap root) rest then Inl ValueError
      else if list_ex (paths_overlap root) forbidden then Inl ValueError
      else if list_ex (paths_overlap root) admitted then Inl ValueError
      else check_profile_roots forbidden (admitted @ [root]) rest)"

definition parse_profile ::
  "os \<Rightarrow> path list \<Rightarrow> path list \<Rightarrow> string \<times> pyval \<Rightarrow> (verification_profile \<times> path list) py" where
  "parse_profile sys forbidden admitted item =
     rbind (validate_profile_id (VStr (fst item))) (\<lambda>pid.
     case snd item of
       VDict d \<Rightarrow>
        (if \<not> set (keys d) \<subseteq> set profile_fields then Inl ValueError else
         let kind = text_or_empty (dget d ''kind'') in
         if kind \<noteq> ''node_npm_v1'' then Inl ValueError else
         rbind (canonical_host_root sys (dget d ''toolchain_root'')) (\<lambda>tool.
         rbind (canonical_host_root sys (dget d ''source_snapshot_root'')) (\<lambda>src.
         rbind (canonical_host_root sys (dget d ''dependency_capsule_root'')) (\<lambda>dep.
         rbind (normalize_relative_path 1024
                  (dget_default d ''node_relative'' (VStr ''node.exe''))) (\<lambda>node.
         rbind (normalize_relative_path 1024
                  (dget_default d ''npm_cli_relative'' (VStr ''node_modules/npm/bin/npm-cli.js''))) (\<lambda>npm.
         rbind (int_or_value_error (dget_default d ''capsule_manifest_revision'' (VInt 1))) (\<lambda>rev.
         rbind (limits_from_mapping (dget d ''limits'')) (\<lambda>lim.
         rbind (check_profile_roots forbidden admitted [tool, src, dep]) (\<lambda>admitted'.
         rbind (profile_post_init \<lparr>vp_profile_id = pid, vp_toolchain_root = tool,
            vp_source_snapshot_root = src, vp_dependency_capsule_root = dep,
            vp_node_relative = node, vp_npm_cli_relative = npm, vp_kind = kind,
            vp_contract_revision = 1, vp_capsule_manifest_revision = rev, vp_limits = lim\<rparr>) (\<lambda>p.
         rbind (resolve_within sys (vp_toolchain_root p) (vp_node_relative p)) (\<lambda>_.
         rbind (resolve_within sys (vp_toolchain_root p) (vp_npm_cli_relative p)) (\<lambda>_.
           Inr (p, admitted')))))))))))))
     | _ \<Rightarrow> Inl ValueError)"

fun parse_profiles ::
  "os \<Rightarrow> path list \<Rightarrow> path list \<Rightarrow> (string \<times> pyval) list \<Rightarrow> verification_profile list py" where
  "parse_profiles sys forbidden admitted [] = Inr []"
| "parse_profiles sys forbidden admitted (item # items) =
     rbind (parse_profile sys forbidden admitted item) (\<lambda>(p, admitted').
     rbind (parse_profiles sys forbidden admitted' items) (\<lambda>ps. Inr (p # ps)))"

definition verification_profiles_of ::
  "os \<Rightarrow> pyval \<Rightarrow> path option \<Rightarrow> path list \<Rightarrow> canonical_repository list
     \<Rightarrow> verification_profile list py" where
  "verification_profiles_of sys v ws protected repos = (case v of
     VNull \<Rightarrow> Inr []
   | VDict d \<Rightarrow> parse_profiles sys
       (protected @ map cr_root repos @ (case ws of None \<Rightarrow> [] | Some w \<Rightarrow> [w]))
       [] (sort_key (casefold \<circ> fst) d)
   | _ \<Rightarrow> Inl ValueError)"

section \<open>The policy record and its parser\<close>

record mutation_policy =
  mp_configured :: bool
  mp_scoped_mutation_enabled :: bool
  mp_workspace_root :: "path option"
  mp_protected_roots :: "path list"
  mp_runtime_read_roots :: "path list"
  mp_runtime_session_object_read_enabled :: bool
  mp_runtime_acl_timeout_seconds :: int
  mp_scope_ttl_seconds :: int
  mp_evidence_retention_days :: int
  mp_operator_unrestricted_enabled :: bool
  mp_firewall_enabled :: bool
  mp_canonical_repositories :: "canonical_repository list"
  mp_inventory_valid :: bool
  mp_inventory_diagnostics :: "string list"
  mp_verification_profiles :: "verification_profile list"

definition default_mutation_policy :: mutation_policy where
  "default_mutation_policy = \<lparr>mp_configured = False, mp_scoped_mutation_enabled = False,
     mp_workspace_root = None, mp_protected_roots = [], mp_runtime_read_roots = [],
     mp_runtime_session_object_read_enabled = False, mp_runtime_acl_timeout_seconds = 20,
     mp_scope_ttl_seconds = 3600, mp_evidence_retention_days = 30,
     mp_operator_unrestricted_enabled = False, mp_firewall_enabled = False,
     mp_canonical_repositories = [], mp_inventory_valid = True, mp_inventory_diagnostics = [],
     mp_verification_profiles = []\<rparr>"

definition legacy_unrestricted_compat :: "mutation_policy \<Rightarrow> bool" where
  "legacy_unrestricted_compat p \<longleftrightarrow> \<not> mp_configured p"

definition find_verification_profile :: "mutation_policy \<Rightarrow> pyval \<Rightarrow> verification_profile option py" where
  "find_verification_profile p v =
     rbind (validate_profile_id v) (\<lambda>pid.
       Inr (List.find (\<lambda>q. vp_profile_id q = pid) (mp_verification_profiles p)))"

definition inventory_ready :: "mutation_policy \<Rightarrow> bool" where
  "inventory_ready p \<longleftrightarrow> mp_configured p \<and> mp_firewall_enabled p \<and> mp_inventory_valid p
     \<and> mp_canonical_repositories p \<noteq> []"

definition inventory_readiness_reasons :: "mutation_policy \<Rightarrow> string list" where
  "inventory_readiness_reasons p = dict_fromkeys (mp_inventory_diagnostics p
     @ (if mp_configured p then [] else [''mutation_execution_not_configured''])
     @ (if mp_firewall_enabled p then [] else [''canonical_repository_firewall_disabled''])
     @ (if mp_canonical_repositories p \<noteq> [] then [] else [''canonical_repository_inventory_empty'']))"

definition optional_root :: "os \<Rightarrow> pyval \<Rightarrow> path option py" where
  "optional_root sys v = (if v = VNull \<or> v = VStr [] then Inr None
     else rbind (canonical_host_root sys v) (\<lambda>r. Inr (Some r)))"

definition mutation_policy_from_dict :: "os \<Rightarrow> (string \<times> pyval) list \<Rightarrow> mutation_policy py" where
  "mutation_policy_from_dict sys d =
     rbind (optional_root sys (dget d ''workspace_root'')) (\<lambda>ws.
     rbind (canonical_host_roots sys (dget d ''protected_roots'')) (\<lambda>protected.
     rbind (canonical_host_roots sys (dget d ''runtime_read_roots'')) (\<lambda>rroots.
     if (case ws of None \<Rightarrow> False | Some w \<Rightarrow> list_ex (paths_overlap w) protected)
     then Inl ValueError else
     rbind (canonical_repository_inventory sys (dget d ''canonical_repositories'') ws)
       (\<lambda>(repos, valid, diags).
     rbind (verification_profiles_of sys (dget d ''verification_profiles'') ws protected repos) (\<lambda>profiles.
     let sess = dget_default d ''runtime_session_object_read_enabled'' (VBool False);
         acl = dget_default d ''runtime_acl_timeout_seconds'' (VInt 20) in
     if \<not> is_bool sess then Inl ValueError else
     if is_bool acl \<or> \<not> is_int acl then Inl ValueError else
     rbind (py_int acl) (\<lambda>acl_s.
     if acl_s < 5 \<or> acl_s > 600 then Inl ValueError else
     rbind (int_or_value_error (dget_default d ''scope_ttl_seconds'' (VInt 3600))) (\<lambda>ttl.
     rbind (int_or_value_error (dget_default d ''evidence_retention_days'' (VInt 30))) (\<lambda>retention.
     if ttl \<le> 0 then Inl ValueError else
     if retention \<le> 0 then Inl ValueError else
     Inr \<lparr>mp_configured = True,
       mp_scoped_mutation_enabled = truthy (dget_default d ''scoped_mutation_enabled'' (VBool False)),
       mp_workspace_root = ws, mp_protected_roots = protected, mp_runtime_read_roots = rroots,
       mp_runtime_session_object_read_enabled = truthy sess,
       mp_runtime_acl_timeout_seconds = acl_s, mp_scope_ttl_seconds = ttl,
       mp_evidence_retention_days = retention,
       mp_operator_unrestricted_enabled =
         truthy (dget_default d ''operator_unrestricted_enabled'' (VBool False)),
       mp_firewall_enabled =
         truthy (dget_default d ''canonical_repository_firewall_enabled'' (VBool False)),
       mp_canonical_repositories = repos, mp_inventory_valid = valid,
       mp_inventory_diagnostics = diags, mp_verification_profiles = profiles\<rparr>))))))))"

definition mutation_policy_from_block :: "os \<Rightarrow> pyval \<Rightarrow> bool \<Rightarrow> mutation_policy py" where
  "mutation_policy_from_block sys block configured =
     (if \<not> configured then Inr default_mutation_policy else
      case block of
        VNull \<Rightarrow> mutation_policy_from_dict sys []
      | VDict d \<Rightarrow> mutation_policy_from_dict sys d
      | _ \<Rightarrow> Inl ValueError)"

end
