(* ===== verification/Placement.thy ===== *)
theory Placement
  imports MutationPolicy
begin

text \<open>
  \<open>mutation_placement.py\<close>: the deterministic workspace placement of a scoped mutation.
  The world record holds what the module asks of its environment: the operating system
  (\<open>resolve\<close>) and the hash function. Every exception is a constructor of \<open>scope_error\<close>;
  the error classes of \<open>mutation_scope.py\<close> are listed here too, because placement errors
  surface through the scope store.
\<close>

record world =
  w_os :: os
  w_sha :: "string \<Rightarrow> string"

datatype scope_error =
    ScopeConflict | ScopeNotCurrent | ScopeCorrupt | OperationNotAllowed
  | TerminalizationFailed | ScopeStillActive | ResidualAuthority
  | BindingMismatch | PlacementUnavailable | ScopeValueError | ScopeOsError | ScopeOverflow

type_synonym 'a scope_result = "(scope_error, 'a) result"

definition lift_py :: "'a py \<Rightarrow> 'a scope_result" where
  "lift_py m = (case m of Inl _ \<Rightarrow> Inl ScopeValueError | Inr x \<Rightarrow> Inr x)"

lemma lift_py_iff [result_simps]:
  "lift_py m = Inr x \<longleftrightarrow> m = Inr x" "lift_py m = Inl e \<longleftrightarrow> (\<exists>e'. m = Inl e') \<and> e = ScopeValueError"
  by (auto simp: lift_py_def split: sum.splits)

lemma lift_py_simps [simp]: "lift_py (Inr x) = Inr x" "lift_py (Inl e) = Inl ScopeValueError"
  by (simp_all add: lift_py_def)

definition resolved :: "world \<Rightarrow> path \<Rightarrow> path scope_result" where
  "resolved w p = of_option ScopeOsError (os_resolve (w_os w) p)"

definition path_digest_text :: "world \<Rightarrow> path \<Rightarrow> string scope_result" where
  "path_digest_text w p = rbind (resolved w p) (\<lambda>q. Inr (path_text q))"

definition short :: "string \<Rightarrow> string" where
  "short s = take 16 s"

definition vstrs :: "string list \<Rightarrow> pyval" where
  "vstrs ws = VList (map VStr ws)"

section \<open>Generation and evidence\<close>

record generation_state =
  gs_policy_digest :: string
  gs_generation :: int

definition evolve :: "generation_state \<Rightarrow> string \<Rightarrow> generation_state" where
  "evolve g current = (if gs_policy_digest g = current then g
     else \<lparr>gs_policy_digest = current, gs_generation = gs_generation g + 1\<rparr>)"

record placement_evidence =
  pe_placement_ref :: string
  pe_generation :: int
  pe_policy_digest :: string
  pe_exact_future_workspace :: path
  pe_exact_workspace_digest :: string
  pe_repository_identity_digest :: string
  pe_semantic_identity_digest :: string
  pe_protected_inventory_digest :: string

definition evidence_generation_state :: "placement_evidence \<Rightarrow> generation_state" where
  "evidence_generation_state e =
     \<lparr>gs_policy_digest = pe_policy_digest e, gs_generation = pe_generation e\<rparr>"

definition placement_policy_digest :: "world \<Rightarrow> mutation_policy \<Rightarrow> string scope_result" where
  "placement_policy_digest w p =
     rbind (case mp_workspace_root p of None \<Rightarrow> Inr VNull
            | Some root \<Rightarrow> rbind (path_digest_text w root) (\<lambda>t. Inr (VStr t))) (\<lambda>ws.
     rbind (rmap (path_digest_text w) (mp_protected_roots p)) (\<lambda>protected.
     rbind (rmap (path_digest_text w) (mp_runtime_read_roots p)) (\<lambda>rroots.
       Inr (digest (w_sha w) (VDict
        [(''rules_version'', VInt 1),
         (''workspace_root'', ws),
         (''protected_roots'', vstrs (sort protected)),
         (''runtime_read_roots'', vstrs (sort rroots)),
         (''runtime_session_object_read_enabled'', VBool (mp_runtime_session_object_read_enabled p)),
         (''runtime_acl_timeout_seconds'', VInt (mp_runtime_acl_timeout_seconds p))])))))"

definition protected_inventory :: "world \<Rightarrow> mutation_policy \<Rightarrow> path list \<Rightarrow> string list scope_result" where
  "protected_inventory w p provider_roots =
     rbind (rmap (path_digest_text w) (mp_protected_roots p)) (\<lambda>a.
     rbind (rmap (path_digest_text w) provider_roots) (\<lambda>b.
     rbind (case mp_workspace_root p of None \<Rightarrow> Inr []
            | Some root \<Rightarrow> rbind (resolved w root) (\<lambda>r.
                Inr (path_text r # (if path_parent r \<noteq> r then [path_text (path_parent r)] else [])))) (\<lambda>c.
       Inr (sorted_set (a @ b @ c)))))"

definition placement_ref_text :: "string \<Rightarrow> string \<Rightarrow> int \<Rightarrow> string" where
  "placement_ref_text repo sem g =
     ''mutation-placement:'' @ short repo @ '':'' @ short sem @ '':g'' @ show_int g"

definition resolve_placement ::
  "world \<Rightarrow> mutation_policy \<Rightarrow> repository_identity \<Rightarrow> semantic_identity \<Rightarrow> generation_state option
     \<Rightarrow> path list \<Rightarrow> placement_evidence scope_result" where
  "resolve_placement w p repo sem gst provider_roots =
     (if \<not> mp_configured p \<or> \<not> mp_scoped_mutation_enabled p then Inl PlacementUnavailable else
      case mp_workspace_root p of None \<Rightarrow> Inl PlacementUnavailable | Some wroot \<Rightarrow>
      rbind (placement_policy_digest w p) (\<lambda>pdig.
      let st = (case gst of None \<Rightarrow> \<lparr>gs_policy_digest = pdig, gs_generation = 1\<rparr>
                | Some g \<Rightarrow> evolve g pdig) in
      rbind (lift_py (repository_canonical repo)) (\<lambda>rc.
      rbind (lift_py (semantic_canonical sem)) (\<lambda>sc.
      let rdig = digest (w_sha w) (VStr rc); sdig = digest (w_sha w) (vstrs sc) in
      rbind (resolved w wroot) (\<lambda>root.
      rbind (resolved w (path_child (path_child root (short rdig)) (short sdig))) (\<lambda>workspace.
      if workspace = root \<or> \<not> is_relative_to workspace root then Inl BindingMismatch else
      rbind (path_digest_text w workspace) (\<lambda>wtext.
      rbind (protected_inventory w p provider_roots) (\<lambda>inv.
        Inr \<lparr>pe_placement_ref = placement_ref_text rdig sdig (gs_generation st),
          pe_generation = gs_generation st, pe_policy_digest = pdig,
          pe_exact_future_workspace = workspace,
          pe_exact_workspace_digest = digest (w_sha w) (VStr wtext),
          pe_repository_identity_digest = rdig, pe_semantic_identity_digest = sdig,
          pe_protected_inventory_digest = digest (w_sha w) (vstrs inv)\<rparr>))))))))"

definition revalidate_placement ::
  "world \<Rightarrow> placement_evidence \<Rightarrow> mutation_policy \<Rightarrow> repository_identity \<Rightarrow> semantic_identity
     \<Rightarrow> path list \<Rightarrow> placement_evidence scope_result" where
  "revalidate_placement w expected p repo sem provider_roots =
     rbind (resolve_placement w p repo sem (Some (evidence_generation_state expected)) provider_roots)
      (\<lambda>current. if current \<noteq> expected then Inl BindingMismatch else Inr current)"

definition unique_mutation_lease_key ::
  "world \<Rightarrow> string \<Rightarrow> semantic_identity \<Rightarrow> int \<Rightarrow> string \<Rightarrow> string scope_result" where
  "unique_mutation_lease_key w repo_digest sem generation workspace_digest =
     rbind (lift_py (semantic_canonical sem)) (\<lambda>vs.
     if generation \<le> 0 then Inl ScopeValueError
     else if repo_digest = [] \<or> workspace_digest = [] then Inl ScopeValueError
     else Inr (digest (w_sha w) (VDict
        [(''repository_identity_digest'', VStr repo_digest),
         (''run_id'', VStr (vs ! 2)),
         (''attempt_id'', VStr (vs ! 3)),
         (''slice_id'', VStr (vs ! 4)),
         (''placement_generation'', VInt generation),
         (''exact_workspace_digest'', VStr workspace_digest)])))"

text \<open>\<open>_attempt_key\<close> of \<open>mutation_scope.py\<close>.\<close>

definition attempt_key_of :: "world \<Rightarrow> string \<Rightarrow> semantic_identity \<Rightarrow> string scope_result" where
  "attempt_key_of w repo_digest sem =
     rbind (lift_py (semantic_canonical sem)) (\<lambda>vs.
     Inr (digest (w_sha w) (VDict
        [(''repository_identity_digest'', VStr repo_digest),
         (''project_id'', VStr (vs ! 0)),
         (''task_id'', VStr (vs ! 1)),
         (''run_id'', VStr (vs ! 2)),
         (''attempt_id'', VStr (vs ! 3)),
         (''slice_id'', VStr (vs ! 4))])))"

section \<open>Laws\<close>

lemma evolve_mono: "gs_generation g \<le> gs_generation (evolve g d)"
  by (simp add: evolve_def)

lemma evolve_digest [simp]: "gs_policy_digest (evolve g d) = d"
  by (simp add: evolve_def)

lemma evolve_same [simp]: "evolve g (gs_policy_digest g) = g"
  by (simp add: evolve_def)

lemma evolve_idem [simp]: "evolve (evolve g d) d = evolve g d"
  by (simp add: evolve_def)

lemma resolve_placement_inside:
  "resolve_placement w p repo sem g pr = Inr e \<Longrightarrow>
     \<exists>wroot root. mp_workspace_root p = Some wroot \<and> resolved w wroot = Inr root
       \<and> is_relative_to (pe_exact_future_workspace e) root \<and> pe_exact_future_workspace e \<noteq> root"
  by (auto simp: resolve_placement_def result_simps Let_def split: if_splits option.splits)

lemma resolve_placement_enabled:
  "resolve_placement w p repo sem g pr = Inr e \<Longrightarrow> mp_configured p \<and> mp_scoped_mutation_enabled p"
  by (auto simp: resolve_placement_def split: if_splits)

lemma resolve_placement_generation:
  "resolve_placement w p repo sem (Some g) pr = Inr e \<Longrightarrow>
     evidence_generation_state e = evolve g (pe_policy_digest e)
     \<and> placement_policy_digest w p = Inr (pe_policy_digest e)"
  by (auto simp: resolve_placement_def evidence_generation_state_def result_simps Let_def
      evolve_def split: if_splits option.splits)

lemma resolve_placement_identities:
  "resolve_placement w p repo sem g pr = Inr e \<Longrightarrow>
     (\<exists>rc. repository_canonical repo = Inr rc
        \<and> pe_repository_identity_digest e = digest (w_sha w) (VStr rc))
     \<and> (\<exists>sc. semantic_canonical sem = Inr sc
        \<and> pe_semantic_identity_digest e = digest (w_sha w) (vstrs sc))"
  by (auto simp: resolve_placement_def result_simps Let_def split: if_splits option.splits)

lemma revalidate_placement_iff:
  "revalidate_placement w e p repo sem pr = Inr c \<longleftrightarrow>
     c = e \<and> resolve_placement w p repo sem (Some (evidence_generation_state e)) pr = Inr e"
  by (auto simp: revalidate_placement_def result_simps split: if_splits)

text \<open>With a collision-free hash, the keys determine the identities they are taken of.\<close>

lemma json_norm_strs [simp]: "json_norm (vstrs ws) = vstrs ws"
  by (simp add: vstrs_def o_def)

lemma vstrs_inj [simp]: "vstrs a = vstrs b \<longleftrightarrow> a = b"
  by (simp add: vstrs_def inj_map_eq_map inj_def)

lemma json_norm_dget_eq:
  assumes "json_norm (VDict d) = json_norm (VDict e)" "distinct (keys d)" "distinct (keys e)"
  shows "json_norm (dget d k) = json_norm (dget e k)"
  using assms dget_norm[of d k] dget_norm[of e k] by simp

lemma attempt_key_inj:
  assumes inj: "inj (w_sha w)"
    and a: "attempt_key_of w r sem = Inr k" and b: "attempt_key_of w r' sem' = Inr k"
  shows "r = r' \<and> semantic_canonical sem = semantic_canonical sem'"
proof -
  obtain vs where vs: "semantic_canonical sem = Inr vs"
    using a by (auto simp: attempt_key_of_def result_simps)
  obtain ws where ws: "semantic_canonical sem' = Inr ws"
    using b by (auto simp: attempt_key_of_def result_simps)
  let ?d = "\<lambda>r vs. [(''repository_identity_digest'', VStr r), (''project_id'', VStr (vs ! 0)),
     (''task_id'', VStr (vs ! 1)), (''run_id'', VStr (vs ! 2)), (''attempt_id'', VStr (vs ! 3)),
     (''slice_id'', VStr (vs ! 4))]"
  have "json_norm (VDict (?d r vs)) = json_norm (VDict (?d r' ws))"
    using a b vs ws
    by (intro digest_inj[OF inj, THEN iffD1]) (simp add: attempt_key_of_def)
  then have eq: "json_norm (dget (?d r vs) k) = json_norm (dget (?d r' ws) k)" for k
    by (rule json_norm_dget_eq) auto
  have "r = r'" using eq[of "''repository_identity_digest''"] by (simp add: dget_def)
  moreover have "vs ! 0 = ws ! 0" "vs ! 1 = ws ! 1" "vs ! 2 = ws ! 2" "vs ! 3 = ws ! 3" "vs ! 4 = ws ! 4"
    using eq[of "''project_id''"] eq[of "''task_id''"] eq[of "''run_id''"] eq[of "''attempt_id''"]
      eq[of "''slice_id''"] by (simp_all add: dget_def)
  moreover have "length vs = 5" "length ws = 5"
    using vs ws by (auto dest!: semantic_canonical_fields)
  ultimately have "vs = ws"
    by (intro nth_equalityI) (auto simp: less_Suc_eq numeral_eq_Suc)
  with \<open>r = r'\<close> vs ws show ?thesis by simp
qed

end
