(* ===== verification/Clock.thy ===== *)
theory Clock
  imports Json
begin

text \<open>
  UTC time stamps. An instant is the number of microseconds since 0001-01-01T00:00:00Z, the
  first \<open>datetime\<close>. \<open>iso\<close> is the agent's \<open>_iso\<close>
  (\<open>isoformat().replace("+00:00", "Z")\<close>) and \<open>parse_time\<close> its inverse \<open>_parse_time\<close>
  on texts of that form; other ISO 8601 spellings are not modelled. The calendar is the
  proleptic Gregorian one of the \<open>datetime\<close> module (\<open>_ord2ymd\<close> and \<open>_ymd2ord\<close>, here
  with day numbers that start at 0).
\<close>

definition max_instant :: nat where
  "max_instant = 315537897599999999"

section \<open>The calendar\<close>

definition leap_pos :: "nat \<Rightarrow> nat \<Rightarrow> nat \<Rightarrow> bool" where
  "leap_pos n100 n4 n1 \<longleftrightarrow> n1 = 3 \<and> (n4 \<noteq> 24 \<or> n100 = 3)"

definition is_leap :: "nat \<Rightarrow> bool" where
  "is_leap y \<longleftrightarrow> y mod 4 = 0 \<and> (y mod 100 \<noteq> 0 \<or> y mod 400 = 0)"

definition month_starts :: "nat list" where
  "month_starts = [0, 31, 59, 90, 120, 151, 181, 212, 243, 273, 304, 334]"

definition days_before_month :: "bool \<Rightarrow> nat \<Rightarrow> nat" where
  "days_before_month leap m = month_starts ! (m - 1) + (if leap \<and> 2 < m then 1 else 0)"

definition days_in_month :: "bool \<Rightarrow> nat \<Rightarrow> nat" where
  "days_in_month leap m =
     (if m = 12 then 31 else days_before_month leap (m + 1) - days_before_month leap m)"

definition days_before_year :: "nat \<Rightarrow> nat" where
  "days_before_year y = (let z = y - 1 in z * 365 + z div 4 - z div 100 + z div 400)"

text \<open>Month and day of month from the day of the year (both ends counted from 0).\<close>

definition month_day :: "bool \<Rightarrow> nat \<Rightarrow> nat \<times> nat" where
  "month_day leap n =
     (let m = (n + 50) div 32; m' = (if days_before_month leap m > n then m - 1 else m)
      in (m', n - days_before_month leap m' + 1))"

definition ymd_of_day :: "nat \<Rightarrow> nat \<times> nat \<times> nat" where
  "ymd_of_day n =
     (let n400 = n div 146097; r400 = n mod 146097;
          n100 = r400 div 36524; r100 = r400 mod 36524;
          n4 = r100 div 1461; r4 = r100 mod 1461;
          n1 = r4 div 365; r1 = r4 mod 365;
          y = n400 * 400 + n100 * 100 + n4 * 4 + n1 + 1
      in if n1 = 4 \<or> n100 = 4 then (y - 1, 12, 31)
         else (let md = month_day (leap_pos n100 n4 n1) r1 in (y, fst md, snd md)))"

definition day_of_ymd :: "nat \<Rightarrow> nat \<Rightarrow> nat \<Rightarrow> nat" where
  "day_of_ymd y m d = days_before_year y + days_before_month (is_leap y) m + (d - 1)"

lemma days_before_year_parts:
  assumes "b \<le> 3" "c \<le> 24" "e \<le> 3"
  shows "days_before_year (a * 400 + b * 100 + c * 4 + e + 1)
    = a * 146097 + b * 36524 + c * 1461 + e * 365"
proof -
  let ?z = "a * 400 + b * 100 + c * 4 + e"
  have "?z div 4 = a * 100 + b * 25 + c" using assms by simp
  moreover have "?z div 100 = a * 4 + b" using assms by simp
  moreover have "?z div 400 = a" using assms by simp
  ultimately show ?thesis using assms by (simp add: days_before_year_def Let_def)
qed

lemma is_leap_parts:
  assumes "b \<le> 3" "c \<le> 24" "e \<le> 3"
  shows "is_leap (a * 400 + b * 100 + c * 4 + e + 1) = leap_pos b c e"
proof -
  let ?y = "a * 400 + b * 100 + c * 4 + e + 1"
  have "?y = (e + 1) + 4 * (a * 100 + b * 25 + c)" by simp
  then have m4: "?y mod 4 = (e + 1) mod 4" by (metis mod_mult_self2)
  have "?y = (c * 4 + e + 1) + 100 * (a * 4 + b)" by simp
  then have m100: "?y mod 100 = (c * 4 + e + 1) mod 100" by (metis mod_mult_self2)
  have "?y = (b * 100 + c * 4 + e + 1) + 400 * a" by simp
  then have m400: "?y mod 400 = (b * 100 + c * 4 + e + 1) mod 400" by (metis mod_mult_self2)
  have e: "e = 0 \<or> e = 1 \<or> e = 2 \<or> e = 3" using assms by arith
  have small: "c * 4 + e + 1 \<le> 100" "b * 100 + c * 4 + e + 1 \<le> 400" using assms by arith+
  have h: "(c * 4 + e + 1) mod 100 = 0 \<longleftrightarrow> c = 24 \<and> e = 3"
    "(b * 100 + c * 4 + e + 1) mod 400 = 0 \<longleftrightarrow> b = 3 \<and> c = 24 \<and> e = 3"
    using small assms by (auto simp: mod_if)
  have h4: "(e + 1) mod 4 = 0 \<longleftrightarrow> e = 3" using e by (elim disjE) simp_all
  show ?thesis
    unfolding is_leap_def leap_pos_def m4 m100 m400 h h4 by auto
qed

lemma month_day_ok:
  assumes "n < 365"
  shows "days_before_month leap (fst (month_day leap n)) + (snd (month_day leap n) - 1) = n
    \<and> 1 \<le> fst (month_day leap n) \<and> fst (month_day leap n) \<le> 12
    \<and> 1 \<le> snd (month_day leap n) \<and> snd (month_day leap n) \<le> days_in_month leap (fst (month_day leap n))"
proof -
  define m where "m = (n + 50) div 32"
  have lo: "32 * m \<le> n + 50" and hi: "n + 50 < 32 * m + 32" unfolding m_def by simp_all
  have "1 \<le> m" "m < 13" using lo hi assms by linarith+
  then have "m \<in> set [1..<13]" by simp
  moreover have "[1..<13] = [1, 2, 3, 4, 5, 6, 7, 8, 9, 10, 11, 12 :: nat]" by (simp add: upt_rec)
  ultimately have "m \<in> set [1, 2, 3, 4, 5, 6, 7, 8, 9, 10, 11, 12]" by (simp only:)
  then have "m = 1 \<or> m = 2 \<or> m = 3 \<or> m = 4 \<or> m = 5 \<or> m = 6 \<or> m = 7 \<or> m = 8
    \<or> m = 9 \<or> m = 10 \<or> m = 11 \<or> m = 12" by simp
  then show ?thesis
    unfolding month_day_def m_def[symmetric] Let_def
    using lo hi assms
    by (elim disjE; cases leap)
      (auto simp: days_in_month_def days_before_month_def month_starts_def)
qed

lemma ymd_of_day_ok:
  assumes "ymd_of_day n = (y, m, d)"
  shows "day_of_ymd y m d = n \<and> 1 \<le> y \<and> 1 \<le> m \<and> m \<le> 12 \<and> 1 \<le> d \<and> d \<le> days_in_month (is_leap y) m"
proof -
  define a r where "a = n div 146097" and "r = n mod 146097"
  define b s where "b = r div 36524" and "s = r mod 36524"
  define c t where "c = s div 1461" and "t = s mod 1461"
  define e u where "e = t div 365" and "u = t mod 365"
  have n: "n = a * 146097 + r" "r < 146097" by (simp_all add: a_def r_def)
  have r: "r = b * 36524 + s" "s < 36524" by (simp_all add: b_def s_def)
  have s: "s = c * 1461 + t" "t < 1461" by (simp_all add: c_def t_def)
  have t: "t = e * 365 + u" "u < 365" by (simp_all add: e_def u_def)
  have bounds: "b \<le> 4" "c \<le> 24" "e \<le> 4" using n r s t by linarith+
  let ?y = "a * 400 + b * 100 + c * 4 + e + 1"
  have eq: "ymd_of_day n = (if e = 4 \<or> b = 4 then (?y - 1, 12, 31)
      else (?y, fst (month_day (leap_pos b c e) u), snd (month_day (leap_pos b c e) u)))"
    by (simp add: ymd_of_day_def Let_def a_def b_def c_def e_def r_def s_def t_def u_def)
  show ?thesis
  proof (cases "e = 4 \<or> b = 4")
    case False
    then have be: "b \<le> 3" "e \<le> 3" using bounds by auto
    let ?md = "month_day (leap_pos b c e) u"
    have parts: "y = ?y" "m = fst ?md" "d = snd ?md" using False assms eq by simp_all
    show ?thesis
      unfolding parts day_of_ymd_def days_before_year_parts[OF be(1) bounds(2) be(2)]
        is_leap_parts[OF be(1) bounds(2) be(2)]
      using month_day_ok[OF t(2), of "leap_pos b c e"] n r s t by linarith
  next
    case True
    then have y: "y = ?y - 1" "m = 12" "d = 31" using assms eq by auto
    show ?thesis
    proof (cases "b = 4")
      case True
      then have z: "c = 0" "e = 0" "u = 0" "s = 0" using n r s t by linarith+
      have y': "y = a * 400 + 3 * 100 + 24 * 4 + 3 + 1" using y True z by simp
      show ?thesis
        unfolding day_of_ymd_def y'
        using days_before_year_parts[of 3 24 3 a] is_leap_parts[of 3 24 3 a] y True z n r
        by (simp add: days_in_month_def days_before_month_def month_starts_def leap_pos_def)
    next
      case False
      with True have e4: "e = 4" "b \<le> 3" using bounds by auto
      then have z: "u = 0" "c \<le> 24" using s t bounds by linarith+
      have lp: "leap_pos b c 3" using e4 z n r s t by (auto simp: leap_pos_def)
      have y': "y = a * 400 + b * 100 + c * 4 + 3 + 1" using y e4 by simp
      show ?thesis
        unfolding day_of_ymd_def y'
        using days_before_year_parts[of b c 3 a] is_leap_parts[of b c 3 a] y e4 z n r s t lp
        by (simp add: days_in_month_def days_before_month_def month_starts_def)
    qed
  qed
qed

section \<open>The text of an instant\<close>

definition pad :: "nat \<Rightarrow> nat \<Rightarrow> string" where
  "pad w n = replicate (w - length (show_nat n)) (CHR ''0'') @ show_nat n"

definition iso :: "nat \<Rightarrow> string" where
  "iso t =
     (let day = t div 86400000000; r = t mod 86400000000; sec = r div 1000000; us = r mod 1000000;
          ymd = ymd_of_day day
      in pad 4 (fst ymd) @ ''-'' @ pad 2 (fst (snd ymd)) @ ''-'' @ pad 2 (snd (snd ymd)) @ ''T''
         @ pad 2 (sec div 3600) @ '':'' @ pad 2 (sec mod 3600 div 60) @ '':'' @ pad 2 (sec mod 60)
         @ (if us = 0 then [] else CHR ''.'' # pad 6 us) @ ''Z'')"

definition field :: "nat \<Rightarrow> nat \<Rightarrow> string \<Rightarrow> nat" where
  "field i w s = read_nat (take w (drop i s))"

text \<open>Fixed positions, as \<open>datetime.fromisoformat\<close> reads them; \<open>None\<close> is its \<open>ValueError\<close>.\<close>

definition all_digits :: "nat \<Rightarrow> nat \<Rightarrow> string \<Rightarrow> bool" where
  "all_digits i w s \<longleftrightarrow> list_all is_digit (take w (drop i s))"

definition iso_shape :: "string \<Rightarrow> bool" where
  "iso_shape s \<longleftrightarrow> (length s = 20 \<or> length s = 27 \<and> s ! 19 = CHR ''.'' \<and> all_digits 20 6 s)
     \<and> last s = CHR ''Z'' \<and> s ! 4 = CHR ''-'' \<and> s ! 7 = CHR ''-'' \<and> s ! 10 = CHR ''T''
     \<and> s ! 13 = CHR '':'' \<and> s ! 16 = CHR '':'' \<and> all_digits 0 4 s \<and> all_digits 5 2 s
     \<and> all_digits 8 2 s \<and> all_digits 11 2 s \<and> all_digits 14 2 s \<and> all_digits 17 2 s"

definition parse_time :: "string \<Rightarrow> nat option" where
  "parse_time s =
     (if \<not> iso_shape s then None else
      let y = field 0 4 s; m = field 5 2 s; d = field 8 2 s in
      if y = 0 \<or> m = 0 \<or> m > 12 \<or> d = 0 \<or> d > days_in_month (is_leap y) m
         \<or> field 11 2 s > 23 \<or> field 14 2 s > 59 \<or> field 17 2 s > 59 then None else
      Some (((day_of_ymd y m d * 24 + field 11 2 s) * 60 + field 14 2 s) * 60000000
            + field 17 2 s * 1000000 + (if length s = 27 then field 20 6 s else 0)))"

lemma length_show_nat: "n < 10 ^ w \<Longrightarrow> 0 < w \<Longrightarrow> length (show_nat n) \<le> w"
proof (induction w arbitrary: n)
  case (Suc w)
  show ?case
  proof (cases "n < 10")
    case False
    then have "n div 10 < 10 ^ w" "0 < w" using Suc.prems by (auto intro!: gr0I)
    then have "length (show_nat (n div 10)) \<le> w" by (rule Suc.IH)
    with False show ?thesis by (subst show_nat.simps) simp
  qed (subst show_nat.simps, simp)
qed simp

lemma pad_ok:
  assumes "n < 10 ^ w" "0 < w"
  shows "length (pad w n) = w" "read_nat (pad w n) = n" "list_all is_digit (pad w n)"
proof -
  show "length (pad w n) = w" using length_show_nat[OF assms] by (simp add: pad_def)
  have z: "foldl (\<lambda>a c. 10 * a + digit_val c) 0 (replicate k (CHR ''0'')) = 0" for k
    by (induction k) (auto simp: digit_val_def)
  show "read_nat (pad w n) = n"
    using read_show_nat[of n] by (simp add: pad_def read_nat_def z)
  show "list_all is_digit (pad w n)"
    using show_nat_digits[of n] by (auto simp: pad_def list_all_iff is_digit_def)
qed

lemma year_bound: "t \<le> max_instant \<Longrightarrow> fst (ymd_of_day (t div 86400000000)) < 10000"
proof -
  assume "t \<le> max_instant"
  then have d: "t div 86400000000 \<le> 3652058" by (simp add: max_instant_def)
  obtain y m d' where ymd: "ymd_of_day (t div 86400000000) = (y, m, d')"
    by (cases "ymd_of_day (t div 86400000000)") auto
  have "days_before_year y \<le> 3652058"
    using ymd_of_day_ok[OF ymd] d by (auto simp: day_of_ymd_def)
  then have "y < 10000"
    unfolding days_before_year_def Let_def by linarith
  with ymd show ?thesis by simp
qed

text \<open>A text assembled from seven digit groups, taken apart again.\<close>

lemma parse_assembled:
  assumes len: "length Y = 4" "length M = 2" "length D = 2" "length h = 2" "length mi = 2" "length sc = 2"
    "length us = 6"
    and dig: "list_all is_digit Y" "list_all is_digit M" "list_all is_digit D" "list_all is_digit h"
    "list_all is_digit mi" "list_all is_digit sc" "list_all is_digit us"
    and ok: "read_nat Y \<noteq> 0" "read_nat M \<noteq> 0" "read_nat M \<le> 12" "read_nat D \<noteq> 0"
    "read_nat D \<le> days_in_month (is_leap (read_nat Y)) (read_nat M)"
    "read_nat h \<le> 23" "read_nat mi \<le> 59" "read_nat sc \<le> 59"
  shows "parse_time (Y @ ''-'' @ M @ ''-'' @ D @ ''T'' @ h @ '':'' @ mi @ '':'' @ sc
       @ (if b then [] else CHR ''.'' # us) @ ''Z'')
    = Some (((day_of_ymd (read_nat Y) (read_nat M) (read_nat D) * 24 + read_nat h) * 60
        + read_nat mi) * 60000000 + read_nat sc * 1000000 + (if b then 0 else read_nat us))"
proof -
  have two: "\<exists>a b. xs = [a, b]" if "length xs = 2" for xs :: string
    using that by (auto simp: numeral_2_eq_2 length_Suc_conv)
  obtain y0 y1 y2 y3 where Y: "Y = [y0, y1, y2, y3]"
    using len(1) by (auto simp: numeral_eq_Suc length_Suc_conv)
  obtain u0 u1 u2 u3 u4 u5 where us: "us = [u0, u1, u2, u3, u4, u5]"
    using len(7) by (auto simp: numeral_eq_Suc length_Suc_conv)
  obtain m0 m1 where M: "M = [m0, m1]" using two[OF len(2)] by blast
  obtain d0 d1 where D: "D = [d0, d1]" using two[OF len(3)] by blast
  obtain h0 h1 where h: "h = [h0, h1]" using two[OF len(4)] by blast
  obtain i0 i1 where mi: "mi = [i0, i1]" using two[OF len(5)] by blast
  obtain s0 s1 where sc: "sc = [s0, s1]" using two[OF len(6)] by blast
  show ?thesis
    using dig ok unfolding Y M D h mi sc us
    by (cases b) (simp_all add: parse_time_def iso_shape_def field_def all_digits_def Let_def)
qed

lemma days_in_month_le: "1 \<le> k \<Longrightarrow> k \<le> 12 \<Longrightarrow> days_in_month l k \<le> 31"
proof -
  assume "1 \<le> k" "k \<le> 12"
  then have "k \<in> set [1..<13]" by simp
  moreover have "[1..<13] = [1, 2, 3, 4, 5, 6, 7, 8, 9, 10, 11, 12 :: nat]" by (simp add: upt_rec)
  ultimately have "k \<in> set [1, 2, 3, 4, 5, 6, 7, 8, 9, 10, 11, 12]" by (simp only:)
  then show ?thesis
    by (cases l) (auto simp: days_in_month_def days_before_month_def month_starts_def)
qed

theorem parse_iso:
  assumes "t \<le> max_instant" shows "parse_time (iso t) = Some t"
proof -
  define day r where "day = t div 86400000000" and "r = t mod 86400000000"
  define sec us where "sec = r div 1000000" and "us = r mod 1000000"
  obtain y m d where ymd: "ymd_of_day day = (y, m, d)" by (cases "ymd_of_day day") auto
  note ok = ymd_of_day_ok[OF ymd]
  have y4: "y < 10 ^ 4" using year_bound[OF assms] ymd by (simp add: day_def)
  have sec: "sec < 86400" unfolding sec_def r_def by (simp add: less_mult_imp_div_less)
  have "m \<le> 12" "d \<le> 31" using ok days_in_month_le[of m "is_leap y"] by linarith+
  then have two: "m < 10 ^ 2" "d < 10 ^ 2" "sec div 3600 < 10 ^ 2" "sec mod 3600 div 60 < 10 ^ 2"
    "sec mod 60 < 10 ^ 2" using sec by auto
  have six: "us < 10 ^ 6" by (simp add: us_def)
  note pads = pad_ok[OF y4 zero_less_numeral] pad_ok[OF two(1) zero_less_numeral] pad_ok[OF two(2) zero_less_numeral] pad_ok[OF two(3) zero_less_numeral]
    pad_ok[OF two(4) zero_less_numeral] pad_ok[OF two(5) zero_less_numeral] pad_ok[OF six zero_less_numeral]
  have lims: "sec div 3600 \<le> 23" "sec mod 3600 div 60 \<le> 59" "sec mod 60 \<le> 59"
    using sec by auto
  have "sec mod 3600 mod 60 = sec mod 60" by (simp add: mod_mod_cancel)
  then have split: "sec = sec div 3600 * 3600 + sec mod 3600 div 60 * 60 + sec mod 60"
    using div_mult_mod_eq[of sec 3600] div_mult_mod_eq[of "sec mod 3600" 60] by linarith
  have t: "t = day * 86400000000 + (sec * 1000000 + us)"
    by (simp add: day_def r_def sec_def us_def)
  have shape: "iso t = pad 4 y @ ''-'' @ pad 2 m @ ''-'' @ pad 2 d @ ''T'' @ pad 2 (sec div 3600) @ '':''
      @ pad 2 (sec mod 3600 div 60) @ '':'' @ pad 2 (sec mod 60)
      @ (if us = 0 then [] else CHR ''.'' # pad 6 us) @ ''Z''"
    by (simp add: iso_def Let_def ymd flip: day_def r_def sec_def us_def)
  have "parse_time (iso t) = Some (((day_of_ymd (read_nat (pad 4 y)) (read_nat (pad 2 m))
        (read_nat (pad 2 d)) * 24 + read_nat (pad 2 (sec div 3600))) * 60
      + read_nat (pad 2 (sec mod 3600 div 60))) * 60000000 + read_nat (pad 2 (sec mod 60)) * 1000000
      + (if us = 0 then 0 else read_nat (pad 6 us)))"
    unfolding shape
  proof (rule parse_assembled)
    show "read_nat (pad 4 y) \<noteq> 0" "read_nat (pad 2 m) \<noteq> 0" "read_nat (pad 2 m) \<le> 12"
      "read_nat (pad 2 d) \<noteq> 0"
      "read_nat (pad 2 d) \<le> days_in_month (is_leap (read_nat (pad 4 y))) (read_nat (pad 2 m))"
      using ok unfolding pads by simp_all
  qed (simp_all only: pads lims)
  also have "\<dots> = Some (((day * 24 + sec div 3600) * 60 + sec mod 3600 div 60) * 60000000
      + sec mod 60 * 1000000 + us)"
    unfolding pads using ok by simp
  also have "\<dots> = Some t"
    unfolding t using split by simp
  finally show ?thesis .
qed

end
