(* ===== verification/ScopeStore.thy ===== *)
theory ScopeStore
  imports Placement Clock
begin

text \<open>
  The durable document of \<open>mutation_scope.py\<close>: \<open>SessionObjectReadBinding\<close>,
  \<open>MutationScopeRecord\<close> with its sealed digest, their JSON form, the authority state
  (\<open>authority.json\<close>: scopes, leases, attempts, workspaces, placement generation), loading
  and durable writing. A scope entry stays raw JSON until it is read, as in the code, so
  that a damaged or forged entry is found when it is used. A field of the wrong JSON type
  is rejected as corrupt when the record is decoded.
\<close>

section \<open>Session object bindings\<close>

record session_binding =
  sb_cleanup_required :: bool
  sb_session_id :: int
  sb_window_station_identity :: string
  sb_desktop_identity :: string
  sb_window_station_mask :: int
  sb_desktop_mask :: int

definition provider_identity_ok :: "string \<Rightarrow> bool" where
  "provider_identity_ok s \<longleftrightarrow> strip s \<noteq> [] \<and> length s \<le> 512"

definition session_binding_ok :: "session_binding \<Rightarrow> bool" where
  "session_binding_ok b \<longleftrightarrow> sb_cleanup_required b \<and> sb_session_id b = 0
     \<and> provider_identity_ok (sb_window_station_identity b) \<and> provider_identity_ok (sb_desktop_identity b)
     \<and> 0 < sb_window_station_mask b \<and> 0 < sb_desktop_mask b"

definition session_binding_to_json :: "session_binding \<Rightarrow> pyval" where
  "session_binding_to_json b = VDict
    [(''cleanup_required'', VBool (sb_cleanup_required b)),
     (''desktop_identity'', VStr (sb_desktop_identity b)),
     (''desktop_mask'', VInt (sb_desktop_mask b)),
     (''session_id'', VInt (sb_session_id b)),
     (''window_station_identity'', VStr (sb_window_station_identity b)),
     (''window_station_mask'', VInt (sb_window_station_mask b))]"

fun as_str :: "pyval \<Rightarrow> string option" where
  "as_str (VStr s) = Some s" | "as_str _ = None"

fun as_int :: "pyval \<Rightarrow> int option" where
  "as_int (VInt i) = Some i" | "as_int _ = None"

fun as_bool :: "pyval \<Rightarrow> bool option" where
  "as_bool (VBool b) = Some b" | "as_bool _ = None"

fun as_opt_str :: "pyval \<Rightarrow> string option option" where
  "as_opt_str VNull = Some None" | "as_opt_str (VStr s) = Some (Some s)" | "as_opt_str _ = None"

fun as_strs :: "pyval list \<Rightarrow> string list option" where
  "as_strs [] = Some []"
| "as_strs (v # vs) = (case as_str v of None \<Rightarrow> None | Some s \<Rightarrow> map_option ((#) s) (as_strs vs))"

text \<open>\<open>tuple(payload.get(k) or ())\<close>.\<close>

fun as_str_tuple :: "pyval \<Rightarrow> string list option" where
  "as_str_tuple (VList vs) = as_strs vs" | "as_str_tuple VNull = Some []" | "as_str_tuple _ = None"

definition session_binding_keys :: "string list" where
  "session_binding_keys = [''cleanup_required'', ''desktop_identity'', ''desktop_mask'',
     ''session_id'', ''window_station_identity'', ''window_station_mask'']"

definition session_binding_from_json :: "pyval \<Rightarrow> session_binding option" where
  "session_binding_from_json v = (case v of
     VDict d \<Rightarrow>
      (if set (keys d) \<noteq> set session_binding_keys then None else
       Option.bind (as_bool (dget d ''cleanup_required'')) (\<lambda>c.
       Option.bind (as_int (dget d ''session_id'')) (\<lambda>s.
       Option.bind (as_str (dget d ''window_station_identity'')) (\<lambda>wi.
       Option.bind (as_str (dget d ''desktop_identity'')) (\<lambda>di.
       Option.bind (as_int (dget d ''window_station_mask'')) (\<lambda>wm.
       Option.bind (as_int (dget d ''desktop_mask'')) (\<lambda>dm.
       let b = \<lparr>sb_cleanup_required = c, sb_session_id = s, sb_window_station_identity = wi,
                sb_desktop_identity = di, sb_window_station_mask = wm, sb_desktop_mask = dm\<rparr>
       in if session_binding_ok b then Some b else None)))))))
   | _ \<Rightarrow> None)"

section \<open>Scope records\<close>

datatype scope_state = Provisioned | Active | Terminal | Revoked | Expired

fun state_text :: "scope_state \<Rightarrow> string" where
  "state_text Provisioned = ''provisioned''"
| "state_text Active = ''active''"
| "state_text Terminal = ''terminal''"
| "state_text Revoked = ''revoked''"
| "state_text Expired = ''expired''"

definition state_of_text :: "string \<Rightarrow> scope_state option" where
  "state_of_text s = List.find (\<lambda>x. state_text x = s) [Provisioned, Active, Terminal, Revoked, Expired]"

text \<open>The order in which a scope can pass through its states; the code never goes back.\<close>

fun state_rank :: "scope_state \<Rightarrow> nat" where
  "state_rank Provisioned = 0"
| "state_rank Active = 1"
| "state_rank Expired = 2"
| "state_rank Revoked = 3"
| "state_rank Terminal = 4"

lemma state_rank_inj [simp]: "state_rank a = state_rank b \<longleftrightarrow> a = b"
  by (cases a; cases b) simp_all

instantiation scope_state :: linorder
begin

definition less_eq_scope_state :: "scope_state \<Rightarrow> scope_state \<Rightarrow> bool" where
  "less_eq_scope_state a b \<longleftrightarrow> state_rank a \<le> state_rank b"

definition less_scope_state :: "scope_state \<Rightarrow> scope_state \<Rightarrow> bool" where
  "less_scope_state a b \<longleftrightarrow> state_rank a < state_rank b"

instance
  by standard (auto simp: less_eq_scope_state_def less_scope_state_def)

end

record scope_record =
  sr_workspace_id :: string
  sr_scope_id :: string
  sr_generation :: int
  sr_unique_lease_key :: string
  sr_attempt_key :: string
  sr_state :: scope_state
  sr_project_id :: string
  sr_task_id :: string
  sr_run_id :: string
  sr_attempt_id :: string
  sr_slice_id :: "string option"
  sr_semantic_identity_digest :: string
  sr_repository_identity_digest :: string
  sr_placement_ref :: string
  sr_placement_generation :: int
  sr_policy_digest :: string
  sr_exact_workspace :: string
  sr_exact_workspace_digest :: string
  sr_protected_inventory_digest :: string
  sr_allowed_operation_classes :: "string list"
  sr_issued_at :: string
  sr_expires_at :: string
  sr_scope_digest :: string
  sr_sandbox_identity :: "string option"
  sr_active_job_ids :: "string list"
  sr_active_process_ids :: "string list"
  sr_sandbox_write_authority_present :: bool
  sr_runtime_read_authority_roots :: "string list"
  sr_session_object_read_binding :: "session_binding option"
  sr_terminalized_at :: "string option"

definition sr_current :: "scope_record \<Rightarrow> bool" where
  "sr_current r \<longleftrightarrow> sr_state r \<in> {Provisioned, Active}"

lemma sr_current_iff: "sr_current r \<longleftrightarrow> sr_state r \<le> Active"
  by (cases "sr_state r") (simp_all add: sr_current_def less_eq_scope_state_def)

definition vopt :: "string option \<Rightarrow> pyval" where
  "vopt s = (case s of None \<Rightarrow> VNull | Some x \<Rightarrow> VStr x)"

definition immutable_digest_payload :: "scope_record \<Rightarrow> pyval" where
  "immutable_digest_payload r = VDict
    [(''workspace_id'', VStr (sr_workspace_id r)),
     (''scope_id'', VStr (sr_scope_id r)),
     (''generation'', VInt (sr_generation r)),
     (''unique_lease_key'', VStr (sr_unique_lease_key r)),
     (''attempt_key'', VStr (sr_attempt_key r)),
     (''project_id'', VStr (sr_project_id r)),
     (''task_id'', VStr (sr_task_id r)),
     (''run_id'', VStr (sr_run_id r)),
     (''attempt_id'', VStr (sr_attempt_id r)),
     (''slice_id'', vopt (sr_slice_id r)),
     (''semantic_identity_digest'', VStr (sr_semantic_identity_digest r)),
     (''repository_identity_digest'', VStr (sr_repository_identity_digest r)),
     (''placement_ref'', VStr (sr_placement_ref r)),
     (''placement_generation'', VInt (sr_placement_generation r)),
     (''policy_digest'', VStr (sr_policy_digest r)),
     (''exact_workspace'', VStr (sr_exact_workspace r)),
     (''exact_workspace_digest'', VStr (sr_exact_workspace_digest r)),
     (''protected_inventory_digest'', VStr (sr_protected_inventory_digest r)),
     (''allowed_operation_classes'', vstrs (sr_allowed_operation_classes r)),
     (''issued_at'', VStr (sr_issued_at r)),
     (''expires_at'', VStr (sr_expires_at r))]"

definition scope_digest_of :: "world \<Rightarrow> scope_record \<Rightarrow> string" where
  "scope_digest_of w r = digest (w_sha w) (immutable_digest_payload r)"

definition digest_verified :: "world \<Rightarrow> scope_record \<Rightarrow> bool" where
  "digest_verified w r \<longleftrightarrow> scope_digest_of w r = sr_scope_digest r"

definition record_to_json :: "scope_record \<Rightarrow> pyval" where
  "record_to_json r = VDict
    [(''active_job_ids'', vstrs (sr_active_job_ids r)),
     (''active_process_ids'', vstrs (sr_active_process_ids r)),
     (''allowed_operation_classes'', vstrs (sr_allowed_operation_classes r)),
     (''attempt_id'', VStr (sr_attempt_id r)),
     (''attempt_key'', VStr (sr_attempt_key r)),
     (''exact_workspace'', VStr (sr_exact_workspace r)),
     (''exact_workspace_digest'', VStr (sr_exact_workspace_digest r)),
     (''expires_at'', VStr (sr_expires_at r)),
     (''generation'', VInt (sr_generation r)),
     (''issued_at'', VStr (sr_issued_at r)),
     (''placement_generation'', VInt (sr_placement_generation r)),
     (''placement_ref'', VStr (sr_placement_ref r)),
     (''policy_digest'', VStr (sr_policy_digest r)),
     (''project_id'', VStr (sr_project_id r)),
     (''protected_inventory_digest'', VStr (sr_protected_inventory_digest r)),
     (''repository_identity_digest'', VStr (sr_repository_identity_digest r)),
     (''run_id'', VStr (sr_run_id r)),
     (''runtime_read_authority_roots'', vstrs (sr_runtime_read_authority_roots r)),
     (''sandbox_identity'', vopt (sr_sandbox_identity r)),
     (''sandbox_write_authority_present'', VBool (sr_sandbox_write_authority_present r)),
     (''scope_digest'', VStr (sr_scope_digest r)),
     (''scope_id'', VStr (sr_scope_id r)),
     (''semantic_identity_digest'', VStr (sr_semantic_identity_digest r)),
     (''session_object_read_binding'', (case sr_session_object_read_binding r of
        None \<Rightarrow> VNull | Some b \<Rightarrow> session_binding_to_json b)),
     (''slice_id'', vopt (sr_slice_id r)),
     (''state'', VStr (state_text (sr_state r))),
     (''task_id'', VStr (sr_task_id r)),
     (''terminalized_at'', vopt (sr_terminalized_at r)),
     (''unique_lease_key'', VStr (sr_unique_lease_key r)),
     (''workspace_id'', VStr (sr_workspace_id r))]"

definition required_record_keys :: "string list" where
  "required_record_keys = [''workspace_id'', ''scope_id'', ''generation'', ''unique_lease_key'',
     ''attempt_key'', ''state'', ''project_id'', ''task_id'', ''run_id'', ''attempt_id'', ''slice_id'',
     ''semantic_identity_digest'', ''repository_identity_digest'', ''placement_ref'',
     ''placement_generation'', ''policy_digest'', ''exact_workspace'', ''exact_workspace_digest'',
     ''protected_inventory_digest'', ''issued_at'', ''expires_at'', ''scope_digest'']"

definition optional_record_keys :: "string list" where
  "optional_record_keys = [''allowed_operation_classes'', ''sandbox_identity'', ''active_job_ids'',
     ''active_process_ids'', ''sandbox_write_authority_present'', ''runtime_read_authority_roots'',
     ''session_object_read_binding'', ''terminalized_at'']"

definition optional_binding :: "pyval \<Rightarrow> session_binding option option" where
  "optional_binding v = (if v = VNull then Some None
     else map_option Some (session_binding_from_json v))"

definition decode_record :: "(string \<times> pyval) list \<Rightarrow> scope_record option" where
  "decode_record d =
     (let str = (\<lambda>k. as_str (dget d k)); int = (\<lambda>k. as_int (dget d k)) in
      if \<not> set (keys d) \<subseteq> set (required_record_keys @ optional_record_keys)
         \<or> \<not> set required_record_keys \<subseteq> set (keys d) then None else
      Option.bind (str ''workspace_id'') (\<lambda>a1. Option.bind (str ''scope_id'') (\<lambda>a2.
      Option.bind (int ''generation'') (\<lambda>a3. Option.bind (str ''unique_lease_key'') (\<lambda>a4.
      Option.bind (str ''attempt_key'') (\<lambda>a5.
      Option.bind (Option.bind (str ''state'') state_of_text) (\<lambda>a6.
      Option.bind (str ''project_id'') (\<lambda>a7. Option.bind (str ''task_id'') (\<lambda>a8.
      Option.bind (str ''run_id'') (\<lambda>a9. Option.bind (str ''attempt_id'') (\<lambda>a10.
      Option.bind (as_opt_str (dget d ''slice_id'')) (\<lambda>a11.
      Option.bind (str ''semantic_identity_digest'') (\<lambda>a12.
      Option.bind (str ''repository_identity_digest'') (\<lambda>a13.
      Option.bind (str ''placement_ref'') (\<lambda>a14. Option.bind (int ''placement_generation'') (\<lambda>a15.
      Option.bind (str ''policy_digest'') (\<lambda>a16. Option.bind (str ''exact_workspace'') (\<lambda>a17.
      Option.bind (str ''exact_workspace_digest'') (\<lambda>a18.
      Option.bind (str ''protected_inventory_digest'') (\<lambda>a19.
      Option.bind (as_str_tuple (dget d ''allowed_operation_classes'')) (\<lambda>a20.
      Option.bind (str ''issued_at'') (\<lambda>a21. Option.bind (str ''expires_at'') (\<lambda>a22.
      Option.bind (str ''scope_digest'') (\<lambda>a23.
      Option.bind (as_opt_str (dget d ''sandbox_identity'')) (\<lambda>a24.
      Option.bind (as_str_tuple (dget d ''active_job_ids'')) (\<lambda>a25.
      Option.bind (as_str_tuple (dget d ''active_process_ids'')) (\<lambda>a26.
      Option.bind (as_bool (dget_default d ''sandbox_write_authority_present'' (VBool False))) (\<lambda>a27.
      Option.bind (as_str_tuple (dget d ''runtime_read_authority_roots'')) (\<lambda>a28.
      Option.bind (optional_binding (dget d ''session_object_read_binding'')) (\<lambda>a29.
      Option.bind (as_opt_str (dget d ''terminalized_at'')) (\<lambda>a30.
        Some \<lparr>sr_workspace_id = a1, sr_scope_id = a2, sr_generation = a3, sr_unique_lease_key = a4,
          sr_attempt_key = a5, sr_state = a6, sr_project_id = a7, sr_task_id = a8, sr_run_id = a9,
          sr_attempt_id = a10, sr_slice_id = a11, sr_semantic_identity_digest = a12,
          sr_repository_identity_digest = a13, sr_placement_ref = a14, sr_placement_generation = a15,
          sr_policy_digest = a16, sr_exact_workspace = a17, sr_exact_workspace_digest = a18,
          sr_protected_inventory_digest = a19, sr_allowed_operation_classes = a20, sr_issued_at = a21,
          sr_expires_at = a22, sr_scope_digest = a23, sr_sandbox_identity = a24,
          sr_active_job_ids = a25, sr_active_process_ids = a26,
          sr_sandbox_write_authority_present = a27, sr_runtime_read_authority_roots = a28,
          sr_session_object_read_binding = a29, sr_terminalized_at = a30\<rparr>)))))))))))))))))))))))))))))))"

definition record_from_json :: "world \<Rightarrow> pyval \<Rightarrow> scope_record scope_result" where
  "record_from_json w v = (case v of
     VDict d \<Rightarrow> (case decode_record d of
        None \<Rightarrow> Inl ScopeCorrupt
      | Some r \<Rightarrow> if digest_verified w r then Inr r else Inl ScopeCorrupt)
   | _ \<Rightarrow> Inl ScopeCorrupt)"

definition binding_wf :: "scope_record \<Rightarrow> bool" where
  "binding_wf r \<longleftrightarrow> (case sr_session_object_read_binding r of None \<Rightarrow> True
     | Some b \<Rightarrow> session_binding_ok b)"

lemma as_strs_map [simp]: "as_strs (map VStr ws) = Some ws"
  by (induction ws) auto

lemma as_vstrs [simp]: "as_str_tuple (vstrs ws) = Some ws"
  by (simp add: vstrs_def)

lemma as_vopt [simp]: "as_opt_str (vopt s) = Some s"
  by (cases s) (auto simp: vopt_def)

lemma state_of_state_text [simp]: "state_of_text (state_text s) = Some s"
  by (cases s) (simp_all add: state_of_text_def)

lemma session_binding_roundtrip [simp]:
  "session_binding_ok b \<Longrightarrow> session_binding_from_json (session_binding_to_json b) = Some b"
  by (cases b) (simp add: session_binding_from_json_def session_binding_to_json_def
      session_binding_keys_def dget_def)

lemma optional_binding_roundtrip [simp]:
  "binding_wf r \<Longrightarrow> optional_binding (case sr_session_object_read_binding r of None \<Rightarrow> VNull
     | Some b \<Rightarrow> session_binding_to_json b) = Some (sr_session_object_read_binding r)"
  by (auto simp: binding_wf_def optional_binding_def session_binding_to_json_def[THEN arg_cong[where f = "\<lambda>v. v = VNull"]]
      split: option.splits)

lemma decode_record_to_json:
  assumes "binding_wf r" shows "decode_record (items_of (record_to_json r)) = Some r"
proof -
  have "decode_record (items_of (record_to_json r)) = Some (scope_record.truncate r)"
    using assms
    unfolding decode_record_def record_to_json_def required_record_keys_def optional_record_keys_def
    by (simp add: dget_def dget_default_def Let_def scope_record.truncate_def)
  then show ?thesis by (cases r) (simp add: scope_record.truncate_def)
qed

lemma record_roundtrip:
  "binding_wf r \<Longrightarrow> digest_verified w r \<Longrightarrow> record_from_json w (record_to_json r) = Inr r"
  using decode_record_to_json[of r] by (simp add: record_from_json_def record_to_json_def)

lemma record_from_json_verified:
  "record_from_json w v = Inr r \<Longrightarrow> digest_verified w r"
  by (auto simp: record_from_json_def split: pyval.splits option.splits if_splits)

lemma record_from_json_error: "record_from_json w v = Inl e \<Longrightarrow> e = ScopeCorrupt"
  by (auto simp: record_from_json_def split: pyval.splits option.splits if_splits)

section \<open>The authority document\<close>

record authority =
  au_scopes :: "(string \<times> pyval) list"
  au_leases :: "(string \<times> pyval) list"
  au_attempts :: "(string \<times> pyval) list"
  au_workspaces :: "(string \<times> pyval) list"
  au_generation :: "generation_state option"

text \<open>What a reader finds under \<open>authority.json\<close>: no file, unusable bytes, or a document.\<close>

datatype doc_file = Missing | Unreadable | Doc pyval

definition empty_state :: authority where
  "empty_state = \<lparr>au_scopes = [], au_leases = [], au_attempts = [], au_workspaces = [],
     au_generation = None\<rparr>"

definition parse_generation :: "pyval \<Rightarrow> generation_state option scope_result" where
  "parse_generation v = (case v of
     VNull \<Rightarrow> Inr None
   | VDict g \<Rightarrow>
      (case (dget g ''policy_digest'', py_int (dget g ''generation'')) of
         (VStr dg, Inr n) \<Rightarrow>
           if is_int (dget g ''generation'') \<and> 0 < n
           then Inr (Some \<lparr>gs_policy_digest = dg, gs_generation = n\<rparr>) else Inl ScopeCorrupt
       | _ \<Rightarrow> Inl ScopeCorrupt)
   | _ \<Rightarrow> Inl ScopeCorrupt)"

definition load_state :: "doc_file \<Rightarrow> authority scope_result" where
  "load_state f = (case f of
     Missing \<Rightarrow> Inr empty_state
   | Unreadable \<Rightarrow> Inl ScopeCorrupt
   | Doc v \<Rightarrow> (case v of
       VDict d \<Rightarrow>
        (if dget d ''version'' \<notin> {VInt 1, VBool True} then Inl ScopeCorrupt
         else if \<not> (is_dict (dget d ''scopes'') \<and> is_dict (dget d ''leases'')
                  \<and> is_dict (dget d ''attempts'') \<and> is_dict (dget d ''workspaces''))
         then Inl ScopeCorrupt else
         rbind (parse_generation (dget d ''placement_generation'')) (\<lambda>g.
           Inr \<lparr>au_scopes = items_of (dget d ''scopes''), au_leases = items_of (dget d ''leases''),
             au_attempts = items_of (dget d ''attempts''),
             au_workspaces = items_of (dget d ''workspaces''), au_generation = g\<rparr>))
     | _ \<Rightarrow> Inl ScopeCorrupt))"

definition generation_to_json :: "generation_state option \<Rightarrow> pyval" where
  "generation_to_json g = (case g of None \<Rightarrow> VNull
     | Some s \<Rightarrow> VDict [(''generation'', VInt (gs_generation s)),
                        (''policy_digest'', VStr (gs_policy_digest s))])"

definition dump_state :: "authority \<Rightarrow> pyval" where
  "dump_state st = VDict
    [(''attempts'', VDict (au_attempts st)),
     (''leases'', VDict (au_leases st)),
     (''placement_generation'', generation_to_json (au_generation st)),
     (''scopes'', VDict (au_scopes st)),
     (''version'', VInt 1),
     (''workspaces'', VDict (au_workspaces st))]"

text \<open>
  \<open>_durable_write_state\<close> replaces the file by the text \<open>json.dumps(state, sort_keys=True)\<close>;
  reading it back gives the normalised document.
\<close>

definition durable_write :: "authority \<Rightarrow> doc_file" where
  "durable_write st = Doc (json_norm (dump_state st))"

definition lookup_record :: "world \<Rightarrow> authority \<Rightarrow> string \<Rightarrow> scope_record scope_result" where
  "lookup_record w st sid = (case dget (au_scopes st) sid of
     VNull \<Rightarrow> Inl ScopeNotCurrent
   | VDict d \<Rightarrow> rbind (record_from_json w (VDict d)) (\<lambda>r.
       if sr_scope_id r \<noteq> sid then Inl ScopeCorrupt else Inr r)
   | _ \<Rightarrow> Inl ScopeCorrupt)"

definition put_record :: "authority \<Rightarrow> scope_record \<Rightarrow> authority" where
  "put_record st r = st\<lparr>au_scopes := AList.update (sr_scope_id r) (record_to_json r) (au_scopes st)\<rparr>"

definition read_record :: "world \<Rightarrow> doc_file \<Rightarrow> string \<Rightarrow> scope_record scope_result" where
  "read_record w f sid = rbind (load_state f) (\<lambda>st. lookup_record w st sid)"

section \<open>Writing and reading back\<close>

text \<open>A table as it stands on disk: one entry per key, every value in canonical order.\<close>

definition canonical_items :: "(string \<times> pyval) list \<Rightarrow> bool" where
  "canonical_items d \<longleftrightarrow> distinct (keys d) \<and> (\<forall>v \<in> snd ` set d. json_norm v = v)"

lemma canonical_items_Nil [simp]: "canonical_items []"
  by (simp add: canonical_items_def)

lemma canonical_items_update [intro]:
  assumes "canonical_items d" "json_norm v = v"
  shows "canonical_items (AList.update k v d)"
proof -
  have "snd ` set (AList.update k v d) \<subseteq> insert v (snd ` set d)"
    by (induction d) auto
  moreover have "\<forall>x \<in> insert v (snd ` set d). json_norm x = x"
    using assms by (simp add: canonical_items_def)
  ultimately have "\<forall>x \<in> snd ` set (AList.update k v d). json_norm x = x" by blast
  then show ?thesis using assms(1) by (simp add: canonical_items_def)
qed

lemma map_snd_id: "(\<forall>v \<in> snd ` set d. f v = v) \<Longrightarrow> map (\<lambda>(k, v). (k, f v)) d = d"
  by (induction d) auto

lemma json_norm_items: "canonical_items d \<Longrightarrow> json_norm (VDict d) = VDict (sorted_items d)"
  by (simp add: canonical_items_def map_snd_id)

lemma canonical_sorted_items [simp]: "canonical_items (sorted_items d) = canonical_items d"
  by (auto simp: canonical_items_def)

lemma sorted_items_id: "sorted (keys d) \<Longrightarrow> sorted_items d = d"
  by (simp add: sorted_items_def sort_key_id_if_sorted)

lemma json_norm_keys:
  "keys d = ks \<Longrightarrow> sorted ks \<Longrightarrow> \<forall>v \<in> snd ` set d. json_norm v = v
     \<Longrightarrow> json_norm (VDict d) = VDict d"
  by (simp add: map_snd_id sorted_items_id)

lemma json_norm_vopt [simp]: "json_norm (vopt s) = vopt s"
  by (cases s) (simp_all add: vopt_def)

lemma sorted_binding_keys: "sorted session_binding_keys"
  by code_simp

lemma json_norm_binding [simp]: "json_norm (session_binding_to_json b) = session_binding_to_json b"
  unfolding session_binding_to_json_def
  by (rule json_norm_keys[OF _ sorted_binding_keys]) (simp_all add: session_binding_keys_def)

definition record_keys :: "string list" where
  "record_keys = [''active_job_ids'', ''active_process_ids'', ''allowed_operation_classes'',
     ''attempt_id'', ''attempt_key'', ''exact_workspace'',
     ''exact_workspace_digest'', ''expires_at'', ''generation'', ''issued_at'',
     ''placement_generation'', ''placement_ref'', ''policy_digest'', ''project_id'',
     ''protected_inventory_digest'', ''repository_identity_digest'', ''run_id'',
     ''runtime_read_authority_roots'', ''sandbox_identity'',
     ''sandbox_write_authority_present'', ''scope_digest'', ''scope_id'',
     ''semantic_identity_digest'', ''session_object_read_binding'', ''slice_id'',
     ''state'', ''task_id'', ''terminalized_at'', ''unique_lease_key'',
     ''workspace_id'']"

lemma sorted_record_keys: "sorted record_keys"
  by code_simp

lemma json_norm_record [simp]: "json_norm (record_to_json r) = record_to_json r"
  unfolding record_to_json_def
  by (rule json_norm_keys[OF _ sorted_record_keys]) (simp_all add: record_keys_def split: option.split)

text \<open>Two states with the same tables.\<close>

definition same_tables :: "authority \<Rightarrow> authority \<Rightarrow> bool" where
  "same_tables a b \<longleftrightarrow> map_of (au_scopes a) = map_of (au_scopes b)
     \<and> map_of (au_leases a) = map_of (au_leases b) \<and> map_of (au_attempts a) = map_of (au_attempts b)
     \<and> map_of (au_workspaces a) = map_of (au_workspaces b) \<and> au_generation a = au_generation b"

definition canonical_state :: "authority \<Rightarrow> bool" where
  "canonical_state st \<longleftrightarrow> canonical_items (au_scopes st) \<and> canonical_items (au_leases st)
     \<and> canonical_items (au_attempts st) \<and> canonical_items (au_workspaces st)
     \<and> (\<forall>g. au_generation st = Some g \<longrightarrow> 0 < gs_generation g)"

definition stored_state :: "authority \<Rightarrow> authority" where
  "stored_state st = \<lparr>au_scopes = sorted_items (au_scopes st), au_leases = sorted_items (au_leases st),
     au_attempts = sorted_items (au_attempts st), au_workspaces = sorted_items (au_workspaces st),
     au_generation = au_generation st\<rparr>"

definition generation_keys :: "string list" where
  "generation_keys = [''generation'', ''policy_digest'']"

lemma sorted_generation_keys: "sorted generation_keys"
  by code_simp

lemma json_norm_generation [simp]: "json_norm (generation_to_json g) = generation_to_json g"
proof (cases g)
  case (Some s)
  then show ?thesis unfolding generation_to_json_def
    by (simp only: option.case)
      (rule json_norm_keys[OF _ sorted_generation_keys], simp_all add: generation_keys_def)
qed (simp add: generation_to_json_def)

lemma parse_generation_to_json:
  "\<forall>s. g = Some s \<longrightarrow> 0 < gs_generation s \<Longrightarrow> parse_generation (generation_to_json g) = Inr g"
  by (cases g) (auto simp: parse_generation_def generation_to_json_def dget_def)

definition document_keys :: "string list" where
  "document_keys = [''attempts'', ''leases'', ''placement_generation'', ''scopes'', ''version'',
     ''workspaces'']"

lemma sorted_document_keys: "sorted document_keys"
  by code_simp

lemma durable_write_eq:
  assumes "canonical_state st"
  shows "durable_write st = Doc (dump_state (stored_state st))"
proof -
  let ?d = "[(''attempts'', VDict (au_attempts st)), (''leases'', VDict (au_leases st)),
     (''placement_generation'', generation_to_json (au_generation st)),
     (''scopes'', VDict (au_scopes st)), (''version'', VInt 1),
     (''workspaces'', VDict (au_workspaces st))]"
  have ks: "sorted (keys (map (\<lambda>(k, v). (k, json_norm v)) ?d))"
    using sorted_document_keys by (simp add: document_keys_def)
  show ?thesis
    using assms
    unfolding durable_write_def dump_state_def stored_state_def json_norm.simps(2)[of ?d]
      sorted_items_id[OF ks] canonical_state_def
    by (simp add: json_norm_items del: json_norm.simps(2))
qed

lemma load_durable_write:
  assumes "canonical_state st"
  shows "load_state (durable_write st) = Inr (stored_state st)"
  using assms
  by (simp add: durable_write_eq load_state_def dump_state_def stored_state_def dget_def
      parse_generation_to_json canonical_state_def)

lemma same_tables_stored [simp]: "canonical_state st \<Longrightarrow> same_tables (stored_state st) st"
  by (simp add: same_tables_def stored_state_def canonical_state_def canonical_items_def)

lemma canonical_stored [simp]: "canonical_state (stored_state st) = canonical_state st"
  by (simp add: stored_state_def canonical_state_def)

lemma lookup_same_tables: "same_tables a b \<Longrightarrow> lookup_record w a sid = lookup_record w b sid"
  by (simp add: lookup_record_def dget_def same_tables_def)

lemma read_after_write:
  "canonical_state st \<Longrightarrow> read_record w (durable_write st) sid = lookup_record w st sid"
  by (simp add: read_record_def load_durable_write lookup_same_tables[OF same_tables_stored])

end
