(* ===== verification/ScopeOps.thy ===== *)
theory ScopeOps
  imports ScopeStore
begin

text \<open>
  The operations of \<open>MutationScopeStore\<close> (\<open>mutation_scope.py\<close>). An operation is a function
  of the document found on disk; it yields the documents it publishes, in order, and its
  result. Each published document replaces \<open>authority.json\<close> atomically, so a process that
  dies, or whose write fails, leaves one of the published documents or the one found. The
  operations run under the exclusive file lock; \<open>terminalize_scope\<close> takes it twice and is
  given as its two locked phases.
\<close>

type_synonym 'a store_op = "doc_file list \<times> 'a scope_result"

definition stop :: "scope_error \<Rightarrow> 'a store_op" where
  "stop e = ([], Inl e)"

definition give :: "'a \<Rightarrow> 'a store_op" where
  "give x = ([], Inr x)"

definition ask :: "'a scope_result \<Rightarrow> ('a \<Rightarrow> 'b store_op) \<Rightarrow> 'b store_op" where
  "ask m k = (case m of Inl e \<Rightarrow> stop e | Inr x \<Rightarrow> k x)"

definition publish :: "authority \<Rightarrow> (doc_file \<Rightarrow> 'b store_op) \<Rightarrow> 'b store_op" where
  "publish st k = (let r = k (durable_write st) in (durable_write st # fst r, snd r))"

definition publish_if :: "bool \<Rightarrow> authority \<Rightarrow> doc_file \<Rightarrow> (doc_file \<Rightarrow> 'b store_op) \<Rightarrow> 'b store_op" where
  "publish_if c st f k = (if c then publish st k else k f)"

definition final_doc :: "doc_file \<Rightarrow> 'a store_op \<Rightarrow> doc_file" where
  "final_doc f m = last (f # fst m)"

section \<open>Checks\<close>

definition normalize_operation_classes :: "string list \<Rightarrow> string list scope_result" where
  "normalize_operation_classes vs =
     (let r = sorted_set (filter (\<lambda>v. v \<noteq> []) (map strip vs)) in
      if r = [] then Inl ScopeValueError else Inr r)"

definition placement_generation_update ::
  "world \<Rightarrow> authority \<Rightarrow> mutation_policy \<Rightarrow> (generation_state \<times> authority \<times> bool) scope_result" where
  "placement_generation_update w st p = rbind (placement_policy_digest w p) (\<lambda>current.
     case au_generation st of
       None \<Rightarrow> (let g = \<lparr>gs_policy_digest = current, gs_generation = 1\<rparr> in
         Inr (g, st\<lparr>au_generation := Some g\<rparr>, True))
     | Some previous \<Rightarrow> (let g = evolve previous current in
         if g \<noteq> previous then Inr (g, st\<lparr>au_generation := Some g\<rparr>, True) else Inr (g, st, False)))"

definition assert_index_binding :: "authority \<Rightarrow> scope_record \<Rightarrow> string \<Rightarrow> unit scope_result" where
  "assert_index_binding st r expected_lease =
     (if map_of (au_leases st) expected_lease \<noteq> Some (VStr (sr_scope_id r)) then Inl ScopeConflict
      else if map_of (au_attempts st) (sr_attempt_key r) \<noteq> Some (VStr (sr_scope_id r)) then Inl ScopeConflict
      else case map_of (au_workspaces st) (sr_exact_workspace_digest r) of
        Some (VDict d) \<Rightarrow>
          if dget d ''scope_id'' \<noteq> VStr (sr_scope_id r) \<or> dget d ''lease_key'' \<noteq> VStr expected_lease
          then Inl ScopeConflict else Inr ()
      | _ \<Rightarrow> Inl ScopeConflict)"

fun assert_no_competing :: "world \<Rightarrow> (string \<times> pyval) list \<Rightarrow> scope_record \<Rightarrow> unit scope_result" where
  "assert_no_competing w [] r = Inr ()"
| "assert_no_competing w ((sid, v) # scopes) r =
     (if sid = sr_scope_id r \<or> \<not> is_dict v then assert_no_competing w scopes r else
      rbind (record_from_json w v) (\<lambda>other.
        if \<not> sr_current other then assert_no_competing w scopes r
        else if sr_unique_lease_key other = sr_unique_lease_key r then Inl ScopeConflict
        else if sr_exact_workspace_digest other = sr_exact_workspace_digest r then Inl ScopeConflict
        else assert_no_competing w scopes r))"

definition parse_instant :: "string \<Rightarrow> nat scope_result" where
  "parse_instant s = of_option ScopeValueError (parse_time s)"

definition mark_expired_if_needed :: "scope_record \<Rightarrow> nat \<Rightarrow> scope_record scope_result" where
  "mark_expired_if_needed r now =
     (if \<not> sr_current r then Inr r else rbind (parse_instant (sr_expires_at r)) (\<lambda>t.
        if t \<le> now then Inr (r\<lparr>sr_state := Expired, sr_terminalized_at := Some (iso now)\<rparr>) else Inr r))"

text \<open>The stripped identity fields of the request, against the record's.\<close>

definition lineage_ok :: "scope_record \<Rightarrow> semantic_identity \<Rightarrow> bool" where
  "lineage_ok r sem \<longleftrightarrow> sr_project_id r = strip (project_id sem) \<and> sr_task_id r = strip (task_id sem)
     \<and> sr_run_id r = strip (run_id sem) \<and> sr_attempt_id r = strip (attempt_id sem)
     \<and> (case sr_slice_id r of None \<Rightarrow> [] | Some x \<Rightarrow> x) = slice_text (slice_id sem)"

definition record_placement :: "scope_record \<Rightarrow> placement_evidence" where
  "record_placement r = \<lparr>pe_placement_ref = sr_placement_ref r, pe_generation = sr_placement_generation r,
     pe_policy_digest = sr_policy_digest r, pe_exact_future_workspace = path_of_text (sr_exact_workspace r),
     pe_exact_workspace_digest = sr_exact_workspace_digest r,
     pe_repository_identity_digest = sr_repository_identity_digest r,
     pe_semantic_identity_digest = sr_semantic_identity_digest r,
     pe_protected_inventory_digest = sr_protected_inventory_digest r\<rparr>"

section \<open>Admission\<close>

text \<open>
  \<open>_revalidate_locked\<close>. The state it mutates is returned also when it raises, because
  \<open>revalidate_scope\<close> and \<open>provision_scope\<close> persist a record that turned out expired.
\<close>

record revalidation =
  rv_state :: authority
  rv_writes :: "doc_file list"
  rv_result :: "(scope_record \<times> bool) scope_result"

definition revalidate_checks ::
  "world \<Rightarrow> authority \<Rightarrow> scope_record \<Rightarrow> generation_state \<Rightarrow> mutation_policy \<Rightarrow> repository_identity
     \<Rightarrow> semantic_identity \<Rightarrow> path list \<Rightarrow> unit scope_result" where
  "revalidate_checks w st r g p repo sem pr =
     (if sr_placement_generation r \<noteq> gs_generation g \<or> sr_policy_digest r \<noteq> gs_policy_digest g
      then Inl BindingMismatch else
      rbind (attempt_key_of w (sr_repository_identity_digest r) sem) (\<lambda>expected_attempt.
      if expected_attempt \<noteq> sr_attempt_key r then Inl BindingMismatch else
      rbind (unique_mutation_lease_key w (sr_repository_identity_digest r) sem
               (sr_placement_generation r) (sr_exact_workspace_digest r)) (\<lambda>expected_key.
      if expected_key \<noteq> sr_unique_lease_key r then Inl BindingMismatch else
      rbind (assert_index_binding st r expected_key) (\<lambda>_.
      rbind (assert_no_competing w (au_scopes st) r) (\<lambda>_.
      if \<not> lineage_ok r sem then Inl BindingMismatch else
      rbind (revalidate_placement w (record_placement r) p repo sem pr) (\<lambda>_. Inr ()))))))"

definition revalidate_locked ::
  "world \<Rightarrow> authority \<Rightarrow> scope_record \<Rightarrow> mutation_policy \<Rightarrow> repository_identity \<Rightarrow> semantic_identity
     \<Rightarrow> path list \<Rightarrow> nat \<Rightarrow> revalidation" where
  "revalidate_locked w st r0 p repo sem pr now =
     (if \<not> digest_verified w r0 then \<lparr>rv_state = st, rv_writes = [], rv_result = Inl ScopeCorrupt\<rparr> else
      case mark_expired_if_needed r0 now of
        Inl e \<Rightarrow> \<lparr>rv_state = st, rv_writes = [], rv_result = Inl e\<rparr>
      | Inr r \<Rightarrow>
        (let changed = (r \<noteq> r0); st1 = (if changed then put_record st r else st) in
         if \<not> sr_current r
         then \<lparr>rv_state = st1, rv_writes = [], rv_result = Inl ScopeNotCurrent\<rparr> else
         case placement_generation_update w st1 p of
           Inl e \<Rightarrow> \<lparr>rv_state = st1, rv_writes = [], rv_result = Inl e\<rparr>
         | Inr (g, st2, generation_changed) \<Rightarrow>
             \<lparr>rv_state = st2, rv_writes = (if generation_changed then [durable_write st2] else []),
              rv_result = rbind (revalidate_checks w st2 r g p repo sem pr) (\<lambda>_. Inr (r, changed))\<rparr>))"

text \<open>\<open>state["scopes"].get(record.scope_id) != record.to_json()\<close>, a comparison of dicts.\<close>

definition entry_differs :: "authority \<Rightarrow> scope_record \<Rightarrow> bool" where
  "entry_differs st r \<longleftrightarrow> (case map_of (au_scopes st) (sr_scope_id r) of
     None \<Rightarrow> True | Some v \<Rightarrow> json_norm v \<noteq> json_norm (record_to_json r))"

definition revalidate_scope ::
  "world \<Rightarrow> doc_file \<Rightarrow> string \<Rightarrow> int \<Rightarrow> mutation_policy \<Rightarrow> repository_identity \<Rightarrow> semantic_identity
     \<Rightarrow> path list \<Rightarrow> nat \<Rightarrow> scope_record store_op" where
  "revalidate_scope w f sid generation p repo sem pr now =
     ask (load_state f) (\<lambda>st. ask (lookup_record w st sid) (\<lambda>r.
     if sr_generation r \<noteq> generation then stop ScopeNotCurrent else
     let v = revalidate_locked w st r p repo sem pr now in
     case rv_result v of
       Inl e \<Rightarrow> (rv_writes v @ (if e = ScopeNotCurrent \<and> entry_differs (rv_state v) r
                              then [durable_write (rv_state v)] else []), Inl e)
     | Inr (validated, changed) \<Rightarrow>
         (rv_writes v @ (if changed then [durable_write (rv_state v)] else []), Inr validated)))"

definition revalidate_scope_for_operation ::
  "world \<Rightarrow> doc_file \<Rightarrow> string \<Rightarrow> int \<Rightarrow> mutation_policy \<Rightarrow> repository_identity \<Rightarrow> semantic_identity
     \<Rightarrow> string \<Rightarrow> path list \<Rightarrow> nat \<Rightarrow> scope_record store_op" where
  "revalidate_scope_for_operation w f sid generation p repo sem required pr now =
     (let operation_class = strip required in
      if operation_class = [] then stop ScopeValueError else
      let v = revalidate_scope w f sid generation p repo sem pr now in
      (fst v, rbind (snd v) (\<lambda>r.
         if operation_class \<notin> set (sr_allowed_operation_classes r) then Inl OperationNotAllowed
         else Inr r)))"

end
