(* ===== verification/ScopeRuntime.thy ===== *)
theory ScopeRuntime
  imports ScopeOps
begin

text \<open>
  The operations of \<open>MutationScopeStore\<close> that bind operating-system authority to a scope
  and release it: sandbox identity, Job and process, runtime-read roots, session objects,
  revocation, and the two read operations. Each loads the document, finds the record, checks
  the request, publishes the updated record and reads it back.
\<close>

definition update_scope ::
  "world \<Rightarrow> doc_file \<Rightarrow> string \<Rightarrow> (authority \<Rightarrow> scope_record \<Rightarrow> unit scope_result)
     \<Rightarrow> (scope_record \<Rightarrow> scope_record) \<Rightarrow> (scope_record \<Rightarrow> bool) \<Rightarrow> scope_record store_op" where
  "update_scope w f sid check upd confirm =
     ask (load_state f) (\<lambda>st. ask (lookup_record w st sid) (\<lambda>r. ask (check st r) (\<lambda>_.
     publish (put_record st (upd r)) (\<lambda>f'. ask (read_record w f' sid) (\<lambda>confirmed.
       if confirm confirmed then give confirmed else stop ScopeCorrupt)))))"

definition assert_unrivalled :: "world \<Rightarrow> authority \<Rightarrow> scope_record \<Rightarrow> unit scope_result" where
  "assert_unrivalled w st r =
     rbind (assert_index_binding st r (sr_unique_lease_key r)) (\<lambda>_.
       assert_no_competing w (au_scopes st) r)"

definition reserve_sandbox_identity ::
  "world \<Rightarrow> doc_file \<Rightarrow> string \<Rightarrow> int \<Rightarrow> string \<Rightarrow> scope_record store_op" where
  "reserve_sandbox_identity w f sid generation sandbox =
     (let identity = strip sandbox in
      if identity = [] then stop ScopeValueError else
      update_scope w f sid
       (\<lambda>st r. if sr_generation r \<noteq> generation \<or> \<not> sr_current r then Inl ScopeNotCurrent else
          rbind (assert_unrivalled w st r) (\<lambda>_.
          if sr_sandbox_identity r \<notin> {None, Some identity} then Inl ScopeConflict else Inr ()))
       (\<lambda>r. r\<lparr>sr_state := Active, sr_sandbox_identity := Some identity,
              sr_sandbox_write_authority_present := True\<rparr>)
       (\<lambda>c. sr_sandbox_identity c = Some identity \<and> sr_sandbox_write_authority_present c))"

definition bind_runtime_process ::
  "world \<Rightarrow> doc_file \<Rightarrow> string \<Rightarrow> int \<Rightarrow> string \<Rightarrow> string \<Rightarrow> int \<Rightarrow> scope_record store_op" where
  "bind_runtime_process w f sid generation sandbox job_id process_id =
     (if job_id = [] \<or> process_id \<le> 0 then stop ScopeValueError else
      update_scope w f sid
       (\<lambda>st r. if sr_generation r \<noteq> generation \<or> \<not> sr_current r then Inl ScopeNotCurrent
          else if sr_sandbox_identity r \<noteq> Some sandbox \<or> \<not> sr_sandbox_write_authority_present r
          then Inl ScopeConflict else assert_unrivalled w st r)
       (\<lambda>r. r\<lparr>sr_active_job_ids := sorted_set (job_id # sr_active_job_ids r),
              sr_active_process_ids := sorted_set (show_int process_id # sr_active_process_ids r)\<rparr>)
       (\<lambda>_. True))"

definition release_runtime_process ::
  "world \<Rightarrow> doc_file \<Rightarrow> string \<Rightarrow> int \<Rightarrow> string \<Rightarrow> int \<Rightarrow> scope_record store_op" where
  "release_runtime_process w f sid generation job_id process_id =
     update_scope w f sid
       (\<lambda>st r. if sr_generation r \<noteq> generation then Inl ScopeNotCurrent else Inr ())
       (\<lambda>r. r\<lparr>sr_active_job_ids := filter (\<lambda>v. v \<noteq> job_id) (sr_active_job_ids r),
              sr_active_process_ids :=
                filter (\<lambda>v. v \<noteq> show_int process_id) (sr_active_process_ids r)\<rparr>)
       (\<lambda>_. True)"

definition same_root :: "string \<Rightarrow> string \<Rightarrow> bool" where
  "same_root a b \<longleftrightarrow> casefold a = casefold b"

definition reserve_runtime_read_authority ::
  "world \<Rightarrow> doc_file \<Rightarrow> string \<Rightarrow> int \<Rightarrow> string \<Rightarrow> string \<Rightarrow> scope_record store_op" where
  "reserve_runtime_read_authority w f sid generation sandbox runtime_root =
     (let root = strip runtime_root in
      if root = [] then stop ScopeValueError else
      update_scope w f sid
       (\<lambda>st r. if sr_generation r \<noteq> generation \<or> sr_state r \<noteq> Active then Inl ScopeNotCurrent
          else if sr_sandbox_identity r \<noteq> Some sandbox \<or> \<not> sr_sandbox_write_authority_present r
          then Inl ScopeConflict else Inr ())
       (\<lambda>r. let roots = sr_runtime_read_authority_roots r in
            r\<lparr>sr_runtime_read_authority_roots := sort_key casefold
                (if list_ex (same_root root) roots then roots else roots @ [root])\<rparr>)
       (\<lambda>c. list_ex (same_root root) (sr_runtime_read_authority_roots c)))"

definition clear_runtime_read_authority ::
  "world \<Rightarrow> doc_file \<Rightarrow> string \<Rightarrow> int \<Rightarrow> string \<Rightarrow> string \<Rightarrow> scope_record store_op" where
  "clear_runtime_read_authority w f sid generation sandbox runtime_root =
     (let root = strip runtime_root in
      if root = [] then stop ScopeValueError else
      update_scope w f sid
       (\<lambda>st r. if sr_generation r \<noteq> generation then Inl ScopeNotCurrent
          else if sr_state r = Terminal then Inl ScopeNotCurrent
          else if sr_sandbox_identity r \<noteq> Some sandbox then Inl ScopeConflict else Inr ())
       (\<lambda>r. r\<lparr>sr_runtime_read_authority_roots :=
              filter (\<lambda>v. \<not> same_root root v) (sr_runtime_read_authority_roots r)\<rparr>)
       (\<lambda>c. \<not> list_ex (same_root root) (sr_runtime_read_authority_roots c)))"

text \<open>The binding argument is a constructed \<open>SessionObjectReadBinding\<close>, hence valid.\<close>

definition reserve_session_object_read_binding ::
  "world \<Rightarrow> doc_file \<Rightarrow> string \<Rightarrow> int \<Rightarrow> string \<Rightarrow> session_binding \<Rightarrow> scope_record store_op" where
  "reserve_session_object_read_binding w f sid generation sandbox b =
     (if \<not> session_binding_ok b then stop ScopeValueError else
      update_scope w f sid
       (\<lambda>st r. if sr_generation r \<noteq> generation \<or> sr_state r \<noteq> Active then Inl ScopeNotCurrent
          else if sr_sandbox_identity r \<noteq> Some sandbox \<or> \<not> sr_sandbox_write_authority_present r
          then Inl ScopeConflict
          else if sr_session_object_read_binding r \<notin> {None, Some b} then Inl ScopeConflict else Inr ())
       (\<lambda>r. r\<lparr>sr_session_object_read_binding := Some b\<rparr>)
       (\<lambda>c. sr_session_object_read_binding c = Some b))"

definition clear_session_object_read_binding ::
  "world \<Rightarrow> doc_file \<Rightarrow> string \<Rightarrow> int \<Rightarrow> string \<Rightarrow> session_binding \<Rightarrow> scope_record store_op" where
  "clear_session_object_read_binding w f sid generation sandbox b =
     (if \<not> session_binding_ok b then stop ScopeValueError else
      update_scope w f sid
       (\<lambda>st r. if sr_generation r \<noteq> generation then Inl ScopeNotCurrent
          else if sr_state r = Terminal then Inl ScopeNotCurrent
          else if sr_sandbox_identity r \<noteq> Some sandbox then Inl ScopeConflict
          else if sr_session_object_read_binding r \<noteq> Some b then Inl ScopeConflict else Inr ())
       (\<lambda>r. r\<lparr>sr_session_object_read_binding := None\<rparr>)
       (\<lambda>c. sr_session_object_read_binding c = None))"

definition clear_sandbox_write_authority ::
  "world \<Rightarrow> doc_file \<Rightarrow> string \<Rightarrow> int \<Rightarrow> string \<Rightarrow> scope_record store_op" where
  "clear_sandbox_write_authority w f sid generation sandbox =
     update_scope w f sid
       (\<lambda>st r. if sr_generation r \<noteq> generation then Inl ScopeNotCurrent
          else if sr_sandbox_identity r \<noteq> Some sandbox then Inl ScopeConflict
          else if sr_active_job_ids r \<noteq> [] \<or> sr_active_process_ids r \<noteq> [] then Inl ScopeStillActive
          else Inr ())
       (\<lambda>r. r\<lparr>sr_sandbox_write_authority_present := False\<rparr>)
       (\<lambda>_. True)"

definition revoke_scope :: "world \<Rightarrow> doc_file \<Rightarrow> string \<Rightarrow> int \<Rightarrow> scope_record store_op" where
  "revoke_scope w f sid generation =
     ask (load_state f) (\<lambda>st. ask (lookup_record w st sid) (\<lambda>r.
     if sr_generation r \<noteq> generation then stop ScopeNotCurrent
     else if sr_state r = Terminal then give r else
     publish (put_record st (r\<lparr>sr_state := Revoked\<rparr>)) (\<lambda>f'. ask (read_record w f' sid) give)))"

definition read_scope :: "world \<Rightarrow> doc_file \<Rightarrow> string \<Rightarrow> scope_record store_op" where
  "read_scope w f sid = ask (read_record w f sid) give"

definition read_bound_scope ::
  "world \<Rightarrow> doc_file \<Rightarrow> string \<Rightarrow> int \<Rightarrow> repository_identity \<Rightarrow> semantic_identity
     \<Rightarrow> scope_record store_op" where
  "read_bound_scope w f sid generation repo sem =
     ask (read_record w f sid) (\<lambda>r.
     if sr_generation r \<noteq> generation then stop ScopeNotCurrent else
     ask (lift_py (repository_canonical repo)) (\<lambda>rc.
     if sr_repository_identity_digest r \<noteq> digest (w_sha w) (VStr rc) then stop BindingMismatch else
     ask (lift_py (semantic_canonical sem)) (\<lambda>sc.
     if sr_semantic_identity_digest r \<noteq> digest (w_sha w) (vstrs sc) then stop BindingMismatch
     else if \<not> lineage_ok r sem then stop BindingMismatch else
     ask (attempt_key_of w (sr_repository_identity_digest r) sem) (\<lambda>expected_attempt.
     if sr_attempt_key r \<noteq> expected_attempt then stop BindingMismatch else give r))))"

end
