(* ===== verification/ScopeLifecycle.thy ===== *)
theory ScopeLifecycle
  imports ScopeOps
begin

text \<open>
  Minting and closing a scope: \<open>provision_scope\<close> and the two locked phases of
  \<open>terminalize_scope\<close> of \<open>mutation_scope.py\<close>.
\<close>

section \<open>Provisioning\<close>

text \<open>The identifiers \<open>_opaque("mss")\<close> and \<open>_opaque("msw")\<close> draws, as parameters.\<close>

record fresh_ids =
  fi_scope_id :: string
  fi_workspace_id :: string

definition record_slice :: "string option \<Rightarrow> string option" where
  "record_slice s = (case s of None \<Rightarrow> None | Some x \<Rightarrow> if x = [] then None else Some (strip x))"

definition seal :: "world \<Rightarrow> scope_record \<Rightarrow> scope_record" where
  "seal w draft = draft\<lparr>sr_scope_digest := scope_digest_of w draft\<rparr>"

definition expiry_text :: "nat \<Rightarrow> int \<Rightarrow> string scope_result" where
  "expiry_text now ttl =
     (let t = int now + ttl * 1000000 in
      if t < 0 \<or> int max_instant < t then Inl ScopeOverflow else Inr (iso (nat t)))"

definition draft_record ::
  "fresh_ids \<Rightarrow> semantic_identity \<Rightarrow> placement_evidence \<Rightarrow> string \<Rightarrow> string \<Rightarrow> string list
     \<Rightarrow> string \<Rightarrow> string \<Rightarrow> scope_record" where
  "draft_record ids sem pe lease_key attempt_key operations issued expires =
     \<lparr>sr_workspace_id = fi_workspace_id ids, sr_scope_id = fi_scope_id ids, sr_generation = 1,
      sr_unique_lease_key = lease_key, sr_attempt_key = attempt_key, sr_state = Provisioned,
      sr_project_id = strip (project_id sem), sr_task_id = strip (task_id sem),
      sr_run_id = strip (run_id sem), sr_attempt_id = strip (attempt_id sem),
      sr_slice_id = record_slice (slice_id sem),
      sr_semantic_identity_digest = pe_semantic_identity_digest pe,
      sr_repository_identity_digest = pe_repository_identity_digest pe,
      sr_placement_ref = pe_placement_ref pe, sr_placement_generation = pe_generation pe,
      sr_policy_digest = pe_policy_digest pe,
      sr_exact_workspace = path_text (pe_exact_future_workspace pe),
      sr_exact_workspace_digest = pe_exact_workspace_digest pe,
      sr_protected_inventory_digest = pe_protected_inventory_digest pe,
      sr_allowed_operation_classes = operations, sr_issued_at = issued, sr_expires_at = expires,
      sr_scope_digest = [], sr_sandbox_identity = None, sr_active_job_ids = [],
      sr_active_process_ids = [], sr_sandbox_write_authority_present = False,
      sr_runtime_read_authority_roots = [], sr_session_object_read_binding = None,
      sr_terminalized_at = None\<rparr>"

definition insert_scope :: "authority \<Rightarrow> scope_record \<Rightarrow> authority" where
  "insert_scope st r = st\<lparr>
     au_scopes := AList.update (sr_scope_id r) (record_to_json r) (au_scopes st),
     au_leases := AList.update (sr_unique_lease_key r) (VStr (sr_scope_id r)) (au_leases st),
     au_attempts := AList.update (sr_attempt_key r) (VStr (sr_scope_id r)) (au_attempts st),
     au_workspaces := AList.update (sr_exact_workspace_digest r)
       (VDict [(''lease_key'', VStr (sr_unique_lease_key r)), (''scope_id'', VStr (sr_scope_id r))])
       (au_workspaces st)\<rparr>"

definition placement_matches :: "scope_record \<Rightarrow> string \<Rightarrow> placement_evidence \<Rightarrow> bool" where
  "placement_matches r lease_key pe \<longleftrightarrow> sr_unique_lease_key r = lease_key
     \<and> sr_exact_workspace_digest r = pe_exact_workspace_digest pe
     \<and> sr_repository_identity_digest r = pe_repository_identity_digest pe
     \<and> sr_semantic_identity_digest r = pe_semantic_identity_digest pe
     \<and> sr_placement_generation r = pe_generation pe \<and> sr_policy_digest r = pe_policy_digest pe"

text \<open>The Attempt already owns a scope: return it if it is still exactly the requested authority.\<close>

definition provision_existing ::
  "world \<Rightarrow> doc_file \<Rightarrow> authority \<Rightarrow> bool \<Rightarrow> string \<Rightarrow> string \<Rightarrow> string \<Rightarrow> placement_evidence
     \<Rightarrow> mutation_policy \<Rightarrow> repository_identity \<Rightarrow> semantic_identity \<Rightarrow> string list \<Rightarrow> path list
     \<Rightarrow> nat \<Rightarrow> scope_record store_op" where
  "provision_existing w f st gen_changed sid attempt_key lease_key pe p repo sem operations pr now =
     ask (lookup_record w st sid) (\<lambda>existing.
     if sr_attempt_key existing \<noteq> attempt_key then stop ScopeConflict
     else if \<not> placement_matches existing lease_key pe
     then publish_if gen_changed st f (\<lambda>_. stop BindingMismatch) else
     let v = revalidate_locked w st existing p repo sem pr now in
     case rv_result v of
       Inl e \<Rightarrow> (rv_writes v @ (if e = ScopeNotCurrent \<and> (gen_changed \<or> entry_differs (rv_state v) existing)
                              then [durable_write (rv_state v)] else []), Inl e)
     | Inr (validated, changed) \<Rightarrow>
         if sr_allowed_operation_classes validated \<noteq> operations then (rv_writes v, Inl ScopeConflict)
         else (rv_writes v @ (if changed \<or> gen_changed then [durable_write (rv_state v)] else []),
               Inr validated))"

text \<open>No scope for the Attempt: mint one, commit the record and its three index entries at once.\<close>

definition mint_scope ::
  "world \<Rightarrow> authority \<Rightarrow> fresh_ids \<Rightarrow> string \<Rightarrow> string \<Rightarrow> placement_evidence \<Rightarrow> mutation_policy
     \<Rightarrow> semantic_identity \<Rightarrow> string list \<Rightarrow> nat \<Rightarrow> scope_record store_op" where
  "mint_scope w st ids attempt_key lease_key pe p sem operations now =
     ask (expiry_text now (mp_scope_ttl_seconds p)) (\<lambda>expires.
     let r = seal w (draft_record ids sem pe lease_key attempt_key operations (iso now) expires);
         st1 = insert_scope st r in
     ask (assert_index_binding st1 r lease_key) (\<lambda>_.
     ask (assert_no_competing w (au_scopes st1) r) (\<lambda>_.
     publish st1 (\<lambda>f'. ask (load_state f') (\<lambda>persisted.
     ask (lookup_record w persisted (sr_scope_id r)) (\<lambda>confirmed.
     ask (assert_index_binding persisted confirmed lease_key) (\<lambda>_. give confirmed)))))))"

definition provision_fresh ::
  "world \<Rightarrow> doc_file \<Rightarrow> authority \<Rightarrow> bool \<Rightarrow> fresh_ids \<Rightarrow> string \<Rightarrow> string \<Rightarrow> placement_evidence
     \<Rightarrow> mutation_policy \<Rightarrow> semantic_identity \<Rightarrow> string list \<Rightarrow> nat \<Rightarrow> scope_record store_op" where
  "provision_fresh w f st gen_changed ids attempt_key lease_key pe p sem operations now =
     (if dget (au_leases st) lease_key \<noteq> VNull
      then publish_if gen_changed st f (\<lambda>_. stop ScopeConflict)
      else case dget (au_workspaces st) (pe_exact_workspace_digest pe) of
        VNull \<Rightarrow> mint_scope w st ids attempt_key lease_key pe p sem operations now
      | VDict _ \<Rightarrow> stop ScopeConflict
      | _ \<Rightarrow> stop ScopeCorrupt)"

definition provision_placed ::
  "world \<Rightarrow> path \<Rightarrow> fresh_ids \<Rightarrow> doc_file \<Rightarrow> authority \<Rightarrow> bool \<Rightarrow> generation_state \<Rightarrow> mutation_policy
     \<Rightarrow> repository_identity \<Rightarrow> semantic_identity \<Rightarrow> string list \<Rightarrow> path list \<Rightarrow> nat \<Rightarrow> scope_record store_op" where
  "provision_placed w store_root ids f st gen_changed g p repo sem operations pr now =
     ask (resolve_placement w p repo sem (Some g) pr) (\<lambda>pe.
     ask (attempt_key_of w (pe_repository_identity_digest pe) sem) (\<lambda>attempt_key.
     ask (unique_mutation_lease_key w (pe_repository_identity_digest pe) sem (pe_generation pe)
            (pe_exact_workspace_digest pe)) (\<lambda>lease_key.
     ask (resolved w store_root) (\<lambda>authority_root.
     ask (resolved w (pe_exact_future_workspace pe)) (\<lambda>exact_workspace.
     if paths_overlap authority_root exact_workspace
     then publish_if gen_changed st f (\<lambda>_. stop ScopeConflict) else
     case dget (au_attempts st) attempt_key of
       VNull \<Rightarrow> provision_fresh w f st gen_changed ids attempt_key lease_key pe p sem operations now
     | VStr sid \<Rightarrow> provision_existing w f st gen_changed sid attempt_key lease_key pe p repo sem
                   operations pr now
     | _ \<Rightarrow> stop ScopeCorrupt)))))"

definition provision_scope ::
  "world \<Rightarrow> path \<Rightarrow> fresh_ids \<Rightarrow> doc_file \<Rightarrow> mutation_policy \<Rightarrow> repository_identity
     \<Rightarrow> semantic_identity \<Rightarrow> string list \<Rightarrow> path list \<Rightarrow> nat \<Rightarrow> scope_record store_op" where
  "provision_scope w store_root ids f p repo sem classes pr now =
     ask (normalize_operation_classes classes) (\<lambda>operations.
     ask (load_state f) (\<lambda>st0.
     ask (placement_generation_update w st0 p) (\<lambda>(g, st, gen_changed).
       provision_placed w store_root ids f st gen_changed g p repo sem operations pr now)))"

section \<open>Terminalization\<close>

text \<open>
  \<open>runtime_cleanup\<close> runs between the two phases without the lock. It is the caller's code:
  its closure evidence is a parameter of the second phase, and any operation of the store
  may come between them.
\<close>

record runtime_closure =
  rc_sandbox_identity :: "string option"
  rc_active_job_ids :: "string list"
  rc_active_process_ids :: "string list"
  rc_sandbox_write_authority_present :: bool
  rc_runtime_read_authority_roots :: "string list"
  rc_session_object_read_binding :: "session_binding option"

definition has_runtime_authority :: "scope_record \<Rightarrow> bool" where
  "has_runtime_authority r \<longleftrightarrow> sr_active_job_ids r \<noteq> [] \<or> sr_active_process_ids r \<noteq> []
     \<or> sr_sandbox_write_authority_present r \<or> sr_runtime_read_authority_roots r \<noteq> []
     \<or> sr_session_object_read_binding r \<noteq> None"

definition validate_sealed_binding ::
  "world \<Rightarrow> authority \<Rightarrow> scope_record \<Rightarrow> int \<Rightarrow> repository_identity \<Rightarrow> semantic_identity
     \<Rightarrow> string scope_result" where
  "validate_sealed_binding w st r generation repo sem =
     (if sr_generation r \<noteq> generation then Inl ScopeNotCurrent
      else if sr_state r = Terminal then Inl ScopeNotCurrent
      else if \<not> digest_verified w r then Inl ScopeCorrupt else
      rbind (lift_py (repository_canonical repo)) (\<lambda>rc.
      if sr_repository_identity_digest r \<noteq> digest (w_sha w) (VStr rc) then Inl BindingMismatch else
      rbind (attempt_key_of w (sr_repository_identity_digest r) sem) (\<lambda>expected_attempt.
      if expected_attempt \<noteq> sr_attempt_key r then Inl BindingMismatch else
      rbind (unique_mutation_lease_key w (sr_repository_identity_digest r) sem
               (sr_placement_generation r) (sr_exact_workspace_digest r)) (\<lambda>expected_lease.
      if expected_lease \<noteq> sr_unique_lease_key r then Inl BindingMismatch
      else if \<not> lineage_ok r sem then Inl BindingMismatch else
      rbind (assert_index_binding st r expected_lease) (\<lambda>_.
      rbind (assert_no_competing w (au_scopes st) r) (\<lambda>_. Inr expected_lease))))))"

datatype terminalization = Closed scope_record | CleanupRequired scope_record

definition terminalize_begin ::
  "world \<Rightarrow> doc_file \<Rightarrow> string \<Rightarrow> int \<Rightarrow> mutation_policy \<Rightarrow> repository_identity
     \<Rightarrow> semantic_identity \<Rightarrow> bool \<Rightarrow> nat \<Rightarrow> terminalization store_op" where
  "terminalize_begin w f sid generation p repo sem has_cleanup now =
     ask (load_state f) (\<lambda>st0. ask (lookup_record w st0 sid) (\<lambda>r.
     ask (placement_generation_update w st0 p) (\<lambda>(g, st, gen_changed).
     ask (validate_sealed_binding w st r generation repo sem) (\<lambda>expected_lease.
     publish_if gen_changed st f (\<lambda>_.
     if has_runtime_authority r then
       if \<not> has_cleanup then
         stop (if sr_active_job_ids r \<noteq> [] \<or> sr_active_process_ids r \<noteq> []
               then ScopeStillActive else ResidualAuthority)
       else publish (put_record st (r\<lparr>sr_state := Revoked\<rparr>)) (\<lambda>f'.
         ask (read_record w f' sid) (\<lambda>persisted.
         if sr_state persisted \<noteq> Revoked then stop TerminalizationFailed
         else give (CleanupRequired persisted)))
     else publish (put_record st (r\<lparr>sr_state := Terminal, sr_terminalized_at := Some (iso now)\<rparr>)) (\<lambda>f'.
       ask (load_state f') (\<lambda>persisted. ask (lookup_record w persisted sid) (\<lambda>confirmed.
       if sr_state confirmed \<noteq> Terminal then stop TerminalizationFailed else
       ask (assert_index_binding persisted confirmed expected_lease) (\<lambda>_. give (Closed confirmed))))))))))"

definition closure_check :: "runtime_closure \<Rightarrow> scope_record \<Rightarrow> unit scope_result" where
  "closure_check c r =
     (if rc_sandbox_identity c \<noteq> sr_sandbox_identity r then Inl TerminalizationFailed
      else if rc_active_job_ids c \<noteq> [] \<or> rc_active_process_ids c \<noteq> [] then Inl ScopeStillActive
      else if rc_sandbox_write_authority_present c then Inl ResidualAuthority
      else if rc_runtime_read_authority_roots c \<noteq> [] then Inl ResidualAuthority
      else if rc_session_object_read_binding c \<noteq> None then Inl ResidualAuthority
      else Inr ())"

definition terminal_record :: "scope_record \<Rightarrow> runtime_closure \<Rightarrow> nat \<Rightarrow> scope_record" where
  "terminal_record r c now = r\<lparr>sr_state := Terminal, sr_active_job_ids := rc_active_job_ids c,
     sr_active_process_ids := rc_active_process_ids c,
     sr_sandbox_write_authority_present := rc_sandbox_write_authority_present c,
     sr_runtime_read_authority_roots := rc_runtime_read_authority_roots c,
     sr_session_object_read_binding := rc_session_object_read_binding c,
     sr_terminalized_at := Some (iso now)\<rparr>"

definition terminalize_finish ::
  "world \<Rightarrow> doc_file \<Rightarrow> string \<Rightarrow> int \<Rightarrow> repository_identity \<Rightarrow> semantic_identity
     \<Rightarrow> scope_record \<Rightarrow> runtime_closure \<Rightarrow> nat \<Rightarrow> scope_record store_op" where
  "terminalize_finish w f sid generation repo sem cleanup_record c now =
     ask (closure_check c cleanup_record) (\<lambda>_.
     ask (load_state f) (\<lambda>st. ask (lookup_record w st sid) (\<lambda>r.
     ask (validate_sealed_binding w st r generation repo sem) (\<lambda>expected_lease.
     if sr_state r \<noteq> Revoked then stop TerminalizationFailed
     else if sr_scope_digest r \<noteq> sr_scope_digest cleanup_record then stop TerminalizationFailed else
     publish (put_record st (terminal_record r c now)) (\<lambda>f'.
     ask (load_state f') (\<lambda>persisted. ask (lookup_record w persisted sid) (\<lambda>confirmed.
     if sr_state confirmed \<noteq> Terminal \<or> has_runtime_authority confirmed
     then stop TerminalizationFailed else
     ask (assert_index_binding persisted confirmed expected_lease) (\<lambda>_.
     case assert_no_competing w (au_scopes persisted) confirmed of
       Inl ScopeConflict \<Rightarrow> stop TerminalizationFailed
     | Inl e \<Rightarrow> stop e
     | Inr _ \<Rightarrow> give confirmed))))))))"

end
