(* ===== verification/ScopeInvariant.thy ===== *)
theory ScopeInvariant
  imports ScopeRuntime ScopeLifecycle
begin

text \<open>
  What the scope store promises: the invariant of the durable document, the way a record may
  change from one published document to the next, and the proof that every operation keeps
  both at every document it publishes.
\<close>

section \<open>The invariant\<close>

definition record_ok :: "world \<Rightarrow> scope_record \<Rightarrow> bool" where
  "record_ok w r \<longleftrightarrow> digest_verified w r \<and> binding_wf r
     \<and> (sr_state r = Provisioned \<longrightarrow> sr_sandbox_identity r = None)
     \<and> (has_runtime_authority r \<longrightarrow> sr_sandbox_identity r \<noteq> None)
     \<and> (sr_active_job_ids r \<noteq> [] \<or> sr_active_process_ids r \<noteq> [] \<longrightarrow> sr_sandbox_write_authority_present r)
     \<and> (sr_state r = Terminal \<longrightarrow> \<not> has_runtime_authority r)"

definition workspace_entry :: "scope_record \<Rightarrow> pyval" where
  "workspace_entry r = VDict [(''lease_key'', VStr (sr_unique_lease_key r)),
     (''scope_id'', VStr (sr_scope_id r))]"

definition indexed :: "authority \<Rightarrow> scope_record \<Rightarrow> bool" where
  "indexed st r \<longleftrightarrow> map_of (au_leases st) (sr_unique_lease_key r) = Some (VStr (sr_scope_id r))
     \<and> map_of (au_attempts st) (sr_attempt_key r) = Some (VStr (sr_scope_id r))
     \<and> map_of (au_workspaces st) (sr_exact_workspace_digest r) = Some (workspace_entry r)"

definition generation_of :: "authority \<Rightarrow> int" where
  "generation_of st = (case au_generation st of None \<Rightarrow> 0 | Some g \<Rightarrow> gs_generation g)"

definition generation_bound :: "authority \<Rightarrow> scope_record \<Rightarrow> bool" where
  "generation_bound st r \<longleftrightarrow> sr_placement_generation r \<le> generation_of st"

definition entry_ok :: "world \<Rightarrow> authority \<Rightarrow> string \<Rightarrow> pyval \<Rightarrow> bool" where
  "entry_ok w st sid v \<longleftrightarrow> (\<exists>r. v = record_to_json r \<and> sr_scope_id r = sid \<and> record_ok w r
     \<and> indexed st r \<and> generation_bound st r)"

definition store_ok :: "world \<Rightarrow> authority \<Rightarrow> bool" where
  "store_ok w st \<longleftrightarrow> canonical_state st
     \<and> (\<forall>sid v. map_of (au_scopes st) sid = Some v \<longrightarrow> entry_ok w st sid v)"

definition disk_ok :: "world \<Rightarrow> doc_file \<Rightarrow> bool" where
  "disk_ok w f \<longleftrightarrow> f = Missing \<or> (\<exists>st. store_ok w st \<and> f = durable_write st)"

lemma store_ok_empty [simp]: "store_ok w empty_state"
  by (simp add: store_ok_def canonical_state_def empty_state_def)

lemma entry_ok_same_tables: "same_tables a b \<Longrightarrow> entry_ok w a = entry_ok w b"
  by (simp add: fun_eq_iff entry_ok_def indexed_def generation_bound_def generation_of_def same_tables_def)

lemma store_ok_stored:
  assumes "store_ok w st" shows "store_ok w (stored_state st)"
proof -
  from assms have c: "canonical_state st" by (simp add: store_ok_def)
  have "map_of (au_scopes (stored_state st)) = map_of (au_scopes st)"
    using same_tables_stored[OF c] by (simp add: same_tables_def)
  moreover have "entry_ok w (stored_state st) = entry_ok w st"
    by (rule entry_ok_same_tables[OF same_tables_stored[OF c]])
  ultimately show ?thesis using assms by (simp add: store_ok_def)
qed

lemma disk_ok_load:
  assumes "disk_ok w f"
  obtains st where "load_state f = Inr st" "store_ok w st"
  using assms unfolding disk_ok_def
proof (elim disjE exE conjE)
  assume "f = Missing" with that[of empty_state] show thesis by (simp add: load_state_def)
next
  fix st assume st: "store_ok w st" "f = durable_write st"
  then have "canonical_state st" by (simp add: store_ok_def)
  with st store_ok_stored[OF st(1)] that[of "stored_state st"] show thesis
    by (simp add: load_durable_write)
qed

lemma disk_ok_write [intro]: "store_ok w st \<Longrightarrow> disk_ok w (durable_write st)"
  by (auto simp: disk_ok_def)

section \<open>Records in the store\<close>

lemma lookup_store:
  assumes "store_ok w st"
  shows "lookup_record w st sid = (case map_of (au_scopes st) sid of
           None \<Rightarrow> Inl ScopeNotCurrent | Some v \<Rightarrow> record_from_json w v)"
    and "map_of (au_scopes st) sid = Some v \<Longrightarrow>
           \<exists>r. v = record_to_json r \<and> record_from_json w v = Inr r \<and> sr_scope_id r = sid"
proof -
  have *: "\<exists>r. v = record_to_json r \<and> record_from_json w v = Inr r \<and> sr_scope_id r = sid"
    if "map_of (au_scopes st) sid = Some v" for v
  proof -
    from that assms have "entry_ok w st sid v" by (simp add: store_ok_def)
    then obtain r where "v = record_to_json r" "sr_scope_id r = sid" "record_ok w r"
      by (auto simp: entry_ok_def)
    then show ?thesis using record_roundtrip[of r w] by (auto simp: record_ok_def)
  qed
  then show "map_of (au_scopes st) sid = Some v \<Longrightarrow>
      \<exists>r. v = record_to_json r \<and> record_from_json w v = Inr r \<and> sr_scope_id r = sid" .
  show "lookup_record w st sid = (case map_of (au_scopes st) sid of
           None \<Rightarrow> Inl ScopeNotCurrent | Some v \<Rightarrow> record_from_json w v)"
  proof (cases "map_of (au_scopes st) sid")
    case None then show ?thesis by (simp add: lookup_record_def dget_def)
  next
    case (Some v)
    from *[OF Some] obtain r where r: "v = record_to_json r" "record_from_json w v = Inr r"
      "sr_scope_id r = sid" by blast
    from r(1) obtain d where d: "v = VDict d" by (simp add: record_to_json_def)
    with r(2) have "record_from_json w (VDict d) = Inr r" by simp
    with d r(3) Some show ?thesis by (simp add: lookup_record_def dget_def)
  qed
qed

lemma lookup_Inr_iff:
  assumes "store_ok w st"
  shows "lookup_record w st sid = Inr r \<longleftrightarrow>
     map_of (au_scopes st) sid = Some (record_to_json r) \<and> record_from_json w (record_to_json r) = Inr r"
  using lookup_store(2)[OF assms, of sid]
  by (auto simp: lookup_store(1)[OF assms] split: option.split)

lemma lookup_ok:
  assumes st: "store_ok w st" and l: "lookup_record w st sid = Inr r"
  shows "sr_scope_id r = sid" "record_ok w r" "indexed st r" "generation_bound st r"
    "map_of (au_scopes st) sid = Some (record_to_json r)"
proof -
  from l st have m: "map_of (au_scopes st) sid = Some (record_to_json r)"
    and r: "record_from_json w (record_to_json r) = Inr r" by (simp_all add: lookup_Inr_iff)
  from m st have "entry_ok w st sid (record_to_json r)" by (simp add: store_ok_def)
  then obtain q where q: "record_to_json r = record_to_json q" "sr_scope_id q = sid" "record_ok w q"
    "indexed st q" "generation_bound st q" by (auto simp: entry_ok_def)
  then have "record_from_json w (record_to_json r) = Inr q"
    using record_roundtrip[of q w] by (simp add: record_ok_def)
  with r have "q = r" by simp
  with q m show "sr_scope_id r = sid" "record_ok w r" "indexed st r" "generation_bound st r"
    "map_of (au_scopes st) sid = Some (record_to_json r)" by simp_all
qed

lemma lookup_error:
  assumes st: "store_ok w st" and l: "lookup_record w st sid = Inl e"
  shows "e = ScopeNotCurrent" "map_of (au_scopes st) sid = None"
  using l lookup_store(2)[OF st, of sid]
  by (auto simp: lookup_store(1)[OF st] split: option.splits)

section \<open>How a record may change\<close>

definition sealed :: "scope_record \<Rightarrow> scope_record \<Rightarrow> bool" where
  "sealed r r' \<longleftrightarrow> immutable_digest_payload r' = immutable_digest_payload r
     \<and> sr_scope_digest r' = sr_scope_digest r"

definition authority_shrinks :: "scope_record \<Rightarrow> scope_record \<Rightarrow> bool" where
  "authority_shrinks r r' \<longleftrightarrow> set (sr_active_job_ids r') \<subseteq> set (sr_active_job_ids r)
     \<and> set (sr_active_process_ids r') \<subseteq> set (sr_active_process_ids r)
     \<and> (sr_sandbox_write_authority_present r' \<longrightarrow> sr_sandbox_write_authority_present r)
     \<and> set (sr_runtime_read_authority_roots r') \<subseteq> set (sr_runtime_read_authority_roots r)
     \<and> sr_session_object_read_binding r' \<in> {None, sr_session_object_read_binding r}"

text \<open>
  The sealed fields never change, the state only goes forward, a reserved sandbox identity
  stays, and once admission has ended the operating-system authority only shrinks.
\<close>

definition record_step :: "scope_record \<Rightarrow> scope_record \<Rightarrow> bool" where
  "record_step r r' \<longleftrightarrow> sealed r r' \<and> sr_state r \<le> sr_state r'
     \<and> sr_sandbox_identity r \<in> {None, sr_sandbox_identity r'}
     \<and> (\<not> sr_current r \<longrightarrow> authority_shrinks r r')"

lemma record_step_refl [simp, intro]: "record_step r r"
  by (simp add: record_step_def sealed_def authority_shrinks_def)

lemma record_step_trans [trans]:
  assumes "record_step a b" "record_step b c" shows "record_step a c"
proof -
  have "\<not> sr_current a \<Longrightarrow> \<not> sr_current b"
    using assms by (auto simp: record_step_def sr_current_iff)
  with assms show ?thesis
    by (auto simp: record_step_def sealed_def authority_shrinks_def)
qed

lemma sealed_fields:
  assumes "sealed r r'"
  shows "sr_scope_id r' = sr_scope_id r" "sr_unique_lease_key r' = sr_unique_lease_key r"
    "sr_attempt_key r' = sr_attempt_key r"
    "sr_exact_workspace_digest r' = sr_exact_workspace_digest r"
    "sr_placement_generation r' = sr_placement_generation r"
    "sr_generation r' = sr_generation r" "sr_scope_digest r' = sr_scope_digest r"
  using assms
  by (simp_all only: sealed_def immutable_digest_payload_def pyval.inject list.inject prod.inject)

lemma sealed_digest: "sealed r r' \<Longrightarrow> digest_verified w r' = digest_verified w r"
  by (simp add: sealed_def digest_verified_def scope_digest_of_def)

lemma canonical_put_record: "canonical_state st \<Longrightarrow> canonical_state (put_record st r)"
  by (auto simp: canonical_state_def put_record_def)

lemma put_record_tables [simp]:
  "au_leases (put_record st r) = au_leases st" "au_attempts (put_record st r) = au_attempts st"
  "au_workspaces (put_record st r) = au_workspaces st" "au_generation (put_record st r) = au_generation st"
  "map_of (au_scopes (put_record st r)) = (map_of (au_scopes st))(sr_scope_id r \<mapsto> record_to_json r)"
  by (simp_all add: put_record_def)

lemma entry_ok_put [simp]: "entry_ok w (put_record st r) = entry_ok w st"
  by (simp add: fun_eq_iff entry_ok_def indexed_def generation_bound_def generation_of_def)

lemma put_record_ok:
  assumes st: "store_ok w st" and l: "lookup_record w st sid = Inr r"
    and seal: "sealed r r'" and ok: "record_ok w r'"
  shows "store_ok w (put_record st r')"
    and "lookup_record w (put_record st r') x = (if x = sid then Inr r' else lookup_record w st x)"
proof -
  note f = sealed_fields[OF seal] and lk = lookup_ok[OF st l]
  have "entry_ok w st sid (record_to_json r')"
    unfolding entry_ok_def using f lk ok
    by (intro exI[of _ r']) (simp add: indexed_def generation_bound_def workspace_entry_def)
  then show s: "store_ok w (put_record st r')"
    using st f lk by (simp add: store_ok_def canonical_put_record)
  have "record_from_json w (record_to_json r') = Inr r'"
    using ok record_roundtrip[of r' w] by (simp add: record_ok_def)
  then show "lookup_record w (put_record st r') x = (if x = sid then Inr r' else lookup_record w st x)"
    using f lk by (simp add: lookup_store(1)[OF s] lookup_store(1)[OF st])
qed

section \<open>Published documents\<close>

definition scope_table :: "world \<Rightarrow> authority \<Rightarrow> string \<Rightarrow> scope_record option" where
  "scope_table w st sid = (case lookup_record w st sid of Inl _ \<Rightarrow> None | Inr r \<Rightarrow> Some r)"

definition disk_table :: "world \<Rightarrow> doc_file \<Rightarrow> string \<Rightarrow> scope_record option" where
  "disk_table w f = (case load_state f of Inl _ \<Rightarrow> (\<lambda>_. None) | Inr st \<Rightarrow> scope_table w st)"

definition stored_generation :: "doc_file \<Rightarrow> generation_state option" where
  "stored_generation f = (case load_state f of Inl _ \<Rightarrow> None | Inr st \<Rightarrow> au_generation st)"

definition disk_generation :: "doc_file \<Rightarrow> int" where
  "disk_generation f = (case load_state f of Inl _ \<Rightarrow> 0 | Inr st \<Rightarrow>
     (case au_generation st of None \<Rightarrow> 0 | Some g \<Rightarrow> gs_generation g))"

definition state_advances :: "world \<Rightarrow> authority \<Rightarrow> authority \<Rightarrow> bool" where
  "state_advances w a b \<longleftrightarrow> generation_of a \<le> generation_of b
     \<and> (\<forall>sid r. scope_table w a sid = Some r \<longrightarrow> (\<exists>r'. scope_table w b sid = Some r' \<and> record_step r r'))"

definition advances :: "world \<Rightarrow> doc_file \<Rightarrow> doc_file \<Rightarrow> bool" where
  "advances w f f' \<longleftrightarrow> disk_generation f \<le> disk_generation f'
     \<and> (\<forall>sid r. disk_table w f sid = Some r \<longrightarrow> (\<exists>r'. disk_table w f' sid = Some r' \<and> record_step r r'))"

lemma advances_refl [simp]: "advances w f f"
  by (auto simp: advances_def)

lemma advances_trans [trans]: "advances w f g \<Longrightarrow> advances w g h \<Longrightarrow> advances w f h"
  unfolding advances_def by (meson order_trans record_step_trans)

lemma state_advances_refl [simp]: "state_advances w st st"
  by (auto simp: state_advances_def)

lemma state_advances_trans [trans]:
  "state_advances w a b \<Longrightarrow> state_advances w b c \<Longrightarrow> state_advances w a c"
  unfolding state_advances_def by (meson order_trans record_step_trans)

text \<open>A run of published documents: each one good, each one an advance on the one before.\<close>

fun published_ok :: "world \<Rightarrow> doc_file \<Rightarrow> doc_file list \<Rightarrow> bool" where
  "published_ok w f [] \<longleftrightarrow> True"
| "published_ok w f (d # ds) \<longleftrightarrow> disk_ok w d \<and> advances w f d \<and> published_ok w d ds"

lemma published_ok_append [simp]:
  "published_ok w f (ds @ es) \<longleftrightarrow> published_ok w f ds \<and> published_ok w (last (f # ds)) es"
  by (induction ds arbitrary: f) auto

lemma published_ok_prefix:
  assumes "disk_ok w f" "published_ok w f ds" "d \<in> set (f # ds)"
  shows "disk_ok w d \<and> advances w f d"
  using assms
proof (induction ds arbitrary: f)
  case (Cons e es)
  show ?case
  proof (cases "d = f")
    case False
    with Cons.prems Cons.IH[of e] have "disk_ok w d" "advances w e d" by auto
    with Cons.prems advances_trans[of w f e d] show ?thesis by simp
  qed (use Cons in simp)
qed simp

lemma write_advances:
  assumes "load_state f = Inr a" "state_advances w a b" "store_ok w b"
  shows "advances w f (durable_write b)"
proof -
  from assms(3) have c: "canonical_state b" by (simp add: store_ok_def)
  have "scope_table w (stored_state b) = scope_table w b"
    by (simp add: fun_eq_iff scope_table_def lookup_same_tables[OF same_tables_stored[OF c]])
  moreover have "generation_of (stored_state b) = generation_of b"
    by (simp add: generation_of_def stored_state_def)
  ultimately show ?thesis using assms(1,2) load_durable_write[OF c]
    by (simp add: advances_def state_advances_def disk_table_def disk_generation_def generation_of_def)
qed

lemma put_record_advances:
  assumes st: "store_ok w st" and l: "lookup_record w st sid = Inr r"
    and step: "record_step r r'" and ok: "record_ok w r'"
  shows "state_advances w st (put_record st r')"
  using l step put_record_ok(2)[OF st l _ ok]
  by (auto simp: state_advances_def scope_table_def generation_of_def record_step_def[of r r'] 
      split: sum.splits)

end
