(* ===== verification/ScopeSteps.thy ===== *)
theory ScopeSteps
  imports ScopeInvariant
begin

text \<open>
  Every operation of the scope store keeps the invariant at every document it publishes and
  only advances the records; then the store as a transition system, with crashes, failed
  writes and interleaved operations of any caller.
\<close>

section \<open>Building blocks\<close>

lemma store_op_simps [simp]:
  "stop e = ([], Inl e)" "give x = ([], Inr x)"
  "ask (Inl e) k = ([], Inl e)" "ask (Inr x) k = k x"
  "publish_if False st f h = h f" "publish_if True st f h = publish st h"
  "fst (publish st h) = durable_write st # fst (h (durable_write st))"
  "snd (publish st h) = snd (h (durable_write st))"
  by (simp_all add: stop_def give_def ask_def publish_if_def publish_def Let_def)

lemma ask_published:
  "(\<And>x. m = Inr x \<Longrightarrow> published_ok w f (fst (k x))) \<Longrightarrow> published_ok w f (fst (ask m k))"
  by (cases m) simp_all

lemma ask_result: "snd (ask m k) = Inr y \<longleftrightarrow> (\<exists>x. m = Inr x \<and> snd (k x) = Inr y)"
  by (cases m) simp_all

lemma read_disk_table: "disk_table w f sid = Some r \<longleftrightarrow> read_record w f sid = Inr r"
  by (auto simp: disk_table_def scope_table_def read_record_def result_simps split: sum.splits)

lemma disk_table_load: "load_state f = Inr st \<Longrightarrow> disk_table w f = scope_table w st"
  by (simp add: disk_table_def)

lemma disk_table_written: "store_ok w st \<Longrightarrow> disk_table w (durable_write st) = scope_table w st"
  by (auto simp: fun_eq_iff disk_table_def scope_table_def load_durable_write store_ok_def
      lookup_same_tables[OF same_tables_stored])

lemma scope_table_put:
  assumes "store_ok w st" "lookup_record w st sid = Inr r" "sealed r r'" "record_ok w r'"
  shows "scope_table w (put_record st r') = (scope_table w st)(sid \<mapsto> r')"
  by (simp add: fun_eq_iff scope_table_def put_record_ok(2)[OF assms])

lemma evolve_eq: "evolve g d = g \<longleftrightarrow> gs_policy_digest g = d"
  by (metis evolve_digest evolve_same)

lemma evolve_pos: "0 < gs_generation g \<Longrightarrow> 0 < gs_generation (evolve g d)"
  using evolve_mono[of g d] by simp

lemma generation_update:
  assumes st: "store_ok w st" and u: "placement_generation_update w st p = Inr (g, st', changed)"
  shows "store_ok w st'" "state_advances w st st'" "scope_table w st' = scope_table w st"
    "au_generation st' = Some g" "\<not> changed \<Longrightarrow> st' = st" "au_scopes st' = au_scopes st"
    "au_leases st' = au_leases st" "au_attempts st' = au_attempts st"
    "au_workspaces st' = au_workspaces st" "placement_policy_digest w p = Inr (gs_policy_digest g)"
    "lookup_record w st' = lookup_record w st"
proof -
  have sh: "st' = st\<lparr>au_generation := Some g\<rparr> \<and> (\<not> changed \<longrightarrow> st' = st)
      \<and> placement_policy_digest w p = Inr (gs_policy_digest g)
      \<and> generation_of st \<le> gs_generation g \<and> 0 < gs_generation g"
    using st u
    by (cases "au_generation st")
      (auto simp: placement_generation_update_def generation_of_def store_ok_def canonical_state_def
        evolve_eq evolve_mono evolve_pos result_simps Let_def split: if_splits)
  then show "\<not> changed \<Longrightarrow> st' = st" "au_generation st' = Some g" "au_scopes st' = au_scopes st"
    "au_leases st' = au_leases st" "au_attempts st' = au_attempts st"
    "au_workspaces st' = au_workspaces st" "placement_policy_digest w p = Inr (gs_policy_digest g)"
    by auto
  from sh show lk: "lookup_record w st' = lookup_record w st"
    by (auto simp: fun_eq_iff lookup_record_def)
  then show tb: "scope_table w st' = scope_table w st" by (simp add: fun_eq_iff scope_table_def)
  have "entry_ok w st sid v \<Longrightarrow> entry_ok w st' sid v" for sid v
    using sh by (auto simp: entry_ok_def indexed_def generation_bound_def generation_of_def)
  with sh st show "store_ok w st'" by (auto simp: store_ok_def canonical_state_def)
  from sh tb show "state_advances w st st'"
    by (auto simp: state_advances_def) (simp add: generation_of_def)
qed

section \<open>Updates of one record\<close>

definition good_update ::
  "world \<Rightarrow> (authority \<Rightarrow> scope_record \<Rightarrow> unit scope_result) \<Rightarrow> (scope_record \<Rightarrow> scope_record) \<Rightarrow> bool" where
  "good_update w check upd \<longleftrightarrow> (\<forall>st r. store_ok w st \<longrightarrow> check st r = Inr () \<longrightarrow> record_ok w r
     \<longrightarrow> record_step r (upd r) \<and> record_ok w (upd r))"

lemma put_published:
  assumes f: "load_state f = Inr st" and st: "store_ok w st" and l: "lookup_record w st sid = Inr r"
    and step: "record_step r r'" and ok: "record_ok w r'"
  shows "published_ok w f [durable_write (put_record st r')]"
    and "read_record w (durable_write (put_record st r')) sid = Inr r'"
    and "disk_table w (durable_write (put_record st r')) = (disk_table w f)(sid \<mapsto> r')"
proof -
  from step have seal: "sealed r r'" by (simp add: record_step_def)
  note p = put_record_ok[OF st l seal ok]
  show "published_ok w f [durable_write (put_record st r')]"
    using write_advances[OF f put_record_advances[OF st l step ok] p(1)] p(1) by auto
  show "read_record w (durable_write (put_record st r')) sid = Inr r'"
    using p by (simp add: read_after_write store_ok_def)
  show "disk_table w (durable_write (put_record st r')) = (disk_table w f)(sid \<mapsto> r')"
    using p(1) scope_table_put[OF st l seal ok] by (simp add: disk_table_written disk_table_load[OF f])
qed

lemma update_scope_published:
  assumes f: "disk_ok w f" and good: "good_update w check upd"
  shows "published_ok w f (fst (update_scope w f sid check upd confirm))"
proof -
  from disk_ok_load[OF f] obtain st where st: "load_state f = Inr st" "store_ok w st" .
  show ?thesis unfolding update_scope_def st(1) store_op_simps
  proof (intro ask_published)
    fix r u assume r: "lookup_record w st sid = Inr r" and c: "check st r = Inr u"
    from c st(2) lookup_ok(2)[OF st(2) r] good have g: "record_step r (upd r)" "record_ok w (upd r)"
      by (auto simp: good_update_def)
    note p = put_published[OF st r g]
    show "published_ok w f (fst (publish (put_record st (upd r)) (\<lambda>f'. ask (read_record w f' sid)
        (\<lambda>confirmed. if confirm confirmed then ([], Inr confirmed) else ([], Inl ScopeCorrupt)))))"
      using p(1,2) by auto
  qed
qed

lemma update_scope_result:
  assumes f: "disk_ok w f" and good: "good_update w check upd"
    and res: "snd (update_scope w f sid check upd confirm) = Inr c"
  obtains st r where "load_state f = Inr st" "store_ok w st" "lookup_record w st sid = Inr r"
    "check st r = Inr ()" "record_ok w r" "c = upd r" "confirm c"
    "final_doc f (update_scope w f sid check upd confirm) = durable_write (put_record st c)"
    "disk_table w (final_doc f (update_scope w f sid check upd confirm)) = (disk_table w f)(sid \<mapsto> c)"
proof -
  from disk_ok_load[OF f] obtain st where st: "load_state f = Inr st" "store_ok w st" .
  from res obtain r where r: "lookup_record w st sid = Inr r" "check st r = Inr ()"
    by (auto simp: update_scope_def st(1) ask_result)
  have rok: "record_ok w r" by (rule lookup_ok(2)[OF st(2) r(1)])
  with st(2) r(2) good have g: "record_step r (upd r)" "record_ok w (upd r)"
    by (auto simp: good_update_def)
  note p = put_published[OF st r(1) g]
  from res p(2) have c: "c = upd r" "confirm c"
    by (auto simp: update_scope_def st(1) r split: if_splits)
  have fd: "final_doc f (update_scope w f sid check upd confirm) = durable_write (put_record st c)"
    using c p(2) by (simp add: final_doc_def update_scope_def st(1) r)
  show thesis
    using that[OF st r rok c fd] p(3) fd c(1) by simp
qed

text \<open>A request that passes the checks succeeds and commits exactly its update.\<close>

lemma update_scope_succeeds:
  assumes f: "load_state f = Inr st" "store_ok w st" and r: "lookup_record w st sid = Inr r"
    and c: "check st r = Inr ()" and good: "good_update w check upd" and conf: "confirm (upd r)"
  shows "snd (update_scope w f sid check upd confirm) = Inr (upd r)"
proof -
  have "record_ok w r" by (rule lookup_ok(2)[OF f(2) r])
  with f(2) c good have "record_step r (upd r)" "record_ok w (upd r)" by (auto simp: good_update_def)
  from put_published(2)[OF f r this] show ?thesis by (simp add: update_scope_def f(1) r c conf)
qed

lemma update_scope_error:
  "load_state f = Inr st \<Longrightarrow> lookup_record w st sid = Inr r \<Longrightarrow> check st r = Inl e \<Longrightarrow>
     update_scope w f sid check upd confirm = ([], Inl e)"
  "load_state f = Inr st \<Longrightarrow> lookup_record w st sid = Inl e \<Longrightarrow>
     update_scope w f sid check upd confirm = ([], Inl e)"
  by (simp_all add: update_scope_def)

section \<open>The operations that update one record\<close>

lemma payload_mutable [simp]:
  "immutable_digest_payload (r\<lparr>sr_state := a\<rparr>) = immutable_digest_payload r"
  "immutable_digest_payload (r\<lparr>sr_sandbox_identity := b\<rparr>) = immutable_digest_payload r"
  "immutable_digest_payload (r\<lparr>sr_active_job_ids := c\<rparr>) = immutable_digest_payload r"
  "immutable_digest_payload (r\<lparr>sr_active_process_ids := c\<rparr>) = immutable_digest_payload r"
  "immutable_digest_payload (r\<lparr>sr_sandbox_write_authority_present := d\<rparr>) = immutable_digest_payload r"
  "immutable_digest_payload (r\<lparr>sr_runtime_read_authority_roots := c\<rparr>) = immutable_digest_payload r"
  "immutable_digest_payload (r\<lparr>sr_session_object_read_binding := e\<rparr>) = immutable_digest_payload r"
  "immutable_digest_payload (r\<lparr>sr_terminalized_at := b\<rparr>) = immutable_digest_payload r"
  by (simp_all add: immutable_digest_payload_def)

lemmas good_update_simps = good_update_def record_step_def record_ok_def digest_verified_def
  scope_digest_of_def sealed_def binding_wf_def has_runtime_authority_def authority_shrinks_def
  sr_current_iff

lemma state_order [simp]:
  "s \<le> Terminal" "Provisioned \<le> s" "\<not> Revoked \<le> Active" "\<not> Expired \<le> Active" "\<not> Terminal \<le> Active"
  "s \<le> Revoked \<longleftrightarrow> s \<noteq> Terminal" "s \<le> Provisioned \<longleftrightarrow> s = Provisioned" "Active \<le> s \<longleftrightarrow> s \<noteq> Provisioned"
  "Terminal \<le> s \<longleftrightarrow> s = Terminal"
  by (cases s; simp add: less_eq_scope_state_def)+

lemma state_le_Active: "s \<le> Active \<longleftrightarrow> s = Provisioned \<or> s = Active"
  by (cases s) (simp_all add: less_eq_scope_state_def)

lemma good_reserve_sandbox: "good_update w
  (\<lambda>st r. if sr_generation r \<noteq> generation \<or> \<not> sr_current r then Inl ScopeNotCurrent else
     rbind (assert_unrivalled w st r) (\<lambda>_.
     if sr_sandbox_identity r \<notin> {None, Some identity} then Inl ScopeConflict else Inr ()))
  (\<lambda>r. r\<lparr>sr_state := Active, sr_sandbox_identity := Some identity,
         sr_sandbox_write_authority_present := True\<rparr>)"
  by (auto simp: good_update_simps result_simps state_le_Active split: if_splits)

lemma good_bind_process: "good_update w
  (\<lambda>st r. if sr_generation r \<noteq> generation \<or> \<not> sr_current r then Inl ScopeNotCurrent
     else if sr_sandbox_identity r \<noteq> Some sandbox \<or> \<not> sr_sandbox_write_authority_present r
     then Inl ScopeConflict else assert_unrivalled w st r)
  (\<lambda>r. r\<lparr>sr_active_job_ids := sorted_set (job_id # sr_active_job_ids r),
         sr_active_process_ids := sorted_set (show_int process_id # sr_active_process_ids r)\<rparr>)"
  by (auto simp: good_update_simps split: if_splits)

lemma filter_ne_Nil: "filter P xs \<noteq> [] \<Longrightarrow> xs \<noteq> []"
  by auto

lemma good_release_process: "good_update w
  (\<lambda>st r. if sr_generation r \<noteq> generation then Inl ScopeNotCurrent else Inr ())
  (\<lambda>r. r\<lparr>sr_active_job_ids := filter (\<lambda>v. v \<noteq> job_id) (sr_active_job_ids r),
         sr_active_process_ids := filter (\<lambda>v. v \<noteq> show_int process_id) (sr_active_process_ids r)\<rparr>)"
  by (auto simp: good_update_simps filter_empty_conv split: if_splits)

lemma good_reserve_read: "good_update w
  (\<lambda>st r. if sr_generation r \<noteq> generation \<or> sr_state r \<noteq> Active then Inl ScopeNotCurrent
     else if sr_sandbox_identity r \<noteq> Some sandbox \<or> \<not> sr_sandbox_write_authority_present r
     then Inl ScopeConflict else Inr ())
  (\<lambda>r. let roots = sr_runtime_read_authority_roots r in
       r\<lparr>sr_runtime_read_authority_roots := sort_key casefold
           (if list_ex (same_root root) roots then roots else roots @ [root])\<rparr>)"
  by (auto simp: good_update_simps Let_def split: if_splits)

lemma good_clear_read: "good_update w
  (\<lambda>st r. if sr_generation r \<noteq> generation then Inl ScopeNotCurrent
     else if sr_state r = Terminal then Inl ScopeNotCurrent
     else if sr_sandbox_identity r \<noteq> Some sandbox then Inl ScopeConflict else Inr ())
  (\<lambda>r. r\<lparr>sr_runtime_read_authority_roots :=
         filter (\<lambda>v. \<not> same_root root v) (sr_runtime_read_authority_roots r)\<rparr>)"
  by (auto simp: good_update_simps split: if_splits)

lemma good_reserve_session: "session_binding_ok b \<Longrightarrow> good_update w
  (\<lambda>st r. if sr_generation r \<noteq> generation \<or> sr_state r \<noteq> Active then Inl ScopeNotCurrent
     else if sr_sandbox_identity r \<noteq> Some sandbox \<or> \<not> sr_sandbox_write_authority_present r
     then Inl ScopeConflict
     else if sr_session_object_read_binding r \<notin> {None, Some b} then Inl ScopeConflict else Inr ())
  (\<lambda>r. r\<lparr>sr_session_object_read_binding := Some b\<rparr>)"
  by (auto simp: good_update_simps split: if_splits)

lemma good_clear_session: "good_update w
  (\<lambda>st r. if sr_generation r \<noteq> generation then Inl ScopeNotCurrent
     else if sr_state r = Terminal then Inl ScopeNotCurrent
     else if sr_sandbox_identity r \<noteq> Some sandbox then Inl ScopeConflict
     else if sr_session_object_read_binding r \<noteq> Some b then Inl ScopeConflict else Inr ())
  (\<lambda>r. r\<lparr>sr_session_object_read_binding := None\<rparr>)"
  by (auto simp: good_update_simps split: if_splits)

lemma good_clear_write: "good_update w
  (\<lambda>st r. if sr_generation r \<noteq> generation then Inl ScopeNotCurrent
     else if sr_sandbox_identity r \<noteq> Some sandbox then Inl ScopeConflict
     else if sr_active_job_ids r \<noteq> [] \<or> sr_active_process_ids r \<noteq> [] then Inl ScopeStillActive
     else Inr ())
  (\<lambda>r. r\<lparr>sr_sandbox_write_authority_present := False\<rparr>)"
  by (auto simp: good_update_simps split: if_splits)

lemmas good_updates = good_reserve_sandbox good_bind_process good_release_process good_reserve_read[unfolded Let_def]
  good_clear_read good_reserve_session good_clear_session good_clear_write

lemma published_if:
  "(\<not> c \<Longrightarrow> published_ok w f (fst x)) \<Longrightarrow> published_ok w f (fst (if c then stop e else x))"
  by simp

lemma runtime_ops_published:
  assumes "disk_ok w f"
  shows "published_ok w f (fst (reserve_sandbox_identity w f sid n sb))"
    "published_ok w f (fst (bind_runtime_process w f sid n sb job pid))"
    "published_ok w f (fst (release_runtime_process w f sid n job pid))"
    "published_ok w f (fst (reserve_runtime_read_authority w f sid n sb root))"
    "published_ok w f (fst (clear_runtime_read_authority w f sid n sb root))"
    "published_ok w f (fst (reserve_session_object_read_binding w f sid n sb b))"
    "published_ok w f (fst (clear_session_object_read_binding w f sid n sb b))"
    "published_ok w f (fst (clear_sandbox_write_authority w f sid n sb))"
  unfolding reserve_sandbox_identity_def bind_runtime_process_def release_runtime_process_def
      reserve_runtime_read_authority_def clear_runtime_read_authority_def
      reserve_session_object_read_binding_def clear_session_object_read_binding_def
      clear_sandbox_write_authority_def Let_def
  by (intro published_if update_scope_published assms good_updates; simp)+

lemma revoke_step: "sr_state r \<noteq> Terminal \<Longrightarrow> record_ok w r \<Longrightarrow>
    record_step r (r\<lparr>sr_state := Revoked\<rparr>) \<and> record_ok w (r\<lparr>sr_state := Revoked\<rparr>)"
  by (auto simp: good_update_simps)

lemma revoke_published:
  assumes f: "disk_ok w f" shows "published_ok w f (fst (revoke_scope w f sid n))"
proof -
  from disk_ok_load[OF f] obtain st where st: "load_state f = Inr st" "store_ok w st" .
  show ?thesis
  proof (cases "lookup_record w st sid")
    case (Inr r)
    have ok: "record_ok w r" by (rule lookup_ok(2)[OF st(2) Inr])
    show ?thesis
    proof (cases "sr_state r = Terminal")
      case False
      from revoke_step[OF False ok] put_published[OF st Inr] False show ?thesis
        by (auto simp: revoke_scope_def st(1) Inr)
    qed (simp add: revoke_scope_def st(1) Inr)
  qed (simp add: revoke_scope_def st(1))
qed

section \<open>Admission\<close>

lemma mark_expired_cases:
  assumes "mark_expired_if_needed r now = Inr r'"
  obtains "r' = r" "\<not> sr_current r"
  | t where "r' = r" "sr_current r" "parse_time (sr_expires_at r) = Some t" "now < t"
  | "sr_current r" "r' = r\<lparr>sr_state := Expired, sr_terminalized_at := Some (iso now)\<rparr>"
  using assms
  by (auto simp: mark_expired_if_needed_def parse_instant_def result_simps split: if_splits)

lemma expire_step:
  assumes "sr_current r" "record_ok w r"
  shows "record_step r (r\<lparr>sr_state := Expired, sr_terminalized_at := Some z\<rparr>)"
    "record_ok w (r\<lparr>sr_state := Expired, sr_terminalized_at := Some z\<rparr>)"
    "\<not> sr_current (r\<lparr>sr_state := Expired, sr_terminalized_at := Some z\<rparr>)"
  using assms by (auto simp: good_update_simps state_le_Active less_eq_scope_state_def)

lemma mark_expired:
  assumes "mark_expired_if_needed r now = Inr r'" "record_ok w r"
  shows "record_step r r'" "record_ok w r'"
    "r' \<noteq> r \<Longrightarrow> \<not> sr_current r'"
    "sr_current r' \<Longrightarrow> r' = r \<and> (\<exists>t. parse_time (sr_expires_at r) = Some t \<and> now < t)"
proof -
  from assms(1) have "record_step r r' \<and> record_ok w r' \<and> (r' \<noteq> r \<longrightarrow> \<not> sr_current r')
      \<and> (sr_current r' \<longrightarrow> r' = r \<and> (\<exists>t. parse_time (sr_expires_at r) = Some t \<and> now < t))"
  proof (cases rule: mark_expired_cases)
    case 3
    from expire_step[OF 3(1) assms(2)] show ?thesis unfolding 3(2) by blast
  qed (use assms(2) in simp_all)
  then show "record_step r r'" "record_ok w r'" "r' \<noteq> r \<Longrightarrow> \<not> sr_current r'"
    "sr_current r' \<Longrightarrow> r' = r \<and> (\<exists>t. parse_time (sr_expires_at r) = Some t \<and> now < t)"
    by blast+
qed

text \<open>Publishing the state held in memory, or not, after an advance on what was loaded.\<close>

lemma publish_advance:
  assumes "load_state f = Inr a" "state_advances w a b" "store_ok w b"
  shows "published_ok w f [durable_write b]"
  using write_advances[OF assms] assms(3) by auto

definition rv_published :: "world \<Rightarrow> doc_file \<Rightarrow> revalidation \<Rightarrow> bool" where
  "rv_published w f v \<longleftrightarrow> published_ok w f (rv_writes v)
     \<and> published_ok w f (rv_writes v @ [durable_write (rv_state v)])"

lemma rv_published_simple:
  assumes "load_state f = Inr a" "state_advances w a b" "store_ok w b"
  shows "rv_published w f \<lparr>rv_state = b, rv_writes = (if c then [durable_write b] else []), rv_result = x\<rparr>"
  using publish_advance[OF assms] by (auto simp: rv_published_def)

lemma revalidate_locked_published:
  assumes f: "load_state f = Inr a" "state_advances w a st" "store_ok w st"
    and l: "lookup_record w st sid = Inr r"
  shows "rv_published w f (revalidate_locked w st r p repo sem pr now)"
proof -
  have ok: "record_ok w r" by (rule lookup_ok(2)[OF f(3) l])
  note simple = rv_published_simple[OF f, where c = False, unfolded if_False]
  show ?thesis
  proof (cases "mark_expired_if_needed r now")
    case (Inl e) then show ?thesis by (simp add: revalidate_locked_def simple)
  next
    case (Inr r')
    note m = mark_expired[OF Inr ok]
    define b where "b = (if r' \<noteq> r then put_record st r' else st)"
    have b: "store_ok w b" "state_advances w a b"
      using put_record_ok(1)[OF f(3) l _ m(2)] put_record_advances[OF f(3) l m(1,2)] m(1) f(2,3)
        state_advances_trans by (auto simp: b_def record_step_def)
    note simple' = rv_published_simple[OF f(1) b(2,1), where c = False, unfolded if_False]
    show ?thesis
    proof (cases "placement_generation_update w b p")
      case (Inl e)
      show ?thesis unfolding revalidate_locked_def Inr Let_def
        using simple simple' Inl by (auto simp: b_def[symmetric])
    next
      case (Inr x)
      then obtain g c ch where x: "placement_generation_update w b p = Inr (g, c, ch)"
        by (cases x) auto
      note u = generation_update[OF b(1) x]
      have c: "store_ok w c" "state_advances w a c" using u(1,2) b(2) state_advances_trans by blast+
      show ?thesis unfolding revalidate_locked_def \<open>mark_expired_if_needed r now = Inr r'\<close> Let_def
        using simple simple' rv_published_simple[OF f(1) c(2,1)] x
        by (auto simp: b_def[symmetric])
    qed
  qed
qed

lemma revalidate_scope_published:
  assumes f: "disk_ok w f"
  shows "published_ok w f (fst (revalidate_scope w f sid n p repo sem pr now))"
proof -
  from disk_ok_load[OF f] obtain st where st: "load_state f = Inr st" "store_ok w st" .
  show ?thesis
  proof (cases "lookup_record w st sid")
    case (Inr r)
    note v = revalidate_locked_published[OF st(1) _ st(2) Inr, of p repo sem pr now]
    then show ?thesis
      by (auto simp: revalidate_scope_def st(1) Inr Let_def rv_published_def split: sum.split)
  qed (simp add: revalidate_scope_def st(1))
qed

lemma revalidate_operation_published:
  "disk_ok w f \<Longrightarrow>
     published_ok w f (fst (revalidate_scope_for_operation w f sid n p repo sem cls pr now))"
  by (simp add: revalidate_scope_for_operation_def Let_def revalidate_scope_published)

text \<open>What a successful revalidation has established.\<close>

lemma revalidate_locked_Inr:
  assumes "rv_result (revalidate_locked w st r p repo sem pr now) = Inr (r', ch)" "record_ok w r"
  obtains g st' gch t where "r' = r" "\<not> ch" "sr_current r" "parse_time (sr_expires_at r) = Some t"
    "now < t" "placement_generation_update w st p = Inr (g, st', gch)"
    "revalidate_checks w st' r g p repo sem pr = Inr ()"
proof -
  from assms(1) obtain r1 where m: "mark_expired_if_needed r now = Inr r1"
    by (auto simp: revalidate_locked_def Let_def split: if_splits sum.splits)
  note me = mark_expired[OF m assms(2)]
  have cur: "sr_current r1"
    using assms(1) m by (auto simp: revalidate_locked_def Let_def split: if_splits)
  from me(4)[OF this] obtain t where r1: "r1 = r" and t: "parse_time (sr_expires_at r) = Some t" "now < t"
    by auto
  from assms(1) m cur r1 t that show thesis
    by (auto simp: revalidate_locked_def result_simps split: if_splits sum.splits)
qed

end
