(* ===== verification/ScopeMint.thy ===== *)
theory ScopeMint
  imports ScopeSteps
begin

text \<open>
  Provisioning and terminalization keep the invariant. In a good document no scope has a
  rival: its index entries are its own, so the checks for a competing scope always pass.
\<close>

section \<open>No rivals\<close>

lemma lookup_unique:
  assumes st: "store_ok w st" and a: "lookup_record w st x = Inr r" and b: "lookup_record w st y = Inr q"
    and k: "sr_unique_lease_key r = sr_unique_lease_key q \<or> sr_attempt_key r = sr_attempt_key q
      \<or> sr_exact_workspace_digest r = sr_exact_workspace_digest q"
  shows "x = y"
  using lookup_ok(1,3)[OF st a] lookup_ok(1,3)[OF st b] k
  by (auto simp: indexed_def workspace_entry_def)

lemma store_indexed:
  assumes st: "store_ok w st" and a: "lookup_record w st x = Inr r"
  shows "assert_index_binding st r (sr_unique_lease_key r) = Inr ()"
  using lookup_ok(1,3)[OF st a]
  by (simp add: assert_index_binding_def indexed_def workspace_entry_def dget_def)

lemma no_competing_part:
  assumes st: "store_ok w st" and a: "lookup_record w st x = Inr r"
  shows "\<forall>(sid, v) \<in> set scopes. map_of (au_scopes st) sid = Some v \<Longrightarrow>
    assert_no_competing w scopes r = Inr ()"
proof (induction scopes)
  case (Cons e scopes)
  obtain sid v where e: "e = (sid, v)" by (cases e)
  with Cons.prems have m: "map_of (au_scopes st) sid = Some v" by simp
  from lookup_store(2)[OF st m] obtain q where q: "record_from_json w v = Inr q"
    by blast
  then have "lookup_record w st sid = Inr q" using m by (simp add: lookup_store(1)[OF st])
  from lookup_unique[OF st this a] lookup_ok(1)[OF st a]
  have "sid \<noteq> sr_scope_id r \<Longrightarrow> sr_unique_lease_key q \<noteq> sr_unique_lease_key r
      \<and> sr_exact_workspace_digest q \<noteq> sr_exact_workspace_digest r" by auto
  with Cons q e show ?case by auto
qed simp

lemma store_unrivalled:
  assumes st: "store_ok w st" and a: "lookup_record w st x = Inr r"
  shows "assert_no_competing w (au_scopes st) r = Inr ()" "assert_unrivalled w st r = Inr ()"
proof -
  from st have "distinct (keys (au_scopes st))"
    by (simp add: store_ok_def canonical_state_def canonical_items_def)
  then show "assert_no_competing w (au_scopes st) r = Inr ()"
    by (intro no_competing_part[OF st a]) (auto simp: map_of_eq_Some_iff)
  then show "assert_unrivalled w st r = Inr ()"
    by (simp add: assert_unrivalled_def store_indexed[OF st a])
qed

section \<open>Minting\<close>

definition workspace_entry_keys :: "string list" where
  "workspace_entry_keys = [''lease_key'', ''scope_id'']"

lemma sorted_workspace_entry_keys: "sorted workspace_entry_keys"
  by code_simp

lemma json_norm_workspace_entry [simp]: "json_norm (workspace_entry r) = workspace_entry r"
  unfolding workspace_entry_def
  by (rule json_norm_keys[OF _ sorted_workspace_entry_keys]) (simp_all add: workspace_entry_keys_def)

lemma insert_scope_tables [simp]:
  "map_of (au_scopes (insert_scope st r)) = (map_of (au_scopes st))(sr_scope_id r \<mapsto> record_to_json r)"
  "map_of (au_leases (insert_scope st r)) = (map_of (au_leases st))(sr_unique_lease_key r \<mapsto> VStr (sr_scope_id r))"
  "map_of (au_attempts (insert_scope st r)) = (map_of (au_attempts st))(sr_attempt_key r \<mapsto> VStr (sr_scope_id r))"
  "map_of (au_workspaces (insert_scope st r)) =
     (map_of (au_workspaces st))(sr_exact_workspace_digest r \<mapsto> workspace_entry r)"
  "au_generation (insert_scope st r) = au_generation st"
  by (simp_all add: insert_scope_def workspace_entry_def)

lemma canonical_insert_scope: "canonical_state st \<Longrightarrow> canonical_state (insert_scope st r)"
  by (auto simp: canonical_state_def insert_scope_def workspace_entry_def[symmetric])

definition unclaimed :: "authority \<Rightarrow> scope_record \<Rightarrow> bool" where
  "unclaimed st r \<longleftrightarrow> map_of (au_scopes st) (sr_scope_id r) = None
     \<and> dget (au_leases st) (sr_unique_lease_key r) = VNull
     \<and> dget (au_attempts st) (sr_attempt_key r) = VNull
     \<and> dget (au_workspaces st) (sr_exact_workspace_digest r) = VNull"

lemma insert_scope_ok:
  assumes st: "store_ok w st" and new: "unclaimed st r" and ok: "record_ok w r"
    and gen: "generation_bound st r"
  shows "store_ok w (insert_scope st r)"
    and "lookup_record w (insert_scope st r) x =
           (if x = sr_scope_id r then Inr r else lookup_record w st x)"
    and "state_advances w st (insert_scope st r)"
proof -
  have old: "entry_ok w (insert_scope st r) sid v" if "map_of (au_scopes st) sid = Some v" for sid v
  proof -
    from that st have "entry_ok w st sid v" by (simp add: store_ok_def)
    then obtain q where "v = record_to_json q" "sr_scope_id q = sid" "record_ok w q" "indexed st q"
      "generation_bound st q" by (auto simp: entry_ok_def)
    with new show ?thesis
      unfolding entry_ok_def
      by (intro exI[of _ q])
        (auto simp: indexed_def generation_bound_def generation_of_def unclaimed_def dget_def workspace_entry_def)
  qed
  have "entry_ok w (insert_scope st r) (sr_scope_id r) (record_to_json r)"
    unfolding entry_ok_def using ok gen
    by (intro exI[of _ r]) (simp add: indexed_def generation_bound_def generation_of_def)
  with old st show s: "store_ok w (insert_scope st r)"
    by (simp add: store_ok_def canonical_insert_scope)
  have "record_from_json w (record_to_json r) = Inr r"
    using ok record_roundtrip[of r w] by (simp add: record_ok_def)
  then show l: "lookup_record w (insert_scope st r) x =
           (if x = sr_scope_id r then Inr r else lookup_record w st x)" for x
    by (simp add: lookup_store(1)[OF s] lookup_store(1)[OF st])
  have "scope_table w st (sr_scope_id r) = None"
    using new by (simp add: scope_table_def lookup_store(1)[OF st] unclaimed_def)
  with l show "state_advances w st (insert_scope st r)"
    by (auto simp: state_advances_def generation_of_def) (auto simp: scope_table_def)
qed

lemma seal_ok:
  assumes "sr_state r = Provisioned" "sr_sandbox_identity r = None" "\<not> has_runtime_authority r"
  shows "record_ok w (seal w r)"
proof -
  have "scope_digest_of w (seal w r) = scope_digest_of w r"
    by (simp add: scope_digest_of_def immutable_digest_payload_def seal_def)
  then show ?thesis using assms
    by (simp add: record_ok_def digest_verified_def seal_def binding_wf_def has_runtime_authority_def)
qed

lemma draft_ok: "record_ok w (seal w (draft_record ids sem pe lk ak ops i e))"
  by (rule seal_ok) (simp_all add: draft_record_def has_runtime_authority_def)

lemma sealed_draft_fields [simp]:
  "sr_scope_id (seal w (draft_record ids sem pe lk ak ops i e)) = fi_scope_id ids"
  "sr_unique_lease_key (seal w (draft_record ids sem pe lk ak ops i e)) = lk"
  "sr_attempt_key (seal w (draft_record ids sem pe lk ak ops i e)) = ak"
  "sr_exact_workspace_digest (seal w (draft_record ids sem pe lk ak ops i e)) = pe_exact_workspace_digest pe"
  "sr_placement_generation (seal w (draft_record ids sem pe lk ak ops i e)) = pe_generation pe"
  by (simp_all add: seal_def draft_record_def)

lemma mint_scope_succeeds:
  assumes st: "store_ok w st"
    and r: "r = seal w (draft_record ids sem pe lk ak ops (iso now) expires)"
    and e: "expiry_text now (mp_scope_ttl_seconds p) = Inr expires"
    and new: "unclaimed st r" and gen: "pe_generation pe \<le> generation_of st"
  shows "mint_scope w st ids ak lk pe p sem ops now = ([durable_write (insert_scope st r)], Inr r)"
proof -
  have ok: "record_ok w r" unfolding r by (rule draft_ok)
  have "generation_bound st r" using gen by (simp add: r generation_bound_def)
  note i = insert_scope_ok[OF st new ok this]
  have lk: "sr_unique_lease_key r = lk" by (simp add: r)
  have l: "lookup_record w (insert_scope st r) (sr_scope_id r) = Inr r" by (simp add: i(2))
  have c: "canonical_state (insert_scope st r)" using i(1) by (simp add: store_ok_def)
  have l': "lookup_record w (stored_state (insert_scope st r)) (sr_scope_id r) = Inr r"
    using l by (simp add: lookup_same_tables[OF same_tables_stored[OF c]])
  have "sr_scope_id r = fi_scope_id ids" by (simp add: r)
  with l' have l2: "lookup_record w (stored_state (insert_scope st r)) (fi_scope_id ids) = Inr r" by simp
  from store_indexed[OF i(1) l] store_indexed[OF store_ok_stored[OF i(1)] l'] store_unrivalled(1)[OF i(1) l]
  show ?thesis
    by (simp add: mint_scope_def e Let_def r[symmetric] lk publish_def load_durable_write[OF c] l2 \<open>sr_scope_id r = fi_scope_id ids\<close>)
qed

lemma mint_scope_published:
  assumes f: "load_state f = Inr a" "state_advances w a st" "store_ok w st"
    and new: "\<And>e. unclaimed st (seal w (draft_record ids sem pe lk ak ops (iso now) e))"
    and gen: "pe_generation pe \<le> generation_of st"
  shows "published_ok w f (fst (mint_scope w st ids ak lk pe p sem ops now))"
proof (cases "expiry_text now (mp_scope_ttl_seconds p)")
  case (Inr e)
  let ?r = "seal w (draft_record ids sem pe lk ak ops (iso now) e)"
  have "generation_bound st ?r" using gen by (simp add: generation_bound_def)
  note i = insert_scope_ok[OF f(3) new draft_ok this]
  have "state_advances w a (insert_scope st ?r)" using f(2) i(3) state_advances_trans by blast
  from publish_advance[OF f(1) this i(1)] show ?thesis
    by (simp add: mint_scope_succeeds[OF f(3) refl Inr new gen])
qed (simp add: mint_scope_def)

lemma publish_if_stop:
  assumes "load_state f = Inr a" "state_advances w a b" "store_ok w b"
  shows "published_ok w f (fst (publish_if c b f (\<lambda>_. stop e)))"
  using publish_advance[OF assms] by (cases c) simp_all

lemma provision_fresh_published:
  assumes f: "load_state f = Inr a" "state_advances w a st" "store_ok w st"
    and fresh: "map_of (au_scopes st) (fi_scope_id ids) = None"
    and att: "dget (au_attempts st) ak = VNull" and gen: "pe_generation pe \<le> generation_of st"
  shows "published_ok w f (fst (provision_fresh w f st ch ids ak lk pe p sem ops now))"
  using publish_if_stop[OF f] mint_scope_published[OF f _ gen, of ids sem lk ak ops now p] fresh att
  by (auto simp: provision_fresh_def unclaimed_def split: pyval.split)

lemma provision_existing_published:
  assumes f: "load_state f = Inr a" "state_advances w a st" "store_ok w st"
  shows "published_ok w f (fst (provision_existing w f st ch sid ak lk pe p repo sem ops pr now))"
proof (cases "lookup_record w st sid")
  case (Inr r)
  note v = revalidate_locked_published[OF f Inr, of p repo sem pr now]
  then show ?thesis using publish_advance[OF f]
    by (cases ch) (auto simp: provision_existing_def Inr Let_def rv_published_def split: sum.split)
qed (simp add: provision_existing_def)

lemma resolve_uses_generation:
  assumes u: "placement_generation_update w st0 p = Inr (g, st, ch)" and st: "store_ok w st0"
    and pe: "resolve_placement w p repo sem (Some g) pr = Inr pe"
  shows "pe_generation pe = generation_of st" "pe_policy_digest pe = gs_policy_digest g"
    "evidence_generation_state pe = g"
proof -
  note u' = generation_update[OF st u]
  from resolve_placement_generation[OF pe] u'(10) have "pe_policy_digest pe = gs_policy_digest g" by simp
  with resolve_placement_generation[OF pe] show *: "evidence_generation_state pe = g" by simp
  then show "pe_policy_digest pe = gs_policy_digest g" "pe_generation pe = generation_of st"
    using u'(4) by (auto simp: evidence_generation_state_def generation_of_def)
qed

lemma provision_published:
  assumes f: "disk_ok w f" and fresh: "disk_table w f (fi_scope_id ids) = None"
  shows "published_ok w f (fst (provision_scope w root ids f p repo sem classes pr now))"
proof -
  from disk_ok_load[OF f] obtain st0 where st0: "load_state f = Inr st0" "store_ok w st0" .
  from fresh st0(1) have "lookup_record w st0 (fi_scope_id ids) \<noteq> Inr r" for r
    by (auto simp: disk_table_load scope_table_def split: sum.splits)
  then have fr: "map_of (au_scopes st0) (fi_scope_id ids) = None"
    using lookup_store(2)[OF st0(2)] by (fastforce simp: lookup_store(1)[OF st0(2)] split: option.splits)
  show ?thesis
  proof (cases "placement_generation_update w st0 p")
    case (Inr gsc)
    then obtain g st ch where u: "placement_generation_update w st0 p = Inr (g, st, ch)"
      by (cases gsc) auto
    note u' = generation_update[OF st0(2) u]
    note p = publish_if_stop[OF st0(1) u'(2,1)] provision_existing_published[OF st0(1) u'(2,1)]
    have "published_ok w f (fst (provision_placed w root ids f st ch g p repo sem ops pr now))" for ops
      unfolding provision_placed_def
    proof (intro ask_published)
      fix pe ak lk r1 r2
      assume pe: "resolve_placement w p repo sem (Some g) pr = Inr pe"
      note g = resolve_uses_generation[OF u st0(2) pe]
      have fresh': "published_ok w f (fst (provision_fresh w f st ch ids ak lk pe p sem ops now))"
        if "dget (au_attempts st) ak = VNull"
        using provision_fresh_published[OF st0(1) u'(2,1) _ that] fr g(1) u'(6) by simp
      show "published_ok w f (fst (if paths_overlap r1 r2
          then publish_if ch st f (\<lambda>_. stop ScopeConflict) else
          case dget (au_attempts st) ak of
           VNull \<Rightarrow> provision_fresh w f st ch ids ak lk pe p sem ops now
          | VStr sid \<Rightarrow> provision_existing w f st ch sid ak lk pe p repo sem ops pr now
          | _ \<Rightarrow> stop ScopeCorrupt))"
        using p fresh' by (auto split: pyval.split)
    qed
    then show ?thesis
      unfolding provision_scope_def st0(1) by (intro ask_published) (auto simp: u)
  qed (auto simp: provision_scope_def st0(1) intro!: ask_published)
qed

section \<open>Closing\<close>

lemma stored_advances:
  assumes "store_ok w st"
  shows "load_state (durable_write st) = Inr (stored_state st)" "state_advances w (stored_state st) st"
proof -
  from assms have c: "canonical_state st" by (simp add: store_ok_def)
  show "load_state (durable_write st) = Inr (stored_state st)" by (rule load_durable_write[OF c])
  have "scope_table w (stored_state st) = scope_table w st"
    by (simp add: fun_eq_iff scope_table_def lookup_same_tables[OF same_tables_stored[OF c]])
  then show "state_advances w (stored_state st) st"
    by (simp add: state_advances_def generation_of_def stored_state_def)
qed

lemma put_after_publish_if:
  assumes f: "load_state f = Inr a" "state_advances w a st" "store_ok w st"
    and l: "lookup_record w st sid = Inr r" and step: "record_step r r'" and ok: "record_ok w r'"
    and k: "\<And>d. fst (k d) = [durable_write (put_record st r')]"
  shows "published_ok w f (fst (publish_if c st f k))"
proof -
  have s: "sealed r r'" using step by (simp add: record_step_def)
  note p = put_record_ok(1)[OF f(3) l s ok] put_record_advances[OF f(3) l step ok]
  have "state_advances w a (put_record st r')" "state_advances w (stored_state st) (put_record st r')"
    using f(2) p(2) stored_advances(2)[OF f(3)] state_advances_trans by blast+
  from publish_advance[OF f(1) this(1) p(1)] publish_advance[OF stored_advances(1)[OF f(3)] this(2) p(1)]
    publish_advance[OF f]
  show ?thesis by (cases c) (simp_all add: k)
qed

lemma terminal_step:
  assumes "\<not> has_runtime_authority r" "record_ok w r"
  shows "record_step r (r\<lparr>sr_state := Terminal, sr_terminalized_at := z\<rparr>)"
    "record_ok w (r\<lparr>sr_state := Terminal, sr_terminalized_at := z\<rparr>)"
  using assms by (auto simp: good_update_simps)

lemma closure_empty:
  "closure_check c r = Inr () \<Longrightarrow> rc_sandbox_identity c = sr_sandbox_identity r \<and> rc_active_job_ids c = []
     \<and> rc_active_process_ids c = [] \<and> \<not> rc_sandbox_write_authority_present c
     \<and> rc_runtime_read_authority_roots c = [] \<and> rc_session_object_read_binding c = None"
  by (auto simp: closure_check_def split: if_splits)

lemma finish_step:
  assumes "closure_check c cleanup = Inr ()" "record_ok w r"
  shows "record_step r (terminal_record r c now)" "record_ok w (terminal_record r c now)"
  using closure_empty[OF assms(1)] assms(2)
  by (auto simp: good_update_simps terminal_record_def)

lemma validate_sealed_Inr:
  "validate_sealed_binding w st r n repo sem = Inr lease \<Longrightarrow>
     sr_generation r = n \<and> sr_state r \<noteq> Terminal \<and> lease = sr_unique_lease_key r"
  by (auto simp: validate_sealed_binding_def result_simps split: if_splits)

lemma terminalize_begin_published:
  assumes f: "disk_ok w f"
  shows "published_ok w f (fst (terminalize_begin w f sid n p repo sem hc now))"
proof -
  from disk_ok_load[OF f] obtain st0 where st0: "load_state f = Inr st0" "store_ok w st0" .
  show ?thesis
  proof (cases "lookup_record w st0 sid")
    case (Inr r)
    show ?thesis
    proof (cases "placement_generation_update w st0 p")
      case u0: (Inr gsc)
      then obtain g st ch where u: "placement_generation_update w st0 p = Inr (g, st, ch)"
        by (cases gsc) auto
      note u' = generation_update[OF st0(2) u]
      have l: "lookup_record w st sid = Inr r" using Inr u'(11) by simp
      have ok: "record_ok w r" by (rule lookup_ok(2)[OF st0(2) Inr])
      show ?thesis
      proof (cases "validate_sealed_binding w st r n repo sem")
        case v: (Inr lease)
        from validate_sealed_Inr[OF v] have nt: "sr_state r \<noteq> Terminal" by simp
        note put = put_after_publish_if[OF st0(1) u'(2,1) l]
        note unf = terminalize_begin_def st0(1) Inr u v
        show ?thesis
        proof (cases "has_runtime_authority r")
          case rt: True
          note rv = revoke_step[OF nt ok]
          have rr: "read_record w (durable_write (put_record st (r\<lparr>sr_state := Revoked\<rparr>))) sid
              = Inr (r\<lparr>sr_state := Revoked\<rparr>)"
            using put_published(2)[OF stored_advances(1)[OF u'(1)] _ _ conjunct1[OF rv] conjunct2[OF rv]]
              put_record_ok[OF u'(1) l _ conjunct2[OF rv]] rv
            by (simp add: read_after_write store_ok_def record_step_def)
          show ?thesis
          proof (cases hc)
            case True
            with rt rr show ?thesis
              by (simp add: unf) (rule put[OF conjunct1[OF rv] conjunct2[OF rv]], simp add: rr)
          next
            case False
            with rt show ?thesis by (simp add: unf publish_if_stop[OF st0(1) u'(2,1), simplified])
          qed
        next
          case False
          let ?t = "r\<lparr>sr_state := Terminal, sr_terminalized_at := Some (iso now)\<rparr>"
          note t = terminal_step[OF False ok, of "Some (iso now)"]
          have s: "sealed r ?t" using t(1) by (simp add: record_step_def)
          note p = put_record_ok[OF u'(1) l s t(2)]
          have c: "canonical_state (put_record st ?t)" using p(1) by (simp add: store_ok_def)
          have "fst (ask (assert_index_binding (stored_state (put_record st ?t)) ?t lease) (\<lambda>_. give (Closed ?t))) = []"
            by (cases "assert_index_binding (stored_state (put_record st ?t)) ?t lease") simp_all
          with False show ?thesis
            by (simp add: unf) (rule put[OF t], simp add: load_durable_write[OF c] p(2)
                lookup_same_tables[OF same_tables_stored[OF c]])
        qed
      qed (simp add: terminalize_begin_def st0(1) Inr u)
    qed (simp add: terminalize_begin_def st0(1) Inr)
  qed (simp add: terminalize_begin_def st0(1))
qed

lemma terminalize_finish_published:
  assumes f: "disk_ok w f"
  shows "published_ok w f (fst (terminalize_finish w f sid n repo sem cl c now))"
proof -
  from disk_ok_load[OF f] obtain st where st: "load_state f = Inr st" "store_ok w st" .
  show ?thesis
  proof (cases "closure_check c cl")
    case cc: (Inr u)
    show ?thesis
    proof (cases "lookup_record w st sid")
      case (Inr r)
      have ok: "record_ok w r" by (rule lookup_ok(2)[OF st(2) Inr])
      note fs = finish_step[OF cc[unfolded unit_eq[of u]] ok, of now]
      have s: "sealed r (terminal_record r c now)" using fs(1) by (simp add: record_step_def)
      note p = put_record_ok[OF st(2) Inr s fs(2)]
      have c: "canonical_state (put_record st (terminal_record r c now))" using p(1) by (simp add: store_ok_def)
      note unf = terminalize_finish_def cc Inr st(1) load_durable_write[OF c] p(2)
        lookup_same_tables[OF same_tables_stored[OF c]]
      show ?thesis
        using put_published(1)[OF st Inr fs]
        by (cases "validate_sealed_binding w st r n repo sem")
          (auto simp: unf ask_def split: sum.split scope_error.split)
    qed (simp add: terminalize_finish_def cc st(1))
  qed (simp add: terminalize_finish_def)
qed

text \<open>What a completed terminalization returns.\<close>

lemma terminalize_finish_result:
  assumes f: "disk_ok w f"
    and res: "snd (terminalize_finish w f sid n repo sem cl c now) = Inr t"
  shows "sr_state t = Terminal" "\<not> has_runtime_authority t" "closure_check c cl = Inr ()"
    "\<exists>r. disk_table w f sid = Some r \<and> sr_state r = Revoked \<and> t = terminal_record r c now"
proof -
  from disk_ok_load[OF f] obtain st where st: "load_state f = Inr st" "store_ok w st" .
  from res obtain r lease where cc: "closure_check c cl = Inr ()" and l: "lookup_record w st sid = Inr r"
    and v: "validate_sealed_binding w st r n repo sem = Inr lease" and rv: "sr_state r = Revoked"
    by (auto simp: terminalize_finish_def ask_result st(1) split: if_splits)
  have ok: "record_ok w r" by (rule lookup_ok(2)[OF st(2) l])
  note fs = finish_step[OF cc ok, of now]
  have s: "sealed r (terminal_record r c now)" using fs(1) by (simp add: record_step_def)
  note p = put_record_ok[OF st(2) l s fs(2)]
  have c: "canonical_state (put_record st (terminal_record r c now))" using p(1) by (simp add: store_ok_def)
  from res have "t = terminal_record r c now \<and> sr_state t = Terminal \<and> \<not> has_runtime_authority t"
    by (auto simp: terminalize_finish_def ask_result st(1) l cc v rv load_durable_write[OF c] p(2)
        lookup_same_tables[OF same_tables_stored[OF c]] split: if_splits sum.splits scope_error.splits)
  with cc rv l st(1) show "sr_state t = Terminal" "\<not> has_runtime_authority t" "closure_check c cl = Inr ()"
    "\<exists>r. disk_table w f sid = Some r \<and> sr_state r = Revoked \<and> t = terminal_record r c now"
    by (auto simp: disk_table_load scope_table_def)
qed

end
