(* ===== verification/ScopeProtocol.thy ===== *)
theory ScopeProtocol
  imports ScopeMint
begin

text \<open>
  The scope store as a transition system. A step is one locked operation of any caller, with
  any policy, identities and clock, stopped after any number of the documents it publishes:
  the last one when it completes, an earlier one when the process dies or a write fails.
\<close>

section \<open>Steps\<close>

inductive scope_step :: "world \<Rightarrow> doc_file \<Rightarrow> doc_file \<Rightarrow> bool" for w where
  provision: "disk_table w f (fi_scope_id ids) = None \<Longrightarrow>
     d \<in> set (f # fst (provision_scope w root ids f p repo sem classes pr now)) \<Longrightarrow> scope_step w f d"
| revalidate: "d \<in> set (f # fst (revalidate_scope w f sid n p repo sem pr now)) \<Longrightarrow> scope_step w f d"
| revalidate_operation:
    "d \<in> set (f # fst (revalidate_scope_for_operation w f sid n p repo sem cls pr now)) \<Longrightarrow> scope_step w f d"
| reserve_sandbox: "d \<in> set (f # fst (reserve_sandbox_identity w f sid n sb)) \<Longrightarrow> scope_step w f d"
| bind_process: "d \<in> set (f # fst (bind_runtime_process w f sid n sb job pid)) \<Longrightarrow> scope_step w f d"
| release_process: "d \<in> set (f # fst (release_runtime_process w f sid n job pid)) \<Longrightarrow> scope_step w f d"
| reserve_read: "d \<in> set (f # fst (reserve_runtime_read_authority w f sid n sb rt)) \<Longrightarrow> scope_step w f d"
| clear_read: "d \<in> set (f # fst (clear_runtime_read_authority w f sid n sb rt)) \<Longrightarrow> scope_step w f d"
| reserve_session:
    "d \<in> set (f # fst (reserve_session_object_read_binding w f sid n sb b)) \<Longrightarrow> scope_step w f d"
| clear_session:
    "d \<in> set (f # fst (clear_session_object_read_binding w f sid n sb b)) \<Longrightarrow> scope_step w f d"
| clear_write: "d \<in> set (f # fst (clear_sandbox_write_authority w f sid n sb)) \<Longrightarrow> scope_step w f d"
| revoke: "d \<in> set (f # fst (revoke_scope w f sid n)) \<Longrightarrow> scope_step w f d"
| terminalize_begin:
    "d \<in> set (f # fst (terminalize_begin w f sid n p repo sem hc now)) \<Longrightarrow> scope_step w f d"
| terminalize_finish:
    "d \<in> set (f # fst (terminalize_finish w f sid n repo sem cl c now)) \<Longrightarrow> scope_step w f d"

inductive_cases scope_stepE: "scope_step w f d"

lemmas operations_published = provision_published revalidate_scope_published
  revalidate_operation_published runtime_ops_published revoke_published
  terminalize_begin_published terminalize_finish_published

lemma scope_step_good:
  assumes "scope_step w f d" "disk_ok w f"
  shows "disk_ok w d \<and> advances w f d"
proof -
  have stopped: "d \<in> set (f # ds) \<Longrightarrow> published_ok w f ds \<Longrightarrow> disk_ok w d \<and> advances w f d" for ds
    using published_ok_prefix[OF assms(2)] by blast
  from assms(1) show ?thesis
    by cases (erule stopped, rule operations_published, (rule assms(2) | assumption)+)+
qed

interpretation scope_system: guarded_system "scope_step w" "disk_ok w" "advances w" for w
proof
  show "advances w f h" if "advances w f g" "advances w g h" for f g h
    using that by (rule advances_trans)
qed (use scope_step_good advances_refl in blast)+

definition scope_reachable :: "world \<Rightarrow> doc_file \<Rightarrow> bool" where
  "scope_reachable w = (scope_step w)\<^sup>*\<^sup>* Missing"

lemma reachable_disk_ok: "scope_reachable w f \<Longrightarrow> disk_ok w f"
  unfolding scope_reachable_def by (erule scope_system.run_inv) (simp add: disk_ok_def)

lemma table_record:
  assumes "disk_ok w f" "disk_table w f sid = Some r"
  obtains st where "load_state f = Inr st" "store_ok w st" "lookup_record w st sid = Inr r" "record_ok w r"
proof -
  from disk_ok_load[OF assms(1)] obtain st where st: "load_state f = Inr st" "store_ok w st" .
  with assms(2) have l: "lookup_record w st sid = Inr r"
    by (auto simp: disk_table_load scope_table_def split: sum.splits)
  from that[OF st l lookup_ok(2)[OF st(2) l]] show thesis .
qed

section \<open>What a successful provisioning returns\<close>

lemma generation_update_again:
  assumes "placement_generation_update w st p = Inr (g, st', ch)"
  shows "placement_generation_update w st' p = Inr (g, st', False)"
proof -
  from assms obtain d where d: "placement_policy_digest w p = Inr d"
    by (auto simp: placement_generation_update_def result_simps)
  show ?thesis
    using assms by (cases "au_generation st")
      (auto simp: placement_generation_update_def d Let_def evolve_eq split: if_splits)
qed

lemma revalidate_locked_current:
  assumes v: "rv_result (revalidate_locked w st r p repo sem pr now) = Inr (c, chg)"
    and ok: "record_ok w r" and u: "placement_generation_update w st p = Inr (g, st, False)"
  obtains t where "c = r" "\<not> chg" "sr_current r" "parse_time (sr_expires_at r) = Some t" "now < t"
    "revalidate_locked w st r p repo sem pr now
       = \<lparr>rv_state = st, rv_writes = [], rv_result = Inr (r, False)\<rparr>"
    "revalidate_checks w st r g p repo sem pr = Inr ()"
proof -
  from revalidate_locked_Inr[OF v ok] u obtain t where t: "c = r" "\<not> chg" "sr_current r"
    "parse_time (sr_expires_at r) = Some t" "now < t" "revalidate_checks w st r g p repo sem pr = Inr ()"
    by auto
  then have m: "mark_expired_if_needed r now = Inr r"
    by (simp add: mark_expired_if_needed_def parse_instant_def)
  have d: "digest_verified w r" using ok by (simp add: record_ok_def)
  show thesis
    by (rule that[OF t(1-5) _ t(6)]) (simp add: revalidate_locked_def d m t u Let_def)
qed

text \<open>The placement a successful provisioning has computed, before it looks at the indexes.\<close>

definition provision_placement ::
  "world \<Rightarrow> path \<Rightarrow> doc_file \<Rightarrow> mutation_policy \<Rightarrow> repository_identity \<Rightarrow> semantic_identity \<Rightarrow> path list
     \<Rightarrow> authority \<Rightarrow> authority \<Rightarrow> generation_state \<Rightarrow> bool \<Rightarrow> placement_evidence \<Rightarrow> string \<Rightarrow> string \<Rightarrow> bool" where
  "provision_placement w root f p repo sem pr st0 st g ch pe ak lk \<longleftrightarrow>
     load_state f = Inr st0 \<and> placement_generation_update w st0 p = Inr (g, st, ch)
     \<and> resolve_placement w p repo sem (Some g) pr = Inr pe
     \<and> attempt_key_of w (pe_repository_identity_digest pe) sem = Inr ak
     \<and> unique_mutation_lease_key w (pe_repository_identity_digest pe) sem (pe_generation pe)
         (pe_exact_workspace_digest pe) = Inr lk
     \<and> (case (resolved w root, resolved w (pe_exact_future_workspace pe)) of
          (Inr a, Inr b) \<Rightarrow> \<not> paths_overlap a b | _ \<Rightarrow> False)"

lemma provision_split:
  assumes f: "load_state f = Inr st0"
    and res: "snd (provision_scope w root ids f p repo sem classes pr now) = Inr c"
  obtains ops g st ch pe ak lk where
    "normalize_operation_classes classes = Inr ops"
    "provision_placement w root f p repo sem pr st0 st g ch pe ak lk"
    "dget (au_attempts st) ak = VNull" "provision_scope w root ids f p repo sem classes pr now
       = provision_fresh w f st ch ids ak lk pe p sem ops now"
  | ops g st ch pe ak lk sid where
    "normalize_operation_classes classes = Inr ops"
    "provision_placement w root f p repo sem pr st0 st g ch pe ak lk"
    "dget (au_attempts st) ak = VStr sid" "provision_scope w root ids f p repo sem classes pr now
       = provision_existing w f st ch sid ak lk pe p repo sem ops pr now"
proof -
  from res obtain ops g st ch where n: "normalize_operation_classes classes = Inr ops"
    and u: "placement_generation_update w st0 p = Inr (g, st, ch)"
    and r: "snd (provision_placed w root ids f st ch g p repo sem ops pr now) = Inr c"
    by (auto simp: provision_scope_def ask_result f)
  have e: "provision_scope w root ids f p repo sem classes pr now
      = provision_placed w root ids f st ch g p repo sem ops pr now"
    by (simp add: provision_scope_def f n u)
  from r obtain pe ak lk r1 r2 where pl: "provision_placement w root f p repo sem pr st0 st g ch pe ak lk"
    and pe: "resolve_placement w p repo sem (Some g) pr = Inr pe"
      "attempt_key_of w (pe_repository_identity_digest pe) sem = Inr ak"
      "unique_mutation_lease_key w (pe_repository_identity_digest pe) sem (pe_generation pe)
         (pe_exact_workspace_digest pe) = Inr lk"
      "resolved w root = Inr r1" "resolved w (pe_exact_future_workspace pe) = Inr r2" "\<not> paths_overlap r1 r2"
    by (cases ch) (auto simp: provision_placed_def provision_placement_def ask_result f u split: if_splits)
  have e2: "provision_placed w root ids f st ch g p repo sem ops pr now =
      (case dget (au_attempts st) ak of
       VNull \<Rightarrow> provision_fresh w f st ch ids ak lk pe p sem ops now
     | VStr sid \<Rightarrow> provision_existing w f st ch sid ak lk pe p repo sem ops pr now
     | _ \<Rightarrow> stop ScopeCorrupt)"
    by (simp add: provision_placed_def pe)
  show thesis
    using that(1)[OF n pl] that(2)[OF n pl] r by (auto simp: e e2 split: pyval.splits)
qed

lemma provision_result:
  assumes f: "disk_ok w f" and new: "disk_table w f (fi_scope_id ids) = None"
    and res: "snd (provision_scope w root ids f p repo sem classes pr now) = Inr c"
  obtains (existing) sid t pe g st ch st0 ops where "disk_table w f sid = Some c" "sr_current c"
      "provision_placement w root f p repo sem pr st0 st g ch pe (sr_attempt_key c) (sr_unique_lease_key c)"
      "placement_matches c (sr_unique_lease_key c) pe" "normalize_operation_classes classes = Inr ops"
      "sr_allowed_operation_classes c = ops" "parse_time (sr_expires_at c) = Some t" "now < t"
      "provision_scope w root ids f p repo sem classes pr now
         = (if ch then [durable_write st] else [], Inr c)"
  | (fresh) pe ak lk ops g st st0 ch e where
      "provision_placement w root f p repo sem pr st0 st g ch pe ak lk"
      "dget (au_attempts st0) ak = VNull" "unclaimed st c" "pe_generation pe = generation_of st"
      "expiry_text now (mp_scope_ttl_seconds p) = Inr e"
      "c = seal w (draft_record ids sem pe lk ak ops (iso now) e)"
      "normalize_operation_classes classes = Inr ops"
      "provision_scope w root ids f p repo sem classes pr now
         = ([durable_write (insert_scope st c)], Inr c)"
proof -
  from disk_ok_load[OF f] obtain st0 where st0: "load_state f = Inr st0" "store_ok w st0" .
  from st0(1) res show thesis
  proof (cases rule: provision_split)
    case (1 ops g st ch pe ak lk)
    from 1(2) have u: "placement_generation_update w st0 p = Inr (g, st, ch)"
      and pe: "resolve_placement w p repo sem (Some g) pr = Inr pe"
      by (simp_all add: provision_placement_def)
    note u' = generation_update[OF st0(2) u]
    from res 1(4) have m: "snd (provision_fresh w f st ch ids ak lk pe p sem ops now) = Inr c" by simp
    then have l: "dget (au_leases st) lk = VNull"
      and wsp: "dget (au_workspaces st) (pe_exact_workspace_digest pe) = VNull"
      and mint: "snd (mint_scope w st ids ak lk pe p sem ops now) = Inr c"
      by (cases ch; auto simp: provision_fresh_def split: if_splits pyval.splits)+
    have "scope_table w st0 (fi_scope_id ids) = None" using new st0(1) by (simp add: disk_table_load)
    then have "map_of (au_scopes st0) (fi_scope_id ids) = None"
      using lookup_store(2)[OF st0(2), of "fi_scope_id ids"]
      by (fastforce simp: scope_table_def lookup_store(1)[OF st0(2)] split: option.splits)
    with 1(3) l wsp u'(6) have un: "unclaimed st (seal w (draft_record ids sem pe lk ak ops (iso now) e))" for e
      by (simp add: unclaimed_def)
    from mint obtain e where e: "expiry_text now (mp_scope_ttl_seconds p) = Inr e"
      by (auto simp: mint_scope_def ask_result)
    note g = resolve_uses_generation[OF u st0(2) pe]
    note ms = mint_scope_succeeds[OF u'(1) refl e un eq_refl[OF g(1)]]
    have c: "c = seal w (draft_record ids sem pe lk ak ops (iso now) e)" using mint ms by simp
    have "provision_fresh w f st ch ids ak lk pe p sem ops now = ([durable_write (insert_scope st c)], Inr c)"
      using ms c l wsp by (simp add: provision_fresh_def)
    with fresh[OF 1(2) _ _ g(1) e c 1(1)] 1 un c u'(8) show thesis by simp
  next
    case (2 ops g st ch pe ak lk sid)
    from 2(2) have u: "placement_generation_update w st0 p = Inr (g, st, ch)"
      by (simp add: provision_placement_def)
    note u' = generation_update[OF st0(2) u]
    from res 2(4) have m: "snd (provision_existing w f st ch sid ak lk pe p repo sem ops pr now) = Inr c" by simp
    then obtain r where r: "lookup_record w st sid = Inr r" and k: "sr_attempt_key r = ak"
      and pm: "placement_matches r lk pe"
      by (cases ch) (auto simp: provision_existing_def ask_result split: if_splits)
    with m obtain chg where v: "rv_result (revalidate_locked w st r p repo sem pr now) = Inr (c, chg)"
      and ops: "sr_allowed_operation_classes c = ops"
      by (auto simp: provision_existing_def Let_def split: sum.splits if_splits)
    from revalidate_locked_current[OF v lookup_ok(2)[OF u'(1) r] generation_update_again[OF u]]
    obtain t where t: "c = r" "sr_current c" "parse_time (sr_expires_at c) = Some t" "now < t"
      "revalidate_locked w st r p repo sem pr now
         = \<lparr>rv_state = st, rv_writes = [], rv_result = Inr (r, False)\<rparr>"
      by metis
    have tb: "disk_table w f sid = Some c"
      using r t(1) u'(11) by (simp add: disk_table_load[OF st0(1)] scope_table_def)
    have "provision_existing w f st ch sid ak lk pe p repo sem ops pr now
        = (if ch then [durable_write st] else [], Inr c)"
      using r k pm ops t by (simp add: provision_existing_def Let_def)
    moreover have "provision_placement w root f p repo sem pr st0 st g ch pe (sr_attempt_key c) (sr_unique_lease_key c)"
      using 2(2) k pm t(1) by (simp add: placement_matches_def)
    ultimately show thesis
      using existing[OF tb t(2) _ _ 2(1) ops t(3,4)] pm t(1) 2(4) by (auto simp: placement_matches_def)
  qed
qed

text \<open>A successful request leaves its record in the table and every other record as it was.\<close>

lemma provision_commits:
  assumes f: "disk_ok w f" and new: "disk_table w f (fi_scope_id ids) = None"
    and res: "snd (provision_scope w root ids f p repo sem classes pr now) = Inr c"
  shows "disk_table w (final_doc f (provision_scope w root ids f p repo sem classes pr now))
     = (disk_table w f)(sr_scope_id c \<mapsto> c)"
  using f new res
proof (cases rule: provision_result)
  case (existing sid t pe g st ch st0)
  from disk_ok_load[OF f] obtain st1 where st1: "load_state f = Inr st1" "store_ok w st1" .
  with existing(3) have u: "placement_generation_update w st1 p = Inr (g, st, ch)"
    by (auto simp: provision_placement_def)
  note u' = generation_update[OF st1(2) u]
  from existing(1) st1 have "sr_scope_id c = sid"
    using lookup_ok(1)[OF st1(2)] by (auto simp: disk_table_load scope_table_def split: sum.splits)
  with existing(1) have "(disk_table w f)(sr_scope_id c \<mapsto> c) = disk_table w f" by auto
  then show ?thesis using existing(9) u'(1,3)
    by (simp add: final_doc_def disk_table_written disk_table_load[OF st1(1)])
next
  case (fresh pe ak lk ops g st st0 ch e)
  from disk_ok_load[OF f] obtain st1 where st1: "load_state f = Inr st1" "store_ok w st1" .
  with fresh(1) have u: "placement_generation_update w st1 p = Inr (g, st, ch)"
    by (auto simp: provision_placement_def)
  note u' = generation_update[OF st1(2) u]
  have "generation_bound st c" using fresh(4,6) by (simp add: generation_bound_def)
  note i = insert_scope_ok[OF u'(1) fresh(3) _ this]
  have ok: "record_ok w c" unfolding fresh(6) by (rule draft_ok)
  have "scope_table w (insert_scope st c) = (scope_table w st)(sr_scope_id c \<mapsto> c)"
    by (simp add: fun_eq_iff scope_table_def i(2)[OF ok])
  then show ?thesis using fresh(8) u'(3) i(1)[OF ok]
    by (simp add: final_doc_def disk_table_written disk_table_load[OF st1(1)])
qed

end
