(* ===== verification/ScopeSample.thy ===== *)
theory ScopeSample
  imports ScopeProtocol
begin

text \<open>
  A concrete scope store: one world, one policy, one Attempt, the document its first
  provisioning publishes, and the record in it. The witnesses of the scope properties are
  taken here. The hash of this world is constant: nothing below needs it to be injective.
\<close>

definition sample_world :: world where
  "sample_world = \<lparr>w_os = \<lparr>os_resolve = (\<lambda>p. if wf_path p then Some p else None),
     os_expanduser = Some\<rparr>, w_sha = (\<lambda>_. ''d'')\<rparr>"

definition sample_policy :: mutation_policy where
  "sample_policy = default_mutation_policy\<lparr>mp_configured := True, mp_scoped_mutation_enabled := True,
     mp_workspace_root := Some (Path True [''ws''])\<rparr>"

definition sample_repository :: repository_identity where
  "sample_repository = \<lparr>rid_vcs = ''git'', rid_authority = ''github.com'', rid_path = ''o/r''\<rparr>"

definition sample_semantic :: semantic_identity where
  "sample_semantic = \<lparr>project_id = ''p'', task_id = ''t'', run_id = ''r'', attempt_id = ''a'', slice_id = None\<rparr>"

definition sample_ids :: fresh_ids where
  "sample_ids = \<lparr>fi_scope_id = ''mss'', fi_workspace_id = ''msw''\<rparr>"

definition sample_root :: path where
  "sample_root = Path True [''state'']"

definition sample_provision :: "fresh_ids \<Rightarrow> doc_file \<Rightarrow> nat \<Rightarrow> scope_record store_op" where
  "sample_provision ids f now = provision_scope sample_world sample_root ids f sample_policy
     sample_repository sample_semantic [''scoped_script''] [] now"

definition sample_record :: scope_record where
  "sample_record = \<lparr>sr_workspace_id = ''msw'', sr_scope_id = ''mss'', sr_generation = 1,
     sr_unique_lease_key = ''d'', sr_attempt_key = ''d'', sr_state = Provisioned, sr_project_id = ''p'',
     sr_task_id = ''t'', sr_run_id = ''r'', sr_attempt_id = ''a'', sr_slice_id = None,
     sr_semantic_identity_digest = ''d'', sr_repository_identity_digest = ''d'',
     sr_placement_ref = ''mutation-placement:d:d:g1'', sr_placement_generation = 1,
     sr_policy_digest = ''d'', sr_exact_workspace = ''/ws/d/d'', sr_exact_workspace_digest = ''d'',
     sr_protected_inventory_digest = ''d'', sr_allowed_operation_classes = [''scoped_script''],
     sr_issued_at = ''0001-01-01T00:00:00Z'', sr_expires_at = ''0001-01-01T01:00:00Z'',
     sr_scope_digest = ''d'', sr_sandbox_identity = None, sr_active_job_ids = [],
     sr_active_process_ids = [], sr_sandbox_write_authority_present = False,
     sr_runtime_read_authority_roots = [], sr_session_object_read_binding = None,
     sr_terminalized_at = None\<rparr>"

definition sample_doc :: doc_file where
  "sample_doc = final_doc Missing (sample_provision sample_ids Missing 0)"

definition result_record :: "scope_record store_op \<Rightarrow> scope_record option" where
  "result_record m = (case snd m of Inl _ \<Rightarrow> None | Inr r \<Rightarrow> Some r)"

lemma sample_minted_facts:
  "(case sample_provision sample_ids Missing 0 of (ds, Inr r) \<Rightarrow>
      length ds = 1 \<and> record_to_json r = record_to_json sample_record
      \<and> stored_generation (last ds) = Some \<lparr>gs_policy_digest = ''d'', gs_generation = 1\<rparr> | _ \<Rightarrow> False)"
  by code_simp

lemma state_text_inj [simp]: "state_text a = state_text b \<longleftrightarrow> a = b"
  by (metis option.inject state_of_state_text)

lemma vopt_inj [simp]: "vopt a = vopt b \<longleftrightarrow> a = b"
  by (metis as_vopt option.inject)

lemma session_json_inj [simp]: "session_binding_to_json a = session_binding_to_json b \<longleftrightarrow> a = b"
  by (auto simp: session_binding_to_json_def)

lemma binding_json_inj [simp]:
  "(case a of None \<Rightarrow> VNull | Some b \<Rightarrow> session_binding_to_json b)
     = (case c of None \<Rightarrow> VNull | Some b \<Rightarrow> session_binding_to_json b) \<longleftrightarrow> a = c"
  by (auto simp: session_binding_to_json_def[THEN arg_cong[where f = "\<lambda>v. v = VNull"]]
      session_binding_to_json_def[THEN arg_cong[where f = "\<lambda>v. VNull = v"]] split: option.splits)

lemma record_to_json_inj: "record_to_json r = record_to_json q \<Longrightarrow> r = q"
  unfolding record_to_json_def pyval.inject list.inject prod.inject vstrs_inj vopt_inj binding_json_inj
    state_text_inj
  by (cases r; cases q) (simp only: scope_record.select_convs simp_thms)

lemma sample_minted: "snd (sample_provision sample_ids Missing 0) = Inr sample_record"
  using sample_minted_facts by (auto split: prod.splits sum.splits dest: record_to_json_inj)

lemma sample_published: "fst (sample_provision sample_ids Missing 0) = [sample_doc]"
  using sample_minted_facts
  by (cases "fst (sample_provision sample_ids Missing 0)")
    (auto simp: sample_doc_def final_doc_def split: prod.splits sum.splits)

lemma sample_stored_generation:
  "stored_generation sample_doc = Some \<lparr>gs_policy_digest = ''d'', gs_generation = 1\<rparr>"
  using sample_minted_facts sample_published by (auto split: prod.splits sum.splits)

lemma missing_table [simp]: "disk_table w Missing sid = None"
  by (simp add: disk_table_def scope_table_def load_state_def lookup_record_def empty_state_def dget_def)

lemma sample_reachable: "scope_reachable sample_world sample_doc"
proof -
  have "sample_doc \<in> set (Missing # fst (provision_scope sample_world sample_root sample_ids Missing
      sample_policy sample_repository sample_semantic [''scoped_script''] [] 0))"
    using sample_published by (simp add: sample_provision_def)
  from scope_step.provision[OF _ this] show ?thesis
    unfolding scope_reachable_def by (intro r_into_rtranclp) simp
qed

lemma sample_table: "disk_table sample_world sample_doc = [''mss'' \<mapsto> sample_record]"
proof -
  have "snd (provision_scope sample_world sample_root sample_ids Missing sample_policy sample_repository
      sample_semantic [''scoped_script''] [] 0) = Inr sample_record"
    using sample_minted by (simp add: sample_provision_def)
  from provision_commits[OF _ _ this] show ?thesis
    by (simp add: sample_doc_def sample_provision_def sample_ids_def disk_ok_def fun_eq_iff
        sample_record_def[THEN arg_cong[where f = sr_scope_id]])
qed

end
