(* ===== verification/ScopeProps.thy ===== *)
theory ScopeProps
  imports ScopeSample
begin

text \<open>
  The properties of the scope store, stated over everything callers can do to it: any
  sequence of operations, interleaved and interrupted, from the empty store.
\<close>

section \<open>Runs\<close>

lemma reachable_run:
  assumes "scope_reachable w f" "(scope_step w)\<^sup>*\<^sup>* f f'"
  shows "scope_reachable w f'" "advances w f f'"
  using assms scope_system.run_adv[OF assms(2) reachable_disk_ok[OF assms(1)]]
  by (auto simp: scope_reachable_def)

lemma run_record:
  assumes "scope_reachable w f" "(scope_step w)\<^sup>*\<^sup>* f f'" "disk_table w f sid = Some r"
  obtains r' where "disk_table w f' sid = Some r'" "record_step r r'"
  using reachable_run(2)[OF assms(1,2)] assms(3) by (auto simp: advances_def)

text \<open>
  C1: authority never comes back. Whatever callers do after a scope has expired, has been
  revoked or has been closed, in any order and with any crash, its record is still there, is
  still not current, has the same sealed fields, and holds no more authority than before.
\<close>

theorem scope_never_reactivates:
  assumes "scope_reachable w f" "(scope_step w)\<^sup>*\<^sup>* f f'"
    and "disk_table w f sid = Some r" "\<not> sr_current r"
  shows "\<exists>r'. disk_table w f' sid = Some r' \<and> \<not> sr_current r' \<and> sealed r r' \<and> authority_shrinks r r'"
proof -
  obtain r' where "disk_table w f' sid = Some r'" "record_step r r'"
    using run_record[OF assms(1-3)] .
  with assms(4) show ?thesis by (auto simp: record_step_def sr_current_iff)
qed

lemma revoke_commits:
  assumes f: "disk_ok w f" and r: "disk_table w f sid = Some r" "sr_generation r = n" "sr_state r \<noteq> Terminal"
  shows "fst (revoke_scope w f sid n) \<noteq> []"
    and "disk_table w (final_doc f (revoke_scope w f sid n)) = (disk_table w f)(sid \<mapsto> r\<lparr>sr_state := Revoked\<rparr>)"
proof -
  obtain st where st: "load_state f = Inr st" "store_ok w st" and l: "lookup_record w st sid = Inr r"
    and ok: "record_ok w r" using table_record[OF f r(1)] .
  note rv = revoke_step[OF r(3) ok]
  note p = put_published[OF st l conjunct1[OF rv] conjunct2[OF rv]]
  show "fst (revoke_scope w f sid n) \<noteq> []"
    "disk_table w (final_doc f (revoke_scope w f sid n)) = (disk_table w f)(sid \<mapsto> r\<lparr>sr_state := Revoked\<rparr>)"
    using p r by (simp_all add: revoke_scope_def st(1) l final_doc_def)
qed

definition sample_revoked :: doc_file where
  "sample_revoked = final_doc sample_doc (revoke_scope sample_world sample_doc ''mss'' 1)"

lemma sample_revoked_reachable: "scope_reachable sample_world sample_revoked"
proof -
  have "sample_revoked \<in> set (sample_doc # fst (revoke_scope sample_world sample_doc ''mss'' 1))"
    unfolding sample_revoked_def final_doc_def by (rule last_in_set) simp
  from scope_step.revoke[OF this] sample_reachable show ?thesis
    by (auto simp: scope_reachable_def)
qed

lemma sample_revoked_table:
  "disk_table sample_world sample_revoked ''mss'' = Some (sample_record\<lparr>sr_state := Revoked\<rparr>)"
  using revoke_commits(2)[OF reachable_disk_ok[OF sample_reachable], of "''mss''" sample_record 1]
  by (simp add: sample_revoked_def sample_table) (simp add: sample_record_def)

theorem scope_never_reactivates_witness:
  "\<exists>r'. disk_table sample_world sample_revoked ''mss'' = Some r' \<and> \<not> sr_current r'
     \<and> sealed (sample_record\<lparr>sr_state := Revoked\<rparr>) r'
     \<and> authority_shrinks (sample_record\<lparr>sr_state := Revoked\<rparr>) r'"
  by (rule scope_never_reactivates[OF sample_revoked_reachable rtranclp.rtrancl_refl sample_revoked_table])
    (simp add: sr_current_def)

lemma table_unique:
  assumes "scope_reachable w f" "disk_table w f x = Some r" "disk_table w f y = Some q"
    and "sr_attempt_key r = sr_attempt_key q \<or> sr_unique_lease_key r = sr_unique_lease_key q
      \<or> sr_exact_workspace_digest r = sr_exact_workspace_digest q"
  shows "x = y \<and> r = q"
proof -
  obtain st where st: "load_state f = Inr st" "store_ok w st" "lookup_record w st x = Inr r"
    using table_record[OF reachable_disk_ok[OF assms(1)] assms(2)] by blast
  moreover from this have "lookup_record w st y = Inr q"
    using assms(3) by (auto simp: disk_table_load scope_table_def split: sum.splits)
  ultimately have "x = y" using lookup_unique assms(4) by blast
  with assms(2,3) show ?thesis by simp
qed

text \<open>
  C2: at most one scope per Attempt, per unique lease and per exact workspace, over the whole
  life of the store, closed scopes included.
\<close>

theorem attempt_has_one_scope:
  assumes "scope_reachable w f" "disk_table w f x = Some r" "disk_table w f y = Some q"
    and "sr_attempt_key r = sr_attempt_key q \<or> sr_unique_lease_key r = sr_unique_lease_key q
      \<or> sr_exact_workspace_digest r = sr_exact_workspace_digest q"
  shows "x = y \<and> r = q"
  by (rule table_unique[OF assms])

theorem attempt_has_one_scope_witness:
  "disk_table sample_world sample_doc ''mss'' = Some sample_record \<and> ''mss'' = ''mss'' \<and> sample_record = sample_record"
  using attempt_has_one_scope[OF sample_reachable, of "''mss''" sample_record "''mss''" sample_record]
  by (simp add: sample_table)

text \<open>
  C3: a completed Attempt never mints fresh authority. Once an Attempt's scope is no longer
  current, no later provisioning for that Attempt succeeds, under any policy, placement root,
  operation classes, clock and identifiers, whatever happened in between.
\<close>

theorem closed_attempt_never_mints:
  assumes reach: "scope_reachable w f" and run: "(scope_step w)\<^sup>*\<^sup>* f f'"
    and r: "disk_table w f sid = Some r" "\<not> sr_current r"
    and repo: "repository_canonical repo = Inr rc" "digest (w_sha w) (VStr rc) = sr_repository_identity_digest r"
    and att: "attempt_key_of w (sr_repository_identity_digest r) sem = Inr (sr_attempt_key r)"
    and new: "disk_table w f' (fi_scope_id ids) = None"
  shows "snd (provision_scope w root ids f' p repo sem classes pr now) \<noteq> Inr c"
proof
  assume res: "snd (provision_scope w root ids f' p repo sem classes pr now) = Inr c"
  obtain r' where r': "disk_table w f' sid = Some r'" and rs: "record_step r r'"
    using run_record[OF reach run r(1)] .
  have nc: "\<not> sr_current r'" and key: "sr_attempt_key r' = sr_attempt_key r"
    using rs r(2) sealed_fields(3)[of r r'] by (auto simp: record_step_def sr_current_iff)
  note f' = reachable_run(1)[OF reach run]
  have same: "ak = sr_attempt_key r" if "provision_placement w root f' p repo sem pr st0 st g ch pe ak lk"
    for st0 st g ch pe ak lk
    using that resolve_placement_identities[of w p repo sem "Some g" pr pe] repo att
    by (auto simp: provision_placement_def)
  from reachable_disk_ok[OF f'] new res show False
  proof (cases rule: provision_result)
    case (existing sid' t pe g st ch st0 ops)
    from table_unique[OF f' existing(1) r'] same[OF existing(3)] key have "c = r'" by simp
    with existing(2) nc show False by simp
  next
    case (fresh pe ak lk ops g st st0 ch e)
    from fresh(1) have "load_state f' = Inr st0" by (simp add: provision_placement_def)
    with table_record[OF reachable_disk_ok[OF f'] r'] have "store_ok w st0" "lookup_record w st0 sid = Inr r'"
      by auto
    from lookup_ok(3)[OF this] fresh(2) same[OF fresh(1)] key show False
      by (simp add: indexed_def dget_def)
  qed
qed

lemma sample_repository_canonical: "repository_canonical sample_repository = Inr ''git://github.com/o/r''"
  by code_simp

lemma sample_digest: "digest (w_sha sample_world) v = ''d''"
  by (simp add: digest_def sample_world_def)

lemma sample_attempt_key: "attempt_key_of sample_world d sample_semantic = Inr ''d''"
  by (simp add: attempt_key_of_def semantic_canonical_def sample_semantic_def sample_world_def digest_def
      strip_def lstrip_def rstrip_def py_space_def Let_def)

lemma sample_fields:
  "sr_repository_identity_digest sample_record = ''d''" "sr_attempt_key sample_record = ''d''"
  "sr_generation sample_record = 1" "sr_state sample_record = Provisioned"
  "sr_sandbox_identity sample_record = None" "sr_scope_id sample_record = ''mss''"
  by (simp_all add: sample_record_def)

theorem closed_attempt_never_mints_witness:
  "snd (provision_scope sample_world sample_root \<lparr>fi_scope_id = ''other'', fi_workspace_id = ''msw''\<rparr>
      sample_revoked sample_policy sample_repository sample_semantic [''scoped_script''] [] 0) \<noteq> Inr sample_record"
proof (rule closed_attempt_never_mints[OF sample_revoked_reachable rtranclp.rtrancl_refl
      sample_revoked_table _ sample_repository_canonical])
  have "sample_revoked = final_doc sample_doc (revoke_scope sample_world sample_doc ''mss'' 1)"
    by (simp add: sample_revoked_def)
  then show "disk_table sample_world sample_revoked
      (fi_scope_id \<lparr>fi_scope_id = ''other'', fi_workspace_id = ''msw''\<rparr>) = None"
    using revoke_commits(2)[OF reachable_disk_ok[OF sample_reachable], of "''mss''" sample_record 1]
    by (simp add: sample_table sample_fields)
qed (simp_all add: sr_current_def sample_fields sample_attempt_key sample_digest)

lemma durable_record_id:
  assumes "scope_reachable w f" "disk_table w f sid = Some r"
  shows "sr_scope_id r = sid" "record_ok w r"
proof -
  obtain st where "store_ok w st" "lookup_record w st sid = Inr r" "record_ok w r"
    using table_record[OF reachable_disk_ok[OF assms(1)] assms(2)] by blast
  with lookup_ok(1) show "sr_scope_id r = sid" "record_ok w r" by auto
qed

text \<open>
  C4: the durable record tells the truth. In every document the store can be left with, after
  any operations and crashes, each record carries a valid seal; a scope that never got a
  sandbox identity has no operating-system authority; a bound Job or process implies that the
  write authority it needs is still recorded; and a terminal scope has no residual authority.
\<close>

theorem durable_record_discipline:
  assumes "scope_reachable w f" "disk_table w f sid = Some r"
  shows "sr_scope_id r = sid \<and> digest_verified w r
     \<and> (sr_sandbox_identity r = None \<longrightarrow> \<not> has_runtime_authority r)
     \<and> (sr_active_job_ids r \<noteq> [] \<or> sr_active_process_ids r \<noteq> [] \<longrightarrow> sr_sandbox_write_authority_present r)
     \<and> (sr_state r = Terminal \<longrightarrow> \<not> has_runtime_authority r)"
  using durable_record_id[OF assms] by (auto simp: record_ok_def)

theorem durable_record_discipline_witness:
  "digest_verified sample_world sample_record \<and> \<not> has_runtime_authority sample_record"
  using durable_record_discipline[OF sample_reachable, of "''mss''" sample_record]
  by (simp add: sample_table sample_fields)

section \<open>Tampering\<close>

lemma alist_of_keys: "distinct (keys d) \<Longrightarrow> d = map (\<lambda>k. (k, the (map_of d k))) (keys d)"
  by (simp add: o_def, rule sym, rule map_idI) (auto simp: map_of_eq_Some_iff)

lemma map_of_keys_eq:
  assumes "keys d = keys e" "distinct (keys d)" "map_of d = map_of e" shows "d = e"
  using alist_of_keys[of d] alist_of_keys[of e] assms by metis

definition normal_values :: "(string \<times> pyval) list \<Rightarrow> bool" where
  "normal_values d \<longleftrightarrow> (\<forall>v \<in> snd ` set d. json_norm v = v)"

lemma normal_items_inj:
  assumes eq: "json_norm (VDict d) = json_norm (VDict e)" and keys: "keys d = keys e" "distinct (keys d)"
    and d: "normal_values d" and e: "normal_values e"
  shows "d = e"
proof (rule map_of_keys_eq[OF keys])
  have "sorted_items d = sorted_items e"
    using eq d e by (simp add: normal_values_def map_snd_id)
  then show "map_of d = map_of e" using keys by (metis map_of_sorted_items)
qed

lemma payload_items:
  "immutable_digest_payload r = VDict (items_of (immutable_digest_payload r))"
  "keys (items_of (immutable_digest_payload r)) = keys (items_of (immutable_digest_payload q))"
  "distinct (keys (items_of (immutable_digest_payload r)))"
  "normal_values (items_of (immutable_digest_payload r))"
  by (simp_all add: immutable_digest_payload_def normal_values_def)

lemma accepted_payload:
  assumes "inj (w_sha w)" "digest_verified w r" "digest_verified w r'"
    and "sr_scope_digest r' = sr_scope_digest r"
  shows "immutable_digest_payload r' = immutable_digest_payload r"
proof -
  have "scope_digest_of w r' = scope_digest_of w r"
    using assms(2-4) by (simp add: digest_verified_def)
  then have "json_norm (immutable_digest_payload r') = json_norm (immutable_digest_payload r)"
    using digest_inj[OF assms(1)] by (simp add: scope_digest_of_def)
  then show ?thesis
    using normal_items_inj[OF _ payload_items(2)[of r' r] payload_items(3,4) payload_items(4)]
    by (metis payload_items(1))
qed

text \<open>
  C5: a sealed field cannot be edited. With a collision-free hash, an entry of
  the authority document that decodes to a record with the scope digest of an accepted record but
  with a different value in a sealed field is rejected as corrupt when it is read.
\<close>

theorem tampered_record_detected:
  assumes "inj (w_sha w)" "record_from_json w v = Inr r" "decode_record d = Some r'"
    and "sr_scope_digest r' = sr_scope_digest r"
    and "immutable_digest_payload r' \<noteq> immutable_digest_payload r"
  shows "record_from_json w (VDict d) = Inl ScopeCorrupt"
  using accepted_payload[OF assms(1) record_from_json_verified[OF assms(2)]] assms(3-5)
  by (auto simp: record_from_json_def)

definition id_world :: world where
  "id_world = sample_world\<lparr>w_sha := id\<rparr>"

theorem tampered_record_detected_witness:
  "record_from_json id_world (VDict (items_of (record_to_json
     (seal id_world sample_record\<lparr>sr_exact_workspace := ''/etc''\<rparr>)))) = Inl ScopeCorrupt"
proof (rule tampered_record_detected[where w = id_world])
  have "record_ok id_world (seal id_world sample_record)"
    by (rule seal_ok) (simp_all add: sample_record_def has_runtime_authority_def)
  then show "record_from_json id_world (record_to_json (seal id_world sample_record))
      = Inr (seal id_world sample_record)"
    by (intro record_roundtrip) (simp_all add: record_ok_def)
  show "decode_record (items_of (record_to_json (seal id_world sample_record\<lparr>sr_exact_workspace := ''/etc''\<rparr>)))
      = Some (seal id_world sample_record\<lparr>sr_exact_workspace := ''/etc''\<rparr>)"
    by (rule decode_record_to_json) (simp add: binding_wf_def seal_def sample_record_def)
qed (simp_all add: id_world_def seal_def sample_record_def immutable_digest_payload_def)

section \<open>Admission\<close>

lemma revalidate_scope_result:
  assumes f: "disk_ok w f" and res: "snd (revalidate_scope w f sid n p repo sem pr now) = Inr c"
  obtains st g st' gch t where "load_state f = Inr st" "store_ok w st" "lookup_record w st sid = Inr c"
    "sr_generation c = n" "sr_current c" "parse_time (sr_expires_at c) = Some t" "now < t"
    "placement_generation_update w st p = Inr (g, st', gch)"
    "revalidate_checks w st' c g p repo sem pr = Inr ()"
    "revalidate_scope w f sid n p repo sem pr now = (if gch then [durable_write st'] else [], Inr c)"
proof -
  from disk_ok_load[OF f] obtain st where st: "load_state f = Inr st" "store_ok w st" .
  from res obtain r ch where r: "lookup_record w st sid = Inr r" "sr_generation r = n"
    and v: "rv_result (revalidate_locked w st r p repo sem pr now) = Inr (c, ch)"
    by (auto simp: revalidate_scope_def st(1) ask_result Let_def split: if_splits sum.splits)
  have ok: "record_ok w r" by (rule lookup_ok(2)[OF st(2) r(1)])
  from revalidate_locked_Inr[OF v ok] obtain g st' gch t where
    *: "c = r" "\<not> ch" "sr_current r" "parse_time (sr_expires_at r) = Some t" "now < t"
      "placement_generation_update w st p = Inr (g, st', gch)"
      "revalidate_checks w st' r g p repo sem pr = Inr ()" .
  have m: "mark_expired_if_needed r now = Inr r"
    using * by (simp add: mark_expired_if_needed_def parse_instant_def)
  have "revalidate_scope w f sid n p repo sem pr now = (if gch then [durable_write st'] else [], Inr c)"
    using * r ok by (simp add: revalidate_scope_def st(1) revalidate_locked_def m record_ok_def Let_def)
  with that[OF st _ _ _ _ _ *(6)] * r show thesis by simp
qed

lemma revalidate_checks_Inr:
  assumes "revalidate_checks w st r g p repo sem pr = Inr ()"
  shows "sr_placement_generation r = gs_generation g" "sr_policy_digest r = gs_policy_digest g"
    "attempt_key_of w (sr_repository_identity_digest r) sem = Inr (sr_attempt_key r)"
    "unique_mutation_lease_key w (sr_repository_identity_digest r) sem (sr_placement_generation r)
       (sr_exact_workspace_digest r) = Inr (sr_unique_lease_key r)"
    "lineage_ok r sem"
    "resolve_placement w p repo sem (Some g) pr = Inr (record_placement r)"
proof -
  from assms show a: "sr_placement_generation r = gs_generation g" "sr_policy_digest r = gs_policy_digest g"
    "attempt_key_of w (sr_repository_identity_digest r) sem = Inr (sr_attempt_key r)"
    "unique_mutation_lease_key w (sr_repository_identity_digest r) sem (sr_placement_generation r)
       (sr_exact_workspace_digest r) = Inr (sr_unique_lease_key r)"
    "lineage_ok r sem"
    by (auto simp: revalidate_checks_def result_simps split: if_splits)
  from assms have "resolve_placement w p repo sem (Some (evidence_generation_state (record_placement r))) pr
      = Inr (record_placement r)"
    by (auto simp: revalidate_checks_def result_simps revalidate_placement_iff split: if_splits)
  moreover have "evidence_generation_state (record_placement r) = g"
    using a(1,2) by (simp add: evidence_generation_state_def record_placement_def)
  ultimately show "resolve_placement w p repo sem (Some g) pr = Inr (record_placement r)" by simp
qed

text \<open>
  C6: admission is sound. A scope that revalidates is in the store unchanged, in the presented
  generation, current and not past its expiry; it was placed under the policy in force now, at
  the store's present placement generation; and resolving the request afresh gives exactly the
  sealed placement, for exactly the sealed identities.
\<close>

theorem revalidate_scope_sound:
  assumes f: "scope_reachable w f"
    and res: "snd (revalidate_scope w f sid n p repo sem pr now) = Inr r"
  shows "disk_table w f sid = Some r \<and> sr_generation r = n \<and> sr_current r
     \<and> (\<exists>t. parse_time (sr_expires_at r) = Some t \<and> now < t)
     \<and> placement_policy_digest w p = Inr (sr_policy_digest r)
     \<and> sr_placement_generation r = disk_generation (final_doc f (revalidate_scope w f sid n p repo sem pr now))
     \<and> (\<exists>g. resolve_placement w p repo sem (Some g) pr = Inr (record_placement r))
     \<and> attempt_key_of w (sr_repository_identity_digest r) sem = Inr (sr_attempt_key r) \<and> lineage_ok r sem"
proof -
  obtain st g st' gch t where *: "load_state f = Inr st" "store_ok w st" "lookup_record w st sid = Inr r"
    "sr_generation r = n" "sr_current r" "parse_time (sr_expires_at r) = Some t" "now < t"
    and u: "placement_generation_update w st p = Inr (g, st', gch)"
    and c: "revalidate_checks w st' r g p repo sem pr = Inr ()"
    and run: "revalidate_scope w f sid n p repo sem pr now = (if gch then [durable_write st'] else [], Inr r)"
    using revalidate_scope_result[OF reachable_disk_ok[OF f] res] .
  note u' = generation_update[OF *(2) u] and c' = revalidate_checks_Inr[OF c]
  have "disk_generation (final_doc f (revalidate_scope w f sid n p repo sem pr now)) = gs_generation g"
    using u'(4,5) *(1) load_durable_write[of st'] u'(1)
    by (auto simp: run final_doc_def disk_generation_def stored_state_def store_ok_def)
  with * c' u'(10) show ?thesis by (auto simp: disk_table_load scope_table_def)
qed

lemma revalidate_checks_hold:
  assumes st: "store_ok w st" and l: "lookup_record w st sid = Inr r"
    and g: "sr_placement_generation r = gs_generation g" "sr_policy_digest r = gs_policy_digest g"
    and id: "attempt_key_of w (sr_repository_identity_digest r) sem = Inr (sr_attempt_key r)"
      "unique_mutation_lease_key w (sr_repository_identity_digest r) sem (sr_placement_generation r)
         (sr_exact_workspace_digest r) = Inr (sr_unique_lease_key r)" "lineage_ok r sem"
    and pl: "resolve_placement w p repo sem (Some g) pr = Inr (record_placement r)"
  shows "revalidate_checks w st r g p repo sem pr = Inr ()"
proof -
  have "evidence_generation_state (record_placement r) = g"
    using g by (simp add: evidence_generation_state_def record_placement_def)
  then have "revalidate_placement w (record_placement r) p repo sem pr = Inr (record_placement r)"
    using pl by (simp add: revalidate_placement_def)
  then show ?thesis
    using g id store_indexed[OF st l] store_unrivalled(1)[OF st l] by (simp add: revalidate_checks_def)
qed

lemma revalidate_locked_succeeds:
  assumes st: "store_ok w st" and l: "lookup_record w st sid = Inr r"
    and cur: "sr_current r" "parse_time (sr_expires_at r) = Some t" "now < t"
    and u: "placement_generation_update w st p = Inr (g, st, False)"
    and c: "revalidate_checks w st r g p repo sem pr = Inr ()"
  shows "revalidate_locked w st r p repo sem pr now
       = \<lparr>rv_state = st, rv_writes = [], rv_result = Inr (r, False)\<rparr>"
proof -
  have "mark_expired_if_needed r now = Inr r"
    using cur by (simp add: mark_expired_if_needed_def parse_instant_def)
  then show ?thesis using lookup_ok(2)[OF st l] cur
    by (simp add: revalidate_locked_def u c record_ok_def Let_def)
qed

lemma revalidates:
  assumes f: "scope_reachable w f" and r: "disk_table w f sid = Some r" "sr_generation r = n"
    and cur: "sr_current r" "parse_time (sr_expires_at r) = Some t" "now < t"
    and g: "stored_generation f = Some g" "gs_generation g = sr_placement_generation r"
      "gs_policy_digest g = sr_policy_digest r" "placement_policy_digest w p = Inr (sr_policy_digest r)"
    and id: "attempt_key_of w (sr_repository_identity_digest r) sem = Inr (sr_attempt_key r)"
      "unique_mutation_lease_key w (sr_repository_identity_digest r) sem (sr_placement_generation r)
         (sr_exact_workspace_digest r) = Inr (sr_unique_lease_key r)" "lineage_ok r sem"
    and pl: "resolve_placement w p repo sem (Some g) pr = Inr (record_placement r)"
  shows "revalidate_scope w f sid n p repo sem pr now = ([], Inr r)"
proof -
  obtain st where st: "load_state f = Inr st" "store_ok w st" "lookup_record w st sid = Inr r"
    using table_record[OF reachable_disk_ok[OF f] r(1)] by blast
  have gs: "au_generation st = Some g" using g(1) st(1) by (simp add: stored_generation_def)
  have u: "placement_generation_update w st p = Inr (g, st, False)"
    using g gs by (simp add: placement_generation_update_def Let_def evolve_eq)
  have c: "revalidate_checks w st r g p repo sem pr = Inr ()"
    by (rule revalidate_checks_hold[OF st(2,3) _ _ id pl]) (use g in simp_all)
  show ?thesis
    using revalidate_locked_succeeds[OF st(2,3) cur u c] r(2)
    by (simp add: revalidate_scope_def st(1,3) Let_def)
qed

text \<open>
  Admission is complete and quiet. A current, unexpired scope of the store's present
  generation, whose policy, identities and placement still match, is always admitted, exactly
  as recorded, and admission does not touch the store.
\<close>

theorem revalidate_scope_complete:
  assumes f: "scope_reachable w f" and r: "disk_table w f sid = Some r" "sr_generation r = n"
    and cur: "sr_current r" "parse_time (sr_expires_at r) = Some t" "now < t"
    and g: "stored_generation f = Some g" "gs_generation g = sr_placement_generation r"
      "gs_policy_digest g = sr_policy_digest r" "placement_policy_digest w p = Inr (sr_policy_digest r)"
    and id: "attempt_key_of w (sr_repository_identity_digest r) sem = Inr (sr_attempt_key r)"
      "unique_mutation_lease_key w (sr_repository_identity_digest r) sem (sr_placement_generation r)
         (sr_exact_workspace_digest r) = Inr (sr_unique_lease_key r)" "lineage_ok r sem"
    and pl: "resolve_placement w p repo sem (Some g) pr = Inr (record_placement r)"
  shows "revalidate_scope w f sid n p repo sem pr now = ([], Inr r)"
  by (rule revalidates[OF assms])

lemma sample_expiry: "parse_time (sr_expires_at sample_record) = Some 3600000000"
proof -
  have "sr_expires_at sample_record = ''0001-01-01T01:00:00Z''" by (simp add: sample_record_def)
  moreover have "parse_time ''0001-01-01T01:00:00Z'' = Some 3600000000" by code_simp
  ultimately show ?thesis by simp
qed

lemma sample_lease_key: "unique_mutation_lease_key sample_world (sr_repository_identity_digest sample_record)
    sample_semantic (sr_placement_generation sample_record) (sr_exact_workspace_digest sample_record)
    = Inr (sr_unique_lease_key sample_record)"
  by code_simp

lemma sample_lineage: "lineage_ok sample_record sample_semantic"
  by code_simp

lemma sample_policy_digest:
  "placement_policy_digest sample_world sample_policy = Inr (sr_policy_digest sample_record)"
  by code_simp

definition sample_generation :: generation_state where
  "sample_generation = \<lparr>gs_policy_digest = ''d'', gs_generation = 1\<rparr>"

lemma sample_placement: "resolve_placement sample_world sample_policy sample_repository sample_semantic
    (Some sample_generation) [] = Inr (record_placement sample_record)"
  by code_simp

lemma sample_generation_fields:
  "gs_generation sample_generation = sr_placement_generation sample_record"
  "gs_policy_digest sample_generation = sr_policy_digest sample_record"
  by (simp_all add: sample_generation_def sample_record_def)

lemmas sample_current = sample_expiry sample_lease_key sample_lineage sample_policy_digest
  sample_placement sample_generation_fields sample_stored_generation[folded sample_generation_def]

lemma sample_table_entry: "disk_table sample_world sample_doc ''mss'' = Some sample_record"
  by (simp add: sample_table)

lemma sample_attempt: "attempt_key_of sample_world (sr_repository_identity_digest sample_record)
    sample_semantic = Inr (sr_attempt_key sample_record)"
  by (simp add: sample_attempt_key sample_fields)

theorem revalidate_scope_complete_witness:
  "revalidate_scope sample_world sample_doc ''mss'' 1 sample_policy sample_repository sample_semantic [] 5
     = ([], Inr sample_record)"
  by (rule revalidate_scope_complete[OF sample_reachable sample_table_entry sample_fields(3) _
        sample_expiry _ _ sample_generation_fields sample_policy_digest sample_attempt
        sample_lease_key sample_lineage sample_placement])
    (simp_all add: sr_current_def sample_fields sample_current)

lemma sample_revalidates:
  "revalidate_scope sample_world sample_doc ''mss'' 1 sample_policy sample_repository sample_semantic [] 5
     = ([], Inr sample_record)"
  by (rule revalidates[OF sample_reachable sample_table_entry sample_fields(3) _
        sample_expiry _ _ sample_generation_fields sample_policy_digest sample_attempt
        sample_lease_key sample_lineage sample_placement])
    (simp_all add: sr_current_def sample_fields sample_current)

theorem revalidate_scope_sound_witness:
  "placement_policy_digest sample_world sample_policy = Inr (sr_policy_digest sample_record)
     \<and> (\<exists>t. parse_time (sr_expires_at sample_record) = Some t \<and> 5 < t)"
  using revalidate_scope_sound[OF sample_reachable, of "''mss''" 1 sample_policy sample_repository
      sample_semantic "[]" 5 sample_record] sample_revalidates by simp

section \<open>Minting\<close>

lemma normalized_classes:
  "normalize_operation_classes classes = Inr ops \<Longrightarrow> set ops = strip ` set classes - {[]} \<and> ops \<noteq> []"
  by (auto simp: normalize_operation_classes_def Let_def split: if_splits)

lemma expiry_instant:
  "expiry_text now ttl = Inr e \<Longrightarrow> parse_time e = Some (nat (int now + ttl * 1000000))"
  by (auto simp: expiry_text_def Let_def split: if_splits intro!: parse_iso)

lemma placement_inside:
  assumes "provision_placement w root f p repo sem pr st0 st g ch pe ak lk"
  obtains wroot base a b where "mp_workspace_root p = Some wroot" "resolved w wroot = Inr base"
    "is_relative_to (pe_exact_future_workspace pe) base" "pe_exact_future_workspace pe \<noteq> base"
    "resolved w root = Inr a" "resolved w (pe_exact_future_workspace pe) = Inr b" "\<not> paths_overlap a b"
  using assms resolve_placement_inside[of w p repo sem "Some g" pr pe]
  by (auto simp: provision_placement_def split: sum.splits)

text \<open>
  C8: what is minted. A new scope is committed under its own identifier with every other
  record untouched; it is provisioned, sealed, without operating-system authority, for exactly
  the requested operation classes, until exactly the policy's lifetime from now; and its
  workspace lies strictly inside the configured root, disjoint from the authority store.
\<close>

theorem provision_mints_bounded_authority:
  assumes f: "scope_reachable w f" and new: "disk_table w f (fi_scope_id ids) = None"
    and res: "snd (provision_scope w root ids f p repo sem classes pr now) = Inr c"
    and fresh: "disk_table w f (sr_scope_id c) = None"
  shows "disk_table w (final_doc f (provision_scope w root ids f p repo sem classes pr now))
       = (disk_table w f)(fi_scope_id ids \<mapsto> c)
     \<and> sr_state c = Provisioned \<and> digest_verified w c \<and> \<not> has_runtime_authority c
     \<and> set (sr_allowed_operation_classes c) = strip ` set classes - {[]}
     \<and> parse_time (sr_expires_at c) = Some (nat (int now + mp_scope_ttl_seconds p * 1000000))
     \<and> (\<exists>wroot base ws a b. mp_workspace_root p = Some wroot \<and> resolved w wroot = Inr base
          \<and> sr_exact_workspace c = path_text ws \<and> is_relative_to ws base \<and> ws \<noteq> base
          \<and> resolved w root = Inr a \<and> resolved w ws = Inr b \<and> \<not> paths_overlap a b)"
  using reachable_disk_ok[OF f] new res
proof (cases rule: provision_result)
  case (existing sid t pe g st ch st0 ops)
  from durable_record_id[OF f existing(1)] existing(1) fresh show ?thesis by simp
next
  case (fresh pe ak lk ops g st st0 ch e)
  have c: "sr_scope_id c = fi_scope_id ids" "sr_state c = Provisioned" "sr_allowed_operation_classes c = ops"
    "sr_expires_at c = e" "sr_exact_workspace c = path_text (pe_exact_future_workspace pe)"
    "\<not> has_runtime_authority c"
    unfolding fresh(6) by (simp_all add: seal_def draft_record_def has_runtime_authority_def)
  have "digest_verified w c" using draft_ok unfolding fresh(6) by (simp add: record_ok_def)
  moreover obtain wroot base a b where "mp_workspace_root p = Some wroot" "resolved w wroot = Inr base"
    "is_relative_to (pe_exact_future_workspace pe) base" "pe_exact_future_workspace pe \<noteq> base"
    "resolved w root = Inr a" "resolved w (pe_exact_future_workspace pe) = Inr b" "\<not> paths_overlap a b"
    using placement_inside[OF fresh(1)] .
  ultimately show ?thesis
    using provision_commits[OF reachable_disk_ok[OF f] new res] c normalized_classes[OF fresh(7)]
      expiry_instant[OF fresh(5)] by auto
qed

theorem provision_mints_bounded_authority_witness:
  "disk_table sample_world (final_doc Missing (sample_provision sample_ids Missing 0))
     = [''mss'' \<mapsto> sample_record] \<and> set (sr_allowed_operation_classes sample_record) = {''scoped_script''}"
proof -
  have r: "snd (provision_scope sample_world sample_root sample_ids Missing sample_policy sample_repository
      sample_semantic [''scoped_script''] [] 0) = Inr sample_record"
    using sample_minted by (simp add: sample_provision_def)
  have "scope_reachable sample_world Missing" by (simp add: scope_reachable_def)
  from provision_mints_bounded_authority[OF this _ r] show ?thesis
    by (simp add: sample_provision_def sample_ids_def fun_eq_iff) (simp add: sample_record_def)
qed

definition resolves_well :: "world \<Rightarrow> bool" where
  "resolves_well w \<longleftrightarrow> (\<forall>q r. os_resolve (w_os w) q = Some r \<longrightarrow> wf_path r)"

lemma draft_lineage:
  "semantic_canonical sem = Inr vs \<Longrightarrow> lineage_ok (seal w (draft_record ids sem pe lk ak ops i e)) sem"
  by (auto simp: lineage_ok_def seal_def draft_record_def record_slice_def slice_text_def strip_def
      lstrip_def rstrip_def split: option.split)

lemma draft_placement:
  assumes "resolves_well w" "resolve_placement w p repo sem g pr = Inr pe"
  shows "record_placement (seal w (draft_record ids sem pe lk ak ops i e)) = pe"
proof -
  have "wf_path (pe_exact_future_workspace pe)"
    using assms by (auto simp: resolve_placement_def resolves_well_def resolved_def result_simps Let_def
        split: if_splits option.splits)
  then show ?thesis
    by (cases pe) (simp add: record_placement_def seal_def draft_record_def path_text_inverse)
qed

text \<open>
  A retry is idempotent. Repeating a provisioning request that minted a scope, before that
  scope expires, returns the same record and writes nothing, whatever identifiers are drawn.
  Path resolution is only assumed to return well-formed paths.
\<close>

theorem provision_retry_idempotent:
  assumes f: "scope_reachable w f" and new: "disk_table w f (fi_scope_id ids) = None"
    and res: "snd (provision_scope w root ids f p repo sem classes pr now) = Inr c"
    and minted: "disk_table w f (sr_scope_id c) = None"
    and wf: "resolves_well w"
    and now': "parse_time (sr_expires_at c) = Some t" "now' < t"
  shows "provision_scope w root ids' (final_doc f (provision_scope w root ids f p repo sem classes pr now))
           p repo sem classes pr now' = ([], Inr c)"
  using reachable_disk_ok[OF f] new res
proof (cases rule: provision_result)
  case (existing sid t pe g st ch st0 ops)
  from durable_record_id[OF f existing(1)] existing(1) minted show ?thesis by simp
next
  case (fresh pe ak lk ops g st st0 ch e)
  from disk_ok_load[OF reachable_disk_ok[OF f]] obtain st1 where st1: "load_state f = Inr st1" "store_ok w st1" .
  with fresh(1) have pl: "placement_generation_update w st1 p = Inr (g, st, ch)"
    "resolve_placement w p repo sem (Some g) pr = Inr pe"
    "attempt_key_of w (pe_repository_identity_digest pe) sem = Inr ak"
    "unique_mutation_lease_key w (pe_repository_identity_digest pe) sem (pe_generation pe)
         (pe_exact_workspace_digest pe) = Inr lk"
    by (auto simp: provision_placement_def)
  obtain a b where ab: "resolved w root = Inr a" "resolved w (pe_exact_future_workspace pe) = Inr b"
    "\<not> paths_overlap a b" using placement_inside[OF fresh(1)] .
  note u' = generation_update[OF st1(2) pl(1)]
  have ok: "record_ok w c" unfolding fresh(6) by (rule draft_ok)
  have "generation_bound st c" using fresh(4,6) by (simp add: generation_bound_def)
  note i = insert_scope_ok[OF u'(1) fresh(3) ok this]
  define st2 where "st2 = stored_state (insert_scope st c)"
  have can: "canonical_state (insert_scope st c)" using i(1) by (simp add: store_ok_def)
  have st2: "store_ok w st2" "load_state (durable_write (insert_scope st c)) = Inr st2"
    unfolding st2_def using store_ok_stored[OF i(1)] load_durable_write[OF can] by simp_all
  have tb: "same_tables st2 (insert_scope st c)" unfolding st2_def by (rule same_tables_stored[OF can])
  have l: "lookup_record w st2 (sr_scope_id c) = Inr c"
    using i(2) by (simp add: lookup_same_tables[OF tb])
  have c: "sr_scope_id c = fi_scope_id ids" "sr_unique_lease_key c = lk" "sr_attempt_key c = ak"
    "sr_allowed_operation_classes c = ops" "sr_current c" "placement_matches c lk pe"
    "sr_placement_generation c = pe_generation pe" "sr_policy_digest c = pe_policy_digest pe"
    "sr_repository_identity_digest c = pe_repository_identity_digest pe"
    "sr_exact_workspace_digest c = pe_exact_workspace_digest pe"
    unfolding fresh(6) by (simp_all add: seal_def draft_record_def sr_current_def placement_matches_def)
  have att: "dget (au_attempts st2) ak = VStr (sr_scope_id c)"
    using tb c(3) by (simp add: dget_def same_tables_def)
  have gen: "au_generation st2 = Some g" using u'(4) tb by (simp add: same_tables_def)
  then have u2: "placement_generation_update w st2 p = Inr (g, st2, False)"
    using u'(10) by (simp add: placement_generation_update_def Let_def)
  note gg = resolve_uses_generation[OF pl(1) st1(2) pl(2)]
  have pg: "pe_generation pe = gs_generation g" "pe_policy_digest pe = gs_policy_digest g"
    using gg u'(4) by (simp_all add: generation_of_def)
  from pl(3) obtain vs where vs: "semantic_canonical sem = Inr vs"
    by (auto simp: attempt_key_of_def result_simps)
  have rec: "lineage_ok c sem" "record_placement c = pe"
    unfolding fresh(6) by (rule draft_lineage[OF vs], rule draft_placement[OF wf pl(2)])
  have "revalidate_checks w st2 c g p repo sem pr = Inr ()"
    by (rule revalidate_checks_hold[OF st2(1) l]) (use c pg pl rec in simp_all)
  note rv = revalidate_locked_succeeds[OF st2(1) l c(5) now' u2 this]
  have "provision_existing w (durable_write (insert_scope st c)) st2 False (sr_scope_id c) ak lk pe p repo sem
      ops pr now' = ([], Inr c)"
    using l c rv by (simp add: provision_existing_def Let_def)
  then have "provision_scope w root ids' (durable_write (insert_scope st c)) p repo sem classes pr now'
      = ([], Inr c)"
    by (simp add: provision_scope_def st2(2) u2 fresh(7) provision_placed_def pl(2-4) ab att)
  then show ?thesis by (simp add: fresh(8) final_doc_def)
qed

lemma sample_resolves_well: "resolves_well sample_world"
  by (simp add: resolves_well_def sample_world_def)

theorem provision_retry_idempotent_witness:
  "sample_provision \<lparr>fi_scope_id = ''other'', fi_workspace_id = ''msw''\<rparr> sample_doc 5 = ([], Inr sample_record)"
proof -
  have r: "snd (provision_scope sample_world sample_root sample_ids Missing sample_policy sample_repository
      sample_semantic [''scoped_script''] [] 0) = Inr sample_record"
    using sample_minted by (simp add: sample_provision_def)
  have doc: "final_doc Missing (provision_scope sample_world sample_root sample_ids Missing sample_policy
      sample_repository sample_semantic [''scoped_script''] [] 0) = sample_doc"
    by (simp add: sample_doc_def sample_provision_def)
  have "scope_reachable sample_world Missing" by (simp add: scope_reachable_def)
  from provision_retry_idempotent[OF this _ r _ sample_resolves_well sample_expiry, of 5, unfolded doc]
  show ?thesis by (simp add: sample_provision_def)
qed

end
