(* ===== verification/ScopeRuntimeProps.thy ===== *)
theory ScopeRuntimeProps
  imports ScopeProps
begin

text \<open>
  The properties of the operations that bind, release and close operating-system authority.
\<close>

section \<open>Closing\<close>

lemma terminalize_finish_commits:
  assumes f: "disk_ok w f"
    and res: "snd (terminalize_finish w f sid n repo sem cl c now) = Inr t"
  shows "disk_table w (final_doc f (terminalize_finish w f sid n repo sem cl c now)) = (disk_table w f)(sid \<mapsto> t)"
proof -
  note r = terminalize_finish_result[OF f res]
  then obtain q where q: "disk_table w f sid = Some q" "t = terminal_record q c now" by blast
  obtain st where st: "load_state f = Inr st" "store_ok w st" and l: "lookup_record w st sid = Inr q"
    and ok: "record_ok w q" using table_record[OF f q(1)] .
  note p = put_published[OF st l finish_step[OF r(3) ok, of now]]
  from res r(3) l have "fst (terminalize_finish w f sid n repo sem cl c now) = [durable_write (put_record st t)]"
    by (auto simp: terminalize_finish_def ask_def st(1) q(2) split: sum.splits if_splits scope_error.splits)
  with p(3) q(2) show ?thesis by (simp add: final_doc_def)
qed

text \<open>
  C10: nothing is published as closed on hope. A second phase that succeeds found the scope
  revoked, was given closure evidence that names the scope's sandbox identity and is empty in
  every respect, and leaves in the store exactly the terminal record it returns, which holds no
  authority; every other record is untouched.
\<close>

theorem terminalize_finish_closes:
  assumes f: "scope_reachable w f"
    and res: "snd (terminalize_finish w f sid n repo sem cl c now) = Inr t"
  shows "disk_table w (final_doc f (terminalize_finish w f sid n repo sem cl c now)) = (disk_table w f)(sid \<mapsto> t)
     \<and> sr_state t = Terminal \<and> \<not> has_runtime_authority t
     \<and> (\<exists>r. disk_table w f sid = Some r \<and> sr_state r = Revoked \<and> sealed r t)
     \<and> rc_sandbox_identity c = sr_sandbox_identity cl \<and> rc_active_job_ids c = []
     \<and> rc_active_process_ids c = [] \<and> \<not> rc_sandbox_write_authority_present c
     \<and> rc_runtime_read_authority_roots c = [] \<and> rc_session_object_read_binding c = None"
proof -
  note d = reachable_disk_ok[OF f]
  note r = terminalize_finish_result[OF d res]
  then obtain q where q: "disk_table w f sid = Some q" "sr_state q = Revoked" "t = terminal_record q c now"
    by blast
  have "record_step q t"
    unfolding q(3) by (rule finish_step(1)[OF r(3) durable_record_id(2)[OF f q(1)]])
  with q r terminalize_finish_commits[OF d res] closure_empty[OF r(3)] show ?thesis
    by (auto simp: record_step_def)
qed

lemma terminalize_begin_runs:
  assumes st0: "load_state f = Inr st0" "store_ok w st0" and l0: "lookup_record w st0 sid = Inr r"
    and u: "placement_generation_update w st0 p = Inr (g, st, ch)"
    and v: "validate_sealed_binding w st r n repo sem = Inr lease"
    and hc: "has_runtime_authority r \<Longrightarrow> hc"
    and r': "r' = (if has_runtime_authority r then r\<lparr>sr_state := Revoked\<rparr>
      else r\<lparr>sr_state := Terminal, sr_terminalized_at := Some (iso now)\<rparr>)"
  shows "terminalize_begin w f sid n p repo sem hc now =
      ((if ch then [durable_write st] else []) @ [durable_write (put_record st r')],
       Inr (if has_runtime_authority r then CleanupRequired r' else Closed r'))"
    and "disk_table w (durable_write (put_record st r')) = (disk_table w f)(sid \<mapsto> r')"
proof -
  note u' = generation_update[OF st0(2) u]
  have l: "lookup_record w st sid = Inr r" using l0 u'(11) by simp
  have ok: "record_ok w r" by (rule lookup_ok(2)[OF st0(2) l0])
  from validate_sealed_Inr[OF v] have nt: "sr_state r \<noteq> Terminal" by simp
  have step: "record_step r r'" "record_ok w r'"
    using revoke_step[OF nt ok] terminal_step[OF _ ok] by (auto simp: r')
  then have seal: "sealed r r'" by (simp add: record_step_def)
  note p = put_record_ok[OF u'(1) l seal step(2)]
  have c: "canonical_state (put_record st r')" using p(1) by (simp add: store_ok_def)
  have rd: "read_record w (durable_write (put_record st r')) sid = Inr r'"
    using p(2) by (simp add: read_after_write[OF c])
  have ld: "load_state (durable_write (put_record st r')) = Inr (stored_state (put_record st r'))"
    "lookup_record w (stored_state (put_record st r')) sid = Inr r'"
    using p(2) by (simp_all add: load_durable_write[OF c] lookup_same_tables[OF same_tables_stored[OF c]])
  show "disk_table w (durable_write (put_record st r')) = (disk_table w f)(sid \<mapsto> r')"
    using p(1) scope_table_put[OF u'(1) l seal step(2)] u'(3)
    by (simp add: disk_table_written disk_table_load[OF st0(1)])
  show "terminalize_begin w f sid n p repo sem hc now =
      ((if ch then [durable_write st] else []) @ [durable_write (put_record st r')],
       Inr (if has_runtime_authority r then CleanupRequired r' else Closed r'))"
  proof (cases "has_runtime_authority r")
    case True
    then have e: "r' = r\<lparr>sr_state := Revoked\<rparr>" by (simp add: r')
    then have "sr_state r' = Revoked" by simp
    with True hc rd show ?thesis
      unfolding terminalize_begin_def st0(1) l0 u v store_op_simps prod.case e[symmetric]
      by (cases ch) (simp_all add: publish_def)
  next
    case False
    then have e: "r' = r\<lparr>sr_state := Terminal, sr_terminalized_at := Some (iso now)\<rparr>" by (simp add: r')
    obtain x where x: "assert_index_binding (stored_state (put_record st r')) r' lease = Inr x"
      using store_indexed[OF store_ok_stored[OF p(1)] ld(2)] validate_sealed_Inr[OF v] sealed_fields(2)[OF seal]
      by simp
    have "sr_state r' = Terminal" by (simp add: e)
    with False ld x show ?thesis
      unfolding terminalize_begin_def st0(1) l0 u v store_op_simps prod.case e[symmetric]
      by (cases ch) (simp_all add: publish_def)
  qed
qed

lemma terminalize_begin_result:
  assumes f: "disk_ok w f"
    and res: "snd (terminalize_begin w f sid n p repo sem hc now) = Inr t"
  obtains r where "disk_table w f sid = Some r"
    "disk_table w (final_doc f (terminalize_begin w f sid n p repo sem hc now)) = (disk_table w f)(sid \<mapsto>
        (case t of Closed x \<Rightarrow> x | CleanupRequired x \<Rightarrow> x))"
    "t = (if has_runtime_authority r then CleanupRequired (r\<lparr>sr_state := Revoked\<rparr>)
          else Closed (r\<lparr>sr_state := Terminal, sr_terminalized_at := Some (iso now)\<rparr>))"
proof -
  from disk_ok_load[OF f] obtain st0 where st0: "load_state f = Inr st0" "store_ok w st0" .
  from res obtain r g st ch lease where l0: "lookup_record w st0 sid = Inr r"
    and u: "placement_generation_update w st0 p = Inr (g, st, ch)"
    and v: "validate_sealed_binding w st r n repo sem = Inr lease"
    by (auto simp: terminalize_begin_def ask_result st0(1))
  have hc: "has_runtime_authority r \<Longrightarrow> hc"
    using res by (cases ch; auto simp: terminalize_begin_def st0(1) l0 u v split: if_splits)
  define r' where r': "r' = (if has_runtime_authority r then r\<lparr>sr_state := Revoked\<rparr>
      else r\<lparr>sr_state := Terminal, sr_terminalized_at := Some (iso now)\<rparr>)"
  note run = terminalize_begin_runs[OF st0 l0 u v hc r']
  have tb: "disk_table w f sid = Some r"
    using l0 by (simp add: disk_table_load[OF st0(1)] scope_table_def)
  have t: "t = (if has_runtime_authority r then CleanupRequired r' else Closed r')"
    using res by (simp add: run(1))
  have x: "(case t of Closed x \<Rightarrow> x | CleanupRequired x \<Rightarrow> x) = r'"
    unfolding t by simp
  show thesis
  proof (rule that[OF tb])
    show "disk_table w (final_doc f (terminalize_begin w f sid n p repo sem hc now)) = (disk_table w f)(sid \<mapsto>
        (case t of Closed x \<Rightarrow> x | CleanupRequired x \<Rightarrow> x))"
      using run(2) by (simp add: x final_doc_def run(1))
    show "t = (if has_runtime_authority r then CleanupRequired (r\<lparr>sr_state := Revoked\<rparr>)
          else Closed (r\<lparr>sr_state := Terminal, sr_terminalized_at := Some (iso now)\<rparr>))"
      unfolding t r' by simp
  qed
qed

lemma terminalize_begin_outcome:
  assumes f: "scope_reachable w f" and r: "disk_table w f sid = Some r"
    and res: "snd (terminalize_begin w f sid n p repo sem hc now) = Inr t"
  shows "if has_runtime_authority r
     then t = CleanupRequired (r\<lparr>sr_state := Revoked\<rparr>)
       \<and> disk_table w (final_doc f (terminalize_begin w f sid n p repo sem hc now))
           = (disk_table w f)(sid \<mapsto> r\<lparr>sr_state := Revoked\<rparr>)
     else t = Closed (r\<lparr>sr_state := Terminal, sr_terminalized_at := Some (iso now)\<rparr>)
       \<and> disk_table w (final_doc f (terminalize_begin w f sid n p repo sem hc now))
           = (disk_table w f)(sid \<mapsto> r\<lparr>sr_state := Terminal, sr_terminalized_at := Some (iso now)\<rparr>)"
proof -
  obtain q where q: "disk_table w f sid = Some q"
    "disk_table w (final_doc f (terminalize_begin w f sid n p repo sem hc now)) = (disk_table w f)(sid \<mapsto>
        (case t of Closed x \<Rightarrow> x | CleanupRequired x \<Rightarrow> x))"
    "t = (if has_runtime_authority q then CleanupRequired (q\<lparr>sr_state := Revoked\<rparr>)
          else Closed (q\<lparr>sr_state := Terminal, sr_terminalized_at := Some (iso now)\<rparr>))"
    using terminalize_begin_result[OF reachable_disk_ok[OF f] res] .
  have qr: "q = r" using q(1) r by simp
  show ?thesis
  proof (cases "has_runtime_authority r")
    case True
    with q(3) qr have "t = CleanupRequired (r\<lparr>sr_state := Revoked\<rparr>)" by (simp only: if_True)
    with q(2) True show ?thesis by (simp only: if_True terminalization.case simp_thms)
  next
    case False
    with q(3) qr have "t = Closed (r\<lparr>sr_state := Terminal, sr_terminalized_at := Some (iso now)\<rparr>)"
      by (simp only: if_False)
    with q(2) False show ?thesis by (simp only: if_False terminalization.case simp_thms)
  qed
qed

text \<open>
  Revoke before cleanup. When the first phase asks for operating-system cleanup, the scope
  is already durably revoked, with its residual authority still recorded; it is published as
  terminal in one phase exactly when it holds no authority at all.
\<close>

theorem terminalize_begin_revokes_first:
  assumes f: "scope_reachable w f" and r: "disk_table w f sid = Some r"
    and res: "snd (terminalize_begin w f sid n p repo sem hc now) = Inr t"
  shows "if has_runtime_authority r
     then t = CleanupRequired (r\<lparr>sr_state := Revoked\<rparr>)
       \<and> disk_table w (final_doc f (terminalize_begin w f sid n p repo sem hc now))
           = (disk_table w f)(sid \<mapsto> r\<lparr>sr_state := Revoked\<rparr>)
     else t = Closed (r\<lparr>sr_state := Terminal, sr_terminalized_at := Some (iso now)\<rparr>)
       \<and> disk_table w (final_doc f (terminalize_begin w f sid n p repo sem hc now))
           = (disk_table w f)(sid \<mapsto> r\<lparr>sr_state := Terminal, sr_terminalized_at := Some (iso now)\<rparr>)"
  by (rule terminalize_begin_outcome[OF assms])

section \<open>Binding operating-system authority\<close>

lemma reserve_sandbox_runs:
  assumes f: "disk_ok w f" and r: "disk_table w f sid = Some r" "sr_generation r = n" "sr_current r"
    and sb: "strip sb \<noteq> []" "sr_sandbox_identity r \<in> {None, Some (strip sb)}"
  shows "snd (reserve_sandbox_identity w f sid n sb) = Inr (r\<lparr>sr_state := Active,
       sr_sandbox_identity := Some (strip sb), sr_sandbox_write_authority_present := True\<rparr>)"
    and "disk_table w (final_doc f (reserve_sandbox_identity w f sid n sb)) = (disk_table w f)(sid \<mapsto>
       r\<lparr>sr_state := Active, sr_sandbox_identity := Some (strip sb),
         sr_sandbox_write_authority_present := True\<rparr>)"
proof -
  obtain st where st: "load_state f = Inr st" "store_ok w st" and l: "lookup_record w st sid = Inr r"
    using table_record[OF f r(1)] .
  show s: "snd (reserve_sandbox_identity w f sid n sb) = Inr (r\<lparr>sr_state := Active,
       sr_sandbox_identity := Some (strip sb), sr_sandbox_write_authority_present := True\<rparr>)"
    unfolding reserve_sandbox_identity_def Let_def if_not_P[OF sb(1)]
    by (rule update_scope_succeeds[OF st l _ good_reserve_sandbox])
      (use r sb(2) store_unrivalled(2)[OF st(2) l] in simp_all)
  show "disk_table w (final_doc f (reserve_sandbox_identity w f sid n sb)) = (disk_table w f)(sid \<mapsto>
       r\<lparr>sr_state := Active, sr_sandbox_identity := Some (strip sb),
         sr_sandbox_write_authority_present := True\<rparr>)"
    using s unfolding reserve_sandbox_identity_def Let_def if_not_P[OF sb(1)]
    by (rule update_scope_result[OF f good_reserve_sandbox]) simp
qed

text \<open>
  The reservation comes first. A current scope that is not reserved to another identity
  always accepts its sandbox identity; the store then holds, before any access list is
  changed, an active record with that identity and with write authority marked present.
\<close>

theorem reserve_sandbox_identity_commits:
  assumes f: "scope_reachable w f" and r: "disk_table w f sid = Some r" "sr_generation r = n" "sr_current r"
    and sb: "strip sb \<noteq> []" "sr_sandbox_identity r \<in> {None, Some (strip sb)}"
  shows "\<exists>c. snd (reserve_sandbox_identity w f sid n sb) = Inr c
     \<and> disk_table w (final_doc f (reserve_sandbox_identity w f sid n sb)) = (disk_table w f)(sid \<mapsto> c)
     \<and> sr_state c = Active \<and> sr_sandbox_identity c = Some (strip sb)
     \<and> sr_sandbox_write_authority_present c \<and> sealed r c"
proof -
  note d = reachable_disk_ok[OF f]
  show ?thesis
    unfolding reserve_sandbox_runs(1)[OF d r sb] reserve_sandbox_runs(2)[OF d r sb]
    by (rule exI, intro conjI, rule refl, rule refl) (simp_all add: sealed_def)
qed

theorem reserve_sandbox_identity_commits_witness:
  "\<exists>c. snd (reserve_sandbox_identity sample_world sample_doc ''mss'' 1 ''sb'') = Inr c
     \<and> disk_table sample_world (final_doc sample_doc (reserve_sandbox_identity sample_world sample_doc ''mss'' 1 ''sb''))
         = (disk_table sample_world sample_doc)(''mss'' \<mapsto> c)
     \<and> sr_state c = Active \<and> sr_sandbox_identity c = Some (strip ''sb'')
     \<and> sr_sandbox_write_authority_present c \<and> sealed sample_record c"
proof (rule reserve_sandbox_identity_commits[OF sample_reachable sample_table_entry sample_fields(3)])
  show "sr_current sample_record" by (simp add: sr_current_def sample_fields)
  show "strip ''sb'' \<noteq> []" by code_simp
  show "sr_sandbox_identity sample_record \<in> {None, Some (strip ''sb'')}" by (simp add: sample_fields)
qed

text \<open>
  A closed scope grants nothing. Once a scope is not current, each of the four
  operations that would give it operating-system authority fails without writing.
\<close>

theorem closed_scope_grants_nothing:
  assumes f: "scope_reachable w f" and r: "disk_table w f sid = Some r" "\<not> sr_current r"
  shows "fst (reserve_sandbox_identity w f sid n sb) = [] \<and> (\<exists>e. snd (reserve_sandbox_identity w f sid n sb) = Inl e)
     \<and> fst (bind_runtime_process w f sid n sb job pid) = [] \<and> (\<exists>e. snd (bind_runtime_process w f sid n sb job pid) = Inl e)
     \<and> fst (reserve_runtime_read_authority w f sid n sb root) = []
     \<and> (\<exists>e. snd (reserve_runtime_read_authority w f sid n sb root) = Inl e)
     \<and> fst (reserve_session_object_read_binding w f sid n sb b) = []
     \<and> (\<exists>e. snd (reserve_session_object_read_binding w f sid n sb b) = Inl e)"
proof -
  obtain st where st: "load_state f = Inr st" and l: "lookup_record w st sid = Inr r"
    using table_record[OF reachable_disk_ok[OF f] r(1)] by blast
  have na: "sr_state r \<noteq> Active" using r(2) by (auto simp: sr_current_def)
  show ?thesis
    using r(2) na by (simp add: reserve_sandbox_identity_def bind_runtime_process_def
      reserve_runtime_read_authority_def reserve_session_object_read_binding_def Let_def
      update_scope_error(1)[OF st l])
qed

theorem closed_scope_grants_nothing_witness:
  "fst (bind_runtime_process sample_world sample_revoked ''mss'' 1 ''sb'' ''job'' 7) = []"
  using closed_scope_grants_nothing[OF sample_revoked_reachable sample_revoked_table]
  by (simp add: sr_current_def)

text \<open>
  C14: a process is bound only under recorded write authority, and that authority is cleared
  only when no Job and no process is left.
\<close>

theorem write_authority_covers_processes:
  assumes f: "scope_reachable w f" and r: "disk_table w f sid = Some r"
  shows "(snd (bind_runtime_process w f sid n sb job pid) = Inr c \<longrightarrow>
       sr_sandbox_identity r = Some sb \<and> sr_sandbox_write_authority_present r \<and> sr_current r
       \<and> set (sr_active_job_ids c) = insert job (set (sr_active_job_ids r))
       \<and> set (sr_active_process_ids c) = insert (show_int pid) (set (sr_active_process_ids r)))
     \<and> (snd (clear_sandbox_write_authority w f sid n sb) = Inr c \<longrightarrow>
       sr_active_job_ids r = [] \<and> sr_active_process_ids r = [] \<and> \<not> sr_sandbox_write_authority_present c)"
proof -
  note d = reachable_disk_ok[OF f]
  have same: "q = r" if "load_state f = Inr st" "lookup_record w st sid = Inr q" for st q
    using that r by (simp add: disk_table_load scope_table_def)
  show ?thesis
  proof (intro conjI impI)
    assume "snd (bind_runtime_process w f sid n sb job pid) = Inr c"
    then have "snd (update_scope w f sid
       (\<lambda>st r. if sr_generation r \<noteq> n \<or> \<not> sr_current r then Inl ScopeNotCurrent
          else if sr_sandbox_identity r \<noteq> Some sb \<or> \<not> sr_sandbox_write_authority_present r
          then Inl ScopeConflict else assert_unrivalled w st r)
       (\<lambda>r. r\<lparr>sr_active_job_ids := sorted_set (job # sr_active_job_ids r),
              sr_active_process_ids := sorted_set (show_int pid # sr_active_process_ids r)\<rparr>)
       (\<lambda>_. True)) = Inr c"
      by (auto simp: bind_runtime_process_def split: if_splits)
    then obtain st q where q: "load_state f = Inr st" "lookup_record w st sid = Inr q"
      and chk: "(if sr_generation q \<noteq> n \<or> \<not> sr_current q then Inl ScopeNotCurrent
          else if sr_sandbox_identity q \<noteq> Some sb \<or> \<not> sr_sandbox_write_authority_present q
          then Inl ScopeConflict else assert_unrivalled w st q) = Inr ()"
      and c: "c = q\<lparr>sr_active_job_ids := sorted_set (job # sr_active_job_ids q),
              sr_active_process_ids := sorted_set (show_int pid # sr_active_process_ids q)\<rparr>"
      by (rule update_scope_result[OF d good_bind_process])
    from chk c same[OF q] show "sr_sandbox_identity r = Some sb" "sr_sandbox_write_authority_present r" "sr_current r"
      "set (sr_active_job_ids c) = insert job (set (sr_active_job_ids r))"
      "set (sr_active_process_ids c) = insert (show_int pid) (set (sr_active_process_ids r))"
      by (auto split: if_splits)
  next
    assume "snd (clear_sandbox_write_authority w f sid n sb) = Inr c"
    then obtain st q where q: "load_state f = Inr st" "lookup_record w st sid = Inr q"
      and chk: "(if sr_generation q \<noteq> n then Inl ScopeNotCurrent
          else if sr_sandbox_identity q \<noteq> Some sb then Inl ScopeConflict
          else if sr_active_job_ids q \<noteq> [] \<or> sr_active_process_ids q \<noteq> [] then Inl ScopeStillActive
          else Inr ()) = Inr ()"
      and c: "c = q\<lparr>sr_sandbox_write_authority_present := False\<rparr>"
      unfolding clear_sandbox_write_authority_def by (rule update_scope_result[OF d good_clear_write])
    from chk c same[OF q] show "sr_active_job_ids r = []" "sr_active_process_ids r = []" "\<not> sr_sandbox_write_authority_present c"
      by (auto split: if_splits)
  qed
qed

section \<open>A run of the sample scope\<close>

definition active_record :: scope_record where
  "active_record = sample_record\<lparr>sr_state := Active, sr_sandbox_identity := Some (strip ''sb''),
     sr_sandbox_write_authority_present := True\<rparr>"

definition sample_active :: doc_file where
  "sample_active = final_doc sample_doc (reserve_sandbox_identity sample_world sample_doc ''mss'' 1 ''sb'')"

lemma strip_sb [simp]: "strip ''sb'' = ''sb''"
  by code_simp

lemma step_final:
  assumes "scope_reachable w f" "\<And>d. d \<in> set (f # fst m) \<Longrightarrow> scope_step w f d"
  shows "scope_reachable w (final_doc f m)"
proof -
  have "final_doc f m \<in> set (f # fst m)" unfolding final_doc_def by (rule last_in_set) simp
  with assms show ?thesis unfolding scope_reachable_def by (meson rtranclp.rtrancl_into_rtrancl)
qed

lemma sample_active_reachable: "scope_reachable sample_world sample_active"
  unfolding sample_active_def by (rule step_final[OF sample_reachable]) (rule scope_step.reserve_sandbox)

lemma sample_active_table: "disk_table sample_world sample_active ''mss'' = Some active_record"
  using reserve_sandbox_runs(2)[OF reachable_disk_ok[OF sample_reachable] sample_table_entry sample_fields(3),
      of "''sb''"]
  by (simp add: sample_active_def active_record_def sr_current_def sample_fields)

lemma active_fields: "sr_generation active_record = 1" "sr_state active_record = Active"
  "sr_sandbox_identity active_record = Some ''sb''" "sr_sandbox_write_authority_present active_record"
  "sr_active_job_ids active_record = []" "sr_active_process_ids active_record = []"
  "sealed sample_record active_record" "has_runtime_authority active_record"
  by (simp_all add: active_record_def sample_fields sealed_def has_runtime_authority_def)
    (simp_all add: sample_record_def)

lemma sample_clears:
  "snd (clear_sandbox_write_authority sample_world sample_active ''mss'' 1 ''sb'')
     = Inr (active_record\<lparr>sr_sandbox_write_authority_present := False\<rparr>)"
proof -
  obtain st where st: "load_state sample_active = Inr st" "store_ok sample_world st"
    and l: "lookup_record sample_world st ''mss'' = Inr active_record"
    using table_record[OF reachable_disk_ok[OF sample_active_reachable] sample_active_table] .
  show ?thesis unfolding clear_sandbox_write_authority_def
    by (rule update_scope_succeeds[OF st l _ good_clear_write]) (simp_all add: active_fields)
qed

lemma sample_binds:
  "snd (bind_runtime_process sample_world sample_active ''mss'' 1 ''sb'' ''job'' 7)
     = Inr (active_record\<lparr>sr_active_job_ids := sorted_set [''job''], sr_active_process_ids := sorted_set [show_int 7]\<rparr>)"
proof -
  obtain st where st: "load_state sample_active = Inr st" "store_ok sample_world st"
    and l: "lookup_record sample_world st ''mss'' = Inr active_record"
    using table_record[OF reachable_disk_ok[OF sample_active_reachable] sample_active_table] .
  have "snd (update_scope sample_world sample_active ''mss''
       (\<lambda>st r. if sr_generation r \<noteq> 1 \<or> \<not> sr_current r then Inl ScopeNotCurrent
          else if sr_sandbox_identity r \<noteq> Some ''sb'' \<or> \<not> sr_sandbox_write_authority_present r
          then Inl ScopeConflict else assert_unrivalled sample_world st r)
       (\<lambda>r. r\<lparr>sr_active_job_ids := sorted_set (''job'' # sr_active_job_ids r),
              sr_active_process_ids := sorted_set (show_int 7 # sr_active_process_ids r)\<rparr>)
       (\<lambda>_. True)) = Inr (active_record\<lparr>sr_active_job_ids := sorted_set (''job'' # sr_active_job_ids active_record),
          sr_active_process_ids := sorted_set (show_int 7 # sr_active_process_ids active_record)\<rparr>)"
    by (rule update_scope_succeeds[OF st l _ good_bind_process])
      (simp_all add: active_fields sr_current_def store_unrivalled(2)[OF st(2) l])
  then show ?thesis by (simp add: bind_runtime_process_def active_fields)
qed

theorem write_authority_covers_processes_witness:
  "sr_sandbox_write_authority_present active_record \<and> sr_active_process_ids active_record = []
     \<and> snd (bind_runtime_process sample_world sample_active ''mss'' 1 ''sb'' ''job'' 7)
        = Inr (active_record\<lparr>sr_active_job_ids := sorted_set [''job''], sr_active_process_ids := sorted_set [show_int 7]\<rparr>)"
  using write_authority_covers_processes[OF sample_active_reachable sample_active_table, of 1 "''sb''" "''job''" 7]
    sample_clears sample_binds by blast

section \<open>Closing the sample scope\<close>

lemma sealed_identity:
  assumes "sealed r r'"
  shows "sr_repository_identity_digest r' = sr_repository_identity_digest r"
    "lineage_ok r' sem = lineage_ok r sem"
  using assms
  by (simp_all add: sealed_def immutable_digest_payload_def lineage_ok_def vopt_def split: option.splits)

lemma sample_validates:
  assumes st: "store_ok sample_world st" and l: "lookup_record sample_world st ''mss'' = Inr r"
    and seal: "sealed sample_record r" and nt: "sr_state r \<noteq> Terminal"
  shows "validate_sealed_binding sample_world st r 1 sample_repository sample_semantic
    = Inr (sr_unique_lease_key r)"
proof -
  note f = sealed_fields[OF seal] sealed_identity[OF seal]
  have "digest_verified sample_world r" using lookup_ok(2)[OF st l] by (simp add: record_ok_def)
  with nt show ?thesis
    using store_indexed[OF st l] store_unrivalled(1)[OF st l] sample_lease_key
    by (simp add: validate_sealed_binding_def f sample_fields sample_repository_canonical sample_digest
        sample_attempt_key sample_lineage)
qed

lemma generation_update_total:
  assumes "placement_policy_digest w p = Inr d"
  shows "\<exists>g st' ch. placement_generation_update w st p = Inr (g, st', ch)"
proof (cases "au_generation st")
  case (Some a)
  then show ?thesis
    by (cases "evolve a d = a") (auto simp: placement_generation_update_def assms Let_def)
qed (auto simp: placement_generation_update_def assms Let_def)

lemma sample_begin:
  assumes f: "scope_reachable sample_world f" and r: "disk_table sample_world f ''mss'' = Some r"
    and seal: "sealed sample_record r" "sr_state r \<noteq> Terminal"
  shows "\<exists>t. snd (terminalize_begin sample_world f ''mss'' 1 sample_policy sample_repository sample_semantic
    True 9) = Inr t"
proof -
  obtain st0 where st0: "load_state f = Inr st0" "store_ok sample_world st0"
    and l0: "lookup_record sample_world st0 ''mss'' = Inr r" using table_record[OF reachable_disk_ok[OF f] r] .
  obtain g st ch where u: "placement_generation_update sample_world st0 sample_policy = Inr (g, st, ch)"
    using generation_update_total[OF sample_policy_digest] by blast
  note u' = generation_update[OF st0(2) u]
  have "validate_sealed_binding sample_world st r 1 sample_repository sample_semantic
    = Inr (sr_unique_lease_key r)"
    by (rule sample_validates[OF u'(1) _ seal]) (simp add: u'(11) l0)
  from terminalize_begin_runs(1)[OF st0 l0 u this TrueI refl, of 9] show ?thesis by simp
qed

theorem terminalize_begin_revokes_first_witness:
  "disk_table sample_world (final_doc sample_active (terminalize_begin sample_world sample_active ''mss'' 1
      sample_policy sample_repository sample_semantic True 9)) ''mss''
    = Some (active_record\<lparr>sr_state := Revoked\<rparr>)"
proof -
  obtain t where t: "snd (terminalize_begin sample_world sample_active ''mss'' 1 sample_policy
      sample_repository sample_semantic True 9) = Inr t"
    using sample_begin[OF sample_active_reachable sample_active_table active_fields(7)] active_fields(2) by auto
  from terminalize_begin_revokes_first[OF sample_active_reachable sample_active_table t] show ?thesis
    by (simp add: active_fields)
qed

definition sample_closing :: doc_file where
  "sample_closing = final_doc sample_active (terminalize_begin sample_world sample_active ''mss'' 1
      sample_policy sample_repository sample_semantic True 9)"

definition sample_closure :: runtime_closure where
  "sample_closure = \<lparr>rc_sandbox_identity = Some ''sb'', rc_active_job_ids = [], rc_active_process_ids = [],
     rc_sandbox_write_authority_present = False, rc_runtime_read_authority_roots = [],
     rc_session_object_read_binding = None\<rparr>"

lemma terminalize_finish_runs:
  assumes st: "load_state f = Inr st" "store_ok w st" and l: "lookup_record w st sid = Inr r"
    and cc: "closure_check c cl = Inr ()" and v: "validate_sealed_binding w st r n repo sem = Inr lease"
    and r: "sr_state r = Revoked" "sr_scope_digest r = sr_scope_digest cl"
  shows "snd (terminalize_finish w f sid n repo sem cl c now) = Inr (terminal_record r c now)"
proof -
  define t where "t = terminal_record r c now"
  note fs = finish_step[OF cc lookup_ok(2)[OF st(2) l], of now]
  have s: "sealed r t" using fs(1) by (simp add: record_step_def t_def)
  note p = put_record_ok[OF st(2) l s fs(2)[folded t_def]]
  have can: "canonical_state (put_record st t)" using p(1) by (simp add: store_ok_def)
  have l2: "lookup_record w (stored_state (put_record st t)) sid = Inr t"
    using p(2) by (simp add: lookup_same_tables[OF same_tables_stored[OF can]])
  have nt: "sr_state t = Terminal" "\<not> has_runtime_authority t"
    using fs(2) by (simp_all add: t_def record_ok_def terminal_record_def has_runtime_authority_def)
  have lease: "lease = sr_unique_lease_key t"
    using validate_sealed_Inr[OF v] sealed_fields(2)[OF s] by simp
  show ?thesis
    using store_indexed[OF store_ok_stored[OF p(1)] l2] store_unrivalled(1)[OF store_ok_stored[OF p(1)] l2] r
    by (simp add: terminalize_finish_def cc st(1) l v t_def[symmetric] load_durable_write[OF can] l2 nt lease)
qed

theorem terminalize_finish_closes_witness:
  "disk_table sample_world (final_doc sample_closing (terminalize_finish sample_world sample_closing ''mss'' 1
       sample_repository sample_semantic (active_record\<lparr>sr_state := Revoked\<rparr>) sample_closure 11)) ''mss''
     = Some (terminal_record (active_record\<lparr>sr_state := Revoked\<rparr>) sample_closure 11)
   \<and> \<not> has_runtime_authority (terminal_record (active_record\<lparr>sr_state := Revoked\<rparr>) sample_closure 11)"
proof -
  let ?r = "active_record\<lparr>sr_state := Revoked\<rparr>"
  obtain t where t: "snd (terminalize_begin sample_world sample_active ''mss'' 1 sample_policy
      sample_repository sample_semantic True 9) = Inr t"
    using sample_begin[OF sample_active_reachable sample_active_table active_fields(7)] active_fields(2) by auto
  from terminalize_begin_outcome[OF sample_active_reachable sample_active_table t]
  have tab: "disk_table sample_world sample_closing ''mss'' = Some ?r"
    by (simp add: active_fields sample_closing_def)
  have reach: "scope_reachable sample_world sample_closing"
    unfolding sample_closing_def by (rule step_final[OF sample_active_reachable]) (rule scope_step.terminalize_begin)
  obtain st where st: "load_state sample_closing = Inr st" "store_ok sample_world st"
    and l: "lookup_record sample_world st ''mss'' = Inr ?r"
    using table_record[OF reachable_disk_ok[OF reach] tab] .
  have seal: "sealed sample_record ?r" using active_fields(7) by (simp add: sealed_def)
  have "closure_check sample_closure ?r = Inr ()"
    by (simp add: closure_check_def sample_closure_def active_fields)
  from terminalize_finish_runs[OF st l this sample_validates[OF st(2) l seal]]
  have "snd (terminalize_finish sample_world sample_closing ''mss'' 1 sample_repository sample_semantic
      ?r sample_closure 11) = Inr (terminal_record ?r sample_closure 11)" by simp
  from terminalize_finish_closes[OF reach this] show ?thesis by simp
qed

end
