(* ===== verification/PolicyProps.thy ===== *)
theory PolicyProps
  imports MutationPolicy
begin



section \<open>The canonical repository inventory\<close>





section \<open>Verification profiles\<close>





section \<open>The policy\<close>

lemma overlap_sym_list: "list_ex (paths_overlap w) rs \<longleftrightarrow> (\<exists>r \<in> set rs. paths_overlap r w)"
  by (auto simp: list_ex_iff overlap_sym)






end
