(* ===== verification/AgentPolicy.thy ===== *)
theory AgentPolicy
  imports MutationPolicy
begin

text \<open>
  The agent's policy (\<open>policy.py\<close>): the \<open>Policy\<close> record parsed from \<open>config.yaml\<close> and its
  query methods, the direct-Codex admission policy, services, locations, local endpoints and
  the file allowlist. Log messages are not modelled. YAML keys are taken to be strings; a
  \<open>playbooks\<close> block given as a list of pairs, and endpoint timeouts that are not whole
  numbers, are not modelled.
\<close>

section \<open>Duck typing\<close>

text \<open>\<open>v.get(..)\<close> or \<open>v.items()\<close>, on what should be a mapping.\<close>

definition as_mapping :: "pyval \<Rightarrow> (string \<times> pyval) list py" where
  "as_mapping v = (case v of VDict d \<Rightarrow> Inr d | _ \<Rightarrow> Inl AttributeError)"

text \<open>\<open>x or {}\<close>, then used as a mapping.\<close>

definition mapping_or_empty :: "pyval \<Rightarrow> (string \<times> pyval) list py" where
  "mapping_or_empty v = as_mapping (py_or v (VDict []))"

text \<open>\<open>tuple(v)\<close>: what iterating over a value yields.\<close>

definition py_tuple :: "pyval \<Rightarrow> pyval list py" where
  "py_tuple v = (case v of VList vs \<Rightarrow> Inr vs | VStr s \<Rightarrow> Inr (map (\<lambda>c. VStr [c]) s)
     | VDict d \<Rightarrow> Inr (map VStr (keys d)) | _ \<Rightarrow> Inl TypeError)"

definition tuple_or_empty :: "pyval \<Rightarrow> pyval list py" where
  "tuple_or_empty v = py_tuple (py_or v (VList []))"

text \<open>\<open>str(v) if v else None\<close>.\<close>

definition text_or_none :: "pyval \<Rightarrow> string option" where
  "text_or_none v = (if truthy v then Some (py_str v) else None)"

section \<open>Services, locations, file paths\<close>

record service_spec =
  ss_unit :: pyval
  ss_actions :: "pyval list"
  ss_requires_sudo :: bool
  ss_description :: pyval
  ss_domain :: pyval
  ss_backend :: pyval

definition parse_service :: "string \<times> pyval \<Rightarrow> (string \<times> service_spec) py" where
  "parse_service item = rbind (as_mapping (snd item)) (\<lambda>meta.
     rbind (tuple_or_empty (dget meta ''actions'')) (\<lambda>actions.
     Inr (fst item, \<lparr>ss_unit = dget_default meta ''unit'' (VStr (fst item)), ss_actions = actions,
       ss_requires_sudo = truthy (dget_default meta ''requires_sudo'' (VBool True)),
       ss_description = dget_default meta ''description'' (VStr []),
       ss_domain = dget_default meta ''domain'' (VStr ''system''),
       ss_backend = dget_default meta ''backend'' (VStr ''service'')\<rparr>)))"

record location_spec =
  ls_path :: pyval
  ls_description :: pyval

definition parse_location :: "string \<times> pyval \<Rightarrow> (string \<times> location_spec) py" where
  "parse_location item = (case snd item of
     VStr s \<Rightarrow> Inr (fst item, \<lparr>ls_path = VStr s, ls_description = VStr []\<rparr>)
   | VDict meta \<Rightarrow> (case map_of meta ''path'' of None \<Rightarrow> Inl KeyError
       | Some p \<Rightarrow> Inr (fst item, \<lparr>ls_path = p, ls_description = dget_default meta ''description'' (VStr [])\<rparr>))
   | _ \<Rightarrow> Inl TypeError)"

record file_ops_path =
  fp_path :: string
  fp_access :: string

text \<open>\<open>FileOpsPath.__post_init__\<close>: anything but \<open>rw\<close> is read-only.\<close>

definition make_file_ops_path :: "string \<Rightarrow> string \<Rightarrow> file_ops_path" where
  "make_file_ops_path p access = \<lparr>fp_path = p,
     fp_access = (if access \<in> {''r'', ''rw''} then access else ''r'')\<rparr>"

definition file_ops_entry :: "pyval \<Rightarrow> file_ops_path list" where
  "file_ops_entry entry = (case entry of
     VStr s \<Rightarrow> [make_file_ops_path s ''r'']
   | VDict d \<Rightarrow> if truthy (dget d ''path'')
       then [make_file_ops_path (py_str (dget d ''path'')) (py_str (dget_default d ''access'' (VStr ''r'')))]
       else []
   | _ \<Rightarrow> [])"

definition parse_file_ops_paths :: "(string \<times> pyval) list \<Rightarrow> file_ops_path list py" where
  "parse_file_ops_paths block =
     (let raw = dget block ''paths''; legacy = dget block ''allowed_read_paths'' in
      if truthy raw then rbind (py_tuple raw) (\<lambda>es. Inr (concat (map file_ops_entry es)))
      else if truthy legacy then rbind (py_tuple legacy) (\<lambda>es.
        Inr (map (\<lambda>e. make_file_ops_path (py_str e) ''r'') es))
      else Inr [])"

section \<open>Local endpoints\<close>

record local_api_action =
  la_request :: "string option"
  la_method :: "string option"
  la_select :: "string list"
  la_description :: "string option"
  la_params_schema :: "pyval option"
  la_repository_effect :: "string option"

record local_api_endpoint =
  le_name :: string
  le_transport :: string
  le_path :: string
  le_protocol :: string
  le_actions :: "(string \<times> local_api_action) list"
  le_timeout_s :: int
  le_run_as :: "string option"
  le_compatibility :: "(string \<times> pyval) list"

definition repository_effects :: "string list" where
  "repository_effects = [''read_only'', ''non_repository_mutation'', ''structured_mutation'', ''process_mutation'']"

text \<open>One action; \<open>None\<close> where the loop skips it.\<close>

definition parse_action :: "string \<Rightarrow> pyval \<Rightarrow> local_api_action option py" where
  "parse_action protocol v = (case py_or v (VDict []) of
     VDict act \<Rightarrow>
      (if protocol = ''http'' \<and> \<not> truthy (dget act ''request'') then Inr None
       else if protocol = ''jsonrpc'' \<and> \<not> truthy (dget act ''method'') then Inr None else
       rbind (tuple_or_empty (dget act ''select'')) (\<lambda>sel.
       let effect = dget act ''repository_effect''; e = strip (py_str effect) in
       Inr (Some \<lparr>la_request = text_or_none (dget act ''request''),
         la_method = text_or_none (dget act ''method''), la_select = map py_str sel,
         la_description = text_or_none (dget act ''description''),
         la_params_schema = (if is_dict (dget act ''params'') then Some (dget act ''params'') else None),
         la_repository_effect = (if effect \<noteq> VNull \<and> e \<in> set repository_effects then Some e else None)\<rparr>)))
   | _ \<Rightarrow> Inr None)"

fun parse_actions :: "string \<Rightarrow> (string \<times> pyval) list \<Rightarrow> (string \<times> local_api_action) list py" where
  "parse_actions protocol [] = Inr []"
| "parse_actions protocol ((n, v) # rest) = rbind (parse_action protocol v) (\<lambda>a.
     rbind (parse_actions protocol rest) (\<lambda>as.
     Inr (case a of None \<Rightarrow> as | Some x \<Rightarrow> (n, x) # as)))"

definition compatibility_usable :: "pyval \<Rightarrow> bool" where
  "compatibility_usable v = (case v of
     VDict c \<Rightarrow>
      (case dget c ''probe'' of
         VDict probe \<Rightarrow> (truthy (dget probe ''method'') \<or> truthy (dget probe ''request''))
           \<and> truthy (dget c ''extract'')
           \<and> (case dget c ''accept'' of
                VDict accept \<Rightarrow> (''exact'' \<in> set (keys accept) \<or> ''allowed'' \<in> set (keys accept))
                  \<and> (''allowed'' \<in> set (keys accept) \<longrightarrow> (case dget accept ''allowed'' of VList _ \<Rightarrow> True | _ \<Rightarrow> False))
              | _ \<Rightarrow> False)
       | _ \<Rightarrow> False)
   | _ \<Rightarrow> False)"

definition parse_endpoint :: "string \<Rightarrow> pyval \<Rightarrow> local_api_endpoint option py" where
  "parse_endpoint name v = (case v of
     VDict meta \<Rightarrow>
      (let transport = text_or_empty (dget meta ''transport'');
           protocol = text_or_empty (dget meta ''protocol'');
           path_value = text_or_empty (dget meta ''path'') in
       if transport \<notin> {''unix'', ''stdio''} \<or> protocol \<notin> {''http'', ''jsonrpc''} \<or> path_value = []
       then Inr None else
       case dget meta ''actions'' of
         VDict raw \<Rightarrow>
           if raw = [] then Inr None else
           rbind (parse_actions protocol raw) (\<lambda>actions.
           if actions = [] then Inr None else
           let cdecl = py_or (dget meta ''compatibility'') (VDict []) in
           rbind (py_int (py_or (dget meta ''timeout_s'') (VInt 30))) (\<lambda>timeout.
           Inr (Some \<lparr>le_name = name, le_transport = transport, le_path = path_value,
             le_protocol = protocol, le_actions = actions, le_timeout_s = timeout,
             le_run_as = text_or_none (dget meta ''run_as''),
             le_compatibility = (if compatibility_usable cdecl then items_of cdecl else [])\<rparr>)))
       | _ \<Rightarrow> Inr None)
   | _ \<Rightarrow> Inr None)"

fun parse_local_apis :: "(string \<times> pyval) list \<Rightarrow> (string \<times> local_api_endpoint) list py" where
  "parse_local_apis [] = Inr []"
| "parse_local_apis ((n, v) # rest) = rbind (parse_endpoint n v) (\<lambda>e.
     rbind (parse_local_apis rest) (\<lambda>es. Inr (case e of None \<Rightarrow> es | Some x \<Rightarrow> (n, x) # es)))"

section \<open>Direct-Codex admission\<close>

record direct_codex_policy =
  dc_configured :: bool
  dc_enabled :: bool
  dc_workspace_root :: "path option"
  dc_supported_platform :: string
  dc_timeout_seconds :: int
  dc_max_result_bytes :: int
  dc_codex_package :: string
  dc_node_executable :: "path option"

definition default_direct_codex :: direct_codex_policy where
  "default_direct_codex = \<lparr>dc_configured = False, dc_enabled = False, dc_workspace_root = None,
     dc_supported_platform = ''windows'', dc_timeout_seconds = 1800, dc_max_result_bytes = 65536,
     dc_codex_package = ''@openai/codex'', dc_node_executable = None\<rparr>"

definition codex_node :: "os \<Rightarrow> pyval \<Rightarrow> path option py" where
  "codex_node sys v = (if v = VNull \<or> v = VStr [] then Inr None else
     rbind (of_option RuntimeError (os_expanduser sys (path_of_text (py_str v)))) (\<lambda>p.
     if \<not> is_absolute p then Inl ValueError
     else rbind (of_option ValueError (os_resolve sys p)) (\<lambda>q. Inr (Some q))))"

definition direct_codex_from_block :: "os \<Rightarrow> pyval \<Rightarrow> bool \<Rightarrow> direct_codex_policy py" where
  "direct_codex_from_block sys block configured =
     (if \<not> configured then Inr default_direct_codex else
      case (if block = VNull then VDict [] else block) of
        VDict d \<Rightarrow>
          rbind (optional_root sys (dget d ''workspace_root'')) (\<lambda>ws.
          rbind (codex_node sys (dget d ''node_executable'')) (\<lambda>node.
          rbind (int_or_value_error (dget_default d ''timeout_seconds'' (VInt 1800))) (\<lambda>timeout.
          rbind (int_or_value_error (dget_default d ''max_result_bytes'' (VInt 65536))) (\<lambda>bytes.
          if timeout \<le> 0 then Inl ValueError else if bytes \<le> 0 then Inl ValueError else
          Inr \<lparr>dc_configured = True, dc_enabled = truthy (dget_default d ''enabled'' (VBool False)),
            dc_workspace_root = ws,
            dc_supported_platform = casefold (strip (py_str (py_or (dget d ''supported_platform'') (VStr ''windows'')))),
            dc_timeout_seconds = timeout, dc_max_result_bytes = bytes,
            dc_codex_package = ''@openai/codex'', dc_node_executable = node\<rparr>))))
      | _ \<Rightarrow> Inl ValueError)"

definition missing_prerequisites :: "direct_codex_policy \<Rightarrow> string \<Rightarrow> string list" where
  "missing_prerequisites p platform_name = dict_fromkeys (
     (if \<not> dc_configured p \<or> \<not> dc_enabled p then [''direct_codex_disabled''] else [])
     @ (if dc_workspace_root p = None then [''direct_codex_workspace_root_missing''] else [])
     @ (if casefold (strip platform_name) \<noteq> casefold (strip (dc_supported_platform p))
        then [''direct_codex_unsupported_platform''] else [])
     @ (if dc_timeout_seconds p \<le> 0 then [''direct_codex_timeout_invalid''] else [])
     @ (if dc_max_result_bytes p \<le> 0 then [''direct_codex_result_limit_invalid''] else []))"

section \<open>The policy\<close>

record policy =
  pol_exec_strict :: bool
  pol_disabled_ops :: "string list"
  pol_allowed_commands :: "pyval list"
  pol_git_enabled :: bool
  pol_git_allow_push :: bool
  pol_git_timeout_seconds :: int
  pol_mutation_execution :: mutation_policy
  pol_direct_codex :: direct_codex_policy
  pol_services :: "(string \<times> service_spec) list"
  pol_local_apis :: "(string \<times> local_api_endpoint) list"
  pol_locations :: "(string \<times> location_spec) list"
  pol_playbooks :: "(string \<times> pyval) list"
  pol_hostname_label :: pyval
  pol_preferred_profile :: "string option"
  pol_exec_timeout_default :: int
  pol_exec_timeout_max :: int
  pol_upload_base :: path
  pol_trusted_fetch_hosts :: "pyval list"
  pol_file_url_timeout_seconds :: int
  pol_file_ops_paths :: "file_ops_path list"
  pol_max_read_bytes :: int
  pol_max_list_entries :: int
  pol_max_search_results :: int

definition empty_policy :: "path \<Rightarrow> policy" where
  "empty_policy base = \<lparr>pol_exec_strict = False, pol_disabled_ops = [], pol_allowed_commands = [],
     pol_git_enabled = False, pol_git_allow_push = False, pol_git_timeout_seconds = 20,
     pol_mutation_execution = default_mutation_policy, pol_direct_codex = default_direct_codex,
     pol_services = [], pol_local_apis = [], pol_locations = [], pol_playbooks = [],
     pol_hostname_label = VNull, pol_preferred_profile = None, pol_exec_timeout_default = 60,
     pol_exec_timeout_max = 600, pol_upload_base = base, pol_trusted_fetch_hosts = [],
     pol_file_url_timeout_seconds = 15, pol_file_ops_paths = [], pol_max_read_bytes = 65536,
     pol_max_list_entries = 1000, pol_max_search_results = 200\<rparr>"

definition typo_keys :: "string list" where
  "typo_keys = [''allow'', ''allowedCommands'', ''commands'', ''service'', ''location'', ''playbook'', ''hub'']"

definition preferred_profile :: "pyval \<Rightarrow> string option" where
  "preferred_profile v = (if v = VStr ''compact'' then Some ''compact''
     else if v = VStr ''full'' then Some ''full'' else None)"

definition policy_from_dict :: "os \<Rightarrow> path \<Rightarrow> (string \<times> pyval) list \<Rightarrow> policy py" where
  "policy_from_dict sys default_base data =
     (if list_ex (\<lambda>k. k \<in> set typo_keys) (keys data) then Inl ValueError else
      let agent = py_or (dget_default data ''agent'' (VDict [])) (VDict []);
          exec = py_or (dget_default data ''exec'' (VDict [])) (VDict []);
          security = py_or (dget_default data ''security'' (VDict [])) (VDict []);
          file_ops = py_or (dget_default data ''file_ops'' (VDict [])) (VDict []);
          git = py_or (dget_default data ''authenticated_git'' (VDict [])) (VDict []) in
      if \<not> is_dict git then Inl ValueError else
      rbind (mutation_policy_from_block sys (dget data ''mutation_execution'')
               (''mutation_execution'' \<in> set (keys data))) (\<lambda>mutation.
      rbind (direct_codex_from_block sys (dget data ''direct_codex'')
               (''direct_codex'' \<in> set (keys data))) (\<lambda>codex.
      rbind (mapping_or_empty (dget data ''services'')) (\<lambda>services_block.
      rbind (rmap parse_service services_block) (\<lambda>services.
      rbind (mapping_or_empty (dget data ''local_apis'')) (\<lambda>apis_block.
      rbind (parse_local_apis apis_block) (\<lambda>apis.
      rbind (mapping_or_empty (dget data ''locations'')) (\<lambda>locations_block.
      rbind (rmap parse_location locations_block) (\<lambda>locations.
      rbind (as_mapping file_ops) (\<lambda>fblock.
      rbind (parse_file_ops_paths fblock) (\<lambda>fpaths.
      rbind (as_mapping agent) (\<lambda>ablock.
      rbind (tuple_or_empty (dget data ''allowed_commands'')) (\<lambda>commands.
      rbind (tuple_or_empty (dget data ''disabled_ops'')) (\<lambda>disabled.
      rbind (py_int (dget_default (items_of git) ''timeout_seconds'' (VInt 20))) (\<lambda>git_timeout.
      rbind (of_option TypeError (case py_or (dget data ''playbooks'') (VDict []) of
               VDict d \<Rightarrow> Some d | _ \<Rightarrow> None)) (\<lambda>playbooks.
      rbind (as_mapping exec) (\<lambda>eblock.
      rbind (py_int (dget_default eblock ''timeout_default'' (VInt 60))) (\<lambda>tdefault.
      rbind (py_int (dget_default eblock ''timeout_max'' (VInt 600))) (\<lambda>tmax.
      rbind (case py_or (dget data ''upload_base'') VNull of
               VNull \<Rightarrow> Inr default_base | VStr s \<Rightarrow> Inr (path_of_text s)
             | v \<Rightarrow> if truthy v then Inl TypeError else Inr default_base) (\<lambda>base0.
      rbind (of_option OSError (os_resolve sys base0)) (\<lambda>base.
      rbind (as_mapping security) (\<lambda>sblock.
      rbind (tuple_or_empty (dget sblock ''trusted_fetch_hosts'')) (\<lambda>hosts.
      rbind (py_int (dget_default sblock ''file_url_timeout_seconds'' (VInt 15))) (\<lambda>url_timeout.
      rbind (py_int (dget_default fblock ''max_read_bytes'' (VInt 65536))) (\<lambda>max_read.
      rbind (py_int (dget_default fblock ''max_list_entries'' (VInt 1000))) (\<lambda>max_list.
      rbind (py_int (dget_default fblock ''max_search_results'' (VInt 200))) (\<lambda>max_search.
      Inr \<lparr>pol_exec_strict = truthy (dget_default data ''exec_strict'' (VBool False)),
        pol_disabled_ops = filter (\<lambda>s. s \<noteq> []) (map (strip \<circ> py_str) disabled),
        pol_allowed_commands = commands,
        pol_git_enabled = truthy (dget_default (items_of git) ''enabled'' (VBool False)),
        pol_git_allow_push = truthy (dget_default (items_of git) ''allow_push'' (VBool False)),
        pol_git_timeout_seconds = max 5 (min git_timeout 50),
        pol_mutation_execution = mutation, pol_direct_codex = codex, pol_services = services,
        pol_local_apis = apis, pol_locations = locations, pol_playbooks = playbooks,
        pol_hostname_label = dget ablock ''hostname_label'',
        pol_preferred_profile = preferred_profile (dget ablock ''preferred_profile''),
        pol_exec_timeout_default = tdefault, pol_exec_timeout_max = tmax, pol_upload_base = base,
        pol_trusted_fetch_hosts = hosts, pol_file_url_timeout_seconds = url_timeout,
        pol_file_ops_paths = fpaths, pol_max_read_bytes = max_read, pol_max_list_entries = max_list,
        pol_max_search_results = max_search\<rparr>)))))))))))))))))))))))))))"

section \<open>Queries\<close>

text \<open>\<open>any(cmd.startswith(allowed) for allowed in ..)\<close>: an entry that is not a string raises.\<close>

fun any_prefix :: "string \<Rightarrow> pyval list \<Rightarrow> bool py" where
  "any_prefix cmd [] = Inr False"
| "any_prefix cmd (VStr a # rest) = (if startswith cmd a then Inr True else any_prefix cmd rest)"
| "any_prefix cmd (v # rest) = Inl TypeError"

definition is_command_allowed :: "policy \<Rightarrow> string \<Rightarrow> bool py" where
  "is_command_allowed p cmd =
     (if strip cmd = [] then Inr False else any_prefix (strip cmd) (pol_allowed_commands p))"

definition get_service :: "policy \<Rightarrow> string \<Rightarrow> service_spec option" where
  "get_service p name = map_of (pol_services p) name"

definition is_service_action_allowed :: "policy \<Rightarrow> string \<Rightarrow> string \<Rightarrow> bool" where
  "is_service_action_allowed p name action = (case get_service p name of
     None \<Rightarrow> False | Some s \<Rightarrow> VStr action \<in> set (ss_actions s))"

fun resolve_entries :: "os \<Rightarrow> path \<Rightarrow> bool \<Rightarrow> file_ops_path list \<Rightarrow> path option" where
  "resolve_entries sys candidate need_write [] = None"
| "resolve_entries sys candidate need_write (e # es) =
     (if need_write \<and> fp_access e \<noteq> ''rw'' then resolve_entries sys candidate need_write es else
      case os_resolve sys (path_of_text (fp_path e)) of
        None \<Rightarrow> resolve_entries sys candidate need_write es
      | Some allowed \<Rightarrow> if candidate = allowed \<or> is_relative_to candidate allowed then Some candidate
          else resolve_entries sys candidate need_write es)"

definition resolve_path :: "os \<Rightarrow> policy \<Rightarrow> string \<Rightarrow> bool \<Rightarrow> path option" where
  "resolve_path sys p path need_write =
     (if pol_file_ops_paths p = [] \<or> path = [] then None else
      case os_resolve sys (path_of_text path) of None \<Rightarrow> None
      | Some candidate \<Rightarrow> resolve_entries sys candidate need_write (pol_file_ops_paths p))"

section \<open>The file allowlist\<close>

lemma resolve_entries_iff:
  "resolve_entries sys c need_write es = Some r \<longleftrightarrow> r = c \<and> (\<exists>e \<in> set es. (need_write \<longrightarrow> fp_access e = ''rw'')
     \<and> (\<exists>a. os_resolve sys (path_of_text (fp_path e)) = Some a \<and> is_relative_to c a))"
proof (induction es)
  case (Cons e es)
  show ?case
  proof (cases "os_resolve sys (path_of_text (fp_path e))")
    case None
    with Cons show ?thesis by auto
  next
    case (Some a)
    with Cons show ?thesis
      by (cases "need_write \<and> fp_access e \<noteq> ''rw''"; cases "is_relative_to c a") auto
  qed
qed simp

text \<open>
  The file allowlist is exact. A path is granted if and only if it resolves, and what it
  resolves to lies at or below the resolved path of some entry; for writing that entry must be
  a read-write one. The granted path is the resolved one, so a link or a parent reference
  that leads out of every entry is refused.
\<close>

theorem resolve_path_exact:
  "resolve_path sys p path need_write = Some c \<longleftrightarrow>
     path \<noteq> [] \<and> os_resolve sys (path_of_text path) = Some c
     \<and> (\<exists>e \<in> set (pol_file_ops_paths p). (need_write = True \<longrightarrow> fp_access e = ''rw'')
          \<and> (\<exists>a. os_resolve sys (path_of_text (fp_path e)) = Some a \<and> is_relative_to c a))"
  by (auto simp: resolve_path_def resolve_entries_iff split: option.splits)

definition confined_os :: os where
  "confined_os = \<lparr>os_resolve = (\<lambda>p. if p = path_of_text ''/home/u/escape'' then Some (path_of_text ''/etc/shadow'')
     else Some p), os_expanduser = Some\<rparr>"

definition home_policy :: policy where
  "home_policy = (empty_policy (Path True []))\<lparr>pol_file_ops_paths := [make_file_ops_path ''/home/u'' ''rw'']\<rparr>"

lemma escape_outside:
  "\<not> is_relative_to (path_of_text ''/etc/shadow'') (path_of_text ''/home/u'')"
  "is_relative_to (path_of_text ''/home/u/notes'') (path_of_text ''/home/u'')"
  "path_of_text ''/home/u'' \<noteq> path_of_text ''/home/u/escape''"
  "path_of_text ''/home/u/notes'' \<noteq> path_of_text ''/home/u/escape''"
  by code_simp+

theorem resolve_path_exact_witness:
  "resolve_path confined_os home_policy ''/home/u/escape'' False = None
     \<and> resolve_path confined_os home_policy ''/home/u/notes'' True = Some (path_of_text ''/home/u/notes'')"
proof
  have "resolve_path confined_os home_policy ''/home/u/escape'' False \<noteq> Some c" for c
    unfolding resolve_path_exact
    by (auto simp: home_policy_def confined_os_def make_file_ops_path_def escape_outside)
  then show "resolve_path confined_os home_policy ''/home/u/escape'' False = None" by auto
  show "resolve_path confined_os home_policy ''/home/u/notes'' True = Some (path_of_text ''/home/u/notes'')"
    unfolding resolve_path_exact
    by (auto simp: home_policy_def confined_os_def make_file_ops_path_def escape_outside)
qed

section \<open>What the parser grants\<close>

lemma file_ops_entry_rw:
  "e \<in> set (file_ops_entry v) \<Longrightarrow> fp_access e = ''rw'' \<Longrightarrow>
     \<exists>d. v = VDict d \<and> py_str (dget d ''access'') = ''rw'' \<and> fp_path e = py_str (dget d ''path'')"
  by (cases v) (auto simp: file_ops_entry_def make_file_ops_path_def dget_default_def dget_def
      split: if_splits option.splits)

lemma parse_file_ops_paths_rw:
  assumes "parse_file_ops_paths block = Inr fps" "e \<in> set fps" "fp_access e = ''rw''"
  shows "\<exists>es d. py_tuple (dget block ''paths'') = Inr es \<and> VDict d \<in> set es
     \<and> py_str (dget d ''access'') = ''rw'' \<and> fp_path e = py_str (dget d ''path'')"
proof (cases "truthy (dget block ''paths'')")
  case True
  with assms obtain es v where es: "py_tuple (dget block ''paths'') = Inr es" "v \<in> set es" "e \<in> set (file_ops_entry v)"
    by (auto simp: parse_file_ops_paths_def Let_def result_simps)
  from file_ops_entry_rw[OF es(3) assms(3)] es(1,2) show ?thesis by auto
next
  case False
  with assms show ?thesis
    by (auto simp: parse_file_ops_paths_def Let_def result_simps make_file_ops_path_def split: if_splits)
qed

lemma parse_action_fields:
  assumes "parse_action protocol v = Inr (Some a)"
  shows "(protocol = ''http'' \<longrightarrow> la_request a \<noteq> None) \<and> (protocol = ''jsonrpc'' \<longrightarrow> la_method a \<noteq> None)"
proof -
  from assms obtain act where v: "py_or v (VDict []) = VDict act"
    by (cases "py_or v (VDict [])") (auto simp: parse_action_def)
  have "la_request a = text_or_none (dget act ''request'')" "la_method a = text_or_none (dget act ''method'')"
    "\<not> (protocol = ''http'' \<and> \<not> truthy (dget act ''request''))"
    "\<not> (protocol = ''jsonrpc'' \<and> \<not> truthy (dget act ''method''))"
    using assms unfolding parse_action_def v pyval.case
    by (clarsimp simp: Let_def rbind_Inr_iff split: if_split_asm)+
  then show ?thesis by (auto simp: text_or_none_def)
qed

lemma parse_actions_fields:
  "parse_actions protocol acts = Inr as \<Longrightarrow> a \<in> set as \<Longrightarrow>
     (protocol = ''http'' \<longrightarrow> la_request (snd a) \<noteq> None) \<and> (protocol = ''jsonrpc'' \<longrightarrow> la_method (snd a) \<noteq> None)"
proof (induction acts arbitrary: as)
  case (Cons x acts)
  obtain n v where x: "x = (n, v)" by (cases x)
  from Cons.prems(1) obtain r bs where r: "parse_action protocol v = Inr r" "parse_actions protocol acts = Inr bs"
    "as = (case r of None \<Rightarrow> bs | Some y \<Rightarrow> (n, y) # bs)" by (auto simp: x result_simps)
  with Cons.prems(2) parse_action_fields[of protocol v] Cons.IH[OF r(2)] show ?case
    by (cases r) auto
qed simp

definition endpoint_ok :: "local_api_endpoint \<Rightarrow> bool" where
  "endpoint_ok e \<longleftrightarrow> le_transport e \<in> {''unix'', ''stdio''} \<and> le_path e \<noteq> [] \<and> le_actions e \<noteq> []
     \<and> (\<forall>a \<in> set (le_actions e). if le_protocol e = ''http'' then la_request (snd a) \<noteq> None
          else le_protocol e = ''jsonrpc'' \<and> la_method (snd a) \<noteq> None)"

lemma parse_endpoint_ok:
  assumes "parse_endpoint n v = Inr (Some e)" shows "endpoint_ok e \<and> le_name e = n"
proof -
  from assms obtain meta where v: "v = VDict meta" by (cases v) (auto simp: parse_endpoint_def)
  from assms obtain raw where raw: "dget meta ''actions'' = VDict raw"
    by (cases "dget meta ''actions''") (auto simp: parse_endpoint_def v Let_def split: if_split_asm)
  have e: "le_transport e \<in> {''unix'', ''stdio''}" "le_protocol e \<in> {''http'', ''jsonrpc''}" "le_path e \<noteq> []"
    "le_actions e \<noteq> []" "le_name e = n" "parse_actions (le_protocol e) raw = Inr (le_actions e)"
    using assms unfolding parse_endpoint_def v pyval.case raw Let_def
    by (clarsimp simp: rbind_Inr_iff split: if_split_asm)+
  with parse_actions_fields[OF e(6)] show ?thesis by (auto simp: endpoint_ok_def)
qed

lemma parse_local_apis_ok:
  "parse_local_apis items = Inr es \<Longrightarrow> x \<in> set es \<Longrightarrow> endpoint_ok (snd x) \<and> le_name (snd x) = fst x"
proof (induction items arbitrary: es)
  case (Cons y items)
  obtain n v where y: "y = (n, v)" by (cases y)
  from Cons.prems(1) obtain r fs where r: "parse_endpoint n v = Inr r" "parse_local_apis items = Inr fs"
    "es = (case r of None \<Rightarrow> fs | Some e \<Rightarrow> (n, e) # fs)" by (auto simp: y result_simps)
  with Cons.prems(2) parse_endpoint_ok[of n v] Cons.IH[OF r(2)] show ?case by (cases r) auto
qed simp

lemma policy_from_dict_parts:
  assumes "policy_from_dict sys base data = Inr p"
  shows "\<not> list_ex (\<lambda>k. k \<in> set typo_keys) (keys data)
    \<and> (\<exists>fb. as_mapping (py_or (dget_default data ''file_ops'' (VDict [])) (VDict [])) = Inr fb
         \<and> parse_file_ops_paths fb = Inr (pol_file_ops_paths p))
    \<and> (\<exists>items. parse_local_apis items = Inr (pol_local_apis p))
    \<and> (\<exists>t. pol_git_timeout_seconds p = max 5 (min t 50))"
  using assms unfolding policy_from_dict_def Let_def
  by (clarsimp simp only: rbind_Inr_iff sum.inject policy.select_convs if_cancel split: if_split_asm) blast

text \<open>
  A loaded policy grants only what it says. Write access to a directory comes only from
  an entry of the file paths list that names it and says read-write; every local endpoint has
  a transport, a path and a non-empty list of actions, each with the call it stands for; the
  Git timeout is between 5 and 50 seconds; and the key names that are known typing mistakes
  are not accepted.
\<close>

theorem loaded_policy_is_explicit:
  assumes "policy_from_dict sys base data = Inr p"
  shows "(\<forall>e \<in> set (pol_file_ops_paths p). fp_access e = ''rw'' \<longrightarrow>
       (\<exists>fb es d. dget data ''file_ops'' = VDict fb \<and> py_tuple (dget fb ''paths'') = Inr es \<and> VDict d \<in> set es
          \<and> py_str (dget d ''access'') = ''rw'' \<and> fp_path e = py_str (dget d ''path'')))
     \<and> (\<forall>x \<in> set (pol_local_apis p). endpoint_ok (snd x) \<and> le_name (snd x) = fst x)
     \<and> 5 \<le> pol_git_timeout_seconds p \<and> pol_git_timeout_seconds p \<le> 50
     \<and> set (keys data) \<inter> set typo_keys = {}"
proof -
  note parts = policy_from_dict_parts[OF assms, THEN conjunct1] policy_from_dict_parts[OF assms, THEN conjunct2, THEN conjunct1]
    policy_from_dict_parts[OF assms, THEN conjunct2, THEN conjunct2, THEN conjunct1]
    policy_from_dict_parts[OF assms, THEN conjunct2, THEN conjunct2, THEN conjunct2]
  obtain fb where fb: "as_mapping (py_or (dget_default data ''file_ops'' (VDict [])) (VDict [])) = Inr fb"
    "parse_file_ops_paths fb = Inr (pol_file_ops_paths p)" using parts(2) by blast
  have d: "dget data ''file_ops'' = VDict fb \<or> fb = []"
    using fb(1) by (auto simp: as_mapping_def py_or_def dget_default_def dget_def split: pyval.splits option.splits if_splits)
  have "\<exists>fb es d. dget data ''file_ops'' = VDict fb \<and> py_tuple (dget fb ''paths'') = Inr es \<and> VDict d \<in> set es
          \<and> py_str (dget d ''access'') = ''rw'' \<and> fp_path e = py_str (dget d ''path'')"
    if "e \<in> set (pol_file_ops_paths p)" "fp_access e = ''rw''" for e
    using parse_file_ops_paths_rw[OF fb(2) that] d by (auto simp: dget_def py_tuple_def)
  moreover have "endpoint_ok (snd x) \<and> le_name (snd x) = fst x" if "x \<in> set (pol_local_apis p)" for x
    using parts(3) parse_local_apis_ok that by blast
  moreover have "5 \<le> pol_git_timeout_seconds p" "pol_git_timeout_seconds p \<le> 50" using parts(4) by auto
  moreover have "set (keys data) \<inter> set typo_keys = {}" using parts(1) by (auto simp: list_ex_iff)
  ultimately show ?thesis by blast
qed

definition sample_config :: "(string \<times> pyval) list" where
  "sample_config = [(''allowed_commands'', VList [VStr ''ls'']),
     (''file_ops'', VDict [(''paths'', VList [VDict [(''path'', VStr ''/srv''), (''access'', VStr ''rw'')], VStr ''/etc''])])]"

lemma sample_config_loads:
  "case policy_from_dict \<lparr>os_resolve = Some, os_expanduser = Some\<rparr> (Path True []) sample_config of
     Inl _ \<Rightarrow> False | Inr p \<Rightarrow> map fp_access (pol_file_ops_paths p) = [''rw'', ''r'']"
  by code_simp

theorem loaded_policy_is_explicit_witness:
  "\<exists>p. policy_from_dict \<lparr>os_resolve = Some, os_expanduser = Some\<rparr> (Path True []) sample_config = Inr p
     \<and> map fp_access (pol_file_ops_paths p) = [''rw'', ''r''] \<and> 5 \<le> pol_git_timeout_seconds p"
proof -
  obtain p where p: "policy_from_dict \<lparr>os_resolve = Some, os_expanduser = Some\<rparr> (Path True []) sample_config = Inr p"
    "map fp_access (pol_file_ops_paths p) = [''rw'', ''r'']"
    using sample_config_loads by (auto split: sum.splits)
  with loaded_policy_is_explicit[OF p(1)] show ?thesis by (intro exI[of _ p]) simp
qed

end
