(* ===== verification/SegmentCheck.thy ===== *)
theory SegmentCheck
  imports AgentPolicy
begin

text \<open>
  Strict mode for chained \<open>exec\<close> commands (\<open>segment_check.py\<close>): splitting at top-level
  separators, the substitution scan, and the first segment the allowlist does not cover.
\<close>

definition backslash :: char where "backslash = CHR 0x5C"
definition squote :: char where "squote = CHR 0x27"
definition dquote :: char where "dquote = CHR 0x22"
definition backtick :: char where "backtick = CHR 0x60"

lemmas shell_chars = backslash_def squote_def dquote_def backtick_def

definition READ_ONLY_FILTERS :: "string list" where
  "READ_ONLY_FILTERS = [''head'', ''tail'', ''sort'', ''uniq'', ''wc'', ''cut'', ''tr'', ''grep'',
     ''egrep'', ''fgrep'', ''awk'', ''sed'', ''jq'', ''rg'', ''cat'', ''tee'', ''column'', ''rev'', ''tac'',
     ''nl'', ''fold'', ''paste'', ''join'', ''comm'', ''xxd'', ''base64'', ''md5sum'', ''sha256sum'',
     ''echo'', ''printf'', ''true'', ''false'', ''seq'', ''basename'', ''dirname'', ''realpath'',
     ''readlink'', ''date'']"

definition POSITION_FREE :: "string list" where
  "POSITION_FREE = [''cd'']"

section \<open>Splitting\<close>

text \<open>
  The loop of \<open>split_top_level\<close>: \<open>q\<close> is the open quote, \<open>buf\<close> the current fragment reversed.
  A backslash takes the next character with it, inside either kind of quote too.
\<close>

fun split_loop :: "char option \<Rightarrow> string \<Rightarrow> string \<Rightarrow> string list" where
  "split_loop q buf [] = [rev buf]"
| "split_loop q buf [c] =
     (if q = None \<and> (c = CHR '';'' \<or> c = CHR ''|'') then [rev buf, []] else [rev (c # buf)])"
| "split_loop q buf (c # d # cs) =
     (if c = backslash then split_loop q (d # c # buf) cs
      else case q of
        Some k \<Rightarrow> split_loop (if c = k then None else Some k) (c # buf) (d # cs)
      | None \<Rightarrow>
          if c = squote \<or> c = dquote then split_loop (Some c) (c # buf) (d # cs)
          else if c = d \<and> (c = CHR ''&'' \<or> c = CHR ''|'') then rev buf # split_loop None [] cs
          else if c = CHR '';'' \<or> c = CHR ''|'' then rev buf # split_loop None [] (d # cs)
          else split_loop None (c # buf) (d # cs))"

definition segments_of :: "string list \<Rightarrow> string list" where
  "segments_of out = filter (\<lambda>s. s \<noteq> []) (map strip out)"

definition split_top_level :: "string \<Rightarrow> string list" where
  "split_top_level command = segments_of (split_loop None [] command)"

definition first_word :: "string \<Rightarrow> string" where
  "first_word segment = (case words segment of [] \<Rightarrow> [] | w # _ \<Rightarrow> w)"

section \<open>Substitution\<close>

fun subst_scan :: "char option \<Rightarrow> string \<Rightarrow> string option" where
  "subst_scan q [] = None"
| "subst_scan q (c # cs) =
     (if q = Some squote then subst_scan (if c = squote then None else q) cs
      else if c = backslash \<and> cs \<noteq> [] then subst_scan q (tl cs)
      else if q = Some dquote \<and> c = dquote then subst_scan None cs
      else if q = None \<and> (c = squote \<or> c = dquote) then subst_scan (Some c) cs
      else if c = CHR ''$'' \<and> cs \<noteq> [] \<and> hd cs = CHR ''('' then Some ''$(''
      else if c = backtick then Some [backtick]
      else subst_scan q cs)"

definition has_substitution :: "string \<Rightarrow> string option" where
  "has_substitution command = subst_scan None command"

section \<open>Authorisation\<close>

fun unauthorised_from :: "(string \<Rightarrow> bool py) \<Rightarrow> nat \<Rightarrow> string list \<Rightarrow> string option py" where
  "unauthorised_from allowed i [] = Inr None"
| "unauthorised_from allowed i (s # ss) = rbind (allowed s) (\<lambda>ok.
     if ok then unauthorised_from allowed (i + 1) ss
     else if first_word s \<in> set POSITION_FREE then unauthorised_from allowed (i + 1) ss
     else if 0 < i \<and> first_word s \<in> set READ_ONLY_FILTERS then unauthorised_from allowed (i + 1) ss
     else Inr (Some s))"

definition unauthorised_segment :: "(string \<Rightarrow> bool py) \<Rightarrow> string \<Rightarrow> string option py" where
  "unauthorised_segment allowed command = unauthorised_from allowed 0 (split_top_level command)"

section \<open>Laws of splitting\<close>

definition quote_free :: "string \<Rightarrow> bool" where
  "quote_free s \<longleftrightarrow> backslash \<notin> set s \<and> squote \<notin> set s \<and> dquote \<notin> set s"

lemma segments_of_simps [simp]:
  "segments_of [] = []" "segments_of (s # out) = (if strip s = [] then [] else [strip s]) @ segments_of out"
  "segments_of (a @ b) = segments_of a @ segments_of b"
  by (simp_all add: segments_of_def)

text \<open>An unquoted separator cuts the command into two that are split independently.\<close>

lemma split_loop_semicolon:
  "quote_free u \<Longrightarrow>
     split_loop None buf (u @ CHR '';'' # v) = split_loop None buf u @ split_loop None [] v"
proof (induction "None :: char option" buf u rule: split_loop.induct)
  case (1 buf)
  then show ?case by (cases v) (auto simp: shell_chars)
next
  case (2 buf c)
  then show ?case
    by (cases "c = CHR '';'' \<or> c = CHR ''|''"; cases v) (auto simp: shell_chars quote_free_def)
next
  case (3 buf c d cs)
  have q: "quote_free cs" "quote_free (d # cs)" "c \<noteq> backslash" "c \<noteq> squote" "c \<noteq> dquote"
    using 3(6) by (auto simp: quote_free_def)
  from 3 q show ?case by auto
qed

lemma split_top_level_semicolon:
  "quote_free u \<Longrightarrow> split_top_level (u @ CHR '';'' # v) = split_top_level u @ split_top_level v"
  by (simp add: split_top_level_def split_loop_semicolon)

text \<open>The same for the two-character separators, between fragments that do not end in one.\<close>

lemma split_loop_pair:
  assumes "c = CHR ''&'' \<or> c = CHR ''|''"
  shows "quote_free u \<Longrightarrow> c \<notin> set u \<Longrightarrow>
     split_loop None buf (u @ c # c # v) = split_loop None buf u @ split_loop None [] v"
proof (induction "None :: char option" buf u rule: split_loop.induct)
  case (1 buf)
  then show ?case using assms by (auto simp: shell_chars)
next
  case (2 buf e)
  then show ?case using assms by (cases v) (auto simp: shell_chars quote_free_def)
next
  case (3 buf e d cs)
  have q: "quote_free cs" "quote_free (d # cs)" "e \<noteq> backslash" "e \<noteq> squote" "e \<noteq> dquote"
    using 3(6) by (auto simp: quote_free_def)
  from 3 q show ?case by auto
qed

lemma split_top_level_pair:
  "c = CHR ''&'' \<or> c = CHR ''|'' \<Longrightarrow> quote_free u \<Longrightarrow> c \<notin> set u \<Longrightarrow>
     split_top_level (u @ c # c # v) = split_top_level u @ split_top_level v"
  by (simp add: split_top_level_def split_loop_pair)

lemma split_top_level_strip: "s \<in> set (split_top_level command) \<Longrightarrow> strip s = s \<and> s \<noteq> []"
  by (auto simp: split_top_level_def segments_of_def)

section \<open>The gate in front of the shell\<close>

text \<open>
  What segment checking asks of the allowlist: it never admits a blank command.
\<close>

locale command_gate =
  fixes allowed :: "string \<Rightarrow> bool py"
  assumes blank: "strip s = [] \<Longrightarrow> allowed s = Inr False"
begin

definition covered :: "nat \<Rightarrow> string \<Rightarrow> bool" where
  "covered i s \<longleftrightarrow> allowed s = Inr True \<or> first_word s \<in> set POSITION_FREE
     \<or> 0 < i \<and> first_word s \<in> set READ_ONLY_FILTERS"

lemma unauthorised_from_None:
  "unauthorised_from allowed i ss = Inr None \<Longrightarrow> \<forall>k < length ss. covered (i + k) (ss ! k)"
proof (induction ss arbitrary: i)
  case (Cons s ss)
  then have "covered i s" "unauthorised_from allowed (i + 1) ss = Inr None"
    by (auto simp: covered_def result_simps split: if_splits)
  with Cons.IH[of "i + 1"] show ?case by (auto simp: less_Suc_eq_0_disj nth_Cons')
qed simp

lemma unauthorised_from_Some:
  "unauthorised_from allowed i ss = Inr (Some s) \<Longrightarrow>
     \<exists>k < length ss. ss ! k = s \<and> \<not> covered (i + k) s"
proof (induction ss arbitrary: i)
  case (Cons x ss)
  then consider "x = s" "\<not> covered i x" | "unauthorised_from allowed (i + 1) ss = Inr (Some s)"
    by (auto simp: covered_def result_simps split: if_splits)
  then show ?case
  proof cases
    case 1 then show ?thesis by (intro exI[of _ 0]) auto
  next
    case 2
    from Cons.IH[OF this] obtain k where "k < length ss" "ss ! k = s" "\<not> covered (i + 1 + k) s" by auto
    then show ?thesis by (intro exI[of _ "Suc k"]) auto
  qed
qed simp

lemma admitted:
  "unauthorised_segment allowed command = Inr None \<Longrightarrow>
     \<forall>k < length (split_top_level command). covered k (split_top_level command ! k)"
  using unauthorised_from_None[of 0 "split_top_level command"] by (simp add: unauthorised_segment_def)

lemma refused:
  "unauthorised_segment allowed command = Inr (Some s) \<Longrightarrow>
     s \<in> set (split_top_level command) \<and> allowed s \<noteq> Inr True \<and> strip s = s \<and> s \<noteq> []"
proof -
  assume "unauthorised_segment allowed command = Inr (Some s)"
  then obtain k where k: "k < length (split_top_level command)" "split_top_level command ! k = s" "\<not> covered k s"
    using unauthorised_from_Some[of 0 "split_top_level command" s] by (auto simp: unauthorised_segment_def)
  then have "s \<in> set (split_top_level command)" by (metis nth_mem)
  with k(3) split_top_level_strip[OF this] show ?thesis by (simp add: covered_def)
qed

lemma blank_uncovered: "words s = [] \<Longrightarrow> strip s = [] \<Longrightarrow> \<not> covered i s"
  using blank by (simp add: covered_def first_word_def POSITION_FREE_def READ_ONLY_FILTERS_def)

end

interpretation policy_gate: command_gate "is_command_allowed p" for p
  by unfold_locales (simp add: is_command_allowed_def)

end
