(* ===== verification/ExecHandler.thy ===== *)
theory ExecHandler
  imports SegmentCheck
begin

text \<open>
  The \<open>exec\<close> handler (\<open>handlers/exec.py\<close>). The shell itself (\<open>run_shell\<close>) is outside the
  model: a request that gets through is the command and its timeout. A refused request is the
  \<open>HandlerError\<close> with its code and details (its prose is left out); any other exception is the
  Python exception. Timeouts are whole seconds.
\<close>

datatype handler_exn = HandlerError string pyval | Raised py_exn

type_synonym 'a handler = "(handler_exn, 'a) result"

definition raising :: "'a py \<Rightarrow> 'a handler" where
  "raising m = (case m of Inl e \<Rightarrow> Inl (Raised e) | Inr x \<Rightarrow> Inr x)"

lemma raising_simps [simp]: "raising (Inl e) = Inl (Raised e)" "raising (Inr x) = Inr x"
  by (simp_all add: raising_def)

lemma raising_iff [result_simps]: "raising m = Inr x \<longleftrightarrow> m = Inr x"
  by (cases m) simp_all

definition BACKGROUND_TIMEOUT_MAX :: int where
  "BACKGROUND_TIMEOUT_MAX = 3600"

definition bash_keywords :: "string list" where
  "bash_keywords = [''for'', ''while'', ''until'', ''if'', ''case'', ''select'', ''function'',
     ''do'', ''done'', ''then'', ''else'', ''elif'', ''fi'', ''esac'', ''{'', ''('']"

definition shell_compound_tokens :: "string list" where
  "shell_compound_tokens = [''|'', ''&&'', ''||'', '';'', ''>'', ''<'']"

text \<open>The problem summary of \<open>_classify_rejection\<close>.\<close>

definition classify_rejection :: "string \<Rightarrow> string" where
  "classify_rejection command =
     (if CHR 0x0A \<in> set command then ''multi-line input'' else
      let first = first_word (lstrip command) in
      if first \<in> set bash_keywords then ''starts with bash keyword '' @ [squote] @ first @ [squote] else
      case List.find (contains command) shell_compound_tokens of
        Some token \<Rightarrow> ''contains shell operator '' @ [squote] @ token @ [squote]
      | None \<Rightarrow> ''command not in allowlist: '' @ first)"

record exec_request =
  xr_command :: string
  xr_timeout :: int

definition exec_ceiling :: "policy \<Rightarrow> bool \<Rightarrow> int" where
  "exec_ceiling p background =
     (if background then max (pol_exec_timeout_max p) BACKGROUND_TIMEOUT_MAX else pol_exec_timeout_max p)"

definition strict_check :: "policy \<Rightarrow> string \<Rightarrow> unit handler" where
  "strict_check p command =
     (if \<not> pol_exec_strict p then Inr () else
      case has_substitution command of
        Some s \<Rightarrow> Inl (HandlerError ''command_not_allowed''
          (VDict [(''command'', VStr command), (''substitution'', VStr s)]))
      | None \<Rightarrow> rbind (raising (unauthorised_segment (is_command_allowed p) command)) (\<lambda>offending.
          case offending of
            Some seg \<Rightarrow> Inl (HandlerError ''command_not_allowed''
              (VDict [(''command'', VStr command), (''offending_segment'', VStr seg),
                 (''allowed_commands'', VList (pol_allowed_commands p))]))
          | None \<Rightarrow> Inr ()))"

definition handle_exec :: "policy \<Rightarrow> (string \<times> pyval) list \<Rightarrow> exec_request handler" where
  "handle_exec p payload =
     rbind (raising (py_int (dget_default payload ''timeout'' (VInt (pol_exec_timeout_default p))))) (\<lambda>timeout0.
     case dget payload ''command'' of
       VStr command \<Rightarrow>
        (if command = [] then Inl (HandlerError ''invalid_payload'' (VDict [])) else
         let timeout = min timeout0 (exec_ceiling p (truthy (dget payload ''background''))) in
         rbind (strict_check p command) (\<lambda>_.
         rbind (raising (is_command_allowed p command)) (\<lambda>ok.
         if \<not> ok then Inl (HandlerError ''command_not_allowed''
           (VDict [(''command'', VStr command), (''problem'', VStr (classify_rejection command)),
              (''allowed_commands'', VList (pol_allowed_commands p))]))
         else Inr \<lparr>xr_command = command, xr_timeout = timeout\<rparr>)))
     | _ \<Rightarrow> Inl (HandlerError ''invalid_payload'' (VDict [])))"

lemma handle_exec_Inr:
  assumes "handle_exec p payload = Inr r"
  shows "dget payload ''command'' = VStr (xr_command r)" "is_command_allowed p (xr_command r) = Inr True"
    "strict_check p (xr_command r) = Inr ()"
    "xr_timeout r \<le> exec_ceiling p (truthy (dget payload ''background''))"
proof -
  obtain command where c: "dget payload ''command'' = VStr command"
    using assms by (cases "dget payload ''command''") (auto simp: handle_exec_def result_simps)
  obtain t where t: "py_int (dget_default payload ''timeout'' (VInt (pol_exec_timeout_default p))) = Inr t"
    using assms by (auto simp: handle_exec_def result_simps)
  have "strict_check p command = Inr () \<and> is_command_allowed p command = Inr True
      \<and> r = \<lparr>xr_command = command, xr_timeout = min t (exec_ceiling p (truthy (dget payload ''background'')))\<rparr>"
    using assms by (auto simp: handle_exec_def c t Let_def result_simps split: if_splits)
  with c show "dget payload ''command'' = VStr (xr_command r)"
    "is_command_allowed p (xr_command r) = Inr True" "strict_check p (xr_command r) = Inr ()"
    "xr_timeout r \<le> exec_ceiling p (truthy (dget payload ''background''))" by auto
qed


definition probe_policy :: policy where
  "probe_policy = (empty_policy (Path True []))\<lparr>pol_exec_strict := True, pol_allowed_commands := [VStr ''probe'']\<rparr>"


text \<open>
  Strict mode sees every chained part. When an unquoted semicolon follows text without
  quotes and escapes, each side is judged on its own: if the command runs, every segment of
  the second part is covered as well.
\<close>

theorem strict_mode_checks_after_semicolon:
  assumes "handle_exec p payload = Inr r" "pol_exec_strict p" "quote_free u"
    and "xr_command r = u @ CHR '';'' # v" "s \<in> set (split_top_level v)"
  shows "is_command_allowed p s = Inr True \<or> first_word s \<in> set POSITION_FREE
     \<or> first_word s \<in> set READ_ONLY_FILTERS"
proof -
  have "unauthorised_segment (is_command_allowed p) (xr_command r) = Inr None"
    using handle_exec_Inr(3)[OF assms(1)] assms(2)
    by (auto simp: strict_check_def result_simps split: option.splits)
  from policy_gate.admitted[OF this]
  have cov: "\<forall>k < length (split_top_level u @ split_top_level v).
      policy_gate.covered p k ((split_top_level u @ split_top_level v) ! k)"
    by (simp only: assms(4) split_top_level_semicolon[OF assms(3)])
  obtain k where k: "k < length (split_top_level v)" "split_top_level v ! k = s"
    using assms(5) by (auto simp: in_set_conv_nth)
  from cov[rule_format, of "length (split_top_level u) + k"] k show ?thesis
    by (auto simp: policy_gate.covered_def)
qed

theorem strict_mode_checks_after_semicolon_witness:
  "is_command_allowed probe_policy ''probe 2'' = Inr True \<or> first_word ''probe 2'' \<in> set POSITION_FREE
     \<or> first_word ''probe 2'' \<in> set READ_ONLY_FILTERS"
proof (rule strict_mode_checks_after_semicolon)
  show "handle_exec probe_policy [(''command'', VStr ''probe 1;probe 2'')]
      = Inr \<lparr>xr_command = ''probe 1;probe 2'', xr_timeout = 60\<rparr>" by code_simp
  show "''probe 2'' \<in> set (split_top_level ''probe 2'')" by code_simp
qed (simp_all add: probe_policy_def quote_free_def shell_chars)

section \<open>Limits of strict mode\<close>

text \<open>
  A single ampersand and a newline separate commands for the shell but not for
  \<open>split_top_level\<close>, so a strict host runs both halves on the strength of the first.
\<close>

lemma strict_mode_misses_background_operator:
  "handle_exec probe_policy [(''command'', VStr ''probe & id'')]
     = Inr \<lparr>xr_command = ''probe & id'', xr_timeout = 60\<rparr>"
  by code_simp

text \<open>
  Inside single quotes the shell takes a backslash literally; \<open>split_top_level\<close> lets it escape
  the closing quote, so the rest of the command counts as quoted text.
\<close>

lemma strict_mode_misses_escaped_single_quote:
  "split_top_level (''probe '' @ [squote, CHR ''a'', backslash, squote] @ ''; id'')
     = [''probe '' @ [squote, CHR ''a'', backslash, squote] @ ''; id'']"
  by code_simp

text \<open>A filter needs no pipe in front of it: after a semicolon it may read any file.\<close>

lemma strict_mode_admits_filter_after_semicolon:
  "handle_exec probe_policy [(''command'', VStr ''probe; cat /etc/shadow'')]
     = Inr \<lparr>xr_command = ''probe; cat /etc/shadow'', xr_timeout = 60\<rparr>"
  by code_simp

end
