(* ===== verification/JsonParse.thy ===== *)
theory JsonParse
  imports Json
begin

text \<open>
  Reading JSON text: \<open>json.loads\<close>, with the strict treatment of control characters that is
  its default, and \<open>str.splitlines\<close>, which the journal and the audit log use to find their
  records. Numbers with a fraction or an exponent, \<open>NaN\<close> and \<open>Infinity\<close>, and escapes above
  U+00FF are outside the values modelled here; text that contains one does not load. The
  nesting limit of the interpreter is not modelled. The main facts: what \<open>json_dumps\<close> writes
  loads back (\<open>json_loads_dumps\<close>), a proper prefix of a written object never loads
  (\<open>torn_object_unreadable\<close>), and written lines are found again (\<open>splitlines_dumps\<close>).
\<close>

section \<open>Tokens\<close>

definition json_space :: "char \<Rightarrow> bool" where
  "json_space c \<longleftrightarrow> c \<in> set [CHR '' '', CHR 0x09, CHR 0x0A, CHR 0x0D]"

definition skip_ws :: "string \<Rightarrow> string" where
  "skip_ws s = dropWhile json_space s"

definition is_hex :: "char \<Rightarrow> bool" where
  "is_hex c \<longleftrightarrow> is_digit c \<or> c \<in> set ''abcdefABCDEF''"

definition hex_digit :: "char \<Rightarrow> nat" where
  "hex_digit c = hex_val (lower_char c)"

text \<open>One escape, after its backslash.\<close>

definition json_unescape :: "string \<Rightarrow> (char \<times> string) option" where
  "json_unescape s = (case s of
     [] \<Rightarrow> None
   | b # r \<Rightarrow>
      (if b \<in> set [CHR ''\"'', CHR 0x5C, CHR 0x2F] then Some (b, r)
       else if b = CHR ''n'' then Some (CHR 0x0A, r) else if b = CHR ''r'' then Some (CHR 0x0D, r)
       else if b = CHR ''t'' then Some (CHR 0x09, r) else if b = CHR ''b'' then Some (CHR 0x08, r)
       else if b = CHR ''f'' then Some (CHR 0x0C, r)
       else if b = CHR ''u'' then (case r of
           h1 # h2 # h3 # h4 # r' \<Rightarrow>
             (if h1 = CHR ''0'' \<and> h2 = CHR ''0'' \<and> is_hex h3 \<and> is_hex h4
              then Some (char_of (16 * hex_digit h3 + hex_digit h4), r') else None)
         | _ \<Rightarrow> None)
       else None))"

lemma json_unescape_length: "json_unescape s = Some (c, r) \<Longrightarrow> length r < length s"
  by (auto simp: json_unescape_def split: list.splits if_splits)

text \<open>The rest of a string literal, after its opening quote.\<close>

function pstr :: "string \<Rightarrow> (string \<times> string) option" where
  "pstr s = (case s of
     [] \<Rightarrow> None
   | c # r \<Rightarrow>
      (if c = CHR ''\"'' then Some ([], r)
       else if c = CHR 0x5C then (case json_unescape r of
           None \<Rightarrow> None
         | Some (x, r') \<Rightarrow> map_option (\<lambda>(t, u). (x # t, u)) (pstr r'))
       else if (of_char c :: nat) < 32 then None
       else map_option (\<lambda>(t, u). (c # t, u)) (pstr r)))"
  by pat_completeness auto
termination
  by (relation "measure length") (auto dest: json_unescape_length)

declare pstr.simps [simp del]

text \<open>An integer literal: no leading zero, and neither a fraction nor an exponent behind it.\<close>

definition digits_token :: "string \<Rightarrow> string" where
  "digits_token t = (if t \<noteq> [] \<and> hd t = CHR ''0'' then ''0'' else takeWhile is_digit t)"

definition pdigits :: "bool \<Rightarrow> string \<Rightarrow> (pyval \<times> string) option" where
  "pdigits neg t = (let ds = digits_token t; r = drop (length ds) t
     in if ds = [] \<or> (r \<noteq> [] \<and> hd r \<in> set ''.eE'') then None
        else Some (VInt (if neg then - int (read_nat ds) else int (read_nat ds)), r))"

definition pnum :: "string \<Rightarrow> (pyval \<times> string) option" where
  "pnum s = (if s \<noteq> [] \<and> hd s = CHR ''-'' then pdigits True (tl s) else pdigits False s)"

section \<open>Values\<close>

text \<open>A repeated key keeps its first place and its last value, as \<open>dict(pairs)\<close> does.\<close>

definition dict_of :: "(string \<times> pyval) list \<Rightarrow> (string \<times> pyval) list" where
  "dict_of kvs = foldl (\<lambda>d (k, v). AList.update k v d) [] kvs"

definition expect :: "char \<Rightarrow> string \<Rightarrow> string option" where
  "expect c s = (case s of [] \<Rightarrow> None | x # r \<Rightarrow> if x = c then Some r else None)"

fun pvalue :: "nat \<Rightarrow> string \<Rightarrow> (pyval \<times> string) option"
  and pelems :: "nat \<Rightarrow> string \<Rightarrow> (pyval list \<times> string) option"
  and pitems :: "nat \<Rightarrow> string \<Rightarrow> ((string \<times> pyval) list \<times> string) option" where
  "pvalue 0 s = None"
| "pvalue (Suc n) s = (case s of
     [] \<Rightarrow> None
   | c # r \<Rightarrow>
      (if c = CHR ''\"'' then map_option (\<lambda>(t, u). (VStr t, u)) (pstr r)
       else if c = CHR ''{'' then (case expect (CHR ''}'') (skip_ws r) of
           Some u \<Rightarrow> Some (VDict [], u)
         | None \<Rightarrow> map_option (\<lambda>(d, u). (VDict (dict_of d), u)) (pitems n (skip_ws r)))
       else if c = CHR ''['' then (case expect (CHR '']'') (skip_ws r) of
           Some u \<Rightarrow> Some (VList [], u)
         | None \<Rightarrow> map_option (\<lambda>(vs, u). (VList vs, u)) (pelems n (skip_ws r)))
       else if startswith s ''null'' then Some (VNull, drop 4 s)
       else if startswith s ''true'' then Some (VBool True, drop 4 s)
       else if startswith s ''false'' then Some (VBool False, drop 5 s)
       else pnum s))"
| "pelems 0 s = None"
| "pelems (Suc n) s = (case pvalue n s of
     None \<Rightarrow> None
   | Some (v, r) \<Rightarrow> (case expect (CHR '']'') (skip_ws r) of
       Some u \<Rightarrow> Some ([v], u)
     | None \<Rightarrow> Option.bind (expect (CHR '','') (skip_ws r)) (\<lambda>u.
         map_option (\<lambda>(vs, x). (v # vs, x)) (pelems n (skip_ws u)))))"
| "pitems 0 s = None"
| "pitems (Suc n) s =
     Option.bind (Option.bind (expect (CHR ''\"'') s) pstr) (\<lambda>(k, r).
     Option.bind (expect (CHR '':'') (skip_ws r)) (\<lambda>r1.
     case pvalue n (skip_ws r1) of
       None \<Rightarrow> None
     | Some (v, r2) \<Rightarrow> (case expect (CHR ''}'') (skip_ws r2) of
         Some u \<Rightarrow> Some ([(k, v)], u)
       | None \<Rightarrow> Option.bind (expect (CHR '','') (skip_ws r2)) (\<lambda>u.
           map_option (\<lambda>(d, x). ((k, v) # d, x)) (pitems n (skip_ws u))))))"

definition json_loads :: "string \<Rightarrow> pyval option" where
  "json_loads s = (case pvalue (2 * length s + 2) (skip_ws s) of
     Some (v, r) \<Rightarrow> if skip_ws r = [] then Some v else None
   | None \<Rightarrow> None)"

section \<open>What was written loads back\<close>

lemma hex_digit_char: "n < 16 \<Longrightarrow> hex_digit (hex_char n) = n \<and> is_hex (hex_char n)"
proof -
  have "list_all (\<lambda>n. hex_digit (hex_char n) = n \<and> is_hex (hex_char n)) [0..<16]" by code_simp
  then show "n < 16 \<Longrightarrow> ?thesis" by (simp add: list_all_iff)
qed

lemma pstr_esc: "pstr (esc_char asc c @ x) = map_option (\<lambda>(t, u). (c # t, u)) (pstr x)"
proof -
  have h: "(of_char c :: nat) div 16 < 16" using of_char_lt[of c] by linarith
  have e: "16 * ((of_char c :: nat) div 16) + of_char c mod 16 = of_char c" by simp
  have low: "32 \<le> (of_char c :: nat)" if "printable asc c" using that by (simp add: printable_def)
  show ?thesis
    unfolding esc_char_def
    by (subst pstr.simps) (use low in \<open>auto simp: json_unescape_def hex_digit_char h e\<close>)
qed

lemma pstr_enc_body: "pstr (concat (map (esc_char asc) s) @ CHR ''\"'' # r) = Some (s, r)"
proof (induction s)
  case Nil
  then show ?case by (simp add: pstr.simps)
next
  case (Cons c s)
  then show ?case by (simp add: pstr_esc)
qed

lemma skip_ws_id: "s = [] \<or> \<not> json_space (hd s) \<Longrightarrow> skip_ws s = s"
  by (cases s) (auto simp: skip_ws_def)

lemma takeWhile_delim: "delim r \<Longrightarrow> list_all is_digit ds \<Longrightarrow> takeWhile is_digit (ds @ r) = ds"
  by (induction ds) (cases r; auto simp: delim_def)+

lemma show_nat_head: "show_nat n = CHR ''0'' # t \<Longrightarrow> n = 0 \<and> t = []"
proof (induction n arbitrary: t rule: show_nat.induct)
  case (1 n)
  show ?case
  proof (cases "n < 10")
    case True
    then have "show_nat n = [digit_char n]" by (simp add: show_nat.simps)
    with 1(2) have "digit_char n = CHR ''0''" "t = []" by auto
    moreover have "digit_val (CHR ''0'') = 0" by (simp add: digit_val_def)
    ultimately show ?thesis using digit_char_simps(1)[OF True] by simp
  next
    case False
    then have "show_nat n = show_nat (n div 10) @ [digit_char (n mod 10)]" by (subst show_nat.simps) simp
    with 1(2) obtain u where "show_nat (n div 10) = CHR ''0'' # u"
      by (metis append_eq_Cons_conv show_nat_ne)
    with 1(1)[OF False] False show ?thesis by fastforce
  qed
qed

lemma pdigits_show_nat:
  assumes "delim r"
  shows "pdigits neg (show_nat n @ r) = Some (VInt (if neg then - int n else int n), r)"
proof -
  have nodot: "\<not> (r \<noteq> [] \<and> hd r \<in> set ''.eE'')" using assms by (auto simp: delim_def)
  have "digits_token (show_nat n @ r) = show_nat n"
  proof (cases "hd (show_nat n) = CHR ''0''")
    case True
    then obtain t where "show_nat n = CHR ''0'' # t" by (metis list.collapse show_nat_ne)
    with show_nat_head show ?thesis by (auto simp: digits_token_def)
  next
    case False
    moreover have "list_all is_digit (show_nat n)" using show_nat_digits by (simp add: list_all_iff)
    ultimately show ?thesis using takeWhile_delim[OF assms] by (simp add: hd_append digits_token_def)
  qed
  with nodot show ?thesis by (auto simp: pdigits_def Let_def)
qed

lemma pnum_show_int:
  assumes "delim r" shows "pnum (show_int i @ r) = Some (VInt i, r)"
proof (cases "i < 0")
  case True
  then show ?thesis by (simp add: pnum_def show_int_def pdigits_show_nat[OF assms])
next
  case False
  have "hd (show_nat (nat i) @ r) \<noteq> CHR ''-''"
    using hd_show_nat[of "nat i"] by (metis hd_append2 not_digit_simps(1) show_nat_ne)
  with False show ?thesis by (simp add: pnum_def show_int_def pdigits_show_nat[OF assms])
qed

text \<open>A value with no repeated key, at any depth: all that Python can hold.\<close>

fun dict_wf :: "pyval \<Rightarrow> bool" where
  "dict_wf (VList vs) = list_all dict_wf vs"
| "dict_wf (VDict d) = (distinct (keys d) \<and> list_all (\<lambda>(k, v). dict_wf v) d)"
| "dict_wf v = True"

lemma update_fresh: "k \<notin> set (keys d) \<Longrightarrow> AList.update k v d = d @ [(k, v)]"
  by (induction d) auto

lemma dict_of_distinct:
  assumes "distinct (keys d)" shows "dict_of d = d"
proof -
  have "foldl (\<lambda>d (k, v). AList.update k v d) a d = a @ d"
    if "distinct (keys (a @ d))" for a using that assms
  proof (induction d arbitrary: a)
    case (Cons kv d)
    obtain k v where kv: "kv = (k, v)" by (cases kv)
    with Cons.prems Cons.IH[of "a @ [(k, v)]"] show ?case by (auto simp: update_fresh)
  qed simp
  from this[of "[]"] assms show ?thesis by (simp add: dict_of_def)
qed

lemma json_space_head: "json_space c \<Longrightarrow> tag_of c \<notin> {CHR ''n'', CHR ''t'', CHR ''f'', CHR ''0'', CHR ''\"'', CHR ''['', CHR ''{''}"
  by (auto simp: json_space_def tag_of_def is_digit_def)

lemma skip_ws_enc [simp]: "skip_ws (enc asc v @ r) = enc asc v @ r"
proof -
  have "tag_of (hd (enc asc v @ r)) = tag v" by (rule tag_of_enc)
  then have "\<not> json_space (hd (enc asc v @ r))"
    using json_space_head[of "hd (enc asc v @ r)"] by (cases v) (auto split: if_splits)
  then show ?thesis by (intro skip_ws_id) simp
qed

lemma skip_ws_simps [simp]:
  "skip_ws (CHR ''\"'' # r) = CHR ''\"'' # r" "skip_ws (CHR ''}'' # r) = CHR ''}'' # r"
  "skip_ws (CHR '']'' # r) = CHR '']'' # r" "skip_ws (CHR '','' # r) = CHR '','' # r"
  "skip_ws (CHR '':'' # r) = CHR '':'' # r" "skip_ws [] = []"
  by (simp_all add: skip_ws_def json_space_def)

lemma expect_simps [simp]:
  "expect c [] = None" "expect c (x # r) = (if x = c then Some r else None)"
  by (simp_all add: expect_def)

lemma expect_close_enc [simp]: "expect (CHR '']'') (enc asc v @ r) = None"
  using enc_no_close[of asc v r] by (cases "enc asc v @ r") auto

lemma skip_ws_enc_str [simp]: "skip_ws (enc_str asc k @ r) = enc_str asc k @ r"
  by (simp add: enc_str_def)

lemma expect_close_key [simp]: "expect (CHR ''}'') (enc_str asc k @ r) = None"
  by (simp add: enc_str_def)

lemma pkey_enc [simp]: "Option.bind (expect (CHR ''\"'') (enc_str asc k @ r)) pstr = Some (k, r)"
  using pstr_enc_body[of asc k r] by (simp add: enc_str_def)

lemma pelems_step:
  assumes "\<And>n r. delim r \<Longrightarrow> 2 * length (enc asc v @ r) + 1 \<le> n \<Longrightarrow> pvalue n (enc asc v @ r) = Some (v, r)"
    and "case vs of [] \<Rightarrow> True | w # ws \<Rightarrow>
      (\<forall>n r. 2 * length (enc asc w @ enc_elems asc ws @ r) + 2 \<le> n
         \<longrightarrow> pelems n (enc asc w @ enc_elems asc ws @ r) = Some (w # ws, r))"
    and "2 * length (enc asc v @ enc_elems asc vs @ r) + 2 \<le> n"
  shows "pelems n (enc asc v @ enc_elems asc vs @ r) = Some (v # vs, r)"
proof -
  obtain m where n: "n = Suc m" using assms(3) by (cases n) auto
  have "pvalue m (enc asc v @ (enc_elems asc vs @ r)) = Some (v, enc_elems asc vs @ r)"
    using assms(3) n by (intro assms(1)) auto
  then show ?thesis using assms(2,3) n by (cases vs) auto
qed

lemma pitems_step:
  assumes "\<And>n r. delim r \<Longrightarrow> 2 * length (enc asc v @ r) + 1 \<le> n \<Longrightarrow> pvalue n (enc asc v @ r) = Some (v, r)"
    and "case d of [] \<Rightarrow> True | (l, w) # e \<Rightarrow>
      (\<forall>n r. 2 * length (enc_str asc l @ CHR '':'' # enc asc w @ enc_items asc e @ r) + 2 \<le> n
         \<longrightarrow> pitems n (enc_str asc l @ CHR '':'' # enc asc w @ enc_items asc e @ r) = Some ((l, w) # e, r))"
    and "2 * length (enc_str asc k @ CHR '':'' # enc asc v @ enc_items asc d @ r) + 2 \<le> n"
  shows "pitems n (enc_str asc k @ CHR '':'' # enc asc v @ enc_items asc d @ r) = Some ((k, v) # d, r)"
proof -
  obtain m where n: "n = Suc m" using assms(3) by (cases n) auto
  have "pvalue m (enc asc v @ (enc_items asc d @ r)) = Some (v, enc_items asc d @ r)"
    using assms(3) n by (intro assms(1)) auto
  then show ?thesis using assms(2,3) n by (cases d) auto
qed

lemma startswith_quote [simp]: "\<not> startswith (CHR ''-'' # s) ''null''" 
  by (simp add: startswith_def)

lemma pvalue_int:
  assumes "delim r" "0 < n" shows "pvalue n (show_int i @ r) = Some (VInt i, r)"
proof -
  obtain c t where s: "show_int i @ r = c # t" "c = hd (show_int i)"
    by (metis append_is_Nil_conv hd_append2 list.collapse show_int_ne)
  then have "tag_of c = CHR ''0''" by (auto simp: tag_of_def show_int_def)
  then have c: "c \<noteq> CHR ''\"''" "c \<noteq> CHR ''{''" "c \<noteq> CHR ''[''" "c \<noteq> CHR ''n''" "c \<noteq> CHR ''t''" "c \<noteq> CHR ''f''"
    by (auto simp: tag_of_def)
  obtain m where "n = Suc m" using assms(2) by (cases n) auto
  with c s(1) pnum_show_int[OF assms(1), of i] show ?thesis by (simp add: startswith_def)
qed

lemma pvalue_enc:
  "dict_wf v \<Longrightarrow> delim r \<Longrightarrow> 2 * length (enc asc v @ r) + 1 \<le> n \<Longrightarrow> pvalue n (enc asc v @ r) = Some (v, r)"
  "list_all dict_wf vs \<Longrightarrow> (case vs of [] \<Rightarrow> True | w # ws \<Rightarrow>
      (\<forall>n r. 2 * length (enc asc w @ enc_elems asc ws @ r) + 2 \<le> n
         \<longrightarrow> pelems n (enc asc w @ enc_elems asc ws @ r) = Some (w # ws, r)))"
  "list_all (\<lambda>(k, v). dict_wf v) d \<Longrightarrow> (case d of [] \<Rightarrow> True | (l, w) # e \<Rightarrow>
      (\<forall>n r. 2 * length (enc_str asc l @ CHR '':'' # enc asc w @ enc_items asc e @ r) + 2 \<le> n
         \<longrightarrow> pitems n (enc_str asc l @ CHR '':'' # enc asc w @ enc_items asc e @ r) = Some ((l, w) # e, r)))"
proof (induction asc v and asc vs and asc d arbitrary: n r and and rule: enc_enc_elems_enc_items.induct)
  case (1 asc) then show ?case by (cases n) (auto simp: startswith_def)
next
  case (2 asc b) then show ?case by (cases n) (auto simp: startswith_def)
next
  case (3 asc i) then show ?case by (simp add: pvalue_int)
next
  case (4 asc s)
  then show ?case using pstr_enc_body[of asc s r] by (cases n) (auto simp: enc_str_def)
next
  case (5 asc vs)
  then obtain m where n: "n = Suc m" by (cases n) auto
  show ?case
  proof (cases vs)
    case (Cons w ws)
    have "pelems m (enc asc w @ enc_elems asc ws @ r) = Some (w # ws, r)"
      using 5 Cons n by (intro pelems_step) auto
    with Cons n show ?thesis by simp
  qed (simp add: n)
next
  case (6 asc d)
  then obtain m where n: "n = Suc m" by (cases n) auto
  show ?case
  proof (cases d)
    case (Cons kv e)
    obtain k w where kv: "kv = (k, w)" by (cases kv)
    have "pitems m (enc_str asc k @ CHR '':'' # enc asc w @ enc_items asc e @ r) = Some ((k, w) # e, r)"
      using 6 Cons n kv by (intro pitems_step) auto
    moreover have "dict_of d = d" using 6(3) by (auto intro: dict_of_distinct)
    ultimately show ?thesis using Cons n kv by simp
  qed (simp add: n dict_of_def)
next
  case (7 asc) then show ?case by simp
next
  case (8 asc v vs)
  then show ?case using pelems_step[of asc v vs] by auto
next
  case (9 asc) then show ?case by simp
next
  case (10 asc k v d)
  then show ?case using pitems_step[of asc v d k] by auto
qed

lemma dict_wf_norm: "dict_wf v \<Longrightarrow> dict_wf (json_norm v)"
proof (induction v rule: dict_wf.induct)
  case (2 d)
  have "dict_wf (json_norm x)" if "(k, x) \<in> set d" for k x
    using 2 that by (auto simp: list_all_iff)
  moreover have "distinct (keys (map (\<lambda>(k, v). (k, json_norm v)) d))"
    using 2(2) by (simp only: keys_map_values dict_wf.simps)
  ultimately show ?case
    unfolding json_norm.simps dict_wf.simps distinct_sorted_items by (auto simp: list_all_iff)
qed (auto simp: list_all_iff)

theorem json_loads_dumps:
  assumes "dict_wf v" shows "json_loads (json_dumps v) = Some (json_norm v)"
proof -
  have "pvalue (2 * length (json_dumps v) + 2) (enc True (json_norm v) @ []) = Some (json_norm v, [])"
    by (rule pvalue_enc(1)) (simp_all add: dict_wf_norm assms json_dumps_def)
  moreover have "skip_ws (enc True (json_norm v) @ []) = enc True (json_norm v) @ []" by (rule skip_ws_enc)
  ultimately show ?thesis by (simp add: json_loads_def json_dumps_def)
qed

section \<open>Torn text does not load\<close>

text \<open>Reading a value does not depend on what follows it, unless it is a number.\<close>

lemma json_unescape_append:
  assumes "json_unescape s = Some (c, r)" shows "json_unescape (s @ t) = Some (c, r @ t)"
proof (cases s)
  case Nil
  with assms show ?thesis by (simp add: json_unescape_def)
next
  case s: (Cons b u)
  show ?thesis
  proof (cases "b = CHR ''u''")
    case True
    have "case u of h1 # h2 # h3 # h4 # r' \<Rightarrow> h1 = CHR ''0'' \<and> h2 = CHR ''0'' \<and> is_hex h3 \<and> is_hex h4
        \<and> c = char_of (16 * hex_digit h3 + hex_digit h4) \<and> r = r' | _ \<Rightarrow> False"
      using assms by (auto simp: json_unescape_def s True split: list.split_asm if_split_asm)
    then show ?thesis by (simp add: json_unescape_def s True split: list.split_asm)
  next
    case False
    with assms show ?thesis by (auto simp: json_unescape_def s split: if_split_asm)
  qed
qed

lemma pstr_append: "pstr s = Some (x, r) \<Longrightarrow> pstr (s @ t) = Some (x, r @ t)"
proof (induction s arbitrary: x r rule: pstr.induct)
  case (1 s)
  show ?case
  proof (cases s)
    case Nil
    with 1(3) show ?thesis by (simp add: pstr.simps)
  next
    case (Cons c u)
    consider "c = CHR ''\"''" | "c = CHR 0x5C" | "c \<noteq> CHR ''\"''" "c \<noteq> CHR 0x5C" by blast
    then show ?thesis
    proof cases
      case 1
      with \<open>pstr s = Some (x, r)\<close> Cons show ?thesis
        by (subst (asm) pstr.simps, subst pstr.simps) simp
    next
      case c: 2
      from 1(3) Cons c obtain y v where y: "json_unescape u = Some (y, v)"
        by (subst (asm) pstr.simps) (auto split: option.splits)
      from 1(3) Cons c y obtain x' where "pstr v = Some (x', r)" "x = y # x'"
        by (subst (asm) pstr.simps) auto
      with 1(1)[OF Cons _ c y refl, of x' r] c Cons json_unescape_append[OF y] show ?thesis
        by (subst pstr.simps) auto
    next
      case c: 3
      from 1(3) Cons c obtain x' where "pstr u = Some (x', r)" "x = c # x'" "\<not> (of_char c :: nat) < 32"
        by (subst (asm) pstr.simps) (auto split: if_splits)
      with 1(2)[OF Cons c] c Cons show ?thesis
        by (subst pstr.simps) auto
    qed
  qed
qed

lemma skip_ws_append: "skip_ws s \<noteq> [] \<Longrightarrow> skip_ws (s @ t) = skip_ws s @ t"
  unfolding skip_ws_def by (induction s) auto

lemma expect_append: "expect c s = Some r \<Longrightarrow> expect c (s @ t) = Some (r @ t)"
  by (cases s) (auto split: if_splits)

lemma expect_none_append: "s \<noteq> [] \<Longrightarrow> expect c s = None \<Longrightarrow> expect c (s @ t) = None"
  by (cases s) auto

lemma expect_skip_append: "expect c (skip_ws s) = Some r \<Longrightarrow> expect c (skip_ws (s @ t)) = Some (r @ t)"
  using skip_ws_append[of s t] expect_append[of c "skip_ws s"] by (cases "skip_ws s = []") auto

lemma pdigits_append:
  assumes "pdigits neg s = Some (v, r)" "r \<noteq> []"
  shows "pdigits neg (s @ t) = Some (v, r @ t)"
proof -
  have s: "s \<noteq> []" using assms by (auto simp: pdigits_def digits_token_def Let_def split: if_splits)
  have "digits_token (s @ t) = digits_token s"
  proof (cases "hd s = CHR ''0''")
    case False
    then have "r = drop (length (takeWhile is_digit s)) s"
      using assms s by (auto simp: pdigits_def digits_token_def Let_def split: if_splits)
    with assms(2) have "\<exists>x \<in> set s. \<not> is_digit x"
      by (metis dropWhile_eq_drop dropWhile_eq_Nil_conv)
    then have "takeWhile is_digit (s @ t) = takeWhile is_digit s" by (meson takeWhile_append1)
    with False s show ?thesis by (simp add: digits_token_def)
  qed (use s in \<open>simp add: digits_token_def\<close>)
  moreover have "length (digits_token s) \<le> length s"
    using s by (auto simp: digits_token_def Suc_le_eq length_takeWhile_le)
  ultimately show ?thesis using assms by (auto simp: pdigits_def Let_def hd_append split: if_splits)
qed

lemma pnum_append:
  assumes "pnum s = Some (v, r)" "r \<noteq> []" shows "pnum (s @ t) = Some (v, r @ t)"
proof (cases s)
  case Nil
  with assms show ?thesis by (simp add: pnum_def pdigits_def digits_token_def)
next
  case (Cons c u)
  with assms pdigits_append[of True u v r t] pdigits_append[of False s v r t] show ?thesis
    by (auto simp: pnum_def split: if_splits)
qed

lemma pnum_head:
  assumes "pnum s = Some (v, r)" shows "(\<exists>i. v = VInt i) \<and> s \<noteq> [] \<and> (is_digit (hd s) \<or> hd s = CHR ''-'')"
  using assms by (cases s) (auto simp: pnum_def pdigits_def digits_token_def is_digit_def Let_def split: if_splits)

lemma pvalue_Nil [simp]: "pvalue n [] = None" by (cases n) auto
lemma pelems_Nil [simp]: "pelems n [] = None" by (cases n) auto
lemma pitems_Nil [simp]: "pitems n [] = None" by (cases n) auto

definition is_num :: "pyval \<Rightarrow> bool" where
  "is_num v = (case v of VInt i \<Rightarrow> True | _ \<Rightarrow> False)"

lemma pvalue_append:
  "pvalue n s = Some (v, r) \<Longrightarrow> (is_num v \<Longrightarrow> r \<noteq> []) \<Longrightarrow> pvalue n (s @ t) = Some (v, r @ t)"
  "pelems n s = Some (vs, r) \<Longrightarrow> pelems n (s @ t) = Some (vs, r @ t)"
  "pitems n s = Some (d, r) \<Longrightarrow> pitems n (s @ t) = Some (d, r @ t)"
proof (induction n s and n s and n s arbitrary: v r and vs r and d r rule: pvalue_pelems_pitems.induct)
  case (2 n s)
  from 2(3) obtain c u where s: "s = c # u" by (cases s) auto
  consider (str) "c = CHR ''\"''" | (obj) "c = CHR ''{''" | (arr) "c = CHR ''[''"
    | (kw) "c \<notin> {CHR ''\"'', CHR ''{'', CHR ''[''}" "startswith s ''null'' \<or> startswith s ''true'' \<or> startswith s ''false''"
    | (num) "c \<notin> {CHR ''\"'', CHR ''{'', CHR ''[''}" "\<not> (startswith s ''null'' \<or> startswith s ''true'' \<or> startswith s ''false'')"
    by blast
  then show ?case
  proof cases
    case str
    with 2(3) s pstr_append[of u] show ?thesis by auto
  next
    case obj
    show ?thesis
    proof (cases "expect (CHR ''}'') (skip_ws u)")
      case None
      with 2(3) s obj obtain d where d: "pitems n (skip_ws u) = Some (d, r)" "v = VDict (dict_of d)" by auto
      then have ne: "skip_ws u \<noteq> []" by auto
      with 2(1)[OF s _ obj None d(1)] d s obj None show ?thesis
        by (simp add: skip_ws_append expect_none_append)
    next
      case (Some x)
      with 2(3) s obj expect_skip_append[OF Some, of t] show ?thesis by simp
    qed
  next
    case arr
    show ?thesis
    proof (cases "expect (CHR '']'') (skip_ws u)")
      case None
      with 2(3) s arr obtain d where d: "pelems n (skip_ws u) = Some (d, r)" "v = VList d" by auto
      then have ne: "skip_ws u \<noteq> []" by auto
      with 2(2)[OF s _ _ arr None d(1)] d s arr None show ?thesis
        by (simp add: skip_ws_append expect_none_append)
    next
      case (Some x)
      with 2(3) s arr expect_skip_append[OF Some, of t] show ?thesis by simp
    qed
  next
    case kw
    then obtain w where "s = ''null'' @ w \<or> s = ''true'' @ w \<or> s = ''false'' @ w" by (auto simp: startswith_iff)
    with 2(3) show ?thesis by (auto simp: startswith_def)
  next
    case num
    with 2(3) s have p: "pnum s = Some (v, r)" by simp
    from pnum_head[OF p] s have h: "is_num v" "is_digit c \<or> c = CHR ''-''" by (auto simp: is_num_def)
    then have "\<not> startswith (s @ t) ''null''" "\<not> startswith (s @ t) ''true''" "\<not> startswith (s @ t) ''false''"
      using s by (auto simp: startswith_def)
    with pnum_append[OF p 2(4)[OF h(1)], of t] num s show ?thesis by simp
  qed
next
  case (4 n s)
  from 4(3) obtain v0 r0 where v: "pvalue n s = Some (v0, r0)" by (auto split: option.splits)
  with 4(3) have ne: "skip_ws r0 \<noteq> []" by (auto split: option.splits)
  then have "r0 \<noteq> []" by auto
  with 4(1)[OF v] have v': "pvalue n (s @ t) = Some (v0, r0 @ t)" by simp
  show ?case
  proof (cases "expect (CHR '']'') (skip_ws r0)")
    case None
    with 4(3) v obtain u ws where u: "expect (CHR '','') (skip_ws r0) = Some u"
      "pelems n (skip_ws u) = Some (ws, r)" "vs = v0 # ws" by (auto split: option.splits bind_splits)
    then have "skip_ws u \<noteq> []" by auto
    with 4(2)[OF v refl None u(1) u(2)] u v' None ne expect_append[OF u(1), of t] show ?thesis
      by (simp add: skip_ws_append expect_none_append)
  next
    case (Some x)
    with 4(3) v v' expect_skip_append[OF Some, of t] show ?thesis by simp
  qed
next
  case (6 n s)
  from 6(3) obtain k r0 where k: "Option.bind (expect (CHR ''\"'') s) pstr = Some (k, r0)"
    by (auto split: bind_splits)
  then obtain s1 where s1: "expect (CHR ''\"'') s = Some s1" "pstr s1 = Some (k, r0)" by (auto split: bind_splits)
  from 6(3) k obtain r1 where r1: "expect (CHR '':'') (skip_ws r0) = Some r1" by (auto split: bind_splits)
  from 6(3) k r1 obtain v0 r2 where v: "pvalue n (skip_ws r1) = Some (v0, r2)" by (auto split: option.splits)
  with 6(3) k r1 have ne: "skip_ws r2 \<noteq> []" by (auto split: option.splits)
  then have "r2 \<noteq> []" by auto
  with 6(1)[OF k refl r1 v] have v': "pvalue n (skip_ws r1 @ t) = Some (v0, r2 @ t)" by simp
  have n1: "skip_ws r1 \<noteq> []" using v by auto
  have k': "Option.bind (expect (CHR ''\"'') (s @ t)) pstr = Some (k, r0 @ t)"
    using expect_append[OF s1(1), of t] pstr_append[OF s1(2), of t] by simp
  show ?case
  proof (cases "expect (CHR ''}'') (skip_ws r2)")
    case None
    with 6(3) k r1 v obtain u e where u: "expect (CHR '','') (skip_ws r2) = Some u"
      "pitems n (skip_ws u) = Some (e, r)" "d = (k, v0) # e" by (auto split: option.splits bind_splits)
    then have "skip_ws u \<noteq> []" by auto
    with 6(2)[OF k refl r1 v refl None u(1) u(2)] u v' n1 k' None ne expect_append[OF u(1), of t] expect_skip_append[OF r1, of t]
    show ?thesis by (simp add: skip_ws_append expect_none_append)
  next
    case (Some x)
    with 6(3) k r1 v v' n1 k' expect_skip_append[OF Some, of t] expect_skip_append[OF r1, of t] show ?thesis
      by (simp add: skip_ws_append)
  qed
qed simp_all

lemma pvalue_more_fuel:
  "pvalue n s = Some x \<Longrightarrow> pvalue (Suc n) s = Some x"
  "pelems n s = Some y \<Longrightarrow> pelems (Suc n) s = Some y"
  "pitems n s = Some z \<Longrightarrow> pitems (Suc n) s = Some z"
proof (induction n s and n s and n s arbitrary: x and y and z rule: pvalue_pelems_pitems.induct)
  case (2 n s)
  from 2(3) obtain c u where s: "s = c # u" by (cases s) auto
  show ?case
  proof (cases "c \<in> {CHR ''{'', CHR ''['', CHR ''\"''}")
    case True
    then consider "c = CHR ''{''" | "c = CHR ''[''" | "c = CHR ''\"''" by blast
    then show ?thesis
    proof cases
      case 1
      with 2(1)[OF s _ 1] 2(3) s show ?thesis
        by (cases "expect (CHR ''}'') (skip_ws u)") (auto simp del: pitems.simps)
    next
      case arr: 2
      with 2(2)[OF s _ _ arr] 2(3) s show ?thesis
        by (cases "expect (CHR '']'') (skip_ws u)") (auto simp del: pelems.simps)
    qed (use 2(3) s in simp)
  qed (use 2(3) s in simp)
next
  case (4 n s)
  from 4(3) obtain v r where v: "pvalue n s = Some (v, r)" by (auto split: option.splits)
  with 4(1)[OF v] have v': "pvalue (Suc n) s = Some (v, r)" by simp
  show ?case
  proof (cases "expect (CHR '']'') (skip_ws r)")
    case None
    with 4(3) v obtain u w where u: "expect (CHR '','') (skip_ws r) = Some u" "pelems n (skip_ws u) = Some w"
      "y = (v # fst w, snd w)" by (auto split: bind_splits)
    with 4(2)[OF v refl None u(1) u(2)] v' None show ?thesis
      by (simp del: pvalue.simps split: prod.split)
  qed (use 4(3) v v' in \<open>simp del: pvalue.simps\<close>)
next
  case (6 n s)
  from 6(3) obtain k r where k: "Option.bind (expect (CHR ''\"'') s) pstr = Some (k, r)" by (auto split: bind_splits)
  from 6(3) k obtain r1 where r1: "expect (CHR '':'') (skip_ws r) = Some r1" by (auto split: bind_splits)
  from 6(3) k r1 obtain v r2 where v: "pvalue n (skip_ws r1) = Some (v, r2)" by (auto split: option.splits)
  with 6(1)[OF k refl r1 v] have v': "pvalue (Suc n) (skip_ws r1) = Some (v, r2)" by simp
  show ?case
  proof (cases "expect (CHR ''}'') (skip_ws r2)")
    case None
    with 6(3) k r1 v obtain u w where u: "expect (CHR '','') (skip_ws r2) = Some u" "pitems n (skip_ws u) = Some w"
      "z = ((k, v) # fst w, snd w)" by (auto split: bind_splits)
    with 6(2)[OF k refl r1 v refl None u(1) u(2)] k r1 v' None show ?thesis
      by (simp del: pvalue.simps split: prod.split)
  qed (use 6(3) k r1 v v' in \<open>simp del: pvalue.simps\<close>)
qed simp_all

lemma pvalue_fuel: "pvalue n s = Some x \<Longrightarrow> n \<le> m \<Longrightarrow> pvalue m s = Some x"
proof (induction m)
  case (Suc m)
  then show ?case using pvalue_more_fuel(1)[of m s x] by (cases "n \<le> m") (auto simp: le_Suc_eq)
qed simp

lemma pvalue_object: "pvalue n (CHR ''{'' # s) = Some (v, r) \<Longrightarrow> \<not> is_num v"
  by (cases n) (auto simp: is_num_def split: option.splits)

declare pvalue.simps [simp del] pelems.simps [simp del] pitems.simps [simp del]

theorem torn_object_unreadable:
  assumes "dict_wf (VDict d)" "json_dumps (VDict d) = p @ q" "q \<noteq> []"
  shows "json_loads p = None"
proof (rule ccontr)
  assume "json_loads p \<noteq> None"
  then obtain v r where v: "pvalue (2 * length p + 2) (skip_ws p) = Some (v, r)"
    by (auto simp: json_loads_def split: option.splits)
  then have "p \<noteq> []" by auto
  moreover obtain e where e: "json_dumps (VDict d) = CHR ''{'' # e" by (simp add: json_dumps_def)
  ultimately obtain p' where p: "p = CHR ''{'' # p'" using assms(2) by (metis hd_append2 list.collapse list.sel(1))
  then have sp: "skip_ws p = p" by (intro skip_ws_id) (simp add: json_space_def)
  let ?n = "2 * length (p @ q) + 2"
  have "2 * length p + 2 \<le> ?n" by simp
  moreover from v sp have "pvalue (2 * length p + 2) p = Some (v, r)" by (simp only:)
  ultimately have "pvalue ?n p = Some (v, r)" by (rule pvalue_fuel[rotated])
  moreover have "\<not> is_num v" using v sp p pvalue_object by metis
  ultimately have 1: "pvalue ?n (p @ q) = Some (v, r @ q)" using pvalue_append(1) by blast
  have "pvalue ?n (enc True (json_norm (VDict d)) @ []) = Some (json_norm (VDict d), [])"
    using assms(1,2) dict_wf_norm[OF assms(1)] by (intro pvalue_enc(1)) (auto simp: json_dumps_def)
  then have 2: "pvalue ?n (p @ q) = Some (json_norm (VDict d), [])"
    using assms(2) by (simp add: json_dumps_def)
  from 1 2 assms(3) show False by simp
qed

section \<open>Lines\<close>

definition line_end :: "char \<Rightarrow> bool" where
  "line_end c \<longleftrightarrow> c \<in> set [CHR 0x0A, CHR 0x0B, CHR 0x0C, CHR 0x0D, CHR 0x1C, CHR 0x1D, CHR 0x1E, CHR 0x85]"

fun splitlines :: "string \<Rightarrow> string list" where
  "splitlines [] = []"
| "splitlines (c # s) =
     (if line_end c then [] # splitlines (if c = CHR 0x0D \<and> s \<noteq> [] \<and> hd s = CHR 0x0A then tl s else s)
      else (case splitlines s of [] \<Rightarrow> [[c]] | w # ws \<Rightarrow> if s \<noteq> [] \<and> line_end (hd s) then [c] # ws else (c # w) # ws))"

lemma splitlines_line:
  "\<forall>c \<in> set w. \<not> line_end c \<Longrightarrow> splitlines (w @ CHR 0x0A # s) = w # splitlines s"
  by (induction w) (auto simp: line_end_def hd_append)

lemma printable_marks [simp]:
  "printable True (CHR ''-'')" "printable True (CHR ''\"'')" "printable True (CHR 0x5C)"
  "printable True (CHR ''n'')" "printable True (CHR ''r'')" "printable True (CHR ''t'')"
  "printable True (CHR ''b'')" "printable True (CHR ''f'')" "printable True (CHR ''u'')"
  "printable True (CHR ''0'')" "printable True (CHR ''l'')" "printable True (CHR ''e'')"
  "printable True (CHR ''a'')" "printable True (CHR ''s'')" "printable True (CHR ''['')"
  "printable True (CHR '']'')" "printable True (CHR ''{'')" "printable True (CHR ''}'')"
  "printable True (CHR '','')" "printable True (CHR '':'')"
  by (simp_all add: printable_def)

lemma printable_digits: "\<forall>c \<in> set (show_int i). printable True c"
proof -
  have "is_digit c \<Longrightarrow> printable True c" for c by (auto simp: is_digit_def printable_def)
  then show ?thesis using show_nat_digits by (auto simp: show_int_def)
qed

lemma printable_esc: "\<forall>x \<in> set (esc_char True c). printable True x"
proof -
  have hx: "printable True (hex_char n)" if "n < 16" for n
    using that by (auto simp: hex_char_def printable_def)
  have "(of_char c :: nat) div 16 < 16" "(of_char c :: nat) mod 16 < 16" using of_char_lt[of c] by linarith+
  note hx[OF this(1)] hx[OF this(2)]
  then show ?thesis unfolding esc_char_def by (simp split: if_split)
qed

lemma printable_enc_str: "\<forall>c \<in> set (enc_str True s). printable True c"
  using printable_esc by (auto simp: enc_str_def)

lemma enc_chars:
  "\<forall>c \<in> set (enc True v). printable True c"
  "\<forall>c \<in> set (enc_elems True vs). printable True c"
  "\<forall>c \<in> set (enc_items True d). printable True c"
proof -
  have *: "asc = True \<longrightarrow> (\<forall>c \<in> set (enc asc v). printable True c)"
    "asc = True \<longrightarrow> (\<forall>c \<in> set (enc_elems asc vs). printable True c)"
    "asc = True \<longrightarrow> (\<forall>c \<in> set (enc_items asc d). printable True c)" for asc
  proof (induction asc v and asc vs and asc d rule: enc_enc_elems_enc_items.induct)
    case (5 asc vs) then show ?case by (cases vs) auto
  next
    case (6 asc d) then show ?case using printable_enc_str by (cases d) auto
  qed (use printable_digits printable_enc_str in auto)
  from *[of True] show "\<forall>c \<in> set (enc True v). printable True c"
    "\<forall>c \<in> set (enc_elems True vs). printable True c" "\<forall>c \<in> set (enc_items True d). printable True c" by simp_all
qed

lemma dumps_one_line: "c \<in> set (json_dumps v) \<Longrightarrow> \<not> line_end c"
  using enc_chars(1)[of "json_norm v"] by (auto simp: json_dumps_def line_end_def printable_def)

text \<open>A file of one JSON document per line.\<close>

definition json_lines :: "pyval list \<Rightarrow> string" where
  "json_lines vs = concat (map (\<lambda>v. json_dumps v @ [CHR 0x0A]) vs)"

lemma json_lines_simps [simp]:
  "json_lines [] = []" "json_lines (v # vs) = json_dumps v @ CHR 0x0A # json_lines vs"
  "json_lines (vs @ ws) = json_lines vs @ json_lines ws"
  by (simp_all add: json_lines_def)

lemma splitlines_dumps: "splitlines (json_lines vs @ s) = map json_dumps vs @ splitlines s"
  by (induction vs) (auto simp: splitlines_line dumps_one_line)

end
