(* ===== verification/Lineage.thy ===== *)
theory Lineage
  imports JsonParse Identity
begin

text \<open>
  \<open>request_context.py\<close>: the transport identity of a request (\<open>RequestContext\<close>) and the
  semantic intent a payload carries (\<open>MutationLineage\<close>). A wire request is the record the
  protocol package validated; the handler marker (\<open>context_aware\<close>) is a flag of a handler.
\<close>

record request_message =
  rm_id :: pyval
  rm_op :: pyval
  rm_opaque_ref :: pyval
  rm_payload :: "(string \<times> pyval) list"

record request_context =
  rc_request_id :: string
  rc_op :: string
  rc_opaque_ref :: "string option"
  rc_received_at :: nat

text \<open>The clock stands in for a missing \<open>received_at\<close>.\<close>

definition from_request :: "request_message \<Rightarrow> nat option \<Rightarrow> nat \<Rightarrow> request_context" where
  "from_request m received_at clock =
     \<lparr>rc_request_id = py_str (rm_id m), rc_op = py_str (rm_op m),
      rc_opaque_ref = (if rm_opaque_ref m = VNull then None else Some (py_str (rm_opaque_ref m))),
      rc_received_at = (case received_at of None \<Rightarrow> clock | Some t \<Rightarrow> t)\<rparr>"

record lineage =
  ln_project_id :: string
  ln_task_id :: string
  ln_run_id :: string
  ln_attempt_id :: string
  ln_slice_id :: "string option"

definition required_text :: "(string \<times> pyval) list \<Rightarrow> string \<Rightarrow> string py" where
  "required_text d field = (case dget d field of
     VStr s \<Rightarrow> if strip s = [] then Inl ValueError else Inr (strip s)
   | _ \<Rightarrow> Inl ValueError)"

definition lineage_from_mapping :: "pyval \<Rightarrow> lineage py" where
  "lineage_from_mapping v = (case v of
     VDict d \<Rightarrow>
       rbind (required_text d ''project_id'') (\<lambda>p.
       rbind (required_text d ''task_id'') (\<lambda>t.
       rbind (required_text d ''run_id'') (\<lambda>r.
       rbind (required_text d ''attempt_id'') (\<lambda>a.
       rbind (if dget d ''slice_id'' = VNull then Inr None
              else rbind (required_text d ''slice_id'') (\<lambda>s. Inr (Some s))) (\<lambda>s.
       Inr \<lparr>ln_project_id = p, ln_task_id = t, ln_run_id = r, ln_attempt_id = a, ln_slice_id = s\<rparr>)))))
   | _ \<Rightarrow> Inl ValueError)"

definition lineage_canonical :: "lineage \<Rightarrow> string list" where
  "lineage_canonical l = [ln_project_id l, ln_task_id l, ln_run_id l, ln_attempt_id l,
     (case ln_slice_id l of None \<Rightarrow> [] | Some s \<Rightarrow> s)]"

definition lineage_digest :: "(string \<Rightarrow> string) \<Rightarrow> lineage \<Rightarrow> string" where
  "lineage_digest sha l = digest sha (VList (map VStr (lineage_canonical l)))"

definition opt_text :: "string option \<Rightarrow> pyval" where
  "opt_text s = (case s of None \<Rightarrow> VNull | Some x \<Rightarrow> VStr x)"

definition lineage_audit_dict :: "(string \<Rightarrow> string) \<Rightarrow> lineage \<Rightarrow> pyval" where
  "lineage_audit_dict sha l = VDict
    [(''project_id'', VStr (ln_project_id l)), (''task_id'', VStr (ln_task_id l)),
     (''run_id'', VStr (ln_run_id l)), (''attempt_id'', VStr (ln_attempt_id l)),
     (''slice_id'', opt_text (ln_slice_id l)), (''semantic_digest'', VStr (lineage_digest sha l))]"

lemma opt_text_inj [simp]: "opt_text a = opt_text b \<longleftrightarrow> a = b"
  by (cases a; cases b) (auto simp: opt_text_def)

lemma required_text_ok: "required_text d f = Inr s \<Longrightarrow> s \<noteq> [] \<and> strip s = s"
  by (auto simp: required_text_def split: pyval.splits if_splits)

text \<open>
  What \<open>from_mapping\<close> accepts is in normal form, so its digest does not depend on stray
  blanks, and two lineages with one digest are one lineage when the hash has no collision.
\<close>

definition lineage_ok :: "lineage \<Rightarrow> bool" where
  "lineage_ok l \<longleftrightarrow> list_all (\<lambda>s. s \<noteq> [] \<and> strip s = s)
     ([ln_project_id l, ln_task_id l, ln_run_id l, ln_attempt_id l] @
      (case ln_slice_id l of None \<Rightarrow> [] | Some s \<Rightarrow> [s]))"

lemma lineage_from_mapping_ok: "lineage_from_mapping v = Inr l \<Longrightarrow> lineage_ok l"
  by (cases v) (auto simp: lineage_from_mapping_def lineage_ok_def result_simps
      dest: required_text_ok split: if_splits)

lemma lineage_digest_inj:
  assumes "inj sha" "lineage_ok l" "lineage_ok m" "lineage_digest sha l = lineage_digest sha m"
  shows "l = m"
proof -
  have "lineage_canonical l = lineage_canonical m"
    using assms(1,4) by (simp add: lineage_digest_def digest_inj lineage_canonical_def)
  with assms(2,3) show ?thesis
    by (intro lineage.equality) (auto simp: lineage_canonical_def lineage_ok_def split: option.splits)
qed

end
