(* ===== verification/AuditRecords.thy ===== *)
theory AuditRecords
  imports Lineage
begin

text \<open>
  The evidence records of \<open>mutation_audit.py\<close> and the dictionaries the journal stores of
  them. Each \<open>audit_dict\<close> lists every field, so that two records with the same canonical
  text are equal: these are the lemmas named \<open>_inj\<close> below, which make the two digests sealed
  at START (the binding and the start evidence) say what they should.
\<close>

section \<open>Records\<close>

record forensic_evidence =
  fe_artifact_ref :: string
  fe_sha256 :: string
  fe_size_bytes :: int
  fe_created_at :: string
  fe_retained_until :: string
  fe_artifact_path :: path

record audit_binding =
  ab_request_id :: string
  ab_op :: string
  ab_opaque_ref :: "string option"
  ab_lineage :: lineage
  ab_scope_id :: string
  ab_scope_generation :: int
  ab_workspace_id :: string
  ab_unique_lease_key :: string
  ab_job_id :: "string option"

record authority_evidence =
  ae_scope_digest :: string
  ae_exact_workspace_digest :: string
  ae_protected_inventory_digest :: string
  ae_policy_digest :: string
  ae_repository_identity_digest :: string
  ae_semantic_identity_digest :: string

record requested_identity =
  qi_host_platform :: string
  qi_host_user_sid :: string
  qi_sandbox_kind :: string
  qi_sandbox_profile :: string
  qi_sandbox_identity :: string

record process_intent =
  pi_interpreter :: string
  pi_argv :: "string list"
  pi_executable_final_path :: string
  pi_cwd_final_path :: string

record verification_intent =
  vi_profile_id :: string
  vi_profile_revision :: int
  vi_source_repository_digest :: string
  vi_source_revision :: string
  vi_source_manifest_digest :: string
  vi_toolchain_kind :: string
  vi_toolchain_digest :: string
  vi_launcher_digest :: string
  vi_capsule_id :: string
  vi_capsule_revision :: int
  vi_capsule_payload_digest :: string
  vi_expected_package_lock_sha256 :: string
  vi_network_mode :: string
  vi_resource_limits_digest :: string

record os_identity =
  oi_process_user_sid :: string
  oi_appcontainer_sid :: string
  oi_is_appcontainer :: bool

record containment =
  ct_job_binding :: string
  ct_contained :: bool
  ct_breakaway_allowed :: bool
  ct_active_process_count :: int

record spawn_evidence =
  se_pid :: int
  se_ppid :: int
  se_executable_final_path :: string
  se_cwd_final_path :: string
  se_os_identity :: os_identity
  se_containment :: containment

record finish_closure =
  fc_scope_state :: string
  fc_scope_digest :: string
  fc_protected_inventory_digest :: string
  fc_sandbox_identity :: "string option"
  fc_job_binding :: "string option"
  fc_root_pid :: "int option"
  fc_job_handle_closed :: bool
  fc_job_active_process_count :: int
  fc_active_job_ids :: "string list"
  fc_active_process_ids :: "string list"
  fc_sandbox_write_authority_present :: bool
  fc_process_tree_quiescent :: bool
  fc_terminalized_at :: string

record audit_start =
  as_operation_id :: string
  as_event_ref :: string
  as_binding :: audit_binding
  as_binding_digest :: string
  as_evidence :: forensic_evidence
  as_authority :: authority_evidence
  as_process_intent :: process_intent
  as_requested_identity :: requested_identity
  as_verification_intent :: "verification_intent option"
  as_start_evidence_digest :: string
  as_started_at :: string

record audit_spawn =
  sp_operation_id :: string
  sp_event_ref :: string
  sp_pid :: int
  sp_job_binding :: string
  sp_recorded_at :: string

section \<open>Journal projections\<close>

definition strings :: "string list \<Rightarrow> pyval" where
  "strings xs = VList (map VStr xs)"

definition opt_int :: "int option \<Rightarrow> pyval" where
  "opt_int i = (case i of None \<Rightarrow> VNull | Some x \<Rightarrow> VInt x)"

definition forensic_audit_dict :: "forensic_evidence \<Rightarrow> pyval" where
  "forensic_audit_dict e = VDict
    [(''artifact_ref'', VStr (fe_artifact_ref e)), (''sha256'', VStr (fe_sha256 e)),
     (''size_bytes'', VInt (fe_size_bytes e)), (''created_at'', VStr (fe_created_at e)),
     (''retained_until'', VStr (fe_retained_until e))]"

definition binding_from_context ::
  "request_context \<Rightarrow> lineage \<Rightarrow> string \<Rightarrow> int \<Rightarrow> string \<Rightarrow> string \<Rightarrow> string option \<Rightarrow> audit_binding py" where
  "binding_from_context context l scope_id generation workspace_id lease_key job_id =
     (if generation \<le> 0 then Inl ValueError
      else if strip scope_id = [] \<or> strip workspace_id = [] \<or> strip lease_key = [] then Inl ValueError
      else Inr \<lparr>ab_request_id = rc_request_id context, ab_op = rc_op context,
        ab_opaque_ref = rc_opaque_ref context, ab_lineage = l, ab_scope_id = strip scope_id,
        ab_scope_generation = generation, ab_workspace_id = strip workspace_id,
        ab_unique_lease_key = strip lease_key,
        ab_job_id = (case job_id of None \<Rightarrow> None | Some j \<Rightarrow> if strip j = [] then None else Some (strip j))\<rparr>)"

definition binding_audit_dict :: "(string \<Rightarrow> string) \<Rightarrow> audit_binding \<Rightarrow> pyval" where
  "binding_audit_dict sha b = VDict
    [(''request_id'', VStr (ab_request_id b)), (''op'', VStr (ab_op b)),
     (''opaque_ref'', opt_text (ab_opaque_ref b)), (''lineage'', lineage_audit_dict sha (ab_lineage b)),
     (''scope_id'', VStr (ab_scope_id b)), (''scope_generation'', VInt (ab_scope_generation b)),
     (''workspace_id'', VStr (ab_workspace_id b)), (''unique_lease_key'', VStr (ab_unique_lease_key b)),
     (''job_id'', opt_text (ab_job_id b))]"

definition binding_digest :: "(string \<Rightarrow> string) \<Rightarrow> audit_binding \<Rightarrow> string" where
  "binding_digest sha b = digest sha (binding_audit_dict sha b)"

definition authority_audit_dict :: "authority_evidence \<Rightarrow> pyval" where
  "authority_audit_dict a = VDict
    [(''scope_digest'', VStr (ae_scope_digest a)),
     (''exact_workspace_digest'', VStr (ae_exact_workspace_digest a)),
     (''protected_inventory_digest'', VStr (ae_protected_inventory_digest a)),
     (''policy_digest'', VStr (ae_policy_digest a)),
     (''repository_identity_digest'', VStr (ae_repository_identity_digest a)),
     (''semantic_identity_digest'', VStr (ae_semantic_identity_digest a))]"

definition requested_audit_dict :: "requested_identity \<Rightarrow> pyval" where
  "requested_audit_dict q = VDict
    [(''host_platform'', VStr (qi_host_platform q)), (''host_user_sid'', VStr (qi_host_user_sid q)),
     (''sandbox_kind'', VStr (qi_sandbox_kind q)), (''sandbox_profile'', VStr (qi_sandbox_profile q)),
     (''sandbox_identity'', VStr (qi_sandbox_identity q))]"

definition intent_audit_dict :: "process_intent \<Rightarrow> pyval" where
  "intent_audit_dict p = VDict
    [(''interpreter'', VStr (pi_interpreter p)), (''argv'', strings (pi_argv p)),
     (''executable_final_path'', VStr (pi_executable_final_path p)),
     (''cwd_final_path'', VStr (pi_cwd_final_path p))]"

definition verification_audit_dict :: "verification_intent \<Rightarrow> pyval" where
  "verification_audit_dict v = VDict
    [(''profile_id'', VStr (vi_profile_id v)), (''profile_revision'', VInt (vi_profile_revision v)),
     (''source_repository_digest'', VStr (vi_source_repository_digest v)),
     (''source_revision'', VStr (vi_source_revision v)),
     (''source_manifest_digest'', VStr (vi_source_manifest_digest v)),
     (''toolchain_kind'', VStr (vi_toolchain_kind v)), (''toolchain_digest'', VStr (vi_toolchain_digest v)),
     (''launcher_digest'', VStr (vi_launcher_digest v)), (''capsule_id'', VStr (vi_capsule_id v)),
     (''capsule_revision'', VInt (vi_capsule_revision v)),
     (''capsule_payload_digest'', VStr (vi_capsule_payload_digest v)),
     (''expected_package_lock_sha256'', VStr (vi_expected_package_lock_sha256 v)),
     (''network_mode'', VStr (vi_network_mode v)),
     (''resource_limits_digest'', VStr (vi_resource_limits_digest v))]"

definition spawn_audit_items :: "spawn_evidence \<Rightarrow> (string \<times> pyval) list" where
  "spawn_audit_items e =
    [(''pid'', VInt (se_pid e)), (''ppid'', VInt (se_ppid e)),
     (''executable_final_path'', VStr (se_executable_final_path e)),
     (''cwd_final_path'', VStr (se_cwd_final_path e)),
     (''os_identity'', VDict
        [(''process_user_sid'', VStr (oi_process_user_sid (se_os_identity e))),
         (''appcontainer_sid'', VStr (oi_appcontainer_sid (se_os_identity e))),
         (''is_appcontainer'', VBool (oi_is_appcontainer (se_os_identity e)))]),
     (''containment'', VDict
        [(''job_binding'', VStr (ct_job_binding (se_containment e))),
         (''contained'', VBool (ct_contained (se_containment e))),
         (''breakaway_allowed'', VBool (ct_breakaway_allowed (se_containment e))),
         (''active_process_count'', VInt (ct_active_process_count (se_containment e)))])]"

definition closure_audit_dict :: "finish_closure \<Rightarrow> pyval" where
  "closure_audit_dict c = VDict
    [(''scope_state'', VStr (fc_scope_state c)), (''scope_digest'', VStr (fc_scope_digest c)),
     (''protected_inventory_digest'', VStr (fc_protected_inventory_digest c)),
     (''sandbox_identity'', opt_text (fc_sandbox_identity c)), (''job_binding'', opt_text (fc_job_binding c)),
     (''root_pid'', opt_int (fc_root_pid c)), (''job_handle_closed'', VBool (fc_job_handle_closed c)),
     (''job_active_process_count'', VInt (fc_job_active_process_count c)),
     (''active_job_ids'', strings (fc_active_job_ids c)),
     (''active_process_ids'', strings (fc_active_process_ids c)),
     (''sandbox_write_authority_present'', VBool (fc_sandbox_write_authority_present c)),
     (''process_tree_quiescent'', VBool (fc_process_tree_quiescent c)),
     (''terminalized_at'', VStr (fc_terminalized_at c))]"

definition start_evidence_items ::
  "authority_evidence \<Rightarrow> process_intent \<Rightarrow> requested_identity \<Rightarrow> verification_intent option \<Rightarrow> (string \<times> pyval) list" where
  "start_evidence_items a p q v =
    [(''authority'', authority_audit_dict a), (''process_intent'', intent_audit_dict p),
     (''requested_identity'', requested_audit_dict q)]
    @ (case v of None \<Rightarrow> [] | Some x \<Rightarrow> [(''verification_intent'', verification_audit_dict x)])"

definition background_identity :: "(string \<Rightarrow> string) \<Rightarrow> audit_start \<Rightarrow> pyval" where
  "background_identity sha s = VDict
    [(''operation_id'', VStr (as_operation_id s)), (''binding_digest'', VStr (as_binding_digest s)),
     (''request_id'', VStr (ab_request_id (as_binding s))), (''scope_id'', VStr (ab_scope_id (as_binding s))),
     (''scope_generation'', VInt (ab_scope_generation (as_binding s))),
     (''workspace_id'', VStr (ab_workspace_id (as_binding s))),
     (''semantic_digest'', VStr (lineage_digest sha (ab_lineage (as_binding s)))),
     (''job_id'', opt_text (ab_job_id (as_binding s)))]"

section \<open>A projection determines the record\<close>

lemma norm_same_keys:
  assumes "json_norm (VDict d) = json_norm (VDict e)" "keys d = keys e" "distinct (keys d)"
  shows "map (\<lambda>x. json_norm (snd x)) d = map (\<lambda>x. json_norm (snd x)) e"
proof (rule nth_equalityI)
  show len: "length (map (\<lambda>x. json_norm (snd x)) d) = length (map (\<lambda>x. json_norm (snd x)) e)"
    using arg_cong[OF assms(2), of length] by simp
  fix i assume "i < length (map (\<lambda>x. json_norm (snd x)) d)"
  then have i: "i < length d" "i < length e" using len by auto
  have get: "dget f (fst (f ! i)) = snd (f ! i)" if "distinct (keys f)" "i < length f" for f
    using map_of_eq_Some_iff[OF that(1), of "fst (f ! i)" "snd (f ! i)"] that(2) by (simp add: dget_def)
  have k: "fst (d ! i) = fst (e ! i)" using arg_cong[OF assms(2), of "\<lambda>x. x ! i"] i by simp
  have de: "distinct (keys e)" using assms(2,3) by simp
  have "json_norm (dget d (fst (d ! i))) = json_norm (dget e (fst (d ! i)))"
    using dget_norm[OF assms(3)] dget_norm[OF de] assms(1) by metis
  with get[OF assms(3) i(1)] get[OF de i(2)] k i
  show "map (\<lambda>x. json_norm (snd x)) d ! i = map (\<lambda>x. json_norm (snd x)) e ! i" by simp
qed

lemma norm_key_set:
  assumes "json_norm (VDict d) = json_norm (VDict e)" shows "set (keys d) = set (keys e)"
proof -
  have "set (keys (sorted_items (map (\<lambda>(k, v). (k, json_norm v)) f))) = set (keys f)" for f
    unfolding keys_sorted_items set_sort keys_map_values by (rule refl)
  with assms show ?thesis unfolding json_norm.simps by (metis pyval.inject(5))
qed

lemma opt_text_norm [simp]: "json_norm (opt_text a) = opt_text a"
  by (cases a) (simp_all add: opt_text_def)

lemma strings_norm [simp]: "json_norm (strings xs) = strings xs" "strings xs = strings ys \<longleftrightarrow> xs = ys"
  by (simp_all add: strings_def o_def inj_map_eq_map inj_def)

lemma lineage_dict_inj:
  "json_norm (lineage_audit_dict sha l) = json_norm (lineage_audit_dict sha m) \<Longrightarrow> l = m"
  unfolding lineage_audit_dict_def
  by (drule norm_same_keys) (auto intro: lineage.equality)

lemma binding_dict_inj:
  assumes "json_norm (binding_audit_dict sha b) = json_norm (binding_audit_dict sha c)" shows "b = c"
proof -
  have fields: "ab_request_id b = ab_request_id c" "ab_op b = ab_op c" "ab_opaque_ref b = ab_opaque_ref c"
    "json_norm (lineage_audit_dict sha (ab_lineage b)) = json_norm (lineage_audit_dict sha (ab_lineage c))"
    "ab_scope_id b = ab_scope_id c" "ab_scope_generation b = ab_scope_generation c"
    "ab_workspace_id b = ab_workspace_id c" "ab_unique_lease_key b = ab_unique_lease_key c"
    "ab_job_id b = ab_job_id c"
    using norm_same_keys[OF assms[unfolded binding_audit_dict_def]] by (simp_all del: json_norm.simps)
  from lineage_dict_inj[OF fields(4)] fields show ?thesis by (intro audit_binding.equality) simp_all
qed

lemma authority_dict_inj:
  "json_norm (authority_audit_dict a) = json_norm (authority_audit_dict b) \<Longrightarrow> a = b"
  unfolding authority_audit_dict_def by (drule norm_same_keys) (auto intro: authority_evidence.equality)

lemma requested_dict_inj:
  "json_norm (requested_audit_dict a) = json_norm (requested_audit_dict b) \<Longrightarrow> a = b"
  unfolding requested_audit_dict_def by (drule norm_same_keys) (auto intro: requested_identity.equality)

lemma intent_dict_inj:
  "json_norm (intent_audit_dict a) = json_norm (intent_audit_dict b) \<Longrightarrow> a = b"
  unfolding intent_audit_dict_def by (drule norm_same_keys) (auto intro: process_intent.equality)

lemma verification_dict_inj:
  "json_norm (verification_audit_dict a) = json_norm (verification_audit_dict b) \<Longrightarrow> a = b"
  unfolding verification_audit_dict_def by (drule norm_same_keys) (auto intro: verification_intent.equality)

lemma start_evidence_inj:
  assumes "json_norm (VDict (start_evidence_items a p q v)) = json_norm (VDict (start_evidence_items a' p' q' v'))"
  shows "a = a' \<and> p = p' \<and> q = q' \<and> v = v'"
proof -
  have "set (keys (start_evidence_items a p q v)) = set (keys (start_evidence_items a' p' q' v'))"
    using norm_key_set[OF assms] .
  moreover have "''verification_intent'' \<in> set (keys (start_evidence_items b r u w)) \<longleftrightarrow> w \<noteq> None" for b r u w
    by (cases w) (simp_all add: start_evidence_items_def)
  ultimately have vv: "v = None \<longleftrightarrow> v' = None" by blast
  then have k: "keys (start_evidence_items a p q v) = keys (start_evidence_items a' p' q' v')"
    "distinct (keys (start_evidence_items a p q v))"
    by (cases v; cases v'; simp add: start_evidence_items_def)+
  note eq = norm_same_keys[OF assms k]
  have "json_norm (authority_audit_dict a) = json_norm (authority_audit_dict a')"
    "json_norm (intent_audit_dict p) = json_norm (intent_audit_dict p')"
    "json_norm (requested_audit_dict q) = json_norm (requested_audit_dict q')"
    using eq by (simp_all add: start_evidence_items_def del: json_norm.simps)
  moreover have "v = v'"
  proof (cases v; cases v')
    fix x y assume "v = Some x" "v' = Some y"
    with eq verification_dict_inj[of x y] show ?thesis
      by (simp add: start_evidence_items_def del: json_norm.simps)
  qed (use vv in simp_all)
  ultimately show ?thesis using authority_dict_inj intent_dict_inj requested_dict_inj by blast
qed

end
