(* ===== verification/AuditJournal.thy ===== *)
theory AuditJournal
  imports AuditRecords Clock
begin

text \<open>
  The forensic evidence store and the write-ahead journal of \<open>mutation_audit.py\<close>. The disk
  holds files (path, bytes and modification time) and the text of the journal. Time is an
  argument, as the instants of \<open>Clock\<close>; so are the random tokens, and what the storage does:
  a failed write leaves the artifact in place or not, an append that fails leaves any number
  of bytes of its line. Locks make each operation one step. Directory permissions and
  \<open>fsync\<close> are not modelled beyond these failures.
\<close>

datatype audit_error =
    MutationEvidenceError | MutationAuditDurabilityError | MutationAuditIdentityMismatch
  | AuditValueError | AuditOverflow | AuditAttributeError | AuditOsError

record stored_file =
  sf_bytes :: string
  sf_mtime :: nat

record audit_disk =
  ad_files :: "(path \<times> stored_file) list"
  ad_journal :: "string option"

type_synonym 'a audit_op = "audit_disk \<times> (audit_error, 'a) result"

section \<open>Retained script evidence\<close>

definition day_span :: "nat \<Rightarrow> nat" where
  "day_span days = days * 86400000000"

text \<open>What happens to one write: it succeeds, it fails before or after the artifact is in
  place, or what is read back is unreadable or differs.\<close>

datatype write_fault = WriteOk | WriteFails bool | ReadBack "string option"

record retain_env =
  re_token :: string
  re_mtime :: nat
  re_fault :: write_fault

definition evidence_store_ok :: "int \<Rightarrow> bool" where
  "evidence_store_ok retention_days \<longleftrightarrow> 0 < retention_days"

definition artifact_name :: "string \<Rightarrow> string \<Rightarrow> string" where
  "artifact_name dg token = take 20 dg @ CHR ''-'' # token @ ''.script''"

definition put_file :: "path \<Rightarrow> stored_file \<Rightarrow> audit_disk \<Rightarrow> audit_disk" where
  "put_file p f d = d\<lparr>ad_files := AList.update p f (ad_files d)\<rparr>"

definition retain ::
  "(string \<Rightarrow> string) \<Rightarrow> path \<Rightarrow> nat \<Rightarrow> retain_env \<Rightarrow> audit_disk \<Rightarrow> string \<Rightarrow> nat \<Rightarrow> forensic_evidence audit_op" where
  "retain sha root days env d exact_bytes now =
     (if exact_bytes = [] then (d, Inl MutationEvidenceError) else
      let dg = sha exact_bytes; name = artifact_name dg (re_token env); p = path_child root name;
          d' = put_file p \<lparr>sf_bytes = exact_bytes, sf_mtime = re_mtime env\<rparr> d;
          evidence = \<lparr>fe_artifact_ref = ''mutation-evidence:'' @ name, fe_sha256 = dg,
            fe_size_bytes = int (length exact_bytes), fe_created_at = iso now,
            fe_retained_until = iso (now + day_span days), fe_artifact_path = p\<rparr>
      in if max_instant < now + day_span days then (d, Inl AuditOverflow) else
      case re_fault env of
        WriteFails placed \<Rightarrow> (if placed then d' else d, Inl MutationEvidenceError)
      | ReadBack None \<Rightarrow> (d', Inl MutationEvidenceError)
      | ReadBack (Some b) \<Rightarrow>
          (d', if sha b \<noteq> dg \<or> b \<noteq> exact_bytes then Inl MutationEvidenceError else Inr evidence)
      | WriteOk \<Rightarrow> (d', Inr evidence))"

definition read_verified ::
  "(string \<Rightarrow> string) \<Rightarrow> path \<Rightarrow> audit_disk \<Rightarrow> forensic_evidence \<Rightarrow> (audit_error, string) result" where
  "read_verified sha root d e =
     (if \<not> is_relative_to (fe_artifact_path e) root then Inl MutationEvidenceError else
      case map_of (ad_files d) (fe_artifact_path e) of
        None \<Rightarrow> Inl MutationEvidenceError
      | Some f \<Rightarrow>
          if int (length (sf_bytes f)) \<noteq> fe_size_bytes e \<or> sha (sf_bytes f) \<noteq> fe_sha256 e
          then Inl MutationEvidenceError else Inr (sf_bytes f))"

text \<open>The destination is resolved first; its directory must exist and the file must not.\<close>

definition materialize_verified ::
  "(string \<Rightarrow> string) \<Rightarrow> resolver \<Rightarrow> (path \<Rightarrow> bool) \<Rightarrow> path \<Rightarrow> retain_env \<Rightarrow> audit_disk
     \<Rightarrow> forensic_evidence \<Rightarrow> path \<Rightarrow> string audit_op" where
  "materialize_verified sha res dir_exists root env d e destination =
     (case read_verified sha root d e of Inl err \<Rightarrow> (d, Inl err)
      | Inr data \<Rightarrow>
      case res destination of None \<Rightarrow> (d, Inl AuditOsError)
      | Some p \<Rightarrow>
      if \<not> dir_exists (path_parent p) then (d, Inl MutationEvidenceError)
      else if map_of (ad_files d) p \<noteq> None then (d, Inl MutationEvidenceError) else
      let d' = put_file p \<lparr>sf_bytes = data, sf_mtime = re_mtime env\<rparr> d in
      case re_fault env of
        WriteFails placed \<Rightarrow> (if placed then d' else d, Inl MutationEvidenceError)
      | ReadBack None \<Rightarrow> (d', Inl AuditOsError)
      | ReadBack (Some b) \<Rightarrow> (d', if sha b \<noteq> fe_sha256 e then Inl MutationEvidenceError else Inr (fe_sha256 e))
      | WriteOk \<Rightarrow> (d', Inr (fe_sha256 e)))"

text \<open>The artifacts \<open>glob("*.script")\<close> finds; one that cannot be removed stays.\<close>

definition is_artifact :: "path \<Rightarrow> path \<Rightarrow> bool" where
  "is_artifact root p \<longleftrightarrow> path_parent p = root \<and> endswith (path_name p) ''.script''"

definition expired_artifact :: "path \<Rightarrow> (path \<Rightarrow> bool) \<Rightarrow> nat \<Rightarrow> path \<times> stored_file \<Rightarrow> bool" where
  "expired_artifact root stuck cutoff x \<longleftrightarrow>
     is_artifact root (fst x) \<and> sf_mtime (snd x) < cutoff \<and> \<not> stuck (fst x)"

definition prune_expired :: "path \<Rightarrow> nat \<Rightarrow> (path \<Rightarrow> bool) \<Rightarrow> audit_disk \<Rightarrow> nat \<Rightarrow> nat audit_op" where
  "prune_expired root days stuck d now =
     (if now < day_span days then (d, Inl AuditOverflow) else
      let gone = expired_artifact root stuck (now - day_span days) in
      (d\<lparr>ad_files := filter (\<lambda>x. \<not> gone x) (ad_files d)\<rparr>, Inr (length (filter gone (ad_files d)))))"

section \<open>The journal\<close>

definition journal_text :: "audit_disk \<Rightarrow> string" where
  "journal_text d = (case ad_journal d of None \<Rightarrow> [] | Some t \<Rightarrow> t)"

text \<open>With \<open>Some k\<close> the append raises after \<open>k\<close> bytes of the line have reached the file.\<close>

definition durable_append :: "nat option \<Rightarrow> pyval \<Rightarrow> audit_disk \<Rightarrow> unit audit_op" where
  "durable_append torn event d =
     (let line = json_dumps event @ [CHR 0x0A] in
      case torn of
        None \<Rightarrow> (d\<lparr>ad_journal := Some (journal_text d @ line)\<rparr>, Inr ())
      | Some k \<Rightarrow> (d\<lparr>ad_journal := Some (journal_text d @ take k line)\<rparr>, Inl MutationAuditDurabilityError))"

definition event_head :: "string \<Rightarrow> string \<Rightarrow> string \<Rightarrow> nat \<Rightarrow> (string \<times> pyval) list" where
  "event_head kind event_ref operation_id now =
    [(''version'', VInt 1), (''event'', VStr kind), (''event_ref'', VStr event_ref),
     (''operation_id'', VStr operation_id), (''timestamp'', VStr (iso now))]"

definition start_ref :: "string \<Rightarrow> string" where
  "start_ref operation_id = ''mutation-audit:'' @ operation_id @ '':start''"

definition start_event ::
  "(string \<Rightarrow> string) \<Rightarrow> string \<Rightarrow> audit_binding \<Rightarrow> forensic_evidence \<Rightarrow> (string \<times> pyval) list \<Rightarrow> nat \<Rightarrow> pyval" where
  "start_event sha operation_id b e items now = VDict
    (event_head ''OPERATION_STARTED'' (start_ref operation_id) operation_id now @
     [(''binding'', binding_audit_dict sha b), (''binding_digest'', VStr (binding_digest sha b)),
      (''script_evidence'', forensic_audit_dict e)] @ items @
     [(''start_evidence_digest'', VStr (digest sha (VDict items)))])"

definition begin_operation ::
  "(string \<Rightarrow> string) \<Rightarrow> path \<Rightarrow> nat option \<Rightarrow> string \<Rightarrow> audit_disk \<Rightarrow> audit_binding \<Rightarrow> forensic_evidence
     \<Rightarrow> authority_evidence \<Rightarrow> process_intent \<Rightarrow> requested_identity \<Rightarrow> verification_intent option
     \<Rightarrow> nat \<Rightarrow> audit_start audit_op" where
  "begin_operation sha root torn op_token d b e a p q v now =
     (case read_verified sha root d e of Inl err \<Rightarrow> (d, Inl err)
      | Inr _ \<Rightarrow>
      let op_id = ''mao_'' @ op_token; items = start_evidence_items a p q v in
      case durable_append torn (start_event sha op_id b e items now) d of
        (d', Inl err) \<Rightarrow> (d', Inl err)
      | (d', Inr _) \<Rightarrow> (d', Inr \<lparr>as_operation_id = op_id, as_event_ref = start_ref op_id, as_binding = b,
          as_binding_digest = binding_digest sha b, as_evidence = e, as_authority = a,
          as_process_intent = p, as_requested_identity = q, as_verification_intent = v,
          as_start_evidence_digest = digest sha (VDict items), as_started_at = iso now\<rparr>))"

definition assert_start_identity ::
  "(string \<Rightarrow> string) \<Rightarrow> path \<Rightarrow> audit_disk \<Rightarrow> audit_start \<Rightarrow> (audit_error, unit) result" where
  "assert_start_identity sha root d s =
     (if binding_digest sha (as_binding s) \<noteq> as_binding_digest s then Inl MutationAuditIdentityMismatch else
      rbind (read_verified sha root d (as_evidence s)) (\<lambda>data.
      if fe_sha256 (as_evidence s) \<noteq> sha data then Inl MutationAuditIdentityMismatch else
      if digest sha (VDict (start_evidence_items (as_authority s) (as_process_intent s)
           (as_requested_identity s) (as_verification_intent s))) \<noteq> as_start_evidence_digest s
      then Inl MutationAuditIdentityMismatch else Inr ()))"

definition check_spawn :: "audit_start \<Rightarrow> spawn_evidence \<Rightarrow> (audit_error, unit) result" where
  "check_spawn s e =
     (if se_pid e \<le> 0 \<or> se_ppid e \<le> 0 then Inl AuditValueError
      else if strip (ct_job_binding (se_containment e)) = [] then Inl AuditValueError
      else if \<not> ct_contained (se_containment e) \<or> ct_breakaway_allowed (se_containment e)
        then Inl MutationAuditIdentityMismatch
      else if casefold (se_executable_final_path e) \<noteq> casefold (pi_executable_final_path (as_process_intent s))
           \<or> casefold (se_cwd_final_path e) \<noteq> casefold (pi_cwd_final_path (as_process_intent s))
        then Inl MutationAuditIdentityMismatch
      else if oi_process_user_sid (se_os_identity e) \<noteq> qi_host_user_sid (as_requested_identity s)
        then Inl MutationAuditIdentityMismatch
      else if oi_appcontainer_sid (se_os_identity e) \<noteq> qi_sandbox_identity (as_requested_identity s)
        then Inl MutationAuditIdentityMismatch
      else if \<not> oi_is_appcontainer (se_os_identity e) then Inl MutationAuditIdentityMismatch
      else Inr ())"

definition spawn_event :: "audit_start \<Rightarrow> spawn_evidence \<Rightarrow> nat \<Rightarrow> pyval" where
  "spawn_event s e now = VDict
    (event_head ''PROCESS_SPAWNED'' (''mutation-audit:'' @ as_operation_id s @ '':spawn'') (as_operation_id s) now @
     (''binding_digest'', VStr (as_binding_digest s)) # spawn_audit_items e)"

definition record_spawn ::
  "(string \<Rightarrow> string) \<Rightarrow> path \<Rightarrow> nat option \<Rightarrow> audit_disk \<Rightarrow> audit_start \<Rightarrow> spawn_evidence \<Rightarrow> nat \<Rightarrow> audit_spawn audit_op" where
  "record_spawn sha root torn d s e now =
     (case rbind (assert_start_identity sha root d s) (\<lambda>_. check_spawn s e) of
        Inl err \<Rightarrow> (d, Inl err)
      | Inr _ \<Rightarrow> (case durable_append torn (spawn_event s e now) d of
          (d', Inl err) \<Rightarrow> (d', Inl err)
        | (d', Inr _) \<Rightarrow> (d', Inr \<lparr>sp_operation_id = as_operation_id s,
            sp_event_ref = ''mutation-audit:'' @ as_operation_id s @ '':spawn'', sp_pid = se_pid e,
            sp_job_binding = ct_job_binding (se_containment e), sp_recorded_at = iso now\<rparr>)))"

text \<open>What is done to the suspended process.\<close>

datatype process_action = TerminateSuspended | ResumeSuspended

definition commit_spawn_before_resume ::
  "(string \<Rightarrow> string) \<Rightarrow> path \<Rightarrow> nat option \<Rightarrow> audit_disk \<Rightarrow> audit_start \<Rightarrow> spawn_evidence \<Rightarrow> nat
     \<Rightarrow> process_action list \<times> audit_spawn audit_op" where
  "commit_spawn_before_resume sha root torn d s e now =
     (case record_spawn sha root torn d s e now of
        (d', Inl err) \<Rightarrow> ([TerminateSuspended], d', Inl err)
      | (d', Inr sp) \<Rightarrow> ([ResumeSuspended], d', Inr sp))"

definition finish_states :: "string list" where
  "finish_states = [''succeeded'', ''failed'', ''timeout'', ''cancelled'']"

definition closure_complete :: "audit_start \<Rightarrow> finish_closure \<Rightarrow> bool" where
  "closure_complete s c \<longleftrightarrow> \<not> (fc_scope_state c \<noteq> ''terminal''
     \<or> fc_scope_digest c \<noteq> ae_scope_digest (as_authority s)
     \<or> fc_protected_inventory_digest c \<noteq> ae_protected_inventory_digest (as_authority s)
     \<or> \<not> fc_job_handle_closed c \<or> fc_job_active_process_count c \<noteq> 0
     \<or> fc_active_job_ids c \<noteq> [] \<or> fc_active_process_ids c \<noteq> []
     \<or> fc_sandbox_write_authority_present c \<or> \<not> fc_process_tree_quiescent c
     \<or> fc_terminalized_at c = [])"

definition finish_event ::
  "audit_start \<Rightarrow> string \<Rightarrow> string \<Rightarrow> int option \<Rightarrow> string option \<Rightarrow> finish_closure \<Rightarrow> nat \<Rightarrow> pyval" where
  "finish_event s event_ref status returncode error_code c now = VDict
    (event_head ''OPERATION_FINISHED'' event_ref (as_operation_id s) now @
     [(''binding_digest'', VStr (as_binding_digest s)), (''status'', VStr status),
      (''returncode'', opt_int returncode), (''error_code'', opt_text error_code),
      (''closure'', closure_audit_dict c)])"

definition finish_operation ::
  "(string \<Rightarrow> string) \<Rightarrow> path \<Rightarrow> nat option \<Rightarrow> string \<Rightarrow> audit_disk \<Rightarrow> audit_start \<Rightarrow> string \<Rightarrow> finish_closure
     \<Rightarrow> int option \<Rightarrow> string option \<Rightarrow> nat \<Rightarrow> string audit_op" where
  "finish_operation sha root torn token d s status c returncode error_code now =
     (case assert_start_identity sha root d s of Inl err \<Rightarrow> (d, Inl err)
      | Inr _ \<Rightarrow>
      if status \<notin> set finish_states then (d, Inl AuditValueError)
      else if \<not> closure_complete s c then (d, Inl MutationAuditIdentityMismatch) else
      let event_ref = ''mutation-audit:'' @ as_operation_id s @ '':finish:'' @ token in
      case durable_append torn (finish_event s event_ref status returncode error_code c now) d of
        (d', Inl err) \<Rightarrow> (d', Inl err)
      | (d', Inr _) \<Rightarrow> (d', Inr event_ref))"

fun select_events :: "string option \<Rightarrow> string list \<Rightarrow> (audit_error, pyval list) result" where
  "select_events op [] = Inr []"
| "select_events op (line # rest) =
     (if strip line = [] then select_events op rest else
      case json_loads line of
        None \<Rightarrow> Inl MutationAuditDurabilityError
      | Some event \<Rightarrow>
          rbind (case op of None \<Rightarrow> Inr True
                 | Some i \<Rightarrow> (case event of VDict f \<Rightarrow> Inr (dget f ''operation_id'' = VStr i)
                             | _ \<Rightarrow> Inl AuditAttributeError)) (\<lambda>keep.
          rbind (select_events op rest) (\<lambda>es. Inr (if keep then event # es else es))))"

definition read_events :: "audit_disk \<Rightarrow> string option \<Rightarrow> (audit_error, pyval list) result" where
  "read_events d op = (case ad_journal d of None \<Rightarrow> Inr [] | Some t \<Rightarrow> select_events op (splitlines t))"

end
