(* ===== verification/AuditLaws.thy ===== *)
theory AuditLaws
  imports AuditJournal
begin

text \<open>
  What the journal and the evidence store guarantee: reading back appended events, torn
  appends, the meaning of a successful START, SPAWN and FINISH, and the sealing of START by
  its two digests. The contract of the journal towards its readers is the locale
  \<open>event_log\<close>, interpreted on the journal.
\<close>

section \<open>A log of events\<close>

text \<open>
  A log that may tear. \<open>holds s es\<close> says that \<open>s\<close> stores the events \<open>es\<close>; a complete append
  adds one event, a torn one leaves a log that reads as before, with the event, or not at all.
\<close>

locale event_log =
  fixes append :: "nat option \<Rightarrow> 'v \<Rightarrow> 's \<Rightarrow> 's \<times> ('e, unit) result"
    and read :: "'s \<Rightarrow> ('e, 'v list) result"
    and holds :: "'s \<Rightarrow> 'v list \<Rightarrow> bool"
    and valid :: "'v \<Rightarrow> bool"
    and norm :: "'v \<Rightarrow> 'v"
    and torn_error :: 'e
  assumes read_holds: "holds s es \<Longrightarrow> read s = Inr (map norm es)"
    and append_ok: "append None e s = (t, r) \<Longrightarrow> r = Inr ()"
    and append_holds: "holds s es \<Longrightarrow> valid e \<Longrightarrow> holds (fst (append None e s)) (es @ [e])"
    and torn_fails: "append (Some k) e s = (t, r) \<Longrightarrow> r = Inl torn_error"
    and torn_read: "holds s es \<Longrightarrow> valid e \<Longrightarrow>
      read (fst (append (Some k) e s)) \<in> {Inr (map norm es), Inr (map norm (es @ [e])), Inl torn_error}"
begin

lemma append_read: "holds s es \<Longrightarrow> valid e \<Longrightarrow> append None e s = (t, r) \<Longrightarrow> read t = Inr (map norm es @ [norm e])"
  using read_holds[OF append_holds, of s es e] by simp

text \<open>However an append ends, the log reads as old events, old events and the new one, or fails.\<close>

lemma append_never_forges:
  assumes "holds s es" "valid e" "append torn e s = (t, r)" "read t = Inr vs"
  shows "vs = map norm es \<or> vs = map norm es @ [norm e]"
proof (cases torn)
  case None
  with assms append_read show ?thesis by fastforce
next
  case (Some k)
  with assms torn_read[of s es e k] show ?thesis by auto
qed

lemma success_is_durable:
  assumes "holds s es" "valid e" "append torn e s = (t, Inr u)"
  shows "torn = None \<and> holds t (es @ [e])"
proof (cases torn)
  case None
  with assms append_holds[of s es e] show ?thesis by simp
next
  case (Some k)
  with assms(3) torn_fails[of k e s t] show ?thesis by fastforce
qed

end

section \<open>The journal is one\<close>

definition event_ok :: "pyval \<Rightarrow> bool" where
  "event_ok e \<longleftrightarrow> is_dict e \<and> dict_wf e"

definition journal_holds :: "audit_disk \<Rightarrow> pyval list \<Rightarrow> bool" where
  "journal_holds d es \<longleftrightarrow> journal_text d = json_lines es \<and> list_all event_ok es"

definition event_field :: "pyval \<Rightarrow> string \<Rightarrow> pyval" where
  "event_field e k = dget (items_of e) k"

definition of_operation :: "string option \<Rightarrow> pyval \<Rightarrow> bool" where
  "of_operation op e \<longleftrightarrow> (case op of None \<Rightarrow> True | Some i \<Rightarrow> event_field e ''operation_id'' = VStr i)"

lemma event_text:
  assumes "event_ok e" obtains t where "json_dumps e = CHR ''{'' # t"
  using assms that by (cases e) (auto simp: event_ok_def json_dumps_def)

lemma strip_brace: "strip (CHR ''{'' # t) \<noteq> []"
proof -
  have "lstrip (CHR ''{'' # t) = CHR ''{'' # t" by (intro lstrip_id) (simp add: py_space_def)
  moreover have "\<exists>x \<in> set (rev (CHR ''{'' # t)). \<not> py_space x" by (simp add: py_space_def)
  then have "dropWhile py_space (rev (CHR ''{'' # t)) \<noteq> []" by (metis dropWhile_eq_Nil_conv)
  ultimately show ?thesis by (simp add: strip_def rstrip_def)
qed

lemma select_event_line:
  assumes "event_ok e"
  shows "select_events op (json_dumps e # rest) = rbind (select_events op rest) (\<lambda>es.
     Inr (if of_operation op (json_norm e) then json_norm e # es else es))"
proof -
  obtain t where t: "json_dumps e = CHR ''{'' # t" using event_text[OF assms] .
  have "json_loads (json_dumps e) = Some (json_norm e)"
    using assms json_loads_dumps by (simp add: event_ok_def)
  moreover obtain f where "json_norm e = VDict f" using assms by (cases e) (auto simp: event_ok_def)
  ultimately show ?thesis
    using strip_brace[of t] by (cases op) (auto simp: t of_operation_def event_field_def simp del: json_norm.simps cong: if_cong)
qed

lemma select_event_lines:
  "list_all event_ok es \<Longrightarrow> select_events op (map json_dumps es @ rest) =
     rbind (select_events op rest) (\<lambda>vs. Inr (filter (of_operation op) (map json_norm es) @ vs))"
proof (induction es)
  case Nil
  then show ?case by (cases "select_events op rest") auto
next
  case (Cons e es)
  then have "event_ok e" "list_all event_ok es" by simp_all
  with Cons.IH show ?case
    by (cases "select_events op rest") (simp_all only: list.map append_Cons select_event_line rbind_simps filter.simps, simp_all)
qed

lemma read_journal:
  assumes "journal_holds d es"
  shows "read_events d op = Inr (filter (of_operation op) (map json_norm es))"
proof (cases "ad_journal d")
  case None
  with assms have "es = []" by (cases es) (auto simp: journal_holds_def journal_text_def)
  with None show ?thesis by (simp add: read_events_def)
next
  case (Some t)
  with assms have "t = json_lines es" by (simp add: journal_holds_def journal_text_def)
  with Some assms splitlines_dumps[of es "[]"] select_event_lines[of es op "[]"] show ?thesis
    by (simp add: read_events_def journal_holds_def)
qed

lemma splitlines_torn:
  "\<forall>c \<in> set p. \<not> line_end c \<Longrightarrow> splitlines p = (if p = [] then [] else [p])"
  by (induction p) auto

lemma torn_line:
  assumes "event_ok e"
  shows "select_events None (splitlines (take k (json_dumps e @ [CHR 0x0A])))
     \<in> {Inr [], Inr [json_norm e], Inl MutationAuditDurabilityError}"
proof -
  let ?p = "take k (json_dumps e)"
  have clean: "\<forall>c \<in> set ?p. \<not> line_end c" using dumps_one_line by (meson in_set_takeD)
  consider "k = 0" | "0 < k" "k < length (json_dumps e)" | "k = length (json_dumps e)" | "length (json_dumps e) < k"
    by linarith
  then show ?thesis
  proof cases
    case 2
    obtain f where f: "e = VDict f" using assms by (cases e) (auto simp: event_ok_def)
    obtain t where "json_dumps e = CHR ''{'' # t" using event_text[OF assms] .
    with 2 obtain u where u: "?p = CHR ''{'' # u" by (cases k) auto
    have "json_loads ?p = None"
      using torn_object_unreadable[of f ?p "drop k (json_dumps e)"] assms 2(2) f by (auto simp: event_ok_def)
    moreover have "strip ?p \<noteq> []" by (simp only: u strip_brace not_False_eq_True)
    moreover have "splitlines ?p = [?p]" using splitlines_torn[OF clean] u by simp
    ultimately show ?thesis using 2(2) by simp
  next
    case 3
    have "splitlines ?p = [json_dumps e]"
      using splitlines_torn[OF clean] 3 event_text[OF assms] by (metis list.distinct(1) order.refl take_all)
    with 3 select_event_line[OF assms, of None "[]"] show ?thesis by (simp add: of_operation_def)
  next
    case 4
    have "splitlines (json_dumps e @ [CHR 0x0A]) = [json_dumps e]"
      using splitlines_dumps[of "[e]" "[]"] by simp
    with 4 select_event_line[OF assms, of None "[]"] show ?thesis by (simp add: of_operation_def)
  qed simp
qed

lemma torn_journal:
  assumes "journal_holds d es" "event_ok e"
  shows "read_events (fst (durable_append (Some k) e d)) None
     \<in> {Inr (map json_norm es), Inr (map json_norm (es @ [e])), Inl MutationAuditDurabilityError}"
proof -
  let ?tail = "take k (json_dumps e @ [CHR 0x0A])"
  have "read_events (fst (durable_append (Some k) e d)) None = select_events None (map json_dumps es @ splitlines ?tail)"
    using assms(1) by (simp add: durable_append_def read_events_def journal_holds_def splitlines_dumps Let_def)
  also have "\<dots> = rbind (select_events None (splitlines ?tail)) (\<lambda>vs. Inr (map json_norm es @ vs))"
    using assms(1) by (simp add: select_event_lines journal_holds_def of_operation_def)
  finally show ?thesis using torn_line[OF assms(2), of k] by auto
qed

interpretation journal_log: event_log durable_append "\<lambda>d. read_events d None" journal_holds event_ok json_norm
  MutationAuditDurabilityError
proof
  fix d es assume "journal_holds d es"
  then show "read_events d None = Inr (map json_norm es)" by (simp add: read_journal of_operation_def)
next
  fix e d es assume "journal_holds d es" "event_ok e"
  then show "journal_holds (fst (durable_append None e d)) (es @ [e])"
    by (simp add: durable_append_def journal_holds_def journal_text_def Let_def)
next
  fix d es e k assume "journal_holds d es" "event_ok e"
  then show "read_events (fst (durable_append (Some k) e d)) None
     \<in> {Inr (map json_norm es), Inr (map json_norm (es @ [e])), Inl MutationAuditDurabilityError}"
    by (rule torn_journal)
qed (auto simp: durable_append_def Let_def)

section \<open>The events are documents\<close>

lemma dict_wf_projections [simp]:
  "dict_wf (opt_text a)" "dict_wf (opt_int i)" "dict_wf (strings xs)" "dict_wf (lineage_audit_dict sha l)"
  "dict_wf (binding_audit_dict sha b)" "dict_wf (forensic_audit_dict e)" "dict_wf (authority_audit_dict a')"
  "dict_wf (intent_audit_dict p)" "dict_wf (requested_audit_dict q)" "dict_wf (verification_audit_dict v)"
  "dict_wf (closure_audit_dict c)"
proof -
  show *: "dict_wf (opt_text a)" "dict_wf (strings xs)" for a xs
    by (cases a) (simp_all add: opt_text_def strings_def list_all_iff)
  show "dict_wf (opt_int i)" for i by (cases i) (simp_all add: opt_int_def)
  then show "dict_wf (closure_audit_dict c)" by (simp add: closure_audit_dict_def *)
  show "dict_wf (lineage_audit_dict sha l)" for l by (simp add: lineage_audit_dict_def *)
  then show "dict_wf (binding_audit_dict sha b)" by (simp add: binding_audit_dict_def *)
  show "dict_wf (intent_audit_dict p)" by (simp add: intent_audit_dict_def *)
qed (simp_all add: forensic_audit_dict_def authority_audit_dict_def requested_audit_dict_def verification_audit_dict_def)

lemma start_event_ok: "event_ok (start_event sha i b e (start_evidence_items a p q v) now)"
  by (cases v) (simp_all add: event_ok_def start_event_def event_head_def start_evidence_items_def)

lemma spawn_event_ok: "event_ok (spawn_event s e now)"
  by (simp add: event_ok_def spawn_event_def event_head_def spawn_audit_items_def)

lemma finish_event_ok: "event_ok (finish_event s r st rc ec c now)"
  by (simp add: event_ok_def finish_event_def event_head_def)

lemma event_field_norm:
  "event_ok e \<Longrightarrow> event_field (json_norm e) k = json_norm (event_field e k)"
  by (cases e) (simp_all only: event_ok_def event_field_def dget_norm items_of.simps dict_wf.simps, simp_all)

section \<open>What success means\<close>

lemma begin_operation_Inr:
  assumes "begin_operation sha root torn tok d b e a p q v now = (d', Inr s)"
  shows "s = \<lparr>as_operation_id = ''mao_'' @ tok, as_event_ref = start_ref (''mao_'' @ tok), as_binding = b,
       as_binding_digest = binding_digest sha b, as_evidence = e, as_authority = a, as_process_intent = p,
       as_requested_identity = q, as_verification_intent = v,
       as_start_evidence_digest = digest sha (VDict (start_evidence_items a p q v)), as_started_at = iso now\<rparr>"
    "durable_append torn (start_event sha (''mao_'' @ tok) b e (start_evidence_items a p q v) now) d = (d', Inr ())"
    "\<exists>data. read_verified sha root d e = Inr data"
  using assms by (auto simp: begin_operation_def Let_def split: sum.splits prod.splits)

lemma record_spawn_Inr:
  assumes "record_spawn sha root torn d s e now = (d', Inr sp)"
  shows "assert_start_identity sha root d s = Inr ()" "check_spawn s e = Inr ()"
    "durable_append torn (spawn_event s e now) d = (d', Inr ())"
    "sp_operation_id sp = as_operation_id s" "sp_pid sp = se_pid e"
  using assms by (auto simp: record_spawn_def result_simps split: sum.splits prod.splits)

lemma commit_spawn_cases:
  assumes "commit_spawn_before_resume sha root torn d s e now = (acts, d', r)"
  shows "record_spawn sha root torn d s e now = (d', r)"
    "acts = [if isl r then TerminateSuspended else ResumeSuspended]"
  using assms by (auto simp: commit_spawn_before_resume_def split: sum.splits prod.splits)

lemma finish_operation_Inr:
  assumes "finish_operation sha root torn tok d s st c rc ec now = (d', Inr ref)"
  shows "assert_start_identity sha root d s = Inr ()" "st \<in> set finish_states" "closure_complete s c"
    "ref = ''mutation-audit:'' @ as_operation_id s @ '':finish:'' @ tok"
    "durable_append torn (finish_event s ref st rc ec c now) d = (d', Inr ())"
  using assms by (auto simp: finish_operation_def Let_def split: sum.splits prod.splits if_splits)

lemma append_files: "ad_files (fst (durable_append torn e d)) = ad_files d"
  by (auto simp: durable_append_def Let_def split: option.split)

lemma append_prefix: "\<exists>t. journal_text (fst (durable_append torn e d)) = journal_text d @ t"
  by (auto simp: durable_append_def journal_text_def Let_def split: option.split)

section \<open>The two seals of START\<close>

definition seals :: "(string \<Rightarrow> string) \<Rightarrow> audit_start \<Rightarrow> bool" where
  "seals sha s \<longleftrightarrow> binding_digest sha (as_binding s) = as_binding_digest s
     \<and> digest sha (VDict (start_evidence_items (as_authority s) (as_process_intent s)
          (as_requested_identity s) (as_verification_intent s))) = as_start_evidence_digest s"

lemma assert_start_identity_iff:
  "assert_start_identity sha root d s = Inr u \<longleftrightarrow>
     seals sha s \<and> (\<exists>data. read_verified sha root d (as_evidence s) = Inr data)"
proof -
  have *: "read_verified sha root d e = Inr data \<Longrightarrow> fe_sha256 e = sha data" for e data
    by (auto simp: read_verified_def split: if_splits option.splits)
  show ?thesis
    by (cases "read_verified sha root d (as_evidence s)") (auto simp: assert_start_identity_def seals_def dest: *)
qed

lemma begun_seals: "begin_operation sha root torn tok d b e a p q v now = (d', Inr s) \<Longrightarrow> seals sha s"
  using begin_operation_Inr(1)[of sha root torn tok d b e a p q v now d' s] by (simp add: seals_def)

lemma seals_determine:
  assumes "inj sha" "seals sha s" "seals sha t" "as_binding_digest t = as_binding_digest s"
    "as_start_evidence_digest t = as_start_evidence_digest s"
  shows "as_binding t = as_binding s" "as_authority t = as_authority s" "as_process_intent t = as_process_intent s"
    "as_requested_identity t = as_requested_identity s" "as_verification_intent t = as_verification_intent s"
proof -
  have "binding_digest sha (as_binding t) = binding_digest sha (as_binding s)"
    using assms by (simp add: seals_def)
  then show "as_binding t = as_binding s"
    using binding_dict_inj by (simp add: binding_digest_def digest_inj[OF assms(1)] del: json_norm.simps) 
  have "json_norm (VDict (start_evidence_items (as_authority t) (as_process_intent t) (as_requested_identity t) (as_verification_intent t)))
    = json_norm (VDict (start_evidence_items (as_authority s) (as_process_intent s) (as_requested_identity s) (as_verification_intent s)))"
    using assms(2-) by (simp only: seals_def digest_inj[OF assms(1), symmetric])
  from start_evidence_inj[OF this] show "as_authority t = as_authority s" "as_process_intent t = as_process_intent s"
    "as_requested_identity t = as_requested_identity s" "as_verification_intent t = as_verification_intent s" by simp_all
qed

text \<open>An altered handle writes nothing.\<close>

lemma unsealed_refused:
  assumes "\<not> seals sha s"
  shows "\<exists>err. record_spawn sha root torn d s e now = (d, Inl err)"
    "\<exists>err. finish_operation sha root torn tok d s st c rc ec now = (d, Inl err)"
proof -
  have "assert_start_identity sha root d s \<noteq> Inr ()" using assms assert_start_identity_iff by blast
  then obtain err where e: "assert_start_identity sha root d s = Inl err"
    by (cases "assert_start_identity sha root d s") auto
  then show "\<exists>err. record_spawn sha root torn d s e now = (d, Inl err)"
    "\<exists>err. finish_operation sha root torn tok d s st c rc ec now = (d, Inl err)"
    by (simp_all add: record_spawn_def finish_operation_def)
qed

section \<open>Evidence\<close>

definition hex_text :: "string \<Rightarrow> bool" where
  "hex_text s \<longleftrightarrow> list_all (\<lambda>c. c \<in> set ''0123456789abcdef'') s"

lemma hex_no_slash: "hex_text s \<Longrightarrow> CHR ''/'' \<notin> set s"
  by (induction s) (auto simp: hex_text_def)

lemma artifact_path:
  assumes "hex_text dg" "hex_text tok"
  shows "path_child root (artifact_name dg tok) = Path (is_absolute root) (parts root @ [artifact_name dg tok])"
proof -
  let ?n = "artifact_name dg tok"
  have "CHR ''/'' \<notin> set dg" "CHR ''/'' \<notin> set tok" using assms hex_no_slash by blast+
  moreover have "set (take 20 dg) \<subseteq> set dg" by (rule set_take_subset)
  ultimately have ns: "CHR ''/'' \<notin> set ?n" unfolding artifact_name_def by auto
  have "7 \<le> length ?n" by (simp add: artifact_name_def)
  then have ne: "?n \<noteq> []" "?n \<noteq> ''.''" by fastforce+
  have "\<not> startswith ?n ''/''" using ns by (cases ?n) (auto simp: startswith_def)
  then have "path_of_text ?n = Path False [?n]" using ns ne by (simp add: path_of_text_def split_char_word)
  then show ?thesis by (simp add: path_child_def path_join_def)
qed

lemma retain_Inr:
  assumes "retain sha root days env d x now = (d', Inr e)"
  shows "x \<noteq> []" "fe_sha256 e = sha x" "fe_size_bytes e = int (length x)"
    "fe_artifact_path e = path_child root (artifact_name (sha x) (re_token env))"
    "d' = put_file (fe_artifact_path e) \<lparr>sf_bytes = x, sf_mtime = re_mtime env\<rparr> d"
    "fe_created_at e = iso now" "fe_retained_until e = iso (now + day_span days)" "now + day_span days \<le> max_instant"
  using assms by (auto simp: retain_def Let_def split: if_splits write_fault.splits option.splits)

lemma retained_readable:
  assumes "retain sha root days env d x now = (d', Inr e)" "hex_text (sha x)" "hex_text (re_token env)"
    "map_of (ad_files d'') (fe_artifact_path e) = map_of (ad_files d') (fe_artifact_path e)"
  shows "read_verified sha root d'' e = Inr x"
proof -
  note r = retain_Inr[OF assms(1)]
  have "is_relative_to (fe_artifact_path e) root"
    by (simp add: r(4) artifact_path[OF assms(2,3)] is_relative_to_iff)
  with assms(4) show ?thesis by (simp add: read_verified_def r(2,3,5) put_file_def)
qed

lemma map_of_filter_keys:
  "distinct (keys d) \<Longrightarrow> map_of d k = Some v \<Longrightarrow> P (k, v) \<Longrightarrow> map_of (filter P d) k = Some v"
  by (induction d) (auto split: if_splits)

lemma prune_keeps:
  assumes "prune_expired root days stuck d now = (d', r)" "distinct (keys (ad_files d))"
    "map_of (ad_files d) p = Some f" "now \<le> sf_mtime f + day_span days"
  shows "map_of (ad_files d') p = Some f"
proof (cases "now < day_span days")
  case True
  with assms show ?thesis by (simp add: prune_expired_def)
next
  case False
  let ?P = "\<lambda>x. \<not> expired_artifact root stuck (now - day_span days) x"
  have "\<not> sf_mtime f < now - day_span days" using False assms(4) by linarith
  then have "?P (p, f)" by (simp add: expired_artifact_def)
  from map_of_filter_keys[of "ad_files d" p f ?P, OF assms(2,3) this] False assms(1) show ?thesis
    by (auto simp: prune_expired_def Let_def)
qed

lemma prune_journal: "journal_text (fst (prune_expired root days stuck d now)) = journal_text d"
  by (simp add: prune_expired_def journal_text_def Let_def)

lemma retain_journal: "journal_text (fst (retain sha root days env d x now)) = journal_text d"
  by (auto simp: retain_def put_file_def journal_text_def Let_def split: write_fault.split option.split)

lemma materialize_journal:
  "journal_text (fst (materialize_verified sha res dir root env d e p)) = journal_text d"
  by (auto simp: materialize_verified_def put_file_def journal_text_def Let_def
      split: sum.split write_fault.split option.split)

end
