(* ===== verification/AuditRun.thy ===== *)
theory AuditRun
  imports AuditLaws
begin

text \<open>
  The audit subsystem as a transition system. A run state is the disk, the START handles that
  have been issued, the events whose append returned, and whether some append failed. Every
  step is one call of the evidence store or of the journal, with any argument, any clock and
  any fault; SPAWN and FINISH take a handle that was issued. Events whose append failed are
  not in the list even when their whole line reached the file.
\<close>

record audit_run =
  ar_disk :: audit_disk
  ar_starts :: "audit_start list"
  ar_log :: "pyval list"
  ar_torn :: bool

text \<open>The run state after a call that tried to append one event.\<close>

definition after_append :: "audit_run \<Rightarrow> audit_disk \<Rightarrow> nat option \<Rightarrow> pyval \<Rightarrow> audit_run" where
  "after_append A d torn e = A\<lparr>ar_disk := d,
     ar_log := (if torn = None then ar_log A @ [e] else ar_log A), ar_torn := (ar_torn A \<or> torn \<noteq> None)\<rparr>"

inductive audit_step :: "(string \<Rightarrow> string) \<Rightarrow> path \<Rightarrow> audit_run \<Rightarrow> audit_run \<Rightarrow> bool"
  for sha :: "string \<Rightarrow> string" and root :: path where
  retain: "audit_step sha root A (A\<lparr>ar_disk := fst (retain sha root days env (ar_disk A) x now)\<rparr>)"
| prune: "audit_step sha root A (A\<lparr>ar_disk := fst (prune_expired root days stuck (ar_disk A) now)\<rparr>)"
| materialize: "audit_step sha root A
    (A\<lparr>ar_disk := fst (materialize_verified sha res dir root env (ar_disk A) e p)\<rparr>)"
| start: "begin_operation sha root torn tok (ar_disk A) b e a p q v now = (d, r) \<Longrightarrow>
    read_verified sha root (ar_disk A) e = Inr x \<Longrightarrow>
    audit_step sha root A ((after_append A d torn (start_event sha (''mao_'' @ tok) b e (start_evidence_items a p q v) now))
      \<lparr>ar_starts := (case r of Inl _ \<Rightarrow> ar_starts A | Inr s \<Rightarrow> s # ar_starts A)\<rparr>)"
| spawn: "s \<in> set (ar_starts A) \<Longrightarrow>
    commit_spawn_before_resume sha root torn (ar_disk A) s e now = (acts, d, r) \<Longrightarrow>
    assert_start_identity sha root (ar_disk A) s = Inr () \<Longrightarrow> check_spawn s e = Inr () \<Longrightarrow>
    audit_step sha root A (after_append A d torn (spawn_event s e now))"
| finish: "s \<in> set (ar_starts A) \<Longrightarrow>
    finish_operation sha root torn tok (ar_disk A) s st c rc ec now = (d, r) \<Longrightarrow>
    assert_start_identity sha root (ar_disk A) s = Inr () \<Longrightarrow> st \<in> set finish_states \<Longrightarrow> closure_complete s c \<Longrightarrow>
    audit_step sha root A
      (after_append A d torn (finish_event s (''mutation-audit:'' @ as_operation_id s @ '':finish:'' @ tok) st rc ec c now))"

inductive_cases audit_stepE: "audit_step sha root A B"

text \<open>Calls that are refused before the append change nothing, so they need no step.\<close>

lemma refused_changes_nothing:
  "read_verified sha root d e = Inl err \<Longrightarrow> begin_operation sha root torn tok d b e a p q v now = (d, Inl err)"
  "rbind (assert_start_identity sha root d s) (\<lambda>_. check_spawn s ev) = Inl err \<Longrightarrow>
     record_spawn sha root torn d s ev now = (d, Inl err)"
  "assert_start_identity sha root d s = Inl err \<Longrightarrow> finish_operation sha root torn tok d s st c rc ec now = (d, Inl err)"
  "assert_start_identity sha root d s = Inr u \<Longrightarrow> st \<notin> set finish_states \<or> \<not> closure_complete s c \<Longrightarrow>
     \<exists>err. finish_operation sha root torn tok d s st c rc ec now = (d, Inl err)"
  by (auto simp: begin_operation_def record_spawn_def finish_operation_def)

section \<open>Write-ahead order\<close>

definition event_kind :: "pyval \<Rightarrow> pyval" where
  "event_kind e = event_field e ''event''"

text \<open>\<open>x\<close> is the START that \<open>e\<close> belongs to.\<close>

definition starts_for :: "pyval \<Rightarrow> pyval \<Rightarrow> bool" where
  "starts_for x e \<longleftrightarrow> event_kind x = VStr ''OPERATION_STARTED''
     \<and> event_field x ''operation_id'' = event_field e ''operation_id''
     \<and> event_field x ''binding_digest'' = event_field e ''binding_digest''"

definition closure_terminal :: "pyval \<Rightarrow> bool" where
  "closure_terminal e \<longleftrightarrow> event_field (event_field e ''closure'') ''scope_state'' = VStr ''terminal''
     \<and> event_field (event_field e ''closure'') ''active_process_ids'' = VList []
     \<and> event_field (event_field e ''closure'') ''active_job_ids'' = VList []
     \<and> event_field (event_field e ''closure'') ''sandbox_write_authority_present'' = VBool False
     \<and> event_field (event_field e ''closure'') ''job_active_process_count'' = VInt 0"

definition event_follows :: "pyval list \<Rightarrow> pyval \<Rightarrow> bool" where
  "event_follows earlier e \<longleftrightarrow>
     event_kind e = VStr ''OPERATION_STARTED''
     \<or> (\<exists>x \<in> set earlier. starts_for x e)
       \<and> (event_kind e = VStr ''PROCESS_SPAWNED'' \<or> event_kind e = VStr ''OPERATION_FINISHED'' \<and> closure_terminal e)"

definition write_ahead :: "pyval list \<Rightarrow> bool" where
  "write_ahead es \<longleftrightarrow> (\<forall>i < length es. event_follows (take i es) (es ! i))"

lemma write_ahead_snoc: "write_ahead (es @ [e]) \<longleftrightarrow> write_ahead es \<and> event_follows es e"
  by (auto simp: write_ahead_def nth_append less_Suc_eq)

definition handle_logged :: "pyval list \<Rightarrow> audit_start \<Rightarrow> bool" where
  "handle_logged es s \<longleftrightarrow> (\<exists>x \<in> set es. event_kind x = VStr ''OPERATION_STARTED''
     \<and> event_field x ''operation_id'' = VStr (as_operation_id s)
     \<and> event_field x ''binding_digest'' = VStr (as_binding_digest s))"

definition audit_inv :: "(string \<Rightarrow> string) \<Rightarrow> audit_run \<Rightarrow> bool" where
  "audit_inv sha A \<longleftrightarrow> write_ahead (ar_log A) \<and> list_all event_ok (ar_log A)
     \<and> (\<forall>s \<in> set (ar_starts A). handle_logged (ar_log A) s \<and> seals sha s)
     \<and> (\<not> ar_torn A \<longrightarrow> journal_holds (ar_disk A) (ar_log A))"

definition audit_adv :: "audit_run \<Rightarrow> audit_run \<Rightarrow> bool" where
  "audit_adv A B \<longleftrightarrow> (\<exists>t. journal_text (ar_disk B) = journal_text (ar_disk A) @ t)
     \<and> (\<exists>es. ar_log B = ar_log A @ es) \<and> set (ar_starts A) \<subseteq> set (ar_starts B)
     \<and> (ar_torn A \<longrightarrow> ar_torn B)"

lemma event_fields:
  "event_kind (start_event sha i b e items now) = VStr ''OPERATION_STARTED''"
  "event_field (start_event sha i b e items now) ''operation_id'' = VStr i"
  "event_field (start_event sha i b e items now) ''binding_digest'' = VStr (binding_digest sha b)"
  "event_kind (spawn_event s ev now) = VStr ''PROCESS_SPAWNED''"
  "event_field (spawn_event s ev now) ''operation_id'' = VStr (as_operation_id s)"
  "event_field (spawn_event s ev now) ''binding_digest'' = VStr (as_binding_digest s)"
  "event_kind (finish_event s r st rc ec c now) = VStr ''OPERATION_FINISHED''"
  "event_field (finish_event s r st rc ec c now) ''operation_id'' = VStr (as_operation_id s)"
  "event_field (finish_event s r st rc ec c now) ''binding_digest'' = VStr (as_binding_digest s)"
  "event_field (finish_event s r st rc ec c now) ''closure'' = closure_audit_dict c"
  by (simp_all add: event_kind_def event_field_def start_event_def spawn_event_def finish_event_def
      event_head_def dget_def)

lemma spawn_follows: "handle_logged es s \<Longrightarrow> event_follows es (spawn_event s e now)"
  by (auto simp: event_follows_def handle_logged_def starts_for_def event_fields)

lemma finish_follows:
  assumes "handle_logged es s" "closure_complete s c"
  shows "event_follows es (finish_event s r st rc ec c now)"
proof -
  have "closure_terminal (finish_event s r st rc ec c now)"
    using assms(2) unfolding closure_terminal_def event_fields closure_complete_def
    by (simp add: closure_audit_dict_def event_field_def dget_def strings_def)
  with assms(1) show ?thesis
    by (auto simp: event_follows_def handle_logged_def starts_for_def event_fields)
qed

lemma handle_logged_mono: "handle_logged es s \<Longrightarrow> handle_logged (es @ fs) s"
  by (auto simp: handle_logged_def)

text \<open>One lemma for the three calls that append.\<close>

lemma after_append_inv:
  assumes "audit_inv sha A" "durable_append torn e (ar_disk A) = (d, r)" "event_ok e" "event_follows (ar_log A) e"
    and "\<And>s. s \<in> set ss \<Longrightarrow> s \<in> set (ar_starts A) \<or> torn = None \<and> handle_logged (ar_log A @ [e]) s \<and> seals sha s"
  shows "audit_inv sha ((after_append A d torn e)\<lparr>ar_starts := ss\<rparr>)"
proof (cases torn)
  case None
  have "journal_holds d (ar_log A @ [e])" if "\<not> ar_torn A"
    using journal_log.append_holds[of "ar_disk A" "ar_log A" e] that assms(1-3) None by (simp add: audit_inv_def)
  with None assms(1,3,4,5) show ?thesis
    by (auto simp: audit_inv_def after_append_def write_ahead_snoc intro: handle_logged_mono)
next
  case (Some k)
  with assms(1,5) show ?thesis by (auto simp: audit_inv_def after_append_def)
qed

lemma after_append_adv:
  assumes "durable_append torn e (ar_disk A) = (d, r)" "set (ar_starts A) \<subseteq> set ss"
  shows "audit_adv A ((after_append A d torn e)\<lparr>ar_starts := ss\<rparr>)"
  using assms append_prefix[of torn e "ar_disk A"] by (auto simp: audit_adv_def after_append_def)

lemma begin_append:
  assumes "begin_operation sha root torn tok d b e a p q v now = (d', r)" "read_verified sha root d e = Inr x"
  shows "\<exists>u. durable_append torn (start_event sha (''mao_'' @ tok) b e (start_evidence_items a p q v) now) d = (d', u)"
  using assms by (auto simp: begin_operation_def Let_def split: sum.splits prod.splits)

lemma spawn_append:
  assumes "commit_spawn_before_resume sha root torn d s e now = (acts, d', r)"
    "assert_start_identity sha root d s = Inr ()" "check_spawn s e = Inr ()"
  shows "\<exists>u. durable_append torn (spawn_event s e now) d = (d', u)"
  using commit_spawn_cases(1)[OF assms(1)] assms(2,3) by (auto simp: record_spawn_def split: sum.splits prod.splits)

lemma finish_append:
  assumes "finish_operation sha root torn tok d s st c rc ec now = (d', r)" "assert_start_identity sha root d s = Inr ()"
    "st \<in> set finish_states" "closure_complete s c"
  shows "\<exists>u. durable_append torn
    (finish_event s (''mutation-audit:'' @ as_operation_id s @ '':finish:'' @ tok) st rc ec c now) d = (d', u)"
  using assms by (auto simp: finish_operation_def Let_def split: sum.splits prod.splits)

lemma step_start:
  assumes "begin_operation sha root torn tok (ar_disk A) b e a p q v now = (d, r)"
    "read_verified sha root (ar_disk A) e = Inr x"
  defines "B \<equiv> (after_append A d torn (start_event sha (''mao_'' @ tok) b e (start_evidence_items a p q v) now))
      \<lparr>ar_starts := (case r of Inl _ \<Rightarrow> ar_starts A | Inr s \<Rightarrow> s # ar_starts A)\<rparr>"
  shows "audit_inv sha A \<Longrightarrow> audit_inv sha B" "audit_adv A B"
proof -
  let ?e = "start_event sha (''mao_'' @ tok) b e (start_evidence_items a p q v) now"
  let ?ss = "case r of Inl _ \<Rightarrow> ar_starts A | Inr s \<Rightarrow> s # ar_starts A"
  obtain u where u: "durable_append torn ?e (ar_disk A) = (d, u)" using begin_append[OF assms(1,2)] by blast
  show "audit_adv A B" unfolding B_def by (rule after_append_adv[OF u]) (auto split: sum.split)
  assume inv: "audit_inv sha A"
  have fol: "event_follows (ar_log A) ?e" by (simp add: event_follows_def event_fields)
  have new: "torn = None \<and> handle_logged (ar_log A @ [?e]) s \<and> seals sha s" if "r = Inr s" for s
  proof -
    note i = begin_operation_Inr[OF assms(1)[unfolded that]]
    have "torn = None" using journal_log.torn_fails[of _ ?e "ar_disk A" d] i(2) by (cases torn) auto
    moreover have "seals sha s" using begun_seals assms(1) that by blast
    moreover have "handle_logged (ar_log A @ [?e]) s" by (simp add: handle_logged_def event_fields i(1))
    ultimately show ?thesis by blast
  qed
  show "audit_inv sha B" unfolding B_def
    by (rule after_append_inv[OF inv u start_event_ok fol]) (use new in \<open>auto split: sum.splits\<close>)
qed

lemma audit_step_ok:
  assumes "audit_step sha root A B"
  shows "audit_adv A B" "audit_inv sha A \<Longrightarrow> audit_inv sha B"
proof -
  have quiet: "audit_adv A (A\<lparr>ar_disk := d\<rparr>) \<and> (audit_inv sha A \<longrightarrow> audit_inv sha (A\<lparr>ar_disk := d\<rparr>))"
    if "journal_text d = journal_text (ar_disk A)" for d
    using that by (auto simp: audit_adv_def audit_inv_def journal_holds_def)
  have same: "(after_append A d torn e)\<lparr>ar_starts := ar_starts A\<rparr> = after_append A d torn e" for d torn e
    by (simp add: after_append_def)
  have "audit_adv A B \<and> (audit_inv sha A \<longrightarrow> audit_inv sha B)"
    using assms
  proof cases
    case (retain days env x now)
    then show ?thesis using quiet[OF retain_journal] by simp
  next
    case (prune days stuck now)
    then show ?thesis using quiet[OF prune_journal] by simp
  next
    case (materialize res dir env e p)
    then show ?thesis using quiet[OF materialize_journal] by simp
  next
    case (start torn tok b e a p q v now d r x)
    show ?thesis unfolding start(1) using step_start[OF start(2,3)] by blast
  next
    case (spawn s torn e now acts d r)
    obtain u where u: "durable_append torn (spawn_event s e now) (ar_disk A) = (d, u)"
      using spawn_append[OF spawn(3,4,5)] by blast
    have "audit_inv sha B" if inv: "audit_inv sha A"
    proof -
      have "handle_logged (ar_log A) s" using inv spawn(2) by (simp add: audit_inv_def)
      from after_append_inv[OF inv u spawn_event_ok spawn_follows[OF this], of "ar_starts A"] spawn(1) same
      show ?thesis by simp
    qed
    then show ?thesis using after_append_adv[OF u, of "ar_starts A"] spawn(1) same by simp
  next
    case (finish s torn tok st c rc ec now d r)
    let ?e = "finish_event s (''mutation-audit:'' @ as_operation_id s @ '':finish:'' @ tok) st rc ec c now"
    obtain u where u: "durable_append torn ?e (ar_disk A) = (d, u)"
      using finish_append[OF finish(3,4,5,6)] by blast
    have "audit_inv sha B" if inv: "audit_inv sha A"
    proof -
      have "handle_logged (ar_log A) s" using inv finish(2) by (simp add: audit_inv_def)
      from after_append_inv[OF inv u finish_event_ok finish_follows[OF this finish(6)], of "ar_starts A"] finish(1) same
      show ?thesis by simp
    qed
    then show ?thesis using after_append_adv[OF u, of "ar_starts A"] finish(1) same by simp
  qed
  then show "audit_adv A B" "audit_inv sha A \<Longrightarrow> audit_inv sha B" by blast+
qed

lemma append_trans: "\<exists>t. y = x @ t \<Longrightarrow> \<exists>t. z = y @ t \<Longrightarrow> \<exists>t. z = x @ t"
  by auto

interpretation audit_system: guarded_system "audit_step sha root" "audit_inv sha" audit_adv for sha root
proof
  fix A B C
  show "audit_inv sha A \<Longrightarrow> audit_step sha root A B \<Longrightarrow> audit_inv sha B" by (rule audit_step_ok(2))
  show "audit_inv sha A \<Longrightarrow> audit_step sha root A B \<Longrightarrow> audit_adv A B" by (rule audit_step_ok(1))
  show "audit_adv A A" by (auto simp: audit_adv_def)
  show "audit_adv A B \<Longrightarrow> audit_adv B C \<Longrightarrow> audit_adv A C"
    unfolding audit_adv_def by (elim conjE, intro conjI) (rule append_trans; assumption | blast)+
qed

definition audit_init :: audit_run where
  "audit_init = \<lparr>ar_disk = \<lparr>ad_files = [], ad_journal = None\<rparr>, ar_starts = [], ar_log = [], ar_torn = False\<rparr>"

lemma audit_init_inv: "audit_inv sha audit_init"
  by (simp add: audit_inv_def audit_init_def write_ahead_def journal_holds_def journal_text_def)

end
