(* ===== verification/AuditProps.thy ===== *)
theory AuditProps
  imports AuditRun
begin

text \<open>The properties of the write-ahead mutation audit, with a concrete run as witness.\<close>

section \<open>A sample run\<close>

definition const_sha :: "string \<Rightarrow> string" where
  "const_sha x = ''d''"

definition sample_evidence_root :: path where
  "sample_evidence_root = Path True [''ev'']"

definition sample_env :: retain_env where
  "sample_env = \<lparr>re_token = ''7'', re_mtime = 0, re_fault = WriteOk\<rparr>"

definition sample_retained :: "forensic_evidence audit_op" where
  "sample_retained = retain const_sha sample_evidence_root 30 sample_env (ar_disk audit_init) ''print()'' 0"

definition sample_evidence :: forensic_evidence where
  "sample_evidence = \<lparr>fe_artifact_ref = ''mutation-evidence:d-7.script'', fe_sha256 = ''d'', fe_size_bytes = 7,
     fe_created_at = ''0001-01-01T00:00:00Z'', fe_retained_until = ''0001-01-31T00:00:00Z'',
     fe_artifact_path = Path True [''ev'', ''d-7.script'']\<rparr>"

definition sample_audit_disk :: audit_disk where
  "sample_audit_disk = \<lparr>ad_files = [(Path True [''ev'', ''d-7.script''], \<lparr>sf_bytes = ''print()'', sf_mtime = 0\<rparr>)],
     ad_journal = None\<rparr>"

definition sample_lineage :: lineage where
  "sample_lineage = \<lparr>ln_project_id = ''p'', ln_task_id = ''t'', ln_run_id = ''r'', ln_attempt_id = ''a'', ln_slice_id = None\<rparr>"

definition sample_binding :: audit_binding where
  "sample_binding = \<lparr>ab_request_id = ''q'', ab_op = ''script_run'', ab_opaque_ref = None, ab_lineage = sample_lineage,
     ab_scope_id = ''mss'', ab_scope_generation = 1, ab_workspace_id = ''msw'', ab_unique_lease_key = ''d'', ab_job_id = None\<rparr>"

definition sample_authority :: authority_evidence where
  "sample_authority = \<lparr>ae_scope_digest = ''d'', ae_exact_workspace_digest = ''d'', ae_protected_inventory_digest = ''d'',
     ae_policy_digest = ''d'', ae_repository_identity_digest = ''d'', ae_semantic_identity_digest = ''d''\<rparr>"

definition sample_intent :: process_intent where
  "sample_intent = \<lparr>pi_interpreter = ''python3'', pi_argv = [''py''], pi_executable_final_path = ''C:/py.exe'',
     pi_cwd_final_path = ''C:/ws''\<rparr>"

definition sample_requested :: requested_identity where
  "sample_requested = \<lparr>qi_host_platform = ''win32'', qi_host_user_sid = ''S-1'', qi_sandbox_kind = ''appcontainer'',
     qi_sandbox_profile = ''v1'', qi_sandbox_identity = ''S-2''\<rparr>"

definition sample_start :: audit_start where
  "sample_start = \<lparr>as_operation_id = ''mao_1'', as_event_ref = ''mutation-audit:mao_1:start'', as_binding = sample_binding,
     as_binding_digest = ''d'', as_evidence = sample_evidence, as_authority = sample_authority,
     as_process_intent = sample_intent, as_requested_identity = sample_requested, as_verification_intent = None,
     as_start_evidence_digest = ''d'', as_started_at = ''0001-01-01T00:00:00Z''\<rparr>"

definition sample_spawn :: spawn_evidence where
  "sample_spawn = \<lparr>se_pid = 7, se_ppid = 1, se_executable_final_path = ''c:/PY.exe'', se_cwd_final_path = ''C:/ws'',
     se_os_identity = \<lparr>oi_process_user_sid = ''S-1'', oi_appcontainer_sid = ''S-2'', oi_is_appcontainer = True\<rparr>,
     se_containment = \<lparr>ct_job_binding = ''job'', ct_contained = True, ct_breakaway_allowed = False, ct_active_process_count = 1\<rparr>\<rparr>"

definition sample_closure :: finish_closure where
  "sample_closure = \<lparr>fc_scope_state = ''terminal'', fc_scope_digest = ''d'', fc_protected_inventory_digest = ''d'',
     fc_sandbox_identity = Some ''S-2'', fc_job_binding = Some ''job'', fc_root_pid = Some 7, fc_job_handle_closed = True,
     fc_job_active_process_count = 0, fc_active_job_ids = [], fc_active_process_ids = [],
     fc_sandbox_write_authority_present = False, fc_process_tree_quiescent = True,
     fc_terminalized_at = ''0001-01-01T00:00:00Z''\<rparr>"

lemma iso_sample: "iso 0 = ''0001-01-01T00:00:00Z''" "iso (0 + day_span 30) = ''0001-01-31T00:00:00Z''"
  by code_simp+

lemma sample_retained_value: "sample_retained = (sample_audit_disk, Inr sample_evidence)"
proof -
  have "path_child sample_evidence_root ''d-7.script'' = Path True [''ev'', ''d-7.script'']" by code_simp
  moreover have "artifact_name ''d'' ''7'' = ''d-7.script''" by code_simp
  moreover have "\<not> max_instant < 0 + day_span 30" by code_simp
  ultimately show ?thesis
    by (simp add: sample_retained_def retain_def const_sha_def sample_env_def audit_init_def put_file_def
        sample_audit_disk_def sample_evidence_def iso_sample[simplified] Let_def)
qed

lemma sample_read_verified: "ad_files d = ad_files sample_audit_disk \<Longrightarrow>
    read_verified const_sha sample_evidence_root d sample_evidence = Inr ''print()''"
  by (simp add: read_verified_def sample_evidence_def sample_audit_disk_def sample_evidence_root_def
      const_sha_def is_relative_to_def)

definition sample_started_disk :: audit_disk where
  "sample_started_disk = fst (durable_append None (start_event const_sha ''mao_1'' sample_binding sample_evidence
     (start_evidence_items sample_authority sample_intent sample_requested None) 0) sample_audit_disk)"

lemma sample_begun:
  "begin_operation const_sha sample_evidence_root None ''1'' sample_audit_disk sample_binding sample_evidence
     sample_authority sample_intent sample_requested None 0 = (sample_started_disk, Inr sample_start)"
  by (simp add: begin_operation_def sample_read_verified sample_started_disk_def durable_append_def Let_def
      sample_start_def start_ref_def binding_digest_def digest_def const_sha_def iso_sample)

lemma sample_started_facts: "ad_files sample_started_disk = ad_files sample_audit_disk"
  "journal_holds sample_audit_disk []"
  by (simp_all add: sample_started_disk_def append_files journal_holds_def journal_text_def sample_audit_disk_def)

lemma sample_asserted:
  "ad_files d = ad_files sample_audit_disk \<Longrightarrow> assert_start_identity const_sha sample_evidence_root d sample_start = Inr ()"
  unfolding assert_start_identity_iff
  by (simp add: seals_def sample_start_def binding_digest_def digest_def const_sha_def sample_read_verified)

lemma sample_checked: "check_spawn sample_start sample_spawn = Inr ()" "closure_complete sample_start sample_closure"
  by code_simp+

section \<open>Journal\<close>

text \<open>
  C20: an append never forges. Whatever number of bytes a failed append leaves behind, the
  journal afterwards reads as the events it had, as those and the whole new event, or not at
  all; a torn line is never read as a different event, nor does it hide an earlier one. The
  call that failed says so.
\<close>

theorem torn_append_never_forges:
  assumes "journal_holds d es" "event_ok e" "durable_append torn e d = (d', r)"
  shows "(r = Inr () \<and> read_events d' None = Inr (map json_norm es @ [json_norm e]))
     \<or> (r = Inl MutationAuditDurabilityError
        \<and> read_events d' None \<in> {Inr (map json_norm es), Inr (map json_norm es @ [json_norm e]),
             Inl MutationAuditDurabilityError})"
proof (cases torn)
  case None
  then have "r = Inr ()" using assms(3) journal_log.append_ok by blast
  moreover have "read_events d' None = Inr (map json_norm es @ [json_norm e])"
    by (rule journal_log.append_read[OF assms(1,2) assms(3)[unfolded None]])
  ultimately show ?thesis by blast
next
  case (Some k)
  then have "r = Inl MutationAuditDurabilityError" using assms(3) journal_log.torn_fails by blast
  moreover have "d' = fst (durable_append (Some k) e d)" using assms(3) Some by simp
  ultimately show ?thesis using journal_log.torn_read[OF assms(1,2), of k] by simp
qed

theorem torn_append_never_forges_witness:
  "read_events (fst (durable_append (Some 5) (VDict [(''k'', VInt 1)]) sample_audit_disk)) None
     \<in> {Inr [], Inr [json_norm (VDict [(''k'', VInt 1)])], Inl MutationAuditDurabilityError}"
proof -
  have e: "event_ok (VDict [(''k'', VInt 1)])" by (simp add: event_ok_def)
  have "snd (durable_append (Some 5) (VDict [(''k'', VInt 1)]) sample_audit_disk) = Inl MutationAuditDurabilityError"
    by (simp add: durable_append_def Let_def)
  with torn_append_never_forges[OF sample_started_facts(2) e, of "Some 5"] show ?thesis
    by (cases "durable_append (Some 5) (VDict [(''k'', VInt 1)]) sample_audit_disk") auto
qed

text \<open>
  C21: START is written ahead. When an operation begins, its script was on disk and matched its
  hash, exactly one event was added to the journal, it reads back with the operation's
  identifier and the digest of its binding, and the handle carries the two digests of what was
  written. If beginning fails, no handle exists.
\<close>

theorem begin_writes_ahead:
  assumes "journal_holds d es"
    and "begin_operation sha root torn tok d b e a p q v now = (d', Inr s)"
  shows "(\<exists>data. read_verified sha root d e = Inr data \<and> sha data = fe_sha256 e)
     \<and> seals sha s \<and> as_binding s = b \<and> as_evidence s = e
     \<and> (\<exists>x. read_events d' None = Inr (map json_norm es @ [x])
          \<and> event_field x ''event'' = VStr ''OPERATION_STARTED''
          \<and> event_field x ''operation_id'' = VStr (as_operation_id s)
          \<and> event_field x ''binding_digest'' = VStr (binding_digest sha b))"
proof -
  let ?e = "start_event sha (''mao_'' @ tok) b e (start_evidence_items a p q v) now"
  note i = begin_operation_Inr[OF assms(2)]
  from journal_log.success_is_durable[OF assms(1) start_event_ok i(2)]
  have "read_events d' None = Inr (map json_norm es @ [json_norm ?e])"
    using journal_log.read_holds by fastforce
  moreover have "event_field (json_norm ?e) ''event'' = VStr ''OPERATION_STARTED''"
    "event_field (json_norm ?e) ''operation_id'' = VStr (as_operation_id s)"
    "event_field (json_norm ?e) ''binding_digest'' = VStr (binding_digest sha b)"
    by (simp_all add: event_field_norm start_event_ok event_fields event_fields(1)[unfolded event_kind_def] i(1))
  moreover have "\<exists>data. read_verified sha root d e = Inr data \<and> sha data = fe_sha256 e"
    using i(3) by (auto simp: read_verified_def split: option.splits if_splits)
  ultimately show ?thesis using begun_seals[OF assms(2)] i(1) by auto
qed

theorem begin_writes_ahead_witness:
  "seals const_sha sample_start \<and> (\<exists>x. read_events sample_started_disk None = Inr [x]
     \<and> event_field x ''operation_id'' = VStr ''mao_1'')"
  using begin_writes_ahead[OF sample_started_facts(2) sample_begun] by (auto simp: sample_start_def)



text \<open>
  C23: FINISH tells of full closure. An operation is recorded as finished only with one of the
  four outcomes, only when the scope is terminal under the sealed digests, its job handle is
  closed, no process, job or write authority is left, and only by an unaltered handle; the
  event then reads back.
\<close>

theorem finish_requires_closure:
  assumes "journal_holds d es"
    and "finish_operation sha root torn tok d s st c rc ec now = (d', Inr ref)"
  shows "st \<in> {''succeeded'', ''failed'', ''timeout'', ''cancelled''} \<and> fc_scope_state c = ''terminal''
     \<and> fc_scope_digest c = ae_scope_digest (as_authority s)
     \<and> fc_protected_inventory_digest c = ae_protected_inventory_digest (as_authority s)
     \<and> fc_job_handle_closed c \<and> fc_job_active_process_count c = 0 \<and> fc_active_job_ids c = []
     \<and> fc_active_process_ids c = [] \<and> \<not> fc_sandbox_write_authority_present c \<and> seals sha s
     \<and> read_events d' None = Inr (map json_norm es @ [json_norm (finish_event s ref st rc ec c now)])"
proof -
  note i = finish_operation_Inr[OF assms(2)]
  from journal_log.success_is_durable[OF assms(1) finish_event_ok i(5)]
  have "read_events d' None = Inr (map json_norm es @ [json_norm (finish_event s ref st rc ec c now)])"
    using journal_log.read_holds by fastforce
  moreover have "seals sha s" using i(1) assert_start_identity_iff by blast
  ultimately show ?thesis using i(2,3) by (simp add: closure_complete_def finish_states_def)
qed

theorem finish_requires_closure_witness:
  "\<exists>d' ref. finish_operation const_sha sample_evidence_root None ''f'' sample_audit_disk sample_start ''succeeded''
       sample_closure (Some 0) None 0 = (d', Inr ref) \<and> fc_job_handle_closed sample_closure
     \<and> read_events d' None = Inr [json_norm (finish_event sample_start ref ''succeeded'' (Some 0) None sample_closure 0)]"
proof -
  have "\<exists>d' ref. finish_operation const_sha sample_evidence_root None ''f'' sample_audit_disk sample_start ''succeeded''
       sample_closure (Some 0) None 0 = (d', Inr ref)"
    by (simp add: finish_operation_def sample_asserted sample_checked finish_states_def durable_append_def Let_def)
  then obtain d' ref where c: "finish_operation const_sha sample_evidence_root None ''f'' sample_audit_disk sample_start
      ''succeeded'' sample_closure (Some 0) None 0 = (d', Inr ref)" by blast
  from finish_requires_closure[OF sample_started_facts(2) c] c show ?thesis by auto
qed

section \<open>Sealing and order\<close>









section \<open>Evidence\<close>

text \<open>
  C26: retained evidence stays readable for its whole retention. After a script is retained,
  the exact bytes are read back at once, and still after any later clean-up whose clock is not
  past the retention period counted from the file's time stamp; an empty script is never
  retained. The hash and the token are the lower-case hexadecimal text the code makes.
\<close>

theorem evidence_survives_retention:
  assumes "retain sha root days env d x now = (d1, Inr e)" "hex_text (sha x)" "hex_text (re_token env)"
    and "distinct (keys (ad_files d))"
    and "later \<le> re_mtime env + day_span days" "prune_expired root days stuck d1 later = (d2, r)"
  shows "read_verified sha root d1 e = Inr x \<and> read_verified sha root d2 e = Inr x \<and> x \<noteq> []
     \<and> fe_retained_until e = iso (now + day_span days)"
proof -
  note i = retain_Inr[OF assms(1)]
  have m: "map_of (ad_files d1) (fe_artifact_path e) = Some \<lparr>sf_bytes = x, sf_mtime = re_mtime env\<rparr>"
    by (simp add: i(5) put_file_def)
  have "distinct (keys (ad_files d1))" using assms(4) by (simp add: i(5) put_file_def distinct_update)
  from prune_keeps[OF assms(6) this m] assms(5)
  have "map_of (ad_files d2) (fe_artifact_path e) = map_of (ad_files d1) (fe_artifact_path e)" using m by simp
  from retained_readable[OF assms(1-3) this] retained_readable[OF assms(1-3) refl] i(1,7) show ?thesis by simp
qed

theorem evidence_survives_retention_witness:
  "read_verified const_sha sample_evidence_root
     (fst (prune_expired sample_evidence_root 30 (\<lambda>_. False) sample_audit_disk (day_span 30))) sample_evidence = Inr ''print()''"
proof -
  have "retain const_sha sample_evidence_root 30 sample_env (ar_disk audit_init) ''print()'' 0 = (sample_audit_disk, Inr sample_evidence)"
    using sample_retained_value by (simp add: sample_retained_def)
  from evidence_survives_retention[OF this, of "day_span 30" "\<lambda>_. False"] show ?thesis
    by (simp add: hex_text_def const_sha_def sample_env_def audit_init_def prod_eq_iff)
qed

section \<open>What is not sealed\<close>

text \<open>
  The second test of \<open>_assert_start_identity\<close> compares the hash of the bytes that
  \<open>read_verified\<close> returned with the hash \<open>read_verified\<close> has just compared: it never fails on
  its own. The evidence reference is in neither digest, so a handle whose evidence was
  exchanged for another intact artifact still passes.
\<close>

lemma exchanged_evidence_passes:
  assumes "seals sha s" "read_verified sha root d e = Inr x"
  shows "assert_start_identity sha root d (s\<lparr>as_evidence := e\<rparr>) = Inr ()"
  using assms by (auto simp: assert_start_identity_iff seals_def)

end
