(* ===== verification/LocalAudit.thy ===== *)
theory LocalAudit
  imports JsonParse
begin

text \<open>
  The per-host audit log (\<open>local_audit.py\<close>): one JSON line per operation, a retention check
  on a cadence, and a reader of the last lines that works backwards in blocks. The state is
  the text of the log, or none, and the cadence counters of the process. Time stamps are
  texts. A write may fail after any number of bytes, a trim may fail; both are arguments.
  Text is ASCII, so a byte is a character.
\<close>

section \<open>The entry text\<close>

text \<open>\<open>json.dumps(entry, ensure_ascii=False)\<close>: default separators, keys in insertion order.\<close>

fun dump :: "pyval \<Rightarrow> string"
  and dump_elems :: "pyval list \<Rightarrow> string"
  and dump_items :: "(string \<times> pyval) list \<Rightarrow> string" where
  "dump VNull = ''null''"
| "dump (VBool b) = (if b then ''true'' else ''false'')"
| "dump (VInt i) = show_int i"
| "dump (VStr s) = enc_str False s"
| "dump (VList vs) = CHR ''['' # (case vs of [] \<Rightarrow> '']'' | v # ws \<Rightarrow> dump v @ dump_elems ws)"
| "dump (VDict d) = CHR ''{'' # (case d of [] \<Rightarrow> ''}''
     | (k, v) # e \<Rightarrow> enc_str False k @ '': '' @ dump v @ dump_items e)"
| "dump_elems [] = '']''"
| "dump_elems (v # vs) = '', '' @ dump v @ dump_elems vs"
| "dump_items [] = ''}''"
| "dump_items ((k, v) # d) = '', '' @ enc_str False k @ '': '' @ dump v @ dump_items d"

definition MAX_LINES :: nat where "MAX_LINES = 5000"
definition TRIM_TRIGGER :: nat where "TRIM_TRIGGER = MAX_LINES + 500"
definition RETENTION_CHECK_EVERY :: nat where "RETENTION_CHECK_EVERY = 100"
definition TAIL_BLOCK_SIZE :: nat where "TAIL_BLOCK_SIZE = 64 * 1024"
definition SKIP_OPS :: "string list" where "SKIP_OPS = [''read_audit'', ''ping'']"

record audit_entry =
  en_timestamp :: string
  en_op :: string
  en_payload :: "(string \<times> pyval) list"
  en_ok :: bool
  en_error :: "string option"
  en_duration_ms :: "int option"
  en_result_ok :: "bool option"
  en_result_returncode :: "int option"

definition opt_val :: "('a \<Rightarrow> pyval) \<Rightarrow> 'a option \<Rightarrow> pyval" where
  "opt_val f x = (case x of None \<Rightarrow> VNull | Some y \<Rightarrow> f y)"

definition entry_value :: "audit_entry \<Rightarrow> pyval" where
  "entry_value e = VDict
    ([(''timestamp'', VStr (en_timestamp e)), (''op'', VStr (en_op e)), (''payload'', VDict (en_payload e)),
      (''ok'', VBool (en_ok e)), (''error'', opt_val VStr (en_error e)),
      (''duration_ms'', opt_val VInt (en_duration_ms e))]
     @ (case en_result_ok e of None \<Rightarrow> [] | Some b \<Rightarrow> [(''result_ok'', VBool b)])
     @ (case en_result_returncode e of None \<Rightarrow> [] | Some i \<Rightarrow> [(''result_returncode'', VInt i)]))"

section \<open>Recording\<close>

record audit_state =
  la_text :: "string option"
  la_checked :: bool
  la_writes :: nat

definition log_text :: "audit_state \<Rightarrow> string" where
  "log_text s = (case la_text s of None \<Rightarrow> [] | Some t \<Rightarrow> t)"

text \<open>The lines of a file, each with its newline; the last may have none.\<close>

fun file_lines :: "string \<Rightarrow> string list" where
  "file_lines [] = []"
| "file_lines (c # s) = (if c = CHR 0x0A then [c] # file_lines s
     else (case file_lines s of [] \<Rightarrow> [[c]] | w # ws \<Rightarrow> (c # w) # ws))"

text \<open>Reading in text mode turns every kind of line end into a newline.\<close>

fun universal :: "string \<Rightarrow> string" where
  "universal [] = []"
| "universal (c # s) = (if c = CHR 0x0D
     then CHR 0x0A # universal (if s \<noteq> [] \<and> hd s = CHR 0x0A then tl s else s) else c # universal s)"

definition last_n :: "nat \<Rightarrow> 'a list \<Rightarrow> 'a list" where
  "last_n n xs = drop (length xs - n) xs"

definition maybe_trim :: "bool \<Rightarrow> audit_state \<Rightarrow> audit_state" where
  "maybe_trim fails s =
     (if fails \<or> la_text s = None \<or> length (file_lines (log_text s)) \<le> TRIM_TRIGGER then s
      else s\<lparr>la_text := Some (concat (last_n MAX_LINES (file_lines (universal (log_text s)))))\<rparr>)"

definition should_check_retention :: "audit_state \<Rightarrow> bool \<times> audit_state" where
  "should_check_retention s =
     (if \<not> la_checked s then (True, s\<lparr>la_checked := True, la_writes := 0\<rparr>)
      else if RETENTION_CHECK_EVERY \<le> la_writes s + 1 then (True, s\<lparr>la_writes := 0\<rparr>)
      else (False, s\<lparr>la_writes := la_writes s + 1\<rparr>))"

definition audit_record :: "nat option \<Rightarrow> bool \<Rightarrow> audit_entry \<Rightarrow> audit_state \<Rightarrow> audit_state" where
  "audit_record torn trim_fails e s =
     (if en_op e \<in> set SKIP_OPS then s else
      let line = dump (entry_value e) @ [CHR 0x0A] in
      case torn of
        Some k \<Rightarrow> s\<lparr>la_text := Some (log_text s @ take k line)\<rparr>
      | None \<Rightarrow>
          (case should_check_retention (s\<lparr>la_text := Some (log_text s @ line)\<rparr>) of
             (check, s') \<Rightarrow> if check then maybe_trim trim_fails s' else s'))"

section \<open>Reading\<close>

text \<open>\<open>bytes.splitlines()\<close>.\<close>

fun byte_lines :: "string \<Rightarrow> string list" where
  "byte_lines [] = []"
| "byte_lines (c # s) =
     (if c = CHR 0x0A then [] # byte_lines s
      else if c = CHR 0x0D then [] # byte_lines (if s \<noteq> [] \<and> hd s = CHR 0x0A then tl s else s)
      else if s \<noteq> [] \<and> hd s \<in> {CHR 0x0A, CHR 0x0D} then [c] # tl (byte_lines s)
      else (case byte_lines s of [] \<Rightarrow> [[c]] | w # ws \<Rightarrow> (c # w) # ws))"

text \<open>The loop that reads backwards: \<open>text\<close> is the file, \<open>pos\<close> the start of what was read.\<close>

function read_back :: "nat \<Rightarrow> nat \<Rightarrow> string \<Rightarrow> nat \<Rightarrow> string \<Rightarrow> string" where
  "read_back block limit file pos buf =
     (if 0 < pos \<and> 0 < block \<and> count_list buf (CHR 0x0A) \<le> limit
      then let step = min block pos in
        read_back block limit file (pos - step) (take step (drop (pos - step) file) @ buf)
      else buf)"
  by pat_completeness auto
termination by (relation "measure (\<lambda>(block, limit, file, pos, buf). pos)") auto

declare read_back.simps [simp del]

definition read_tail_lines :: "nat \<Rightarrow> string \<Rightarrow> nat \<Rightarrow> string list" where
  "read_tail_lines block file limit = last_n limit (byte_lines (read_back block limit file (length file) []))"

fun parse_newest :: "string list \<Rightarrow> pyval list" where
  "parse_newest [] = []"
| "parse_newest (raw # rest) =
     (if strip raw = [] then parse_newest rest else
      case json_loads (strip raw) of None \<Rightarrow> parse_newest rest | Some v \<Rightarrow> v # parse_newest rest)"

definition clamp_limit :: "int \<Rightarrow> nat" where
  "clamp_limit limit = nat (max 1 (min limit (int MAX_LINES)))"

definition read_recent :: "audit_state \<Rightarrow> int \<Rightarrow> pyval list" where
  "read_recent s limit = (case la_text s of None \<Rightarrow> []
     | Some file \<Rightarrow> parse_newest (rev (read_tail_lines TAIL_BLOCK_SIZE file (clamp_limit limit))))"

section \<open>Lines of a file\<close>

fun wf_lines :: "string list \<Rightarrow> bool" where
  "wf_lines [] = True"
| "wf_lines [w] = (w \<noteq> [] \<and> CHR 0x0A \<notin> set (butlast w))"
| "wf_lines (w # v # ws) = ((\<exists>u. w = u @ [CHR 0x0A] \<and> CHR 0x0A \<notin> set u) \<and> wf_lines (v # ws))"

lemma wf_lines_Cons_newline:
  "CHR 0x0A \<notin> set u \<Longrightarrow> wf_lines ws \<Longrightarrow> wf_lines ((u @ [CHR 0x0A]) # ws)"
  by (cases ws) auto

lemma wf_file_lines: "wf_lines (file_lines t)"
proof (induction t)
  case (Cons c t)
  show ?case
  proof (cases "c = CHR 0x0A")
    case True
    then show ?thesis using Cons wf_lines_Cons_newline[of "[]"] by simp
  next
    case c: False
    show ?thesis
    proof (cases "file_lines t")
      case (Cons w ws)
      show ?thesis
      proof (cases ws)
        case Nil
        with \<open>wf_lines (file_lines t)\<close> c Cons show ?thesis by (cases w rule: rev_cases) auto
      next
        case ws: (Cons v vs)
        with \<open>wf_lines (file_lines t)\<close> Cons obtain u where "w = u @ [CHR 0x0A]" "CHR 0x0A \<notin> set u" "wf_lines ws" by auto
        with c Cons wf_lines_Cons_newline[of "c # u" ws] show ?thesis by simp
      qed
    qed (use c in simp)
  qed
qed simp

lemma concat_file_lines [simp]: "concat (file_lines t) = t"
  by (induction t) (auto split: list.splits)

lemma file_lines_line: "CHR 0x0A \<notin> set u \<Longrightarrow> file_lines (u @ CHR 0x0A # s) = (u @ [CHR 0x0A]) # file_lines s"
  by (induction u) auto

lemma file_lines_plain: "w \<noteq> [] \<Longrightarrow> CHR 0x0A \<notin> set w \<Longrightarrow> file_lines w = [w]"
proof (induction w)
  case (Cons c w)
  then show ?case by (cases "w = []") auto
qed simp

lemma file_lines_last: "w \<noteq> [] \<Longrightarrow> CHR 0x0A \<notin> set (butlast w) \<Longrightarrow> file_lines w = [w]"
  using file_lines_line[of "butlast w" "[]"] file_lines_plain[of w]
  by (cases w rule: rev_cases) (auto split: if_splits)

lemma file_lines_concat: "wf_lines ws \<Longrightarrow> file_lines (concat ws) = ws"
  by (induction ws rule: wf_lines.induct) (auto simp: file_lines_last file_lines_line)

lemma wf_lines_drop: "wf_lines ws \<Longrightarrow> wf_lines (drop n ws)"
proof (induction ws arbitrary: n)
  case (Cons w ws)
  then have "wf_lines ws" by (cases ws) auto
  with Cons show ?case by (cases n) auto
qed simp

lemma file_lines_append:
  "length (file_lines (t @ u @ [CHR 0x0A])) \<le> Suc (length (file_lines t))" if "CHR 0x0A \<notin> set u"
proof (induction t)
  case Nil
  then show ?case using file_lines_line[OF that, of "[]"] by simp
next
  case (Cons c t)
  then show ?case by (auto split: list.splits)
qed

section \<open>Retention\<close>

lemma dump_no_break:
  "\<forall>c \<in> set (dump v). printable False c"
  "\<forall>c \<in> set (dump_elems vs). printable False c"
  "\<forall>c \<in> set (dump_items d). printable False c"
proof -
  have p: "printable True c \<Longrightarrow> printable False c" for c by (simp add: printable_def)
  have marks: "\<forall>c \<in> set ''nulltruefalse[]{}, :\"''. printable False c" by (simp add: printable_def)
  have dg: "\<forall>c \<in> set (show_int i). printable False c" for i using printable_digits p by blast
  have "\<forall>x \<in> set (esc_char False c). printable False x" for c
  proof (cases "printable False c")
    case True
    then show ?thesis unfolding esc_char_def by (auto simp: p)
  next
    case False
    then have "esc_char False c = esc_char True c" by (auto simp: esc_char_def printable_def)
    then show ?thesis using printable_esc p by auto
  qed
  then have st: "\<forall>c \<in> set (enc_str False s). printable False c" for s
    using marks by (auto simp: enc_str_def)
  show "\<forall>c \<in> set (dump v). printable False c" "\<forall>c \<in> set (dump_elems vs). printable False c"
    "\<forall>c \<in> set (dump_items d). printable False c"
  proof (induction v and vs and d rule: dump_dump_elems_dump_items.induct)
    case (5 vs) then show ?case using marks by (cases vs) auto
  next
    case (6 d) then show ?case using marks st by (cases d) auto
  qed (use dg st marks in auto)
qed

lemma dump_one_line: "CHR 0x0A \<notin> set (dump v)" "CHR 0x0D \<notin> set (dump v)"
  using dump_no_break(1)[of v] by (auto simp: printable_def)

lemma length_last_n: "length (last_n n xs) = min n (length xs)"
  by (auto simp: last_n_def)

lemma trimmed_lines: "file_lines (concat (last_n n (file_lines t))) = last_n n (file_lines t)"
  unfolding last_n_def by (intro file_lines_concat wf_lines_drop wf_file_lines)

definition line_count :: "audit_state \<Rightarrow> nat" where
  "line_count s = length (file_lines (log_text s))"

lemma maybe_trim_count: "line_count (maybe_trim False s) \<le> TRIM_TRIGGER"
  by (auto simp: maybe_trim_def line_count_def log_text_def trimmed_lines length_last_n TRIM_TRIGGER_def)

lemma maybe_trim_counters [simp]:
  "la_checked (maybe_trim b s) = la_checked s" "la_writes (maybe_trim b s) = la_writes s"
  by (simp_all add: maybe_trim_def)

definition retention_ok :: "audit_state \<Rightarrow> bool" where
  "retention_ok s \<longleftrightarrow> la_writes s < RETENTION_CHECK_EVERY
     \<and> (la_checked s \<longrightarrow> line_count s \<le> TRIM_TRIGGER + la_writes s)"

lemma audit_record_retention:
  assumes "retention_ok s" shows "retention_ok (audit_record None False e s)"
    "en_op e \<notin> set SKIP_OPS \<Longrightarrow> la_checked (audit_record None False e s)"
proof -
  let ?s = "s\<lparr>la_text := Some (log_text s @ dump (entry_value e) @ [CHR 0x0A])\<rparr>"
  have count: "line_count ?s \<le> Suc (line_count s)"
    using file_lines_append[OF dump_one_line(1)] by (simp add: line_count_def log_text_def)
  have "retention_ok (audit_record None False e s) \<and> la_checked (audit_record None False e s)"
    if "en_op e \<notin> set SKIP_OPS"
  proof -
    consider "\<not> la_checked s" | "la_checked s" "RETENTION_CHECK_EVERY \<le> la_writes s + 1"
      | "la_checked s" "la_writes s + 1 < RETENTION_CHECK_EVERY" by linarith
    then show ?thesis
    proof cases
      case 3
      then have "audit_record None False e s = ?s\<lparr>la_writes := la_writes s + 1\<rparr>"
        using that by (simp add: audit_record_def should_check_retention_def Let_def)
      moreover have "line_count (?s\<lparr>la_writes := la_writes s + 1\<rparr>) = line_count ?s"
        by (simp add: line_count_def log_text_def)
      ultimately show ?thesis using 3 count assms by (simp add: retention_ok_def)
    next
      case 1
      then have "audit_record None False e s = maybe_trim False (?s\<lparr>la_checked := True, la_writes := 0\<rparr>)"
        using that by (simp add: audit_record_def should_check_retention_def Let_def)
      then show ?thesis using maybe_trim_count by (simp add: retention_ok_def RETENTION_CHECK_EVERY_def)
    next
      case 2
      then have "audit_record None False e s = maybe_trim False (?s\<lparr>la_writes := 0\<rparr>)"
        using that by (simp add: audit_record_def should_check_retention_def Let_def)
      then show ?thesis using maybe_trim_count 2 by (simp add: retention_ok_def RETENTION_CHECK_EVERY_def)
    qed
  qed
  then show "retention_ok (audit_record None False e s)"
    "en_op e \<notin> set SKIP_OPS \<Longrightarrow> la_checked (audit_record None False e s)"
    using assms by (auto simp: audit_record_def)
qed

text \<open>The log after a sequence of operations of one process.\<close>

definition record_all :: "audit_entry list \<Rightarrow> audit_state \<Rightarrow> audit_state" where
  "record_all es s = fold (audit_record None False) es s"

lemma audit_record_checked: "la_checked s \<Longrightarrow> la_checked (audit_record torn b e s)"
  by (auto simp: audit_record_def should_check_retention_def Let_def split: option.split)

lemma record_all_retention:
  assumes "retention_ok s"
  shows "retention_ok (record_all es s)"
    "la_checked s \<or> (\<exists>e \<in> set es. en_op e \<notin> set SKIP_OPS) \<Longrightarrow> la_checked (record_all es s)"
  using assms
proof (induction es arbitrary: s)
  case (Cons e es)
  { case 1 show ?case using Cons.IH(1) audit_record_retention(1)[OF 1] by (simp add: record_all_def) }
  { case 2
    then have "la_checked (audit_record None False e s) \<or> (\<exists>e \<in> set es. en_op e \<notin> set SKIP_OPS)"
      using audit_record_retention(2) audit_record_checked by auto
    with Cons.IH(2)[OF _ audit_record_retention(1)[OF 2(2)]] show ?case by (simp add: record_all_def) }
qed (simp_all add: record_all_def)

section \<open>The tail reader\<close>

lemma read_back_suffix:
  assumes "0 < block" "buf = drop pos file" "pos \<le> length file"
  shows "\<exists>k. read_back block limit file pos buf = drop k file
     \<and> (k = 0 \<or> limit < count_list (drop k file) (CHR 0x0A))"
  using assms(2,3)
proof (induction pos arbitrary: buf rule: less_induct)
  case (less pos)
  show ?case
  proof (cases "0 < pos \<and> count_list buf (CHR 0x0A) \<le> limit")
    case True
    let ?step = "min block pos"
    have step: "0 < ?step" "?step \<le> pos" using True assms(1) by auto
    have "take ?step (drop (pos - ?step) file) @ buf = drop (pos - ?step) file"
    proof -
      have "?step + (pos - ?step) = pos" using step by simp
      then have "buf = drop ?step (drop (pos - ?step) file)" using less(2) by (simp add: drop_drop)
      then show ?thesis by (simp only: append_take_drop_id)
    qed
    moreover have "read_back block limit file pos buf
        = read_back block limit file (pos - ?step) (take ?step (drop (pos - ?step) file) @ buf)"
      using True assms(1) by (subst read_back.simps) (simp add: Let_def)
    moreover have "pos - ?step < pos" "pos - ?step \<le> length file" using step less(3) by linarith+
    ultimately show ?thesis using less(1)[of "pos - ?step" "drop (pos - ?step) file"] by simp
  next
    case False
    then have "read_back block limit file pos buf = buf" by (subst read_back.simps) auto
    with False less(2) show ?thesis by (intro exI[of _ pos]) auto
  qed
qed

lemma byte_lines_return:
  "byte_lines (CHR 0x0D # s) = [] # byte_lines (if s \<noteq> [] \<and> hd s = CHR 0x0A then tl s else s)"
  by simp

lemma byte_lines_newline: "byte_lines (a @ CHR 0x0A # v) = byte_lines (a @ [CHR 0x0A]) @ byte_lines v"
proof (induction a rule: length_induct)
  case (1 a)
  show ?case
  proof (cases a)
    case (Cons c b)
    have ih: "byte_lines (b @ CHR 0x0A # v) = byte_lines (b @ [CHR 0x0A]) @ byte_lines v" using 1 Cons by simp
    have ne: "byte_lines (b @ [CHR 0x0A]) \<noteq> []" by (cases b) (auto split: list.splits)
    show ?thesis
    proof (cases "c = CHR 0x0D")
      case True
      show ?thesis
      proof (cases b)
        case (Cons d b')
        then have "byte_lines (b' @ CHR 0x0A # v) = byte_lines (b' @ [CHR 0x0A]) @ byte_lines v"
          using 1 \<open>a = c # b\<close> by simp
        have "byte_lines (a @ x) = [] # byte_lines (if d = CHR 0x0A then b' @ x else b @ x)" for x
          using True Cons \<open>a = c # b\<close> by (simp add: byte_lines_return del: byte_lines.simps)
        with \<open>byte_lines (b' @ CHR 0x0A # v) = byte_lines (b' @ [CHR 0x0A]) @ byte_lines v\<close> ih show ?thesis
          by (simp del: byte_lines.simps)
      qed (use True Cons in simp)
    next
      case False
      have hd: "hd (b @ CHR 0x0A # v) = hd (b @ [CHR 0x0A])" by (cases b) auto
      obtain w ws where "byte_lines (b @ [CHR 0x0A]) = w # ws" using ne by (cases "byte_lines (b @ [CHR 0x0A])") auto
      with ih hd False Cons show ?thesis by auto
    qed
  qed simp
qed

lemma byte_lines_count: "count_list s (CHR 0x0A) \<le> length (byte_lines s)"
proof (induction s rule: length_induct)
  case (1 s)
  show ?case
  proof (cases "CHR 0x0A \<in> set s")
    case True
    then obtain a v where s: "s = a @ CHR 0x0A # v" "CHR 0x0A \<notin> set a" by (meson split_list_first)
    have "byte_lines (a @ [CHR 0x0A]) \<noteq> []" by (cases a) (auto split: list.splits)
    then have "Suc (length (byte_lines v)) \<le> length (byte_lines s)"
      using byte_lines_newline[of a v] s(1) by (cases "byte_lines (a @ [CHR 0x0A])") auto
    moreover have "count_list v (CHR 0x0A) \<le> length (byte_lines v)" using 1 s(1) by simp
    moreover have "count_list s (CHR 0x0A) = Suc (count_list v (CHR 0x0A))" using s by simp
    ultimately show ?thesis by linarith
  next
    case False
    then show ?thesis by simp
  qed
qed

lemma last_n_append: "n \<le> length ys \<Longrightarrow> last_n n (xs @ ys) = last_n n ys"
  by (simp add: last_n_def)

lemma tail_lines_suffix:
  assumes "limit < count_list (drop k file) (CHR 0x0A)"
  shows "last_n limit (byte_lines (drop k file)) = last_n limit (byte_lines file)"
proof -
  have "CHR 0x0A \<in> set (drop k file)" using assms count_notin by fastforce
  then obtain u v where uv: "drop k file = u @ CHR 0x0A # v" "CHR 0x0A \<notin> set u" by (meson split_list_first)
  then have "limit \<le> count_list v (CHR 0x0A)" using assms by simp
  then have len: "limit \<le> length (byte_lines v)" using byte_lines_count[of v] by linarith
  have "file = (take k file @ u) @ CHR 0x0A # v" using uv(1) by (metis append.assoc append_take_drop_id)
  then have "byte_lines file = byte_lines ((take k file @ u) @ [CHR 0x0A]) @ byte_lines v"
    by (metis byte_lines_newline)
  moreover have "byte_lines (drop k file) = byte_lines (u @ [CHR 0x0A]) @ byte_lines v"
    using byte_lines_newline[of u v] uv(1) by simp
  ultimately show ?thesis by (simp add: last_n_append len)
qed

end
