(* ===== verification/Dispatch.thy ===== *)
theory Dispatch
  imports LocalAudit Lineage ExecHandler
begin








text \<open>The counts of the hello message; a policy that does not load gives none.\<close>

definition config_summary :: "policy py \<Rightarrow> (string \<times> int) list" where
  "config_summary p = (case p of Inl _ \<Rightarrow> [] | Inr q \<Rightarrow>
     [(''allowed_command_count'', int (length (pol_allowed_commands q))),
      (''file_ops_path_count'', int (length (pol_file_ops_paths q))),
      (''file_ops_rw_count'', int (length (filter (\<lambda>e. fp_access e = ''rw'') (pol_file_ops_paths q)))),
      (''service_count'', int (length (pol_services q))),
      (''playbook_count'', int (length (pol_playbooks q))),
      (''trusted_fetch_host_count'', int (length (pol_trusted_fetch_hosts q))),
      (''exec_timeout_default'', pol_exec_timeout_default q),
      (''exec_timeout_max'', pol_exec_timeout_max q)])"

definition executor_preferred_profile :: "policy py \<Rightarrow> string option" where
  "executor_preferred_profile p = (case p of Inl _ \<Rightarrow> None | Inr q \<Rightarrow> pol_preferred_profile q)"

section \<open>Properties\<close>

text \<open>
  C27: reading the tail backwards loses nothing. For any file, any block size and any positive
  limit, the lines the block-wise reader returns are exactly the last lines of the whole file,
  whether or not the last one is complete and however long the lines are.
\<close>

theorem tail_reader_exact:
  assumes "0 < block" "0 < limit"
  shows "read_tail_lines block file limit = last_n limit (byte_lines file)"
proof -
  obtain k where k: "read_back block limit file (length file) [] = drop k file"
    "k = 0 \<or> limit < count_list (drop k file) (CHR 0x0A)"
    using read_back_suffix[where block = block and limit = limit and buf = "[]" and pos = "length file"] assms(1) by auto
  then show ?thesis using tail_lines_suffix[of limit k "file"] by (auto simp: read_tail_lines_def)
qed

theorem tail_reader_exact_witness:
  "read_tail_lines 2 (''a'' @ [CHR 0x0A] @ ''bcd'' @ [CHR 0x0A] @ ''e'') 2 = [''bcd'', ''e'']"
proof -
  have "last_n 2 (byte_lines (''a'' @ [CHR 0x0A] @ ''bcd'' @ [CHR 0x0A] @ ''e'')) = [''bcd'', ''e'']" by code_simp
  with tail_reader_exact[of 2 2 "''a'' @ [CHR 0x0A] @ ''bcd'' @ [CHR 0x0A] @ ''e''"] show ?thesis by simp
qed









end
