(* ===== verification/ScriptRun.thy ===== *)
theory ScriptRun
  imports ExecHandler Identity
begin

text \<open>
  The unprofiled \<open>script_run\<close> handler (\<open>handlers/script.py\<close>) and its staging directory
  (\<open>staging.py\<close>): validation, the work directory and script name, the argument vector (with
  \<open>sudo\<close>, the interpreters and the Windows bootstrap), the environment, and the answer for
  each way the child can end. The host is a record: platform, environment, which interpreters
  are found, which directories can be made. Durations and the decoding of output are left
  out; paths are POSIX paths.
\<close>

datatype errno = ENOSPC | EACCES | EPERM | EROFS | OtherErrno

record script_host =
  sh_windows :: bool
  sh_environ :: "(string \<times> string) list"
  sh_which :: "string \<Rightarrow> string option"
  sh_console_python :: string
  sh_script_id :: string
  sh_tempdir :: path
  sh_mkdir :: "path \<Rightarrow> errno option"
  sh_write :: "path \<Rightarrow> errno option"

section \<open>Staging\<close>

definition staging_dirname :: string where "staging_dirname = ''.sentinelx_uploads''"

definition fallback_root :: "script_host \<Rightarrow> path" where
  "fallback_root h = path_child (path_child (sh_tempdir h) ''sentinelx-staging'') staging_dirname"

definition staging_root :: "script_host \<Rightarrow> path \<Rightarrow> path py" where
  "staging_root h upload_base =
     (case sh_mkdir h (path_child upload_base staging_dirname) of
        None \<Rightarrow> Inr (path_child upload_base staging_dirname)
      | Some _ \<Rightarrow> (case sh_mkdir h (fallback_root h) of
          None \<Rightarrow> Inr (fallback_root h) | Some _ \<Rightarrow> Inl OSError))"

definition staging_oserror :: "errno \<Rightarrow> handler_exn" where
  "staging_oserror e = HandlerError (case e of ENOSPC \<Rightarrow> ''no_space''
     | EACCES \<Rightarrow> ''permission_denied'' | EPERM \<Rightarrow> ''permission_denied''
     | EROFS \<Rightarrow> ''read_only_filesystem'' | OtherErrno \<Rightarrow> ''staging_failed'') (VDict [])"

section \<open>The request\<close>

definition TIMEOUT_MIN :: int where "TIMEOUT_MIN = 1"
definition TIMEOUT_MAX :: int where "TIMEOUT_MAX = 600"
definition ALLOWED_INTERPRETERS :: "string list" where
  "ALLOWED_INTERPRETERS = [''bash'', ''python3'', ''powershell'', ''pwsh'']"
definition powershell_interpreters :: "string list" where
  "powershell_interpreters = [''powershell'', ''pwsh'']"

abbreviation invalid_payload :: handler_exn where
  "invalid_payload \<equiv> HandlerError ''invalid_payload'' (VDict [])"

fun text_list :: "pyval list \<Rightarrow> string list option" where
  "text_list [] = Some []"
| "text_list (VStr s # vs) = map_option ((#) s) (text_list vs)"
| "text_list (v # vs) = None"

fun text_items :: "(string \<times> pyval) list \<Rightarrow> (string \<times> string) list option" where
  "text_items [] = Some []"
| "text_items ((k, VStr s) # d) = map_option ((#) (k, s)) (text_items d)"
| "text_items ((k, v) # d) = None"

definition args_of :: "pyval \<Rightarrow> string list handler" where
  "args_of v = (case py_or v (VList []) of
     VList vs \<Rightarrow> of_option invalid_payload (text_list vs) | _ \<Rightarrow> Inl invalid_payload)"

text \<open>\<open>env.items()\<close> of a value that is not a mapping raises.\<close>

definition env_of :: "pyval \<Rightarrow> (string \<times> string) list handler" where
  "env_of v = (case py_or v (VDict []) of
     VDict d \<Rightarrow> of_option invalid_payload (text_items d) | _ \<Rightarrow> Inl (Raised AttributeError))"

record script_request =
  sq_interpreter :: string
  sq_content :: pyval
  sq_args :: "string list"
  sq_cwd :: pyval
  sq_timeout :: int
  sq_sudo :: bool
  sq_cleanup :: bool
  sq_filename :: pyval
  sq_env :: "(string \<times> string) list"

definition parse_script_request :: "(string \<times> pyval) list \<Rightarrow> script_request handler" where
  "parse_script_request payload =
     rbind (raising (py_int (dget_default payload ''timeout'' (VInt 60)))) (\<lambda>timeout.
     let background = truthy (dget_default payload ''background'' (VBool False));
         content = dget payload ''content'' in
     case dget payload ''interpreter'' of
       VStr interpreter \<Rightarrow>
        (if interpreter \<notin> set ALLOWED_INTERPRETERS then Inl invalid_payload
         else if \<not> truthy content \<or> strip (py_str content) = [] then Inl invalid_payload
         else if timeout < TIMEOUT_MIN \<or> timeout > (if background then BACKGROUND_TIMEOUT_MAX else TIMEOUT_MAX)
           then Inl invalid_payload
         else rbind (args_of (dget payload ''args'')) (\<lambda>args.
              rbind (env_of (dget payload ''env'')) (\<lambda>env.
              Inr \<lparr>sq_interpreter = interpreter, sq_content = content, sq_args = args,
                sq_cwd = dget payload ''cwd'', sq_timeout = timeout,
                sq_sudo = truthy (dget_default payload ''sudo'' (VBool False)),
                sq_cleanup = truthy (dget_default payload ''cleanup'' (VBool True)),
                sq_filename = dget payload ''filename'', sq_env = env\<rparr>)))
     | _ \<Rightarrow> Inl invalid_payload)"

section \<open>The job\<close>

definition script_extension :: "string \<Rightarrow> string" where
  "script_extension i = (if i = ''bash'' then ''sh'' else if i = ''python3'' then ''py''
     else if i \<in> set powershell_interpreters then ''ps1'' else ''txt'')"

definition default_script_name :: "string \<Rightarrow> string" where
  "default_script_name i = ''script.'' @ script_extension i"

text \<open>Only the last component of a requested name is used, and not when it is hidden.\<close>

definition safe_script_name :: "string \<Rightarrow> pyval \<Rightarrow> string py" where
  "safe_script_name i v =
     (if \<not> truthy v then Inr (default_script_name i) else
      case v of VStr s \<Rightarrow>
        (let n = path_name (path_of_text s) in
         Inr (if n = [] \<or> startswith n ''.'' then default_script_name i else n))
      | _ \<Rightarrow> Inl TypeError)"

definition chdir_snippet :: string where
  "chdir_snippet = ''cd \"$1\" || { echo \"sentinelx: cannot enter $1\" >&2; exit 126; }; shift; exec \"$@\"''"

definition powershell_flags :: "string list" where
  "powershell_flags = [''-NoProfile'', ''-NonInteractive'', ''-ExecutionPolicy'', ''Bypass'', ''-File'']"

definition interpreter_argv :: "script_host \<Rightarrow> string \<Rightarrow> path \<Rightarrow> path \<Rightarrow> string list" where
  "interpreter_argv h i workdir script =
     (if i = ''bash'' then [''bash'', path_text script]
      else if i = ''python3'' then [if sh_windows h then sh_console_python h else ''python3'', path_text script]
      else let exe = (case sh_which h i of Some e \<Rightarrow> if e = [] then i else e | None \<Rightarrow> i) in
        if sh_windows h \<and> i = ''powershell''
        then exe # powershell_flags @ [path_text (path_child workdir ''sentinelx_bootstrap.ps1''), path_text script]
        else exe # powershell_flags @ [path_text script])"

record script_job =
  sj_workdir :: path
  sj_script :: path
  sj_bom :: bool
  sj_bootstrap :: bool
  sj_argv :: "string list"
  sj_env :: "(string \<times> string) list"
  sj_spawn_cwd :: pyval
  sj_timeout :: int

definition script_env :: "script_host \<Rightarrow> script_request \<Rightarrow> (string \<times> string) list" where
  "script_env h q =
     (let full = fold (\<lambda>(k, v). AList.update k v) (sq_env q) (sh_environ h) in
      if sq_interpreter q = ''python3'' \<and> sh_windows h \<and> map_of full ''PYTHONIOENCODING'' = None
      then full @ [(''PYTHONIOENCODING'', ''utf-8'')] else full)"

definition use_sudo :: "script_host \<Rightarrow> script_request \<Rightarrow> bool" where
  "use_sudo h q \<longleftrightarrow> sq_sudo q \<and> \<not> sh_windows h"

definition script_argv :: "script_host \<Rightarrow> script_request \<Rightarrow> path \<Rightarrow> path \<Rightarrow> string list" where
  "script_argv h q workdir script =
     (let run = interpreter_argv h (sq_interpreter q) workdir script @ sq_args q in
      if \<not> use_sudo h q then run
      else if truthy (sq_cwd q)
        then [''sudo'', ''sh'', ''-c'', chdir_snippet, ''sh'', py_str (sq_cwd q)] @ run
      else ''sudo'' # run)"

definition make_job :: "script_host \<Rightarrow> script_request \<Rightarrow> path \<Rightarrow> string \<Rightarrow> script_job" where
  "make_job h q workdir name =
     (let script = path_child workdir name in
      \<lparr>sj_workdir = workdir, sj_script = script,
       sj_bom = (sh_windows h \<and> sq_interpreter q \<in> set powershell_interpreters),
       sj_bootstrap = (sh_windows h \<and> sq_interpreter q = ''powershell''),
       sj_argv = script_argv h q workdir script, sj_env = script_env h q,
       sj_spawn_cwd = (if use_sudo h q \<and> truthy (sq_cwd q) then VNull else sq_cwd q),
       sj_timeout = sq_timeout q\<rparr>)"

text \<open>How the child ends. The text of a spawn failure is the file name of the exception.\<close>

datatype child_outcome =
    Exited int string string
  | TimedOut
  | SpawnPermission string
  | SpawnNotADirectory string
  | SpawnNotFound string

definition no_output :: string where "no_output = ''Sin salida''"

definition script_response :: "script_request \<Rightarrow> script_job \<Rightarrow> bool \<Rightarrow> string \<Rightarrow> int \<Rightarrow> (string \<times> pyval) list \<Rightarrow> pyval" where
  "script_response q j ok output rc extra = VDict
     ([(''ok'', VBool ok), (''interpreter'', VStr (sq_interpreter q)), (''sudo'', VBool (sq_sudo q)),
       (''cwd'', sq_cwd q), (''cleanup'', VBool (sq_cleanup q)), (''command'', VList (map VStr (sj_argv j))),
       (''output'', VStr output), (''returncode'', VInt rc)] @ extra)"

definition or_text :: "string \<Rightarrow> string \<Rightarrow> string" where
  "or_text s d = (if s = [] then d else s)"

definition cwd_failure :: "script_job \<Rightarrow> string \<Rightarrow> string \<Rightarrow> pyval handler" where
  "cwd_failure j filename code =
     (if truthy (sj_spawn_cwd j) \<and> filename = py_str (sj_spawn_cwd j)
      then Inl (HandlerError code (VDict [])) else Inl (Raised OSError))"

definition script_result :: "script_request \<Rightarrow> script_job \<Rightarrow> child_outcome \<Rightarrow> pyval handler" where
  "script_result q j c = (case c of
     SpawnPermission f \<Rightarrow> cwd_failure j f ''permission_denied''
   | SpawnNotADirectory f \<Rightarrow> cwd_failure j f ''not_a_directory''
   | SpawnNotFound f \<Rightarrow> cwd_failure j f ''not_found''
   | TimedOut \<Rightarrow> Inr (script_response q j False ''Timeout'' (-1) [(''timed_out'', VBool True)])
   | Exited rc out err \<Rightarrow>
       Inr (script_response q j (rc = 0) (or_text (strip (strip out @ [CHR 0x0A] @ strip err)) no_output) rc
         (if sq_cleanup q then [] else [(''script_path'', VStr (path_text (sj_script j))),
            (''workdir'', VStr (path_text (sj_workdir j)))])))"

text \<open>
  The handler: the directory it leaves behind, if any, and its result. \<open>child\<close> is what
  running the job does. Once the work directory exists it is removed on every path out,
  unless the caller asked to keep it.
\<close>

definition handle_script_run ::
  "script_host \<Rightarrow> path \<Rightarrow> (script_job \<Rightarrow> child_outcome) \<Rightarrow> (string \<times> pyval) list \<Rightarrow> path option \<times> pyval handler" where
  "handle_script_run h upload_base child payload =
     (case parse_script_request payload of Inl e \<Rightarrow> (None, Inl e) | Inr q \<Rightarrow>
      case staging_root h upload_base of Inl e \<Rightarrow> (None, Inl (Raised e)) | Inr tmp_root \<Rightarrow>
      let workdir = path_child tmp_root (''script_job_'' @ sh_script_id h);
          left = (if sq_cleanup q then None else Some workdir) in
      case sh_mkdir h workdir of Some e \<Rightarrow> (None, Inl (staging_oserror e)) | None \<Rightarrow>
      case safe_script_name (sq_interpreter q) (sq_filename q) of Inl e \<Rightarrow> (Some workdir, Inl (Raised e)) | Inr name \<Rightarrow>
      if \<not> is_str (sq_content q) then (left, Inl (Raised TypeError)) else
      case sh_write h (path_child workdir name) of Some e \<Rightarrow> (left, Inl (staging_oserror e)) | None \<Rightarrow>
      let j = make_job h q workdir name in (left, script_result q j (child j)))"

section \<open>Properties\<close>

lemma path_of_text_parts: "w \<in> set (parts (path_of_text s)) \<Longrightarrow> CHR ''/'' \<notin> set w \<and> w \<noteq> [] \<and> w \<noteq> ''.''"
proof -
  have "w \<in> set (split_char c s) \<Longrightarrow> c \<notin> set w" for c
    by (induction s arbitrary: w) (auto split: list.splits if_splits)
  then show "w \<in> set (parts (path_of_text s)) \<Longrightarrow> ?thesis" by (auto simp: path_of_text_def)
qed

lemma path_of_text_plain:
  assumes "w \<noteq> []" "w \<noteq> ''.''" "CHR ''/'' \<notin> set w" shows "path_of_text w = Path False [w]"
proof -
  have "\<not> startswith w ''/''" using assms by (cases w) (auto simp: startswith_def)
  with assms show ?thesis by (simp add: path_of_text_def split_char_word)
qed

lemma extension_plain: "CHR ''/'' \<notin> set (script_extension i)"
  by (simp add: script_extension_def)

lemma safe_script_name_plain:
  assumes "safe_script_name i v = Inr n"
  shows "n \<noteq> [] \<and> \<not> startswith n ''.'' \<and> CHR ''/'' \<notin> set n"
proof -
  have d: "default_script_name i \<noteq> [] \<and> \<not> startswith (default_script_name i) ''.'' \<and> CHR ''/'' \<notin> set (default_script_name i)"
    using extension_plain by (simp add: default_script_name_def startswith_def)
  have "CHR ''/'' \<notin> set (path_name (path_of_text s))" for s
    using path_of_text_parts[of "last (parts (path_of_text s))" s] by (auto simp: path_name_def)
  with assms d show ?thesis by (auto simp: safe_script_name_def Let_def split: pyval.splits if_splits)
qed

lemma handle_script_run_job:
  assumes "handle_script_run h base child payload = (left, Inr v)"
  shows "\<exists>q root name. parse_script_request payload = Inr q \<and> staging_root h base = Inr root
     \<and> safe_script_name (sq_interpreter q) (sq_filename q) = Inr name
     \<and> script_result q (make_job h q (path_child root (''script_job_'' @ sh_script_id h)) name)
          (child (make_job h q (path_child root (''script_job_'' @ sh_script_id h)) name)) = Inr v
     \<and> left = (if sq_cleanup q then None else Some (path_child root (''script_job_'' @ sh_script_id h)))"
  using assms by (auto simp: handle_script_run_def Let_def split: sum.splits option.splits if_splits)

lemma parse_script_request_Inr:
  assumes "parse_script_request payload = Inr q"
  shows "sq_interpreter q \<in> set ALLOWED_INTERPRETERS" "1 \<le> sq_timeout q" "sq_timeout q \<le> 3600"
    "\<not> truthy (dget_default payload ''background'' (VBool False)) \<Longrightarrow> sq_timeout q \<le> 600"
    "strip (py_str (sq_content q)) \<noteq> []"
proof -
  obtain t where t: "py_int (dget_default payload ''timeout'' (VInt 60)) = Inr t"
    using assms by (auto simp: parse_script_request_def rbind_Inr_iff raising_iff)
  obtain i where i: "dget payload ''interpreter'' = VStr i"
    using assms by (cases "dget payload ''interpreter''") (auto simp: parse_script_request_def rbind_Inr_iff Let_def)
  have "i \<in> set ALLOWED_INTERPRETERS \<and> strip (py_str (dget payload ''content'')) \<noteq> [] \<and> 1 \<le> t
      \<and> t \<le> (if truthy (dget_default payload ''background'' (VBool False)) then 3600 else 600)
      \<and> sq_interpreter q = i \<and> sq_timeout q = t \<and> sq_content q = dget payload ''content''"
    using assms unfolding parse_script_request_def t i raising_simps rbind_simps pyval.case Let_def
    by (clarsimp simp: rbind_Inr_iff TIMEOUT_MIN_def TIMEOUT_MAX_def BACKGROUND_TIMEOUT_MAX_def split: if_split_asm)
  then show "sq_interpreter q \<in> set ALLOWED_INTERPRETERS" "1 \<le> sq_timeout q" "sq_timeout q \<le> 3600"
    "\<not> truthy (dget_default payload ''background'' (VBool False)) \<Longrightarrow> sq_timeout q \<le> 600"
    "strip (py_str (sq_content q)) \<noteq> []"
    by (auto split: if_splits)
qed

text \<open>
  C30: what an unprofiled script can touch. When a script runs, its interpreter is one of the
  four, its time is bounded by ten minutes (an hour in the background), and its file sits
  directly in the job's fresh directory under the staging root, whatever name was asked for.
  The shell text run under sudo is the one constant snippet: interpreter, script, directory and
  caller arguments follow it as positional arguments. The directory is removed unless the
  caller asked to keep it.
\<close>

theorem script_run_contained:
  assumes "handle_script_run h base child payload = (left, Inr v)"
  shows "\<exists>q j root name. parse_script_request payload = Inr q \<and> staging_root h base = Inr root
     \<and> sq_interpreter q \<in> {''bash'', ''python3'', ''powershell'', ''pwsh''}
     \<and> script_result q j (child j) = Inr v
     \<and> 1 \<le> sj_timeout j \<and> sj_timeout j \<le> (if truthy (dget_default payload ''background'' (VBool False)) then 3600 else 600)
     \<and> sj_workdir j = path_child root (''script_job_'' @ sh_script_id h)
     \<and> sj_script j = Path (is_absolute (sj_workdir j)) (parts (sj_workdir j) @ [name])
     \<and> CHR ''/'' \<notin> set name \<and> \<not> startswith name ''.''
     \<and> sj_argv j = (if \<not> use_sudo h q then [] else ''sudo'' # (if truthy (sq_cwd q)
            then [''sh'', ''-c'', chdir_snippet, ''sh'', py_str (sq_cwd q)] else []))
          @ interpreter_argv h (sq_interpreter q) (sj_workdir j) (sj_script j) @ sq_args q
     \<and> left = (if sq_cleanup q then None else Some (sj_workdir j))"
proof -
  obtain q root name where q: "parse_script_request payload = Inr q" "staging_root h base = Inr root"
    "safe_script_name (sq_interpreter q) (sq_filename q) = Inr name"
    and v: "script_result q (make_job h q (path_child root (''script_job_'' @ sh_script_id h)) name)
          (child (make_job h q (path_child root (''script_job_'' @ sh_script_id h)) name)) = Inr v"
    and l: "left = (if sq_cleanup q then None else Some (path_child root (''script_job_'' @ sh_script_id h)))"
    using handle_script_run_job[OF assms] by blast
  define j where "j = make_job h q (path_child root (''script_job_'' @ sh_script_id h)) name"
  have j: "sj_workdir j = path_child root (''script_job_'' @ sh_script_id h)" "sj_timeout j = sq_timeout q"
    "sj_script j = path_child (sj_workdir j) name" "sj_argv j = script_argv h q (sj_workdir j) (sj_script j)"
    by (simp_all add: j_def make_job_def Let_def)
  note n = safe_script_name_plain[OF q(3)]
  have ndot: "name \<noteq> ''.''" using n by (auto simp: startswith_def)
  have p: "path_of_text name = Path False [name]" using path_of_text_plain[of name] n ndot by blast
  have script: "sj_script j = Path (is_absolute (sj_workdir j)) (parts (sj_workdir j) @ [name])"
    unfolding j(3) by (simp add: path_child_def path_join_def p)
  have argv: "sj_argv j = (if \<not> use_sudo h q then [] else ''sudo'' # (if truthy (sq_cwd q)
            then [''sh'', ''-c'', chdir_snippet, ''sh'', py_str (sq_cwd q)] else []))
          @ interpreter_argv h (sq_interpreter q) (sj_workdir j) (sj_script j) @ sq_args q"
    unfolding j(4) by (simp add: script_argv_def Let_def)
  note pq = parse_script_request_Inr[OF q(1)]
  show ?thesis
    using q(1,2) v[folded j_def] l j(1,2) script argv n pq
    by (intro exI[of _ q] exI[of _ j] exI[of _ root] exI[of _ name]) (auto simp: ALLOWED_INTERPRETERS_def)
qed

definition sample_script_host :: script_host where
  "sample_script_host = \<lparr>sh_windows = False, sh_environ = [], sh_which = (\<lambda>_. None), sh_console_python = [],
     sh_script_id = ''7'', sh_tempdir = Path True [''tmp''], sh_mkdir = (\<lambda>_. None), sh_write = (\<lambda>_. None)\<rparr>"

definition sample_script_payload :: "(string \<times> pyval) list" where
  "sample_script_payload = [(''interpreter'', VStr ''bash''), (''content'', VStr ''id''), (''filename'', VStr ''../../x.sh''),
     (''sudo'', VBool True), (''cwd'', VStr ''/srv; id'')]"

theorem script_run_contained_witness:
  "\<exists>left v. handle_script_run sample_script_host (Path True [''up'']) (\<lambda>_. Exited 0 ''ok'' []) sample_script_payload = (left, Inr v)
     \<and> left = None
     \<and> dget (items_of v) ''command'' = VList (map VStr [''sudo'', ''sh'', ''-c'', chdir_snippet, ''sh'', ''/srv; id'', ''bash'',
         ''/up/.sentinelx_uploads/script_job_7/x.sh''])"
proof -
  let ?r = "handle_script_run sample_script_host (Path True [''up'']) (\<lambda>_. Exited 0 ''ok'' []) sample_script_payload"
  have "case ?r of (left, Inl e) \<Rightarrow> False | (left, Inr v) \<Rightarrow> dget (items_of v) ''command'' = VList (map VStr [''sudo'', ''sh'', ''-c'',
      chdir_snippet, ''sh'', ''/srv; id'', ''bash'', ''/up/.sentinelx_uploads/script_job_7/x.sh''])" by code_simp
  then obtain left v where r: "?r = (left, Inr v)" "dget (items_of v) ''command'' = VList (map VStr [''sudo'', ''sh'', ''-c'',
      chdir_snippet, ''sh'', ''/srv; id'', ''bash'', ''/up/.sentinelx_uploads/script_job_7/x.sh''])"
    by (cases ?r) (auto split: sum.splits)
  have "case parse_script_request sample_script_payload of Inl _ \<Rightarrow> False | Inr q \<Rightarrow> sq_cleanup q" by code_simp
  with script_run_contained[OF r(1)] have "left = None" by auto
  with r show ?thesis by blast
qed

section \<open>Two failures that are not what the code means\<close>

text \<open>
  The clause that should report a missing interpreter comes after one that already catches
  every \<open>FileNotFoundError\<close> and raises it again, so that error never gets its name.
\<close>

lemma missing_interpreter_unnamed:
  "script_result q j (SpawnNotFound f) \<noteq> Inl (HandlerError ''interpreter_missing'' d)"
  "\<not> truthy (sj_spawn_cwd j) \<Longrightarrow> script_result q j (SpawnNotFound f) = Inl (Raised OSError)"
  by (auto simp: script_result_def cwd_failure_def)

text \<open>
  The name is taken before the block that cleans up: a name that is not text raises there and
  leaves the new directory behind, also when clean-up was asked for.
\<close>

lemma bad_name_leaks_directory:
  "\<exists>d. handle_script_run sample_script_host (Path True [''up'']) child
     [(''interpreter'', VStr ''bash''), (''content'', VStr ''id''), (''filename'', VInt 5)] = (Some d, Inl (Raised TypeError))"
proof -
  let ?p = "[(''interpreter'', VStr ''bash''), (''content'', VStr ''id''), (''filename'', VInt 5)]"
  have "case parse_script_request ?p of Inl _ \<Rightarrow> False | Inr q \<Rightarrow> sq_filename q = VInt 5" by code_simp
  then obtain q where "parse_script_request ?p = Inr q" "sq_filename q = VInt 5" by (auto split: sum.splits)
  then show ?thesis
    by (simp add: handle_script_run_def staging_root_def sample_script_host_def safe_script_name_def Let_def)
qed

end
