(* ===== verification/SandboxApi.thy ===== *)
theory SandboxApi
  imports ScopeRuntime ScopeLifecycle AuditJournal
begin

text \<open>
  What \<open>windows_mutation_sandbox.py\<close> asks of Windows. Every thin wrapper around a Win32 call
  is a field of \<open>win_api\<close>, a function of a state \<open>'o\<close> the model says nothing about; it may
  raise at any time, and \<open>Crashed\<close> is the end of the agent process, which no handler
  catches. \<open>Handler\<close> and \<open>Python\<close> are exceptions of the handler that drives the sandbox. \<open>windows_laws\<close> states the documented behaviour the results rely on: looking at
  an object changes no access control list, a call that names an object changes the explicit
  entries of that object only, and a list that is read holds every explicit entry.

  A file is known by its text up to case, a window station and a desktop by their names.
\<close>

section \<open>Errors\<close>

datatype sandbox_error =
    SandboxUnavailable | SandboxMismatch | PathViolation | AclViolation | ContainmentFailed | ResidualGrant

datatype sb_exn =
    Sandbox sandbox_error
  | Scope scope_error
  | Audit audit_error
  | Handler string
  | Python py_exn
  | OsFailed
  | BadValue
  | Crashed

section \<open>The interface\<close>

datatype os_object =
    FileObject string
  | WindowStation string
  | DesktopObject string string

definition file_object :: "path \<Rightarrow> os_object" where
  "file_object p = FileObject (casefold (path_text p))"

definition FILE_TRAVERSE :: int where "FILE_TRAVERSE = 0x0020"

type_synonym ace = "string \<times> int \<times> int"

datatype icacls_verb = GrantRead | RemoveGrants

datatype icacls_end = TimedOutAfter | ExitCode int

datatype access_merge = GrantAccess int | RevokeAccess

record raw_process =
  rp_pid :: int
  rp_job :: string
  rp_contained :: bool
  rp_breakaway :: bool

record process_report =
  pr_image :: string
  pr_parent :: int
  pr_identity :: os_identity
  pr_active :: int

type_synonym ('o, 'a) os_call = "'o \<Rightarrow> (sb_exn, 'a) result \<times> 'o"

record 'o win_api =
  api_now :: "'o \<Rightarrow> nat \<times> 'o"
  api_write_fault :: "'o \<Rightarrow> (nat \<times> sb_exn) option \<times> 'o"
  api_append_fault :: "'o \<Rightarrow> nat option \<times> 'o"
  api_abspath :: "path \<Rightarrow> path"
  api_sid :: "string \<Rightarrow> string"
  api_exists :: "path \<Rightarrow> ('o, bool) os_call"
  api_is_dir :: "path \<Rightarrow> ('o, bool) os_call"
  api_reparse :: "path \<Rightarrow> ('o, bool) os_call"
  api_final_path :: "path \<Rightarrow> ('o, path) os_call"
  api_resolve :: "path \<Rightarrow> ('o, path) os_call"
  api_mkdir :: "path \<Rightarrow> ('o, unit) os_call"
  api_has_entries :: "path \<Rightarrow> ('o, bool) os_call"
  api_ensure_profile :: "string \<Rightarrow> ('o, string) os_call"
  api_delete_profile :: "string \<Rightarrow> ('o, int) os_call"
  api_dacl :: "os_object \<Rightarrow> ('o, ace list) os_call"
  api_set_acl :: "path \<Rightarrow> string \<Rightarrow> string option \<Rightarrow> ('o, unit) os_call"
  api_icacls :: "icacls_verb \<Rightarrow> path \<Rightarrow> string \<Rightarrow> int \<Rightarrow> ('o, icacls_end) os_call"
  api_merge_file :: "path \<Rightarrow> string \<Rightarrow> access_merge \<Rightarrow> ('o, unit) os_call"
  api_merge_window :: "os_object \<Rightarrow> string \<Rightarrow> access_merge \<Rightarrow> ('o, unit) os_call"
  api_session_id :: "('o, int) os_call"
  api_window_objects :: "('o, string \<times> string) os_call"
  api_pid_alive :: "int \<Rightarrow> ('o, bool) os_call"
  api_spawn :: "string \<Rightarrow> string list \<Rightarrow> string \<Rightarrow> (string \<times> string) list option \<Rightarrow> ('o, raw_process) os_call"
  api_report :: "raw_process \<Rightarrow> ('o, process_report) os_call"
  api_terminate :: "string \<Rightarrow> ('o, unit) os_call"
  api_close :: "string \<Rightarrow> ('o, unit) os_call"
  api_resume :: "string \<Rightarrow> ('o, unit) os_call"
  api_wait :: "string \<Rightarrow> int option \<Rightarrow> ('o, bool) os_call"

section \<open>The broker: the store, the audit disk, Windows, and what a sandbox object remembers\<close>

record 'o broker =
  br_doc :: doc_file
  br_audit :: audit_disk
  br_os :: 'o
  br_processes :: "(string \<times> raw_process) list"
  br_released :: "string list"
  br_traverse :: "((string \<times> int) \<times> path list) list"

type_synonym ('o, 'a) broker_op = "'o broker \<Rightarrow> (sb_exn, 'a) result \<times> 'o broker"

definition bret :: "'a \<Rightarrow> ('o, 'a) broker_op" where
  "bret x = (\<lambda>s. (Inr x, s))"

definition bfail :: "sb_exn \<Rightarrow> ('o, 'a) broker_op" where
  "bfail e = (\<lambda>s. (Inl e, s))"

definition bbind :: "('o, 'a) broker_op \<Rightarrow> ('a \<Rightarrow> ('o, 'b) broker_op) \<Rightarrow> ('o, 'b) broker_op" where
  "bbind m k = (\<lambda>s. case m s of (Inl e, t) \<Rightarrow> (Inl e, t) | (Inr x, t) \<Rightarrow> k x t)"

text \<open>\<open>except\<close>: nothing catches the end of the process.\<close>

definition bcatch :: "('o, 'a) broker_op \<Rightarrow> (sb_exn \<Rightarrow> ('o, 'a) broker_op) \<Rightarrow> ('o, 'a) broker_op" where
  "bcatch m h = (\<lambda>s. case m s of
     (Inl e, t) \<Rightarrow> if e = Crashed then (Inl e, t) else h e t | (Inr x, t) \<Rightarrow> (Inr x, t))"

definition bensure :: "bool \<Rightarrow> sb_exn \<Rightarrow> ('o, unit) broker_op" where
  "bensure b e = (if b then bret () else bfail e)"

definition bget :: "('o broker \<Rightarrow> 'a) \<Rightarrow> ('o, 'a) broker_op" where
  "bget f = (\<lambda>s. (Inr (f s), s))"

definition bput :: "('o broker \<Rightarrow> 'o broker) \<Rightarrow> ('o, unit) broker_op" where
  "bput f = (\<lambda>s. (Inr (), f s))"

definition bos :: "('o, 'a) os_call \<Rightarrow> ('o, 'a) broker_op" where
  "bos f = (\<lambda>s. let (r, o') = f (br_os s) in (r, s\<lparr>br_os := o'\<rparr>))"

definition bnow :: "'o win_api \<Rightarrow> ('o, nat) broker_op" where
  "bnow A = (\<lambda>s. let (t, o') = api_now A (br_os s) in (Inr t, s\<lparr>br_os := o'\<rparr>))"

text \<open>
  A store operation. Its writes happen in order; the operating system may fail one of them,
  or the process may end there, which leaves the document published last.
\<close>

definition bstore :: "'o win_api \<Rightarrow> (doc_file \<Rightarrow> 'a store_op) \<Rightarrow> ('o, 'a) broker_op" where
  "bstore A m = (\<lambda>s.
     let (fault, o') = api_write_fault A (br_os s); (ds, r) = m (br_doc s);
         done = s\<lparr>br_os := o', br_doc := last (br_doc s # ds)\<rparr>;
         finished = ((case r of Inl e \<Rightarrow> Inl (Scope e) | Inr x \<Rightarrow> Inr x), done) in
     case fault of
       None \<Rightarrow> finished
     | Some (k, e) \<Rightarrow>
         if k < length ds then (Inl e, s\<lparr>br_os := o', br_doc := last (br_doc s # take k ds)\<rparr>) else finished)"

fun beach :: "('x \<Rightarrow> ('o, unit) broker_op) \<Rightarrow> 'x list \<Rightarrow> ('o, unit) broker_op" where
  "beach f [] = bret ()"
| "beach f (x # xs) = bbind (f x) (\<lambda>_. beach f xs)"

text \<open>A step of a clean-up that goes on whatever happens: it says whether it failed.\<close>

definition attempt :: "('o, unit) broker_op \<Rightarrow> ('o, bool) broker_op" where
  "attempt m = bcatch (bbind m (\<lambda>_. bret False)) (\<lambda>_. bret True)"

section \<open>What is assumed of Windows\<close>

text \<open>
  \<open>G x q\<close> are the SIDs with an explicit entry on \<open>q\<close> that lets them read it (an entry for
  \<open>FILE_TRAVERSE\<close> alone does not). \<open>icacls\<close> that could not be started has changed nothing;
  asking whether a file exists does not raise; the SID of an AppContainer is a function of its
  name; an absolute path of Windows neither begins nor ends with white space.
\<close>

type_synonym 'o grants = "'o \<Rightarrow> os_object \<Rightarrow> string set"

definition quiet :: "'o grants \<Rightarrow> ('o \<Rightarrow> 'a \<times> 'o) \<Rightarrow> bool" where
  "quiet G f \<longleftrightarrow> (\<forall>x. G (snd (f x)) = G x)"

definition adds_only :: "'o grants \<Rightarrow> os_object \<Rightarrow> string set \<Rightarrow> ('o \<Rightarrow> 'a \<times> 'o) \<Rightarrow> bool" where
  "adds_only G obj sids f \<longleftrightarrow> (\<forall>x q. G (snd (f x)) q \<subseteq> G x q \<union> (if q = obj then sids else {}))"

definition looking_laws :: "'o win_api \<Rightarrow> 'o grants \<Rightarrow> bool" where
  "looking_laws A G \<longleftrightarrow>
     quiet G (api_now A) \<and> quiet G (api_write_fault A) \<and> quiet G (api_append_fault A)
     \<and> (\<forall>p. quiet G (api_exists A p) \<and> quiet G (api_is_dir A p) \<and> quiet G (api_reparse A p)
          \<and> quiet G (api_final_path A p) \<and> quiet G (api_resolve A p) \<and> quiet G (api_mkdir A p)
          \<and> quiet G (api_has_entries A p))
     \<and> (\<forall>n. quiet G (api_ensure_profile A n) \<and> quiet G (api_delete_profile A n))
     \<and> quiet G (api_session_id A) \<and> quiet G (api_window_objects A)
     \<and> (\<forall>i. quiet G (api_pid_alive A i))
     \<and> (\<forall>a b c d. quiet G (api_spawn A a b c d)) \<and> (\<forall>p. quiet G (api_report A p))
     \<and> (\<forall>j t. quiet G (api_terminate A j) \<and> quiet G (api_close A j) \<and> quiet G (api_resume A j)
          \<and> quiet G (api_wait A j t))
     \<and> (\<forall>q. quiet G (api_dacl A q))"

definition changing_laws :: "'o win_api \<Rightarrow> 'o grants \<Rightarrow> bool" where
  "changing_laws A G \<longleftrightarrow>
     (\<forall>p b. adds_only G (file_object p) {b} (api_set_acl A p b None))
     \<and> (\<forall>p b a. adds_only G (file_object p) {b, a} (api_set_acl A p b (Some a)))
     \<and> (\<forall>p sid t. adds_only G (file_object p) {sid} (api_icacls A GrantRead p sid t))
     \<and> (\<forall>p sid t. adds_only G (file_object p) {} (api_icacls A RemoveGrants p sid t))
     \<and> (\<forall>p sid. adds_only G (file_object p) {} (api_merge_file A p sid (GrantAccess FILE_TRAVERSE)))
     \<and> (\<forall>p sid. adds_only G (file_object p) {} (api_merge_file A p sid RevokeAccess))
     \<and> (\<forall>q sid m. adds_only G q {sid} (api_merge_window A q sid (GrantAccess m)))
     \<and> (\<forall>q sid. adds_only G q {} (api_merge_window A q sid RevokeAccess))"

definition truth_laws :: "'o win_api \<Rightarrow> 'o grants \<Rightarrow> bool" where
  "truth_laws A G \<longleftrightarrow>
     (\<forall>q x es x'. api_dacl A q x = (Inr es, x') \<longrightarrow> G x q \<subseteq> fst ` set es)
     \<and> (\<forall>p x x'. api_exists A p x = (Inr False, x') \<longrightarrow> G x (file_object p) = {})
     \<and> (\<forall>p x e. fst (api_exists A p x) = Inl e \<longrightarrow> e = Crashed)
     \<and> (\<forall>p sid t x e. fst (api_icacls A GrantRead p sid t x) = Inl e \<longrightarrow> e \<noteq> Crashed
          \<longrightarrow> G (snd (api_icacls A GrantRead p sid t x)) = G x)
     \<and> (\<forall>n x sid x'. api_ensure_profile A n x = (Inr sid, x') \<longrightarrow> sid = api_sid A n)
     \<and> (\<forall>p. strip (path_text (api_abspath A p)) = path_text (api_abspath A p))"

definition windows_laws :: "'o win_api \<Rightarrow> 'o grants \<Rightarrow> bool" where
  "windows_laws A G \<longleftrightarrow> looking_laws A G \<and> changing_laws A G \<and> truth_laws A G"

end
