(* ===== verification/WindowsSandbox.thy ===== *)
theory WindowsSandbox
  imports SandboxApi
begin

text \<open>
  The Windows mutation sandbox (\<open>windows_mutation_sandbox.py\<close>, \<open>mutation_sandbox.py\<close>): the
  life of the operating-system authority of one scope. \<open>activate\<close> gives a fresh AppContainer
  its workspace and the runtime read roots, \<open>spawn\<close> binds a suspended process to the scope
  and resumes it after its SPAWN event, \<open>cleanup_runtime\<close> takes everything back, and
  \<open>terminalize\<close> does so between the two phases of the scope store. Runs with a verification
  profile (materialisation, toolchain reads, the descendant handshake) are not modelled.
\<close>

section \<open>Checks on paths\<close>

definition win_relative_to :: "'o win_api \<Rightarrow> path \<Rightarrow> path \<Rightarrow> bool" where
  "win_relative_to A p r =
     (let a = api_abspath A p; b = api_abspath A r in
      is_absolute a = is_absolute b
      \<and> map casefold (take (length (parts b)) (parts a)) = map casefold (parts b))"

text \<open>The root and every directory on the way to the target.\<close>

definition existing_chain :: "'o win_api \<Rightarrow> path \<Rightarrow> path \<Rightarrow> path list option" where
  "existing_chain A root0 target0 =
     (let root = api_abspath A root0; target = api_abspath A target0; n = length (parts root) in
      if \<not> win_relative_to A target root then None
      else Some (root # map (\<lambda>k. Path (is_absolute root) (parts root @ take (Suc k) (drop n (parts target))))
                  [0..<length (parts target) - n]))"

definition refuse_reparse :: "'o win_api \<Rightarrow> path \<Rightarrow> ('o, unit) broker_op" where
  "refuse_reparse A p = bbind (bos (api_exists A p)) (\<lambda>there.
     if \<not> there then bret () else
     bbind (bos (api_reparse A p)) (\<lambda>link. bensure (\<not> link) (Sandbox PathViolation)))"

definition assert_no_reparse :: "'o win_api \<Rightarrow> path \<Rightarrow> path \<Rightarrow> ('o, unit) broker_op" where
  "assert_no_reparse A root target = (case existing_chain A root target of
     None \<Rightarrow> bfail (Sandbox PathViolation) | Some ps \<Rightarrow> beach (refuse_reparse A) ps)"

definition normcase :: "'o win_api \<Rightarrow> path \<Rightarrow> string" where
  "normcase A p = casefold (path_text (api_abspath A p))"

definition assert_final_path :: "'o win_api \<Rightarrow> path \<Rightarrow> ('o, unit) broker_op" where
  "assert_final_path A p = bbind (bos (api_final_path A p)) (\<lambda>observed.
     bensure (normcase A observed = normcase A p) (Sandbox PathViolation))"

section \<open>Access control lists\<close>

definition FILE_ALL_ACCESS :: int where "FILE_ALL_ACCESS = 0x001F01FF"
definition WINDOW_STATION_READ :: int where "WINDOW_STATION_READ = 0x00020103"
definition DESKTOP_READ :: int where "DESKTOP_READ = 0x00020041"

definition ace_sids :: "ace list \<Rightarrow> string list" where
  "ace_sids es = map fst es"

text \<open>\<open>observed[sid]\<close> is the last entry of a SID. Flags: both inheritance bits and not inherited.\<close>

definition exact_ace :: "int \<times> int \<Rightarrow> bool" where
  "exact_ace mf = (case mf of (m, fl) \<Rightarrow> m = FILE_ALL_ACCESS \<and> fl mod 32 div 16 = 0 \<and> fl mod 4 = 3)"

definition assert_exact_workspace_acl :: "'o win_api \<Rightarrow> path \<Rightarrow> string \<Rightarrow> string \<Rightarrow> ('o, unit) broker_op" where
  "assert_exact_workspace_acl A p broker sid = bbind (bos (api_dacl A (file_object p))) (\<lambda>es.
     bensure (set (ace_sids es) = {broker, sid}
         \<and> list_all (\<lambda>i. case map_of (rev es) i of Some mf \<Rightarrow> exact_ace mf | None \<Rightarrow> True) (ace_sids es))
       (Sandbox AclViolation))"

definition appcontainer_prefix :: string where "appcontainer_prefix = ''S-1-15-2-''"

definition assert_no_foreign_sid :: "'o win_api \<Rightarrow> path \<Rightarrow> string option \<Rightarrow> ('o, unit) broker_op" where
  "assert_no_foreign_sid A p expected = bbind (bos (api_exists A p)) (\<lambda>there.
     if \<not> there then bret () else
     bbind (bos (api_dacl A (file_object p))) (\<lambda>es.
       bensure (list_all (\<lambda>i. startswith i appcontainer_prefix \<longrightarrow> Some i = expected) (ace_sids es))
         (Sandbox AclViolation)))"

definition run_icacls :: "'o win_api \<Rightarrow> icacls_verb \<Rightarrow> path \<Rightarrow> string \<Rightarrow> int \<Rightarrow> ('o, unit) broker_op" where
  "run_icacls A verb p sid timeout = bbind (bos (api_icacls A verb p sid timeout)) (\<lambda>r.
     bensure (r = ExitCode 0) (Sandbox AclViolation))"

text \<open>Revokes, and reads back that nothing of the SID is left. Every failure is residual authority.\<close>

definition remove_runtime_read :: "'o win_api \<Rightarrow> path \<Rightarrow> string \<Rightarrow> int \<Rightarrow> ('o, unit) broker_op" where
  "remove_runtime_read A root sid timeout = bbind (bos (api_exists A root)) (\<lambda>there.
     if \<not> there then bret () else
     bbind (bcatch (bos (api_dacl A (file_object root))) (\<lambda>_. bfail (Sandbox ResidualGrant))) (\<lambda>es.
     if sid \<notin> set (ace_sids es) then bret () else
     bbind (bcatch (bbind (run_icacls A RemoveGrants root sid timeout) (\<lambda>_. bos (api_dacl A (file_object root))))
              (\<lambda>_. bfail (Sandbox ResidualGrant))) (\<lambda>after.
     bensure (sid \<notin> set (ace_sids after)) (Sandbox ResidualGrant))))"

definition grant_runtime_read :: "'o win_api \<Rightarrow> path \<Rightarrow> string \<Rightarrow> int \<Rightarrow> ('o, unit) broker_op" where
  "grant_runtime_read A root sid timeout =
     bbind (assert_no_reparse A root root) (\<lambda>_.
     bbind (assert_final_path A root) (\<lambda>_.
     bcatch (run_icacls A GrantRead root sid timeout) (\<lambda>e.
       if e = Sandbox AclViolation
       then bbind (remove_runtime_read A root sid timeout) (\<lambda>_. bfail e)
       else bfail e)))"

definition remove_traverse :: "'o win_api \<Rightarrow> path list \<Rightarrow> string \<Rightarrow> ('o, unit) broker_op" where
  "remove_traverse A ancestors sid =
     beach (\<lambda>p. bos (api_merge_file A p sid RevokeAccess)) (rev ancestors)"

text \<open>The directories above the workspace, the root of the file system left out.\<close>

definition ancestors_of :: "path \<Rightarrow> path list" where
  "ancestors_of p = map (\<lambda>k. Path (is_absolute p) (take (Suc k) (parts p))) [0..<length (parts p) - 1]"

fun grant_traverse :: "'o win_api \<Rightarrow> path list \<Rightarrow> string \<Rightarrow> path list \<Rightarrow> ('o, path list) broker_op" where
  "grant_traverse A [] sid granted = bret granted"
| "grant_traverse A (p # ps) sid granted =
     bbind (bcatch (bbind (assert_final_path A p) (\<lambda>_.
              bos (api_merge_file A p sid (GrantAccess FILE_TRAVERSE))))
        (\<lambda>e. bbind (beach (\<lambda>q. bbind (attempt (bos (api_merge_file A q sid RevokeAccess))) (\<lambda>_. bret ()))
                (rev granted)) (\<lambda>_. bfail e)))
      (\<lambda>_. grant_traverse A ps sid (granted @ [p]))"

definition grant_workspace_traverse :: "'o win_api \<Rightarrow> path \<Rightarrow> string \<Rightarrow> ('o, path list) broker_op" where
  "grant_workspace_traverse A ws sid =
     bbind (bos (api_resolve A ws)) (\<lambda>canonical. grant_traverse A (ancestors_of canonical) sid [])"

section \<open>Session objects\<close>

definition window_pair :: "string \<times> string \<Rightarrow> os_object list" where
  "window_pair ns = [WindowStation (fst ns), DesktopObject (fst ns) (snd ns)]"

definition window_station_text :: "string \<Rightarrow> string" where
  "window_station_text n = ''session:0/window-station:'' @ n"

definition observed_binding :: "string \<times> string \<Rightarrow> session_binding" where
  "observed_binding ns = \<lparr>sb_cleanup_required = True, sb_session_id = 0,
     sb_window_station_identity = window_station_text (fst ns),
     sb_desktop_identity = window_station_text (fst ns) @ ''/desktop:'' @ snd ns,
     sb_window_station_mask = WINDOW_STATION_READ, sb_desktop_mask = DESKTOP_READ\<rparr>"

definition observe_session_objects :: "'o win_api \<Rightarrow> ('o, string \<times> string) broker_op" where
  "observe_session_objects A = bbind (bos (api_session_id A)) (\<lambda>i.
     bbind (bensure (i = 0) (Sandbox SandboxUnavailable)) (\<lambda>_.
     bbind (bos (api_window_objects A)) (\<lambda>ns.
     bbind (bensure (session_binding_ok (observed_binding ns)) BadValue) (\<lambda>_. bret ns))))"

definition object_mask :: "os_object \<Rightarrow> int" where
  "object_mask q = (case q of DesktopObject _ _ \<Rightarrow> DESKTOP_READ | _ \<Rightarrow> WINDOW_STATION_READ)"

definition grant_object :: "'o win_api \<Rightarrow> string \<Rightarrow> os_object \<Rightarrow> ('o, unit) broker_op" where
  "grant_object A sid q =
     bbind (bos (api_dacl A q)) (\<lambda>es. bbind (bensure (sid \<notin> set (ace_sids es)) (Sandbox AclViolation)) (\<lambda>_.
     bos (api_merge_window A q sid (GrantAccess (object_mask q)))))"

definition confirm_object :: "'o win_api \<Rightarrow> string \<Rightarrow> os_object \<Rightarrow> ('o, unit) broker_op" where
  "confirm_object A sid q = bbind (bos (api_dacl A q)) (\<lambda>es.
     bensure (map snd (filter (\<lambda>e. fst e = sid) es) = [(object_mask q, 0)]) (Sandbox AclViolation))"

definition ungrant_objects :: "'o win_api \<Rightarrow> string \<Rightarrow> os_object list \<Rightarrow> ('o, unit) broker_op" where
  "ungrant_objects A sid qs =
     beach (\<lambda>q. bbind (attempt (bos (api_merge_window A q sid RevokeAccess))) (\<lambda>_. bret ())) (rev qs)"

text \<open>One object after the other; a failure revokes those already granted and is passed on.\<close>

fun grant_session_read :: "'o win_api \<Rightarrow> string \<Rightarrow> os_object list \<Rightarrow> os_object list \<Rightarrow> ('o, unit) broker_op" where
  "grant_session_read A sid [] granted = bret ()"
| "grant_session_read A sid (q # qs) granted =
     bbind (bcatch (grant_object A sid q)
         (\<lambda>e. bbind (ungrant_objects A sid granted) (\<lambda>_. bfail e))) (\<lambda>_.
     bbind (bcatch (confirm_object A sid q)
         (\<lambda>e. bbind (ungrant_objects A sid (granted @ [q])) (\<lambda>_. bfail e))) (\<lambda>_.
     grant_session_read A sid qs (granted @ [q])))"

definition remove_object_read :: "'o win_api \<Rightarrow> string \<Rightarrow> os_object \<Rightarrow> ('o, unit) broker_op" where
  "remove_object_read A sid q = bbind (bos (api_dacl A q)) (\<lambda>es.
     bbind (if sid \<in> set (ace_sids es) then bos (api_merge_window A q sid RevokeAccess) else bret ()) (\<lambda>_.
     bbind (bos (api_dacl A q)) (\<lambda>after. bensure (sid \<notin> set (ace_sids after)) (Sandbox ResidualGrant))))"

definition remove_session_read :: "'o win_api \<Rightarrow> string \<times> string \<Rightarrow> string \<Rightarrow> ('o, unit) broker_op" where
  "remove_session_read A ns sid = beach (remove_object_read A sid) (rev (window_pair ns))"

section \<open>A sandbox and its activation\<close>

record sandbox =
  sx_world :: world
  sx_policy :: mutation_policy
  sx_root :: path
  sx_repository :: repository_identity
  sx_semantic :: semantic_identity
  sx_protected :: "path list"
  sx_broker_sid :: string
  sx_audit_root :: path

text \<open>\<open>build_mutation_sandbox\<close> and the constructor: Windows only, and with the policy enabled.\<close>

definition build_sandbox ::
  "bool \<Rightarrow> world \<Rightarrow> mutation_policy \<Rightarrow> repository_identity \<Rightarrow> semantic_identity \<Rightarrow> path list \<Rightarrow> string
     \<Rightarrow> path \<Rightarrow> (sb_exn, sandbox) result" where
  "build_sandbox windows w p repo sem pr broker audit_root =
     (if \<not> windows then Inl (Sandbox SandboxUnavailable)
      else if \<not> mp_configured p \<or> \<not> mp_scoped_mutation_enabled p then Inl (Sandbox SandboxUnavailable)
      else case mp_workspace_root p of
        None \<Rightarrow> Inl (Sandbox SandboxUnavailable)
      | Some root \<Rightarrow> Inr \<lparr>sx_world = w, sx_policy = p, sx_root = root, sx_repository = repo,
          sx_semantic = sem, sx_protected = pr, sx_broker_sid = broker, sx_audit_root = audit_root\<rparr>)"

record activation =
  ac_scope_id :: string
  ac_generation :: int
  ac_workspace_id :: string
  ac_unique_lease_key :: string
  ac_workspace :: path
  ac_sandbox_identity :: string
  ac_appcontainer_name :: string
  ac_broker_identity :: string

definition audit_scope_bound :: "audit_start \<Rightarrow> scope_record \<Rightarrow> bool" where
  "audit_scope_bound s r \<longleftrightarrow>
     ab_scope_id (as_binding s) = sr_scope_id r
     \<and> ab_scope_generation (as_binding s) = sr_generation r
     \<and> ab_workspace_id (as_binding s) = sr_workspace_id r
     \<and> ab_unique_lease_key (as_binding s) = sr_unique_lease_key r
     \<and> ae_scope_digest (as_authority s) = sr_scope_digest r
     \<and> ae_exact_workspace_digest (as_authority s) = sr_exact_workspace_digest r
     \<and> ae_protected_inventory_digest (as_authority s) = sr_protected_inventory_digest r
     \<and> ae_policy_digest (as_authority s) = sr_policy_digest r
     \<and> ae_repository_identity_digest (as_authority s) = sr_repository_identity_digest r
     \<and> ae_semantic_identity_digest (as_authority s) = sr_semantic_identity_digest r"

definition profile_name :: "world \<Rightarrow> string \<Rightarrow> string" where
  "profile_name w lease = ''SentinelX.Mutation.'' @ take 32 (w_sha w lease)"

definition delete_profile :: "'o win_api \<Rightarrow> string \<Rightarrow> ('o, unit) broker_op" where
  "delete_profile A name = bbind (bos (api_delete_profile A name)) (\<lambda>status.
     bensure (status \<in> {0, 0x80070002}) (Sandbox ResidualGrant))"

definition sx_revalidate :: "'o win_api \<Rightarrow> sandbox \<Rightarrow> string \<Rightarrow> int \<Rightarrow> ('o, scope_record) broker_op" where
  "sx_revalidate A X sid n = bbind (bnow A) (\<lambda>now. bstore A (\<lambda>f.
     revalidate_scope (sx_world X) f sid n (sx_policy X) (sx_repository X) (sx_semantic X) (sx_protected X) now))"

definition record_workspace :: "'o win_api \<Rightarrow> scope_record \<Rightarrow> path" where
  "record_workspace A r = api_abspath A (path_of_text (sr_exact_workspace r))"

definition materialize_workspace :: "'o win_api \<Rightarrow> sandbox \<Rightarrow> scope_record \<Rightarrow> ('o, path \<times> bool) broker_op" where
  "materialize_workspace A X r =
     (let root = api_abspath A (sx_root X); ws = record_workspace A r in
      bbind (bos (api_is_dir A root)) (\<lambda>ok. bbind (bensure ok (Sandbox PathViolation)) (\<lambda>_.
      bbind (bensure (win_relative_to A ws root \<and> normcase A ws \<noteq> normcase A root) (Sandbox PathViolation)) (\<lambda>_.
      bbind (assert_no_reparse A root ws) (\<lambda>_. bbind (assert_final_path A root) (\<lambda>_.
      bbind (bos (api_exists A ws)) (\<lambda>existed.
      bbind (if existed then bbind (bos (api_is_dir A ws)) (\<lambda>d. bensure d (Sandbox PathViolation))
             else bos (api_mkdir A ws)) (\<lambda>_.
      bbind (assert_no_reparse A root ws) (\<lambda>_. bbind (assert_final_path A ws) (\<lambda>_.
      bret (ws, existed)))))))))))"

text \<open>The workspace of a scope that has no identity yet must be empty and unclaimed.\<close>

definition claim_workspace ::
  "'o win_api \<Rightarrow> sandbox \<Rightarrow> scope_record \<Rightarrow> path \<Rightarrow> bool \<Rightarrow> string \<Rightarrow> ('o, scope_record) broker_op" where
  "claim_workspace A X r ws existed sid =
     (if sr_sandbox_identity r = None then
        bbind (if existed then
            bcatch (bbind (bos (api_has_entries A ws)) (\<lambda>full.
                bbind (bensure (\<not> full) (Sandbox PathViolation)) (\<lambda>_. assert_no_foreign_sid A ws None)))
              (\<lambda>e. bbind (delete_profile A (profile_name (sx_world X) (sr_unique_lease_key r))) (\<lambda>_. bfail e))
          else bret ()) (\<lambda>_.
        bstore A (\<lambda>f. reserve_sandbox_identity (sx_world X) f (sr_scope_id r) (sr_generation r) sid))
      else bbind (assert_no_foreign_sid A ws (Some sid)) (\<lambda>_. bret r))"

text \<open>The outcome of a block whose exception is handled later.\<close>

definition capture :: "('o, unit) broker_op \<Rightarrow> ('o, sb_exn option) broker_op" where
  "capture m = bcatch (bbind m (\<lambda>_. bret None)) (\<lambda>e. bret (Some e))"

definition root_text :: "'o win_api \<Rightarrow> path \<Rightarrow> string" where
  "root_text A root = path_text (api_abspath A root)"

definition reserve_root :: "'o win_api \<Rightarrow> sandbox \<Rightarrow> scope_record \<Rightarrow> string \<Rightarrow> path \<Rightarrow> ('o, scope_record) broker_op" where
  "reserve_root A X r sid root = bstore A (\<lambda>f. reserve_runtime_read_authority (sx_world X) f
     (sr_scope_id r) (sr_generation r) sid (root_text A root))"

definition clear_root :: "'o win_api \<Rightarrow> sandbox \<Rightarrow> scope_record \<Rightarrow> string \<Rightarrow> path \<Rightarrow> ('o, scope_record) broker_op" where
  "clear_root A X r sid root = bstore A (\<lambda>f. clear_runtime_read_authority (sx_world X) f
     (sr_scope_id r) (sr_generation r) sid (root_text A root))"

definition acl_timeout :: "sandbox \<Rightarrow> int" where
  "acl_timeout X = mp_runtime_acl_timeout_seconds (sx_policy X)"

text \<open>One runtime root: the durable marker first, then the grant.\<close>

definition grant_root :: "'o win_api \<Rightarrow> sandbox \<Rightarrow> scope_record \<Rightarrow> string \<Rightarrow> path \<Rightarrow> ('o, unit) broker_op" where
  "grant_root A X r sid root =
     bbind (bos (api_is_dir A (api_abspath A root))) (\<lambda>ok. bbind (bensure ok (Sandbox PathViolation)) (\<lambda>_.
     bbind (reserve_root A X r sid root) (\<lambda>_.
     bcatch (grant_runtime_read A (api_abspath A root) sid (acl_timeout X)) (\<lambda>e.
       if e = Sandbox ResidualGrant then bfail e
       else bbind (clear_root A X r sid root) (\<lambda>_. bfail e)))))"

fun grant_roots ::
  "'o win_api \<Rightarrow> sandbox \<Rightarrow> scope_record \<Rightarrow> string \<Rightarrow> path list \<Rightarrow> path list
     \<Rightarrow> ('o, path list \<times> sb_exn option) broker_op" where
  "grant_roots A X r sid [] granted = bret (granted, None)"
| "grant_roots A X r sid (root # rest) granted =
     bbind (capture (grant_root A X r sid root)) (\<lambda>failed. case failed of
       Some e \<Rightarrow> bret (granted, Some e)
     | None \<Rightarrow> grant_roots A X r sid rest (granted @ [root]))"

definition scope_key :: "scope_record \<Rightarrow> string \<times> int" where
  "scope_key r = (sr_scope_id r, sr_generation r)"

definition claim_acl :: "'o win_api \<Rightarrow> sandbox \<Rightarrow> scope_record \<Rightarrow> path \<Rightarrow> string \<Rightarrow> ('o, unit) broker_op" where
  "claim_acl A X r ws sid =
     bbind (bos (api_set_acl A ws (sx_broker_sid X) (Some sid))) (\<lambda>_.
     bbind (assert_exact_workspace_acl A ws (sx_broker_sid X) sid) (\<lambda>_.
     bbind (grant_workspace_traverse A ws sid) (\<lambda>granted.
     bput (\<lambda>s. s\<lparr>br_traverse := AList.update (scope_key r) granted (br_traverse s)\<rparr>))))"

text \<open>The body of the \<open>try\<close>: the runtime roots granted, and how it failed.\<close>

definition activation_grants ::
  "'o win_api \<Rightarrow> sandbox \<Rightarrow> scope_record \<Rightarrow> path \<Rightarrow> string \<Rightarrow> ('o, path list \<times> sb_exn option) broker_op" where
  "activation_grants A X r ws sid =
     bbind (capture (claim_acl A X r ws sid)) (\<lambda>failed. case failed of
       Some e \<Rightarrow> bret ([], Some e)
     | None \<Rightarrow>
        bbind (grant_roots A X r sid (mp_runtime_read_roots (sx_policy X)) []) (\<lambda>(granted, failed).
        case failed of
          Some e \<Rightarrow> bret (granted, Some e)
        | None \<Rightarrow> bbind (capture (bbind (assert_no_reparse A (api_abspath A (sx_root X)) ws)
              (\<lambda>_. assert_final_path A ws))) (\<lambda>failed. bret (granted, failed))))"

definition pop_traverse :: "string \<times> int \<Rightarrow> ('o, path list) broker_op" where
  "pop_traverse key = bbind (bget (\<lambda>s. case map_of (br_traverse s) key of None \<Rightarrow> [] | Some ps \<Rightarrow> ps)) (\<lambda>ps.
     bbind (bput (\<lambda>s. s\<lparr>br_traverse := AList.delete key (br_traverse s)\<rparr>)) (\<lambda>_. bret ps))"

fun rollback_roots ::
  "'o win_api \<Rightarrow> sandbox \<Rightarrow> scope_record \<Rightarrow> string \<Rightarrow> path list \<Rightarrow> ('o, bool) broker_op" where
  "rollback_roots A X r sid [] = bret False"
| "rollback_roots A X r sid (root # rest) =
     bbind (attempt (bbind (remove_runtime_read A (api_abspath A root) sid (acl_timeout X))
         (\<lambda>_. bbind (clear_root A X r sid root) (\<lambda>_. bret ())))) (\<lambda>bad.
     bbind (rollback_roots A X r sid rest) (\<lambda>worse. bret (bad \<or> worse)))"

definition rollback_activation ::
  "'o win_api \<Rightarrow> sandbox \<Rightarrow> scope_record \<Rightarrow> path \<Rightarrow> string \<Rightarrow> path list \<Rightarrow> ('o, bool) broker_op" where
  "rollback_activation A X r ws sid granted =
     bbind (pop_traverse (scope_key r)) (\<lambda>traverse.
     bbind (attempt (remove_traverse A traverse sid)) (\<lambda>b1.
     bbind (rollback_roots A X r sid (rev granted)) (\<lambda>b2.
     bbind (attempt (bbind (bos (api_exists A ws)) (\<lambda>there.
         if there then bos (api_set_acl A ws (sx_broker_sid X) None) else bret ()))) (\<lambda>b3.
     bbind (attempt (delete_profile A (profile_name (sx_world X) (sr_unique_lease_key r)))) (\<lambda>b4.
     bbind (attempt (bbind (bstore A (\<lambda>f. clear_sandbox_write_authority (sx_world X) f
         (sr_scope_id r) (sr_generation r) sid)) (\<lambda>_. bret ()))) (\<lambda>b5.
     bbind (attempt (bbind (bstore A (\<lambda>f. revoke_scope (sx_world X) f (sr_scope_id r) (sr_generation r)))
         (\<lambda>_. bret ()))) (\<lambda>b6.
     bret (b1 \<or> b2 \<or> b3 \<or> b4 \<or> b5 \<or> b6))))))))"

definition activate :: "'o win_api \<Rightarrow> sandbox \<Rightarrow> scope_record \<Rightarrow> audit_start \<Rightarrow> ('o, activation) broker_op" where
  "activate A X r0 start =
     bbind (sx_revalidate A X (sr_scope_id r0) (sr_generation r0)) (\<lambda>r1.
     bbind (bensure (audit_scope_bound start r1) (Sandbox SandboxMismatch)) (\<lambda>_.
     bbind (bensure (sr_active_job_ids r1 = [] \<and> sr_active_process_ids r1 = []) (Sandbox ContainmentFailed)) (\<lambda>_.
     bbind (bensure (sr_sandbox_identity r1 = None \<or> sr_sandbox_write_authority_present r1)
       (Sandbox SandboxMismatch)) (\<lambda>_.
     bbind (materialize_workspace A X r1) (\<lambda>(ws, existed).
     bbind (bos (api_ensure_profile A (profile_name (sx_world X) (sr_unique_lease_key r1)))) (\<lambda>sid.
     bbind (bensure (sr_sandbox_identity r1 \<in> {None, Some sid}) (Sandbox SandboxMismatch)) (\<lambda>_.
     bbind (claim_workspace A X r1 ws existed sid) (\<lambda>r.
     bbind (activation_grants A X r ws sid) (\<lambda>(granted, failed). case failed of
       None \<Rightarrow> bret \<lparr>ac_scope_id = sr_scope_id r, ac_generation = sr_generation r,
           ac_workspace_id = sr_workspace_id r, ac_unique_lease_key = sr_unique_lease_key r, ac_workspace = ws,
           ac_sandbox_identity = sid, ac_appcontainer_name = profile_name (sx_world X) (sr_unique_lease_key r1),
           ac_broker_identity = sx_broker_sid X\<rparr>
     | Some e \<Rightarrow> bbind (rollback_activation A X r ws sid granted) (\<lambda>bad.
         bfail (if bad then Sandbox ResidualGrant else e)))))))))))"

end
