(* ===== verification/SandboxProcess.thy ===== *)
theory SandboxProcess
  imports WindowsSandbox
begin

text \<open>
  The second half of the sandbox: the managed process (\<open>ManagedMutationProcess\<close>), \<open>spawn\<close>,
  and the clean-up that terminalisation runs between its two locked phases. A managed process
  is known by its Job reference; \<open>br_processes\<close> are the processes the sandbox object still
  tracks and \<open>br_released\<close> the Jobs whose handles it has given up.
\<close>

section \<open>Managed processes\<close>

definition mark_released :: "string \<Rightarrow> ('o, unit) broker_op" where
  "mark_released job = bput (\<lambda>s. s\<lparr>br_released := job # br_released s\<rparr>)"

definition forget_process :: "string \<Rightarrow> ('o, unit) broker_op" where
  "forget_process job = bput (\<lambda>s. s\<lparr>br_processes := AList.delete job (br_processes s)\<rparr>)"

definition is_released :: "string \<Rightarrow> ('o, bool) broker_op" where
  "is_released job = bget (\<lambda>s. job \<in> set (br_released s))"

definition release_process :: "'o win_api \<Rightarrow> sandbox \<Rightarrow> activation \<Rightarrow> raw_process \<Rightarrow> ('o, unit) broker_op" where
  "release_process A X a p = bbind (is_released (rp_job p)) (\<lambda>gone.
     if gone then bret () else
     bbind (bos (api_close A (rp_job p))) (\<lambda>_.
     bbind (bstore A (\<lambda>f. release_runtime_process (sx_world X) f (ac_scope_id a) (ac_generation a)
       (rp_job p) (rp_pid p))) (\<lambda>_.
     bbind (forget_process (rp_job p)) (\<lambda>_. mark_released (rp_job p)))))"

definition wait_process ::
  "'o win_api \<Rightarrow> sandbox \<Rightarrow> activation \<Rightarrow> raw_process \<Rightarrow> int option \<Rightarrow> ('o, bool) broker_op" where
  "wait_process A X a p seconds =
     bbind (bos (api_wait A (rp_job p) (map_option (\<lambda>t. max 0 t * 1000) seconds))) (\<lambda>finished.
     if finished then bbind (release_process A X a p) (\<lambda>_. bret True) else bret False)"

definition terminate_process :: "'o win_api \<Rightarrow> sandbox \<Rightarrow> activation \<Rightarrow> raw_process \<Rightarrow> ('o, unit) broker_op" where
  "terminate_process A X a p = bbind (is_released (rp_job p)) (\<lambda>gone.
     if gone then bret () else
     bbind (bos (api_terminate A (rp_job p))) (\<lambda>_. release_process A X a p))"

section \<open>Session-0 read access\<close>

definition enable_session_read :: "'o win_api \<Rightarrow> sandbox \<Rightarrow> activation \<Rightarrow> ('o, unit) broker_op" where
  "enable_session_read A X a =
     bbind (observe_session_objects A) (\<lambda>ns.
     bbind (bstore A (\<lambda>f. reserve_session_object_read_binding (sx_world X) f (ac_scope_id a) (ac_generation a)
         (ac_sandbox_identity a) (observed_binding ns))) (\<lambda>_.
     bcatch (grant_session_read A (ac_sandbox_identity a) (window_pair ns) []) (\<lambda>e.
       bbind (bcatch (bbind (remove_session_read A ns (ac_sandbox_identity a)) (\<lambda>_.
             bbind (bstore A (\<lambda>f. clear_session_object_read_binding (sx_world X) f (ac_scope_id a)
               (ac_generation a) (ac_sandbox_identity a) (observed_binding ns))) (\<lambda>_. bret ())))
           (\<lambda>_. bfail (Sandbox ResidualGrant))) (\<lambda>_. bfail e))))"

definition cleanup_session_read :: "'o win_api \<Rightarrow> sandbox \<Rightarrow> scope_record \<Rightarrow> ('o, unit) broker_op" where
  "cleanup_session_read A X r = (case sr_session_object_read_binding r of
     None \<Rightarrow> bret ()
   | Some b \<Rightarrow> (case sr_sandbox_identity r of
       None \<Rightarrow> bfail (Sandbox ResidualGrant)
     | Some sid \<Rightarrow> if sid = [] then bfail (Sandbox ResidualGrant) else
        bbind (bcatch (bbind (observe_session_objects A) (\<lambda>ns.
            bbind (bensure (observed_binding ns = b) (Sandbox SandboxMismatch)) (\<lambda>_.
            bbind (remove_session_read A ns sid) (\<lambda>_.
            bbind (bstore A (\<lambda>f. clear_session_object_read_binding (sx_world X) f (sr_scope_id r)
              (sr_generation r) sid b)) (\<lambda>_. bret ())))))
          (\<lambda>_. bfail (Sandbox ResidualGrant))) (\<lambda>_.
        bbind (bstore A (\<lambda>f. read_scope (sx_world X) f (sr_scope_id r))) (\<lambda>confirmed.
        bensure (sr_session_object_read_binding confirmed = None) (Sandbox ResidualGrant)))))"

section \<open>Spawning\<close>

definition assert_activation_current ::
  "'o win_api \<Rightarrow> sandbox \<Rightarrow> activation \<Rightarrow> audit_start \<Rightarrow> ('o, scope_record) broker_op" where
  "assert_activation_current A X a start =
     bbind (sx_revalidate A X (ac_scope_id a) (ac_generation a)) (\<lambda>r.
     bbind (bensure (audit_scope_bound start r) (Sandbox SandboxMismatch)) (\<lambda>_.
     bbind (bensure (sr_sandbox_identity r = Some (ac_sandbox_identity a) \<and> sr_sandbox_write_authority_present r
         \<and> normcase A (path_of_text (sr_exact_workspace r)) = normcase A (ac_workspace a))
       (Sandbox SandboxMismatch)) (\<lambda>_.
     bbind (assert_no_reparse A (api_abspath A (sx_root X)) (ac_workspace a)) (\<lambda>_.
     bbind (assert_final_path A (ac_workspace a)) (\<lambda>_.
     bbind (assert_exact_workspace_acl A (ac_workspace a) (ac_broker_identity a) (ac_sandbox_identity a)) (\<lambda>_.
     bret r))))))"

definition spawn_evidence_of :: "raw_process \<Rightarrow> process_report \<Rightarrow> path \<Rightarrow> spawn_evidence" where
  "spawn_evidence_of p rep cwd = \<lparr>se_pid = rp_pid p, se_ppid = pr_parent rep,
     se_executable_final_path = pr_image rep, se_cwd_final_path = path_text cwd,
     se_os_identity = pr_identity rep,
     se_containment = \<lparr>ct_job_binding = rp_job p, ct_contained = rp_contained p,
       ct_breakaway_allowed = rp_breakaway p, ct_active_process_count = pr_active rep\<rparr>\<rparr>"

text \<open>
  \<open>audit.commit_spawn_before_resume\<close> with the two callbacks: what it decides to do with the
  suspended process is done before its result is passed on.
\<close>

definition commit_spawn ::
  "'o win_api \<Rightarrow> sandbox \<Rightarrow> activation \<Rightarrow> raw_process \<Rightarrow> audit_start \<Rightarrow> spawn_evidence \<Rightarrow> ('o, unit) broker_op" where
  "commit_spawn A X a p start e =
     bbind (bnow A) (\<lambda>now. bbind (bos (\<lambda>x. case api_append_fault A x of (t, x') \<Rightarrow> (Inr t, x'))) (\<lambda>torn.
     bbind (bget br_audit) (\<lambda>d.
     let (acts, d', r) = commit_spawn_before_resume (w_sha (sx_world X)) (sx_audit_root X) torn d start e now in
     bbind (bput (\<lambda>s. s\<lparr>br_audit := d'\<rparr>)) (\<lambda>_.
     bbind (beach (\<lambda>act. case act of
         TerminateSuspended \<Rightarrow> bbind (bos (api_terminate A (rp_job p))) (\<lambda>_. release_process A X a p)
       | ResumeSuspended \<Rightarrow> bos (api_resume A (rp_job p))) acts) (\<lambda>_.
     case r of Inl err \<Rightarrow> bfail (Audit err) | Inr _ \<Rightarrow> bret ())))))"

definition spawn ::
  "'o win_api \<Rightarrow> sandbox \<Rightarrow> activation \<Rightarrow> audit_start \<Rightarrow> string list \<Rightarrow> path option
     \<Rightarrow> (string \<times> string) list option \<Rightarrow> ('o, raw_process) broker_op" where
  "spawn A X a start argv cwd env =
     bbind (assert_activation_current A X a start) (\<lambda>_.
     let dir = api_abspath A (case cwd of None \<Rightarrow> ac_workspace a | Some c \<Rightarrow> c) in
     bbind (bensure (win_relative_to A dir (ac_workspace a)) (Sandbox PathViolation)) (\<lambda>_.
     bbind (bos (api_is_dir A dir)) (\<lambda>ok. bbind (bensure ok (Sandbox PathViolation)) (\<lambda>_.
     bbind (assert_no_reparse A (ac_workspace a) dir) (\<lambda>_. bbind (assert_final_path A dir) (\<lambda>_.
     bbind (bensure (as_verification_intent start = None) (Sandbox SandboxMismatch)) (\<lambda>_.
     bbind (bos (api_spawn A (ac_appcontainer_name a) argv (path_text dir) env)) (\<lambda>p.
     if \<not> rp_contained p \<or> rp_breakaway p
     then bbind (bos (api_close A (rp_job p))) (\<lambda>_. bfail (Sandbox ContainmentFailed)) else
     bbind (bcatch (bbind (bstore A (\<lambda>f. bind_runtime_process (sx_world X) f (ac_scope_id a) (ac_generation a)
             (ac_sandbox_identity a) (rp_job p) (rp_pid p))) (\<lambda>_. bret ()))
         (\<lambda>e. bbind (bos (api_close A (rp_job p))) (\<lambda>_. bfail e))) (\<lambda>_.
     bbind (bput (\<lambda>s. s\<lparr>br_processes := AList.update (rp_job p) p (br_processes s)\<rparr>)) (\<lambda>_.
     bcatch
       (bbind (if mp_runtime_session_object_read_enabled (sx_policy X) then enable_session_read A X a else bret ()) (\<lambda>_.
        bbind (bos (api_report A p)) (\<lambda>rep. bbind (bos (api_final_path A dir)) (\<lambda>final.
        bbind (bensure (casefold (pr_image rep) = casefold (pi_executable_final_path (as_process_intent start))
            \<and> casefold (path_text final) = casefold (pi_cwd_final_path (as_process_intent start)))
          (Sandbox SandboxMismatch)) (\<lambda>_.
        bbind (commit_spawn A X a p start (spawn_evidence_of p rep final)) (\<lambda>_. bret p))))))
       (\<lambda>e. bbind (is_released (rp_job p)) (\<lambda>gone.
          bbind (if gone then bret () else bbind (bos (api_terminate A (rp_job p))) (\<lambda>_. release_process A X a p))
            (\<lambda>_. bfail e)))))))))))))"

section \<open>Clean-up and terminalisation\<close>

definition stop_job :: "'o win_api \<Rightarrow> string \<Rightarrow> ('o, unit) broker_op" where
  "stop_job A job = bbind (bget (\<lambda>s. map_of (br_processes s) job)) (\<lambda>managed. case managed of
     None \<Rightarrow> bret ()
   | Some p \<Rightarrow> bbind (forget_process job) (\<lambda>_.
       let close = bbind (bos (api_close A (rp_job p))) (\<lambda>_. mark_released (rp_job p)) in
       bbind (bcatch (bos (api_terminate A (rp_job p))) (\<lambda>e. bbind close (\<lambda>_. bfail e))) (\<lambda>_. close)))"

definition check_gone :: "'o win_api \<Rightarrow> string list \<Rightarrow> string \<Rightarrow> ('o, unit) broker_op" where
  "check_gone A represented process_id =
     (if process_id \<in> set represented then bret () else case read_int process_id of
        None \<Rightarrow> bfail (Sandbox ResidualGrant)
      | Some pid \<Rightarrow> bbind (bos (api_pid_alive A pid)) (\<lambda>alive. bensure (\<not> alive) (Sandbox ResidualGrant)))"

definition cleanup_workspace :: "'o win_api \<Rightarrow> sandbox \<Rightarrow> scope_record \<Rightarrow> string \<Rightarrow> ('o, unit) broker_op" where
  "cleanup_workspace A X r sid =
     (let ws = record_workspace A r in bbind (bos (api_exists A ws)) (\<lambda>there.
      if \<not> there then bret () else
      bbind (assert_no_reparse A (api_abspath A (sx_root X)) ws) (\<lambda>_. bbind (assert_final_path A ws) (\<lambda>_.
      bbind (bos (api_set_acl A ws (sx_broker_sid X) None)) (\<lambda>_.
      bbind (bos (api_dacl A (file_object ws))) (\<lambda>es.
      bensure (sid \<notin> set (ace_sids es)) (Sandbox ResidualGrant)))))))"

definition cleanup_root ::
  "'o win_api \<Rightarrow> sandbox \<Rightarrow> scope_record \<Rightarrow> string \<Rightarrow> bool \<Rightarrow> path \<Rightarrow> ('o, unit) broker_op" where
  "cleanup_root A X r sid durable root =
     bbind (remove_runtime_read A (api_abspath A root) sid (acl_timeout X)) (\<lambda>_.
     if durable then bbind (clear_root A X r sid root) (\<lambda>_. bret ()) else bret ())"

definition cleanup_identity :: "'o win_api \<Rightarrow> sandbox \<Rightarrow> scope_record \<Rightarrow> string \<Rightarrow> ('o, unit) broker_op" where
  "cleanup_identity A X r sid =
     bbind (if sr_session_object_read_binding r \<noteq> None then cleanup_session_read A X r else bret ()) (\<lambda>_.
     bbind (cleanup_workspace A X r sid) (\<lambda>_.
     let durable = sr_runtime_read_authority_roots r in
     bbind (beach (cleanup_root A X r sid (durable \<noteq> []))
         (if durable \<noteq> [] then map path_of_text durable else mp_runtime_read_roots (sx_policy X))) (\<lambda>_.
     bbind (pop_traverse (scope_key r)) (\<lambda>traverse.
     bbind (remove_traverse A traverse sid) (\<lambda>_.
     delete_profile A (profile_name (sx_world X) (sr_unique_lease_key r)))))))"

definition cleanup_runtime :: "'o win_api \<Rightarrow> sandbox \<Rightarrow> scope_record \<Rightarrow> ('o, runtime_closure) broker_op" where
  "cleanup_runtime A X r =
     bbind (beach (stop_job A) (sr_active_job_ids r)) (\<lambda>_.
     bbind (bget (\<lambda>s. map (\<lambda>(job, p). show_int (rp_pid p))
        (filter (\<lambda>(job, p). rp_job p \<in> set (sr_active_job_ids r)) (br_processes s)))) (\<lambda>represented.
     bbind (beach (check_gone A represented) (sr_active_process_ids r)) (\<lambda>_.
     bbind (case sr_sandbox_identity r of
         None \<Rightarrow> bret () | Some sid \<Rightarrow> if sid = [] then bret () else cleanup_identity A X r sid) (\<lambda>_.
     bbind (bstore A (\<lambda>f. read_scope (sx_world X) f (sr_scope_id r))) (\<lambda>current.
     bret \<lparr>rc_sandbox_identity = sr_sandbox_identity r, rc_active_job_ids = [], rc_active_process_ids = [],
       rc_sandbox_write_authority_present = False,
       rc_runtime_read_authority_roots = sr_runtime_read_authority_roots current,
       rc_session_object_read_binding = sr_session_object_read_binding current\<rparr>)))))"

definition terminalize :: "'o win_api \<Rightarrow> sandbox \<Rightarrow> string \<Rightarrow> int \<Rightarrow> ('o, scope_record) broker_op" where
  "terminalize A X sid n = bbind (bnow A) (\<lambda>now.
     bbind (bstore A (\<lambda>f. terminalize_begin (sx_world X) f sid n (sx_policy X) (sx_repository X) (sx_semantic X)
        True now)) (\<lambda>t. case t of
       Closed r \<Rightarrow> bret r
     | CleanupRequired r \<Rightarrow> bbind (cleanup_runtime A X r) (\<lambda>c.
         bstore A (\<lambda>f. terminalize_finish (sx_world X) f sid n (sx_repository X) (sx_semantic X) r c now))))"

end
