(* ===== verification/SandboxLaws.thy ===== *)
theory SandboxLaws
  imports SandboxProcess ScopeRuntimeProps
begin

text \<open>
  How the durable scope record accounts for the read access a sandbox grants. \<open>accounted\<close>
  says which objects a record names; the store operations that do not clear a name keep it in
  every document they publish. The broker programs are reasoned about with triples over the
  store document and the set of objects the SID can read, with one outcome for a result and
  one for an exception, the end of the process included.
\<close>

named_theorems keeps_rules \<open>broker programs that keep a predicate\<close>

section \<open>What a record accounts for\<close>

definition accounts :: "scope_record \<Rightarrow> os_object \<Rightarrow> bool" where
  "accounts r q \<longleftrightarrow> (\<exists>v \<in> set (sr_runtime_read_authority_roots r). q = FileObject (casefold v))
     \<or> (\<exists>ns. sr_session_object_read_binding r = Some (observed_binding ns) \<and> q \<in> set (window_pair ns))"

definition accounted :: "world \<Rightarrow> string \<Rightarrow> doc_file \<Rightarrow> os_object \<Rightarrow> bool" where
  "accounted w sid f q \<longleftrightarrow> (\<exists>r. disk_table w f sid = Some r \<and> accounts r q)"

lemma observed_binding_inj [simp]: "observed_binding a = observed_binding b \<longleftrightarrow> a = b"
  by (cases a; cases b) (auto simp: observed_binding_def window_station_text_def)

lemma accounts_cong:
  "sr_runtime_read_authority_roots r = sr_runtime_read_authority_roots r' \<Longrightarrow>
   sr_session_object_read_binding r = sr_session_object_read_binding r' \<Longrightarrow> accounts r = accounts r'"
  by (simp add: fun_eq_iff accounts_def)

section \<open>Published documents\<close>

lemma published_in [simp]:
  "d \<in> set (fst (stop e)) \<longleftrightarrow> False" "d \<in> set (fst (give x)) \<longleftrightarrow> False"
  "d \<in> set (fst (ask m k)) \<longleftrightarrow> (\<exists>x. m = Inr x \<and> d \<in> set (fst (k x)))"
  "d \<in> set (fst (publish st j)) \<longleftrightarrow> d = durable_write st \<or> d \<in> set (fst (j (durable_write st)))"
  by (auto simp: stop_def give_def ask_def publish_def Let_def split: sum.splits)

lemma published_if_in [simp]:
  "d \<in> set (fst (publish_if c st f k)) \<longleftrightarrow>
     (if c then d = durable_write st \<or> d \<in> set (fst (k (durable_write st))) else d \<in> set (fst (k f)))"
  by (simp add: publish_if_def)

text \<open>A document that changes one record only, by an update that keeps what it accounts for.\<close>

lemma put_accounted:
  assumes "load_state f = Inr st" "store_ok w st" "lookup_record w st sid = Inr r"
    "record_step r r'" "record_ok w r'" "accounts r q \<Longrightarrow> accounts r' q" "accounted w sid f q"
  shows "accounted w sid (durable_write (put_record st r')) q"
  using put_published(3)[OF assms(1-5)] assms(1,3,6,7)
  by (auto simp: accounted_def disk_table_load scope_table_def)

lemma update_scope_accounted:
  assumes f: "disk_ok w f" and good: "good_update w check upd"
    and keep: "\<And>r. accounts r q \<Longrightarrow> accounts (upd r) q" and a: "accounted w sid f q"
    and d: "d \<in> set (f # fst (update_scope w f sid check upd confirm))"
  shows "accounted w sid d q"
proof (cases "d = f")
  case False
  from disk_ok_load[OF f] obtain st where st: "load_state f = Inr st" "store_ok w st" .
  from d False obtain r where r: "lookup_record w st sid = Inr r" "check st r = Inr ()"
      "d = durable_write (put_record st (upd r))"
    by (auto simp: update_scope_def st(1) split: if_splits)
  with good st(2) lookup_ok(2)[OF st(2) r(1)] have "record_step r (upd r)" "record_ok w (upd r)"
    by (auto simp: good_update_def)
  from put_accounted[OF st r(1) this keep a] show ?thesis by (simp add: r(3))
qed (use a in simp)

lemma revalidate_accounted:
  assumes f: "disk_ok w f" and a: "accounted w sid f q"
    and d: "d \<in> set (f # fst (revalidate_scope w f sid n p repo sem pr now))"
  shows "accounted w sid d q"
proof (cases "d = f")
  case False
  from disk_ok_load[OF f] obtain st where st: "load_state f = Inr st" "store_ok w st" .
  from d False obtain r where r: "lookup_record w st sid = Inr r"
    by (auto simp: revalidate_scope_def st(1))
  have ok: "record_ok w r" by (rule lookup_ok(2)[OF st(2) r])
  obtain st1 where st1: "d = durable_write st1" "st1 = st
     \<or> (\<exists>r'. mark_expired_if_needed r now = Inr r' \<and> st1 = put_record st r')
     \<or> (\<exists>g ch. placement_generation_update w st p = Inr (g, st1, ch))"
  proof (cases "mark_expired_if_needed r now")
    case (Inl e)
    with d False that[of st] show thesis
      by (auto simp: revalidate_scope_def st(1) r revalidate_locked_def Let_def split: if_splits)
  next
    case (Inr r')
    note m = this
    show thesis
    proof (cases "sr_current r'")
      case cur: True
      with mark_expired(4)[OF m ok] have "r' = r" by blast
      with d False m cur that show thesis
        by (auto simp: revalidate_scope_def st(1) r revalidate_locked_def Let_def split: if_splits sum.splits)
    next
      case False
      with d \<open>d \<noteq> f\<close> m that[of st] that[of "put_record st r'"] show thesis
        by (auto simp: revalidate_scope_def st(1) r revalidate_locked_def Let_def split: if_splits)
    qed
  qed
  from st1(2) show ?thesis
  proof (elim disjE exE conjE)
    assume "st1 = st"
    with a st show ?thesis by (simp add: st1(1) accounted_def disk_table_written disk_table_load)
  next
    fix r' assume m: "mark_expired_if_needed r now = Inr r'" and dd: "st1 = put_record st r'"
    have "accounts r' = accounts r"
      using m by (auto simp: mark_expired_if_needed_def result_simps split: if_splits intro: accounts_cong)
    with put_accounted[OF st r mark_expired(1,2)[OF m ok] _ a] show ?thesis by (simp add: st1(1) dd)
  next
    fix g ch assume u: "placement_generation_update w st p = Inr (g, st1, ch)"
    note u' = generation_update[OF st(2) u]
    have "disk_table w d = disk_table w f"
      using u'(1,3) by (simp add: st1(1) disk_table_written disk_table_load[OF st(1)])
    with a show ?thesis by (simp add: accounted_def)
  qed
qed (use a in simp)

lemma terminalize_begin_accounted:
  assumes f: "disk_ok w f" and a: "accounted w sid f q"
    and d: "d \<in> set (f # fst (terminalize_begin w f sid n p repo sem hc now))"
  shows "accounted w sid d q"
proof (cases "d = f")
  case False
  from disk_ok_load[OF f] obtain st where st: "load_state f = Inr st" "store_ok w st" .
  from d False obtain r g st' ch lease where r: "lookup_record w st sid = Inr r"
      and u: "placement_generation_update w st p = Inr (g, st', ch)"
      and v: "validate_sealed_binding w st' r n repo sem = Inr lease"
      and dd: "d = durable_write st' \<or> has_runtime_authority r \<and> d = durable_write (put_record st' (r\<lparr>sr_state := Revoked\<rparr>))
        \<or> \<not> has_runtime_authority r \<and> d = durable_write (put_record st' (r\<lparr>sr_state := Terminal, sr_terminalized_at := Some (iso now)\<rparr>))"
    by (auto simp: terminalize_begin_def st(1) split: if_splits)
  note u' = generation_update[OF st(2) u]
  have ok: "record_ok w r" by (rule lookup_ok(2)[OF st(2) r])
  have l: "lookup_record w st' sid = Inr r" using r u'(11) by simp
  note pg = stored_advances(1)[OF u'(1)]
  have tab: "disk_table w (durable_write st') = disk_table w f"
    using u'(1,3) by (simp add: disk_table_written disk_table_load[OF st(1)])
  have put: "accounted w sid (durable_write (put_record st' r')) q"
    if "record_step r r'" "record_ok w r'" "accounts r' = accounts r" for r'
  proof -
    note ok' = put_record_ok(1)[OF u'(1) l _ that(2)]
    have "disk_table w (durable_write (put_record st' r')) = (disk_table w f)(sid \<mapsto> r')"
      using ok' scope_table_put[OF u'(1) l _ that(2)] that(1) u'(3)
      by (simp add: disk_table_written disk_table_load[OF st(1)] record_step_def)
    with a that(3) r show ?thesis by (auto simp: accounted_def disk_table_load[OF st(1)] scope_table_def)
  qed
  from validate_sealed_Inr[OF v] have nt: "sr_state r \<noteq> Terminal" by simp
  from dd show ?thesis
  proof (elim disjE conjE)
    assume "d = durable_write st'" with a tab show ?thesis by (simp add: accounted_def)
  next
    assume dd: "d = durable_write (put_record st' (r\<lparr>sr_state := Revoked\<rparr>))"
    note rv = revoke_step[OF nt ok]
    show ?thesis unfolding dd by (rule put[OF conjunct1[OF rv] conjunct2[OF rv]]) (rule accounts_cong; simp)
  next
    assume na: "\<not> has_runtime_authority r"
      and dd: "d = durable_write (put_record st' (r\<lparr>sr_state := Terminal, sr_terminalized_at := Some (iso now)\<rparr>))"
    show ?thesis unfolding dd by (rule put[OF terminal_step[OF na ok]]) (rule accounts_cong; simp)
  qed
qed (use a in simp)

lemma revoke_accounted:
  assumes f: "disk_ok w f" and a: "accounted w sid f q" and d: "d \<in> set (f # fst (revoke_scope w f sid n))"
  shows "accounted w sid d q"
proof (cases "d = f")
  case False
  from disk_ok_load[OF f] obtain st where st: "load_state f = Inr st" "store_ok w st" .
  from d False obtain r where r: "lookup_record w st sid = Inr r" "sr_state r \<noteq> Terminal"
      "d = durable_write (put_record st (r\<lparr>sr_state := Revoked\<rparr>))"
    by (auto simp: revoke_scope_def st(1) split: if_splits)
  note rv = revoke_step[OF r(2) lookup_ok(2)[OF st(2) r(1)]]
  show ?thesis unfolding r(3)
    by (rule put_accounted[OF st r(1) conjunct1[OF rv] conjunct2[OF rv] _ a]) (simp add: accounts_def)
qed (use a in simp)

section \<open>The runtime operations\<close>

lemma if_stop_accounted:
  "accounted w sid f q \<Longrightarrow> d \<in> set (f # fst (if c then stop e else x)) \<Longrightarrow>
     (d \<in> set (f # fst x) \<Longrightarrow> accounted w sid d q) \<Longrightarrow> accounted w sid d q"
  by (simp split: if_splits)

lemma accounts_update:
  "accounts r q \<Longrightarrow> accounts (r\<lparr>sr_state := a, sr_sandbox_identity := b, sr_sandbox_write_authority_present := c\<rparr>) q"
  "accounts r q \<Longrightarrow> accounts (r\<lparr>sr_active_job_ids := js, sr_active_process_ids := ps\<rparr>) q"
  "accounts r q \<Longrightarrow> accounts (r\<lparr>sr_sandbox_write_authority_present := c\<rparr>) q"
  "accounts r q \<Longrightarrow> accounts (r\<lparr>sr_runtime_read_authority_roots := sort_key casefold
      (if list_ex P (sr_runtime_read_authority_roots r) then sr_runtime_read_authority_roots r
       else sr_runtime_read_authority_roots r @ [v])\<rparr>) q"
  "accounts r q \<Longrightarrow> q \<noteq> FileObject (casefold v) \<Longrightarrow>
     accounts (r\<lparr>sr_runtime_read_authority_roots := filter (\<lambda>u. \<not> same_root v u) (sr_runtime_read_authority_roots r)\<rparr>) q"
  by (auto simp: accounts_def same_root_def)

lemma runtime_ops_accounted:
  assumes f: "disk_ok w f" and a: "accounted w sid f q"
  shows "d \<in> set (f # fst (reserve_sandbox_identity w f sid n sb)) \<Longrightarrow> accounted w sid d q"
    "d \<in> set (f # fst (bind_runtime_process w f sid n sb job pid)) \<Longrightarrow> accounted w sid d q"
    "d \<in> set (f # fst (reserve_runtime_read_authority w f sid n sb root)) \<Longrightarrow> accounted w sid d q"
    "d \<in> set (f # fst (release_runtime_process w f sid n job pid)) \<Longrightarrow> accounted w sid d q"
    "d \<in> set (f # fst (clear_sandbox_write_authority w f sid n sb)) \<Longrightarrow> accounted w sid d q"
  unfolding reserve_sandbox_identity_def bind_runtime_process_def release_runtime_process_def
      reserve_runtime_read_authority_def clear_sandbox_write_authority_def Let_def
  by (erule if_stop_accounted[OF a], erule update_scope_accounted[OF f _ _ a, rotated 2],
      rule good_updates, erule accounts_update)+
     (erule update_scope_accounted[OF f _ _ a, rotated 2], rule good_updates, erule accounts_update)+

lemma clear_read_accounted:
  assumes f: "disk_ok w f" and a: "accounted w sid f q" and q: "q \<noteq> FileObject (casefold (strip root))"
    and d: "d \<in> set (f # fst (clear_runtime_read_authority w f sid n sb root))"
  shows "accounted w sid d q"
  using d unfolding clear_runtime_read_authority_def Let_def
  by - (erule if_stop_accounted[OF a], erule update_scope_accounted[OF f _ _ a, rotated 2],
      rule good_updates, erule accounts_update, rule q)

lemma reserve_session_accounted:
  assumes f: "disk_ok w f" and a: "accounted w sid f q"
    and d: "d \<in> set (f # fst (reserve_session_object_read_binding w f sid n sb b))"
  shows "accounted w sid d q"
proof (cases "d = f")
  case False
  from disk_ok_load[OF f] obtain st where st: "load_state f = Inr st" "store_ok w st" .
  from d False obtain r where ok: "session_binding_ok b" and r: "lookup_record w st sid = Inr r"
      "sr_session_object_read_binding r \<in> {None, Some b}"
      "d \<in> set (f # fst (reserve_session_object_read_binding w f sid n sb b))"
      "d = durable_write (put_record st (r\<lparr>sr_session_object_read_binding := Some b\<rparr>))"
      "(if sr_generation r \<noteq> n \<or> sr_state r \<noteq> Active then Inl ScopeNotCurrent
          else if sr_sandbox_identity r \<noteq> Some sb \<or> \<not> sr_sandbox_write_authority_present r
          then Inl ScopeConflict
          else if sr_session_object_read_binding r \<notin> {None, Some b} then Inl ScopeConflict else Inr ()) = Inr ()"
    by (auto simp: reserve_session_object_read_binding_def update_scope_def st(1) split: if_splits)
  from good_reserve_session[OF ok] r(5) st(2) lookup_ok(2)[OF st(2) r(1)]
  have "record_step r (r\<lparr>sr_session_object_read_binding := Some b\<rparr>)" "record_ok w (r\<lparr>sr_session_object_read_binding := Some b\<rparr>)"
    unfolding good_update_def by blast+
  from put_accounted[OF st r(1) this _ a] r(2) show ?thesis unfolding r(4) by (auto simp: accounts_def)
qed (use a in simp)

text \<open>Clearing a binding keeps every other object accounted for.\<close>

lemma clear_session_accounted:
  assumes f: "disk_ok w f" and a: "accounted w sid f q"
    and q: "\<And>ns. b = observed_binding ns \<Longrightarrow> q \<notin> set (window_pair ns)"
    and d: "d \<in> set (f # fst (clear_session_object_read_binding w f sid n sb b))"
  shows "accounted w sid d q"
proof (cases "d = f")
  case False
  from disk_ok_load[OF f] obtain st where st: "load_state f = Inr st" "store_ok w st" .
  from d False obtain r where r: "lookup_record w st sid = Inr r" "sr_session_object_read_binding r = Some b"
      "d = durable_write (put_record st (r\<lparr>sr_session_object_read_binding := None\<rparr>))"
      "(if sr_generation r \<noteq> n then Inl ScopeNotCurrent
          else if sr_state r = Terminal then Inl ScopeNotCurrent
          else if sr_sandbox_identity r \<noteq> Some sb then Inl ScopeConflict
          else if sr_session_object_read_binding r \<noteq> Some b then Inl ScopeConflict else Inr ()) = Inr ()"
    by (auto simp: clear_session_object_read_binding_def update_scope_def st(1) split: if_splits)
  from good_clear_session r(4) st(2) lookup_ok(2)[OF st(2) r(1)]
  have "record_step r (r\<lparr>sr_session_object_read_binding := None\<rparr>)" "record_ok w (r\<lparr>sr_session_object_read_binding := None\<rparr>)"
    unfolding good_update_def by blast+
  from put_accounted[OF st r(1) this _ a] r(2) q show ?thesis unfolding r(3) by (auto simp: accounts_def)
qed (use a in simp)

text \<open>A successful reservation accounts for its object.\<close>

lemma update_scope_commits:
  assumes "disk_ok w f" "good_update w check upd" "snd (update_scope w f sid check upd confirm) = Inr c"
  shows "confirm c" "disk_table w (final_doc f (update_scope w f sid check upd confirm)) = (disk_table w f)(sid \<mapsto> c)"
  by (rule update_scope_result[OF assms], assumption)+

lemma reserve_read_accounts:
  assumes f: "disk_ok w f" and res: "snd (reserve_runtime_read_authority w f sid n sb root) = Inr c"
  shows "accounted w sid (final_doc f (reserve_runtime_read_authority w f sid n sb root)) (FileObject (casefold (strip root)))"
proof -
  have ne: "strip root \<noteq> []" using res by (auto simp: reserve_runtime_read_authority_def Let_def stop_def)
  note cm = update_scope_commits[OF f good_reserve_read[of w n sb "strip root"],
      of sid "\<lambda>c. list_ex (same_root (strip root)) (sr_runtime_read_authority_roots c)" c]
  have d: "reserve_runtime_read_authority w f sid n sb root = update_scope w f sid
       (\<lambda>st r. if sr_generation r \<noteq> n \<or> sr_state r \<noteq> Active then Inl ScopeNotCurrent
          else if sr_sandbox_identity r \<noteq> Some sb \<or> \<not> sr_sandbox_write_authority_present r
          then Inl ScopeConflict else Inr ())
       (\<lambda>r. let roots = sr_runtime_read_authority_roots r in
            r\<lparr>sr_runtime_read_authority_roots := sort_key casefold
                (if list_ex (same_root (strip root)) roots then roots else roots @ [strip root])\<rparr>)
       (\<lambda>c. list_ex (same_root (strip root)) (sr_runtime_read_authority_roots c))"
    using ne unfolding reserve_runtime_read_authority_def Let_def by (rule if_not_P)
  have res': "list_ex (same_root (strip root)) (sr_runtime_read_authority_roots c)"
    "disk_table w (final_doc f (reserve_runtime_read_authority w f sid n sb root)) = (disk_table w f)(sid \<mapsto> c)"
    unfolding d by (rule cm, rule res[unfolded d])+
  from res'(1) obtain v where "v \<in> set (sr_runtime_read_authority_roots c)" "casefold v = casefold (strip root)"
    by (auto simp: list_ex_iff same_root_def)
  then have "accounts c (FileObject (casefold (strip root)))" unfolding accounts_def by metis
  with res'(2) show ?thesis by (simp add: accounted_def)
qed

lemma reserve_session_accounts:
  assumes f: "disk_ok w f"
    and res: "snd (reserve_session_object_read_binding w f sid n sb (observed_binding ns)) = Inr c"
    and q: "q \<in> set (window_pair ns)"
  shows "accounted w sid (final_doc f (reserve_session_object_read_binding w f sid n sb (observed_binding ns))) q"
proof -
  have ok: "session_binding_ok (observed_binding ns)"
    using res by (auto simp: reserve_session_object_read_binding_def stop_def split: if_splits)
  note cm = update_scope_commits[OF f good_reserve_session[OF ok, of w n sb],
      of sid "\<lambda>c. sr_session_object_read_binding c = Some (observed_binding ns)" c]
  have d: "reserve_session_object_read_binding w f sid n sb (observed_binding ns) = update_scope w f sid
       (\<lambda>st r. if sr_generation r \<noteq> n \<or> sr_state r \<noteq> Active then Inl ScopeNotCurrent
          else if sr_sandbox_identity r \<noteq> Some sb \<or> \<not> sr_sandbox_write_authority_present r
          then Inl ScopeConflict
          else if sr_session_object_read_binding r \<notin> {None, Some (observed_binding ns)} then Inl ScopeConflict else Inr ())
       (\<lambda>r. r\<lparr>sr_session_object_read_binding := Some (observed_binding ns)\<rparr>)
       (\<lambda>c. sr_session_object_read_binding c = Some (observed_binding ns))"
    using ok by (simp add: reserve_session_object_read_binding_def)
  have res': "sr_session_object_read_binding c = Some (observed_binding ns)"
    "disk_table w (final_doc f (reserve_session_object_read_binding w f sid n sb (observed_binding ns)))
       = (disk_table w f)(sid \<mapsto> c)"
    unfolding d by (rule cm, rule res[unfolded d])+
  then have "accounts c q" using q unfolding accounts_def by blast
  with res'(2) show ?thesis by (simp add: accounted_def)
qed

end
