(* ===== verification/SandboxLogic.thy ===== *)
theory SandboxLogic
  imports SandboxLaws
begin

text \<open>
  A small program logic for broker programs. A predicate is about the store document and the
  objects the SID \<open>app\<close> can read; \<open>trip P m Q E\<close> says that from \<open>P\<close> a result satisfies \<open>Q\<close>
  and an exception, \<open>Crashed\<close> included, satisfies \<open>E\<close>. \<open>keeps P m\<close> is the triple of an
  invariant. Calls that only look keep every predicate; calls that revoke keep those that
  survive losing access (\<open>fading\<close>).
\<close>

type_synonym pred = "doc_file \<Rightarrow> os_object set \<Rightarrow> bool"

definition held :: "'o grants \<Rightarrow> string \<Rightarrow> 'o broker \<Rightarrow> os_object set" where
  "held G app s = {q. app \<in> G (br_os s) q}"

fun post :: "('a \<Rightarrow> pred) \<Rightarrow> (sb_exn \<Rightarrow> pred) \<Rightarrow> (sb_exn, 'a) result \<Rightarrow> pred" where
  "post Q E (Inr x) f g = Q x f g"
| "post Q E (Inl e) f g = E e f g"

definition trip ::
  "'o grants \<Rightarrow> string \<Rightarrow> pred \<Rightarrow> ('o, 'a) broker_op \<Rightarrow> ('a \<Rightarrow> pred) \<Rightarrow> (sb_exn \<Rightarrow> pred) \<Rightarrow> bool" where
  "trip G app P m Q E \<longleftrightarrow> (\<forall>s r t. P (br_doc s) (held G app s) \<longrightarrow> m s = (r, t) \<longrightarrow>
     post Q E r (br_doc t) (held G app t))"

abbreviation keeps :: "'o grants \<Rightarrow> string \<Rightarrow> pred \<Rightarrow> ('o, 'a) broker_op \<Rightarrow> bool" where
  "keeps G app P m \<equiv> trip G app P m (\<lambda>_. P) (\<lambda>_. P)"

definition fading :: "pred \<Rightarrow> bool" where
  "fading P \<longleftrightarrow> (\<forall>f g g'. P f g \<longrightarrow> g' \<subseteq> g \<longrightarrow> P f g')"

section \<open>Rules\<close>

lemma tripI:
  "(\<And>s r t. P (br_doc s) (held G app s) \<Longrightarrow> m s = (r, t) \<Longrightarrow> post Q E r (br_doc t) (held G app t))
     \<Longrightarrow> trip G app P m Q E"
  by (simp add: trip_def)

lemma tripD: "trip G app P m Q E \<Longrightarrow> P (br_doc s) (held G app s) \<Longrightarrow> m s = (r, t) \<Longrightarrow>
    post Q E r (br_doc t) (held G app t)"
  by (simp add: trip_def)

lemma post_mono: "post Q' E' r f g \<Longrightarrow> (\<And>x. Q' x f g \<Longrightarrow> Q x f g) \<Longrightarrow> (\<And>e. E' e f g \<Longrightarrow> E e f g) \<Longrightarrow> post Q E r f g"
  by (cases r) simp_all

lemma trip_weaken:
  assumes "trip G app P' m Q' E'" "\<And>f g. P f g \<Longrightarrow> P' f g" "\<And>x f g. Q' x f g \<Longrightarrow> Q x f g"
    "\<And>e f g. E' e f g \<Longrightarrow> E e f g"
  shows "trip G app P m Q E"
  by (rule tripI) (rule post_mono[OF tripD[OF assms(1)]], erule assms(2), assumption, erule assms(3), erule assms(4))

lemma trip_ret: "(\<And>f g. P f g \<Longrightarrow> Q x f g) \<Longrightarrow> trip G app P (bret x) Q E"
  by (rule tripI) (auto simp: bret_def)

lemma trip_fail: "(\<And>f g. P f g \<Longrightarrow> E e f g) \<Longrightarrow> trip G app P (bfail e) Q E"
  by (rule tripI) (auto simp: bfail_def)

lemma trip_bind:
  assumes m: "trip G app P m Q' E" and k: "\<And>x. trip G app (Q' x) (k x) Q E"
  shows "trip G app P (bbind m k) Q E"
proof (rule tripI)
  fix s r t assume p: "P (br_doc s) (held G app s)" and e: "bbind m k s = (r, t)"
  obtain r1 s1 where m1: "m s = (r1, s1)" by force
  from tripD[OF m p m1] e show "post Q E r (br_doc t) (held G app t)"
    by (cases r1) (auto simp: bbind_def m1 intro: tripD[OF k])
qed

lemma trip_catch:
  assumes m: "trip G app P m Q E'" and h: "\<And>e. e \<noteq> Crashed \<Longrightarrow> trip G app (E' e) (h e) Q E"
    and c: "\<And>f g. E' Crashed f g \<Longrightarrow> E Crashed f g"
  shows "trip G app P (bcatch m h) Q E"
proof (rule tripI)
  fix s r t assume p: "P (br_doc s) (held G app s)" and e: "bcatch m h s = (r, t)"
  obtain r1 s1 where m1: "m s = (r1, s1)" by force
  from tripD[OF m p m1] e show "post Q E r (br_doc t) (held G app t)"
    by (cases r1) (auto simp: bcatch_def m1 intro: tripD[OF h] c split: if_splits)
qed

lemma trip_ensure:
  "(\<And>f g. b \<Longrightarrow> P f g \<Longrightarrow> Q () f g) \<Longrightarrow> (\<And>f g. P f g \<Longrightarrow> E e f g) \<Longrightarrow> trip G app P (bensure b e) Q E"
  by (cases b) (simp_all add: bensure_def trip_ret trip_fail)

lemma trip_if: "(b \<Longrightarrow> trip G app P m Q E) \<Longrightarrow> (\<not> b \<Longrightarrow> trip G app P m' Q E) \<Longrightarrow> trip G app P (if b then m else m') Q E"
  by simp

text \<open>A fact about the start state that no program can change.\<close>

lemma trip_pure: "(C \<Longrightarrow> trip G app P m Q E) \<Longrightarrow> trip G app (\<lambda>f g. C \<and> P f g) m Q E"
  unfolding trip_def by blast

lemma keeps_ret [keeps_rules]: "keeps G app P (bret x)"
  and keeps_fail [keeps_rules]: "keeps G app P (bfail e)"
  and keeps_ensure [keeps_rules]: "keeps G app P (bensure b e)"
  by (simp_all add: trip_ret trip_fail trip_ensure)

lemma keeps_get [keeps_rules]: "keeps G app P (bget f)"
  by (rule tripI) (auto simp: bget_def)

lemma keeps_bind [keeps_rules]: "keeps G app P m \<Longrightarrow> (\<And>x. keeps G app P (k x)) \<Longrightarrow> keeps G app P (bbind m k)"
  by (rule trip_bind)

lemma keeps_catch [keeps_rules]: "keeps G app P m \<Longrightarrow> (\<And>e. keeps G app P (h e)) \<Longrightarrow> keeps G app P (bcatch m h)"
  by (rule trip_catch)

lemma keeps_if [keeps_rules]: "keeps G app P m \<Longrightarrow> keeps G app P m' \<Longrightarrow> keeps G app P (if b then m else m')"
  by simp

lemma keeps_option [keeps_rules]: "keeps G app P m \<Longrightarrow> (\<And>x. keeps G app P (k x)) \<Longrightarrow>
    keeps G app P (case v of None \<Rightarrow> m | Some x \<Rightarrow> k x)"
  by (cases v) simp_all

lemma keeps_prod [keeps_rules]: "(\<And>a b. keeps G app P (k a b)) \<Longrightarrow> keeps G app P (case ab of (a, b) \<Rightarrow> k a b)"
  by (cases ab) simp

lemma keeps_let [keeps_rules]: "(\<And>x. keeps G app P (k x)) \<Longrightarrow> keeps G app P (let x = c in k x)"
  by simp

lemma keeps_each [keeps_rules]: "(\<And>x. keeps G app P (f x)) \<Longrightarrow> keeps G app P (beach f xs)"
  by (induction xs) (auto intro: keeps_rules)

lemma keeps_attempt [keeps_rules]: "keeps G app P m \<Longrightarrow> keeps G app P (attempt m)"
  unfolding attempt_def by (intro keeps_rules)

lemma keeps_capture [keeps_rules]: "keeps G app P m \<Longrightarrow> keeps G app P (capture m)"
  unfolding capture_def by (intro keeps_rules)

text \<open>What the broker remembers in memory is not what the predicates are about.\<close>

lemma keeps_put:
  "(\<And>s. br_doc (f s) = br_doc s \<and> br_os (f s) = br_os s) \<Longrightarrow> keeps G app P (bput f)"
  by (rule tripI) (auto simp: bput_def held_def)

section \<open>Calls of the operating system\<close>

lemma post_same: "P f g \<Longrightarrow> post (\<lambda>_. P) (\<lambda>_. P) r f g"
  by (cases r) simp_all

lemma keeps_quiet: "quiet G f \<Longrightarrow> keeps G app P (bos f)"
proof (rule tripI)
  fix s r t assume q: "quiet G f" and p: "P (br_doc s) (held G app s)" and e: "bos f s = (r, t)"
  obtain r1 x1 where f: "f (br_os s) = (r1, x1)" by force
  with q have "G x1 = G (br_os s)" unfolding quiet_def by (metis snd_conv)
  with e f p show "post (\<lambda>_. P) (\<lambda>_. P) r (br_doc t) (held G app t)"
    by (auto simp: bos_def held_def intro!: post_same)
qed

lemma trip_adds:
  assumes "adds_only G obj sids f" "\<And>f g g'. P f g \<Longrightarrow> g' \<subseteq> g \<union> (if app \<in> sids then {obj} else {}) \<Longrightarrow> R f g'"
  shows "trip G app P (bos f) (\<lambda>_. R) (\<lambda>_. R)"
proof (rule tripI)
  fix s r t assume p: "P (br_doc s) (held G app s)" and e: "bos f s = (r, t)"
  obtain r1 x1 where f: "f (br_os s) = (r1, x1)" by force
  have "G x1 q \<subseteq> G (br_os s) q \<union> (if q = obj then sids else {})" for q
    using assms(1) f unfolding adds_only_def by (metis snd_conv)
  then have "held G app (s\<lparr>br_os := x1\<rparr>) \<subseteq> held G app s \<union> (if app \<in> sids then {obj} else {})"
    by (fastforce simp: held_def split: if_splits)
  from assms(2)[OF p this] e f show "post (\<lambda>_. R) (\<lambda>_. R) r (br_doc t) (held G app t)"
    by (auto simp: bos_def intro!: post_same)
qed

lemma keeps_shrinks: "adds_only G obj sids f \<Longrightarrow> app \<notin> sids \<Longrightarrow> fading P \<Longrightarrow> keeps G app P (bos f)"
  by (rule trip_adds) (auto simp: fading_def)

section \<open>Store operations\<close>

lemma trip_store:
  assumes quiet: "quiet G (api_write_fault A)"
    and mid: "\<And>f g d e. P f g \<Longrightarrow> d \<in> set (f # fst (m f)) \<Longrightarrow> E e d g"
    and fin: "\<And>f g x. P f g \<Longrightarrow> snd (m f) = Inr x \<Longrightarrow> Q x (final_doc f (m f)) g"
  shows "trip G app P (bstore A m) Q E"
proof (rule tripI)
  fix s r t assume p: "P (br_doc s) (held G app s)" and e: "bstore A m s = (r, t)"
  obtain flt o' where a: "api_write_fault A (br_os s) = (flt, o')" by force
  obtain ds r0 where m: "m (br_doc s) = (ds, r0)" by force
  have "G o' = G (br_os s)" using quiet a unfolding quiet_def by (metis snd_conv)
  then have h: "br_os u = o' \<Longrightarrow> held G app u = held G app s" for u by (simp add: held_def)
  define L where "L xs = last (br_doc s # xs)" for xs
  have in_ds: "L (take k ds) \<in> set (br_doc s # ds)" "L ds \<in> set (br_doc s # ds)" for k
    using last_in_set[of "br_doc s # take k ds"] last_in_set[of "br_doc s # ds"] set_take_subset[of k ds]
    by (auto simp: L_def simp del: last.simps)
  have bs: "bstore A m s = (case flt of
       None \<Rightarrow> ((case r0 of Inl e \<Rightarrow> Inl (Scope e) | Inr x \<Rightarrow> Inr x), s\<lparr>br_os := o', br_doc := L ds\<rparr>)
     | Some (k, e) \<Rightarrow> if k < length ds then (Inl e, s\<lparr>br_os := o', br_doc := L (take k ds)\<rparr>)
         else ((case r0 of Inl e \<Rightarrow> Inl (Scope e) | Inr x \<Rightarrow> Inr x), s\<lparr>br_os := o', br_doc := L ds\<rparr>))"
    by (cases flt) (auto simp: bstore_def a m L_def simp del: last.simps)
  have sh: "br_os t = o' \<and> ((\<exists>k er. r = Inl er \<and> br_doc t = L (take k ds)) \<or> (\<exists>er. r = Inl er \<and> br_doc t = L ds)
      \<or> (\<exists>x. r0 = Inr x \<and> r = Inr x \<and> br_doc t = L ds))"
    using e unfolding bs by (cases flt; cases r0) (auto split: if_splits prod.splits)
  have mids: "E er d (held G app t)" if "d \<in> set (br_doc s # ds)" for er d
    using mid[OF p, of d er] that m h sh by simp
  have fins: "r0 = Inr x \<Longrightarrow> Q x (L ds) (held G app t)" for x
    using fin[OF p, of x] m h sh by (simp add: final_doc_def L_def)
  from sh show "post Q E r (br_doc t) (held G app t)"
    using mids[OF in_ds(1)] mids[OF in_ds(2)] fins by auto
qed

lemma keeps_store:
  assumes "quiet G (api_write_fault A)" "\<And>f g d. P f g \<Longrightarrow> d \<in> set (f # fst (m f)) \<Longrightarrow> P d g"
  shows "keeps G app P (bstore A m)"
proof (rule trip_store[OF assms(1)])
  fix f g x assume p: "P f g"
  have "last (f # fst (m f)) \<in> set (f # fst (m f))" by (metis last_in_set list.discI)
  with assms(2)[OF p] show "P (final_doc f (m f)) g" unfolding final_doc_def by blast
qed (rule assms(2))

section \<open>What the laws give\<close>

lemma laws_quiet:
  assumes "windows_laws A G"
  shows "quiet G (api_now A)" "quiet G (api_write_fault A)" "quiet G (api_append_fault A)"
    "quiet G (api_exists A p)" "quiet G (api_is_dir A p)" "quiet G (api_reparse A p)"
    "quiet G (api_final_path A p)" "quiet G (api_resolve A p)" "quiet G (api_mkdir A p)"
    "quiet G (api_has_entries A p)" "quiet G (api_ensure_profile A n)" "quiet G (api_delete_profile A n)"
    "quiet G (api_session_id A)" "quiet G (api_window_objects A)" "quiet G (api_pid_alive A i)"
    "quiet G (api_spawn A a b c d)" "quiet G (api_report A rp)" "quiet G (api_terminate A j)"
    "quiet G (api_close A j)" "quiet G (api_resume A j)" "quiet G (api_wait A j t)" "quiet G (api_dacl A q)"
  using assms unfolding windows_laws_def looking_laws_def by auto

lemma laws_adds:
  assumes "windows_laws A G"
  shows "adds_only G (file_object p) {b} (api_set_acl A p b None)"
    "adds_only G (file_object p) {b, a} (api_set_acl A p b (Some a))"
    "adds_only G (file_object p) {sid} (api_icacls A GrantRead p sid t)"
    "adds_only G (file_object p) {} (api_icacls A RemoveGrants p sid t)"
    "adds_only G (file_object p) {} (api_merge_file A p sid (GrantAccess FILE_TRAVERSE))"
    "adds_only G (file_object p) {} (api_merge_file A p sid RevokeAccess)"
    "adds_only G q {sid} (api_merge_window A q sid (GrantAccess m))"
    "adds_only G q {} (api_merge_window A q sid RevokeAccess)"
  using assms unfolding windows_laws_def changing_laws_def by auto

lemma laws_truth:
  assumes "windows_laws A G"
  shows "api_dacl A q x = (Inr es, x') \<Longrightarrow> G x q \<subseteq> fst ` set es"
    "api_exists A p x = (Inr False, x') \<Longrightarrow> G x (file_object p) = {}"
    "fst (api_exists A p x) = Inl e \<Longrightarrow> e = Crashed"
    "fst (api_icacls A GrantRead p sid t x) = Inl e \<Longrightarrow> e \<noteq> Crashed \<Longrightarrow> G (snd (api_icacls A GrantRead p sid t x)) = G x"
    "api_ensure_profile A n x = (Inr sid, x') \<Longrightarrow> sid = api_sid A n"
    "strip (path_text (api_abspath A p)) = path_text (api_abspath A p)"
proof -
  have T: "truth_laws A G" using assms by (simp add: windows_laws_def)
  note t = T[unfolded truth_laws_def]
  show "api_dacl A q x = (Inr es, x') \<Longrightarrow> G x q \<subseteq> fst ` set es"
    by (rule t[THEN conjunct1, rule_format])
  show "api_exists A p x = (Inr False, x') \<Longrightarrow> G x (file_object p) = {}"
    by (rule t[THEN conjunct2, THEN conjunct1, rule_format])
  show "fst (api_exists A p x) = Inl e \<Longrightarrow> e = Crashed"
    by (rule t[THEN conjunct2, THEN conjunct2, THEN conjunct1, rule_format])
  show "fst (api_icacls A GrantRead p sid t x) = Inl e \<Longrightarrow> e \<noteq> Crashed \<Longrightarrow>
      G (snd (api_icacls A GrantRead p sid t x)) = G x"
    by (rule t[THEN conjunct2, THEN conjunct2, THEN conjunct2, THEN conjunct1, rule_format])
  show "api_ensure_profile A n x = (Inr sid, x') \<Longrightarrow> sid = api_sid A n"
    by (rule t[THEN conjunct2, THEN conjunct2, THEN conjunct2, THEN conjunct2, THEN conjunct1, rule_format])
  show "strip (path_text (api_abspath A p)) = path_text (api_abspath A p)"
    by (rule t[THEN conjunct2, THEN conjunct2, THEN conjunct2, THEN conjunct2, THEN conjunct2, rule_format])
qed

lemma keeps_now: "windows_laws A G \<Longrightarrow> keeps G app P (bnow A)"
proof (rule tripI)
  fix s r t assume l: "windows_laws A G" and p: "P (br_doc s) (held G app s)" and e: "bnow A s = (r, t)"
  obtain n x where f: "api_now A (br_os s) = (n, x)" by force
  with laws_quiet(1)[OF l] have "G x = G (br_os s)" unfolding quiet_def by (metis snd_conv)
  with e f p show "post (\<lambda>_. P) (\<lambda>_. P) r (br_doc t) (held G app t)"
    by (auto simp: bnow_def held_def intro!: post_same)
qed

end
