(* ===== verification/SandboxSteps.thy ===== *)
theory SandboxSteps
  imports SandboxLogic
begin

text \<open>
  The sandbox operations against the invariant \<open>accounting\<close>: everything the SID of a scope
  can read, its own workspace apart, is named in the durable record of the scope. Each lemma
  covers every outcome, the end of the process at any call included.
\<close>

section \<open>The invariant\<close>

definition scope_known :: "'o win_api \<Rightarrow> world \<Rightarrow> string \<Rightarrow> os_object \<Rightarrow> string \<Rightarrow> doc_file \<Rightarrow> bool" where
  "scope_known A w i ws app f \<longleftrightarrow> disk_ok w f
     \<and> (\<exists>r. disk_table w f i = Some r \<and> file_object (record_workspace A r) = ws
          \<and> api_sid A (profile_name w (sr_unique_lease_key r)) = app)"

definition accounting :: "'o win_api \<Rightarrow> world \<Rightarrow> string \<Rightarrow> os_object \<Rightarrow> string \<Rightarrow> pred" where
  "accounting A w i ws app f g \<longleftrightarrow> scope_known A w i ws app f \<and> (\<forall>q \<in> g. q \<noteq> ws \<longrightarrow> accounted w i f q)"

definition apart :: "os_object set \<Rightarrow> pred \<Rightarrow> pred" where
  "apart T P f g \<longleftrightarrow> P f g \<and> g \<inter> T = {}"

lemma fading_accounting [simp]: "fading (accounting A w i ws app)"
  unfolding fading_def accounting_def by blast

lemma fading_apart [simp]: "fading P \<Longrightarrow> fading (apart T P)"
  unfolding fading_def apart_def by blast

lemma known_published:
  assumes k: "scope_known A w i ws app f" and p: "published_ok w f ds" and d: "d \<in> set (f # ds)"
  shows "scope_known A w i ws app d"
proof -
  from k obtain r where f: "disk_ok w f" and r: "disk_table w f i = Some r" "file_object (record_workspace A r) = ws"
      "api_sid A (profile_name w (sr_unique_lease_key r)) = app"
    by (auto simp: scope_known_def)
  from published_ok_prefix[OF f p d] r(1) obtain r' where d: "disk_ok w d" "disk_table w d i = Some r'" "record_step r r'"
    by (auto simp: advances_def)
  from d(3) have "sr_exact_workspace r' = sr_exact_workspace r" "sr_unique_lease_key r' = sr_unique_lease_key r"
    unfolding record_step_def sealed_def immutable_digest_payload_def by simp_all
  with d r(2,3) show ?thesis by (auto simp: scope_known_def record_workspace_def)
qed

text \<open>The shape of every store step: good documents, in which what is held stays accounted for.\<close>

lemma accounting_store:
  assumes "\<And>f. disk_ok w f \<Longrightarrow> published_ok w f (fst (m f))"
    and "\<And>f g d q. disk_ok w f \<Longrightarrow> accounted w i f q \<Longrightarrow> q \<in> g \<Longrightarrow> R f g \<Longrightarrow> d \<in> set (f # fst (m f)) \<Longrightarrow> accounted w i d q"
    and "apart T (accounting A w i ws app) f g" "R f g" "d \<in> set (f # fst (m f))"
  shows "apart T (accounting A w i ws app) d g"
proof -
  from assms(3) have f: "disk_ok w f" and k: "scope_known A w i ws app f" by (auto simp: apart_def accounting_def scope_known_def)
  have "accounted w i d q" if "q \<in> g" "q \<noteq> ws" for q
    using assms(2)[OF f _ that(1) assms(4,5)] assms(3) that by (auto simp: apart_def accounting_def)
  with known_published[OF k assms(1)[OF f] assms(5)] assms(3) show ?thesis
    by (auto simp: apart_def accounting_def)
qed

lemma keeps_store_op:
  assumes "windows_laws A G" "\<And>f. disk_ok w f \<Longrightarrow> published_ok w f (fst (m f))"
    and "\<And>f d q. disk_ok w f \<Longrightarrow> accounted w i f q \<Longrightarrow> d \<in> set (f # fst (m f)) \<Longrightarrow> accounted w i d q"
  shows "keeps G app (apart T (accounting A w i ws app)) (bstore A m)"
  by (rule keeps_store[OF laws_quiet(2)[OF assms(1)]], rule accounting_store[where R = "\<lambda>_ _. True" and m = m])
     (auto intro: assms(2,3))

lemma apart_none: "apart {} P = P"
  by (simp add: fun_eq_iff apart_def)

section \<open>Checks\<close>

lemma keeps_checks:
  assumes L: "windows_laws A G"
  shows
  "keeps G app P (refuse_reparse A p)" "keeps G app P (assert_no_reparse A p p')"
  "keeps G app P (assert_final_path A p)" "keeps G app P (assert_exact_workspace_acl A p b sid)"
  "keeps G app P (assert_no_foreign_sid A p x)" "keeps G app P (delete_profile A n)"
  "keeps G app P (observe_session_objects A)" "keeps G app P (confirm_object A sid q)"
  "keeps G app P (check_gone A ps pid)" "keeps G app P (bnow A)" "keeps G app P (bos (api_dacl A q))"
  "keeps G app P (mark_released j)" "keeps G app P (forget_process j)" "keeps G app P (pop_traverse k)"
  "keeps G app P (materialize_workspace A X r)"
  unfolding refuse_reparse_def assert_no_reparse_def assert_final_path_def assert_exact_workspace_acl_def
      assert_no_foreign_sid_def delete_profile_def observe_session_objects_def confirm_object_def check_gone_def
      mark_released_def forget_process_def pop_traverse_def materialize_workspace_def Let_def
  by (intro keeps_rules keeps_quiet laws_quiet[OF L] keeps_now[OF L] keeps_put; simp)+

lemma keeps_fading:
  assumes L: "windows_laws A G" and fad: "fading P"
  shows "keeps G app P (remove_traverse A ps sid)" "keeps G app P (grant_traverse A qs sid gr)"
    "keeps G app P (grant_workspace_traverse A p sid)" "keeps G app P (ungrant_objects A sid os)"
    "keeps G app P (run_icacls A RemoveGrants p sid t)"
    "b \<noteq> app \<Longrightarrow> keeps G app P (bos (api_set_acl A p b None))"
proof -
  note shrink = keeps_shrinks[OF laws_adds(5)[OF L] _ fad] keeps_shrinks[OF laws_adds(6)[OF L] _ fad]
    keeps_shrinks[OF laws_adds(8)[OF L] _ fad] keeps_shrinks[OF laws_adds(4)[OF L] _ fad]
  show "keeps G app P (remove_traverse A ps sid)" "keeps G app P (ungrant_objects A sid os)"
    "keeps G app P (run_icacls A RemoveGrants p sid t)"
    unfolding remove_traverse_def ungrant_objects_def run_icacls_def by (intro keeps_rules shrink; simp)+
  have gt: "keeps G app P (grant_traverse A qs sid gr)" for qs gr
  proof (induction qs arbitrary: gr)
    case (Cons q qs)
    then show ?case unfolding grant_traverse.simps by (intro keeps_rules keeps_checks[OF L] shrink; simp)
  qed (simp add: keeps_ret)
  then show "keeps G app P (grant_traverse A qs sid gr)" .
  show "keeps G app P (grant_workspace_traverse A p sid)"
    unfolding grant_workspace_traverse_def by (intro keeps_rules keeps_quiet laws_quiet[OF L] gt)
  show "b \<noteq> app \<Longrightarrow> keeps G app P (bos (api_set_acl A p b None))"
    by (rule keeps_shrinks[OF laws_adds(1)[OF L] _ fad]) simp
qed

section \<open>Reading access control lists\<close>

lemma bosD: "bos f s = (r, t) \<Longrightarrow> \<exists>x. f (br_os s) = (r, x) \<and> t = s\<lparr>br_os := x\<rparr>"
  by (auto simp: bos_def Let_def split: prod.splits)

lemma quiet_held:
  assumes "quiet G f" "f (br_os s) = (r, x)" shows "held G app (s\<lparr>br_os := x\<rparr>) = held G app s"
proof -
  have "G x = G (br_os s)" using assms unfolding quiet_def by (metis snd_conv)
  then show ?thesis by (simp add: held_def)
qed

lemma trip_dacl:
  assumes L: "windows_laws A G"
  shows "trip G app P (bos (api_dacl A q)) (\<lambda>es f g. P f g \<and> (app \<notin> set (ace_sids es) \<longrightarrow> q \<notin> g)) (\<lambda>_. P)"
proof (rule tripI)
  fix s r t assume p: "P (br_doc s) (held G app s)" and e: "bos (api_dacl A q) s = (r, t)"
  from bosD[OF e] obtain x where x: "api_dacl A q (br_os s) = (r, x)" "t = s\<lparr>br_os := x\<rparr>" by blast
  have h: "held G app t = held G app s" unfolding x(2) by (rule quiet_held[OF laws_quiet(22)[OF L] x(1)])
  have "app \<in> set (ace_sids es)" if "r = Inr es" "q \<in> held G app s" for es
    using laws_truth(1)[OF L, of q "br_os s" es x] x(1) that by (auto simp: held_def ace_sids_def)
  with p h x(2) show "post (\<lambda>es f g. P f g \<and> (app \<notin> set (ace_sids es) \<longrightarrow> q \<notin> g)) (\<lambda>_. P) r (br_doc t) (held G app t)"
    by (cases r) auto
qed

lemma trip_exists:
  assumes L: "windows_laws A G"
  shows "trip G app P (bos (api_exists A p)) (\<lambda>b f g. P f g \<and> (\<not> b \<longrightarrow> file_object p \<notin> g)) (\<lambda>e f g. P f g \<and> e = Crashed)"
proof (rule tripI)
  fix s r t assume p: "P (br_doc s) (held G app s)" and e: "bos (api_exists A p) s = (r, t)"
  from bosD[OF e] obtain x where x: "api_exists A p (br_os s) = (r, x)" "t = s\<lparr>br_os := x\<rparr>" by blast
  have h: "held G app t = held G app s" unfolding x(2) by (rule quiet_held[OF laws_quiet(4)[OF L] x(1)])
  have "file_object p \<notin> held G app s" if "r = Inr False"
    using laws_truth(2)[OF L, of p "br_os s" x] x(1) that by (simp add: held_def)
  moreover have "er = Crashed" if "r = Inl er" for er
    using laws_truth(3)[OF L, of p "br_os s" er] x(1) that by simp
  ultimately show "post (\<lambda>b f g. P f g \<and> (\<not> b \<longrightarrow> file_object p \<notin> g)) (\<lambda>e f g. P f g \<and> e = Crashed) r (br_doc t) (held G app t)"
    using p h x(2) by (cases r) auto
qed

text \<open>A removal that succeeds has proved that nothing is left; all its failures are residual authority.\<close>

lemma fading_without: "fading P \<Longrightarrow> fading (\<lambda>f g. P f g \<and> q \<notin> g)"
  unfolding fading_def by blast

lemma trip_residual:
  assumes "trip G app P m Q (\<lambda>_. P)"
  shows "trip G app P (bcatch m (\<lambda>_. bfail (Sandbox ResidualGrant))) Q (\<lambda>e f g. P f g \<and> e \<in> {Crashed, Sandbox ResidualGrant})"
  by (rule trip_catch, rule assms) (auto intro: trip_fail)

lemma trip_remove_existing:
  assumes L: "windows_laws A G" and fad: "fading P"
  shows "trip G app P
     (bbind (bcatch (bos (api_dacl A q)) (\<lambda>_. bfail (Sandbox ResidualGrant))) (\<lambda>es.
       if app \<notin> set (ace_sids es) then bret () else
       bbind (bcatch (bbind (run_icacls A RemoveGrants root app t) (\<lambda>_. bos (api_dacl A q)))
           (\<lambda>_. bfail (Sandbox ResidualGrant)))
         (\<lambda>after. bensure (app \<notin> set (ace_sids after)) (Sandbox ResidualGrant))))
     (\<lambda>_ f g. P f g \<and> q \<notin> g) (\<lambda>e f g. P f g \<and> e \<in> {Crashed, Sandbox ResidualGrant})"
    (is "trip G app P ?m ?Q ?E")
proof (rule trip_bind[OF trip_residual[OF trip_dacl[OF L]]])
  fix es
  let ?R = "\<lambda>es f g. P f g \<and> (app \<notin> set (ace_sids es) \<longrightarrow> q \<notin> g)"
  have "trip G app P (bbind (run_icacls A RemoveGrants root app t) (\<lambda>_. bos (api_dacl A q))) ?R (\<lambda>_. P)"
    by (rule trip_bind[OF keeps_fading(5)[OF L fad] trip_dacl[OF L]])
  from trip_bind[OF trip_residual[OF this], of "\<lambda>after. bensure (app \<notin> set (ace_sids after)) (Sandbox ResidualGrant)" ?Q]
  have "trip G app P (bbind (bcatch (bbind (run_icacls A RemoveGrants root app t) (\<lambda>_. bos (api_dacl A q)))
           (\<lambda>_. bfail (Sandbox ResidualGrant)))
         (\<lambda>after. bensure (app \<notin> set (ace_sids after)) (Sandbox ResidualGrant))) ?Q ?E"
    by (auto intro: trip_ensure)
  then have "trip G app (?R es) (bbind (bcatch (bbind (run_icacls A RemoveGrants root app t) (\<lambda>_. bos (api_dacl A q)))
           (\<lambda>_. bfail (Sandbox ResidualGrant)))
         (\<lambda>after. bensure (app \<notin> set (ace_sids after)) (Sandbox ResidualGrant))) ?Q ?E"
    by (rule trip_weaken) auto
  then show "trip G app (?R es) (if app \<notin> set (ace_sids es) then bret () else
       bbind (bcatch (bbind (run_icacls A RemoveGrants root app t) (\<lambda>_. bos (api_dacl A q)))
           (\<lambda>_. bfail (Sandbox ResidualGrant)))
         (\<lambda>after. bensure (app \<notin> set (ace_sids after)) (Sandbox ResidualGrant))) ?Q ?E"
    by (intro trip_if) (auto intro: trip_ret)
qed

lemma trip_remove_read:
  assumes L: "windows_laws A G" and fad: "fading P"
  shows "trip G app P (remove_runtime_read A root app t) (\<lambda>_ f g. P f g \<and> file_object root \<notin> g)
     (\<lambda>e f g. P f g \<and> e \<in> {Crashed, Sandbox ResidualGrant})" (is "trip G app P _ ?Q ?E")
  unfolding remove_runtime_read_def
proof (rule trip_bind)
  show "trip G app P (bos (api_exists A root)) (\<lambda>b f g. P f g \<and> (\<not> b \<longrightarrow> file_object root \<notin> g)) ?E"
    by (rule trip_weaken[OF trip_exists[OF L]]) auto
next
  fix there
  show "trip G app (\<lambda>f g. P f g \<and> (\<not> there \<longrightarrow> file_object root \<notin> g)) (if \<not> there then bret () else
     bbind (bcatch (bos (api_dacl A (file_object root))) (\<lambda>_. bfail (Sandbox ResidualGrant))) (\<lambda>es.
     if app \<notin> set (ace_sids es) then bret () else
     bbind (bcatch (bbind (run_icacls A RemoveGrants root app t) (\<lambda>_. bos (api_dacl A (file_object root))))
              (\<lambda>_. bfail (Sandbox ResidualGrant))) (\<lambda>after.
     bensure (app \<notin> set (ace_sids after)) (Sandbox ResidualGrant)))) ?Q ?E"
    by (rule trip_if, rule trip_ret, simp, rule trip_weaken[OF trip_remove_existing[OF L fad]]) auto
qed

end
