(* ===== verification/SandboxGrants.thy ===== *)
theory SandboxGrants
  imports SandboxSteps
begin

text \<open>
  Every operation of the sandbox keeps \<open>accounting\<close>: activation with its roll-back, the
  processes, the session objects, the clean-up and both phases of terminalisation.
\<close>

lemma trip_keeps_pre: "keeps G app P m \<Longrightarrow> (\<And>e f g. P f g \<Longrightarrow> E e f g) \<Longrightarrow> trip G app P m (\<lambda>_. P) E"
  by (erule trip_weaken) auto

section \<open>Runtime roots\<close>

lemma trip_icacls_grant:
  assumes L: "windows_laws A G" and R: "\<And>f g g'. P f g \<Longrightarrow> g' \<subseteq> insert (file_object root) g \<Longrightarrow> R f g'"
  shows "trip G app P (bos (api_icacls A GrantRead root app t)) (\<lambda>_. R) (\<lambda>e f g. R f g \<and> (e \<noteq> Crashed \<longrightarrow> P f g))"
proof (rule tripI)
  fix s r u assume p: "P (br_doc s) (held G app s)" and e: "bos (api_icacls A GrantRead root app t) s = (r, u)"
  from bosD[OF e] obtain x where x: "api_icacls A GrantRead root app t (br_os s) = (r, x)" "u = s\<lparr>br_os := x\<rparr>" by blast
  have "trip G app P (bos (api_icacls A GrantRead root app t)) (\<lambda>_. R) (\<lambda>_. R)"
    by (rule trip_adds[OF laws_adds(3)[OF L]]) (auto intro: R)
  from tripD[OF this p e] have "R (br_doc u) (held G app u)" by (cases r) auto
  moreover have "held G app u = held G app s" if "r = Inl er" "er \<noteq> Crashed" for er
    using laws_truth(4)[OF L, of root app t "br_os s" er] x that by (simp add: held_def)
  ultimately show "post (\<lambda>_. R) (\<lambda>e f g. R f g \<and> (e \<noteq> Crashed \<longrightarrow> P f g)) r (br_doc u) (held G app u)"
    using p x(2) by (cases r) auto
qed

abbreviation acc :: "'o win_api \<Rightarrow> world \<Rightarrow> string \<Rightarrow> os_object \<Rightarrow> string \<Rightarrow> os_object set \<Rightarrow> pred" where
  "acc A w i ws app T \<equiv> apart T (accounting A w i ws app)"

lemma fading_acc: "fading (acc A w i ws app T)"
  by simp

lemma trip_grant_read:
  assumes L: "windows_laws A G" and T: "file_object root \<notin> T"
  shows "trip G app (\<lambda>f g. acc A w i ws app (insert (file_object root) T) f g \<and> accounted w i f (file_object root))
     (grant_runtime_read A root app t) (\<lambda>_. acc A w i ws app T)
     (\<lambda>e f g. acc A w i ws app T f g \<and> (e \<notin> {Crashed, Sandbox ResidualGrant} \<longrightarrow> file_object root \<notin> g))"
    (is "trip G app ?P _ (\<lambda>_. ?R) ?E")
proof -
  have R: "?R f g'" if "?P f g" "g' \<subseteq> insert (file_object root) g" for f g g'
    using that T by (auto simp: apart_def accounting_def)
  have PE: "?P f g \<Longrightarrow> ?E e f g" for e f g by (auto simp: apart_def accounting_def)
  have run: "trip G app ?P (run_icacls A GrantRead root app t) (\<lambda>_. ?R)
      (\<lambda>e f g. ?R f g \<and> (e \<notin> {Crashed, Sandbox AclViolation} \<longrightarrow> ?P f g))"
    unfolding run_icacls_def
  proof (rule trip_bind)
    show "trip G app ?P (bos (api_icacls A GrantRead root app t)) (\<lambda>_. ?R)
        (\<lambda>e f g. ?R f g \<and> (e \<notin> {Crashed, Sandbox AclViolation} \<longrightarrow> ?P f g))"
      by (rule trip_weaken[OF trip_icacls_grant[OF L, where P = ?P and R = ?R and root = root and t = t]]) (auto intro: R)
    show "trip G app ?R (bensure (x = ExitCode 0) (Sandbox AclViolation)) (\<lambda>_. ?R)
        (\<lambda>e f g. ?R f g \<and> (e \<notin> {Crashed, Sandbox AclViolation} \<longrightarrow> ?P f g))" for x
      by (rule trip_ensure) auto
  qed
  have "trip G app ?P (bcatch (run_icacls A GrantRead root app t) (\<lambda>e.
       if e = Sandbox AclViolation then bbind (remove_runtime_read A root app t) (\<lambda>_. bfail e) else bfail e))
       (\<lambda>_. ?R) ?E"
  proof (rule trip_catch[OF run])
    fix e assume ne: "e \<noteq> Crashed"
    show "trip G app (\<lambda>f g. ?R f g \<and> (e \<notin> {Crashed, Sandbox AclViolation} \<longrightarrow> ?P f g))
      (if e = Sandbox AclViolation then bbind (remove_runtime_read A root app t) (\<lambda>_. bfail e) else bfail e) (\<lambda>_. ?R) ?E"
    proof (rule trip_if)
      have "trip G app ?R (remove_runtime_read A root app t) (\<lambda>_ f g. ?R f g \<and> file_object root \<notin> g) ?E"
        by (rule trip_weaken[OF trip_remove_read[OF L fading_acc]]) auto
      then have "trip G app ?R (bbind (remove_runtime_read A root app t) (\<lambda>_. bfail e)) (\<lambda>_. ?R) ?E"
        by (rule trip_bind) (rule trip_fail, simp)
      then show "trip G app (\<lambda>f g. ?R f g \<and> (e \<notin> {Crashed, Sandbox AclViolation} \<longrightarrow> ?P f g))
          (bbind (remove_runtime_read A root app t) (\<lambda>_. bfail e)) (\<lambda>_. ?R) ?E"
        by (rule trip_weaken) auto
      assume "e \<noteq> Sandbox AclViolation"
      with ne PE[of _ _ e] show "trip G app (\<lambda>f g. ?R f g \<and> (e \<notin> {Crashed, Sandbox AclViolation} \<longrightarrow> ?P f g))
          (bfail e) (\<lambda>_. ?R) ?E" by (intro trip_fail) auto
    qed
  qed auto
  then show ?thesis unfolding grant_runtime_read_def
    by (intro trip_bind[OF trip_keeps_pre[OF keeps_checks(2)[OF L] PE]] trip_bind[OF trip_keeps_pre[OF keeps_checks(3)[OF L] PE]])
qed

lemma root_object: "windows_laws A G \<Longrightarrow>
    FileObject (casefold (strip (root_text A root))) = file_object (api_abspath A root)"
  by (simp add: root_text_def file_object_def laws_truth(6))

text \<open>Clearing the marker of a root that is no longer readable.\<close>

lemma keeps_clear_root:
  assumes L: "windows_laws A G" and r: "sr_scope_id r = i" and w: "sx_world X = w"
  shows "trip G app (\<lambda>f g. acc A w i ws app T f g \<and> file_object (api_abspath A root) \<notin> g) (clear_root A X r sid root)
     (\<lambda>_. acc A w i ws app T) (\<lambda>_. acc A w i ws app T)"
proof -
  let ?m = "\<lambda>f. clear_runtime_read_authority w f i (sr_generation r) sid (root_text A root)"
  have st: "acc A w i ws app T d g" if "acc A w i ws app T f g \<and> file_object (api_abspath A root) \<notin> g" "d \<in> set (f # fst (?m f))" for f g d
  proof (rule accounting_store[where m = ?m and R = "\<lambda>_ g. file_object (api_abspath A root) \<notin> g"])
    show "accounted w i d q" if "disk_ok w f" "accounted w i f q" "q \<in> g" "file_object (api_abspath A root) \<notin> g"
      "d \<in> set (f # fst (?m f))" for f g d q
      by (rule clear_read_accounted[OF that(1,2) _ that(5)]) (use that(3,4) root_object[OF L] in auto)
  qed (use that in \<open>auto intro: runtime_ops_published(5)\<close>)
  have "last (f # fst (?m f)) \<in> set (f # fst (?m f))" for f by (metis last_in_set list.discI)
  with st show ?thesis unfolding clear_root_def w r
    by (intro trip_store[OF laws_quiet(2)[OF L]]) (auto simp: final_doc_def)
qed

lemma trip_reserve_root:
  assumes L: "windows_laws A G" and r: "sr_scope_id r = i" and w: "sx_world X = w"
  shows "trip G app (acc A w i ws app T) (reserve_root A X r sid root)
     (\<lambda>_ f g. acc A w i ws app T f g \<and> accounted w i f (file_object (api_abspath A root))) (\<lambda>_. acc A w i ws app T)"
proof -
  let ?m = "\<lambda>f. reserve_runtime_read_authority w f i (sr_generation r) sid (root_text A root)"
  have st: "acc A w i ws app T d g" if "acc A w i ws app T f g" "d \<in> set (f # fst (?m f))" for f g d
    by (rule accounting_store[where m = ?m and R = "\<lambda>_ _. True"])
       (use that in \<open>auto intro: runtime_ops_published(4) runtime_ops_accounted(3)\<close>)
  have "last (f # fst (?m f)) \<in> set (f # fst (?m f))" for f by (metis last_in_set list.discI)
  moreover have "accounted w i (final_doc f (?m f)) (file_object (api_abspath A root))"
    if "acc A w i ws app T f g" "snd (?m f) = Inr c" for f g c
    using reserve_read_accounts[OF _ that(2)] that(1) root_object[OF L]
    by (auto simp: apart_def accounting_def scope_known_def)
  ultimately show ?thesis using st unfolding reserve_root_def w r
    by (intro trip_store[OF laws_quiet(2)[OF L]]) (auto simp: final_doc_def)
qed

lemma trip_grant_root:
  assumes L: "windows_laws A G" and r: "sr_scope_id r = i" and w: "sx_world X = w"
    and T: "file_object (api_abspath A root) \<notin> T"
  shows "trip G app (acc A w i ws app (insert (file_object (api_abspath A root)) T)) (grant_root A X r app root)
     (\<lambda>_. acc A w i ws app T) (\<lambda>_. acc A w i ws app T)"
    (is "trip G app ?P _ (\<lambda>_. ?R) _")
proof -
  have PR: "?P f g \<Longrightarrow> ?R f g" for f g by (auto simp: apart_def)
  have "trip G app (\<lambda>f g. ?P f g \<and> accounted w i f (file_object (api_abspath A root)))
      (bcatch (grant_runtime_read A (api_abspath A root) app (acl_timeout X)) (\<lambda>e.
       if e = Sandbox ResidualGrant then bfail e else bbind (clear_root A X r app root) (\<lambda>_. bfail e)))
      (\<lambda>_. ?R) (\<lambda>_. ?R)"
  proof (rule trip_catch[OF trip_grant_read[OF L T]])
    fix e :: sb_exn assume ne: "e \<noteq> Crashed"
    have "trip G app (\<lambda>f g. ?R f g \<and> file_object (api_abspath A root) \<notin> g)
        (bbind (clear_root A X r app root) (\<lambda>_. bfail e)) (\<lambda>_. ?R) (\<lambda>_. ?R)"
      by (rule trip_bind[OF keeps_clear_root[OF L r w]]) (auto intro: trip_fail)
    then show "trip G app (\<lambda>f g. ?R f g \<and> (e \<notin> {Crashed, Sandbox ResidualGrant} \<longrightarrow> file_object (api_abspath A root) \<notin> g))
       (if e = Sandbox ResidualGrant then bfail e else bbind (clear_root A X r app root) (\<lambda>_. bfail e)) (\<lambda>_. ?R) (\<lambda>_. ?R)"
      by (intro trip_if) (auto intro: trip_fail elim: trip_weaken simp: ne)
  qed auto
  moreover have "trip G app ?P (reserve_root A X r app root)
      (\<lambda>_ f g. ?P f g \<and> accounted w i f (file_object (api_abspath A root))) (\<lambda>_. ?R)"
    by (rule trip_weaken[OF trip_reserve_root[OF L r w, where T = "insert (file_object (api_abspath A root)) T"]]) (auto intro: PR)
  ultimately show ?thesis unfolding grant_root_def
    by (intro trip_bind[OF trip_keeps_pre[OF keeps_quiet[OF laws_quiet(5)[OF L]] PR]]
        trip_bind[OF trip_keeps_pre[OF keeps_ensure PR]] trip_bind)
qed

text \<open>A block whose exception is kept for later.\<close>

lemma trip_capture:
  assumes "trip G app P m (\<lambda>_. Q) (\<lambda>_. E)" "\<And>f g. Q f g \<Longrightarrow> E f g"
  shows "trip G app P (capture m) (\<lambda>v f g. E f g \<and> (v = None \<longrightarrow> Q f g)) (\<lambda>_. E)"
  unfolding capture_def
proof (rule trip_catch)
  show "trip G app P (bbind m (\<lambda>_. bret None)) (\<lambda>v f g. E f g \<and> (v = None \<longrightarrow> Q f g)) (\<lambda>_. E)"
    by (rule trip_bind[OF assms(1)]) (auto intro: trip_ret assms(2))
qed (auto intro: trip_ret)

lemma trip_grant_roots:
  assumes L: "windows_laws A G" and r: "sr_scope_id r = i" and w: "sx_world X = w"
    and d: "distinct (map (\<lambda>p. file_object (api_abspath A p)) roots)"
  shows "trip G app (acc A w i ws app (set (map (\<lambda>p. file_object (api_abspath A p)) roots)))
     (grant_roots A X r app roots granted) (\<lambda>_. acc A w i ws app {}) (\<lambda>_. acc A w i ws app {})"
  using d
proof (induction roots arbitrary: granted)
  case Nil
  then show ?case by (auto intro: trip_ret)
next
  case (Cons root rest)
  let ?T = "set (map (\<lambda>p. file_object (api_abspath A p)) rest)"
  have sub: "acc A w i ws app ?T f g \<Longrightarrow> acc A w i ws app {} f g" for f g by (auto simp: apart_def)
  have g: "trip G app (acc A w i ws app (set (map (\<lambda>p. file_object (api_abspath A p)) (root # rest))))
      (capture (grant_root A X r app root)) (\<lambda>v f g. acc A w i ws app {} f g \<and> (v = None \<longrightarrow> acc A w i ws app ?T f g))
      (\<lambda>_. acc A w i ws app {})"
    by (rule trip_capture[OF trip_weaken[OF trip_grant_root[OF L r w, where T = ?T]]]) (use Cons.prems sub in auto)
  show ?case unfolding grant_roots.simps
  proof (rule trip_bind[OF g])
    fix v
    show "trip G app (\<lambda>f g. acc A w i ws app {} f g \<and> (v = None \<longrightarrow> acc A w i ws app ?T f g))
        (case v of None \<Rightarrow> grant_roots A X r app rest (granted @ [root]) | Some e \<Rightarrow> bret (granted, Some e))
        (\<lambda>_. acc A w i ws app {}) (\<lambda>_. acc A w i ws app {})"
    proof (cases v)
      case None
      from Cons.IH[of "granted @ [root]"] Cons.prems
      have "trip G app (acc A w i ws app ?T) (grant_roots A X r app rest (granted @ [root]))
          (\<lambda>_. acc A w i ws app {}) (\<lambda>_. acc A w i ws app {})" by simp
      then show ?thesis by (auto simp: None elim: trip_weaken)
    qed (auto intro: trip_ret)
  qed
qed

section \<open>Activation\<close>

lemma keeps_remove_read:
  "windows_laws A G \<Longrightarrow> fading P \<Longrightarrow> keeps G app P (remove_runtime_read A root app t)"
  by (rule trip_weaken[OF trip_remove_read[where P = P]]) auto

lemma trip_claim_acl:
  assumes L: "windows_laws A G" and ws: "ws = file_object wsp" "ws \<notin> T" and b: "sx_broker_sid X \<noteq> app"
  shows "keeps G app (acc A w i ws app T) (claim_acl A X r wsp app)"
proof -
  have "keeps G app (acc A w i ws app T) (bos (api_set_acl A wsp (sx_broker_sid X) (Some app)))"
    by (rule trip_adds[OF laws_adds(2)[OF L]]) (use ws in \<open>auto simp: apart_def accounting_def\<close>)
  then show ?thesis unfolding claim_acl_def
    by (intro keeps_rules keeps_checks[OF L] keeps_fading[OF L fading_acc] keeps_put) simp_all
qed

definition root_objects :: "'o win_api \<Rightarrow> sandbox \<Rightarrow> os_object list" where
  "root_objects A X = map (\<lambda>p. file_object (api_abspath A p)) (mp_runtime_read_roots (sx_policy X))"

lemma trip_activation_grants:
  assumes L: "windows_laws A G" and r: "sr_scope_id r = i" and w: "sx_world X = w"
    and ws: "ws = file_object wsp" and b: "sx_broker_sid X \<noteq> app"
    and roots: "distinct (root_objects A X)" "ws \<notin> set (root_objects A X)"
  shows "trip G app (acc A w i ws app (set (root_objects A X))) (activation_grants A X r wsp app)
     (\<lambda>_. acc A w i ws app {}) (\<lambda>_. acc A w i ws app {})" (is "trip G app ?P _ (\<lambda>_. ?R) _")
proof -
  have PR: "?P f g \<Longrightarrow> ?R f g" for f g by (auto simp: apart_def)
  have c: "trip G app ?P (capture (claim_acl A X r wsp app)) (\<lambda>_. ?P) (\<lambda>_. ?R)"
    by (rule trip_keeps_pre[OF keeps_capture[OF trip_claim_acl[OF L ws roots(2) b]] PR])
  have g: "trip G app ?P (grant_roots A X r app (mp_runtime_read_roots (sx_policy X)) []) (\<lambda>_. ?R) (\<lambda>_. ?R)"
    unfolding root_objects_def by (rule trip_grant_roots[OF L r w roots(1)[unfolded root_objects_def]])
  have e: "keeps G app ?R (case x of (granted, failed) \<Rightarrow> (case failed of Some e \<Rightarrow> bret (granted, Some e)
      | None \<Rightarrow> bbind (capture (bbind (assert_no_reparse A (api_abspath A (sx_root X)) wsp)
              (\<lambda>_. assert_final_path A wsp))) (\<lambda>failed. bret (granted, failed))))" for x :: "path list \<times> sb_exn option"
    by (intro keeps_rules keeps_checks[OF L])
  show ?thesis unfolding activation_grants_def
  proof (rule trip_bind[OF c])
    fix v :: "sb_exn option"
    show "trip G app ?P (case v of Some e \<Rightarrow> bret ([], Some e) | None \<Rightarrow>
        bbind (grant_roots A X r app (mp_runtime_read_roots (sx_policy X)) []) (\<lambda>(granted, failed).
        case failed of Some e \<Rightarrow> bret (granted, Some e)
        | None \<Rightarrow> bbind (capture (bbind (assert_no_reparse A (api_abspath A (sx_root X)) wsp)
              (\<lambda>_. assert_final_path A wsp))) (\<lambda>failed. bret (granted, failed)))) (\<lambda>_. ?R) (\<lambda>_. ?R)"
      by (cases v) (auto intro: trip_bind[OF g e] trip_ret PR)
  qed
qed

text \<open>Clearing a marker after a proved removal, and the operations that touch no marker.\<close>

lemma keeps_removed_root:
  assumes L: "windows_laws A G" and r: "sr_scope_id r = i" and w: "sx_world X = w"
  shows "keeps G app (acc A w i ws app T) (bbind (remove_runtime_read A (api_abspath A root) app t)
     (\<lambda>_. bbind (clear_root A X r sid root) (\<lambda>_. bret ())))"
  by (rule trip_bind[OF trip_weaken[OF trip_remove_read[OF L fading_acc]]], assumption, assumption, simp)
     (rule trip_bind[OF keeps_clear_root[OF L r w] keeps_ret])

lemma keeps_scope_ops:
  assumes L: "windows_laws A G"
  shows "keeps G app (acc A w i ws app T) (bstore A (\<lambda>f. clear_sandbox_write_authority w f i n sid))"
    "keeps G app (acc A w i ws app T) (bstore A (\<lambda>f. reserve_sandbox_identity w f i n sid))"
    "keeps G app (acc A w i ws app T) (bstore A (\<lambda>f. bind_runtime_process w f i n sid job pid))"
    "keeps G app (acc A w i ws app T) (bstore A (\<lambda>f. release_runtime_process w f i n job pid))"
    "keeps G app (acc A w i ws app T) (bstore A (\<lambda>f. revoke_scope w f i n))"
    "keeps G app (acc A w i ws app T) (bstore A (\<lambda>f. revalidate_scope w f i n p repo sem pr now))"
    "keeps G app (acc A w i ws app T) (bstore A (\<lambda>f. terminalize_begin w f i n p repo sem hc now))"
    "keeps G app (acc A w i ws app T) (bstore A (\<lambda>f. read_scope w f i))"
    "keeps G app (acc A w i ws app T) (bstore A (\<lambda>f. reserve_session_object_read_binding w f i n sid b))"
proof -
  show "keeps G app (acc A w i ws app T) (bstore A (\<lambda>f. clear_sandbox_write_authority w f i n sid))"
    by (rule keeps_store_op[OF L]) (rule runtime_ops_published(8) runtime_ops_accounted(5); assumption)+
  show "keeps G app (acc A w i ws app T) (bstore A (\<lambda>f. reserve_sandbox_identity w f i n sid))"
    by (rule keeps_store_op[OF L]) (rule runtime_ops_published(1) runtime_ops_accounted(1); assumption)+
  show "keeps G app (acc A w i ws app T) (bstore A (\<lambda>f. bind_runtime_process w f i n sid job pid))"
    by (rule keeps_store_op[OF L]) (rule runtime_ops_published(2) runtime_ops_accounted(2); assumption)+
  show "keeps G app (acc A w i ws app T) (bstore A (\<lambda>f. release_runtime_process w f i n job pid))"
    by (rule keeps_store_op[OF L]) (rule runtime_ops_published(3) runtime_ops_accounted(4); assumption)+
  show "keeps G app (acc A w i ws app T) (bstore A (\<lambda>f. revoke_scope w f i n))"
    by (rule keeps_store_op[OF L]) (rule revoke_published revoke_accounted; assumption)+
  show "keeps G app (acc A w i ws app T) (bstore A (\<lambda>f. revalidate_scope w f i n p repo sem pr now))"
    by (rule keeps_store_op[OF L]) (rule revalidate_scope_published revalidate_accounted; assumption)+
  show "keeps G app (acc A w i ws app T) (bstore A (\<lambda>f. terminalize_begin w f i n p repo sem hc now))"
    by (rule keeps_store_op[OF L]) (rule terminalize_begin_published terminalize_begin_accounted; assumption)+
  show "keeps G app (acc A w i ws app T) (bstore A (\<lambda>f. read_scope w f i))"
    by (rule keeps_store_op[OF L]) (auto simp: read_scope_def ask_def give_def stop_def split: sum.splits)
  show "keeps G app (acc A w i ws app T) (bstore A (\<lambda>f. reserve_session_object_read_binding w f i n sid b))"
    by (rule keeps_store_op[OF L]) (rule runtime_ops_published(6) reserve_session_accounted; assumption)+
qed

lemma keeps_rollback:
  assumes L: "windows_laws A G" and r: "sr_scope_id r = i" and w: "sx_world X = w" and b: "sx_broker_sid X \<noteq> app"
  shows "keeps G app (acc A w i ws app T) (rollback_activation A X r wsp app granted)"
proof -
  have roots: "keeps G app (acc A w i ws app T) (rollback_roots A X r app ps)" for ps
    by (induction ps) (simp_all only: rollback_roots.simps, auto intro!: keeps_rules keeps_removed_root[OF L r w])
  show ?thesis unfolding rollback_activation_def w r
    by (intro keeps_rules roots keeps_scope_ops[OF L] keeps_checks[OF L] keeps_fading[OF L fading_acc]
        keeps_quiet laws_quiet[OF L]) (use b in simp)
qed

lemma table_id: "disk_ok w f \<Longrightarrow> disk_table w f i = Some r \<Longrightarrow> sr_scope_id r = i"
  by (erule (1) table_record) (rule lookup_ok(1))

lemma reserved_sandbox_id:
  assumes f: "disk_ok w f" and res: "snd (reserve_sandbox_identity w f i n sid) = Inr c"
  shows "sr_scope_id c = i"
proof -
  have ne: "strip sid \<noteq> []" using res by (auto simp: reserve_sandbox_identity_def Let_def stop_def)
  have d: "reserve_sandbox_identity w f i n sid = update_scope w f i
       (\<lambda>st r. if sr_generation r \<noteq> n \<or> \<not> sr_current r then Inl ScopeNotCurrent else
          rbind (assert_unrivalled w st r) (\<lambda>_.
          if sr_sandbox_identity r \<notin> {None, Some (strip sid)} then Inl ScopeConflict else Inr ()))
       (\<lambda>r. r\<lparr>sr_state := Active, sr_sandbox_identity := Some (strip sid),
              sr_sandbox_write_authority_present := True\<rparr>)
       (\<lambda>c. sr_sandbox_identity c = Some (strip sid) \<and> sr_sandbox_write_authority_present c)"
    using ne unfolding reserve_sandbox_identity_def Let_def by (rule if_not_P)
  have t: "disk_table w (final_doc f (reserve_sandbox_identity w f i n sid)) i = Some c"
    unfolding d by (subst update_scope_commits(2)[OF f good_reserve_sandbox res[unfolded d]]) simp
  have "last (f # fst (reserve_sandbox_identity w f i n sid)) \<in> set (f # fst (reserve_sandbox_identity w f i n sid))"
    by (metis last_in_set list.discI)
  with published_ok_prefix[OF f runtime_ops_published(1)[OF f]]
  have "disk_ok w (final_doc f (reserve_sandbox_identity w f i n sid))" unfolding final_doc_def by blast
  from table_id[OF this t] show ?thesis .
qed

lemma trip_revalidate:
  assumes L: "windows_laws A G" and w: "sx_world X = w"
  shows "trip G app (acc A w i ws app T) (sx_revalidate A X i n)
     (\<lambda>r f g. (sr_scope_id r = i \<and> file_object (record_workspace A r) = ws
        \<and> api_sid A (profile_name w (sr_unique_lease_key r)) = app) \<and> acc A w i ws app T f g) (\<lambda>_. acc A w i ws app T)"
  unfolding sx_revalidate_def w
proof (rule trip_bind[OF keeps_now[OF L]])
  fix now
  let ?m = "\<lambda>f. revalidate_scope w f i n (sx_policy X) (sx_repository X) (sx_semantic X) (sx_protected X) now"
  have st: "acc A w i ws app T d g" if "acc A w i ws app T f g" "d \<in> set (f # fst (?m f))" for f g d
    by (rule accounting_store[where m = ?m and R = "\<lambda>_ _. True"])
       (use that in \<open>auto intro: revalidate_scope_published revalidate_accounted\<close>)
  have fin: "last (f # fst (?m f)) \<in> set (f # fst (?m f))" for f by (metis last_in_set list.discI)
  have "sr_scope_id r = i \<and> file_object (record_workspace A r) = ws
      \<and> api_sid A (profile_name w (sr_unique_lease_key r)) = app"
    if a: "acc A w i ws app T f g" and res: "snd (?m f) = Inr r" for f g r
  proof -
    from a obtain r0 where f: "disk_ok w f" and r0: "disk_table w f i = Some r0" "file_object (record_workspace A r0) = ws" "api_sid A (profile_name w (sr_unique_lease_key r0)) = app"
      by (auto simp: apart_def accounting_def scope_known_def)
    from revalidate_scope_result[OF f res] obtain st where st: "load_state f = Inr st" "store_ok w st"
        "lookup_record w st i = Inr r" by metis
    with r0(1) have "r = r0" by (simp add: disk_table_load scope_table_def)
    with lookup_ok(1)[OF st(2,3)] r0(2,3) show ?thesis by simp
  qed
  with st fin show "trip G app (acc A w i ws app T) (bstore A ?m)
     (\<lambda>r f g. (sr_scope_id r = i \<and> file_object (record_workspace A r) = ws
        \<and> api_sid A (profile_name w (sr_unique_lease_key r)) = app) \<and> acc A w i ws app T f g) (\<lambda>_. acc A w i ws app T)"
    by (intro trip_store[OF laws_quiet(2)[OF L]]) (auto simp: final_doc_def)
qed

lemma bbind_Inr: "bbind m k s = (Inr x, t) \<longleftrightarrow> (\<exists>y u. m s = (Inr y, u) \<and> k y u = (Inr x, t))"
  by (cases "m s") (auto simp: bbind_def split: sum.splits)

lemma trip_value:
  assumes k: "keeps G app P m" and v: "\<And>s x t. m s = (Inr x, t) \<Longrightarrow> C x"
  shows "trip G app P m (\<lambda>x f g. C x \<and> P f g) (\<lambda>_. P)"
proof (rule tripI)
  fix s r t assume "P (br_doc s) (held G app s)" and e: "m s = (r, t)"
  from tripD[OF k this] v e show "post (\<lambda>x f g. C x \<and> P f g) (\<lambda>_. P) r (br_doc t) (held G app t)"
    by (cases r) auto
qed

lemma trip_materialize:
  assumes L: "windows_laws A G"
  shows "trip G app P (materialize_workspace A X r) (\<lambda>x f g. fst x = record_workspace A r \<and> P f g) (\<lambda>_. P)"
  by (rule trip_value[OF keeps_checks(15)[OF L]]) (auto simp: materialize_workspace_def bbind_Inr bret_def Let_def)

lemma trip_claim_workspace:
  assumes L: "windows_laws A G" and r: "sr_scope_id r = i" and w: "sx_world X = w"
  shows "trip G app (acc A w i ws app T) (claim_workspace A X r wsp existed sid)
     (\<lambda>r' f g. sr_scope_id r' = i \<and> acc A w i ws app T f g) (\<lambda>_. acc A w i ws app T)"
proof -
  let ?m = "\<lambda>f. reserve_sandbox_identity w f i (sr_generation r) sid"
  have st: "acc A w i ws app T d g" if "acc A w i ws app T f g" "d \<in> set (f # fst (?m f))" for f g d
    by (rule accounting_store[where m = ?m and R = "\<lambda>_ _. True"])
       (use that in \<open>auto intro: runtime_ops_published(1) runtime_ops_accounted(1)\<close>)
  have fin: "last (f # fst (?m f)) \<in> set (f # fst (?m f))" for f by (metis last_in_set list.discI)
  have "sr_scope_id c = i" if "acc A w i ws app T f g" "snd (?m f) = Inr c" for f g c
    using reserved_sandbox_id[OF _ that(2)] that(1) by (auto simp: apart_def accounting_def scope_known_def)
  with st fin have s: "trip G app (acc A w i ws app T) (bstore A ?m)
      (\<lambda>r' f g. sr_scope_id r' = i \<and> acc A w i ws app T f g) (\<lambda>_. acc A w i ws app T)"
    by (intro trip_store[OF laws_quiet(2)[OF L]]) (auto simp: final_doc_def)
  show ?thesis
  proof (cases "sr_sandbox_identity r = None")
    case True
    have "keeps G app (acc A w i ws app T) (if existed then
            bcatch (bbind (bos (api_has_entries A wsp)) (\<lambda>full.
                bbind (bensure (\<not> full) (Sandbox PathViolation)) (\<lambda>_. assert_no_foreign_sid A wsp None)))
              (\<lambda>e. bbind (delete_profile A (profile_name (sx_world X) (sr_unique_lease_key r))) (\<lambda>_. bfail e))
          else bret ())"
      by (intro keeps_rules keeps_checks[OF L] keeps_quiet laws_quiet[OF L])
    from trip_bind[OF this s] show ?thesis unfolding claim_workspace_def by (simp add: True w r)
  next
    case False
    have "trip G app (acc A w i ws app T) (bbind (assert_no_foreign_sid A wsp (Some sid)) (\<lambda>_. bret r))
        (\<lambda>r' f g. sr_scope_id r' = i \<and> acc A w i ws app T f g) (\<lambda>_. acc A w i ws app T)"
      by (rule trip_bind[OF keeps_checks(5)[OF L] trip_ret]) (simp add: r)
    then show ?thesis unfolding claim_workspace_def by (simp add: False)
  qed
qed

text \<open>Activation, whatever its outcome.\<close>

lemma trip_ensure_profile:
  assumes L: "windows_laws A G"
  shows "trip G app P (bos (api_ensure_profile A n)) (\<lambda>sid f g. sid = api_sid A n \<and> P f g) (\<lambda>_. P)"
proof (rule tripI)
  fix s r t assume p: "P (br_doc s) (held G app s)" and e: "bos (api_ensure_profile A n) s = (r, t)"
  from bosD[OF e] obtain x where x: "api_ensure_profile A n (br_os s) = (r, x)" "t = s\<lparr>br_os := x\<rparr>" by blast
  have h: "held G app t = held G app s" unfolding x(2) by (rule quiet_held[OF laws_quiet(11)[OF L] x(1)])
  have "sid = api_sid A n" if "r = Inr sid" for sid
    using laws_truth(5)[OF L, of n "br_os s" sid x] x(1) that by simp
  with p h x(2) show "post (\<lambda>sid f g. sid = api_sid A n \<and> P f g) (\<lambda>_. P) r (br_doc t) (held G app t)"
    by (cases r) auto
qed

lemma trip_activate:
  assumes L: "windows_laws A G" and r: "sr_scope_id r0 = i" and w: "sx_world X = w"
    and b: "sx_broker_sid X \<noteq> app"
    and roots: "distinct (root_objects A X)" "ws \<notin> set (root_objects A X)"
  shows "trip G app (acc A w i ws app (set (root_objects A X))) (activate A X r0 start)
     (\<lambda>_. acc A w i ws app {}) (\<lambda>_. acc A w i ws app {})" (is "trip G app ?P _ (\<lambda>_. ?R) _")
proof -
  have PR: "?P f g \<Longrightarrow> ?R f g" for f g by (auto simp: apart_def)
  note pre = trip_keeps_pre[where P = ?P and E = "\<lambda>_. ?R", OF _ PR]
  have grants: "trip G app ?P
      (bbind (activation_grants A X r' wsp app) (\<lambda>(granted, failed). case failed of
         None \<Rightarrow> bret z
       | Some e \<Rightarrow> bbind (rollback_activation A X r' wsp app granted) (\<lambda>bad.
           bfail (if bad then Sandbox ResidualGrant else e)))) (\<lambda>_. ?R) (\<lambda>_. ?R)"
    if wsp: "ws = file_object wsp" and r': "sr_scope_id r' = i" for r' wsp and z :: activation
    by (rule trip_bind[OF trip_activation_grants[OF L r' w wsp b roots]])
       (intro keeps_rules keeps_rollback[OF L r' w b])
  have claim: "trip G app ?P (claim_workspace A X r1 wsp ex sid)
      (\<lambda>r' f g. sr_scope_id r' = i \<and> ?P f g) (\<lambda>_. ?R)" if "sr_scope_id r1 = i" for r1 wsp ex sid
    by (rule trip_weaken[OF trip_claim_workspace[OF L that w, where T = "set (root_objects A X)"]]) (auto intro: PR)
  have rest: "trip G app (\<lambda>f g. fst x = record_workspace A r1 \<and> ?P f g)
     (case x of (wsp, existed) \<Rightarrow>
       bbind (bos (api_ensure_profile A (profile_name (sx_world X) (sr_unique_lease_key r1)))) (\<lambda>sid.
       bbind (bensure (sr_sandbox_identity r1 \<in> {None, Some sid}) (Sandbox SandboxMismatch)) (\<lambda>_.
       bbind (claim_workspace A X r1 wsp existed sid) (\<lambda>r.
       bbind (activation_grants A X r wsp sid) (\<lambda>(granted, failed). case failed of
         None \<Rightarrow> bret \<lparr>ac_scope_id = sr_scope_id r, ac_generation = sr_generation r,
             ac_workspace_id = sr_workspace_id r, ac_unique_lease_key = sr_unique_lease_key r, ac_workspace = wsp,
             ac_sandbox_identity = sid, ac_appcontainer_name = profile_name (sx_world X) (sr_unique_lease_key r1),
             ac_broker_identity = sx_broker_sid X\<rparr>
       | Some e \<Rightarrow> bbind (rollback_activation A X r wsp sid granted) (\<lambda>bad.
           bfail (if bad then Sandbox ResidualGrant else e))))))) (\<lambda>_. ?R) (\<lambda>_. ?R)"
    if r1: "sr_scope_id r1 = i" "file_object (record_workspace A r1) = ws"
      "api_sid A (profile_name w (sr_unique_lease_key r1)) = app" for r1 x
  proof (cases x)
    case (Pair wsp existed)
    have sid: "trip G app ?P (bos (api_ensure_profile A (profile_name (sx_world X) (sr_unique_lease_key r1))))
        (\<lambda>sid f g. sid = app \<and> ?P f g) (\<lambda>_. ?R)"
      by (rule trip_weaken[OF trip_ensure_profile[OF L, where P = ?P]]) (auto simp: w r1(3) PR)
    show ?thesis unfolding Pair prod.case fst_conv
      by (intro trip_pure trip_bind[OF sid] trip_bind[OF pre[OF keeps_ensure]] trip_bind[OF claim[OF r1(1)]])
         (assumption | (simp only:, rule grants, (simp add: r1(2))+))+
  qed
  have rev: "trip G app ?P (sx_revalidate A X (sr_scope_id r0) (sr_generation r0))
      (\<lambda>r f g. (sr_scope_id r = i \<and> file_object (record_workspace A r) = ws
        \<and> api_sid A (profile_name w (sr_unique_lease_key r)) = app) \<and> ?P f g) (\<lambda>_. ?R)"
    unfolding r by (rule trip_weaken[OF trip_revalidate[OF L w, where T = "set (root_objects A X)"]]) (auto intro: PR)
  have mat: "trip G app ?P (materialize_workspace A X r1)
      (\<lambda>x f g. fst x = record_workspace A r1 \<and> ?P f g) (\<lambda>_. ?R)" for r1
    by (rule trip_weaken[OF trip_materialize[OF L, where P = ?P]]) (auto intro: PR)
  show ?thesis unfolding activate_def
    by (intro trip_bind[OF rev] trip_pure trip_bind[OF pre[OF keeps_ensure]] trip_bind[OF mat] rest) auto
qed

section \<open>Processes and session objects\<close>

lemma trip_remove_object:
  assumes L: "windows_laws A G" and fad: "fading P"
  shows "trip G app P (remove_object_read A app q) (\<lambda>_ f g. P f g \<and> q \<notin> g) (\<lambda>_. P)"
  unfolding remove_object_read_def
proof (rule trip_bind[OF keeps_checks(11)[OF L]])
  fix es
  show "trip G app P (bbind (if app \<in> set (ace_sids es) then bos (api_merge_window A q app RevokeAccess) else bret ()) (\<lambda>_.
     bbind (bos (api_dacl A q)) (\<lambda>after. bensure (app \<notin> set (ace_sids after)) (Sandbox ResidualGrant))))
     (\<lambda>_ f g. P f g \<and> q \<notin> g) (\<lambda>_. P)"
    by (rule trip_bind[OF keeps_if[OF keeps_shrinks[OF laws_adds(8)[OF L] _ fad] keeps_ret]], simp)
       (rule trip_bind[OF trip_dacl[OF L]], rule trip_ensure, auto)
qed

lemma trip_remove_session:
  assumes L: "windows_laws A G" and fad: "fading P"
  shows "trip G app P (remove_session_read A ns app) (\<lambda>_ f g. P f g \<and> g \<inter> set (window_pair ns) = {}) (\<lambda>_. P)"
proof -
  let ?ws = "WindowStation (fst ns)" and ?d = "DesktopObject (fst ns) (snd ns)"
  have e: "remove_session_read A ns app = bbind (remove_object_read A app ?d) (\<lambda>_.
      bbind (remove_object_read A app ?ws) (\<lambda>_. bret ()))"
    by (simp add: remove_session_read_def window_pair_def)
  have 2: "trip G app (\<lambda>f g. P f g \<and> ?d \<notin> g) (remove_object_read A app ?ws)
      (\<lambda>_ f g. (P f g \<and> ?d \<notin> g) \<and> ?ws \<notin> g) (\<lambda>_. P)"
    by (rule trip_weaken[OF trip_remove_object[OF L fading_without[OF fad]]]) auto
  show ?thesis unfolding e
    by (rule trip_bind[OF trip_remove_object[OF L fad]], rule trip_bind[OF 2])
       (auto intro: trip_ret simp: window_pair_def)
qed

text \<open>Clearing a binding after a proved removal from both objects.\<close>

lemma trip_clear_session:
  assumes L: "windows_laws A G"
  shows "trip G app (\<lambda>f g. acc A w i ws app T f g \<and> g \<inter> set (window_pair ns) = {})
     (bstore A (\<lambda>f. clear_session_object_read_binding w f i n sid (observed_binding ns)))
     (\<lambda>_. acc A w i ws app T) (\<lambda>_. acc A w i ws app T)"
proof -
  let ?m = "\<lambda>f. clear_session_object_read_binding w f i n sid (observed_binding ns)"
  have st: "acc A w i ws app T d g"
    if "acc A w i ws app T f g \<and> g \<inter> set (window_pair ns) = {}" "d \<in> set (f # fst (?m f))" for f g d
  proof (rule accounting_store[where m = ?m and R = "\<lambda>_ g. g \<inter> set (window_pair ns) = {}"])
    show "accounted w i d q" if "disk_ok w f" "accounted w i f q" "q \<in> g" "g \<inter> set (window_pair ns) = {}"
      "d \<in> set (f # fst (?m f))" for f g d q
      by (rule clear_session_accounted[OF that(1,2) _ that(5)]) (use that(3,4) in auto)
  qed (use that in \<open>auto intro: runtime_ops_published(7)\<close>)
  have "last (f # fst (?m f)) \<in> set (f # fst (?m f))" for f by (metis last_in_set list.discI)
  with st show ?thesis by (intro trip_store[OF laws_quiet(2)[OF L]]) (auto simp: final_doc_def)
qed

lemma trip_reserve_session:
  assumes L: "windows_laws A G"
  shows "trip G app (acc A w i ws app T)
     (bstore A (\<lambda>f. reserve_session_object_read_binding w f i n sid (observed_binding ns)))
     (\<lambda>_ f g. acc A w i ws app T f g \<and> (\<forall>q \<in> set (window_pair ns). accounted w i f q)) (\<lambda>_. acc A w i ws app T)"
proof -
  let ?m = "\<lambda>f. reserve_session_object_read_binding w f i n sid (observed_binding ns)"
  have st: "acc A w i ws app T d g" if "acc A w i ws app T f g" "d \<in> set (f # fst (?m f))" for f g d
    by (rule accounting_store[where m = ?m and R = "\<lambda>_ _. True"])
       (use that in \<open>auto intro: runtime_ops_published(6) reserve_session_accounted\<close>)
  have fin: "last (f # fst (?m f)) \<in> set (f # fst (?m f))" for f by (metis last_in_set list.discI)
  have "accounted w i (final_doc f (?m f)) q"
    if "acc A w i ws app T f g" "snd (?m f) = Inr c" "q \<in> set (window_pair ns)" for f g c q
    using reserve_session_accounts[OF _ that(2,3)] that(1) by (auto simp: apart_def accounting_def scope_known_def)
  with st fin show ?thesis by (intro trip_store[OF laws_quiet(2)[OF L]]) (auto simp: final_doc_def)
qed

text \<open>Granting objects that are accounted for.\<close>

lemma keeps_grant_session:
  assumes L: "windows_laws A G"
    and P: "\<And>f g g' q. P f g \<Longrightarrow> q \<in> set qs \<Longrightarrow> g' \<subseteq> insert q g \<Longrightarrow> P f g'" and fad: "fading P"
  shows "keeps G app P (grant_session_read A app qs granted)"
  using P
proof (induction qs arbitrary: granted)
  case (Cons q qs)
  have "keeps G app P (bos (api_merge_window A q app (GrantAccess (object_mask q))))"
    by (rule trip_adds[OF laws_adds(7)[OF L]], rule Cons.prems) auto
  then have "keeps G app P (grant_object A app q)"
    unfolding grant_object_def by (intro keeps_rules keeps_checks[OF L])
  moreover have "keeps G app P (grant_session_read A app qs (granted @ [q]))"
    by (rule Cons.IH, rule Cons.prems) auto
  ultimately show ?case unfolding grant_session_read.simps
    by (intro keeps_rules keeps_checks[OF L] keeps_fading[OF L fad])
qed (simp add: keeps_ret)

lemma trip_observe:
  assumes L: "windows_laws A G"
  shows "keeps G app P (observe_session_objects A)"
  by (rule keeps_checks(7)[OF L])

lemma keeps_enable_session:
  assumes L: "windows_laws A G" and a: "ac_scope_id a = i" "ac_sandbox_identity a = app" and w: "sx_world X = w"
  shows "keeps G app (acc A w i ws app {}) (enable_session_read A X a)" (is "keeps G app ?P _")
  unfolding enable_session_read_def a w
proof (rule trip_bind[OF trip_observe[OF L]])
  fix ns
  let ?S = "\<lambda>f g. ?P f g \<and> (\<forall>q \<in> set (window_pair ns). accounted w i f q)"
  have g: "keeps G app ?S (grant_session_read A app (window_pair ns) [])"
    by (rule keeps_grant_session[OF L]) (auto simp: fading_def apart_def accounting_def)
  have undo: "trip G app ?P (bbind (remove_session_read A ns app) (\<lambda>_.
      bbind (bstore A (\<lambda>f. clear_session_object_read_binding w f i (ac_generation a) app (observed_binding ns)))
        (\<lambda>_. bret ()))) (\<lambda>_. ?P) (\<lambda>_. ?P)"
    by (rule trip_bind[OF trip_remove_session[OF L fading_acc]], rule trip_bind[OF trip_clear_session[OF L]])
       (rule keeps_ret)
  have "keeps G app ?P (bbind (bcatch (bbind (remove_session_read A ns app) (\<lambda>_.
      bbind (bstore A (\<lambda>f. clear_session_object_read_binding w f i (ac_generation a) app (observed_binding ns)))
        (\<lambda>_. bret ()))) (\<lambda>_. bfail (Sandbox ResidualGrant))) (\<lambda>_. bfail e))" for e
    by (intro keeps_bind keeps_catch undo keeps_fail)
  then have "trip G app ?S (bcatch (grant_session_read A app (window_pair ns) []) (\<lambda>e.
      bbind (bcatch (bbind (remove_session_read A ns app) (\<lambda>_.
        bbind (bstore A (\<lambda>f. clear_session_object_read_binding w f i (ac_generation a) app (observed_binding ns)))
          (\<lambda>_. bret ()))) (\<lambda>_. bfail (Sandbox ResidualGrant))) (\<lambda>_. bfail e))) (\<lambda>_. ?P) (\<lambda>_. ?P)"
    by (intro trip_catch[OF trip_weaken[OF g, where Q = "\<lambda>_. ?P" and E = "\<lambda>_. ?P"]]) auto
  then show "keeps G app ?P (bbind (bstore A (\<lambda>f. reserve_session_object_read_binding w f i (ac_generation a) app
         (observed_binding ns))) (\<lambda>_. bcatch (grant_session_read A app (window_pair ns) []) (\<lambda>e.
      bbind (bcatch (bbind (remove_session_read A ns app) (\<lambda>_.
        bbind (bstore A (\<lambda>f. clear_session_object_read_binding w f i (ac_generation a) app (observed_binding ns)))
          (\<lambda>_. bret ()))) (\<lambda>_. bfail (Sandbox ResidualGrant))) (\<lambda>_. bfail e))))"
    by (rule trip_bind[OF trip_reserve_session[OF L]])
qed

lemma keeps_release:
  assumes L: "windows_laws A G" and a: "ac_scope_id a = i" and w: "sx_world X = w"
  shows "keeps G app (acc A w i ws app T) (release_process A X a p)"
    "keeps G app (acc A w i ws app T) (wait_process A X a p t)"
    "keeps G app (acc A w i ws app T) (terminate_process A X a p)"
  unfolding release_process_def wait_process_def terminate_process_def is_released_def a w
  by (intro keeps_rules keeps_checks[OF L] keeps_quiet laws_quiet[OF L] keeps_scope_ops[OF L])+

lemma keeps_append_fault: "windows_laws A G \<Longrightarrow> keeps G app P (bos (\<lambda>x. case api_append_fault A x of (t, x') \<Rightarrow> (Inr t, x')))"
  using laws_quiet(3)[of A G] by (intro keeps_quiet) (simp add: quiet_def split: prod.split, metis snd_conv)

lemma keeps_commit_spawn:
  assumes L: "windows_laws A G" and a: "ac_scope_id a = i" and w: "sx_world X = w"
  shows "keeps G app (acc A w i ws app T) (commit_spawn A X a p start e)"
proof -
  have act: "keeps G app (acc A w i ws app T) (case act of
       TerminateSuspended \<Rightarrow> bbind (bos (api_terminate A (rp_job p))) (\<lambda>_. release_process A X a p)
     | ResumeSuspended \<Rightarrow> bos (api_resume A (rp_job p)))" for act
    by (cases act) (simp_all, (intro keeps_rules keeps_quiet laws_quiet[OF L] keeps_release[OF L a w])+)
  have res: "keeps G app (acc A w i ws app T) (case r of Inl err \<Rightarrow> bfail (Audit err) | Inr _ \<Rightarrow> bret ())" for r :: "(audit_error, audit_spawn) result"
    by (cases r) (simp_all add: keeps_ret keeps_fail)
  show ?thesis unfolding commit_spawn_def
    by (intro keeps_rules keeps_checks[OF L] keeps_append_fault[OF L] keeps_put act res) simp_all
qed

lemma trip_spawn:
  assumes L: "windows_laws A G" and a: "ac_scope_id a = i" "ac_sandbox_identity a = app" and w: "sx_world X = w"
  shows "keeps G app (acc A w i ws app {}) (spawn A X a start argv cwd env)"
  unfolding spawn_def assert_activation_current_def sx_revalidate_def is_released_def a(1) w
  by (intro keeps_rules keeps_checks[OF L] keeps_quiet laws_quiet[OF L] keeps_scope_ops[OF L] keeps_put
      keeps_release[OF L a(1) w] keeps_commit_spawn[OF L a(1) w] keeps_enable_session[OF L a w]) simp_all

end
