(* ===== verification/SandboxRun.thy ===== *)
theory SandboxRun
  imports SandboxGrants
begin

text \<open>
  The clean-up and terminalisation against \<open>accounting\<close>, and runs of a sandbox: any sequence
  of activations, processes, waits, terminalisations and restarts of the broker, each ending
  in any way Windows and the disk allow.
\<close>

section \<open>Clean-up\<close>

lemma keeps_stop_job:
  assumes L: "windows_laws A G" shows "keeps G app P (stop_job A job)"
  unfolding stop_job_def Let_def
  by (intro keeps_rules keeps_checks[OF L] keeps_quiet laws_quiet[OF L])

lemma keeps_cleanup_session:
  assumes L: "windows_laws A G" and r: "sr_scope_id r = i" "sr_sandbox_identity r = Some app" and w: "sx_world X = w"
  shows "keeps G app (acc A w i ws app {}) (cleanup_session_read A X r)" (is "keeps G app ?P _")
proof (cases "sr_session_object_read_binding r")
  case None
  then show ?thesis by (simp add: cleanup_session_read_def keeps_ret)
next
  case (Some b)
  have clear: "trip G app ?P (bbind (bensure (observed_binding ns = b) (Sandbox SandboxMismatch)) (\<lambda>_.
      bbind (remove_session_read A ns app) (\<lambda>_.
      bbind (bstore A (\<lambda>f. clear_session_object_read_binding w f i (sr_generation r) app b)) (\<lambda>_. bret ()))))
      (\<lambda>_. ?P) (\<lambda>_. ?P)" for ns
  proof (cases "observed_binding ns = b")
    case True
    show ?thesis unfolding True[symmetric]
      by (intro trip_bind[OF keeps_ensure] trip_bind[OF trip_remove_session[OF L fading_acc]]
          trip_bind[OF trip_clear_session[OF L]] keeps_ret)
  next
    case False
    then show ?thesis by (auto simp: bensure_def bbind_def bfail_def intro!: tripI)
  qed
  show ?thesis unfolding cleanup_session_read_def Some option.case r w
    by (intro keeps_if keeps_fail keeps_bind keeps_catch keeps_ensure clear keeps_checks[OF L] keeps_scope_ops[OF L])
qed

lemma trip_cleanup_workspace:
  assumes L: "windows_laws A G" and ws: "file_object (record_workspace A r) = ws" and b: "sx_broker_sid X \<noteq> app"
  shows "trip G app (acc A w i ws app {}) (cleanup_workspace A X r app) (\<lambda>_. acc A w i ws app {ws}) (\<lambda>_. acc A w i ws app {})"
    (is "trip G app ?P _ (\<lambda>_. ?Q) _")
proof -
  have PQ: "?P f g \<Longrightarrow> ws \<notin> g \<Longrightarrow> ?Q f g" for f g by (auto simp: apart_def)
  have acl: "trip G app ?P (bbind (assert_no_reparse A (api_abspath A (sx_root X)) (record_workspace A r)) (\<lambda>_.
      bbind (assert_final_path A (record_workspace A r)) (\<lambda>_.
      bbind (bos (api_set_acl A (record_workspace A r) (sx_broker_sid X) None)) (\<lambda>_.
      bbind (bos (api_dacl A (file_object (record_workspace A r)))) (\<lambda>es.
      bensure (app \<notin> set (ace_sids es)) (Sandbox ResidualGrant)))))) (\<lambda>_. ?Q) (\<lambda>_. ?P)"
    by (intro trip_bind[OF keeps_checks(2)[OF L]] trip_bind[OF keeps_checks(3)[OF L]]
        trip_bind[OF keeps_fading(6)[OF L fading_acc b]] trip_bind[OF trip_dacl[OF L]] trip_ensure) (auto simp: ws intro: PQ)
  have ex: "trip G app ?P (bos (api_exists A (record_workspace A r)))
      (\<lambda>there f g. ?P f g \<and> (\<not> there \<longrightarrow> ws \<notin> g)) (\<lambda>_. ?P)"
    by (rule trip_weaken[OF trip_exists[OF L, where P = ?P]]) (auto simp: ws)
  show ?thesis unfolding cleanup_workspace_def Let_def
    by (rule trip_bind[OF ex], rule trip_if, rule trip_ret, use PQ in blast)
       (rule trip_weaken[OF acl], auto)
qed

lemma keeps_cleanup_root:
  assumes L: "windows_laws A G" and r: "sr_scope_id r = i" and w: "sx_world X = w"
  shows "keeps G app (acc A w i ws app T) (cleanup_root A X r app d root)"
proof (cases d)
  case True
  then show ?thesis unfolding cleanup_root_def by (simp add: keeps_removed_root[OF L r w])
next
  case False
  then show ?thesis unfolding cleanup_root_def
    by (simp add: keeps_bind keeps_ret keeps_remove_read[OF L fading_acc])
qed

lemma trip_cleanup_identity:
  assumes L: "windows_laws A G" and r: "sr_scope_id r = i" "sr_sandbox_identity r = Some app" and w: "sx_world X = w"
    and ws: "file_object (record_workspace A r) = ws" and b: "sx_broker_sid X \<noteq> app"
  shows "trip G app (acc A w i ws app {}) (cleanup_identity A X r app) (\<lambda>_. acc A w i ws app {ws}) (\<lambda>_. acc A w i ws app {})"
    (is "trip G app ?P _ (\<lambda>_. ?Q) _")
proof -
  have QP: "?Q f g \<Longrightarrow> ?P f g" for f g by (auto simp: apart_def)
  have tail: "keeps G app ?Q (bbind (beach (cleanup_root A X r app d) roots) (\<lambda>_.
      bbind (pop_traverse (scope_key r)) (\<lambda>traverse. bbind (remove_traverse A traverse app) (\<lambda>_.
      delete_profile A (profile_name (sx_world X) (sr_unique_lease_key r))))))" for d roots
    by (intro keeps_rules keeps_cleanup_root[OF L r(1) w] keeps_checks[OF L] keeps_fading[OF L fading_acc])
  show ?thesis unfolding cleanup_identity_def Let_def
    by (rule trip_bind[OF keeps_if[OF keeps_cleanup_session[OF L r w] keeps_ret]],
        rule trip_bind[OF trip_cleanup_workspace[OF L ws b]], rule trip_keeps_pre[OF tail], erule QP)
qed

lemma trip_read_scope:
  assumes L: "windows_laws A G"
  shows "trip G app (acc A w i ws app T) (bstore A (\<lambda>f. read_scope w f i))
     (\<lambda>c f g. acc A w i ws app T f g \<and> disk_table w f i = Some c) (\<lambda>_. acc A w i ws app T)"
proof (rule trip_store[OF laws_quiet(2)[OF L]])
  have none: "fst (read_scope w f i) = []" for f
    by (simp add: read_scope_def ask_def give_def stop_def split: sum.splits)
  show "acc A w i ws app T d g" if "acc A w i ws app T f g" "d \<in> set (f # fst (read_scope w f i))" for f g d
    using that by (simp add: none)
  show "acc A w i ws app T (final_doc f (read_scope w f i)) g \<and> disk_table w (final_doc f (read_scope w f i)) i = Some c"
    if "acc A w i ws app T f g" "snd (read_scope w f i) = Inr c" for f g c
    using that by (auto simp: final_doc_def none read_disk_table read_scope_def ask_def give_def stop_def split: sum.splits)
qed

definition closure_of :: "world \<Rightarrow> string \<Rightarrow> runtime_closure \<Rightarrow> doc_file \<Rightarrow> bool" where
  "closure_of w i c f \<longleftrightarrow> (\<exists>q. disk_table w f i = Some q
     \<and> rc_runtime_read_authority_roots c = sr_runtime_read_authority_roots q
     \<and> rc_session_object_read_binding c = sr_session_object_read_binding q)"

lemma trip_cleanup_runtime:
  assumes L: "windows_laws A G" and r: "sr_scope_id r = i" "sr_sandbox_identity r = Some app" "app \<noteq> []" and w: "sx_world X = w"
    and ws: "file_object (record_workspace A r) = ws" and b: "sx_broker_sid X \<noteq> app"
  shows "trip G app (acc A w i ws app {}) (cleanup_runtime A X r)
     (\<lambda>c f g. acc A w i ws app {ws} f g \<and> closure_of w i c f) (\<lambda>_. acc A w i ws app {})" (is "trip G app ?P _ ?Q _")
proof -
  have QP: "acc A w i ws app {ws} f g \<Longrightarrow> ?P f g" for f g by (auto simp: apart_def)
  have rd: "trip G app (acc A w i ws app {ws}) (bstore A (\<lambda>f. read_scope w f i))
      (\<lambda>c f g. acc A w i ws app {ws} f g \<and> disk_table w f i = Some c) (\<lambda>_. ?P)"
    by (rule trip_weaken[OF trip_read_scope[OF L, where T = "{ws}"]]) (auto intro: QP)
  show ?thesis unfolding cleanup_runtime_def r(1,2) w option.case if_not_P[OF r(3)]
    by (intro trip_bind[OF keeps_each[OF keeps_stop_job[OF L]]] trip_bind[OF keeps_get]
        trip_bind[OF keeps_each[OF keeps_checks(9)[OF L]]]
        trip_bind[OF trip_cleanup_identity[OF L r(1,2) w ws b]] trip_bind[OF rd] trip_ret)
       (auto simp: closure_of_def)
qed

section \<open>Terminalisation\<close>

lemma closed_accounts_nothing:
  "sr_runtime_read_authority_roots r = [] \<Longrightarrow> sr_session_object_read_binding r = None \<Longrightarrow> \<not> accounts r q"
  by (simp add: accounts_def)

definition terminal_in :: "world \<Rightarrow> string \<Rightarrow> scope_record \<Rightarrow> doc_file \<Rightarrow> bool" where
  "terminal_in w i t f \<longleftrightarrow> disk_table w f i = Some t \<and> sr_state t = Terminal \<and> \<not> has_runtime_authority t"

lemma trip_finish:
  assumes L: "windows_laws A G"
  shows "trip G app (\<lambda>f g. acc A w i ws app {ws} f g \<and> closure_of w i c f)
     (bstore A (\<lambda>f. terminalize_finish w f i n repo sem r c now))
     (\<lambda>t f g. acc A w i ws app {} f g \<and> g = {} \<and> terminal_in w i t f) (\<lambda>_. acc A w i ws app {})"
proof (rule trip_store[OF laws_quiet(2)[OF L]])
  let ?m = "\<lambda>f. terminalize_finish w f i n repo sem r c now"
  have empty: "g = {}" if p: "acc A w i ws app {ws} f g \<and> closure_of w i c f" and ck: "closure_check c r = Inr ()" for f g
  proof -
    from p obtain q where q: "disk_table w f i = Some q"
      "sr_runtime_read_authority_roots q = rc_runtime_read_authority_roots c"
      "sr_session_object_read_binding q = rc_session_object_read_binding c" by (auto simp: closure_of_def)
    from ck have "rc_runtime_read_authority_roots c = []" "rc_session_object_read_binding c = None"
      by (auto simp: closure_check_def split: if_splits)
    with q closed_accounts_nothing[of q] have "\<not> accounted w i f x" for x by (simp add: accounted_def)
    with p show ?thesis by (auto simp: apart_def accounting_def)
  qed
  have known: "acc A w i ws app {} d {}" if "acc A w i ws app {ws} f g" "d \<in> set (f # fst (?m f))" for f g d
  proof -
    from that(1) have k: "scope_known A w i ws app f" by (simp add: apart_def accounting_def)
    then have "disk_ok w f" by (simp add: scope_known_def)
    from known_published[OF k terminalize_finish_published[OF this] that(2)] show ?thesis
      by (simp add: apart_def accounting_def)
  qed
  show "acc A w i ws app {} d g" if p: "acc A w i ws app {ws} f g \<and> closure_of w i c f"
    and d: "d \<in> set (f # fst (?m f))" for f g d
  proof (cases "closure_check c r")
    case (Inl e)
    with d p show ?thesis by (auto simp: terminalize_finish_def apart_def)
  next
    case (Inr u)
    with empty[OF p] known[OF conjunct1[OF p] d] show ?thesis by simp
  qed
  show "acc A w i ws app {} (final_doc f (?m f)) g \<and> g = {} \<and> terminal_in w i t (final_doc f (?m f))"
    if p: "acc A w i ws app {ws} f g \<and> closure_of w i c f" and res: "snd (?m f) = Inr t" for f g t
  proof -
    from p have f: "disk_ok w f" by (auto simp: apart_def accounting_def scope_known_def)
    note rs = terminalize_finish_result[OF f res]
    have "last (f # fst (?m f)) \<in> set (f # fst (?m f))" by (metis last_in_set list.discI)
    with known[OF conjunct1[OF p]] empty[OF p rs(3)] rs(1,2) terminalize_finish_commits[OF f res] show ?thesis
      by (simp add: final_doc_def terminal_in_def)
  qed
qed

text \<open>
  A scope whose identity, if it has one, is the AppContainer of its lease, and whether its
  record still carries runtime authority.
\<close>

definition own_identity :: "world \<Rightarrow> string \<Rightarrow> string \<Rightarrow> bool \<Rightarrow> doc_file \<Rightarrow> bool" where
  "own_identity w i app had f \<longleftrightarrow> (case disk_table w f i of None \<Rightarrow> False
     | Some r \<Rightarrow> sr_sandbox_identity r \<in> {None, Some app} \<and> has_runtime_authority r = had)"

lemma trip_terminalize_begin:
  assumes L: "windows_laws A G"
  shows "trip G app (\<lambda>f g. acc A w i ws app {} f g \<and> own_identity w i app had f)
     (bstore A (\<lambda>f. terminalize_begin w f i n p repo sem hc now))
     (\<lambda>t f g. acc A w i ws app {} f g \<and> (case t of
        Closed r \<Rightarrow> terminal_in w i r f \<and> g \<subseteq> {ws} \<and> \<not> had
      | CleanupRequired r \<Rightarrow> sr_scope_id r = i \<and> sr_sandbox_identity r = Some app
          \<and> file_object (record_workspace A r) = ws)) (\<lambda>_. acc A w i ws app {})"
proof (rule trip_store[OF laws_quiet(2)[OF L]])
  let ?m = "\<lambda>f. terminalize_begin w f i n p repo sem hc now"
  have st: "acc A w i ws app {} d g" if "acc A w i ws app {} f g" "d \<in> set (f # fst (?m f))" for f g d
    by (rule accounting_store[where m = ?m and R = "\<lambda>_ _. True"])
       (use that in \<open>auto intro: terminalize_begin_published terminalize_begin_accounted\<close>)
  then show "acc A w i ws app {} d g" if "acc A w i ws app {} f g \<and> own_identity w i app had f" "d \<in> set (f # fst (?m f))" for f g d
    using that by blast
  show "acc A w i ws app {} (final_doc f (?m f)) g \<and> (case t of
        Closed r \<Rightarrow> terminal_in w i r (final_doc f (?m f)) \<and> g \<subseteq> {ws} \<and> \<not> had
      | CleanupRequired r \<Rightarrow> sr_scope_id r = i \<and> sr_sandbox_identity r = Some app
          \<and> file_object (record_workspace A r) = ws)"
    if pre: "acc A w i ws app {} f g \<and> own_identity w i app had f" and res: "snd (?m f) = Inr t" for f g t
  proof -
    from pre have f: "disk_ok w f" by (auto simp: apart_def accounting_def scope_known_def)
    have "last (f # fst (?m f)) \<in> set (f # fst (?m f))" by (metis last_in_set list.discI)
    with st pre have a: "acc A w i ws app {} (final_doc f (?m f)) g" unfolding final_doc_def by blast
    from terminalize_begin_result[OF f res] obtain r where r: "disk_table w f i = Some r"
      and tab: "disk_table w (final_doc f (?m f)) = (disk_table w f)(i \<mapsto> (case t of Closed x \<Rightarrow> x | CleanupRequired x \<Rightarrow> x))"
      and t: "t = (if has_runtime_authority r then CleanupRequired (r\<lparr>sr_state := Revoked\<rparr>)
          else Closed (r\<lparr>sr_state := Terminal, sr_terminalized_at := Some (iso now)\<rparr>))" .
    from pre r have own: "sr_sandbox_identity r \<in> {None, Some app}" and h: "has_runtime_authority r = had"
      and ws: "file_object (record_workspace A r) = ws"
      by (auto simp: own_identity_def apart_def accounting_def scope_known_def)
    show ?thesis
    proof (cases "has_runtime_authority r")
      case True
      have "record_ok w r" using table_record[OF f r] by metis
      with True own have "sr_sandbox_identity r = Some app" by (auto simp: record_ok_def)
      with a ws table_id[OF f r] True show ?thesis by (simp add: t record_workspace_def)
    next
      case False
      let ?t = "r\<lparr>sr_state := Terminal, sr_terminalized_at := Some (iso now)\<rparr>"
      have "\<not> accounts r q" for q
        using False by (intro closed_accounts_nothing) (auto simp: has_runtime_authority_def)
      with r have "\<not> accounted w i f q" for q by (simp add: accounted_def)
      with pre have "g \<subseteq> {ws}" by (auto simp: apart_def accounting_def)
      with a tab False show ?thesis by (simp add: t terminal_in_def has_runtime_authority_def h[symmetric])
    qed
  qed
qed

lemma trip_terminalize:
  assumes L: "windows_laws A G" and app: "app \<noteq> []" and w: "sx_world X = w" and b: "sx_broker_sid X \<noteq> app"
  shows "trip G app (\<lambda>f g. acc A w i ws app {} f g \<and> own_identity w i app had f) (terminalize A X i n)
     (\<lambda>t f g. acc A w i ws app {} f g \<and> terminal_in w i t f \<and> g \<subseteq> (if had then {} else {ws})) (\<lambda>_. acc A w i ws app {})"
    (is "trip G app ?P _ ?Q _")
  unfolding terminalize_def w
proof (rule trip_bind[OF trip_keeps_pre[OF keeps_now[OF L]]], blast,
    rule trip_bind[OF trip_terminalize_begin[OF L]])
  fix now t
  show "trip G app (\<lambda>f g. acc A w i ws app {} f g \<and> (case t of
        Closed r \<Rightarrow> terminal_in w i r f \<and> g \<subseteq> {ws} \<and> \<not> had
      | CleanupRequired r \<Rightarrow> sr_scope_id r = i \<and> sr_sandbox_identity r = Some app
          \<and> file_object (record_workspace A r) = ws))
     (case t of Closed r \<Rightarrow> bret r | CleanupRequired r \<Rightarrow> bbind (cleanup_runtime A X r) (\<lambda>c.
         bstore A (\<lambda>f. terminalize_finish w f i n (sx_repository X) (sx_semantic X) r c now))) ?Q (\<lambda>_. acc A w i ws app {})"
  proof (cases t)
    case (Closed r)
    then show ?thesis by (auto intro: trip_ret)
  next
    case (CleanupRequired r)
    have "trip G app (acc A w i ws app {}) (bbind (cleanup_runtime A X r) (\<lambda>c.
         bstore A (\<lambda>f. terminalize_finish w f i n (sx_repository X) (sx_semantic X) r c now))) ?Q (\<lambda>_. acc A w i ws app {})"
      if r: "sr_scope_id r = i" "sr_sandbox_identity r = Some app" "file_object (record_workspace A r) = ws"
    proof (rule trip_bind[OF trip_cleanup_runtime[OF L r(1,2) app w r(3) b]])
      fix c
      show "trip G app (\<lambda>f g. acc A w i ws app {ws} f g \<and> closure_of w i c f)
          (bstore A (\<lambda>f. terminalize_finish w f i n (sx_repository X) (sx_semantic X) r c now)) ?Q (\<lambda>_. acc A w i ws app {})"
        by (rule trip_weaken[OF trip_finish[OF L]]) auto
    qed
    then have "trip G app (\<lambda>f g. (sr_scope_id r = i \<and> sr_sandbox_identity r = Some app
          \<and> file_object (record_workspace A r) = ws) \<and> acc A w i ws app {} f g) (bbind (cleanup_runtime A X r) (\<lambda>c.
         bstore A (\<lambda>f. terminalize_finish w f i n (sx_repository X) (sx_semantic X) r c now))) ?Q (\<lambda>_. acc A w i ws app {})"
      by (intro trip_pure) blast
    then show ?thesis by (auto simp: CleanupRequired elim: trip_weaken)
  qed
qed

section \<open>Runs\<close>

text \<open>
  A broker works on one scope in any order: it activates it while its SID reads no runtime
  root yet, spawns, waits, terminates, terminalises, or is restarted and forgets what it kept
  in memory. \<open>app\<close> is the SID of the AppContainer of the scope's lease.
\<close>

inductive sandbox_step :: "'o win_api \<Rightarrow> 'o grants \<Rightarrow> sandbox \<Rightarrow> string \<Rightarrow> string \<Rightarrow> 'o broker \<Rightarrow> 'o broker \<Rightarrow> bool"
  for A G X i app where
  activate: "sr_scope_id r = i \<Longrightarrow> held G app s \<inter> set (root_objects A X) = {} \<Longrightarrow>
     activate A X r start s = (out, s') \<Longrightarrow> sandbox_step A G X i app s s'"
| spawn: "ac_scope_id a = i \<Longrightarrow> ac_sandbox_identity a = app \<Longrightarrow>
     spawn A X a start argv cwd env s = (out, s') \<Longrightarrow> sandbox_step A G X i app s s'"
| wait: "ac_scope_id a = i \<Longrightarrow> wait_process A X a p t s = (out, s') \<Longrightarrow> sandbox_step A G X i app s s'"
| terminate: "ac_scope_id a = i \<Longrightarrow> terminate_process A X a p s = (out, s') \<Longrightarrow> sandbox_step A G X i app s s'"
| terminalize: "own_identity (sx_world X) i app had (br_doc s) \<Longrightarrow> terminalize A X i n s = (out, s') \<Longrightarrow>
     sandbox_step A G X i app s s'"
| restart: "br_doc s' = br_doc s \<Longrightarrow> br_os s' = br_os s \<Longrightarrow> sandbox_step A G X i app s s'"

definition sandbox_reach :: "'o win_api \<Rightarrow> 'o grants \<Rightarrow> sandbox \<Rightarrow> string \<Rightarrow> string \<Rightarrow> 'o broker \<Rightarrow> 'o broker \<Rightarrow> bool" where
  "sandbox_reach A G X i app = (sandbox_step A G X i app)\<^sup>*\<^sup>*"

lemma trip_ends:
  assumes "trip G app P m (\<lambda>_. acc A w i ws app {}) (\<lambda>_. acc A w i ws app {})"
    "P (br_doc s) (held G app s)" "m s = (out, s')"
  shows "accounting A w i ws app (br_doc s') (held G app s')"
  using tripD[OF assms] by (cases out) (simp_all add: apart_none)

lemma sandbox_step_accounting:
  assumes L: "windows_laws A G" and b: "sx_broker_sid X \<noteq> app" "app \<noteq> []"
    and roots: "distinct (root_objects A X)" "ws \<notin> set (root_objects A X)"
    and step: "sandbox_step A G X i app s s'"
    and acc: "accounting A (sx_world X) i ws app (br_doc s) (held G app s)"
  shows "accounting A (sx_world X) i ws app (br_doc s') (held G app s')"
proof -
  let ?w = "sx_world X"
  have acc': "acc A ?w i ws app {} (br_doc s) (held G app s)" using acc by (simp add: apart_none)
  from step show ?thesis
  proof cases
    case (activate r start out)
    from trip_ends[OF trip_activate[OF L activate(1) refl b(1) roots] _ activate(3)] activate(2) acc show ?thesis
      by (simp add: apart_def)
  next
    case (spawn a start argv cwd env out)
    from trip_ends[OF trip_spawn[OF L spawn(1,2) refl] acc' spawn(3)] show ?thesis .
  next
    case (wait a p t out)
    from trip_ends[OF keeps_release(2)[OF L wait(1) refl] acc' wait(2)] show ?thesis .
  next
    case (terminate a p out)
    from trip_ends[OF keeps_release(3)[OF L terminate(1) refl] acc' terminate(2)] show ?thesis .
  next
    case (terminalize had n out)
    have "trip G app (\<lambda>f g. acc A ?w i ws app {} f g \<and> own_identity ?w i app had f) (terminalize A X i n)
        (\<lambda>_. acc A ?w i ws app {}) (\<lambda>_. acc A ?w i ws app {})"
      by (rule trip_weaken[OF trip_terminalize[OF L b(2) refl b(1)]]) auto
    from trip_ends[OF this _ terminalize(2)] terminalize(1) acc' show ?thesis by simp
  next
    case restart
    with acc show ?thesis by (simp add: held_def)
  qed
qed

end
