(* ===== verification/SandboxSample.thy ===== *)
theory SandboxSample
  imports SandboxRun ScopeRuntimeProps AuditProps
begin

text \<open>
  A small concrete Windows, whose state is the list of its explicit access control entries, and
  the run of the sample scope on it: activated with one runtime root, and terminalised. The
  documents the store publishes on the way are named, and what each call returns is computed.
\<close>

section \<open>A small Windows\<close>

type_synonym tiny = "(os_object \<times> ace) list"

definition tiny_all :: "'a \<Rightarrow> (tiny, 'a) os_call" where
  "tiny_all v = (\<lambda>x. (Inr v, x))"

definition tiny_drop :: "os_object \<Rightarrow> string \<Rightarrow> tiny \<Rightarrow> tiny" where
  "tiny_drop q sid x = filter (\<lambda>(p, e). \<not> (p = q \<and> fst e = sid)) x"

definition tiny_add :: "os_object \<Rightarrow> string \<Rightarrow> int \<Rightarrow> int \<Rightarrow> tiny \<Rightarrow> tiny" where
  "tiny_add q sid m fl x = (q, sid, m, fl) # tiny_drop q sid x"

definition tiny_merge :: "os_object \<Rightarrow> string \<Rightarrow> access_merge \<Rightarrow> (tiny, unit) os_call" where
  "tiny_merge q sid m = (\<lambda>x. (Inr (), case m of GrantAccess k \<Rightarrow> tiny_add q sid k 0 x | RevokeAccess \<Rightarrow> tiny_drop q sid x))"

definition tiny_set_acl :: "path \<Rightarrow> string \<Rightarrow> string option \<Rightarrow> (tiny, unit) os_call" where
  "tiny_set_acl p b s = (\<lambda>x. (Inr (), map (\<lambda>i. (file_object p, i, FILE_ALL_ACCESS, 3)) (case s of None \<Rightarrow> [b] | Some i \<Rightarrow> [b, i])
     @ filter (\<lambda>(q, e). q \<noteq> file_object p) x))"

definition tiny_icacls :: "icacls_verb \<Rightarrow> path \<Rightarrow> string \<Rightarrow> int \<Rightarrow> (tiny, icacls_end) os_call" where
  "tiny_icacls v p sid t = (\<lambda>x. (Inr (ExitCode 0), case v of
     GrantRead \<Rightarrow> tiny_add (file_object p) sid 0x00120089 0 x | RemoveGrants \<Rightarrow> tiny_drop (file_object p) sid x))"

definition tiny_sid :: string where "tiny_sid = ''S-1-15-2-7''"

definition tiny_process :: raw_process where
  "tiny_process = \<lparr>rp_pid = 7, rp_job = ''job:1'', rp_contained = True, rp_breakaway = False\<rparr>"

definition tiny_api :: "tiny win_api" where
  "tiny_api = \<lparr>api_now = (\<lambda>x. (0, x)), api_write_fault = (\<lambda>x. (None, x)), api_append_fault = (\<lambda>x. (None, x)),
     api_abspath = (\<lambda>p. if strip (path_text p) = path_text p then p else Path True []),
     api_sid = (\<lambda>_. tiny_sid), api_exists = (\<lambda>_. tiny_all True), api_is_dir = (\<lambda>_. tiny_all True),
     api_reparse = (\<lambda>_. tiny_all False), api_final_path = tiny_all, api_resolve = tiny_all,
     api_mkdir = (\<lambda>_. tiny_all ()), api_has_entries = (\<lambda>_. tiny_all False),
     api_ensure_profile = (\<lambda>_. tiny_all tiny_sid), api_delete_profile = (\<lambda>_. tiny_all 0),
     api_dacl = (\<lambda>q x. (Inr (map snd (filter (\<lambda>(p, _). p = q) x)), x)),
     api_set_acl = tiny_set_acl, api_icacls = tiny_icacls,
     api_merge_file = (\<lambda>p. tiny_merge (file_object p)), api_merge_window = tiny_merge,
     api_session_id = tiny_all 0, api_window_objects = tiny_all (''WinSta0'', ''Default''),
     api_pid_alive = (\<lambda>_. tiny_all False), api_spawn = (\<lambda>_ _ _ _. tiny_all tiny_process),
     api_report = (\<lambda>_. tiny_all \<lparr>pr_image = ''c:/PY.exe'', pr_parent = 1,
        pr_identity = se_os_identity sample_spawn, pr_active = 1\<rparr>),
     api_terminate = (\<lambda>_. tiny_all ()), api_close = (\<lambda>_. tiny_all ()), api_resume = (\<lambda>_. tiny_all ()),
     api_wait = (\<lambda>_ _. tiny_all True)\<rparr>"

definition tiny_grants :: "tiny grants" where
  "tiny_grants x q = {sid. \<exists>m fl. (q, sid, m, fl) \<in> set x \<and> m \<noteq> FILE_TRAVERSE}"

lemma strip_slash: "strip (path_text (Path True [])) = path_text (Path True [])"
  by code_simp

lemma tiny_laws: "windows_laws tiny_api tiny_grants"
proof -
  have "looking_laws tiny_api tiny_grants"
    unfolding looking_laws_def quiet_def by (simp add: tiny_api_def tiny_all_def)
  moreover have "changing_laws tiny_api tiny_grants"
    unfolding changing_laws_def adds_only_def
    by (intro conjI allI)
       (auto simp: tiny_api_def tiny_set_acl_def tiny_icacls_def tiny_merge_def tiny_grants_def tiny_add_def tiny_drop_def)
  moreover have "truth_laws tiny_api tiny_grants"
    unfolding truth_laws_def
    by (intro conjI allI)
       (auto simp: tiny_api_def tiny_all_def tiny_icacls_def tiny_grants_def strip_slash image_iff, force)
  ultimately show ?thesis by (simp add: windows_laws_def)
qed

section \<open>A sample run\<close>

definition tiny_sandbox :: sandbox where
  "tiny_sandbox = \<lparr>sx_world = sample_world,
     sx_policy = sample_policy\<lparr>mp_runtime_read_roots := [Path True [''rt'']]\<rparr>,
     sx_root = Path True [''ws''], sx_repository = sample_repository, sx_semantic = sample_semantic,
     sx_protected = [], sx_broker_sid = ''S-1-5-18'', sx_audit_root = Path True [''au'']\<rparr>"

text \<open>The documents the run publishes, one after the other, and the records in them.\<close>

definition doc_claimed :: doc_file where
  "doc_claimed = final_doc sample_doc (reserve_sandbox_identity sample_world sample_doc ''mss'' 1 tiny_sid)"

definition doc_granted :: doc_file where
  "doc_granted = final_doc doc_claimed (reserve_runtime_read_authority sample_world doc_claimed ''mss'' 1 tiny_sid ''/rt'')"

definition tiny_terminalize_begin :: "terminalization store_op" where
  "tiny_terminalize_begin = terminalize_begin sample_world doc_granted ''mss'' 1 (sx_policy tiny_sandbox)
     sample_repository sample_semantic True 0"

definition doc_revoked :: doc_file where
  "doc_revoked = final_doc doc_granted tiny_terminalize_begin"

definition doc_cleared :: doc_file where
  "doc_cleared = final_doc doc_revoked (clear_runtime_read_authority sample_world doc_revoked ''mss'' 1 tiny_sid ''/rt'')"

definition record_claimed :: scope_record where
  "record_claimed = sample_record\<lparr>sr_state := Active, sr_sandbox_identity := Some tiny_sid,
     sr_sandbox_write_authority_present := True\<rparr>"

definition record_granted :: scope_record where
  "record_granted = record_claimed\<lparr>sr_runtime_read_authority_roots := [''/rt'']\<rparr>"

definition record_revoked :: scope_record where
  "record_revoked = record_granted\<lparr>sr_state := Revoked\<rparr>"

definition record_cleared :: scope_record where
  "record_cleared = record_revoked\<lparr>sr_runtime_read_authority_roots := []\<rparr>"

definition tiny_closure :: runtime_closure where
  "tiny_closure = \<lparr>rc_sandbox_identity = Some tiny_sid, rc_active_job_ids = [], rc_active_process_ids = [],
     rc_sandbox_write_authority_present = False, rc_runtime_read_authority_roots = [], rc_session_object_read_binding = None\<rparr>"


section \<open>The store along the run\<close>

lemma tiny_revalidates:
  "revalidate_scope sample_world sample_doc ''mss'' 1 (sx_policy tiny_sandbox) sample_repository sample_semantic [] 0
     = ([], Inr sample_record)"
  by code_simp

lemma tiny_texts: "strip tiny_sid = tiny_sid" "tiny_sid \<noteq> []" "strip ''/rt'' = ''/rt''" "same_root ''/rt'' ''/rt''"
  "sort_key casefold [''/rt''] = [''/rt'']"
  by code_simp+

text \<open>An update that passes its checks, seen from the table.\<close>

lemma update_scope_runs:
  assumes f: "scope_reachable w f" and r: "disk_table w f sid = Some r" and good: "good_update w check upd"
    and ok: "\<And>st. check st r = Inr ()" "confirm (upd r)"
  shows "snd (update_scope w f sid check upd confirm) = Inr (upd r)"
    "disk_table w (final_doc f (update_scope w f sid check upd confirm)) sid = Some (upd r)"
proof -
  note d = reachable_disk_ok[OF f]
  obtain st where st: "load_state f = Inr st" "store_ok w st" "lookup_record w st sid = Inr r"
    using table_record[OF d r] .
  show s: "snd (update_scope w f sid check upd confirm) = Inr (upd r)"
    by (rule update_scope_succeeds[where upd = upd and confirm = confirm, OF st ok(1) good ok(2)])
  from update_scope_commits(2)[OF d good s]
  show "disk_table w (final_doc f (update_scope w f sid check upd confirm)) sid = Some (upd r)" by simp
qed

lemma tiny_claimed: "scope_reachable sample_world doc_claimed"
  "snd (reserve_sandbox_identity sample_world sample_doc ''mss'' 1 tiny_sid) = Inr record_claimed"
  "disk_table sample_world doc_claimed ''mss'' = Some record_claimed"
proof -
  note r = reserve_sandbox_runs[OF reachable_disk_ok[OF sample_reachable] sample_table_entry sample_fields(3), of tiny_sid]
  show "scope_reachable sample_world doc_claimed"
    unfolding doc_claimed_def by (rule step_final[OF sample_reachable]) (rule scope_step.reserve_sandbox)
  show "snd (reserve_sandbox_identity sample_world sample_doc ''mss'' 1 tiny_sid) = Inr record_claimed"
    using r(1) by (simp add: tiny_texts sr_current_def sample_fields record_claimed_def)
  show "disk_table sample_world doc_claimed ''mss'' = Some record_claimed"
    using r(2) by (simp add: tiny_texts sr_current_def sample_fields record_claimed_def doc_claimed_def)
qed

lemma claimed_fields: "sr_generation record_claimed = 1" "sr_state record_claimed = Active"
  "sr_sandbox_identity record_claimed = Some tiny_sid" "sr_sandbox_write_authority_present record_claimed"
  "sr_runtime_read_authority_roots record_claimed = []"
  by (simp_all add: record_claimed_def sample_record_def)

lemma tiny_granted: "scope_reachable sample_world doc_granted"
  "snd (reserve_runtime_read_authority sample_world doc_claimed ''mss'' 1 tiny_sid ''/rt'') = Inr record_granted"
  "disk_table sample_world doc_granted ''mss'' = Some record_granted"
proof -
  show "scope_reachable sample_world doc_granted"
    unfolding doc_granted_def by (rule step_final[OF tiny_claimed(1)]) (rule scope_step.reserve_read)
  note run = update_scope_runs[OF tiny_claimed(1,3) good_reserve_read[of sample_world 1 tiny_sid "''/rt''"],
      of "\<lambda>c. list_ex (same_root ''/rt'') (sr_runtime_read_authority_roots c)"]
  show "snd (reserve_runtime_read_authority sample_world doc_claimed ''mss'' 1 tiny_sid ''/rt'') = Inr record_granted"
    unfolding reserve_runtime_read_authority_def tiny_texts(3) Let_def[of "''/rt''"]
    using run(1) by (simp add: claimed_fields tiny_texts record_granted_def Let_def)
  show "disk_table sample_world doc_granted ''mss'' = Some record_granted"
    unfolding doc_granted_def reserve_runtime_read_authority_def tiny_texts(3) Let_def[of "''/rt''"]
    using run(2) by (simp add: claimed_fields tiny_texts record_granted_def Let_def)
qed

lemma granted_fields: "sealed sample_record record_granted" "sr_state record_granted = Active" "has_runtime_authority record_granted"
  "sr_sandbox_identity record_granted = Some tiny_sid" "sr_runtime_read_authority_roots record_granted = [''/rt'']"
  by (simp_all add: sealed_def record_granted_def record_claimed_def has_runtime_authority_def)

lemma tiny_policy_digest: "placement_policy_digest sample_world (sx_policy tiny_sandbox) = Inr ''d''"
  by code_simp

lemma tiny_revoked: "scope_reachable sample_world doc_revoked"
  "snd tiny_terminalize_begin = Inr (CleanupRequired record_revoked)"
  "disk_table sample_world doc_revoked ''mss'' = Some record_revoked"
proof -
  note g = tiny_granted(1,3)
  show "scope_reachable sample_world doc_revoked"
    unfolding doc_revoked_def tiny_terminalize_begin_def
    by (rule step_final[OF g(1)]) (rule scope_step.terminalize_begin)
  obtain st0 where st0: "load_state doc_granted = Inr st0" "store_ok sample_world st0"
    and l0: "lookup_record sample_world st0 ''mss'' = Inr record_granted"
    using table_record[OF reachable_disk_ok[OF g(1)] g(2)] .
  obtain gs st ch where u: "placement_generation_update sample_world st0 (sx_policy tiny_sandbox) = Inr (gs, st, ch)"
    using generation_update_total[OF tiny_policy_digest] by blast
  note u' = generation_update[OF st0(2) u]
  have "validate_sealed_binding sample_world st record_granted 1 sample_repository sample_semantic
    = Inr (sr_unique_lease_key record_granted)"
    by (rule sample_validates[OF u'(1) _ granted_fields(1)]) (simp_all add: u'(11) l0 granted_fields)
  note run = terminalize_begin_runs[OF st0 l0 u this TrueI refl, of 0]
  show r: "snd tiny_terminalize_begin = Inr (CleanupRequired record_revoked)"
    using run(1) by (simp add: tiny_terminalize_begin_def granted_fields record_revoked_def)
  from terminalize_begin_outcome[OF g r[unfolded tiny_terminalize_begin_def]]
  show "disk_table sample_world doc_revoked ''mss'' = Some record_revoked"
    by (simp add: granted_fields doc_revoked_def tiny_terminalize_begin_def record_revoked_def)
qed

lemma revoked_fields: "sr_generation record_revoked = 1" "sr_state record_revoked = Revoked"
  "sr_sandbox_identity record_revoked = Some tiny_sid" "sr_runtime_read_authority_roots record_revoked = [''/rt'']"
  "sealed sample_record record_cleared" "sr_state record_cleared = Revoked"
  "sr_scope_digest record_cleared = sr_scope_digest record_revoked"
  by (simp_all add: record_cleared_def record_revoked_def record_granted_def record_claimed_def sealed_def sample_fields)

lemma tiny_cleared: "scope_reachable sample_world doc_cleared"
  "snd (clear_runtime_read_authority sample_world doc_revoked ''mss'' 1 tiny_sid ''/rt'') = Inr record_cleared"
  "disk_table sample_world doc_cleared ''mss'' = Some record_cleared"
proof -
  show "scope_reachable sample_world doc_cleared"
    unfolding doc_cleared_def by (rule step_final[OF tiny_revoked(1)]) (rule scope_step.clear_read)
  note run = update_scope_runs[OF tiny_revoked(1,3) good_clear_read[of sample_world 1 tiny_sid "''/rt''"],
      of "\<lambda>c. \<not> list_ex (same_root ''/rt'') (sr_runtime_read_authority_roots c)"]
  show "snd (clear_runtime_read_authority sample_world doc_revoked ''mss'' 1 tiny_sid ''/rt'') = Inr record_cleared"
    unfolding clear_runtime_read_authority_def tiny_texts(3) Let_def
    using run(1) by (simp add: revoked_fields tiny_texts record_cleared_def)
  show "disk_table sample_world doc_cleared ''mss'' = Some record_cleared"
    unfolding doc_cleared_def clear_runtime_read_authority_def tiny_texts(3) Let_def
    using run(2) by (simp add: revoked_fields tiny_texts record_cleared_def)
qed

lemma tiny_reads: "snd (read_scope sample_world doc_cleared ''mss'') = Inr record_cleared"
  "final_doc doc_cleared (read_scope sample_world doc_cleared ''mss'') = doc_cleared"
  using tiny_cleared(3) by (simp_all add: read_disk_table read_scope_def final_doc_def)

lemma tiny_finishes: "snd (terminalize_finish sample_world doc_cleared ''mss'' 1 sample_repository sample_semantic
    record_revoked tiny_closure 0) = Inr (terminal_record record_cleared tiny_closure 0)"
proof -
  obtain st where st: "load_state doc_cleared = Inr st" "store_ok sample_world st"
    and l: "lookup_record sample_world st ''mss'' = Inr record_cleared"
    using table_record[OF reachable_disk_ok[OF tiny_cleared(1)] tiny_cleared(3)] .
  have "closure_check tiny_closure record_revoked = Inr ()"
    by (simp add: closure_check_def tiny_closure_def revoked_fields)
  from terminalize_finish_runs[OF st l this sample_validates[OF st(2) l revoked_fields(5)] revoked_fields(6,7)]
  show ?thesis by (simp add: revoked_fields)
qed

section \<open>The run\<close>

lemma bbind_at: "bbind m k s = (case m s of (Inl e, t) \<Rightarrow> (Inl e, t) | (Inr x, t) \<Rightarrow> k x t)"
  by (simp add: bbind_def)
lemma bcatch_at: "bcatch m h s = (case m s of
     (Inl e, t) \<Rightarrow> if e = Crashed then (Inl e, t) else h e t | (Inr x, t) \<Rightarrow> (Inr x, t))"
  by (simp add: bcatch_def)
lemma bos_at: "bos f s = (let (r, o') = f (br_os s) in (r, s\<lparr>br_os := o'\<rparr>))"
  by (simp add: bos_def)
lemmas basic_at = bbind_at bcatch_at bos_at bret_def bfail_def bget_def bput_def

lemma bbind_stop: "s = s' \<Longrightarrow> bbind m k s = bbind m k s'" by simp
lemma bcatch_stop: "s = s' \<Longrightarrow> bcatch m k s = bcatch m k s'" by simp
lemma bstore_stop: "s = s' \<Longrightarrow> bstore A k s = bstore A k s'" by simp

lemma tiny_store: "bstore tiny_api m s = (case snd (m (br_doc s)) of Inl e \<Rightarrow> Inl (Scope e) | Inr x \<Rightarrow> Inr x,
    s\<lparr>br_doc := final_doc (br_doc s) (m (br_doc s))\<rparr>)"
  by (cases "m (br_doc s)") (simp add: bstore_def tiny_api_def final_doc_def Let_def)

lemma tiny_now: "bnow tiny_api s = (Inr 0, s)"
  by (simp add: bnow_def tiny_api_def)




definition tiny_state :: "doc_file \<Rightarrow> tiny \<Rightarrow> ((string \<times> int) \<times> path list) list \<Rightarrow> tiny broker" where
  "tiny_state d x t = \<lparr>br_doc = d, br_audit = \<lparr>ad_files = [], ad_journal = None\<rparr>, br_os = x,
     br_processes = [], br_released = [], br_traverse = t\<rparr>"

definition tiny_ws :: path where "tiny_ws = Path True [''ws'', ''d'', ''d'']"
definition tiny_rt :: path where "tiny_rt = Path True [''rt'']"

text \<open>What the calls on Windows return along the run.\<close>

definition tiny_held :: tiny where
  "tiny_held = [(FileObject ''/ws/d'', tiny_sid, FILE_TRAVERSE, 0), (FileObject ''/ws'', tiny_sid, FILE_TRAVERSE, 0),
     (FileObject ''/ws/d/d'', ''S-1-5-18'', FILE_ALL_ACCESS, 3), (FileObject ''/ws/d/d'', tiny_sid, FILE_ALL_ACCESS, 3)]"

definition tiny_reading :: tiny where
  "tiny_reading = (FileObject ''/rt'', tiny_sid, 0x00120089, 0) # tiny_held"

definition tiny_way :: "((string \<times> int) \<times> path list) list" where
  "tiny_way = [((''mss'', 1), [Path True [''ws''], Path True [''ws'', ''d'']])]"

definition tiny_travelling :: tiny where
  "tiny_travelling = [(FileObject ''/ws/d/d'', ''S-1-5-18'', FILE_ALL_ACCESS, 3),
     (FileObject ''/ws/d'', tiny_sid, FILE_TRAVERSE, 0), (FileObject ''/ws'', tiny_sid, FILE_TRAVERSE, 0)]"

definition tiny_reclaimed :: tiny where
  "tiny_reclaimed = [(FileObject ''/ws/d/d'', ''S-1-5-18'', FILE_ALL_ACCESS, 3), (FileObject ''/rt'', tiny_sid, 0x00120089, 0),
     (FileObject ''/ws/d'', tiny_sid, FILE_TRAVERSE, 0), (FileObject ''/ws'', tiny_sid, FILE_TRAVERSE, 0)]"

lemma tiny_calls:
  "materialize_workspace tiny_api tiny_sandbox sample_record (tiny_state d x t) = (Inr (tiny_ws, True), tiny_state d x t)"
  "claim_acl tiny_api tiny_sandbox record_claimed tiny_ws tiny_sid (tiny_state d [] []) = (Inr (), tiny_state d tiny_held tiny_way)"
  "grant_runtime_read tiny_api tiny_rt tiny_sid 20 (tiny_state d tiny_held t) = (Inr (), tiny_state d tiny_reading t)"
  "assert_no_reparse tiny_api (Path True [''ws'']) tiny_ws (tiny_state d x t) = (Inr (), tiny_state d x t)"
  "assert_final_path tiny_api tiny_ws (tiny_state d x t) = (Inr (), tiny_state d x t)"
  "assert_no_foreign_sid tiny_api tiny_ws None (tiny_state d [] t) = (Inr (), tiny_state d [] t)"
  "cleanup_workspace tiny_api tiny_sandbox record_revoked tiny_sid (tiny_state d tiny_reading t)
     = (Inr (), tiny_state d tiny_reclaimed t)"
  "remove_runtime_read tiny_api tiny_rt tiny_sid 20 (tiny_state d tiny_reclaimed t) = (Inr (), tiny_state d tiny_travelling t)"
  "pop_traverse (''mss'', 1) (tiny_state d x tiny_way) = (Inr [Path True [''ws''], Path True [''ws'', ''d'']], tiny_state d x [])"
  "remove_traverse tiny_api [Path True [''ws''], Path True [''ws'', ''d'']] tiny_sid (tiny_state d tiny_travelling t)
     = (Inr (), tiny_state d [(FileObject ''/ws/d/d'', ''S-1-5-18'', FILE_ALL_ACCESS, 3)] t)"
  "delete_profile tiny_api (profile_name sample_world (sr_unique_lease_key record_revoked)) (tiny_state d x t) = (Inr (), tiny_state d x t)"
  by code_simp+

lemma tiny_parts: "sx_world tiny_sandbox = sample_world" "sx_root tiny_sandbox = Path True [''ws'']"
  "sx_repository tiny_sandbox = sample_repository" "sx_semantic tiny_sandbox = sample_semantic"
  "sx_protected tiny_sandbox = []" "mp_runtime_read_roots (sx_policy tiny_sandbox) = [tiny_rt]"
  "acl_timeout tiny_sandbox = 20"
  by (simp_all add: tiny_sandbox_def tiny_rt_def acl_timeout_def sample_policy_def default_mutation_policy_def)

lemma tiny_looks: "api_is_dir tiny_api p x = (Inr True, x)" "api_exists tiny_api p x = (Inr True, x)"
  "api_has_entries tiny_api p x = (Inr False, x)" "api_ensure_profile tiny_api n x = (Inr tiny_sid, x)"
  by (simp_all add: tiny_api_def tiny_all_def)

lemma tiny_paths: "api_abspath tiny_api tiny_rt = tiny_rt" "api_abspath tiny_api (Path True [''ws'']) = Path True [''ws'']"
  "record_workspace tiny_api sample_record = tiny_ws" "path_text tiny_rt = ''/rt''" "path_of_text ''/rt'' = tiny_rt"
  "audit_scope_bound sample_start sample_record"
  by code_simp+

lemmas tiny_more = tiny_parts tiny_looks tiny_paths

lemma tiny_state_sel: "br_doc (tiny_state d x t) = d" "br_os (tiny_state d x t) = x" "tiny_state d x t\<lparr>br_doc := d'\<rparr> = tiny_state d' x t"
  "tiny_state d x t\<lparr>br_os := x'\<rparr> = tiny_state d x' t"
  by (simp_all add: tiny_state_def)

lemmas tiny_runs = basic_at tiny_store tiny_now tiny_calls tiny_more tiny_state_sel
lemmas stops = bbind_stop bcatch_stop bstore_stop

lemma tiny_first: "sx_revalidate tiny_api tiny_sandbox ''mss'' 1 (tiny_state sample_doc x t)
    = (Inr sample_record, tiny_state sample_doc x t)"
  by (simp add: sx_revalidate_def tiny_runs tiny_revalidates[unfolded tiny_more] final_doc_def cong: stops)

lemma claimed_key: "sr_scope_id record_claimed = ''mss''" "sr_generation record_claimed = 1"
  by (simp_all add: record_claimed_def sample_fields)

lemma tiny_second: "claim_workspace tiny_api tiny_sandbox sample_record tiny_ws True tiny_sid (tiny_state sample_doc [] t)
    = (Inr record_claimed, tiny_state doc_claimed [] t)"
  by (simp add: claim_workspace_def tiny_runs bensure_def sample_fields tiny_claimed(2) doc_claimed_def cong: stops)

lemma tiny_third: "grant_root tiny_api tiny_sandbox record_claimed tiny_sid tiny_rt (tiny_state doc_claimed tiny_held t)
    = (Inr (), tiny_state doc_granted tiny_reading t)"
  by (simp add: grant_root_def tiny_runs bensure_def reserve_root_def root_text_def claimed_key tiny_granted(2) doc_granted_def cong: stops)

lemma tiny_fourth: "activation_grants tiny_api tiny_sandbox record_claimed tiny_ws tiny_sid (tiny_state doc_claimed [] [])
   = (Inr ([tiny_rt], None), tiny_state doc_granted tiny_reading tiny_way)"
  by (simp add: activation_grants_def tiny_runs capture_def tiny_third cong: stops)


lemma tiny_activates: "\<exists>a. activate tiny_api tiny_sandbox sample_record sample_start (tiny_state sample_doc [] [])
    = (Inr a, tiny_state doc_granted tiny_reading tiny_way)"
proof -
  have "sr_active_job_ids sample_record = []" "sr_active_process_ids sample_record = []" by (simp_all add: sample_record_def)
  then show ?thesis
    by (simp add: activate_def tiny_runs bensure_def sample_fields tiny_first tiny_second tiny_fourth cong: stops)
qed

lemma revoked_key: "sr_scope_id record_revoked = ''mss''" "sr_generation record_revoked = 1"
   "sr_active_job_ids record_revoked = []" "sr_active_process_ids record_revoked = []"
   "sr_session_object_read_binding record_revoked = None" "scope_key record_revoked = (''mss'', 1)"
   "sr_session_object_read_binding record_cleared = None" "sr_runtime_read_authority_roots record_cleared = []"
  by code_simp+

lemma tiny_cleanup_root: "cleanup_root tiny_api tiny_sandbox record_revoked tiny_sid True tiny_rt (tiny_state doc_revoked tiny_reclaimed t)
   = (Inr (), tiny_state doc_cleared tiny_travelling t)"
  by (simp add: cleanup_root_def tiny_runs clear_root_def root_text_def revoked_key tiny_cleared(2) doc_cleared_def[symmetric] cong: stops)

lemma tiny_cleanup_identity: "cleanup_identity tiny_api tiny_sandbox record_revoked tiny_sid (tiny_state doc_revoked tiny_reading tiny_way)
   = (Inr (), tiny_state doc_cleared [(FileObject ''/ws/d/d'', ''S-1-5-18'', FILE_ALL_ACCESS, 3)] [])"
  by (simp add: cleanup_identity_def tiny_runs revoked_key revoked_fields tiny_cleanup_root Let_def cong: stops)

lemma tiny_cleanup: "cleanup_runtime tiny_api tiny_sandbox record_revoked (tiny_state doc_revoked tiny_reading tiny_way)
   = (Inr tiny_closure, tiny_state doc_cleared [(FileObject ''/ws/d/d'', ''S-1-5-18'', FILE_ALL_ACCESS, 3)] [])"
  by (simp add: cleanup_runtime_def tiny_runs revoked_key revoked_fields tiny_texts tiny_reads tiny_cleanup_identity tiny_closure_def cong: stops)

definition doc_closed :: doc_file where
  "doc_closed = final_doc doc_cleared (terminalize_finish sample_world doc_cleared ''mss'' 1 sample_repository sample_semantic
    record_revoked tiny_closure 0)"

lemma tiny_terminalizes: "terminalize tiny_api tiny_sandbox ''mss'' 1 (tiny_state doc_granted tiny_reading tiny_way)
    = (Inr (terminal_record record_cleared tiny_closure 0), tiny_state doc_closed [(FileObject ''/ws/d/d'', ''S-1-5-18'', FILE_ALL_ACCESS, 3)] [])"
  by (simp add: terminalize_def tiny_runs tiny_terminalize_begin_def[symmetric] tiny_revoked(2) doc_revoked_def[symmetric]
     tiny_cleanup tiny_finishes doc_closed_def cong: stops)
definition tiny_end :: "tiny broker" where
  "tiny_end = tiny_state doc_granted tiny_reading tiny_way"

text \<open>The sample run meets what the properties of the sandbox ask for.\<close>

lemma tiny_run_facts:
  "sx_broker_sid tiny_sandbox \<noteq> tiny_sid" "tiny_sid \<noteq> []" "distinct (root_objects tiny_api tiny_sandbox)"
  "FileObject ''/ws/d/d'' \<notin> set (root_objects tiny_api tiny_sandbox)"
  "scope_known tiny_api (sx_world tiny_sandbox) ''mss'' (FileObject ''/ws/d/d'') tiny_sid
     (br_doc (tiny_state sample_doc [] []))"
  "held tiny_grants tiny_sid (tiny_state sample_doc [] []) = {}"
  "sandbox_reach tiny_api tiny_grants tiny_sandbox ''mss'' tiny_sid (tiny_state sample_doc [] []) tiny_end"
proof -
  show "sx_broker_sid tiny_sandbox \<noteq> tiny_sid" "tiny_sid \<noteq> []" by code_simp+
  have rt: "file_object tiny_rt = FileObject ''/rt''" "file_object tiny_ws = FileObject ''/ws/d/d''" by code_simp+
  then show "distinct (root_objects tiny_api tiny_sandbox)"
    "FileObject ''/ws/d/d'' \<notin> set (root_objects tiny_api tiny_sandbox)"
    by (simp_all add: root_objects_def tiny_more)
  show h: "held tiny_grants tiny_sid (tiny_state sample_doc [] []) = {}"
    by (simp add: held_def tiny_grants_def tiny_state_sel)
  show "scope_known tiny_api (sx_world tiny_sandbox) ''mss'' (FileObject ''/ws/d/d'') tiny_sid
      (br_doc (tiny_state sample_doc [] []))"
    using reachable_disk_ok[OF sample_reachable] sample_table_entry rt(2)
    by (simp add: scope_known_def tiny_more tiny_state_sel tiny_api_def[THEN arg_cong[where f = api_sid]])
  obtain a where "activate tiny_api tiny_sandbox sample_record sample_start (tiny_state sample_doc [] [])
      = (Inr a, tiny_end)" using tiny_activates unfolding tiny_end_def by blast
  from sandbox_step.activate[OF sample_fields(6) _ this] h
  show "sandbox_reach tiny_api tiny_grants tiny_sandbox ''mss'' tiny_sid (tiny_state sample_doc [] []) tiny_end"
    unfolding sandbox_reach_def by blast
qed

end
