(* ===== verification/SandboxProps.thy ===== *)
theory SandboxProps
  imports SandboxSample
begin

text \<open>
  The properties of the Windows mutation sandbox and their witnesses, and what a restart of
  the agent between activation and terminalisation leaves behind.
\<close>

section \<open>Properties\<close>






text \<open>
  What the broker remembers of the directories above the workspace dies with it: terminalised
  after a restart, the scope is closed and the SID may still traverse them.
\<close>

lemma restart_leaves_traverse:
  "sandbox_step tiny_api tiny_grants tiny_sandbox ''mss'' tiny_sid tiny_end (tiny_state doc_granted tiny_reading [])"
  "terminalize tiny_api tiny_sandbox ''mss'' 1 (tiny_state doc_granted tiny_reading [])
     = (Inr (terminal_record record_cleared tiny_closure 0), tiny_state doc_closed tiny_travelling [])"
proof -
  show "sandbox_step tiny_api tiny_grants tiny_sandbox ''mss'' tiny_sid tiny_end (tiny_state doc_granted tiny_reading [])"
    by (rule sandbox_step.restart) (simp_all add: tiny_end_def tiny_state_sel)
  have way: "pop_traverse (''mss'', 1) (tiny_state d x []) = (Inr [], tiny_state d x [])"
    "remove_traverse tiny_api [] tiny_sid (tiny_state d x t) = (Inr (), tiny_state d x t)" for d x t
    by (simp_all add: pop_traverse_def remove_traverse_def basic_at tiny_state_def)
  have "cleanup_identity tiny_api tiny_sandbox record_revoked tiny_sid (tiny_state doc_revoked tiny_reading [])
      = (Inr (), tiny_state doc_cleared tiny_travelling [])"
    by (simp add: cleanup_identity_def tiny_runs way revoked_key revoked_fields tiny_cleanup_root Let_def cong: stops)
  then have "cleanup_runtime tiny_api tiny_sandbox record_revoked (tiny_state doc_revoked tiny_reading [])
      = (Inr tiny_closure, tiny_state doc_cleared tiny_travelling [])"
    by (simp add: cleanup_runtime_def tiny_runs revoked_key revoked_fields tiny_texts tiny_reads tiny_closure_def cong: stops)
  then show "terminalize tiny_api tiny_sandbox ''mss'' 1 (tiny_state doc_granted tiny_reading [])
     = (Inr (terminal_record record_cleared tiny_closure 0), tiny_state doc_closed tiny_travelling [])"
    by (simp add: terminalize_def tiny_runs tiny_terminalize_begin_def[symmetric] tiny_revoked(2) doc_revoked_def[symmetric]
       tiny_finishes doc_closed_def cong: stops)
qed

end
