(* ===== verification/ScopedScript.thy ===== *)
theory ScopedScript
  imports WindowsSandbox ScriptRun "HOL-Library.Sublist"
begin

text \<open>
  The pure parts of the scoped \<open>script_run\<close> handler (\<open>handlers/scoped_script.py\<close>): which
  execution profile a request asks for, the authority it names, its environment, working
  directory and argument vector, and the evidence given to the audit journal. Requests with a
  \<open>verification\<close> mapping are not modelled. Paths are POSIX paths; the drive of a path and
  the variables of the agent are given by the host.
\<close>

record 'o scoped_host =
  sc_windows :: bool
  sc_environ :: "(string \<times> string) list"
  sc_drive :: "path \<Rightarrow> string"
  sc_python :: path
  sc_which :: "string \<Rightarrow> string option"
  sc_user_sid :: "('o, string) os_call"
  sc_derive_sid :: "string \<Rightarrow> ('o, string) os_call"
  sc_retain :: "'o \<Rightarrow> retain_env \<times> 'o"
  sc_token :: "'o \<Rightarrow> string \<times> 'o"
  sc_write :: "path \<Rightarrow> ('o, unit) os_call"
  sc_read :: "path \<Rightarrow> ('o, string) os_call"
  sc_closed :: "string \<Rightarrow> ('o, bool) os_call"
  sc_active :: "string \<Rightarrow> ('o, int) os_call"

section \<open>The request\<close>

definition of_handler :: "'a handler \<Rightarrow> (sb_exn, 'a) result" where
  "of_handler m = (case m of Inr x \<Rightarrow> Inr x
     | Inl (HandlerError code _) \<Rightarrow> Inl (Handler code) | Inl (Raised e) \<Rightarrow> Inl (Python e))"

abbreviation handler_error :: "string \<Rightarrow> handler_exn" where
  "handler_error code \<equiv> HandlerError code (VDict [])"

text \<open>\<open>_profile\<close>\<close>

definition scoped_profile :: "(string \<times> pyval) list \<Rightarrow> string option handler" where
  "scoped_profile payload =
     (let nested = (case dget payload ''mutation'' of VDict m \<Rightarrow> dget m ''execution_profile'' | _ \<Rightarrow> VNull);
          direct = dget payload ''execution_profile'' in
      if nested \<noteq> VNull \<and> direct \<noteq> VNull \<and> nested \<noteq> direct then Inl invalid_payload
      else case (if nested \<noteq> VNull then nested else direct) of
        VNull \<Rightarrow> Inr None
      | VStr s \<Rightarrow> if strip s = [] then Inl invalid_payload else Inr (Some (strip s))
      | _ \<Rightarrow> Inl invalid_payload)"

record scoped_authority =
  su_scope_id :: string
  su_generation :: int
  su_lineage :: lineage
  su_repository :: repository_identity
  su_semantic :: semantic_identity

definition repository_of :: "(string \<times> pyval) list \<Rightarrow> repository_identity" where
  "repository_of d = \<lparr>rid_vcs = py_str (py_or (dget d ''vcs'') (VStr [])),
     rid_authority = py_str (py_or (dget d ''authority'') (VStr [])),
     rid_path = py_str (py_or (dget d ''path'') (VStr []))\<rparr>"

definition semantic_of :: "lineage \<Rightarrow> semantic_identity" where
  "semantic_of l = \<lparr>project_id = ln_project_id l, task_id = ln_task_id l, run_id = ln_run_id l,
     attempt_id = ln_attempt_id l, slice_id = ln_slice_id l\<rparr>"

definition value_error_as :: "handler_exn \<Rightarrow> 'a py \<Rightarrow> 'a handler" where
  "value_error_as h m = (case m of Inr x \<Rightarrow> Inr x | Inl e \<Rightarrow> Inl (if e = ValueError then h else Raised e))"

definition scoped_authority_of :: "(string \<times> pyval) list \<Rightarrow> scoped_authority handler" where
  "scoped_authority_of payload = (case dget payload ''mutation'' of
     VDict m \<Rightarrow>
       (let (scope_id, generation) = (case dget m ''scope_ref'' of
          VDict ref \<Rightarrow> (dget ref ''scope_id'', dget_default ref ''generation'' (dget m ''scope_generation''))
        | v \<Rightarrow> (v, dget m ''scope_generation'')) in
        case scope_id of
          VStr sid \<Rightarrow> if strip sid = [] then Inl invalid_payload else
            (case generation of
               VInt n \<Rightarrow> if n \<le> 0 then Inl invalid_payload else
                 rbind (value_error_as (handler_error ''HostMutationAuditLineageInvalid'')
                   (lineage_from_mapping (dget payload ''lineage''))) (\<lambda>l.
                 case dget payload ''repository'' of
                   VDict d \<Rightarrow> rbind (value_error_as invalid_payload (repository_canonical (repository_of d))) (\<lambda>_.
                     Inr \<lparr>su_scope_id = strip sid, su_generation = n, su_lineage = l,
                       su_repository = repository_of d, su_semantic = semantic_of l\<rparr>)
                 | _ \<Rightarrow> Inl invalid_payload)
             | _ \<Rightarrow> Inl invalid_payload)
        | _ \<Rightarrow> Inl invalid_payload)
   | _ \<Rightarrow> Inl invalid_payload)"

text \<open>The checks of a scoped request before its scope is looked at.\<close>

definition plain_env_of :: "pyval \<Rightarrow> (string \<times> string) list handler" where
  "plain_env_of v = (case py_or v (VDict []) of
     VDict d \<Rightarrow> of_option invalid_payload (text_items d) | _ \<Rightarrow> Inl invalid_payload)"

definition scoped_timeout :: "(string \<times> pyval) list \<Rightarrow> int handler" where
  "scoped_timeout payload = (case py_int (dget_default payload ''timeout'' (VInt 60)) of
     Inl e \<Rightarrow> Inl (if e \<in> {TypeError, ValueError} then invalid_payload else Raised e)
   | Inr t \<Rightarrow> if t < TIMEOUT_MIN \<or> t > TIMEOUT_MAX then Inl invalid_payload else Inr t)"

record scoped_request =
  sd_args :: "string list"
  sd_env :: "(string \<times> string) list"
  sd_timeout :: int
  sd_authority :: scoped_authority

definition parse_scoped_request :: "bool \<Rightarrow> (string \<times> pyval) list \<Rightarrow> scoped_request handler" where
  "parse_scoped_request windows payload =
     (if \<not> windows then Inl (handler_error ''HostMutationSandboxUnavailable'')
      else if truthy (dget_default payload ''sudo'' (VBool False))
        then Inl (handler_error ''HostMutationSandboxBindingMismatch'')
      else if truthy (dget_default payload ''background'' (VBool False))
        then Inl (handler_error ''HostMutationSandboxUnavailable'')
      else rbind (args_of (dget payload ''args'')) (\<lambda>args.
        rbind (plain_env_of (dget payload ''env'')) (\<lambda>env.
        rbind (scoped_timeout payload) (\<lambda>timeout.
        rbind (scoped_authority_of payload) (\<lambda>authority.
        Inr \<lparr>sd_args = args, sd_env = env, sd_timeout = timeout, sd_authority = authority\<rparr>)))))"

section \<open>Environment\<close>

definition upper_char :: "char \<Rightarrow> char" where
  "upper_char c = (let n = of_char c :: nat in if 97 \<le> n \<and> n \<le> 122 then char_of (n - 32) else c)"

definition upper :: "string \<Rightarrow> string" where
  "upper = map upper_char"

definition AUTHORITY_ENV_PREFIXES :: "string list" where
  "AUTHORITY_ENV_PREFIXES = [''SENTINELX_'', ''GIT_'', ''GH_'', ''GITHUB_'', ''GITLAB_'', ''SSH_'']"

definition AUTHORITY_ENV_WORDS :: "string list" where
  "AUTHORITY_ENV_WORDS = [''TOKEN'', ''PASSWORD'', ''SECRET'', ''CREDENTIAL'', ''API_KEY'']"

definition AUTHORITY_ENV_EXACT :: "string list" where
  "AUTHORITY_ENV_EXACT = [''HOME'', ''USERPROFILE'', ''HOMEDRIVE'', ''HOMEPATH'', ''APPDATA'', ''LOCALAPPDATA'']"

definition credential_like :: "string \<Rightarrow> bool" where
  "credential_like key \<longleftrightarrow> (let u = upper key in u \<in> set AUTHORITY_ENV_EXACT
     \<or> list_ex (startswith u) AUTHORITY_ENV_PREFIXES \<or> list_ex (\<lambda>word. sublist word u) AUTHORITY_ENV_WORDS)"

definition sandbox_profile_dir :: "path \<Rightarrow> path" where
  "sandbox_profile_dir ws = path_child ws ''.sandbox-profile''"

definition local_app_data :: "path \<Rightarrow> path" where
  "local_app_data ws = path_child (path_child (sandbox_profile_dir ws) ''AppData'') ''Local''"

definition roaming_app_data :: "path \<Rightarrow> path" where
  "roaming_app_data ws = path_child (path_child (sandbox_profile_dir ws) ''AppData'') ''Roaming''"

definition home_drive :: "'o scoped_host \<Rightarrow> path \<Rightarrow> string" where
  "home_drive H ws = (if sc_drive H ws \<noteq> [] then sc_drive H ws else
     case map_of (sc_environ H) ''SystemDrive'' of None \<Rightarrow> ''C:'' | Some v \<Rightarrow> v)"

definition home_path :: "string \<Rightarrow> string" where
  "home_path t = (if take 1 (drop 1 t) = '':'' then drop 2 t else t)"

definition profile_variables :: "'o scoped_host \<Rightarrow> path \<Rightarrow> (string \<times> string) list" where
  "profile_variables H ws = (let t = path_text (sandbox_profile_dir ws) in
    [(''HOME'', t), (''USERPROFILE'', t), (''HOMEDRIVE'', home_drive H ws), (''HOMEPATH'', home_path t),
     (''APPDATA'', path_text (roaming_app_data ws)), (''LOCALAPPDATA'', path_text (local_app_data ws))])"

fun add_extra :: "(string \<times> string) list \<Rightarrow> (string \<times> string) list \<Rightarrow> (string \<times> string) list handler" where
  "add_extra env [] = Inr env"
| "add_extra env ((k, v) # extra) =
     (if credential_like k then Inl (handler_error ''HostMutationSandboxBindingMismatch'')
      else add_extra (AList.update k v env) extra)"

definition scoped_environment ::
  "'o scoped_host \<Rightarrow> (string \<times> string) list \<Rightarrow> path \<Rightarrow> (string \<times> string) list handler" where
  "scoped_environment H extra ws =
     add_extra (fold (\<lambda>(k, v). AList.update k v) (profile_variables H ws)
       (filter (\<lambda>(k, _). \<not> credential_like k) (sc_environ H))) extra"

section \<open>Working directory and argument vector\<close>

definition scoped_cwd :: "world \<Rightarrow> path \<Rightarrow> pyval \<Rightarrow> path handler" where
  "scoped_cwd w ws v = (case v of
     VNull \<Rightarrow> Inr ws
   | VStr s \<Rightarrow> if s = [] \<or> s = ''.'' then Inr ws else
       (let relative = path_of_text s in
        if is_absolute relative \<or> ''..'' \<in> set (parts relative)
        then Inl (handler_error ''HostMutationSandboxPathViolation'') else
        rbind (raising (of_option OSError (os_resolve (w_os w) (path_join ws relative)))) (\<lambda>target.
        rbind (raising (of_option OSError (os_resolve (w_os w) ws))) (\<lambda>root.
        if is_relative_to target root then Inr target
        else Inl (handler_error ''HostMutationSandboxPathViolation''))))
   | _ \<Rightarrow> Inl invalid_payload)"

definition run_extension :: "string \<Rightarrow> string option" where
  "run_extension i = map_of [(''python3'', ''py''), (''powershell'', ''ps1''), (''pwsh'', ''ps1''), (''bash'', ''sh'')] i"

record run_files =
  rf_script :: path
  rf_stdout :: path
  rf_stderr :: path
  rf_result :: path

definition run_files_of :: "path \<Rightarrow> string \<Rightarrow> run_files" where
  "run_files_of ws ext = \<lparr>rf_script = path_child ws (''script.'' @ ext), rf_stdout = path_child ws ''stdout.bin'',
     rf_stderr = path_child ws ''stderr.bin'', rf_result = path_child ws ''returncode.txt''\<rparr>"

definition scoped_python :: "'o scoped_host \<Rightarrow> path" where
  "scoped_python H = (if casefold (path_name (sc_python H)) = ''pythonw.exe''
     then path_child (path_parent (sc_python H)) ''python.exe'' else sc_python H)"

definition runner_path :: "string \<Rightarrow> path \<Rightarrow> path" where
  "runner_path i ws = path_child ws (if i = ''python3'' then ''sentinelx_runner.py'' else ''sentinelx_runner.ps1'')"

definition runner_argv :: "'o scoped_host \<Rightarrow> string \<Rightarrow> path \<Rightarrow> run_files \<Rightarrow> string list \<Rightarrow> string list handler" where
  "runner_argv H i ws fs args =
     (let tail = map path_text [runner_path i ws, rf_script fs, rf_stdout fs, rf_stderr fs, rf_result fs] @ args in
      if i = ''bash'' then Inl (handler_error ''HostMutationSandboxUnavailable'')
      else if i = ''python3'' then Inr (path_text (scoped_python H) # tail)
      else case sc_which H i of
        None \<Rightarrow> Inl (handler_error ''interpreter_missing'')
      | Some exe \<Rightarrow> if exe = [] then Inl (handler_error ''interpreter_missing'')
          else Inr (exe # powershell_flags @ tail))"

section \<open>Script bytes and evidence\<close>

text \<open>The byte order mark of \<open>utf-8-sig\<close>.\<close>

definition utf8_bom :: string where
  "utf8_bom = [char_of (0xEF :: nat), char_of (0xBB :: nat), char_of (0xBF :: nat)]"

definition scoped_script_bytes :: "bool \<Rightarrow> string \<Rightarrow> string \<Rightarrow> string handler" where
  "scoped_script_bytes windows content interpreter =
     (if strip content = [] then Inl invalid_payload
      else if interpreter \<notin> set ALLOWED_INTERPRETERS then Inl invalid_payload
      else Inr ((if windows \<and> interpreter \<in> set powershell_interpreters then utf8_bom else []) @ content))"

definition authority_evidence_of :: "scope_record \<Rightarrow> authority_evidence" where
  "authority_evidence_of r = \<lparr>ae_scope_digest = sr_scope_digest r,
     ae_exact_workspace_digest = sr_exact_workspace_digest r,
     ae_protected_inventory_digest = sr_protected_inventory_digest r,
     ae_policy_digest = sr_policy_digest r,
     ae_repository_identity_digest = sr_repository_identity_digest r,
     ae_semantic_identity_digest = sr_semantic_identity_digest r\<rparr>"

text \<open>\<open>_finish_closure\<close>: of a process the Job reference, pid, whether it is closed, and its active count.\<close>

definition finish_closure_of :: "scope_record \<Rightarrow> (string \<times> int \<times> bool \<times> int) option \<Rightarrow> finish_closure" where
  "finish_closure_of r p = (let closed = (case p of None \<Rightarrow> True | Some (_, _, c, _) \<Rightarrow> c);
       active = (case p of None \<Rightarrow> 0 | Some (_, _, _, n) \<Rightarrow> n) in
     \<lparr>fc_scope_state = state_text (sr_state r), fc_scope_digest = sr_scope_digest r,
      fc_protected_inventory_digest = sr_protected_inventory_digest r,
      fc_sandbox_identity = sr_sandbox_identity r, fc_job_binding = map_option fst p,
      fc_root_pid = map_option (\<lambda>(_, pid, _). pid) p, fc_job_handle_closed = closed,
      fc_job_active_process_count = active, fc_active_job_ids = sr_active_job_ids r,
      fc_active_process_ids = sr_active_process_ids r,
      fc_sandbox_write_authority_present = sr_sandbox_write_authority_present r,
      fc_process_tree_quiescent = (closed \<and> active = 0 \<and> sr_active_job_ids r = [] \<and> sr_active_process_ids r = []),
      fc_terminalized_at = (case sr_terminalized_at r of None \<Rightarrow> [] | Some t \<Rightarrow> t)\<rparr>)"

end
