(* ===== verification/ScopedRun.thy ===== *)
theory ScopedRun
  imports ScopedScript SandboxProcess
begin

text \<open>
  \<open>_run_scoped\<close> of \<open>handlers/scoped_script.py\<close>, without verification: admission, the START
  evidence, activation, the script written and read back, the process, and the three ways it
  ends, each with \<open>terminalize\<close> before FINISH; and the \<open>except\<close> block, which closes a scope
  whose START is durable unless its authority is known to be left over. The local variables
  \<open>start\<close>, \<open>sandbox\<close>, \<open>process\<close>, \<open>terminalized\<close> and \<open>finished\<close> are what the failing step is
  known to have set. Last, the routing of a request to this or to the historical handler.
\<close>

section \<open>Errors as the caller and the journal see them\<close>

definition sandbox_code :: "sandbox_error \<Rightarrow> string" where
  "sandbox_code e = (case e of SandboxUnavailable \<Rightarrow> ''HostMutationSandboxUnavailable''
     | SandboxMismatch \<Rightarrow> ''HostMutationSandboxBindingMismatch'' | PathViolation \<Rightarrow> ''HostMutationSandboxPathViolation''
     | AclViolation \<Rightarrow> ''HostMutationSandboxAclViolation'' | ContainmentFailed \<Rightarrow> ''HostMutationSandboxContainmentFailed''
     | ResidualGrant \<Rightarrow> ''HostMutationSandboxResidualAuthority'')"

definition scope_code :: "scope_error \<Rightarrow> string option" where
  "scope_code e = (case e of ScopeConflict \<Rightarrow> Some ''HostMutationScopeConflict''
     | ScopeNotCurrent \<Rightarrow> Some ''HostMutationScopeNotCurrent'' | ScopeCorrupt \<Rightarrow> Some ''HostMutationScopeCorrupt''
     | OperationNotAllowed \<Rightarrow> Some ''HostMutationScopeOperationNotAllowed''
     | TerminalizationFailed \<Rightarrow> Some ''HostMutationScopeTerminalizationFailed''
     | ScopeStillActive \<Rightarrow> Some ''HostMutationScopeStillActive''
     | ResidualAuthority \<Rightarrow> Some ''HostMutationResidualAuthorityDetected''
     | BindingMismatch \<Rightarrow> Some ''HostMutationScopeBindingMismatch'' | _ \<Rightarrow> None)"

definition audit_code :: "audit_error \<Rightarrow> string option" where
  "audit_code e = (case e of MutationEvidenceError \<Rightarrow> Some ''MutationEvidenceError''
     | MutationAuditDurabilityError \<Rightarrow> Some ''MutationAuditDurabilityError''
     | MutationAuditIdentityMismatch \<Rightarrow> Some ''MutationAuditIdentityMismatch'' | _ \<Rightarrow> None)"

text \<open>The \<open>code\<close> attribute, if the exception has one.\<close>

definition exn_code :: "sb_exn \<Rightarrow> string option" where
  "exn_code e = (case e of Sandbox s \<Rightarrow> Some (sandbox_code s) | Scope s \<Rightarrow> scope_code s
     | Audit a \<Rightarrow> audit_code a | Handler c \<Rightarrow> Some c | _ \<Rightarrow> None)"

text \<open>The name of the class of an exception without a code; a subclass is named by its base here.\<close>

definition exn_name :: "sb_exn \<Rightarrow> string" where
  "exn_name e = (case e of Python TypeError \<Rightarrow> ''TypeError'' | Python ValueError \<Rightarrow> ''ValueError''
     | BadValue \<Rightarrow> ''ValueError'' | Scope ScopeValueError \<Rightarrow> ''ValueError'' | Audit AuditValueError \<Rightarrow> ''ValueError''
     | Scope ScopeOverflow \<Rightarrow> ''OverflowError'' | Audit AuditOverflow \<Rightarrow> ''OverflowError''
     | Audit AuditAttributeError \<Rightarrow> ''AttributeError'' | Python AttributeError \<Rightarrow> ''AttributeError''
     | OsFailed \<Rightarrow> ''OSError'' | Scope ScopeOsError \<Rightarrow> ''OSError'' | Audit AuditOsError \<Rightarrow> ''OSError''
     | Python OSError \<Rightarrow> ''OSError'' | _ \<Rightarrow> ''RuntimeError'')"

definition finish_code :: "sb_exn \<Rightarrow> string" where
  "finish_code e = (case exn_code e of Some c \<Rightarrow> c | None \<Rightarrow> exn_name e)"

definition as_handler_error :: "sb_exn \<Rightarrow> sb_exn" where
  "as_handler_error e = (if e = Crashed then e else Handler (case exn_code e of Some c \<Rightarrow> c | None \<Rightarrow> ''scoped_mutation_failed''))"

section \<open>Steps\<close>

definition bresult :: "(sb_exn, 'a) result \<Rightarrow> ('o, 'a) broker_op" where
  "bresult r = (\<lambda>s. (r, s))"

abbreviation bhandler :: "'a handler \<Rightarrow> ('o, 'a) broker_op" where
  "bhandler m \<equiv> bresult (of_handler m)"

text \<open>An operation of the audit journal: the clock, and how many bytes of a failed append survive.\<close>

definition baudit :: "'o win_api \<Rightarrow> (nat option \<Rightarrow> nat \<Rightarrow> audit_disk \<Rightarrow> 'a audit_op) \<Rightarrow> ('o, 'a) broker_op" where
  "baudit A m = (\<lambda>s. let (torn, o1) = api_append_fault A (br_os s); (now, o2) = api_now A o1;
     (d, r) = m torn now (br_audit s) in
     ((case r of Inl e \<Rightarrow> Inl (Audit e) | Inr x \<Rightarrow> Inr x), s\<lparr>br_os := o2, br_audit := d\<rparr>))"

definition btoken :: "'o scoped_host \<Rightarrow> ('o, string) broker_op" where
  "btoken H = bos (\<lambda>x. case sc_token H x of (t, x') \<Rightarrow> (Inr t, x'))"

definition bretain :: "'o scoped_host \<Rightarrow> ('o, retain_env) broker_op" where
  "bretain H = bos (\<lambda>x. case sc_retain H x of (t, x') \<Rightarrow> (Inr t, x'))"

definition outcome :: "('o, 'a) broker_op \<Rightarrow> ('o, (sb_exn, 'a) result) broker_op" where
  "outcome m = bcatch (bbind m (\<lambda>x. bret (Inr x))) (\<lambda>e. bret (Inl e))"

definition evidence_root :: "sandbox \<Rightarrow> path" where
  "evidence_root X = sx_audit_root X"

definition journal_finish ::
  "'o win_api \<Rightarrow> 'o scoped_host \<Rightarrow> sandbox \<Rightarrow> audit_start \<Rightarrow> string \<Rightarrow> int option \<Rightarrow> string option
     \<Rightarrow> scope_record \<Rightarrow> raw_process option \<Rightarrow> ('o, unit) broker_op" where
  "journal_finish A H X start status returncode error terminal process =
     bbind (case process of None \<Rightarrow> bret None
       | Some p \<Rightarrow> bbind (bos (sc_closed H (rp_job p))) (\<lambda>closed.
           bbind (bos (sc_active H (rp_job p))) (\<lambda>n. bret (Some (rp_job p, rp_pid p, closed, n))))) (\<lambda>seen.
     bbind (btoken H) (\<lambda>token.
     bbind (baudit A (\<lambda>torn now d. finish_operation (w_sha (sx_world X)) (evidence_root X) torn token d start status
       (finish_closure_of terminal seen) returncode error now)) (\<lambda>_. bret ())))"

section \<open>The except block\<close>

text \<open>
  A failure after START: the scope is closed, with the sandbox if there is one, unless the
  failure says that authority may be left over; FINISH follows only a scope that was closed.
\<close>

definition close_failed ::
  "'o win_api \<Rightarrow> 'o scoped_host \<Rightarrow> sandbox \<Rightarrow> string \<Rightarrow> int \<Rightarrow> audit_start \<Rightarrow> bool \<Rightarrow> raw_process option
     \<Rightarrow> sb_exn \<Rightarrow> ('o, 'a) broker_op" where
  "close_failed A H X sid n start built process e =
     (if e = Sandbox ResidualGrant then bfail (as_handler_error e) else
      bbind (outcome (if built then terminalize A X sid n else
          bbind (bnow A) (\<lambda>now. bbind (bstore A (\<lambda>f. terminalize_begin (sx_world X) f sid n (sx_policy X)
              (sx_repository X) (sx_semantic X) False now)) (\<lambda>t. case t of
            Closed r \<Rightarrow> bret r | CleanupRequired r \<Rightarrow> bfail (Scope ResidualAuthority))))) (\<lambda>closed.
      case closed of
        Inl _ \<Rightarrow> bfail (as_handler_error e)
      | Inr t \<Rightarrow> bbind (outcome (journal_finish A H X start ''failed'' None (Some (finish_code e)) t process)) (\<lambda>_.
          bfail (as_handler_error e))))"

section \<open>Before START\<close>

record prepared =
  pp_record :: scope_record
  pp_files :: run_files
  pp_cwd :: path
  pp_argv :: "string list"
  pp_interpreter :: string
  pp_start :: audit_start

definition begin_scoped ::
  "'o win_api \<Rightarrow> 'o scoped_host \<Rightarrow> sandbox \<Rightarrow> request_context \<Rightarrow> lineage \<Rightarrow> (string \<times> pyval) list
     \<Rightarrow> scope_record \<Rightarrow> string \<Rightarrow> process_intent \<Rightarrow> requested_identity \<Rightarrow> ('o, audit_start) broker_op" where
  "begin_scoped A H X context l payload r interpreter intent requested =
     (case dget payload ''content'' of
        VStr content \<Rightarrow>
          bbind (bhandler (scoped_script_bytes (sc_windows H) content interpreter)) (\<lambda>exact.
          bbind (bretain H) (\<lambda>env.
          bbind (baudit A (\<lambda>torn now d. retain (w_sha (sx_world X)) (evidence_root X)
            (nat (mp_evidence_retention_days (sx_policy X))) env d exact now)) (\<lambda>evidence.
          bbind (bhandler (raising (binding_from_context context l (sr_scope_id r) (sr_generation r)
            (sr_workspace_id r) (sr_unique_lease_key r)
            (case dget payload ''job_id'' of VStr j \<Rightarrow> Some j | _ \<Rightarrow> None)))) (\<lambda>binding.
          bbind (btoken H) (\<lambda>token.
          baudit A (\<lambda>torn now d. begin_operation (w_sha (sx_world X)) (evidence_root X) torn token d binding evidence
            (authority_evidence_of r) intent requested None now))))))
      | _ \<Rightarrow> bfail (Handler ''invalid_payload''))"

definition prepare_scoped ::
  "'o win_api \<Rightarrow> 'o scoped_host \<Rightarrow> sandbox \<Rightarrow> request_context \<Rightarrow> (string \<times> pyval) list \<Rightarrow> scoped_request
     \<Rightarrow> ('o, prepared) broker_op" where
  "prepare_scoped A H X context payload q =
     bbind (bnow A) (\<lambda>now.
     bbind (bstore A (\<lambda>f. revalidate_scope_for_operation (sx_world X) f (su_scope_id (sd_authority q))
       (su_generation (sd_authority q)) (sx_policy X) (sx_repository X) (sx_semantic X) ''scoped_script''
       (sx_protected X) now)) (\<lambda>r.
     bbind (case dget payload ''interpreter'' of
         VStr i \<Rightarrow> (case run_extension i of Some ext \<Rightarrow> bret (i, ext) | None \<Rightarrow> bfail (Handler ''invalid_payload''))
       | _ \<Rightarrow> bfail (Handler ''invalid_payload'')) (\<lambda>(i, ext).
     let ws = path_of_text (sr_exact_workspace r); fs = run_files_of ws ext in
     bbind (bhandler (scoped_cwd (sx_world X) ws (dget payload ''cwd''))) (\<lambda>cwd.
     bbind (bhandler (runner_argv H i ws fs (sd_args q))) (\<lambda>argv.
     bbind (bos (api_final_path A (path_of_text (hd argv)))) (\<lambda>exe.
     bbind (bos (sc_user_sid H)) (\<lambda>user.
     let profile = profile_name (sx_world X) (sr_unique_lease_key r) in
     bbind (bos (sc_derive_sid H profile)) (\<lambda>identity.
     bbind (begin_scoped A H X context (su_lineage (sd_authority q)) payload r i
       \<lparr>pi_interpreter = i, pi_argv = argv, pi_executable_final_path = path_text exe, pi_cwd_final_path = path_text cwd\<rparr>
       \<lparr>qi_host_platform = ''windows'', qi_host_user_sid = user, qi_sandbox_kind = ''appcontainer'',
        qi_sandbox_profile = profile, qi_sandbox_identity = identity\<rparr>) (\<lambda>start.
     bret \<lparr>pp_record = r, pp_files = fs, pp_cwd = cwd, pp_argv = argv, pp_interpreter = i, pp_start = start\<rparr>)))))))))"

section \<open>From activation to the running process\<close>

definition materialize_script ::
  "'o win_api \<Rightarrow> 'o scoped_host \<Rightarrow> sandbox \<Rightarrow> prepared \<Rightarrow> ('o, unit) broker_op" where
  "materialize_script A H X p =
     bbind (bretain H) (\<lambda>env.
     bbind (bos (api_is_dir A (path_parent (rf_script (pp_files p))))) (\<lambda>there.
     bbind (baudit A (\<lambda>torn now d. materialize_verified (w_sha (sx_world X)) (os_resolve (w_os (sx_world X))) (\<lambda>_. there)
       (evidence_root X) env d (as_evidence (pp_start p)) (rf_script (pp_files p)))) (\<lambda>_.
     bbind (bos (sc_read H (rf_script (pp_files p)))) (\<lambda>data.
     bensure (w_sha (sx_world X) data = fe_sha256 (as_evidence (pp_start p))) (Python RuntimeError)))))"

definition start_process ::
  "'o win_api \<Rightarrow> 'o scoped_host \<Rightarrow> sandbox \<Rightarrow> scoped_request \<Rightarrow> (string \<times> pyval) list \<Rightarrow> prepared
     \<Rightarrow> ('o, activation \<times> path \<times> raw_process) broker_op" where
  "start_process A H X q payload p =
     bbind (activate A X (pp_record p) (pp_start p)) (\<lambda>a.
     bbind (bensure (ac_workspace a = path_of_text (sr_exact_workspace (pp_record p))) (Python RuntimeError)) (\<lambda>_.
     bbind (materialize_script A H X p) (\<lambda>_.
     bbind (bhandler (scoped_cwd (sx_world X) (ac_workspace a) (dget payload ''cwd''))) (\<lambda>cwd.
     bbind (if cwd = ac_workspace a then bret () else bos (api_mkdir A cwd)) (\<lambda>_.
     bbind (bhandler (runner_argv H (pp_interpreter p) (ac_workspace a) (pp_files p) (sd_args q))) (\<lambda>argv.
     bbind (bos (sc_write H (runner_path (pp_interpreter p) (ac_workspace a)))) (\<lambda>_.
     bbind (bensure (argv = pp_argv p) (Python RuntimeError)) (\<lambda>_.
     bbind (bos (api_mkdir A (local_app_data (ac_workspace a)))) (\<lambda>_.
     bbind (bos (api_mkdir A (roaming_app_data (ac_workspace a)))) (\<lambda>_.
     bbind (bhandler (scoped_environment H (sd_env q) (ac_workspace a))) (\<lambda>env.
     bbind (spawn A X a (pp_start p) argv (Some cwd) (Some env)) (\<lambda>proc.
     bret (a, cwd, proc)))))))))))))"

section \<open>The end of the process\<close>

datatype run_end =
    RanOut
  | NeverRan
  | Returned int string

definition read_if_there :: "'o win_api \<Rightarrow> 'o scoped_host \<Rightarrow> path \<Rightarrow> ('o, string) broker_op" where
  "read_if_there A H p = bbind (bos (api_exists A p)) (\<lambda>there. if there then bos (sc_read H p) else bret [])"

definition scoped_output :: "string \<Rightarrow> string \<Rightarrow> string" where
  "scoped_output out err = or_text (strip (strip out @ [CHR 0x0A] @ strip err)) ''No output''"

definition await_process ::
  "'o win_api \<Rightarrow> 'o scoped_host \<Rightarrow> sandbox \<Rightarrow> activation \<Rightarrow> run_files \<Rightarrow> raw_process \<Rightarrow> int \<Rightarrow> ('o, run_end) broker_op" where
  "await_process A H X a fs proc timeout =
     bbind (wait_process A X a proc (Some timeout)) (\<lambda>done.
     if \<not> done then bbind (terminate_process A X a proc) (\<lambda>_. bret RanOut) else
     bbind (bos (api_exists A (rf_result fs))) (\<lambda>there.
     if \<not> there then bret NeverRan else
     bbind (bcatch (bos (sc_read H (rf_result fs))) (\<lambda>_. bfail (Python RuntimeError))) (\<lambda>text.
     case py_int (VStr (strip text)) of
       Inl _ \<Rightarrow> bfail (Python RuntimeError)
     | Inr code \<Rightarrow> bbind (read_if_there A H (rf_stdout fs)) (\<lambda>out.
         bbind (read_if_there A H (rf_stderr fs)) (\<lambda>err. bret (Returned code (scoped_output out err)))))))"

definition scope_ref :: "string \<Rightarrow> int \<Rightarrow> pyval" where
  "scope_ref sid n = VDict [(''scope_id'', VStr sid), (''generation'', VInt n)]"

definition scoped_response ::
  "(string \<times> pyval) list \<Rightarrow> prepared \<Rightarrow> string \<Rightarrow> int \<Rightarrow> path \<Rightarrow> activation \<Rightarrow> string \<Rightarrow> int \<Rightarrow> (string \<times> pyval) list \<Rightarrow> pyval" where
  "scoped_response payload p sid n cwd a output returncode extra = VDict
     ([(''ok'', VBool (returncode = 0)), (''interpreter'', VStr (pp_interpreter p)), (''sudo'', VBool False),
       (''cwd'', VStr (path_text cwd)), (''cleanup'', VBool (truthy (dget_default payload ''cleanup'' (VBool True)))),
       (''execution_profile'', VStr ''scoped_mutation''), (''output'', VStr output), (''returncode'', VInt returncode)]
      @ extra @ [(''mutation_scope_ref'', scope_ref sid n),
       (''audit_operation_id'', VStr (as_operation_id (pp_start p)))])"

text \<open>What FINISH says of an ending: its status, return code and error.\<close>

definition finish_of :: "run_end \<Rightarrow> string \<times> int option \<times> string option" where
  "finish_of e = (case e of RanOut \<Rightarrow> (''timeout'', Some (-1), Some ''timeout'')
     | NeverRan \<Rightarrow> (''failed'', None, Some ''HostMutationSandboxUnavailable'')
     | Returned code _ \<Rightarrow> (if code = 0 then ''succeeded'' else ''failed'', Some code, None))"

definition run_response ::
  "(string \<times> pyval) list \<Rightarrow> prepared \<Rightarrow> string \<Rightarrow> int \<Rightarrow> path \<Rightarrow> activation \<Rightarrow> scope_record \<Rightarrow> run_end \<Rightarrow> (sb_exn, pyval) result" where
  "run_response payload p sid n cwd a terminal e = (case e of
     RanOut \<Rightarrow> Inr (scoped_response payload p sid n cwd a ''Timeout'' (-1) [(''timed_out'', VBool True)])
   | NeverRan \<Rightarrow> Inl (Handler ''HostMutationSandboxUnavailable'')
   | Returned code output \<Rightarrow> Inr (scoped_response payload p sid n cwd a output code
       ([(''terminal_state'', VStr (state_text (sr_state terminal))), (''command'', VList (map VStr (pp_argv p)))]
        @ (if truthy (dget_default payload ''cleanup'' (VBool True)) then [] else
           [(''script_path'', VStr (path_text (rf_script (pp_files p)))), (''workdir'', VStr (path_text (ac_workspace a)))]))))"

section \<open>The whole request\<close>

text \<open>Closing comes before FINISH; once the scope is terminal a failure is only passed on.\<close>

definition conclude ::
  "'o win_api \<Rightarrow> 'o scoped_host \<Rightarrow> sandbox \<Rightarrow> (string \<times> pyval) list \<Rightarrow> prepared \<Rightarrow> string \<Rightarrow> int \<Rightarrow> path
     \<Rightarrow> activation \<Rightarrow> raw_process \<Rightarrow> run_end \<Rightarrow> scope_record \<Rightarrow> ('o, pyval) broker_op" where
  "conclude A H X payload p sid n cwd a proc e terminal =
     (case finish_of e of (status, returncode, error) \<Rightarrow>
      bbind (bcatch (journal_finish A H X (pp_start p) status returncode error terminal (Some proc))
        (\<lambda>e. bfail (as_handler_error e))) (\<lambda>_.
      bresult (run_response payload p sid n cwd a terminal e)))"

definition run_prepared ::
  "'o win_api \<Rightarrow> 'o scoped_host \<Rightarrow> sandbox \<Rightarrow> scoped_request \<Rightarrow> (string \<times> pyval) list \<Rightarrow> prepared \<Rightarrow> ('o, pyval) broker_op" where
  "run_prepared A H X q payload p =
     (let sid = su_scope_id (sd_authority q); n = su_generation (sd_authority q);
          failed = close_failed A H X sid n (pp_start p) True in
      bbind (outcome (start_process A H X q payload p)) (\<lambda>started. case started of
        Inl e \<Rightarrow> failed None e
      | Inr (a, cwd, proc) \<Rightarrow>
        bbind (outcome (await_process A H X a (pp_files p) proc (sd_timeout q))) (\<lambda>ended. case ended of
          Inl e \<Rightarrow> failed (Some proc) e
        | Inr e \<Rightarrow> bbind (outcome (terminalize A X sid n)) (\<lambda>closed. case closed of
            Inl x \<Rightarrow> failed (Some proc) x
          | Inr t \<Rightarrow> conclude A H X payload p sid n cwd a proc e t))))"

definition run_scoped ::
  "'o win_api \<Rightarrow> 'o scoped_host \<Rightarrow> world \<Rightarrow> path \<Rightarrow> path \<Rightarrow> string \<Rightarrow> mutation_policy \<Rightarrow> request_context
     \<Rightarrow> (string \<times> pyval) list \<Rightarrow> ('o, pyval) broker_op" where
  "run_scoped A H w state_root audit_root broker policy context payload =
     bbind (bhandler (parse_scoped_request (sc_windows H) payload)) (\<lambda>q.
     bbind (bensure (mp_configured policy \<and> mp_scoped_mutation_enabled policy)
       (Handler ''HostMutationSandboxUnavailable'')) (\<lambda>_.
     bbind (bensure (evidence_store_ok (mp_evidence_retention_days policy)) (Python ValueError)) (\<lambda>_.
     let au = sd_authority q;
         X = \<lparr>sx_world = w, sx_policy = policy,
           sx_root = (case mp_workspace_root policy of None \<Rightarrow> state_root | Some root \<Rightarrow> root),
           sx_repository = su_repository au, sx_semantic = su_semantic au, sx_protected = [state_root],
           sx_broker_sid = broker, sx_audit_root = audit_root\<rparr> in
     bbind (bcatch (prepare_scoped A H X context payload q) (\<lambda>e. bfail (as_handler_error e))) (\<lambda>p.
     case build_sandbox (sc_windows H) w policy (su_repository au) (su_semantic au) [state_root] broker audit_root of
       Inl e \<Rightarrow> close_failed A H X (su_scope_id au) (su_generation au) (pp_start p) False None e
     | Inr Y \<Rightarrow> run_prepared A H Y q payload p))))"

section \<open>Routing\<close>

datatype script_route = LegacyRun | ScopedRun

definition route_script :: "mutation_policy \<Rightarrow> bool \<Rightarrow> (string \<times> pyval) list \<Rightarrow> script_route handler" where
  "route_script policy has_context payload = rbind (scoped_profile payload) (\<lambda>profile. case profile of
     None \<Rightarrow> if mp_configured policy then Inl (handler_error ''execution_profile_required'') else Inr LegacyRun
   | Some p \<Rightarrow>
       if p = ''scoped_mutation'' then
         (if has_context then Inr ScopedRun else Inl (handler_error ''HostMutationAuditLineageInvalid''))
       else if p = ''operator_unrestricted'' then
         (if mp_operator_unrestricted_enabled policy then Inr LegacyRun
          else Inl (handler_error ''operator_unrestricted_disabled''))
       else Inl invalid_payload)"

end
