(* ===== verification/ScopedLaws.thy ===== *)
theory ScopedLaws
  imports ScopedRun SandboxLogic AuditRun
begin

text \<open>
  What a scoped run writes to the audit journal. \<open>frames f m\<close> says that \<open>m\<close> leaves the part
  \<open>f\<close> of the broker alone; \<open>logs s t ts\<close> that the journal of \<open>t\<close> is the one of \<open>s\<close> with the
  events \<open>ts\<close> after it; \<open>tlog P m Q\<close> is a triple whose postcondition also sees the kinds of
  the events the program wrote.
\<close>

named_theorems frame_rules

section \<open>Frames\<close>

definition frames :: "('o broker \<Rightarrow> 'x) \<Rightarrow> ('o, 'a) broker_op \<Rightarrow> bool" where
  "frames f m \<longleftrightarrow> (\<forall>s. f (snd (m s)) = f s)"

lemma frames_basic [frame_rules]:
  "frames f (bret x)" "frames f (bfail e)" "frames f (bget g)" "frames f (bensure b e)" "frames f (bresult r)"
  by (simp_all add: frames_def bret_def bfail_def bget_def bensure_def bresult_def)

lemma bresult_then: "bbind (bresult (Inr x)) k = k x" "bbind (bresult (Inl e)) k = bfail e"
  by (simp_all add: bbind_def bresult_def bfail_def fun_eq_iff)

lemma frames_bind [frame_rules]: "frames f m \<Longrightarrow> (\<And>x. frames f (k x)) \<Longrightarrow> frames f (bbind m k)"
  unfolding frames_def bbind_def by (auto split: prod.splits sum.splits) (metis snd_conv)+

lemma frames_catch [frame_rules]: "frames f m \<Longrightarrow> (\<And>e. frames f (h e)) \<Longrightarrow> frames f (bcatch m h)"
  unfolding frames_def bcatch_def by (auto split: prod.splits sum.splits) (metis snd_conv)+

lemma frames_if [frame_rules]: "frames f m \<Longrightarrow> frames f n \<Longrightarrow> frames f (if b then m else n)"
  by simp

lemma frames_option [frame_rules]:
  "frames f m \<Longrightarrow> (\<And>x. frames f (k x)) \<Longrightarrow> frames f (case y of None \<Rightarrow> m | Some x \<Rightarrow> k x)"
  by (cases y) auto

lemma frames_pair [frame_rules]: "(\<And>a b. frames f (k a b)) \<Longrightarrow> frames f (case p of (a, b) \<Rightarrow> k a b)"
  by (cases p) auto

lemma frames_sum [frame_rules]:
  "(\<And>e. frames f (h e)) \<Longrightarrow> (\<And>x. frames f (k x)) \<Longrightarrow> frames f (case r of Inl e \<Rightarrow> h e | Inr x \<Rightarrow> k x)"
  by (cases r) auto

lemma frames_let [frame_rules]: "frames f (k x) \<Longrightarrow> frames f (let y = x in k y)"
  by simp

lemma frames_each [frame_rules]: "(\<And>x. frames f (k x)) \<Longrightarrow> frames f (beach k xs)"
  by (induction xs) (auto intro: frame_rules)

lemma frames_os [frame_rules]:
  "frames br_audit (bos g)" "frames br_doc (bos g)" "frames br_audit (bnow A)" "frames br_doc (bnow A)"
  "frames br_audit (bstore A m)" "frames br_doc (baudit A n)"
  by (simp_all add: frames_def bos_def bnow_def bstore_def baudit_def Let_def split: prod.splits option.splits)

lemma frames_put [frame_rules]:
  "frames br_audit (bput (\<lambda>s. s\<lparr>br_processes := g s\<rparr>))" "frames br_audit (bput (\<lambda>s. s\<lparr>br_released := h s\<rparr>))"
  "frames br_audit (bput (\<lambda>s. s\<lparr>br_traverse := k s\<rparr>))"
  by (simp_all add: frames_def bput_def)

section \<open>The sandbox leaves the journal alone, spawning apart\<close>

lemma frames_attempt [frame_rules]: "frames f m \<Longrightarrow> frames f (attempt m)" "frames f m' \<Longrightarrow> frames f (capture m')"
  by (auto simp: attempt_def capture_def intro!: frame_rules)

lemma frames_checks [frame_rules]:
  "frames br_audit (assert_no_reparse A root p)" "frames br_audit (assert_final_path A p)"
  "frames br_audit (assert_exact_workspace_acl A p b sid)" "frames br_audit (assert_no_foreign_sid A p ex)"
  "frames br_audit (run_icacls A v p sid t)" "frames br_audit (remove_runtime_read A p sid t)"
  "frames br_audit (remove_traverse A ps sid)" "frames br_audit (delete_profile A nm)"
  "frames br_audit (observe_session_objects A)" "frames br_audit (grant_object A sid q)"
  "frames br_audit (confirm_object A sid q)" "frames br_audit (ungrant_objects A sid qs)"
  "frames br_audit (remove_object_read A sid q)" "frames br_audit (sx_revalidate A X i n)"
  "frames br_audit (pop_traverse key)"
  unfolding assert_no_reparse_def assert_final_path_def assert_exact_workspace_acl_def assert_no_foreign_sid_def
    run_icacls_def remove_runtime_read_def remove_traverse_def delete_profile_def observe_session_objects_def
    grant_object_def confirm_object_def ungrant_objects_def remove_object_read_def sx_revalidate_def pop_traverse_def
    refuse_reparse_def
  by (intro frame_rules)+

lemma frames_grant_traverse [frame_rules]: "frames br_audit (grant_traverse A ps sid done)"
  by (induction ps arbitrary: "done") (auto intro!: frame_rules)

lemma frames_grant_session [frame_rules]: "frames br_audit (grant_session_read A sid qs done)"
  by (induction qs arbitrary: "done") (auto intro!: frame_rules)

lemma frames_steps [frame_rules]:
  "frames br_audit (grant_runtime_read A p sid t)" "frames br_audit (grant_workspace_traverse A p sid)"
  "frames br_audit (remove_session_read A ns sid)" "frames br_audit (materialize_workspace A X r)"
  unfolding grant_runtime_read_def grant_workspace_traverse_def remove_session_read_def materialize_workspace_def
    Let_def
  by (intro frame_rules)+

lemma frames_roots [frame_rules]:
  "frames br_audit (reserve_root A X r sid p)" "frames br_audit (clear_root A X r sid p)"
  "frames br_audit (grant_root A X r sid p)" "frames br_audit (claim_acl A X r ws sid)"
  "frames br_audit (claim_workspace A X r ws ex sid)"
  unfolding grant_root_def claim_acl_def claim_workspace_def reserve_root_def clear_root_def
  by (intro frame_rules)+

lemma frames_grant_roots [frame_rules]: "frames br_audit (grant_roots A X r sid ps done)"
  by (induction ps arbitrary: "done") (auto intro!: frame_rules)

lemma frames_rollback_roots [frame_rules]: "frames br_audit (rollback_roots A X r sid ps)"
  by (induction ps) (auto intro!: frame_rules)

lemma frames_activate [frame_rules]: "frames br_audit (activate A X r start)"
  unfolding activate_def activation_grants_def rollback_activation_def
  by (intro frame_rules)

lemma frames_process [frame_rules]:
  "frames br_audit (release_process A X a p)" "frames br_audit (wait_process A X a p t)"
  "frames br_audit (terminate_process A X a p)" "frames br_audit (enable_session_read A X a)"
  "frames br_audit (cleanup_session_read A X r)" "frames br_audit (assert_activation_current A X a start)"
  unfolding release_process_def wait_process_def terminate_process_def enable_session_read_def
    cleanup_session_read_def assert_activation_current_def is_released_def forget_process_def mark_released_def
  by (intro frame_rules)+

lemma frames_cleanup [frame_rules]:
  "frames br_audit (stop_job A j)" "frames br_audit (check_gone A rep pid)" "frames br_audit (cleanup_workspace A X r sid)"
  "frames br_audit (cleanup_root A X r sid d p)" "frames br_audit (cleanup_identity A X r sid)"
  "frames br_audit (cleanup_runtime A X r)"
  unfolding stop_job_def check_gone_def cleanup_workspace_def cleanup_root_def cleanup_identity_def cleanup_runtime_def
    forget_process_def mark_released_def Let_def
  by (intro frame_rules)+

lemma frames_terminalize [frame_rules]: "frames br_audit (terminalize A X i n)"
proof -
  have step: "frames br_audit (case t of Closed r \<Rightarrow> bret r | CleanupRequired r \<Rightarrow> bbind (cleanup_runtime A X r) (k r))"
    if "\<And>r c. frames br_audit (k r c)" for t k
    using that by (cases t) (auto intro!: frame_rules)
  show ?thesis unfolding terminalize_def by (intro frame_rules step)
qed

section \<open>Events\<close>

definition logs :: "'o broker \<Rightarrow> 'o broker \<Rightarrow> pyval list \<Rightarrow> bool" where
  "logs s t ts \<longleftrightarrow> (\<forall>es. journal_holds (br_audit s) es \<longrightarrow> journal_holds (br_audit t) (es @ ts))"

definition tlog ::
  "(doc_file \<Rightarrow> bool) \<Rightarrow> ('o, 'a) broker_op \<Rightarrow> ((sb_exn, 'a) result \<Rightarrow> pyval list \<Rightarrow> doc_file \<Rightarrow> bool) \<Rightarrow> bool" where
  "tlog P m Q \<longleftrightarrow> (\<forall>s r t. P (br_doc s) \<longrightarrow> m s = (r, t) \<longrightarrow>
     (\<exists>ts. logs s t ts \<and> Q r (map event_kind ts) (br_doc t)))"

definition never_torn :: "'o win_api \<Rightarrow> bool" where
  "never_torn A \<longleftrightarrow> (\<forall>x. fst (api_append_fault A x) = None)"

lemma tlogD: "tlog P m Q \<Longrightarrow> P (br_doc s) \<Longrightarrow> m s = (r, t) \<Longrightarrow>
    \<exists>ts. logs s t ts \<and> Q r (map event_kind ts) (br_doc t)"
  by (simp add: tlog_def)

lemma logs_refl: "br_audit t = br_audit s \<Longrightarrow> logs s t []"
  by (simp add: logs_def)

lemma logs_trans: "logs s t ts \<Longrightarrow> logs t u us \<Longrightarrow> logs s u (ts @ us)"
  unfolding logs_def append_assoc[symmetric] by blast

lemma tlog_weaken:
  assumes "tlog P' m Q'" "\<And>f. P f \<Longrightarrow> P' f" "\<And>r ks f. Q' r ks f \<Longrightarrow> Q r ks f"
  shows "tlog P m Q"
  using assms unfolding tlog_def by meson

lemma tlog_bind:
  assumes m: "tlog P m Q1" and k: "\<And>x ks. tlog (Q1 (Inr x) ks) (k x) (\<lambda>r ks' f. Q r (ks @ ks') f)"
    and e: "\<And>e ks f. Q1 (Inl e) ks f \<Longrightarrow> Q (Inl e) ks f"
  shows "tlog P (bbind m k) Q"
  unfolding tlog_def
proof (intro allI impI)
  fix s r t assume p: "P (br_doc s)" and b: "bbind m k s = (r, t)"
  obtain r1 s1 where m1: "m s = (r1, s1)" by force
  from tlogD[OF m p m1] obtain ts where ts: "logs s s1 ts" "Q1 r1 (map event_kind ts) (br_doc s1)" by blast
  show "\<exists>ts. logs s t ts \<and> Q r (map event_kind ts) (br_doc t)"
  proof (cases r1)
    case (Inl x)
    with b m1 ts e show ?thesis by (auto simp: bbind_def)
  next
    case (Inr x)
    with b m1 have "k x s1 = (r, t)" by (simp add: bbind_def)
    from tlogD[OF k[of x "map event_kind ts"] _ this] ts Inr obtain us
      where "logs s1 t us" "Q r (map event_kind ts @ map event_kind us) (br_doc t)" by blast
    with logs_trans[OF ts(1)] show ?thesis by (metis map_append)
  qed
qed

text \<open>A program that leaves the journal alone: every event comes from the rest.\<close>

lemma tlog_frame:
  assumes "frames br_audit m" "\<And>s r t. P (br_doc s) \<Longrightarrow> m s = (r, t) \<Longrightarrow> Q r [] (br_doc t)"
  shows "tlog P m Q"
  unfolding tlog_def
proof (intro allI impI)
  fix s r t assume p: "P (br_doc s)" and m: "m s = (r, t)"
  with assms(1) have "br_audit t = br_audit s" unfolding frames_def by (metis snd_conv)
  with assms(2)[OF p m] show "\<exists>ts. logs s t ts \<and> Q r (map event_kind ts) (br_doc t)"
    by (intro exI[of _ "[]"]) (simp add: logs_refl)
qed

lemma tlog_silent: "frames br_audit m \<Longrightarrow> tlog (\<lambda>_. True) m (\<lambda>r ks f. ks = [])"
  by (rule tlog_frame) auto

lemma tlog_bind_quiet:
  assumes "tlog (\<lambda>_. True) m (\<lambda>r ks f. ks = [])" "\<And>x. tlog (\<lambda>_. True) (k x) Q" "\<And>e f. Q (Inl e) [] f"
  shows "tlog (\<lambda>_. True) (bbind m k) Q"
proof (rule tlog_bind[OF assms(1)])
  fix x and ks :: "pyval list"
  show "tlog (\<lambda>_. ks = []) (k x) (\<lambda>r ks' f. Q r (ks @ ks') f)"
    using assms(2)[of x] by (cases "ks = []") (auto simp: tlog_def)
qed (use assms(3) in auto)

lemma tlog_bind_silent:
  "frames br_audit m \<Longrightarrow> (\<And>x. tlog (\<lambda>_. True) (k x) Q) \<Longrightarrow> (\<And>e f. Q (Inl e) [] f) \<Longrightarrow> tlog (\<lambda>_. True) (bbind m k) Q"
  by (rule tlog_bind_quiet[OF tlog_silent])

lemma tlog_outcome:
  assumes "tlog P m Q1" "\<And>e ks f. e \<noteq> Crashed \<Longrightarrow> Q1 (Inl e) ks f \<Longrightarrow> Q (Inr (Inl e)) ks f"
    "\<And>x ks f. Q1 (Inr x) ks f \<Longrightarrow> Q (Inr (Inr x)) ks f" "\<And>ks f. Q1 (Inl Crashed) ks f \<Longrightarrow> Q (Inl Crashed) ks f"
  shows "tlog P (outcome m) Q"
  unfolding tlog_def
proof (intro allI impI)
  fix s r t assume p: "P (br_doc s)" and b: "outcome m s = (r, t)"
  obtain r1 s1 where m1: "m s = (r1, s1)" by force
  from tlogD[OF assms(1) p m1] obtain ts where ts: "logs s s1 ts" "Q1 r1 (map event_kind ts) (br_doc s1)" by blast
  with b m1 assms(2-4) show "\<exists>ts. logs s t ts \<and> Q r (map event_kind ts) (br_doc t)"
    by (cases r1) (auto simp: outcome_def bcatch_def bbind_def bret_def split: if_splits intro!: exI[of _ ts])
qed

lemma tlog_ret: "(\<And>f. P f \<Longrightarrow> Q (Inr x) [] f) \<Longrightarrow> tlog P (bret x) Q"
  and tlog_fail: "(\<And>f. P f \<Longrightarrow> R (Inl e) [] f) \<Longrightarrow> tlog P (bfail e) R"
  by (auto simp: tlog_def bret_def bfail_def intro!: exI[of _ "[]"] logs_refl)

lemma tlog_absurd: "(\<And>f. \<not> P f) \<Longrightarrow> tlog P m Q"
  by (simp add: tlog_def)

lemma tlog_if: "tlog P m Q \<Longrightarrow> tlog P n Q \<Longrightarrow> tlog P (if b then m else n) Q"
  by simp

section \<open>The events of the audit journal\<close>

abbreviation STARTED :: pyval where "STARTED \<equiv> VStr ''OPERATION_STARTED''"
abbreviation SPAWNED :: pyval where "SPAWNED \<equiv> VStr ''PROCESS_SPAWNED''"
abbreviation FINISHED :: pyval where "FINISHED \<equiv> VStr ''OPERATION_FINISHED''"

lemma kinds:
  "event_kind (start_event sha i b e items now) = STARTED" "event_kind (spawn_event st v now) = SPAWNED"
  "event_kind (finish_event st r status rc ec c now) = FINISHED"
  by (simp_all add: event_kind_def event_field_def start_event_def spawn_event_def finish_event_def event_head_def dget_def)

lemma append_logs:
  "event_ok e \<Longrightarrow> durable_append None e d = (d', r) \<Longrightarrow> r = Inr () \<and> (\<forall>es. journal_holds d es \<longrightarrow> journal_holds d' (es @ [e]))"
  using journal_log.append_ok journal_log.append_holds by (metis fst_conv)

lemma tlog_catch:
  assumes m: "tlog P m Q1" and h: "\<And>e ks. e \<noteq> Crashed \<Longrightarrow> tlog (Q1 (Inl e) ks) (h e) (\<lambda>r ks' f. Q r (ks @ ks') f)"
    and x: "\<And>x ks f. Q1 (Inr x) ks f \<Longrightarrow> Q (Inr x) ks f" and c: "\<And>ks f. Q1 (Inl Crashed) ks f \<Longrightarrow> Q (Inl Crashed) ks f"
  shows "tlog P (bcatch m h) Q"
  unfolding tlog_def
proof (intro allI impI)
  fix s r t assume p: "P (br_doc s)" and b: "bcatch m h s = (r, t)"
  obtain r1 s1 where m1: "m s = (r1, s1)" by force
  from tlogD[OF m p m1] obtain ts where ts: "logs s s1 ts" "Q1 r1 (map event_kind ts) (br_doc s1)" by blast
  show "\<exists>ts. logs s t ts \<and> Q r (map event_kind ts) (br_doc t)"
  proof (cases "\<exists>e. r1 = Inl e \<and> e \<noteq> Crashed")
    case False
    with b m1 ts x c show ?thesis by (auto simp: bcatch_def split: sum.splits if_splits)
  next
    case True
    then obtain e where e: "r1 = Inl e" "e \<noteq> Crashed" by blast
    with b m1 have "h e s1 = (r, t)" by (simp add: bcatch_def)
    from tlogD[OF h[OF e(2), of "map event_kind ts"] _ this] ts e obtain us
      where "logs s1 t us" "Q r (map event_kind ts @ map event_kind us) (br_doc t)" by blast
    with logs_trans[OF ts(1)] show ?thesis by (metis map_append)
  qed
qed

lemma tlog_silent_pre: "frames br_audit m \<Longrightarrow> frames br_doc m \<Longrightarrow> tlog P m (\<lambda>r ks f. ks = [] \<and> P f)"
proof (rule tlog_frame)
  fix s r t assume "frames br_doc m" "P (br_doc s)" "m s = (r, t)"
  then show "[] = [] \<and> P (br_doc t)" unfolding frames_def by (metis snd_conv)
qed

lemma tlog_bind_pre:
  assumes "frames br_audit m" "frames br_doc m" "\<And>x. tlog P (k x) Q" "\<And>e f. P f \<Longrightarrow> Q (Inl e) [] f"
  shows "tlog P (bbind m k) Q"
proof (rule tlog_bind[OF tlog_silent_pre[OF assms(1,2), of P]])
  fix x and ks :: "pyval list"
  show "tlog (\<lambda>f. ks = [] \<and> P f) (k x) (\<lambda>r ks' f. Q r (ks @ ks') f)"
    using assms(3)[of x] by (cases "ks = []") (auto simp: tlog_def)
qed (use assms(4) in auto)

text \<open>An audit operation that writes no event.\<close>

lemma tlog_audit_silent:
  assumes "\<And>torn now d. ad_journal (fst (m torn now d)) = ad_journal d"
  shows "tlog (\<lambda>_. True) (baudit A m) (\<lambda>r ks f. ks = [])"
  unfolding tlog_def
proof (intro allI impI)
  fix s :: "'b broker" and r t assume b: "baudit A m s = (r, t)"
  then have "ad_journal (br_audit t) = ad_journal (br_audit s)"
    using assms by (auto simp: baudit_def Let_def split: prod.splits) (metis fst_conv)
  then have "logs s t []" by (simp add: logs_def journal_holds_def journal_text_def)
  then show "\<exists>ts. logs s t ts \<and> map event_kind ts = []" by auto
qed

lemma retain_silent: "ad_journal (fst (retain sha root days env d b now)) = ad_journal d"
  by (simp add: retain_def put_file_def Let_def split: write_fault.splits option.splits)

lemma materialize_silent: "ad_journal (fst (materialize_verified sha res ex root env d e p)) = ad_journal d"
  by (simp add: materialize_verified_def put_file_def Let_def split: write_fault.splits option.splits sum.splits)

text \<open>An audit operation that writes one event when it succeeds and none otherwise.\<close>

lemma tlog_audit_event:
  assumes nt: "never_torn A"
    and fail: "\<And>now d d' e. m None now d = (d', Inl e) \<Longrightarrow> d' = d"
    and good: "\<And>now d d' x. m None now d = (d', Inr x) \<Longrightarrow> C \<and> (\<exists>ev. event_ok ev \<and> event_kind ev = k \<and> durable_append None ev d = (d', Inr ()))"
  shows "tlog P (baudit A m) (\<lambda>r ks f. P f \<and> (case r of Inl _ \<Rightarrow> ks = [] | Inr _ \<Rightarrow> ks = [k] \<and> C))"
  unfolding tlog_def
proof (intro allI impI)
  fix s :: "'a broker" and r t assume p: "P (br_doc s)" and b: "baudit A m s = (r, t)"
  obtain torn o1 where f: "api_append_fault A (br_os s) = (torn, o1)" by force
  with nt have torn: "torn = None" unfolding never_torn_def by (metis fst_conv)
  obtain now o2 where n: "api_now A o1 = (now, o2)" by force
  obtain d q where d: "m None now (br_audit s) = (d, q)" by force
  from b f n d torn have t: "t = s\<lparr>br_os := o2, br_audit := d\<rparr>"
    and r: "r = (case q of Inl e \<Rightarrow> Inl (Audit e) | Inr x \<Rightarrow> Inr x)" by (simp_all add: baudit_def)
  show "\<exists>ts. logs s t ts \<and> P (br_doc t) \<and> (case r of Inl _ \<Rightarrow> map event_kind ts = [] | Inr _ \<Rightarrow> map event_kind ts = [k] \<and> C)"
  proof (cases q)
    case (Inl e)
    with fail[of now "br_audit s"] d have "logs s t []" by (simp add: t logs_refl)
    with p r Inl t show ?thesis by (intro exI[of _ "[]"]) simp
  next
    case (Inr x)
    with good[of now "br_audit s"] d obtain ev where c: C and ev: "event_ok ev" "event_kind ev = k"
      "durable_append None ev (br_audit s) = (d, Inr ())" by blast
    with append_logs[OF ev(1,3)] have "logs s t [ev]" by (simp add: t logs_def)
    with p r Inr t ev(2) c show ?thesis by (intro exI[of _ "[ev]"]) simp
  qed
qed

lemma tlog_begin: "never_torn A \<Longrightarrow> tlog P (baudit A (\<lambda>torn now d. begin_operation sha root torn token d b e au pi q v now))
    (\<lambda>r ks f. P f \<and> (case r of Inl _ \<Rightarrow> ks = [] | Inr _ \<Rightarrow> ks = [STARTED] \<and> True))"
proof (rule tlog_audit_event, assumption)
  fix now d d' x assume "begin_operation sha root None token d b e au pi q v now = (d', Inr x)"
  then show "True \<and> (\<exists>ev. event_ok ev \<and> event_kind ev = STARTED \<and> durable_append None ev d = (d', Inr ()))"
    by (auto simp: begin_operation_def Let_def split: sum.splits prod.splits
        intro!: exI[of _ "start_event sha (''mao_'' @ token) b e (start_evidence_items au pi q v) now"] start_event_ok kinds)
qed (auto simp: begin_operation_def durable_append_def Let_def split: sum.splits)

lemma tlog_finish: "never_torn A \<Longrightarrow> tlog P (baudit A (\<lambda>torn now d. finish_operation sha root torn token d st status c rc ec now))
    (\<lambda>r ks f. P f \<and> (case r of Inl _ \<Rightarrow> ks = [] | Inr _ \<Rightarrow> ks = [FINISHED] \<and> closure_complete st c))"
proof (rule tlog_audit_event, assumption)
  fix now d d' x assume "finish_operation sha root None token d st status c rc ec now = (d', Inr x)"
  then show "closure_complete st c \<and> (\<exists>ev. event_ok ev \<and> event_kind ev = FINISHED \<and> durable_append None ev d = (d', Inr ()))"
    by (auto simp: finish_operation_def Let_def split: sum.splits prod.splits if_splits
        intro!: exI[of _ "finish_event st (''mutation-audit:'' @ as_operation_id st @ '':finish:'' @ token) status rc ec c now"]
          finish_event_ok kinds)
qed (auto simp: finish_operation_def durable_append_def Let_def split: sum.splits if_splits)

section \<open>Spawning\<close>

lemma commit_spawn_journal:
  assumes "commit_spawn_before_resume sha root None d st e now = (acts, d', q)"
  shows "(case q of Inl _ \<Rightarrow> d' = d | Inr _ \<Rightarrow> durable_append None (spawn_event st e now) d = (d', Inr ()))"
  using assms by (auto simp: commit_spawn_before_resume_def record_spawn_def durable_append_def Let_def
      split: sum.splits prod.splits)

lemma tlog_commit_spawn:
  assumes nt: "never_torn A"
  shows "tlog (\<lambda>_. True) (commit_spawn A X a p st e)
     (\<lambda>r ks f. ks \<in> {[], [SPAWNED]} \<and> (\<forall>x. r = Inr x \<longrightarrow> ks = [SPAWNED]))"
  unfolding tlog_def
proof (intro allI impI)
  fix s :: "'a broker" and r t assume b: "commit_spawn A X a p st e s = (r, t)"
  obtain now o1 where n: "api_now A (br_os s) = (now, o1)" by force
  obtain torn o2 where f: "api_append_fault A o1 = (torn, o2)" by force
  with nt have torn: "torn = None" unfolding never_torn_def by (metis fst_conv)
  obtain acts d q where d: "commit_spawn_before_resume (w_sha (sx_world X)) (sx_audit_root X) None (br_audit s) st e now
      = (acts, d, q)" by (metis prod_cases3)
  let ?tail = "bbind (beach (\<lambda>act. case act of
         TerminateSuspended \<Rightarrow> bbind (bos (api_terminate A (rp_job p))) (\<lambda>_. release_process A X a p)
       | ResumeSuspended \<Rightarrow> bos (api_resume A (rp_job p))) acts) (\<lambda>_. case q of Inl err \<Rightarrow> bfail (Audit err) | Inr _ \<Rightarrow> bret ())"
  let ?s = "s\<lparr>br_os := o2, br_audit := d\<rparr>"
  have run: "?tail ?s = (r, t)"
    using b n f torn d by (simp add: commit_spawn_def bbind_def bnow_def bos_def bget_def bput_def Let_def)
  have act: "frames br_audit (case act of
         TerminateSuspended \<Rightarrow> bbind (bos (api_terminate A (rp_job p))) (\<lambda>_. release_process A X a p)
       | ResumeSuspended \<Rightarrow> bos (api_resume A (rp_job p)))" for act
    by (cases act) (auto intro!: frame_rules)
  have "frames br_audit ?tail" by (intro frame_rules act)
  with run have au: "br_audit t = d" unfolding frames_def by (metis (no_types, lifting) snd_conv broker.select_convs(2) broker.update_convs(2) broker.surjective)
  show "\<exists>ts. logs s t ts \<and> map event_kind ts \<in> {[], [SPAWNED]} \<and> (\<forall>x. r = Inr x \<longrightarrow> map event_kind ts = [SPAWNED])"
  proof (cases q)
    case (Inl err)
    with commit_spawn_journal[OF d] au have "logs s t []" by (simp add: logs_refl)
    moreover have "r \<noteq> Inr x" for x
      using run Inl by (auto simp: bbind_def bfail_def split: prod.splits sum.splits)
    ultimately show ?thesis by (intro exI[of _ "[]"]) auto
  next
    case (Inr sp)
    with commit_spawn_journal[OF d] have "durable_append None (spawn_event st e now) (br_audit s) = (d, Inr ())" by simp
    from append_logs[OF spawn_event_ok this] au have "logs s t [spawn_event st e now]" by (simp add: logs_def)
    then show ?thesis by (intro exI[of _ "[spawn_event st e now]"]) (simp add: kinds)
  qed
qed

definition spawn_log :: "(sb_exn, 'a) result \<Rightarrow> pyval list \<Rightarrow> doc_file \<Rightarrow> bool" where
  "spawn_log r ks f \<longleftrightarrow> ks \<in> {[], [SPAWNED]} \<and> (\<forall>x. r = Inr x \<longrightarrow> ks = [SPAWNED])"

lemma spawn_log_Inl [simp]: "spawn_log (Inl e) [] f"
  by (simp add: spawn_log_def)

lemma tlog_then_ret:
  "tlog P m Q1 \<Longrightarrow> (\<And>x ks f. Q1 (Inr x) ks f \<Longrightarrow> Q (Inr (g x)) ks f) \<Longrightarrow> (\<And>e ks f. Q1 (Inl e) ks f \<Longrightarrow> Q (Inl e) ks f) \<Longrightarrow>
   tlog P (bbind m (\<lambda>x. bret (g x))) Q"
  by (rule tlog_bind, assumption, rule tlog_ret, simp)

lemma tlog_spawn:
  assumes nt: "never_torn A"
  shows "tlog (\<lambda>_. True) (spawn A X a st argv cwd env) spawn_log"
proof -
  have committed: "tlog (\<lambda>_. True) (bbind (commit_spawn A X a p st e) (\<lambda>_. bret p)) spawn_log" for p e
    by (rule tlog_then_ret[OF tlog_commit_spawn[OF nt]]) (auto simp: spawn_log_def)
  have body: "tlog (\<lambda>_. True) (bbind (if b then enable_session_read A X a else bret ()) (\<lambda>_.
        bbind (bos (api_report A p)) (\<lambda>rep. bbind (bos (api_final_path A dir)) (\<lambda>final.
        bbind (bensure (ok rep final) (Sandbox SandboxMismatch)) (\<lambda>_.
        bbind (commit_spawn A X a p st (spawn_evidence_of p rep final)) (\<lambda>_. bret p)))))) spawn_log" for b p dir ok
    by (intro tlog_bind_silent frame_rules committed spawn_log_Inl)
  have recover: "tlog (spawn_log (Inl e :: (sb_exn, raw_process) result) ks) (bbind (is_released (rp_job p)) (\<lambda>gone.
          bbind (if gone then bret () else bbind (bos (api_terminate A (rp_job p))) (\<lambda>_. release_process A X a p))
            (\<lambda>_. bfail e :: ('a, raw_process) broker_op))) (\<lambda>r ks' f. spawn_log (r :: (sb_exn, raw_process) result) (ks @ ks') f)" for e ks p
  proof (rule tlog_frame)
    show "frames br_audit (bbind (is_released (rp_job p)) (\<lambda>gone.
          bbind (if gone then bret () else bbind (bos (api_terminate A (rp_job p))) (\<lambda>_. release_process A X a p))
            (\<lambda>_. bfail e :: ('a, raw_process) broker_op)))" unfolding is_released_def by (intro frame_rules)
    fix s :: "'a broker" and r t
    assume "spawn_log (Inl e :: (sb_exn, raw_process) result) ks (br_doc s)"
      "bbind (is_released (rp_job p)) (\<lambda>gone.
          bbind (if gone then bret () else bbind (bos (api_terminate A (rp_job p))) (\<lambda>_. release_process A X a p))
            (\<lambda>_. bfail e :: ('a, raw_process) broker_op)) s = (r, t)"
    then show "spawn_log (r :: (sb_exn, raw_process) result) (ks @ []) (br_doc t)"
      by (auto simp: spawn_log_def bbind_def bfail_def split: prod.splits sum.splits)
  qed
  have guarded: "tlog (\<lambda>_. True) (bcatch (bbind (if b then enable_session_read A X a else bret ()) (\<lambda>_.
        bbind (bos (api_report A p)) (\<lambda>rep. bbind (bos (api_final_path A dir)) (\<lambda>final.
        bbind (bensure (ok rep final) (Sandbox SandboxMismatch)) (\<lambda>_.
        bbind (commit_spawn A X a p st (spawn_evidence_of p rep final)) (\<lambda>_. bret p))))))
       (\<lambda>e. bbind (is_released (rp_job p)) (\<lambda>gone.
          bbind (if gone then bret () else bbind (bos (api_terminate A (rp_job p))) (\<lambda>_. release_process A X a p))
            (\<lambda>_. bfail e :: ('a, raw_process) broker_op)))) spawn_log" for b p dir ok
    by (rule tlog_catch[OF body recover])
  show ?thesis
    unfolding spawn_def Let_def
    by (intro tlog_bind_silent frame_rules spawn_log_Inl tlog_if tlog_fail guarded)
qed

end
