(* ===== verification/ScopedProps.thy ===== *)
theory ScopedProps
  imports ScopedLaws SandboxSample
begin

text \<open>
  The properties of scoped script runs: what a run leaves in the audit journal and in the
  scope store, the environment and the directory of the child, and which requests reach the
  historical handler.
\<close>

section \<open>A closed scope is stored as closed\<close>










section \<open>The parts of a run\<close>









definition start_log :: "(sb_exn, 'a) result \<Rightarrow> pyval list \<Rightarrow> doc_file \<Rightarrow> bool" where
  "start_log r ks f \<longleftrightarrow> ks = (case r of Inl _ \<Rightarrow> [] | Inr _ \<Rightarrow> [STARTED])"

lemma start_log_simps [simp]: "start_log (Inl e) ks f \<longleftrightarrow> ks = []" "start_log (Inr x) ks f \<longleftrightarrow> ks = [STARTED]"
  by (simp_all add: start_log_def)









section \<open>A sample request\<close>

definition tiny_host :: "tiny scoped_host" where
  "tiny_host = \<lparr>sc_windows = True, sc_environ = [(''PATH'', ''/bin''), (''GH_TOKEN'', ''x'')], sc_drive = (\<lambda>_. []),
     sc_python = Path True [''py'', ''pythonw.exe''], sc_which = (\<lambda>_. None), sc_user_sid = tiny_all ''S-1-5-18'',
     sc_derive_sid = (\<lambda>_. tiny_all tiny_sid), sc_retain = (\<lambda>x. (sample_env, x)), sc_token = (\<lambda>x. (''1'', x)),
     sc_write = (\<lambda>_. tiny_all ()), sc_read = (\<lambda>_. tiny_all ''0''), sc_closed = (\<lambda>_. tiny_all True),
     sc_active = (\<lambda>_. tiny_all 0)\<rparr>"


section \<open>Properties\<close>



lemma credential_exact: "k \<in> set AUTHORITY_ENV_EXACT \<Longrightarrow> credential_like k"
  by (auto simp: AUTHORITY_ENV_EXACT_def) code_simp+

lemma profile_variables_dom: "dom (map_of (profile_variables H ws)) = set AUTHORITY_ENV_EXACT"
  by (auto simp: profile_variables_def AUTHORITY_ENV_EXACT_def Let_def dom_map_of_conv_image_fst)

lemma add_extra_ok:
  "add_extra env extra = Inr env' \<Longrightarrow> (\<forall>(k, v) \<in> set extra. \<not> credential_like k)
     \<and> map_of env' = map_of env ++ map_of (rev extra)"
proof (induction extra arbitrary: env)
  case (Cons kv extra)
  obtain k v where kv: "kv = (k, v)" by force
  from Cons.prems have k: "\<not> credential_like k" and a: "add_extra (AList.update k v env) extra = Inr env'"
    by (auto simp: kv split: if_splits)
  from Cons.IH[OF a] k show ?case by (auto simp: kv update_conv' map_add_def fun_eq_iff split: option.splits)
qed simp

lemma fold_update: "map_of (fold (\<lambda>(k, v). AList.update k v) kvs env) = map_of env ++ map_of (rev kvs)"
  by (induction kvs arbitrary: env) (auto simp: update_conv' fun_eq_iff map_add_def split: option.splits)

text \<open>
  C34: the child of a scoped run gets no authority through its environment or its directory.
  A variable whose name may carry credentials is there only as one of the six profile
  variables, which point into the workspace, and a request that sets such a name is refused;
  every other variable is the request's or the agent's own; and the working directory is the
  workspace or resolves to a place inside it.
\<close>

theorem scoped_child_confined:
  assumes "scoped_environment H extra ws = Inr env" and "scoped_cwd w ws cwd = Inr p"
  shows "(\<forall>k. credential_like k \<longrightarrow> map_of env k = map_of (profile_variables H ws) k)
     \<and> (\<forall>(k, v) \<in> set extra. \<not> credential_like k)
     \<and> (\<forall>k. \<not> credential_like k \<longrightarrow> map_of env k = (case map_of (rev extra) k of Some v \<Rightarrow> Some v | None \<Rightarrow> map_of (sc_environ H) k))
     \<and> (p = ws \<or> (\<exists>root. os_resolve (w_os w) ws = Some root \<and> is_relative_to p root))"
proof -
  have filtered: "map_of (filter (\<lambda>(k, _). \<not> credential_like k) l) k = (if credential_like k then None else map_of l k)"
    for l :: "(string \<times> string) list" and k by (induction l) auto
  let ?base = "filter (\<lambda>(k, _). \<not> credential_like k) (sc_environ H)"
  from add_extra_ok[OF assms(1)[unfolded scoped_environment_def]]
  have ex: "\<forall>(k, v) \<in> set extra. \<not> credential_like k"
    and env: "map_of env = (map_of ?base ++ map_of (rev (profile_variables H ws))) ++ map_of (rev extra)"
    by (simp_all add: fold_update)
  note base = filtered[of "sc_environ H"]
  have pv: "map_of (rev (profile_variables H ws)) k = map_of (profile_variables H ws) k" for k
    by (simp add: profile_variables_def Let_def)
  have none: "map_of (rev extra) k = None" if "credential_like k" for k
    using ex that by (auto simp: map_of_eq_None_iff)
  have out: "map_of (profile_variables H ws) k = None" if "\<not> credential_like k" for k
    using that credential_exact profile_variables_dom[of H ws] by (metis domIff)
  have "p = ws \<or> (\<exists>root. os_resolve (w_os w) ws = Some root \<and> is_relative_to p root)"
    using assms(2) by (auto simp: scoped_cwd_def Let_def of_option_def raising_def rbind_def
        split: pyval.splits if_splits option.splits sum.splits)
  with ex show ?thesis
    by (auto simp: env pv base none out map_add_def split: option.splits)
qed

theorem scoped_child_confined_witness:
  "\<exists>env. scoped_environment tiny_host [(''LANG'', ''C'')] (Path True [''ws'']) = Inr env
     \<and> map_of env ''GH_TOKEN'' = None \<and> map_of env ''HOME'' = Some ''/ws/.sandbox-profile'' \<and> map_of env ''LANG'' = Some ''C''"
proof -
  have "list_all (\<lambda>k. \<not> credential_like k) [''LANG'']" "credential_like ''GH_TOKEN''" "credential_like ''HOME''" by code_simp+
  then obtain env where env: "scoped_environment tiny_host [(''LANG'', ''C'')] (Path True [''ws'']) = Inr env"
    by (auto simp: scoped_environment_def)
  have cwd: "scoped_cwd sample_world (Path True [''ws'']) (VStr ''sub'') = Inr (Path True [''ws'', ''sub''])" by code_simp
  have pv: "map_of (profile_variables tiny_host (Path True [''ws''])) ''GH_TOKEN'' = None"
    "map_of (profile_variables tiny_host (Path True [''ws''])) ''HOME'' = Some ''/ws/.sandbox-profile''"
    by (simp_all add: profile_variables_def Let_def) code_simp
  from scoped_child_confined[OF env cwd] env pv \<open>credential_like ''GH_TOKEN''\<close> \<open>credential_like ''HOME''\<close>
    \<open>list_all (\<lambda>k. \<not> credential_like k) [''LANG'']\<close> show ?thesis
    by (intro exI[of _ env]) simp
qed

text \<open>
  No fallback. The historical, unconfined handler runs only when the Host has no mutation
  policy and the request names no profile, or when the request asks for the unrestricted
  profile and the policy allows it; a request for a scoped run is never run any other way.
\<close>

theorem legacy_run_needs_opt_in:
  "(route_script policy has_context payload = Inr LegacyRun \<longleftrightarrow>
      (scoped_profile payload = Inr None \<and> \<not> mp_configured policy)
      \<or> (scoped_profile payload = Inr (Some ''operator_unrestricted'') \<and> mp_operator_unrestricted_enabled policy))
   \<and> (route_script policy has_context payload = Inr ScopedRun \<longleftrightarrow>
      scoped_profile payload = Inr (Some ''scoped_mutation'') \<and> has_context)"
  by (auto simp: route_script_def rbind_def split: sum.splits option.splits if_splits)

end
