(* ===== verification/FileSystem.thy ===== *)
theory FileSystem
  imports MutationPolicy
begin

text \<open>
  The file system as the mutating handlers see it, and the calls of the standard library they
  make: \<open>os.rename\<close>, \<open>shutil.move\<close>, \<open>copytree\<close>, \<open>copy2\<close>, \<open>rmtree\<close>, \<open>unlink\<close>, \<open>mkdir(parents=True)\<close>,
  \<open>chmod\<close>, \<open>chown\<close>, \<open>tarfile\<close>. The handlers work on resolved paths, so a state maps absolute
  paths to files and directories; symbolic links are what \<open>os_resolve\<close> resolves, and a link
  inside a tree that is copied or removed is not modelled. Any call may fail: the environment
  says with which error, and which of the paths it was to change had been changed by then. The
  calls that are atomic (rename, unlink, replace) change nothing when they fail. \<open>icacls\<close>, which
  sets the owner on Windows, gives the new owner when it exits with 0.
\<close>

record node_meta =
  nm_mode :: int
  nm_owner :: int
  nm_group :: int

datatype fs_node = FileNode string node_meta | DirNode node_meta

record fs_state =
  fs_files :: "path \<Rightarrow> fs_node option"
  fs_log :: "pyval list"

datatype io_error = NoPermission | OtherIo

datatype fs_call =
    RmTree path
  | Unlink path
  | Rename path path
  | CopyTree path path
  | CopyFile path path
  | MkDirs path
  | TarTree path path
  | ChMod path
  | ChOwn path
  | WriteFile path
  | Replace path path

record fs_env =
  fe_os :: os
  fe_fault :: "fs_call \<Rightarrow> (io_error \<times> (path \<Rightarrow> bool)) option"
  fe_same_device :: "path \<Rightarrow> path \<Rightarrow> bool"
  fe_meta :: node_meta
  fe_stamp :: string
  fe_micros :: string
  fe_tar :: "(path \<Rightarrow> fs_node option) \<Rightarrow> string"
  fe_uid :: "string \<Rightarrow> int option"
  fe_gid :: "string \<Rightarrow> int option"
  fe_log_writable :: bool
  fe_windows :: bool
  fe_icacls :: "path \<Rightarrow> string \<Rightarrow> int option"

section \<open>Programs over the file system\<close>

type_synonym ('e, 'a) fs_op = "fs_state \<Rightarrow> ('e, 'a) result \<times> fs_state"

definition fdone :: "('e, 'a) result \<Rightarrow> ('e, 'a) fs_op" where
  "fdone r = (\<lambda>s. (r, s))"

abbreviation fret :: "'a \<Rightarrow> ('e, 'a) fs_op" where "fret x \<equiv> fdone (Inr x)"
abbreviation ffail :: "'e \<Rightarrow> ('e, 'a) fs_op" where "ffail e \<equiv> fdone (Inl e)"

definition fbind :: "('e, 'a) fs_op \<Rightarrow> ('a \<Rightarrow> ('e, 'b) fs_op) \<Rightarrow> ('e, 'b) fs_op" where
  "fbind m f = (\<lambda>s. case m s of (Inl e, t) \<Rightarrow> (Inl e, t) | (Inr x, t) \<Rightarrow> f x t)"

definition fcatch :: "('e, 'a) fs_op \<Rightarrow> ('e \<Rightarrow> ('f, 'a) fs_op) \<Rightarrow> ('f, 'a) fs_op" where
  "fcatch m h = (\<lambda>s. case m s of (Inl e, t) \<Rightarrow> h e t | (Inr x, t) \<Rightarrow> (Inr x, t))"

definition flook :: "(fs_state \<Rightarrow> 'a) \<Rightarrow> ('e, 'a) fs_op" where
  "flook f = (\<lambda>s. (Inr (f s), s))"

definition fensure :: "bool \<Rightarrow> 'e \<Rightarrow> ('e, unit) fs_op" where
  "fensure b e = (if b then fret () else ffail e)"

definition exists_at :: "path \<Rightarrow> fs_state \<Rightarrow> bool" where
  "exists_at p s \<longleftrightarrow> fs_files s p \<noteq> None"

definition dir_at :: "path \<Rightarrow> fs_state \<Rightarrow> bool" where
  "dir_at p s \<longleftrightarrow> (case fs_files s p of Some (DirNode _) \<Rightarrow> True | _ \<Rightarrow> False)"

definition file_at :: "path \<Rightarrow> fs_state \<Rightarrow> bool" where
  "file_at p s \<longleftrightarrow> (case fs_files s p of Some (FileNode _ _) \<Rightarrow> True | _ \<Rightarrow> False)"

section \<open>Calls\<close>

text \<open>\<open>effect\<close>: how the files change if the call succeeds; on a failure the given part of it.\<close>

definition partly :: "(path \<Rightarrow> bool) \<Rightarrow> (path \<Rightarrow> fs_node option) \<Rightarrow> (path \<Rightarrow> fs_node option) \<Rightarrow> path \<Rightarrow> fs_node option" where
  "partly part new old = (\<lambda>q. if part q then new q else old q)"

definition tree_call ::
  "fs_env \<Rightarrow> fs_call \<Rightarrow> ((path \<Rightarrow> fs_node option) \<Rightarrow> path \<Rightarrow> fs_node option) \<Rightarrow> (io_error, unit) fs_op" where
  "tree_call E c effect = (\<lambda>s. case fe_fault E c of
     None \<Rightarrow> (Inr (), s\<lparr>fs_files := effect (fs_files s)\<rparr>)
   | Some (e, part) \<Rightarrow> (Inl e, s\<lparr>fs_files := partly part (effect (fs_files s)) (fs_files s)\<rparr>))"

definition atomic_call ::
  "fs_env \<Rightarrow> fs_call \<Rightarrow> ((path \<Rightarrow> fs_node option) \<Rightarrow> path \<Rightarrow> fs_node option) \<Rightarrow> (io_error, unit) fs_op" where
  "atomic_call E c effect = (\<lambda>s. case fe_fault E c of
     None \<Rightarrow> (Inr (), s\<lparr>fs_files := effect (fs_files s)\<rparr>)
   | Some (e, _) \<Rightarrow> (Inl e, s))"

definition without_tree :: "path \<Rightarrow> (path \<Rightarrow> fs_node option) \<Rightarrow> path \<Rightarrow> fs_node option" where
  "without_tree p fs = (\<lambda>q. if is_relative_to q p then None else fs q)"

text \<open>The path below \<open>src\<close> that \<open>q\<close>, below \<open>dst\<close>, stands for.\<close>

definition rebase :: "path \<Rightarrow> path \<Rightarrow> path \<Rightarrow> path" where
  "rebase dst src q = Path (is_absolute src) (parts src @ drop (length (parts dst)) (parts q))"

definition moved_tree :: "path \<Rightarrow> path \<Rightarrow> (path \<Rightarrow> fs_node option) \<Rightarrow> path \<Rightarrow> fs_node option" where
  "moved_tree src dst fs = (\<lambda>q. if is_relative_to q dst then fs (rebase dst src q)
     else if is_relative_to q src then None else fs q)"

definition copied_node :: "fs_env \<Rightarrow> fs_node option \<Rightarrow> fs_node \<Rightarrow> fs_node" where
  "copied_node E old n = (case n of
     FileNode t m \<Rightarrow> FileNode t (case old of Some (FileNode _ o') \<Rightarrow> o'\<lparr>nm_mode := nm_mode m\<rparr>
       | _ \<Rightarrow> (fe_meta E)\<lparr>nm_mode := nm_mode m\<rparr>)
   | DirNode m \<Rightarrow> DirNode ((fe_meta E)\<lparr>nm_mode := nm_mode m\<rparr>))"

definition copied_tree :: "fs_env \<Rightarrow> path \<Rightarrow> path \<Rightarrow> (path \<Rightarrow> fs_node option) \<Rightarrow> path \<Rightarrow> fs_node option" where
  "copied_tree E src dst fs = (\<lambda>q. if is_relative_to q dst
     then map_option (copied_node E None) (fs (rebase dst src q)) else fs q)"

definition ancestors :: "path \<Rightarrow> path list" where
  "ancestors p = map (\<lambda>n. Path (is_absolute p) (take n (parts p))) [0..<Suc (length (parts p))]"

definition with_dirs :: "fs_env \<Rightarrow> path \<Rightarrow> (path \<Rightarrow> fs_node option) \<Rightarrow> path \<Rightarrow> fs_node option" where
  "with_dirs E p fs = (\<lambda>q. if is_relative_to p q \<and> fs q = None then Some (DirNode (fe_meta E)) else fs q)"

definition rm_tree :: "fs_env \<Rightarrow> path \<Rightarrow> (io_error, unit) fs_op" where
  "rm_tree E p = fbind (flook (dir_at p)) (\<lambda>d. fbind (fensure d OtherIo) (\<lambda>_.
     tree_call E (RmTree p) (without_tree p)))"

definition unlink :: "fs_env \<Rightarrow> path \<Rightarrow> (io_error, unit) fs_op" where
  "unlink E p = fbind (flook (file_at p)) (\<lambda>f. fbind (fensure f OtherIo) (\<lambda>_.
     atomic_call E (Unlink p) (\<lambda>fs. fs(p := None))))"

definition make_dirs :: "fs_env \<Rightarrow> path \<Rightarrow> (io_error, unit) fs_op" where
  "make_dirs E p = fbind (flook (\<lambda>s. list_ex (\<lambda>a. file_at a s) (ancestors p))) (\<lambda>bad.
     fbind (fensure (\<not> bad) OtherIo) (\<lambda>_. tree_call E (MkDirs p) (with_dirs E p)))"

text \<open>A file is copied into a directory under its own name.\<close>

definition copy_target :: "path \<Rightarrow> path \<Rightarrow> fs_state \<Rightarrow> path" where
  "copy_target src dst s = (if dir_at dst s then Path (is_absolute dst) (parts dst @ [path_name src]) else dst)"

definition copy_file :: "fs_env \<Rightarrow> path \<Rightarrow> path \<Rightarrow> (io_error, path) fs_op" where
  "copy_file E src dst = fbind (flook (\<lambda>s. (fs_files s src, copy_target src dst s))) (\<lambda>(n, d).
     case n of Some (FileNode t m) \<Rightarrow>
       fbind (flook (\<lambda>s. d \<noteq> src \<and> \<not> dir_at d s \<and> dir_at (path_parent d) s)) (\<lambda>ok.
       fbind (fensure ok OtherIo) (\<lambda>_.
       fbind (tree_call E (CopyFile src d) (\<lambda>fs. fs(d \<mapsto> copied_node E (fs d) (FileNode t m)))) (\<lambda>_. fret d)))
     | _ \<Rightarrow> ffail OtherIo)"

definition copy_tree :: "fs_env \<Rightarrow> path \<Rightarrow> path \<Rightarrow> (io_error, unit) fs_op" where
  "copy_tree E src dst = fbind (flook (\<lambda>s. dir_at src s \<and> \<not> exists_at dst s)) (\<lambda>ok.
     fbind (fensure ok OtherIo) (\<lambda>_. fbind (make_dirs E (path_parent dst)) (\<lambda>_.
     tree_call E (CopyTree src dst) (copied_tree E src dst))))"

text \<open>
  \<open>shutil.move\<close> to a path where nothing is: a rename, or a copy and a removal where that is
  not possible. A directory does not move below itself.
\<close>

definition move_path :: "fs_env \<Rightarrow> path \<Rightarrow> path \<Rightarrow> (io_error, unit) fs_op" where
  "move_path E src dst = fbind (flook (\<lambda>s. (exists_at src s, dir_at src s, dir_at (path_parent dst) s))) (\<lambda>(there, dir, parent).
     if \<not> there then ffail OtherIo
     else if dir \<and> is_relative_to dst src then ffail OtherIo
     else if parent \<and> fe_same_device E src dst then atomic_call E (Rename src dst) (moved_tree src dst)
     else if dir then fbind (copy_tree E src dst) (\<lambda>_. rm_tree E src)
     else fbind (copy_file E src dst) (\<lambda>_. unlink E src))"

definition set_mode :: "int \<Rightarrow> fs_node \<Rightarrow> fs_node" where
  "set_mode n x = (case x of FileNode t m \<Rightarrow> FileNode t (m\<lparr>nm_mode := n\<rparr>) | DirNode m \<Rightarrow> DirNode (m\<lparr>nm_mode := n\<rparr>))"

definition set_owner :: "int \<Rightarrow> int \<Rightarrow> fs_node \<Rightarrow> fs_node" where
  "set_owner u g x = (let f = (\<lambda>m. m\<lparr>nm_owner := if u = -1 then nm_owner m else u,
       nm_group := if g = -1 then nm_group m else g\<rparr>) in
     case x of FileNode t m \<Rightarrow> FileNode t (f m) | DirNode m \<Rightarrow> DirNode (f m))"

definition change_node :: "fs_env \<Rightarrow> fs_call \<Rightarrow> path \<Rightarrow> (fs_node \<Rightarrow> fs_node) \<Rightarrow> (io_error, unit) fs_op" where
  "change_node E c p f = fbind (flook (exists_at p)) (\<lambda>there. fbind (fensure there OtherIo) (\<lambda>_.
     atomic_call E c (\<lambda>fs. fs(p := map_option f (fs p)))))"

text \<open>The files of a tree, by their paths relative to its parent, as \<open>tarfile\<close> stores them.\<close>

definition subtree :: "path \<Rightarrow> (path \<Rightarrow> fs_node option) \<Rightarrow> path \<Rightarrow> fs_node option" where
  "subtree p fs = (\<lambda>q. if is_absolute q then None
     else if is_relative_to (path_join (path_parent p) q) p then fs (path_join (path_parent p) q) else None)"

definition tar_tree :: "fs_env \<Rightarrow> path \<Rightarrow> path \<Rightarrow> (io_error, unit) fs_op" where
  "tar_tree E src archive = fbind (flook (\<lambda>s. \<not> dir_at archive s \<and> dir_at (path_parent archive) s)) (\<lambda>ok.
     fbind (fensure ok OtherIo) (\<lambda>_.
     tree_call E (TarTree src archive)
       (\<lambda>fs. fs(archive \<mapsto> FileNode (fe_tar E (subtree src fs)) (fe_meta E)))))"

section \<open>What a program leaves alone\<close>

text \<open>
  \<open>confined P A m\<close>: a path that \<open>m\<close> changes is in \<open>P\<close>, or is in \<open>A\<close> and did not exist before.
\<close>

definition confined :: "(path \<Rightarrow> bool) \<Rightarrow> (path \<Rightarrow> bool) \<Rightarrow> ('e, 'a) fs_op \<Rightarrow> bool" where
  "confined P A m \<longleftrightarrow> (\<forall>s q. fs_files (snd (m s)) q \<noteq> fs_files s q \<longrightarrow> P q \<or> A q \<and> fs_files s q = None)"

named_theorems confinement \<open>what the calls change\<close>

lemma confined_fdone [confinement]: "confined P A (fdone r)"
  by (simp add: confined_def fdone_def)

lemma confined_flook [confinement]: "confined P A (flook f)"
  by (simp add: confined_def flook_def)

lemma confined_fensure [confinement]: "confined P A (fensure b e)"
  by (simp add: fensure_def confinement)

lemma confined_fbind [confinement]:
  assumes "confined P A m" "\<And>x. confined P A (f x)" shows "confined P A (fbind m f)"
  unfolding confined_def
proof (intro allI impI)
  fix s q
  assume c: "fs_files (snd (fbind m f s)) q \<noteq> fs_files s q"
  obtain r t where m: "m s = (r, t)" by (cases "m s")
  show "P q \<or> A q \<and> fs_files s q = None"
  proof (cases r)
    case (Inl e)
    with c m assms(1) show ?thesis by (auto simp: confined_def fbind_def dest: spec[of _ s] spec[of _ q])
  next
    case (Inr x)
    then have "fs_files t q \<noteq> fs_files s q \<or> fs_files t q = fs_files s q \<and> fs_files (snd (f x t)) q \<noteq> fs_files t q"
      using c m by (auto simp: fbind_def)
    then show ?thesis using assms(1) assms(2)[of x] m unfolding confined_def
      by (metis snd_conv)
  qed
qed

lemma confined_fcatch [confinement]:
  assumes "confined P A m" "\<And>e. confined P A (h e)" shows "confined P A (fcatch m h)"
  unfolding confined_def
proof (intro allI impI)
  fix s q
  assume c: "fs_files (snd (fcatch m h s)) q \<noteq> fs_files s q"
  obtain r t where m: "m s = (r, t)" by (cases "m s")
  show "P q \<or> A q \<and> fs_files s q = None"
  proof (cases r)
    case (Inr x)
    with c m assms(1) show ?thesis by (auto simp: confined_def fcatch_def dest: spec[of _ s] spec[of _ q])
  next
    case (Inl e)
    then have "fs_files t q \<noteq> fs_files s q \<or> fs_files t q = fs_files s q \<and> fs_files (snd (h e t)) q \<noteq> fs_files t q"
      using c m by (auto simp: fcatch_def)
    then show ?thesis using assms(1) assms(2)[of e] m unfolding confined_def
      by (metis snd_conv)
  qed
qed

lemma confined_if [confinement]: "confined P A m \<Longrightarrow> confined P A n \<Longrightarrow> confined P A (if b then m else n)"
  by simp

lemma confined_calls:
  assumes "\<And>fs q. eff fs q \<noteq> fs q \<Longrightarrow> P q \<or> A q \<and> fs q = None"
  shows "confined P A (tree_call E c eff)" "confined P A (atomic_call E c eff)"
  using assms by (auto simp: confined_def tree_call_def atomic_call_def partly_def split: option.splits)

lemma confined_mono: "confined P A m \<Longrightarrow> (\<And>q. P q \<Longrightarrow> P' q) \<Longrightarrow> (\<And>q. A q \<Longrightarrow> A' q) \<Longrightarrow> confined P' A' m"
  unfolding confined_def by blast

lemma confined_rm_tree [confinement]: "(\<And>q. is_relative_to q p \<Longrightarrow> P q) \<Longrightarrow> confined P A (rm_tree E p)"
  unfolding rm_tree_def by (intro confinement confined_calls) (auto simp: without_tree_def split: if_splits)

lemma confined_unlink [confinement]: "P p \<Longrightarrow> confined P A (unlink E p)"
  unfolding unlink_def by (intro confinement confined_calls) (auto split: if_splits)

lemma confined_change_node [confinement]: "P p \<Longrightarrow> confined P A (change_node E c p f)"
  unfolding change_node_def by (intro confinement confined_calls) (auto split: if_splits)

lemma confined_make_dirs [confinement]: "(\<And>q. is_relative_to p q \<Longrightarrow> A q) \<Longrightarrow> confined P A (make_dirs E p)"
  unfolding make_dirs_def by (intro confinement confined_calls) (auto simp: with_dirs_def split: if_splits)

lemma confined_tar_tree [confinement]: "P archive \<Longrightarrow> confined P A (tar_tree E src archive)"
  unfolding tar_tree_def by (intro confinement confined_calls) (auto split: if_splits)

lemma copy_target_below: "is_relative_to (copy_target src dst s) dst"
  by (simp add: copy_target_def is_relative_to_def)

lemma confined_copy_file [confinement]:
  assumes "\<And>q. is_relative_to q dst \<Longrightarrow> P q" shows "confined P A (copy_file E src dst)"
  unfolding confined_def
proof (intro allI impI)
  fix s q
  assume c: "fs_files (snd (copy_file E src dst s)) q \<noteq> fs_files s q"
  have "q = copy_target src dst s"
    using c unfolding copy_file_def fbind_def flook_def fensure_def fdone_def tree_call_def partly_def
    by (auto split: option.splits fs_node.splits if_splits)
  then show "P q \<or> A q \<and> fs_files s q = None" using assms copy_target_below by simp
qed

lemma parent_relative: "is_relative_to (path_parent p) q \<Longrightarrow> is_relative_to p q"
  using is_relative_to_trans relative_to_parent by blast

lemma confined_copy_tree [confinement]:
  assumes "\<And>q. is_relative_to q dst \<Longrightarrow> P q" "\<And>q. is_relative_to dst q \<Longrightarrow> A q"
  shows "confined P A (copy_tree E src dst)"
  unfolding copy_tree_def using assms
  by (intro confinement confined_calls) (auto simp: copied_tree_def dest: parent_relative split: if_splits)

lemma confined_move_path [confinement]:
  assumes "\<And>q. is_relative_to q dst \<Longrightarrow> P q" "\<And>q. is_relative_to q src \<Longrightarrow> P q" "\<And>q. is_relative_to dst q \<Longrightarrow> A q"
  shows "confined P A (move_path E src dst)"
proof -
  have "confined P A (atomic_call E c (moved_tree src dst))" for c
    using assms by (intro confined_calls) (auto simp: moved_tree_def split: if_splits)
  moreover have "confined P A (fbind (copy_tree E src dst) (\<lambda>_. rm_tree E src))"
    "confined P A (fbind (copy_file E src dst) (\<lambda>_. unlink E src))"
    using assms by (auto intro!: confinement)
  ultimately show ?thesis unfolding move_path_def
    by (intro confined_fbind confined_flook) (auto intro: confined_fdone split: prod.splits)
qed

end
