(* ===== verification/Firewall.thy ===== *)
theory Firewall
  imports MutationPolicy ExecHandler
begin

text \<open>
  \<open>canonical_repository_firewall.py\<close>: before a material write, a target is classified against
  the host-owned inventory of canonical repositories. An enabled firewall whose inventory is not
  ready, or that cannot canonicalise the target, refuses like a positive match does. The text
  of the refusal is left out, its code and details are not.
\<close>

datatype disposition =
    AllowedNonCanonicalTarget
  | CanonicalRepositoryMutationBlocked
  | HostCanonicalMutationFirewallIndeterminate

definition disposition_text :: "disposition \<Rightarrow> string" where
  "disposition_text d = (case d of
     AllowedNonCanonicalTarget \<Rightarrow> ''AllowedNonCanonicalTarget''
   | CanonicalRepositoryMutationBlocked \<Rightarrow> ''CanonicalRepositoryMutationBlocked''
   | HostCanonicalMutationFirewallIndeterminate \<Rightarrow> ''HostCanonicalMutationFirewallIndeterminate'')"

record firewall_decision =
  fd_disposition :: disposition
  fd_identity :: "string option"
  fd_reason :: "string option"

definition decision_allowed :: "firewall_decision \<Rightarrow> bool" where
  "decision_allowed d \<longleftrightarrow> fd_disposition d = AllowedNonCanonicalTarget"

record firewall_readiness =
  fr_ready :: bool
  fr_enabled :: bool
  fr_inventory_valid :: bool
  fr_inventory_count :: nat
  fr_reasons :: "string list"

definition readiness_of :: "mutation_policy \<Rightarrow> firewall_readiness" where
  "readiness_of p = \<lparr>fr_ready = inventory_ready p, fr_enabled = mp_firewall_enabled p,
     fr_inventory_valid = mp_inventory_valid p, fr_inventory_count = length (mp_canonical_repositories p),
     fr_reasons = inventory_readiness_reasons p\<rparr>"

definition indeterminate :: "string \<Rightarrow> firewall_decision" where
  "indeterminate reason = \<lparr>fd_disposition = HostCanonicalMutationFirewallIndeterminate,
     fd_identity = None, fd_reason = Some reason\<rparr>"

definition intersects :: "path \<Rightarrow> canonical_repository \<Rightarrow> bool" where
  "intersects candidate c \<longleftrightarrow> candidate = cr_root c \<or> is_relative_to candidate (cr_root c)
     \<or> is_relative_to (cr_root c) candidate"

text \<open>The \<open>RuntimeError\<close> of \<open>expanduser\<close> is not among the exceptions the classifier catches.\<close>

definition classify_write_target :: "os \<Rightarrow> mutation_policy \<Rightarrow> path \<Rightarrow> firewall_decision py" where
  "classify_write_target sys p target =
     (let ready = readiness_of p in
      if \<not> fr_ready ready
      then Inr (indeterminate (case fr_reasons ready of r # _ \<Rightarrow> r | [] \<Rightarrow> ''inventory_not_ready'')) else
      case os_expanduser sys target of None \<Rightarrow> Inl RuntimeError | Some expanded \<Rightarrow>
      if \<not> is_absolute expanded then Inr (indeterminate ''target_not_absolute'') else
      case os_resolve sys expanded of None \<Rightarrow> Inr (indeterminate ''target_canonicalization_failed'') | Some candidate \<Rightarrow>
      (case List.find (intersects candidate) (mp_canonical_repositories p) of
         Some c \<Rightarrow> Inr \<lparr>fd_disposition = CanonicalRepositoryMutationBlocked,
           fd_identity = Some (cr_identity c), fd_reason = Some ''target_intersects_canonical_repository''\<rparr>
       | None \<Rightarrow> Inr \<lparr>fd_disposition = AllowedNonCanonicalTarget, fd_identity = None,
           fd_reason = Some ''target_outside_canonical_inventory''\<rparr>))"

definition firewall_details :: "string \<Rightarrow> string \<Rightarrow> firewall_decision \<Rightarrow> pyval" where
  "firewall_details operation label d = VDict ([(''operation'', VStr operation), (''target_label'', VStr label),
     (''disposition'', VStr (disposition_text (fd_disposition d))),
     (''reason'', case fd_reason d of None \<Rightarrow> VNull | Some r \<Rightarrow> VStr r)]
     @ (case fd_identity d of None \<Rightarrow> [] | Some i \<Rightarrow> if i = [] then [] else [(''repository_identity'', VStr i)]))"

definition enforce_material_write_target ::
  "os \<Rightarrow> mutation_policy \<Rightarrow> path \<Rightarrow> string \<Rightarrow> string \<Rightarrow> path handler" where
  "enforce_material_write_target sys p target operation label =
     rbind (raising (of_option RuntimeError (os_expanduser sys target))) (\<lambda>expanded.
     rbind (raising (of_option OSError (os_resolve sys expanded))) (\<lambda>candidate.
     if \<not> mp_firewall_enabled p then Inr candidate else
     rbind (raising (classify_write_target sys p candidate)) (\<lambda>d.
     if decision_allowed d then Inr candidate
     else Inl (HandlerError (disposition_text (fd_disposition d)) (firewall_details operation label d)))))"

section \<open>What an admitted target is\<close>

lemma intersects_overlap: "intersects c r = paths_overlap c (cr_root r)"
  by (auto simp: intersects_def paths_overlap_def)

lemma find_none: "List.find P xs = None \<longleftrightarrow> (\<forall>x \<in> set xs. \<not> P x)"
  by (auto simp: find_None_iff)

lemma classify_allowed:
  "classify_write_target sys p target = Inr d \<and> decision_allowed d \<longleftrightarrow>
     inventory_ready p \<and> (\<exists>e c. os_expanduser sys target = Some e \<and> is_absolute e \<and> os_resolve sys e = Some c
       \<and> (\<forall>r \<in> set (mp_canonical_repositories p). \<not> paths_overlap c (cr_root r)))
     \<and> d = \<lparr>fd_disposition = AllowedNonCanonicalTarget, fd_identity = None,
           fd_reason = Some ''target_outside_canonical_inventory''\<rparr>"
  by (auto simp: classify_write_target_def readiness_of_def indeterminate_def decision_allowed_def Let_def
      find_none[unfolded intersects_overlap] intersects_overlap[abs_def] find_Some_iff split: option.splits)

text \<open>
  An operating system whose canonicalisation is stable: what it resolves to is absolute, has no
  home directory to expand and resolves to itself.
\<close>

definition stable_os :: "os \<Rightarrow> bool" where
  "stable_os sys \<longleftrightarrow> (\<forall>p q. os_resolve sys p = Some q \<longrightarrow>
     is_absolute q \<and> os_expanduser sys q = Some q \<and> os_resolve sys q = Some q)"

definition outside_canonical :: "mutation_policy \<Rightarrow> path \<Rightarrow> bool" where
  "outside_canonical p t \<longleftrightarrow> (mp_firewall_enabled p \<longrightarrow>
     inventory_ready p \<and> (\<forall>r \<in> set (mp_canonical_repositories p). \<not> paths_overlap t (cr_root r)))"

lemma enforce_exact:
  assumes "stable_os sys" "os_resolve sys text = Some t"
  shows "enforce_material_write_target sys p t operation label = Inr c \<longleftrightarrow> c = t \<and> outside_canonical p t"
proof -
  have t: "is_absolute t" "os_expanduser sys t = Some t" "os_resolve sys t = Some t"
    using assms unfolding stable_os_def by blast+
  have classify: "(\<exists>d. classify_write_target sys p t = Inr d \<and> decision_allowed d) \<longleftrightarrow>
     inventory_ready p \<and> (\<forall>r \<in> set (mp_canonical_repositories p). \<not> paths_overlap t (cr_root r))"
    by (simp only: classify_allowed) (auto simp: t)
  have "enforce_material_write_target sys p t operation label = Inr c \<longleftrightarrow>
     c = t \<and> (mp_firewall_enabled p \<longrightarrow> (\<exists>d. classify_write_target sys p t = Inr d \<and> decision_allowed d))"
    by (auto simp: enforce_material_write_target_def t result_simps split: if_splits)
  then show ?thesis by (simp add: classify outside_canonical_def)
qed

text \<open>A switched-on firewall without a usable inventory admits nothing.\<close>

lemma firewall_fails_closed:
  assumes "mp_firewall_enabled p" "\<not> inventory_ready p" "stable_os sys" "os_resolve sys text = Some t"
  shows "\<exists>details. enforce_material_write_target sys p t operation label
    = Inl (HandlerError ''HostCanonicalMutationFirewallIndeterminate'' details)"
proof -
  have t: "os_expanduser sys t = Some t" "os_resolve sys t = Some t"
    using assms(3,4) unfolding stable_os_def by blast+
  show ?thesis using assms(1,2)
    by (simp add: enforce_material_write_target_def t classify_write_target_def readiness_of_def
        indeterminate_def decision_allowed_def disposition_text_def)
qed

end
