(* ===== verification/FileMutation.thy ===== *)
theory FileMutation
  imports FileSystem Firewall AgentPolicy ScriptRun
begin

text \<open>
  The destructive file operations (\<open>handlers/fsmutate.py\<close>): move, copy, delete, chmod and chown,
  over the file system of \<open>FileSystem\<close>. A request is refused with a \<open>HandlerError\<close> whose text and
  details are left out, those of the firewall apart. A mode that does not fit a C integer, which
  raises in \<open>chmod\<close>, is not told apart.
\<close>

type_synonym payload = "(string \<times> pyval) list"

type_synonym 'a file_handler = "(handler_exn, 'a) fs_op"

abbreviation refused :: "string \<Rightarrow> handler_exn" where
  "refused code \<equiv> HandlerError code (VDict [])"

section \<open>Shared helpers\<close>

definition require_str :: "payload \<Rightarrow> string \<Rightarrow> string handler" where
  "require_str payload key = (case dget payload key of
     VStr v \<Rightarrow> if strip v = [] then Inl invalid_payload else Inr v | _ \<Rightarrow> Inl invalid_payload)"

definition flag :: "payload \<Rightarrow> string \<Rightarrow> bool" where
  "flag payload key = truthy (dget_default payload key (VBool False))"

definition resolve_rw :: "os \<Rightarrow> policy \<Rightarrow> string \<Rightarrow> path handler" where
  "resolve_rw sys p path =
     (if pol_file_ops_paths p = [] then Inl (refused ''path_not_allowed'')
      else of_option (refused ''path_not_allowed'') (resolve_path sys p path True))"

definition resolve_mutation_target :: "os \<Rightarrow> policy \<Rightarrow> string \<Rightarrow> string \<Rightarrow> string \<Rightarrow> path handler" where
  "resolve_mutation_target sys p path operation label =
     rbind (resolve_rw sys p path) (\<lambda>resolved.
     enforce_material_write_target sys (pol_mutation_execution p) resolved operation label)"

text \<open>The log line of a mutation; that it cannot be written is swallowed.\<close>

definition audit_line :: "fs_env \<Rightarrow> string \<Rightarrow> payload \<Rightarrow> pyval" where
  "audit_line E op detail = VDict ((''ts'', VStr (fe_stamp E)) # (''op'', VStr op) # detail)"

definition audit_mutation :: "fs_env \<Rightarrow> string \<Rightarrow> payload \<Rightarrow> 'a \<Rightarrow> 'a file_handler" where
  "audit_mutation E op detail answer = (\<lambda>s. (Inr answer,
     if fe_log_writable E then s\<lparr>fs_log := fs_log s @ [audit_line E op detail]\<rparr> else s))"

text \<open>\<open>except PermissionError .. except OSError\<close> around the calls of an operation.\<close>

definition io_failed :: "string \<Rightarrow> io_error \<Rightarrow> handler_exn" where
  "io_failed code e = (case e of NoPermission \<Rightarrow> refused ''permission_denied'' | OtherIo \<Rightarrow> refused code)"

definition guarded :: "string \<Rightarrow> (io_error, 'a) fs_op \<Rightarrow> 'a file_handler" where
  "guarded code m = fcatch m (\<lambda>e. ffail (io_failed code e))"

definition path_value :: "path \<Rightarrow> pyval" where
  "path_value p = VStr (path_text p)"

section \<open>move and copy\<close>

definition clear_destination :: "fs_env \<Rightarrow> path \<Rightarrow> bool \<Rightarrow> (io_error, unit) fs_op" where
  "clear_destination E dst overwrite = fbind (flook (\<lambda>s. (exists_at dst s, dir_at dst s))) (\<lambda>(there, dir).
     if there \<and> overwrite then (if dir then rm_tree E dst else unlink E dst) else fret ())"

definition handle_move :: "fs_env \<Rightarrow> policy \<Rightarrow> payload \<Rightarrow> payload file_handler" where
  "handle_move E p payload =
     fbind (fdone (require_str payload ''src'')) (\<lambda>src_str.
     fbind (fdone (require_str payload ''dst'')) (\<lambda>dst_str.
     fbind (fdone (resolve_mutation_target (fe_os E) p src_str ''move'' ''src'')) (\<lambda>src.
     fbind (fdone (resolve_mutation_target (fe_os E) p dst_str ''move'' ''dst'')) (\<lambda>dst.
     fbind (flook (\<lambda>s. (exists_at src s, exists_at dst s))) (\<lambda>(there, taken).
     fbind (fensure there (refused ''not_found'')) (\<lambda>_.
     fbind (fensure (\<not> taken \<or> flag payload ''overwrite'') (refused ''exists'')) (\<lambda>_.
     fbind (guarded ''move_failed'' (fbind (clear_destination E dst (flag payload ''overwrite'')) (\<lambda>_.
       move_path E src dst))) (\<lambda>_.
     audit_mutation E ''move'' [(''src'', path_value src), (''dst'', path_value dst)]
       [(''ok'', VBool True), (''op'', VStr ''move''), (''src'', path_value src), (''dst'', path_value dst)]))))))))"

definition copy_over :: "fs_env \<Rightarrow> path \<Rightarrow> path \<Rightarrow> bool \<Rightarrow> (io_error, string) fs_op" where
  "copy_over E src dst overwrite =
     fbind (flook (\<lambda>s. (dir_at src s, exists_at dst s, dir_at dst s))) (\<lambda>(dir, there, dst_dir).
     if dir then
       fbind (if there \<and> overwrite then rm_tree E dst else fret ()) (\<lambda>_.
       fbind (copy_tree E src dst) (\<lambda>_. fret ''dir''))
     else
       fbind (if there \<and> overwrite \<and> dst_dir then rm_tree E dst else fret ()) (\<lambda>_.
       fbind (copy_file E src dst) (\<lambda>_. fret ''file'')))"

definition handle_copy :: "fs_env \<Rightarrow> policy \<Rightarrow> payload \<Rightarrow> payload file_handler" where
  "handle_copy E p payload =
     fbind (fdone (require_str payload ''src'')) (\<lambda>src_str.
     fbind (fdone (require_str payload ''dst'')) (\<lambda>dst_str.
     fbind (fdone (resolve_rw (fe_os E) p src_str)) (\<lambda>src.
     fbind (fdone (resolve_mutation_target (fe_os E) p dst_str ''copy'' ''dst'')) (\<lambda>dst.
     fbind (flook (\<lambda>s. (exists_at src s, exists_at dst s))) (\<lambda>(there, taken).
     fbind (fensure there (refused ''not_found'')) (\<lambda>_.
     fbind (fensure (\<not> taken \<or> flag payload ''overwrite'') (refused ''exists'')) (\<lambda>_.
     fbind (guarded ''copy_failed'' (copy_over E src dst (flag payload ''overwrite''))) (\<lambda>kind.
     audit_mutation E ''copy'' [(''src'', path_value src), (''dst'', path_value dst), (''kind'', VStr kind)]
       [(''ok'', VBool True), (''op'', VStr ''copy''), (''src'', path_value src), (''dst'', path_value dst),
        (''kind'', VStr kind)]))))))))"

section \<open>delete\<close>

text \<open>\<open>\.bak\.\d{8}-\d{6}(-\d+)?(\.tar\.gz)?$\<close>, found anywhere in the name.\<close>

definition name_ends :: "string \<Rightarrow> bool" where
  "name_ends s \<longleftrightarrow> s \<in> {[], [CHR 0x0A], ''.tar.gz'', ''.tar.gz'' @ [CHR 0x0A]}"

definition backup_tail :: "string \<Rightarrow> bool" where
  "backup_tail s \<longleftrightarrow> name_ends s
     \<or> (case s of c # r \<Rightarrow> c = CHR ''-'' \<and> takeWhile is_digit r \<noteq> [] \<and> name_ends (dropWhile is_digit r) | [] \<Rightarrow> False)"

definition backup_suffix :: "string \<Rightarrow> bool" where
  "backup_suffix s \<longleftrightarrow> startswith s ''.bak.'' \<and> list_all is_digit (take 8 (drop 5 s)) \<and> 20 \<le> length s
     \<and> s ! 13 = CHR ''-'' \<and> list_all is_digit (take 6 (drop 14 s)) \<and> backup_tail (drop 20 s)"

definition is_own_backup :: "path \<Rightarrow> bool" where
  "is_own_backup t \<longleftrightarrow> list_ex (\<lambda>n. backup_suffix (drop n (path_name t))) [0..<length (path_name t)]"

definition sibling :: "path \<Rightarrow> string \<Rightarrow> path" where
  "sibling p name = Path (is_absolute p) (butlast (parts p) @ [name])"

definition dir_backup_path :: "fs_env \<Rightarrow> path \<Rightarrow> path" where
  "dir_backup_path E t = sibling t (path_name t @ ''.bak.'' @ fe_stamp E @ ''.tar.gz'')"

definition file_backup_name :: "fs_env \<Rightarrow> path \<Rightarrow> string" where
  "file_backup_name E t = path_name t @ ''.bak.'' @ fe_stamp E @ ''-'' @ fe_micros E"

definition dir_backup_targz :: "fs_env \<Rightarrow> path \<Rightarrow> (io_error, path) fs_op" where
  "dir_backup_targz E t = fbind (tar_tree E t (dir_backup_path E t)) (\<lambda>_. fret (dir_backup_path E t))"

definition make_backup :: "fs_env \<Rightarrow> path \<Rightarrow> path option \<Rightarrow> (io_error, path) fs_op" where
  "make_backup E src backup_dir =
     (let base = (case backup_dir of None \<Rightarrow> path_parent src | Some d \<Rightarrow> d);
          backup = Path (is_absolute base) (parts base @ [file_backup_name E src]) in
      fbind (make_dirs E base) (\<lambda>_. fbind (copy_file E src backup) (\<lambda>_. fret backup)))"

definition backup_before :: "fs_env \<Rightarrow> path \<Rightarrow> bool \<Rightarrow> path option file_handler" where
  "backup_before E t dir =
     (if is_own_backup t then fret None else
      fcatch (fbind (if dir then dir_backup_targz E t else make_backup E t None) (\<lambda>b. fret (Some b)))
        (\<lambda>_. ffail (refused ''backup_failed'')))"

definition handle_delete :: "fs_env \<Rightarrow> policy \<Rightarrow> payload \<Rightarrow> payload file_handler" where
  "handle_delete E p payload =
     fbind (fdone (require_str payload ''path'')) (\<lambda>path_str.
     fbind (fdone (resolve_mutation_target (fe_os E) p path_str ''delete'' ''path'')) (\<lambda>t.
     fbind (flook (\<lambda>s. (exists_at t s, dir_at t s))) (\<lambda>(there, dir).
     fbind (fensure there (refused ''not_found'')) (\<lambda>_.
     fbind (fensure (dir \<longrightarrow> flag payload ''recursive'') (refused ''is_directory'')) (\<lambda>_.
     fbind (backup_before E t dir) (\<lambda>backup.
     fbind (guarded ''delete_failed'' (if dir then rm_tree E t else unlink E t)) (\<lambda>_.
     let kind = VStr (if dir then ''dir'' else ''file'');
         where_to = (case backup of None \<Rightarrow> VNull | Some b \<Rightarrow> path_value b) in
     audit_mutation E ''delete'' [(''path'', path_value t), (''kind'', kind), (''backup'', where_to),
         (''terminal'', VBool (is_own_backup t))]
       ([(''ok'', VBool True), (''op'', VStr ''delete''), (''path'', path_value t), (''kind'', kind), (''backup'', where_to)]
        @ (if is_own_backup t then [(''terminal'', VBool True)] else []))))))))) "

section \<open>chmod and chown\<close>

text \<open>\<open>int(text, 8)\<close>, for the digits, signs, spaces, prefix and underscores it accepts.\<close>

definition octal_digit :: "char \<Rightarrow> bool" where
  "octal_digit c \<longleftrightarrow> is_digit c \<and> digit_val c < 8"

fun octal_digits :: "string \<Rightarrow> nat \<Rightarrow> nat option" where
  "octal_digits [] n = Some n"
| "octal_digits (c # cs) n = (if octal_digit c then octal_digits cs (8 * n + digit_val c)
     else if c = CHR ''_'' \<and> cs \<noteq> [] \<and> octal_digit (hd cs) then octal_digits cs n else None)"

definition octal_nat :: "string \<Rightarrow> nat option" where
  "octal_nat s = (let r = (if startswith s ''0o'' \<or> startswith s ''0O'' then drop 2 s else s);
      r' = (if r \<noteq> s \<and> startswith r ''_'' then drop 1 r else r) in
      if r' = [] \<or> \<not> octal_digit (hd r') then None else octal_digits r' 0)"

definition parse_octal :: "string \<Rightarrow> int option" where
  "parse_octal text = (let s = strip text in
     if startswith s ''-'' then map_option (\<lambda>n. - int n) (octal_nat (drop 1 s))
     else map_option int (octal_nat (if startswith s ''+'' then drop 1 s else s)))"

fun octal_text :: "nat \<Rightarrow> string" where
  "octal_text n = (if n < 8 then [digit_char n] else octal_text (n div 8) @ [digit_char (n mod 8)])"

definition show_octal :: "int \<Rightarrow> string" where
  "show_octal i = (if i < 0 then ''-0o'' @ octal_text (nat (- i)) else ''0o'' @ octal_text (nat i))"

definition handle_chmod :: "fs_env \<Rightarrow> policy \<Rightarrow> payload \<Rightarrow> payload file_handler" where
  "handle_chmod E p payload =
     fbind (fdone (require_str payload ''path'')) (\<lambda>path_str.
     fbind (fdone (require_str payload ''mode'')) (\<lambda>mode_str.
     fbind (fdone (of_option invalid_payload (parse_octal mode_str))) (\<lambda>mode.
     fbind (fdone (resolve_mutation_target (fe_os E) p path_str ''chmod'' ''path'')) (\<lambda>t.
     fbind (flook (exists_at t)) (\<lambda>there.
     fbind (fensure there (refused ''not_found'')) (\<lambda>_.
     fbind (guarded ''chmod_failed'' (change_node E (ChMod t) t (set_mode mode))) (\<lambda>_.
     audit_mutation E ''chmod'' [(''path'', path_value t), (''mode'', VStr (show_octal mode))]
       [(''ok'', VBool True), (''op'', VStr ''chmod''), (''path'', path_value t), (''mode'', VStr (show_octal mode))])))))))"

definition id_of :: "(string \<Rightarrow> int option) \<Rightarrow> pyval \<Rightarrow> int handler" where
  "id_of known v = (if truthy v then of_option invalid_payload (known (py_str v)) else Inr (-1))"

definition chown_windows :: "fs_env \<Rightarrow> path \<Rightarrow> pyval \<Rightarrow> pyval \<Rightarrow> payload file_handler" where
  "chown_windows E t owner grp =
     fbind (fensure (\<not> truthy grp) invalid_payload) (\<lambda>_.
     fbind (case fe_icacls E t (py_str owner) of None \<Rightarrow> ffail (refused ''chown_failed'')
       | Some u \<Rightarrow> guarded ''chown_failed'' (change_node E (ChOwn t) t (set_owner u (-1)))) (\<lambda>_.
     audit_mutation E ''chown'' [(''path'', path_value t), (''owner'', owner), (''backend'', VStr ''icacls'')]
       [(''ok'', VBool True), (''op'', VStr ''chown''), (''path'', path_value t), (''owner'', owner),
        (''group'', VNull), (''backend'', VStr ''icacls'')]))"

definition chown_posix :: "fs_env \<Rightarrow> path \<Rightarrow> pyval \<Rightarrow> pyval \<Rightarrow> payload file_handler" where
  "chown_posix E t owner grp =
     fbind (fdone (id_of (fe_uid E) owner)) (\<lambda>uid.
     fbind (fdone (id_of (fe_gid E) grp)) (\<lambda>gid.
     fbind (guarded ''chown_failed'' (change_node E (ChOwn t) t (set_owner uid gid))) (\<lambda>_.
     audit_mutation E ''chown'' [(''path'', path_value t), (''owner'', py_or owner VNull), (''group'', py_or grp VNull)]
       [(''ok'', VBool True), (''op'', VStr ''chown''), (''path'', path_value t), (''owner'', py_or owner VNull),
        (''group'', py_or grp VNull)])))"

definition handle_chown :: "fs_env \<Rightarrow> policy \<Rightarrow> payload \<Rightarrow> payload file_handler" where
  "handle_chown E p payload =
     (let owner = dget payload ''owner''; grp = dget payload ''group'' in
     fbind (fdone (require_str payload ''path'')) (\<lambda>path_str.
     fbind (fensure (truthy owner \<or> truthy grp) invalid_payload) (\<lambda>_.
     fbind (fdone (resolve_mutation_target (fe_os E) p path_str ''chown'' ''path'')) (\<lambda>t.
     fbind (flook (exists_at t)) (\<lambda>there.
     fbind (fensure there (refused ''not_found'')) (\<lambda>_.
     if fe_windows E then chown_windows E t owner grp else chown_posix E t owner grp))))))"

datatype mutation_op = MoveOp | CopyOp | DeleteOp | ChmodOp | ChownOp

definition fsmutate :: "fs_env \<Rightarrow> policy \<Rightarrow> mutation_op \<Rightarrow> payload \<Rightarrow> payload file_handler" where
  "fsmutate E p op payload = (case op of MoveOp \<Rightarrow> handle_move E p payload | CopyOp \<Rightarrow> handle_copy E p payload
     | DeleteOp \<Rightarrow> handle_delete E p payload | ChmodOp \<Rightarrow> handle_chmod E p payload | ChownOp \<Rightarrow> handle_chown E p payload)"

end
