(* ===== verification/SafeEdit.thy ===== *)
theory SafeEdit
  imports FileMutation
begin

text \<open>
  The editing tool (\<open>vendored/pensa_safe_edit.py\<close>): the string edits, the validators, and
  \<open>apply_edit\<close>, which writes the new content to a temporary file beside the target, validates it
  there, backs the target up and renames. Text is read with universal newlines and written as
  it is (the POSIX behaviour). \<open>re.subn\<close>, the \<open>unicode_escape\<close> codec, which files decode, and
  the validators' processes are parameters; the diff is only text and left out.
\<close>

datatype edit_exn = SafeEdit string | Uncaught

type_synonym 'a edit_op = "(edit_exn, 'a) fs_op"

record edit_env =
  ee_fs :: fs_env
  ee_temp :: string
  ee_decodes :: "path \<Rightarrow> bool"
  ee_unescape :: "string \<Rightarrow> string option"
  ee_subn :: "string \<Rightarrow> string \<Rightarrow> string \<Rightarrow> int \<Rightarrow> bool \<Rightarrow> bool \<Rightarrow> (string \<times> nat) option"
  ee_run :: "string list \<Rightarrow> fs_state \<Rightarrow> int option \<times> fs_state"
  ee_python :: string

record edit_spec =
  es_path :: string
  es_mode :: "string option"
  es_restore :: "string option"
  es_old :: "string option"
  es_old_file :: "string option"
  es_new :: "string option"
  es_new_file :: "string option"
  es_pattern :: "string option"
  es_start_marker :: "string option"
  es_end_marker :: "string option"
  es_count :: int
  es_multiline :: bool
  es_dotall :: bool
  es_interpret_escapes :: bool
  es_backup_dir :: "string option"
  es_validator :: "string option"
  es_validator_preset :: "string option"
  es_diff :: bool
  es_dry_run :: bool
  es_allow_no_change :: bool
  es_create :: bool

record edit_result =
  er_action :: string
  er_target :: path
  er_changed :: int
  er_backup :: "path option"
  er_source_backup :: "path option"
  er_backup_before_restore :: "path option"
  er_validator :: "string list option"
  er_dry_run :: bool
  er_chown_skipped :: bool

text \<open>An optional string that is there and not empty.\<close>

definition given :: "string option \<Rightarrow> bool" where
  "given x \<longleftrightarrow> (case x of None \<Rightarrow> False | Some s \<Rightarrow> s \<noteq> [])"

section \<open>String edits\<close>

text \<open>\<open>str.count\<close> and \<open>str.replace\<close>: occurrences do not overlap, and the empty string occurs
  before every character and at the end.\<close>

fun count_occurrences :: "string \<Rightarrow> string \<Rightarrow> nat" where
  "count_occurrences old [] = 0"
| "count_occurrences old (c # cs) = (if startswith (c # cs) old
     then Suc (count_occurrences old (drop (length old - 1) cs)) else count_occurrences old cs)"

fun replace_occurrences :: "string \<Rightarrow> string \<Rightarrow> nat \<Rightarrow> string \<Rightarrow> string" where
  "replace_occurrences old new n [] = []"
| "replace_occurrences old new n (c # cs) = (if n = 0 then c # cs
     else if startswith (c # cs) old then new @ replace_occurrences old new (n - 1) (drop (length old - 1) cs)
     else c # replace_occurrences old new n cs)"

fun replace_gaps :: "string \<Rightarrow> nat \<Rightarrow> string \<Rightarrow> string" where
  "replace_gaps new n [] = (if n = 0 then [] else new)"
| "replace_gaps new n (c # cs) = (if n = 0 then c # cs else new @ c # replace_gaps new (n - 1) cs)"

definition str_count :: "string \<Rightarrow> string \<Rightarrow> nat" where
  "str_count s old = (if old = [] then Suc (length s) else count_occurrences old s)"

definition str_replace :: "string \<Rightarrow> string \<Rightarrow> string \<Rightarrow> nat \<Rightarrow> string" where
  "str_replace s old new n = (if old = [] then replace_gaps new n s else replace_occurrences old new n s)"

definition replace_text_once :: "string \<Rightarrow> string \<Rightarrow> string \<Rightarrow> int \<Rightarrow> (edit_exn, string \<times> int) result" where
  "replace_text_once content old new limit =
     (let n = str_count content old in
      if limit = 0 then
        (if n = 0 then Inl (SafeEdit ''target_text_not_found'') else Inr (str_replace content old new n, int n))
      else if int n < limit then Inl (SafeEdit ''insufficient_matches'')
      else Inr (str_replace content old new (if limit < 0 then n else nat limit), min (int n) limit))"

definition replace_regex ::
  "edit_env \<Rightarrow> string \<Rightarrow> string \<Rightarrow> string \<Rightarrow> int \<Rightarrow> bool \<Rightarrow> bool \<Rightarrow> (edit_exn, string \<times> int) result" where
  "replace_regex E content pattern repl limit multiline dotall =
     (case ee_subn E pattern repl content limit multiline dotall of
        None \<Rightarrow> Inl Uncaught
      | Some (new, n) \<Rightarrow> if n = 0 then Inl (SafeEdit ''regex_no_match'') else Inr (new, int n))"

fun find_index :: "string \<Rightarrow> string \<Rightarrow> nat option" where
  "find_index needle [] = (if needle = [] then Some 0 else None)"
| "find_index needle (c # cs) = (if startswith (c # cs) needle then Some 0
     else map_option Suc (find_index needle cs))"

definition replace_block :: "string \<Rightarrow> string \<Rightarrow> string \<Rightarrow> string \<Rightarrow> (edit_exn, string \<times> int) result" where
  "replace_block content start stop new_block =
     (case find_index start content of
        None \<Rightarrow> Inl (SafeEdit ''start_marker_not_found'')
      | Some b \<Rightarrow> (case find_index stop (drop (b + length start) content) of
          None \<Rightarrow> Inl (SafeEdit ''end_marker_not_found'')
        | Some k \<Rightarrow> Inr (take b content @ new_block @ drop (b + length start + k + length stop) content, 1)))"

section \<open>Files\<close>

definition lift_io :: "(io_error, 'a) fs_op \<Rightarrow> 'a edit_op" where
  "lift_io m = fcatch m (\<lambda>_. ffail Uncaught)"

text \<open>Universal newlines, as \<open>read_text\<close> gives them.\<close>

fun universal_newlines :: "string \<Rightarrow> string" where
  "universal_newlines [] = []"
| "universal_newlines (c # cs) = (if c = CHR 0x0D
     then CHR 0x0A # (case cs of [] \<Rightarrow> []
       | d # ds \<Rightarrow> if d = CHR 0x0A then universal_newlines ds else universal_newlines (d # ds))
     else c # universal_newlines cs)"

definition read_text :: "edit_env \<Rightarrow> path \<Rightarrow> string edit_op" where
  "read_text E p = fbind (flook (\<lambda>s. fs_files s p)) (\<lambda>n. case n of
     Some (FileNode t _) \<Rightarrow> if ee_decodes E p then fret (universal_newlines t) else ffail Uncaught
   | _ \<Rightarrow> ffail Uncaught)"

definition load_value :: "edit_env \<Rightarrow> string option \<Rightarrow> string option \<Rightarrow> bool \<Rightarrow> string edit_op" where
  "load_value E inline file empty_ok = (case (inline, file) of
     (Some _, Some _) \<Rightarrow> ffail (SafeEdit ''inline_and_file'')
   | (None, Some f) \<Rightarrow> read_text E (path_of_text f)
   | (Some v, None) \<Rightarrow> fret v
   | (None, None) \<Rightarrow> if empty_ok then fret [] else ffail (SafeEdit ''target_missing_value''))"

definition interpret_escapes :: "edit_env \<Rightarrow> edit_spec \<Rightarrow> string \<Rightarrow> string edit_op" where
  "interpret_escapes E spec v = (if \<not> es_interpret_escapes spec then fret v
     else fdone (of_option Uncaught (ee_unescape E v)))"

definition apply_mode :: "edit_env \<Rightarrow> edit_spec \<Rightarrow> string \<Rightarrow> (string \<times> int) edit_op" where
  "apply_mode E spec original =
     fbind (load_value E (es_new spec) (es_new_file spec) True) (\<lambda>new.
     case es_mode spec of None \<Rightarrow> ffail (SafeEdit ''unsupported_mode'') | Some mode \<Rightarrow>
     if mode = ''replace'' then
       fbind (load_value E (es_old spec) (es_old_file spec) False) (\<lambda>old.
       fbind (interpret_escapes E spec old) (\<lambda>old.
       fbind (interpret_escapes E spec new) (\<lambda>new.
       fdone (replace_text_once original old new (es_count spec)))))
     else if mode = ''regex'' then
       fbind (fensure (given (es_pattern spec)) (SafeEdit ''missing_pattern'')) (\<lambda>_.
       fbind (interpret_escapes E spec new) (\<lambda>new.
       fdone (replace_regex E original (the (es_pattern spec)) new (es_count spec)
         (es_multiline spec) (es_dotall spec))))
     else if mode = ''replace-block'' then
       fbind (fensure (given (es_start_marker spec) \<and> given (es_end_marker spec)) (SafeEdit ''missing_markers'')) (\<lambda>_.
       fbind (interpret_escapes E spec new) (\<lambda>new.
       fdone (replace_block original (the (es_start_marker spec)) (the (es_end_marker spec)) new)))
     else if mode = ''append'' then
       fbind (interpret_escapes E spec new) (\<lambda>new. fret (original @ new, if new = [] then 0 else 1))
     else if mode = ''prepend'' then
       fbind (interpret_escapes E spec new) (\<lambda>new. fret (new @ original, if new = [] then 0 else 1))
     else if mode = ''write'' then
       fbind (interpret_escapes E spec new) (\<lambda>new. fret (new, 1))
     else ffail (SafeEdit ''unsupported_mode''))"

section \<open>Validators\<close>

text \<open>\<open>shlex.split\<close>: words between white space, with quotes and backslashes as the POSIX shell
  has them; an open quote or a final backslash raises.\<close>

datatype shlex_state = Between | InWord | Quoted char

fun shlex :: "shlex_state \<Rightarrow> string \<Rightarrow> string \<Rightarrow> string list option" where
  "shlex Between w [] = Some []"
| "shlex InWord w [] = Some [rev w]"
| "shlex (Quoted q) w [] = None"
| "shlex (Quoted q) w (c # cs) =
     (if c = q then shlex InWord w cs
      else if q = CHR 0x22 \<and> c = CHR 0x5C then
        (case cs of [] \<Rightarrow> None
         | d # ds \<Rightarrow> shlex (Quoted q) (if d = CHR 0x5C \<or> d = CHR 0x22 then d # w else d # c # w) ds)
      else shlex (Quoted q) (c # w) cs)"
| "shlex st w (c # cs) =
     (if c \<in> {CHR '' '', CHR 0x09, CHR 0x0D, CHR 0x0A} then
        (if st = InWord then map_option (Cons (rev w)) (shlex Between [] cs) else shlex Between [] cs)
      else if c = CHR 0x22 \<or> c = CHR 0x27 then shlex (Quoted c) w cs
      else if c = CHR 0x5C then (case cs of [] \<Rightarrow> None | d # ds \<Rightarrow> shlex InWord (d # w) ds)
      else shlex InWord (c # w) cs)"

definition shlex_split :: "string \<Rightarrow> string list option" where
  "shlex_split s = shlex Between [] s"

definition yaml_snippet :: string where
  "yaml_snippet = ''import sys; from pathlib import Path; import yaml; ''
     @ ''yaml.safe_load(Path(sys.argv[1]).read_text(encoding='' @ [CHR 0x27] @ ''utf-8'' @ [CHR 0x27] @ ''))''"

definition toml_snippet :: string where
  "toml_snippet = ''import sys, tomllib; tomllib.load(open(sys.argv[1], '' @ [CHR 0x27] @ ''rb'' @ [CHR 0x27] @ ''))''"

definition validator_preset_argv :: "edit_env \<Rightarrow> string \<Rightarrow> path \<Rightarrow> (edit_exn, string list) result" where
  "validator_preset_argv E preset target = (let t = path_text target; py = ee_python E in
     if preset = ''nginx'' then Inr [''sudo'', ''nginx'', ''-t'', ''-c'', ''/etc/nginx/nginx.conf'']
     else if preset = ''json'' then Inr [py, ''-m'', ''json.tool'', t]
     else if preset = ''python'' then Inr [py, ''-m'', ''py_compile'', t]
     else if preset = ''sh'' then Inr [''bash'', ''-n'', t]
     else if preset = ''systemd'' then Inr [''systemd-analyze'', ''verify'', t]
     else if preset = ''yaml'' then Inr [py, ''-c'', yaml_snippet, t]
     else if preset = ''toml'' then Inr [py, ''-c'', toml_snippet, t]
     else Inl (SafeEdit ''unsupported_validator_preset''))"

definition build_validator ::
  "edit_env \<Rightarrow> string option \<Rightarrow> string option \<Rightarrow> path \<Rightarrow> (edit_exn, string list option) result" where
  "build_validator E cmd preset target =
     (if given cmd \<and> given preset then Inl (SafeEdit ''bad_arguments'')
      else if given preset then rbind (validator_preset_argv E (the preset) target) (\<lambda>argv. Inr (Some argv))
      else if \<not> given cmd then Inr None
      else rbind (of_option Uncaught (shlex_split (the cmd))) (\<lambda>words.
        Inr (Some (map (\<lambda>w. if w = ''{file}'' then path_text target else w) words))))"

definition run_validator :: "edit_env \<Rightarrow> string list option \<Rightarrow> unit edit_op" where
  "run_validator E argv = (case argv of
     None \<Rightarrow> fret ()
   | Some [] \<Rightarrow> fret ()
   | Some ws \<Rightarrow> (\<lambda>s. case ee_run E ws s of
       (None, t) \<Rightarrow> (Inl Uncaught, t)
     | (Some code, t) \<Rightarrow> (if code = 0 then Inr () else Inl (SafeEdit ''validation_failed''), t)))"

section \<open>Editing\<close>

definition temp_path :: "edit_env \<Rightarrow> path \<Rightarrow> path" where
  "temp_path E target = sibling target (path_name target @ ''.'' @ ee_temp E)"

definition make_temp :: "edit_env \<Rightarrow> path \<Rightarrow> (io_error, path) fs_op" where
  "make_temp E target = (let tmp = temp_path E target in
     fbind (flook (\<lambda>s. dir_at (path_parent target) s \<and> \<not> exists_at tmp s)) (\<lambda>ok.
     fbind (fensure ok OtherIo) (\<lambda>_.
     fbind (atomic_call (ee_fs E) (WriteFile tmp) (\<lambda>fs. fs(tmp \<mapsto> FileNode [] ((fe_meta (ee_fs E))\<lparr>nm_mode := 384\<rparr>)))) (\<lambda>_.
     fret tmp))))"

definition write_text :: "edit_env \<Rightarrow> path \<Rightarrow> string \<Rightarrow> (io_error, unit) fs_op" where
  "write_text E p text = tree_call (ee_fs E) (WriteFile p) (\<lambda>fs. fs(p \<mapsto> FileNode text
     (case fs p of Some (FileNode _ m) \<Rightarrow> m | _ \<Rightarrow> fe_meta (ee_fs E))))"

text \<open>The mode must be copied; that the owner could not be is only recorded.\<close>

definition node_meta_of :: "fs_node option \<Rightarrow> node_meta \<Rightarrow> node_meta" where
  "node_meta_of n d = (case n of Some (FileNode _ m) \<Rightarrow> m | Some (DirNode m) \<Rightarrow> m | None \<Rightarrow> d)"

definition copy_metadata :: "edit_env \<Rightarrow> path \<Rightarrow> path \<Rightarrow> (io_error, bool) fs_op" where
  "copy_metadata E src dst =
     fbind (flook (\<lambda>s. node_meta_of (fs_files s src) (fe_meta (ee_fs E)))) (\<lambda>m.
     fbind (change_node (ee_fs E) (ChMod dst) dst (set_mode (nm_mode m))) (\<lambda>_.
     if fe_windows (ee_fs E) then fret True else
     fcatch (fbind (change_node (ee_fs E) (ChOwn dst) dst (set_owner (nm_owner m) (nm_group m))) (\<lambda>_. fret False))
       (\<lambda>_. fret True)))"

definition replace_file :: "edit_env \<Rightarrow> path \<Rightarrow> path \<Rightarrow> (io_error, unit) fs_op" where
  "replace_file E tmp target = fbind (flook (\<lambda>s. exists_at tmp s \<and> \<not> dir_at target s)) (\<lambda>ok.
     fbind (fensure ok OtherIo) (\<lambda>_.
     atomic_call (ee_fs E) (Replace tmp target) (\<lambda>fs. fs(target := fs tmp, tmp := None))))"

definition unlink_missing_ok :: "edit_env \<Rightarrow> path \<Rightarrow> (io_error, unit) fs_op" where
  "unlink_missing_ok E p = fbind (flook (exists_at p)) (\<lambda>there. if there then unlink (ee_fs E) p else fret ())"

text \<open>\<open>try .. except SafeEditError: raise; except Exception: raise SafeEditError(code); finally: unlink\<close>.\<close>

definition failing_as :: "string \<Rightarrow> edit_exn \<Rightarrow> edit_exn" where
  "failing_as code e = (case e of SafeEdit c \<Rightarrow> SafeEdit c | Uncaught \<Rightarrow> SafeEdit code)"

definition with_temp :: "edit_env \<Rightarrow> path \<Rightarrow> string \<Rightarrow> 'a edit_op \<Rightarrow> 'a edit_op" where
  "with_temp E tmp code m = (\<lambda>s. case fcatch m (\<lambda>e. ffail (failing_as code e)) s of
     (r, t) \<Rightarrow> (case lift_io (unlink_missing_ok E tmp) t of (Inl e, u) \<Rightarrow> (Inl e, u) | (Inr _, u) \<Rightarrow> (r, u)))"

definition fresh_result :: "string \<Rightarrow> path \<Rightarrow> int \<Rightarrow> edit_result" where
  "fresh_result action target changed = \<lparr>er_action = action, er_target = target, er_changed = changed,
     er_backup = None, er_source_backup = None, er_backup_before_restore = None, er_validator = None,
     er_dry_run = False, er_chown_skipped = False\<rparr>"

definition backup_dir_of :: "edit_spec \<Rightarrow> path option" where
  "backup_dir_of spec = (if given (es_backup_dir spec) then map_option path_of_text (es_backup_dir spec) else None)"

definition commit_edit :: "edit_env \<Rightarrow> edit_spec \<Rightarrow> path \<Rightarrow> path \<Rightarrow> string \<Rightarrow> int \<Rightarrow> edit_result edit_op" where
  "commit_edit E spec target tmp updated changed =
     fbind (lift_io (write_text E tmp updated)) (\<lambda>_.
     fbind (lift_io (copy_metadata E target tmp)) (\<lambda>skipped.
     fbind (fdone (build_validator E (es_validator spec) (es_validator_preset spec) tmp)) (\<lambda>argv.
     fbind (run_validator E argv) (\<lambda>_.
     let res = (fresh_result ''edit'' target changed)\<lparr>er_chown_skipped := skipped,
           er_validator := (if argv = Some [] then None else argv)\<rparr> in
     if es_dry_run spec then fret (res\<lparr>er_dry_run := True\<rparr>) else
     fbind (lift_io (make_backup (ee_fs E) target (backup_dir_of spec))) (\<lambda>backup.
     fbind (lift_io (replace_file E tmp target)) (\<lambda>_.
     fret (res\<lparr>er_backup := Some backup\<rparr>)))))))"

definition restore_edit :: "edit_env \<Rightarrow> edit_spec \<Rightarrow> path \<Rightarrow> path \<Rightarrow> path \<Rightarrow> edit_result edit_op" where
  "restore_edit E spec target backup tmp =
     fbind (lift_io (copy_file (ee_fs E) backup tmp)) (\<lambda>_.
     fbind (flook (exists_at target)) (\<lambda>there.
     fbind (if there then lift_io (copy_metadata E target tmp) else fret False) (\<lambda>skipped.
     let res = (fresh_result ''restore'' target 0)\<lparr>er_source_backup := Some backup, er_chown_skipped := skipped\<rparr> in
     if es_dry_run spec then fret (res\<lparr>er_dry_run := True\<rparr>) else
     fbind (if there then fbind (lift_io (make_backup (ee_fs E) target (backup_dir_of spec))) (\<lambda>b. fret (Some b))
       else fret None) (\<lambda>before.
     fbind (lift_io (replace_file E tmp target)) (\<lambda>_.
     fret (res\<lparr>er_backup_before_restore := before\<rparr>))))))"

definition do_restore :: "edit_env \<Rightarrow> edit_spec \<Rightarrow> path \<Rightarrow> edit_result edit_op" where
  "do_restore E spec target =
     (let backup = path_of_text (case es_restore spec of None \<Rightarrow> [] | Some r \<Rightarrow> r) in
      fbind (flook (\<lambda>s. (exists_at backup s, file_at backup s))) (\<lambda>(there, regular).
      fbind (fensure there (SafeEdit ''restore_backup_missing'')) (\<lambda>_.
      fbind (fensure regular (SafeEdit ''restore_backup_not_file'')) (\<lambda>_.
      fbind (lift_io (make_temp E target)) (\<lambda>tmp.
      with_temp E tmp ''restore_failed'' (restore_edit E spec target backup tmp))))))"

definition touch :: "edit_env \<Rightarrow> path \<Rightarrow> (io_error, unit) fs_op" where
  "touch E p = fbind (flook (\<lambda>s. dir_at (path_parent p) s)) (\<lambda>ok. fbind (fensure ok OtherIo) (\<lambda>_.
     atomic_call (ee_fs E) (WriteFile p) (\<lambda>fs. fs(p \<mapsto> FileNode [] (fe_meta (ee_fs E))))))"

definition apply_edit :: "edit_env \<Rightarrow> edit_spec \<Rightarrow> edit_result edit_op" where
  "apply_edit E spec =
     (let target = path_of_text (es_path spec) in
      fbind (lift_io (make_dirs (ee_fs E) (path_parent target))) (\<lambda>_.
      if given (es_restore spec) \<and> given (es_mode spec) then ffail (SafeEdit ''bad_arguments'')
      else if \<not> given (es_restore spec) \<and> \<not> given (es_mode spec) then ffail (SafeEdit ''bad_arguments'')
      else if given (es_restore spec) then do_restore E spec target
      else
        fbind (flook (exists_at target)) (\<lambda>there.
        fbind (if there then fret () else if es_create spec then lift_io (touch E target)
          else ffail (SafeEdit ''target_not_found'')) (\<lambda>_.
        fbind (read_text E target) (\<lambda>original.
        fbind (apply_mode E spec original) (\<lambda>(updated, changed).
        fbind (fensure (updated \<noteq> original \<or> es_allow_no_change spec) (SafeEdit ''no_effective_change'')) (\<lambda>_.
        fbind (lift_io (make_temp E target)) (\<lambda>tmp.
        with_temp E tmp ''write_failed'' (commit_edit E spec target tmp updated changed))))))))) "

section \<open>Exit codes\<close>

definition exit_for_code :: "string \<Rightarrow> int" where
  "exit_for_code code =
     (if code \<in> {''bad_arguments'', ''target_not_found'', ''target_missing_value'', ''missing_pattern'',
        ''missing_markers'', ''unsupported_mode'', ''inline_and_file'', ''target_text_not_found'',
        ''insufficient_matches'', ''regex_no_match'', ''start_marker_not_found'', ''end_marker_not_found'',
        ''restore_backup_missing'', ''restore_backup_not_file'', ''unsupported_validator_preset''} then 2
      else if code = ''no_effective_change'' then 3
      else if code = ''validation_failed'' then 4
      else if code \<in> {''write_failed'', ''restore_failed''} then 5 else 1)"

text \<open>\<open>main\<close>: an exception it does not know ends the interpreter with 1.\<close>

definition safe_edit_main :: "edit_env \<Rightarrow> edit_spec \<Rightarrow> fs_state \<Rightarrow> int \<times> fs_state" where
  "safe_edit_main E spec s = (case apply_edit E spec s of
     (Inr _, t) \<Rightarrow> (0, t) | (Inl (SafeEdit c), t) \<Rightarrow> (exit_for_code c, t) | (Inl Uncaught, t) \<Rightarrow> (1, t))"

end
