(* ===== verification/EditHandler.thy ===== *)
theory EditHandler
  imports SafeEdit
begin

text \<open>
  The edit handlers (\<open>handlers/edit.py\<close>): one-call edits and the chunked form, down to the command
  line they give the editing tool, and the parsing of that command line by the tool. The tool
  runs as a process: \<open>eh_run\<close>; \<open>bundled_tool\<close> is the bundled one. A path with \<open>..\<close> in it is
  what the operating system resolves it to when it is used.
\<close>

datatype tool_end =
    ToolDone int string
  | ToolTimeout
  | ToolMissing

record edit_host =
  eh_env :: edit_env
  eh_upload_base :: path
  eh_fallback :: path
  eh_uuid :: string
  eh_binary :: string
  eh_base64 :: "string \<Rightarrow> string option"
  eh_run :: "string list \<Rightarrow> fs_state \<Rightarrow> tool_end \<times> fs_state"

abbreviation eh_fs :: "edit_host \<Rightarrow> fs_env" where "eh_fs H \<equiv> ee_fs (eh_env H)"

section \<open>The tool and its modes\<close>

definition resolve_safe_edit_bin :: "bool \<Rightarrow> path \<Rightarrow> (path \<Rightarrow> bool) \<Rightarrow> string" where
  "resolve_safe_edit_bin windows bin_dir there =
     (let exe = path_child bin_dir ''sentinelx-pensa-safe-edit.exe'';
          bundled = path_child bin_dir ''sentinelx-pensa-safe-edit'' in
      if windows \<and> there exe then path_text exe
      else if there bundled then path_text bundled
      else if there (path_of_text ''/usr/local/bin/pensa-safe-edit'') then ''/usr/local/bin/pensa-safe-edit''
      else ''pensa-safe-edit'')"

definition VALID_MODES :: "string list" where
  "VALID_MODES = [''replace'', ''regex'', ''replace-block'', ''append'', ''prepend'', ''write'']"

definition VALID_PRESETS :: "string list" where
  "VALID_PRESETS = [''nginx'', ''json'', ''python'', ''sh'', ''yaml'', ''systemd'', ''toml'']"

definition one_of :: "pyval \<Rightarrow> string list \<Rightarrow> bool" where
  "one_of v xs = (case v of VStr s \<Rightarrow> s \<in> set xs | _ \<Rightarrow> False)"

abbreviation hguard :: "bool \<Rightarrow> unit handler" where
  "hguard b \<equiv> guard b invalid_payload"

definition edit_count :: "payload \<Rightarrow> int handler" where
  "edit_count payload = raising (py_int (py_or (dget_default payload ''count'' (VInt 0)) (VInt 0)))"

definition validate_mode_payload :: "pyval \<Rightarrow> payload \<Rightarrow> unit handler" where
  "validate_mode_payload mode payload =
     rbind (hguard (one_of mode VALID_MODES)) (\<lambda>_.
     rbind (hguard (\<not> (truthy (dget payload ''validator'') \<and> truthy (dget payload ''validator_preset'')))) (\<lambda>_.
     rbind (hguard (truthy (dget payload ''validator_preset'') \<longrightarrow> one_of (dget payload ''validator_preset'') VALID_PRESETS)) (\<lambda>_.
     rbind (edit_count payload) (\<lambda>n. rbind (hguard (0 \<le> n)) (\<lambda>_.
     let new = dget payload ''new_text'' in
     if mode = VStr ''replace'' then hguard (dget payload ''old'' \<noteq> VNull \<and> new \<noteq> VNull)
     else if mode = VStr ''regex'' then hguard (truthy (dget payload ''pattern'') \<and> new \<noteq> VNull)
     else if mode = VStr ''replace-block'' then
       hguard (truthy (dget payload ''start_marker'') \<and> truthy (dget payload ''end_marker'') \<and> new \<noteq> VNull)
     else hguard (new \<noteq> VNull))))))"

section \<open>The command line\<close>

definition opt_value :: "string \<Rightarrow> pyval \<Rightarrow> pyval list" where
  "opt_value name v = (if truthy v then [VStr name, v] else [])"

definition opt_flag :: "string \<Rightarrow> bool \<Rightarrow> pyval list" where
  "opt_flag name b = (if b then [VStr name] else [])"

text \<open>Inline text goes to a file of the work directory; \<open>write_text\<close> raises on other values.\<close>

definition stage_text :: "edit_host \<Rightarrow> string \<Rightarrow> path \<Rightarrow> pyval \<Rightarrow> pyval list file_handler" where
  "stage_text H name where_to v = (case v of
     VNull \<Rightarrow> fret []
   | VStr t \<Rightarrow> fbind (fcatch (write_text (eh_env H) where_to t) (\<lambda>_. ffail (Raised OSError))) (\<lambda>_.
       fret [VStr name, path_value where_to])
   | _ \<Rightarrow> ffail (Raised TypeError))"

definition role_file :: "string \<Rightarrow> path option \<Rightarrow> pyval list" where
  "role_file name f = (case f of None \<Rightarrow> [] | Some p \<Rightarrow> [VStr name, path_value p])"

definition tool_options :: "payload \<Rightarrow> int \<Rightarrow> pyval list" where
  "tool_options payload n =
     opt_value ''--pattern'' (dget payload ''pattern'')
     @ opt_value ''--start-marker'' (dget payload ''start_marker'')
     @ opt_value ''--end-marker'' (dget payload ''end_marker'')
     @ (if n = 0 then [] else [VStr ''--count'', VStr (show_int n)])
     @ opt_flag ''--multiline'' (flag payload ''multiline'')
     @ opt_flag ''--dotall'' (flag payload ''dotall'')
     @ opt_flag ''--interpret-escapes'' (flag payload ''interpret_escapes'')
     @ opt_value ''--backup-dir'' (dget payload ''backup_dir'')
     @ opt_value ''--validator'' (dget payload ''validator'')
     @ opt_value ''--validator-preset'' (dget payload ''validator_preset'')
     @ opt_flag ''--diff'' (flag payload ''diff'')
     @ opt_flag ''--dry-run'' (flag payload ''dry_run'')
     @ opt_flag ''--allow-no-change'' (flag payload ''allow_no_change'')
     @ opt_flag ''--create'' (flag payload ''create'')"

definition tool_head :: "edit_host \<Rightarrow> bool \<Rightarrow> path \<Rightarrow> pyval \<Rightarrow> pyval list" where
  "tool_head H sudo t mode = (if sudo then [VStr ''sudo''] else []) @ [VStr (eh_binary H), path_value t, VStr ''--mode'', mode]"

text \<open>\<open>_run_argv\<close>: an argument that is not a string raises when the process is created.\<close>

definition run_tool :: "edit_host \<Rightarrow> pyval list \<Rightarrow> payload file_handler" where
  "run_tool H argv = (case text_list argv of
     None \<Rightarrow> ffail (Raised TypeError)
   | Some ws \<Rightarrow> (\<lambda>s. case eh_run H ws s of
       (ToolDone code out, u) \<Rightarrow> (Inr [(''output'', VStr out), (''returncode'', VInt code)], u)
     | (ToolTimeout, u) \<Rightarrow> (Inr [(''output'', VStr ''Timeout''), (''returncode'', VInt (-1))], u)
     | (ToolMissing, u) \<Rightarrow> (Inl (refused ''binary_missing''), u)))"

section \<open>Staging\<close>

definition edit_staging :: "edit_host \<Rightarrow> path file_handler" where
  "edit_staging H =
     (let primary = path_child (eh_upload_base H) staging_dirname;
          fallback = path_child (path_child (eh_fallback H) ''sentinelx-staging'') staging_dirname in
      fcatch (fbind (make_dirs (eh_fs H) primary) (\<lambda>_. fret primary)) (\<lambda>_.
      fcatch (fbind (make_dirs (eh_fs H) fallback) (\<lambda>_. fret fallback)) (\<lambda>_. ffail (Raised OSError))))"

definition make_workdir :: "edit_host \<Rightarrow> path \<Rightarrow> unit file_handler" where
  "make_workdir H d = fcatch (make_dirs (eh_fs H) d) (\<lambda>_. ffail (Raised OSError))"

text \<open>\<open>finally: shutil.rmtree(workdir, ignore_errors=True)\<close>.\<close>

definition with_workdir :: "edit_host \<Rightarrow> path \<Rightarrow> 'a file_handler \<Rightarrow> 'a file_handler" where
  "with_workdir H d m = (\<lambda>s. case m s of (r, u) \<Rightarrow> (r, snd (rm_tree (eh_fs H) d u)))"

section \<open>One-call edits\<close>

definition edit_response :: "path \<Rightarrow> pyval \<Rightarrow> bool \<Rightarrow> payload \<Rightarrow> pyval list \<Rightarrow> payload \<Rightarrow> payload" where
  "edit_response t mode sudo extra argv result =
     [(''ok'', VBool (dget result ''returncode'' = VInt 0)), (''path'', path_value t), (''mode'', mode), (''sudo'', VBool sudo)]
     @ extra @ [(''command'', VList argv)] @ result"

definition edit_target :: "edit_host \<Rightarrow> policy \<Rightarrow> payload \<Rightarrow> string \<Rightarrow> path handler" where
  "edit_target H p payload operation =
     rbind (of_option (refused ''path_not_allowed'') (resolve_path (fe_os (eh_fs H)) p (py_str (dget payload ''path'')) True))
       (\<lambda>resolved. enforce_material_write_target (fe_os (eh_fs H)) (pol_mutation_execution p) resolved operation ''path'')"

definition named_target :: "payload \<Rightarrow> unit handler" where
  "named_target payload =
     rbind (hguard (truthy (dget payload ''path'') \<and> strip (py_str (dget payload ''path'')) \<noteq> [])) (\<lambda>_.
     hguard (truthy (dget payload ''mode'')))"

definition staged_run ::
  "edit_host \<Rightarrow> payload \<Rightarrow> path \<Rightarrow> path \<Rightarrow> int \<Rightarrow> payload file_handler" where
  "staged_run H payload t workdir n =
     (let mode = dget payload ''mode''; sudo = flag payload ''sudo'' in
      fbind (stage_text H ''--old-file'' (path_child workdir ''old.txt'') (dget payload ''old'')) (\<lambda>old.
      fbind (stage_text H ''--new-file'' (path_child workdir ''new.txt'') (dget payload ''new_text'')) (\<lambda>new.
      let argv = tool_head H sudo t mode @ old @ new @ tool_options payload n in
      fbind (run_tool H argv) (\<lambda>result. fret (edit_response t mode sudo [] argv result)))))"

definition handle_edit :: "edit_host \<Rightarrow> policy \<Rightarrow> payload \<Rightarrow> payload file_handler" where
  "handle_edit H p payload =
     fbind (fdone (named_target payload)) (\<lambda>_.
     fbind (fdone (edit_target H p payload ''edit'')) (\<lambda>t.
     fbind (fdone (validate_mode_payload (dget payload ''mode'') payload)) (\<lambda>_.
     fbind (edit_staging H) (\<lambda>root.
     let workdir = path_child root (''edit_job_'' @ eh_uuid H) in
     fbind (fdone (enforce_material_write_target (fe_os (eh_fs H)) (pol_mutation_execution p) workdir ''edit'' ''provider_staging'')) (\<lambda>_.
     fbind (make_workdir H workdir) (\<lambda>_.
     with_workdir H workdir (fbind (fdone (edit_count payload)) (staged_run H payload t workdir))))))))"

section \<open>Chunked edits\<close>

text \<open>Where the operating system takes a path; the upload identifier is part of it as it came.\<close>

definition os_path :: "edit_host \<Rightarrow> path \<Rightarrow> path" where
  "os_path H p = (case os_resolve (fe_os (eh_fs H)) p of None \<Rightarrow> p | Some q \<Rightarrow> q)"

definition edit_upload_dir :: "edit_host \<Rightarrow> policy \<Rightarrow> string \<Rightarrow> path file_handler" where
  "edit_upload_dir H p upload_id =
     fbind (edit_staging H) (\<lambda>root.
     let d = path_child root (''edit_'' @ upload_id) in
     fbind (fdone (enforce_material_write_target (fe_os (eh_fs H)) (pol_mutation_execution p) d
       ''edit_upload_staging'' ''provider_staging'')) (\<lambda>_.
     fbind (make_workdir H (os_path H d)) (\<lambda>_. fret d)))"

definition safe_filename :: "string \<Rightarrow> string handler" where
  "safe_filename name = (let safe = path_name (path_of_text name) in
     if safe = [] \<or> startswith safe ''.'' then Inl invalid_payload else Inr safe)"

definition handle_edit_upload_init :: "edit_host \<Rightarrow> policy \<Rightarrow> payload file_handler" where
  "handle_edit_upload_init H p =
     fbind (edit_upload_dir H p (eh_uuid H)) (\<lambda>d.
     fret [(''upload_id'', VStr (eh_uuid H)), (''upload_dir'', path_value d)])"

definition upload_content :: "edit_host \<Rightarrow> payload \<Rightarrow> string handler" where
  "upload_content H payload =
     (let content = dget payload ''content''; b64 = dget payload ''content_base64'' in
      if content \<noteq> VNull \<and> b64 \<noteq> VNull then Inl invalid_payload
      else if content \<noteq> VNull then Inr (py_str content)
      else case b64 of VNull \<Rightarrow> Inl invalid_payload
         | VStr t \<Rightarrow> of_option invalid_payload (eh_base64 H t) | _ \<Rightarrow> Inl invalid_payload)"

definition handle_edit_upload_file :: "edit_host \<Rightarrow> policy \<Rightarrow> payload \<Rightarrow> payload file_handler" where
  "handle_edit_upload_file H p payload =
     (let role = dget payload ''role''; hint = dget payload ''filename'' in
      fbind (fdone (hguard (truthy (dget payload ''upload_id'')))) (\<lambda>_.
      fbind (fdone (hguard (one_of role [''old'', ''new'']))) (\<lambda>_.
      let disk_name = py_str role @ ''.txt''; upload_id = py_str (dget payload ''upload_id'') in
      fbind (fdone (if truthy hint then (case hint of VStr h \<Rightarrow> safe_filename h | _ \<Rightarrow> Inl (Raised TypeError))
        else Inr disk_name)) (\<lambda>echoed.
      fbind (edit_upload_dir H p upload_id) (\<lambda>d.
      fbind (fdone (upload_content H payload)) (\<lambda>content.
      fbind (fcatch (write_text (eh_env H) (path_child (os_path H d) disk_name) content)
        (\<lambda>_. ffail (if dget payload ''content'' = VNull then invalid_payload else Raised OSError))) (\<lambda>_.
      fret [(''upload_id'', dget payload ''upload_id''), (''role'', role), (''filename'', VStr echoed),
        (''size_bytes'', VInt (int (length content))), (''path'', path_value (path_child d disk_name))])))))))"

definition validate_complete :: "payload \<Rightarrow> unit handler" where
  "validate_complete payload =
     (let mode = dget payload ''mode'' in
      rbind (hguard (one_of mode VALID_MODES)) (\<lambda>_.
      rbind (hguard (\<not> (truthy (dget payload ''validator'') \<and> truthy (dget payload ''validator_preset'')))) (\<lambda>_.
      rbind (hguard (mode = VStr ''regex'' \<longrightarrow> truthy (dget payload ''pattern''))) (\<lambda>_.
      hguard (mode = VStr ''replace-block'' \<longrightarrow>
        truthy (dget payload ''start_marker'') \<and> truthy (dget payload ''end_marker''))))))"

definition handle_edit_upload_complete :: "edit_host \<Rightarrow> policy \<Rightarrow> payload \<Rightarrow> payload file_handler" where
  "handle_edit_upload_complete H p payload =
     (let mode = dget payload ''mode''; sudo = flag payload ''sudo'' in
      fbind (fdone (hguard (truthy (dget payload ''upload_id'')))) (\<lambda>_.
      fbind (fdone (named_target payload)) (\<lambda>_.
      fbind (fdone (validate_complete payload)) (\<lambda>_.
      fbind (fdone (edit_target H p payload ''edit_upload_complete'')) (\<lambda>t.
      fbind (edit_upload_dir H p (py_str (dget payload ''upload_id''))) (\<lambda>d.
      let old_file = path_child (os_path H d) ''old.txt''; new_file = path_child (os_path H d) ''new.txt'' in
      fbind (flook (\<lambda>s. (exists_at old_file s, exists_at new_file s))) (\<lambda>(old, new).
      fbind (fensure new (refused ''missing_role_file'')) (\<lambda>_.
      fbind (fensure (mode \<in> {VStr ''replace'', VStr ''replace-block''} \<longrightarrow> old) (refused ''missing_role_file'')) (\<lambda>_.
      fbind (fdone (edit_count payload)) (\<lambda>n.
      let argv = tool_head H sudo t mode
            @ role_file ''--old-file'' (if old then Some (path_child d ''old.txt'') else None)
            @ role_file ''--new-file'' (Some (path_child d ''new.txt'')) @ tool_options payload n in
      with_workdir H (os_path H d) (fbind (run_tool H argv) (\<lambda>result.
        fret (edit_response t mode sudo [(''upload_id'', dget payload ''upload_id'')] argv result)))))))))))))"

section \<open>The bundled tool\<close>

text \<open>
  How \<open>argparse\<close> reads a command line of the form the handlers build: a word where a value is due
  must not look like an option. A value that is exactly two dashes, which ends the options, is
  not modelled.
\<close>

definition value_options :: "string list" where
  "value_options = [''--mode'', ''--restore'', ''--old'', ''--old-file'', ''--new'', ''--new-file'', ''--pattern'',
     ''--start-marker'', ''--end-marker'', ''--count'', ''--backup-dir'', ''--validator'', ''--validator-preset'']"

definition flag_options :: "string list" where
  "flag_options = [''--multiline'', ''--dotall'', ''--interpret-escapes'', ''--diff'', ''--dry-run'',
     ''--allow-no-change'', ''--create'']"

definition negative_number :: "string \<Rightarrow> bool" where
  "negative_number w = (case w of c # ds \<Rightarrow> c = CHR ''-'' \<and>
       (let whole = takeWhile is_digit ds; rest = dropWhile is_digit ds in
        whole \<noteq> [] \<and> rest = [] \<or> startswith rest ''.'' \<and> drop 1 rest \<noteq> [] \<and> list_all is_digit (drop 1 rest))
     | [] \<Rightarrow> False)"

definition option_like :: "string \<Rightarrow> bool" where
  "option_like w \<longleftrightarrow> startswith w ''-'' \<and> 1 < length w \<and>
     (let names = ''--help'' # value_options @ flag_options; base = takeWhile (\<lambda>c. c \<noteq> CHR ''='') w in
        w \<in> set names \<or> startswith w ''-h'' \<or> CHR ''='' \<in> set w \<and> base \<in> set names
        \<or> startswith w ''--'' \<and> list_ex (\<lambda>n. startswith n base) names
        \<or> \<not> negative_number w \<and> CHR '' '' \<notin> set w)"

definition blank_spec :: "string \<Rightarrow> edit_spec" where
  "blank_spec p = \<lparr>es_path = p, es_mode = None, es_restore = None, es_old = None, es_old_file = None,
     es_new = None, es_new_file = None, es_pattern = None, es_start_marker = None, es_end_marker = None,
     es_count = 0, es_multiline = False, es_dotall = False, es_interpret_escapes = False, es_backup_dir = None,
     es_validator = None, es_validator_preset = None, es_diff = False, es_dry_run = False,
     es_allow_no_change = False, es_create = False\<rparr>"

definition set_value :: "string \<Rightarrow> string \<Rightarrow> edit_spec \<Rightarrow> edit_spec option" where
  "set_value name v spec =
     (if name = ''--mode'' then (if v \<in> set VALID_MODES then Some (spec\<lparr>es_mode := Some v\<rparr>) else None)
      else if name = ''--restore'' then Some (spec\<lparr>es_restore := Some v\<rparr>)
      else if name = ''--old'' then Some (spec\<lparr>es_old := Some v\<rparr>)
      else if name = ''--old-file'' then Some (spec\<lparr>es_old_file := Some v\<rparr>)
      else if name = ''--new'' then Some (spec\<lparr>es_new := Some v\<rparr>)
      else if name = ''--new-file'' then Some (spec\<lparr>es_new_file := Some v\<rparr>)
      else if name = ''--pattern'' then Some (spec\<lparr>es_pattern := Some v\<rparr>)
      else if name = ''--start-marker'' then Some (spec\<lparr>es_start_marker := Some v\<rparr>)
      else if name = ''--end-marker'' then Some (spec\<lparr>es_end_marker := Some v\<rparr>)
      else if name = ''--count'' then map_option (\<lambda>n. spec\<lparr>es_count := n\<rparr>) (read_int v)
      else if name = ''--backup-dir'' then Some (spec\<lparr>es_backup_dir := Some v\<rparr>)
      else if name = ''--validator'' then Some (spec\<lparr>es_validator := Some v\<rparr>)
      else if name = ''--validator-preset'' then
        (if v \<in> set VALID_PRESETS then Some (spec\<lparr>es_validator_preset := Some v\<rparr>) else None)
      else None)"

definition set_flag :: "string \<Rightarrow> edit_spec \<Rightarrow> edit_spec" where
  "set_flag name spec =
     (if name = ''--multiline'' then spec\<lparr>es_multiline := True\<rparr>
      else if name = ''--dotall'' then spec\<lparr>es_dotall := True\<rparr>
      else if name = ''--interpret-escapes'' then spec\<lparr>es_interpret_escapes := True\<rparr>
      else if name = ''--diff'' then spec\<lparr>es_diff := True\<rparr>
      else if name = ''--dry-run'' then spec\<lparr>es_dry_run := True\<rparr>
      else if name = ''--allow-no-change'' then spec\<lparr>es_allow_no_change := True\<rparr>
      else spec\<lparr>es_create := True\<rparr>)"

fun parse_options :: "string list \<Rightarrow> edit_spec \<Rightarrow> edit_spec option" where
  "parse_options [] spec = Some spec"
| "parse_options [w] spec = (if w \<in> set flag_options then Some (set_flag w spec) else None)"
| "parse_options (w # v # ws) spec =
     (if w \<in> set flag_options then parse_options (v # ws) (set_flag w spec)
      else if w \<in> set value_options \<and> \<not> option_like v then
        (case set_value w v spec of None \<Rightarrow> None | Some spec' \<Rightarrow> parse_options ws spec')
      else None)"

definition parse_args :: "string list \<Rightarrow> edit_spec option" where
  "parse_args ws = (case ws of [] \<Rightarrow> None | p # rest \<Rightarrow> if option_like p then None else parse_options rest (blank_spec p))"

definition bundled_tool :: "edit_env \<Rightarrow> string list \<Rightarrow> fs_state \<Rightarrow> tool_end \<times> fs_state" where
  "bundled_tool E argv s = (case parse_args (drop 1 argv) of
     None \<Rightarrow> (ToolDone 2 ''usage'', s)
   | Some spec \<Rightarrow> (case safe_edit_main E spec s of (code, u) \<Rightarrow> (ToolDone code ''output'', u)))"

end
