(* ===== verification/FileMutationProps.thy ===== *)
theory FileMutationProps
  imports FileMutation
begin

text \<open>
  What the destructive operations can change, and what a deletion leaves behind. The lemmas
  compose the confinement of the calls along each handler; an admitted target is one the file
  allowlist grants for writing and the firewall does not protect.
\<close>

definition admitted :: "fs_env \<Rightarrow> policy \<Rightarrow> string \<Rightarrow> path \<Rightarrow> bool" where
  "admitted E p text t \<longleftrightarrow> resolve_path (fe_os E) p text True = Some t
     \<and> outside_canonical (pol_mutation_execution p) t"

lemma resolve_path_os: "resolve_path sys p text w = Some t \<Longrightarrow> os_resolve sys (path_of_text text) = Some t"
  by (auto simp: resolve_path_def resolve_entries_iff split: if_splits option.splits)

lemma resolve_mutation_target_admits:
  assumes "stable_os (fe_os E)" "resolve_mutation_target (fe_os E) p text operation label = Inr t"
  shows "admitted E p text t"
proof -
  from assms(2) obtain r where r: "resolve_path (fe_os E) p text True = Some r"
    "enforce_material_write_target (fe_os E) (pol_mutation_execution p) r operation label = Inr t"
    by (auto simp: resolve_mutation_target_def resolve_rw_def result_simps split: if_splits)
  with enforce_exact[OF assms(1) resolve_path_os[OF r(1)]] show ?thesis by (simp add: admitted_def)
qed

section \<open>Confinement\<close>

lemma fbind_fdone [simp]: "fbind (fdone (Inr x)) f = f x" "fbind (fdone (Inl e)) f = fdone (Inl e)"
  by (auto simp: fbind_def fdone_def)

lemma confined_fdone_bind [confinement]:
  "(\<And>x. r = Inr x \<Longrightarrow> confined P A (f x)) \<Longrightarrow> confined P A (fbind (fdone r) f)"
  by (cases r) (simp_all add: confined_fdone)

lemma confined_audit [confinement]: "confined P A (audit_mutation E op d x)"
  by (simp add: confined_def audit_mutation_def)

lemma confined_guarded [confinement]: "confined P A m \<Longrightarrow> confined P A (guarded code m)"
  unfolding guarded_def by (intro confinement)

lemma confined_case_pair [confinement]:
  "(\<And>a b. x = (a, b) \<Longrightarrow> confined P A (f a b)) \<Longrightarrow> confined P A (case x of (a, b) \<Rightarrow> f a b)"
  by (cases x) simp

lemma confined_case_option [confinement]:
  "(x = None \<Longrightarrow> confined P A m) \<Longrightarrow> (\<And>a. x = Some a \<Longrightarrow> confined P A (f a)) \<Longrightarrow>
     confined P A (case x of None \<Rightarrow> m | Some a \<Rightarrow> f a)"
  by (cases x) simp_all

lemma confined_clear_destination [confinement]:
  "(\<And>q. is_relative_to q dst \<Longrightarrow> P q) \<Longrightarrow> confined P A (clear_destination E dst w)"
  unfolding clear_destination_def by (auto intro!: confinement)

lemma confined_copy_over [confinement]:
  "(\<And>q. is_relative_to q dst \<Longrightarrow> P q) \<Longrightarrow> (\<And>q. is_relative_to dst q \<Longrightarrow> A q) \<Longrightarrow> confined P A (copy_over E src dst w)"
  unfolding copy_over_def by (auto intro!: confinement)

definition file_backup_path :: "fs_env \<Rightarrow> path \<Rightarrow> path" where
  "file_backup_path E t = sibling t (file_backup_name E t)"

lemma confined_backup [confinement]:
  assumes "P (dir_backup_path E t)" "\<And>q. is_relative_to q (file_backup_path E t) \<Longrightarrow> P q"
    and "\<And>q. is_relative_to t q \<Longrightarrow> A q"
  shows "confined P A (backup_before E t dir)"
proof -
  have path: "Path (is_absolute (path_parent t)) (parts (path_parent t) @ [file_backup_name E t]) = file_backup_path E t"
    by (simp add: file_backup_path_def sibling_def path_parent_def)
  have up: "is_relative_to t q" if "is_relative_to (path_parent t) q" for q
    using that by (rule parent_relative)
  show ?thesis
    unfolding backup_before_def dir_backup_targz_def make_backup_def Let_def option.case path
    using assms up by (intro confinement) auto
qed



lemma require_str_iff: "require_str payload key = Inr v \<longleftrightarrow> dget payload key = VStr v \<and> strip v \<noteq> []"
  by (auto simp: require_str_def split: pyval.splits)





section \<open>Deletion\<close>

lemma call_keeps:
  "tree_call E c eff s = (r, s') \<Longrightarrow> fs_files s' q = None \<Longrightarrow> fs_files s q = None \<or> eff (fs_files s) q = None"
  by (auto simp: tree_call_def partly_def split: option.splits if_splits)

text \<open>\<open>only_adds m\<close>: no path vanishes.\<close>

definition only_adds :: "('e, 'a) fs_op \<Rightarrow> bool" where
  "only_adds m \<longleftrightarrow> (\<forall>s q. fs_files (snd (m s)) q = None \<longrightarrow> fs_files s q = None)"

lemma only_adds_basic: "only_adds (fdone r)" "only_adds (flook f)" "only_adds (fensure b e)"
  by (simp_all add: only_adds_def fdone_def flook_def fensure_def)

lemma only_adds_fbind:
  assumes "only_adds m" "\<And>x. only_adds (f x)" shows "only_adds (fbind m f)"
  unfolding only_adds_def
proof (intro allI impI)
  fix s q
  assume n: "fs_files (snd (fbind m f s)) q = None"
  obtain r t where m: "m s = (r, t)" by (cases "m s")
  have "fs_files t q = None"
    using n assms(2) by (cases r) (auto simp: fbind_def m only_adds_def)
  then show "fs_files s q = None" using assms(1) m by (auto simp: only_adds_def dest: spec[of _ s])
qed

lemma only_adds_fcatch:
  assumes "only_adds m" "\<And>x. only_adds (f x)" shows "only_adds (fcatch m f)"
  unfolding only_adds_def
proof (intro allI impI)
  fix s q
  assume n: "fs_files (snd (fcatch m f s)) q = None"
  obtain r t where m: "m s = (r, t)" by (cases "m s")
  have "fs_files t q = None"
    using n assms(2) by (cases r) (auto simp: fcatch_def m only_adds_def)
  then show "fs_files s q = None" using assms(1) m by (auto simp: only_adds_def dest: spec[of _ s])
qed

lemma only_adds_call: "(\<And>fs q. eff fs q = None \<Longrightarrow> fs q = None) \<Longrightarrow> only_adds (tree_call E c eff)"
  by (auto simp: only_adds_def tree_call_def partly_def split: option.splits if_splits)

lemmas only_adds_rules = only_adds_basic only_adds_fbind only_adds_fcatch only_adds_call

lemma only_adds_copy_file: "only_adds (copy_file E src dst)"
  unfolding copy_file_def by (auto intro!: only_adds_rules split: prod.splits option.splits fs_node.splits if_splits)

lemma only_adds_backup: "only_adds (backup_before E t dir)"
  unfolding backup_before_def dir_backup_targz_def make_backup_def tar_tree_def make_dirs_def Let_def
  by (auto intro!: only_adds_rules only_adds_copy_file simp: with_dirs_def split: if_splits)

lemma fbind_split:
  "fbind m f s = (r, s') \<longleftrightarrow> (\<exists>e. m s = (Inl e, s') \<and> r = Inl e) \<or> (\<exists>x t. m s = (Inr x, t) \<and> f x t = (r, s'))"
  unfolding fbind_def by (auto split: prod.splits sum.splits)

lemma fcatch_split:
  "fcatch m h s = (r, s') \<longleftrightarrow> (\<exists>x. m s = (Inr x, s') \<and> r = Inr x) \<or> (\<exists>e t. m s = (Inl e, t) \<and> h e t = (r, s'))"
  unfolding fcatch_def by (auto split: prod.splits sum.splits)

lemma fensure_split: "fensure b e s = (r, s') \<longleftrightarrow> s' = s \<and> r = (if b then Inr () else Inl e)"
  by (auto simp: fensure_def fdone_def)

lemmas run_simps = fbind_split fcatch_split fensure_split fdone_def flook_def

text \<open>The part of a deletion after the checks.\<close>

definition destroy :: "fs_env \<Rightarrow> path \<Rightarrow> bool \<Rightarrow> (io_error, unit) fs_op" where
  "destroy E t dir = (if dir then rm_tree E t else unlink E t)"

lemma handle_delete_steps:
  assumes "handle_delete E p payload s = (r, s')" "fs_files s' \<noteq> fs_files s"
  shows "\<exists>named t b u. require_str payload ''path'' = Inr named
     \<and> resolve_mutation_target (fe_os E) p named ''delete'' ''path'' = Inr t
     \<and> exists_at t s \<and> (dir_at t s \<longrightarrow> flag payload ''recursive'')
     \<and> backup_before E t (dir_at t s) s = (b, u)
     \<and> (case b of Inl _ \<Rightarrow> s' = u | Inr _ \<Rightarrow> fs_files (snd (destroy E t (dir_at t s) u)) = fs_files s')"
proof -
  obtain named where n: "require_str payload ''path'' = Inr named"
    using assms by (cases "require_str payload ''path''") (auto simp: handle_delete_def run_simps)
  obtain t where t: "resolve_mutation_target (fe_os E) p named ''delete'' ''path'' = Inr t"
    using assms by (cases "resolve_mutation_target (fe_os E) p named ''delete'' ''path''")
      (auto simp: handle_delete_def run_simps n)
  have c: "exists_at t s" "dir_at t s \<longrightarrow> flag payload ''recursive''"
    using assms by (auto simp: handle_delete_def run_simps n t split: if_splits)
  obtain b u where b: "backup_before E t (dir_at t s) s = (b, u)" by fastforce
  have "case b of Inl _ \<Rightarrow> s' = u | Inr _ \<Rightarrow> fs_files (snd (destroy E t (dir_at t s) u)) = fs_files s'"
    using assms(1) by (cases b) (auto simp: handle_delete_def run_simps n t c b guarded_def audit_mutation_def
      destroy_def Let_def split: if_splits)
  with n t c b show ?thesis by blast
qed

lemma dir_backup_content:
  assumes "backup_before E t True s = (Inr b, u)" "\<not> is_own_backup t"
  shows "fs_files u (dir_backup_path E t) = Some (FileNode (fe_tar E (subtree t (fs_files s))) (fe_meta E))"
  using assms by (auto simp: backup_before_def dir_backup_targz_def tar_tree_def run_simps tree_call_def
      split: if_splits option.splits)

lemma make_dirs_keeps: "make_dirs E p s = (r, u) \<Longrightarrow> fs_files s q = Some n \<Longrightarrow> fs_files u q = Some n"
  by (auto simp: make_dirs_def run_simps tree_call_def with_dirs_def partly_def split: if_splits option.splits)

lemma copy_file_content:
  assumes "copy_file E src dst s = (Inr d, u)" "fs_files s src = Some (FileNode c m)"
  shows "is_relative_to d dst \<and> (\<exists>m'. fs_files u d = Some (FileNode c m'))"
  using assms copy_target_below[of src dst s]
  by (auto simp: copy_file_def run_simps tree_call_def copied_node_def split: if_splits option.splits)

lemma file_backup_content:
  assumes "backup_before E t False s = (Inr b, u)" "\<not> is_own_backup t" "fs_files s t = Some (FileNode c m)"
  shows "\<exists>d m'. is_relative_to d (file_backup_path E t) \<and> fs_files u d = Some (FileNode c m')"
proof -
  have path: "Path (is_absolute (path_parent t)) (parts (path_parent t) @ [file_backup_name E t]) = file_backup_path E t"
    by (simp add: file_backup_path_def sibling_def path_parent_def)
  obtain v d where "make_dirs E (path_parent t) s = (Inr (), v)" "copy_file E t (file_backup_path E t) v = (Inr d, u)"
    using assms(1,2) unfolding backup_before_def make_backup_def Let_def option.case path
    by (auto simp: run_simps split: if_splits)
  with make_dirs_keeps[OF _ assms(3)] copy_file_content show ?thesis by blast
qed

lemma destroy_outside:
  assumes "\<not> is_relative_to q t" shows "fs_files (snd (destroy E t dir u)) q = fs_files u q"
proof -
  have "confined (\<lambda>q. is_relative_to q t) (\<lambda>_. False) (destroy E t dir)"
    unfolding destroy_def by (auto intro!: confinement)
  with assms show ?thesis unfolding confined_def by blast
qed

lemma sibling_outside:
  assumes "parts t \<noteq> []" "x \<noteq> []" "is_relative_to d (sibling t (path_name t @ x))"
  shows "\<not> is_relative_to d t"
proof
  assume "is_relative_to d t"
  then have "take (length (parts t)) (parts d) = parts t" by (simp add: is_relative_to_def)
  moreover have "take (length (parts t)) (parts d) = butlast (parts t) @ [path_name t @ x]"
    using assms(1,3) by (auto simp: is_relative_to_def sibling_def)
  ultimately have "parts t = butlast (parts t) @ [path_name t @ x]" by simp
  then have "last (parts t) = path_name t @ x" by (metis last_snoc)
  with assms(1,2) show False by (simp add: path_name_def)
qed

lemma backups_outside:
  assumes "parts t \<noteq> []"
  shows "\<not> is_relative_to (dir_backup_path E t) t" "is_relative_to d (file_backup_path E t) \<Longrightarrow> \<not> is_relative_to d t"
proof -
  show "\<not> is_relative_to (dir_backup_path E t) t"
    unfolding dir_backup_path_def by (rule sibling_outside[OF assms, of "''.bak.'' @ fe_stamp E @ ''.tar.gz''"]) simp_all
  show "is_relative_to d (file_backup_path E t) \<Longrightarrow> \<not> is_relative_to d t"
    unfolding file_backup_path_def file_backup_name_def by (rule sibling_outside[OF assms]) simp_all
qed

text \<open>
  C37: nothing is deleted without a way back. When a path has vanished after a deletion, it lay
  at or below the admitted target of the request; a directory was named with the recursive flag;
  and, unless the target is itself one of the agent's backups (or the root of the file system),
  the files now hold an archive of the whole tree as it was, or a copy with the content of the
  file, whatever failed in between.
\<close>

theorem delete_keeps_a_copy:
  assumes "stable_os (fe_os E)" "handle_delete E p payload s = (r, s')"
    and "fs_files s q \<noteq> None" "fs_files s' q = None"
  shows "\<exists>named t. dget payload ''path'' = VStr named \<and> resolve_path (fe_os E) p named True = Some t
     \<and> is_relative_to q t \<and> (dir_at t s \<longrightarrow> flag payload ''recursive'')
     \<and> (is_own_backup t \<or> parts t = []
        \<or> (if dir_at t s
           then fs_files s' (dir_backup_path E t) = Some (FileNode (fe_tar E (subtree t (fs_files s))) (fe_meta E))
           else \<exists>c m d m'. fs_files s t = Some (FileNode c m) \<and> is_relative_to d (file_backup_path E t)
                  \<and> fs_files s' d = Some (FileNode c m')))"
proof -
  obtain named t b u where st: "require_str payload ''path'' = Inr named"
     "resolve_mutation_target (fe_os E) p named ''delete'' ''path'' = Inr t" "exists_at t s"
     "dir_at t s \<longrightarrow> flag payload ''recursive''" "backup_before E t (dir_at t s) s = (b, u)"
     "case b of Inl _ \<Rightarrow> s' = u | Inr _ \<Rightarrow> fs_files (snd (destroy E t (dir_at t s) u)) = fs_files s'"
    using handle_delete_steps[OF assms(2)] assms(3,4) by metis
  have u: "fs_files u q \<noteq> None"
    using only_adds_backup[of E t "dir_at t s"] st(5) assms(3) unfolding only_adds_def by (metis snd_conv)
  with st(6) assms(4) obtain x where b: "b = Inr x" by (cases b) auto
  with st(6) have s': "fs_files s' = fs_files (snd (destroy E t (dir_at t s) u))" by simp
  have q: "is_relative_to q t" using destroy_outside[of q t] u assms(4) s' by metis
  have "is_own_backup t \<or> parts t = []
        \<or> (if dir_at t s
           then fs_files s' (dir_backup_path E t) = Some (FileNode (fe_tar E (subtree t (fs_files s))) (fe_meta E))
           else \<exists>c m d m'. fs_files s t = Some (FileNode c m) \<and> is_relative_to d (file_backup_path E t)
                  \<and> fs_files s' d = Some (FileNode c m'))" (is "_ \<or> _ \<or> ?copy")
  proof (cases "is_own_backup t \<or> parts t = []")
    case False
    show ?thesis
    proof (cases "dir_at t s")
      case True
      with dir_backup_content[of E t s x u] st(5) b False destroy_outside[OF backups_outside(1)] s'
      show ?thesis by simp
    next
      case single: False
      then obtain c m where c: "fs_files s t = Some (FileNode c m)"
        using st(3) by (auto simp: dir_at_def exists_at_def split: fs_node.splits)
      from file_backup_content[of E t s x u, OF _ _ c] st(5) b single False obtain d m' where
        "is_relative_to d (file_backup_path E t)" "fs_files u d = Some (FileNode c m')" by auto
      with destroy_outside[OF backups_outside(2)] False s' single c show ?thesis by metis
    qed
  qed blast
  with q st(1,4) resolve_mutation_target_admits[OF assms(1) st(2)] show ?thesis
    by (auto simp: require_str_iff admitted_def)
qed

section \<open>A sample host\<close>

definition plain_meta :: node_meta where
  "plain_meta = \<lparr>nm_mode = 420, nm_owner = 1000, nm_group = 1000\<rparr>"

definition plain_os :: os where
  "plain_os = \<lparr>os_resolve = (\<lambda>p. if is_absolute p then Some p else None), os_expanduser = Some\<rparr>"

definition plain_env :: fs_env where
  "plain_env = \<lparr>fe_os = plain_os, fe_fault = (\<lambda>_. None), fe_same_device = (\<lambda>_ _. True), fe_meta = plain_meta,
     fe_stamp = ''20250101-120000'', fe_micros = ''000001'', fe_tar = (\<lambda>_. ''archive''),
     fe_uid = (\<lambda>_. None), fe_gid = (\<lambda>_. None), fe_log_writable = True,
     fe_windows = False, fe_icacls = (\<lambda>_ _. None)\<rparr>"

text \<open>\<open>/srv\<close> is open for writing, \<open>/srv/repo\<close> is a canonical repository.\<close>

definition srv :: path where "srv = Path True [''srv'']"

definition srv_policy :: policy where
  "srv_policy = (empty_policy srv)\<lparr>pol_file_ops_paths := [\<lparr>fp_path = ''/srv'', fp_access = ''rw''\<rparr>],
     pol_mutation_execution := default_mutation_policy\<lparr>mp_configured := True, mp_firewall_enabled := True,
       mp_canonical_repositories := [\<lparr>cr_root = Path True [''srv'', ''repo''], cr_identity = ''git://host/r'',
         cr_branch = Some ''main'', cr_provenance = ''operator_config''\<rparr>]\<rparr>\<rparr>"

definition srv_files :: fs_state where
  "srv_files = \<lparr>fs_files = [Path True [] \<mapsto> DirNode plain_meta, srv \<mapsto> DirNode plain_meta,
     Path True [''srv'', ''a''] \<mapsto> FileNode ''text'' plain_meta,
     Path True [''srv'', ''d''] \<mapsto> DirNode plain_meta,
     Path True [''srv'', ''d'', ''x''] \<mapsto> FileNode ''x'' plain_meta], fs_log = []\<rparr>"

lemma plain_os_stable: "stable_os (fe_os plain_env)"
  by (simp add: stable_os_def plain_env_def plain_os_def)

lemma sample_delete:
  "fs_files (snd (fsmutate plain_env srv_policy DeleteOp [(''path'', VStr ''/srv/a'')] srv_files)) (Path True [''srv'', ''a'']) = None"
  "fs_files srv_files (Path True [''srv'', ''a'']) \<noteq> None"
  by code_simp+


theorem delete_keeps_a_copy_witness:
  "\<exists>t. is_relative_to (Path True [''srv'', ''a'']) t
     \<and> resolve_path (fe_os plain_env) srv_policy ''/srv/a'' True = Some t"
proof -
  let ?r = "handle_delete plain_env srv_policy [(''path'', VStr ''/srv/a'')] srv_files"
  have "fs_files (snd ?r) (Path True [''srv'', ''a'']) = None"
    using sample_delete(1) by (simp add: fsmutate_def)
  from delete_keeps_a_copy[OF plain_os_stable surjective_pairing sample_delete(2) this]
  show ?thesis by (auto simp: dget_def)
qed

section \<open>What overwrite destroys\<close>

text \<open>
  With \<open>overwrite\<close> the destination is removed before the source is moved or copied. Moving a file
  onto itself, or a directory onto itself or above itself, so removes the source first: the move
  then fails and nothing is left, no backup either. Copying a directory onto itself does the same.
\<close>

lemma move_onto_itself_destroys:
  "case fsmutate plain_env srv_policy MoveOp [(''src'', VStr ''/srv/a''), (''dst'', VStr ''/srv/a''),
       (''overwrite'', VBool True)] srv_files of
     (r, s) \<Rightarrow> r = Inl (refused ''move_failed'') \<and> fs_files s (Path True [''srv'', ''a'']) = None"
  by code_simp

lemma copy_onto_itself_destroys:
  "case fsmutate plain_env srv_policy CopyOp [(''src'', VStr ''/srv/d''), (''dst'', VStr ''/srv/d''),
       (''overwrite'', VBool True)] srv_files of
     (r, s) \<Rightarrow> r = Inl (refused ''copy_failed'') \<and> fs_files s (Path True [''srv'', ''d'', ''x'']) = None"
  by code_simp

text \<open>Deleting a directory that is itself the read-write entry writes the archive beside it, outside every entry.\<close>

lemma delete_writes_outside_entries:
  "case fsmutate plain_env (srv_policy\<lparr>pol_mutation_execution := default_mutation_policy\<rparr>) DeleteOp
       [(''path'', VStr ''/srv''), (''recursive'', VBool True)] srv_files of
     (r, s) \<Rightarrow> fs_files s (Path True [''srv.bak.20250101-120000.tar.gz'']) \<noteq> None
       \<and> resolve_path plain_os srv_policy ''/srv.bak.20250101-120000.tar.gz'' True = None"
  by code_simp

end
