(* ===== verification/SafeEditProps.thy ===== *)
theory SafeEditProps
  imports SafeEdit FileMutationProps
begin

text \<open>
  What the editing tool does to its target: all or nothing, with a backup. The calls before the
  final rename leave the target alone, by their confinement; the rename is atomic.
\<close>

section \<open>Names\<close>





lemma path_name_snoc [simp]: "path_name (Path a (xs @ [x])) = x"
  by (simp add: path_name_def)

section \<open>Frames\<close>













section \<open>The commit\<close>








section \<open>The whole edit\<close>
















section \<open>A sample edit\<close>

definition edit_sample :: edit_env where
  "edit_sample = \<lparr>ee_fs = plain_env, ee_temp = ''abcdefgh'', ee_decodes = (\<lambda>_. True), ee_unescape = Some,
     ee_subn = (\<lambda>_ _ _ _ _ _. None), ee_run = (\<lambda>_ s. (Some 0, s)), ee_python = ''python3''\<rparr>"

definition append_spec :: "string \<Rightarrow> string \<Rightarrow> edit_spec" where
  "append_spec p new = \<lparr>es_path = p, es_mode = Some ''append'', es_restore = None, es_old = None,
     es_old_file = None, es_new = Some new, es_new_file = None, es_pattern = None, es_start_marker = None,
     es_end_marker = None, es_count = 0, es_multiline = False, es_dotall = False, es_interpret_escapes = False,
     es_backup_dir = None, es_validator = None, es_validator_preset = None, es_diff = False, es_dry_run = False,
     es_allow_no_change = False, es_create = False\<rparr>"



section \<open>What else happens\<close>

text \<open>The file is created before the edit: by a dry run, and by an edit that then fails.\<close>

lemma dry_run_creates_file:
  "case apply_edit edit_sample ((append_spec ''/srv/new'' ''!'')\<lparr>es_create := True, es_dry_run := True\<rparr>) srv_files of
     (r, s) \<Rightarrow> \<not> isl r \<and> \<not> exists_at (Path True [''srv'', ''new'']) srv_files
       \<and> exists_at (Path True [''srv'', ''new'']) s"
  by code_simp

lemma failed_edit_creates_file:
  "case apply_edit edit_sample ((append_spec ''/srv/new'' '''')\<lparr>es_create := True\<rparr>) srv_files of
     (r, s) \<Rightarrow> r = Inl (SafeEdit ''no_effective_change'') \<and> exists_at (Path True [''srv'', ''new'']) s"
  by code_simp

text \<open>Every line ending of the file is rewritten, not only the edited text.\<close>

lemma edit_rewrites_line_endings:
  "case apply_edit edit_sample (append_spec ''/srv/a'' ''!'')
     (srv_files\<lparr>fs_files := (fs_files srv_files)(Path True [''srv'', ''a''] \<mapsto>
        FileNode [CHR ''a'', CHR 0x0D, CHR 0x0A, CHR ''b''] plain_meta)\<rparr>) of
     (r, s) \<Rightarrow> fs_files s (Path True [''srv'', ''a'']) = Some (FileNode [CHR ''a'', CHR 0x0A, CHR ''b'', CHR ''!''] plain_meta)"
  by code_simp

end
