(* ===== verification/EditProps.thy ===== *)
theory EditProps
  imports EditHandler SafeEditProps
begin

text \<open>
  An edit request from the payload to the file: the command line the handler builds is read back
  by the tool as exactly the edit that was asked for, and the file ends up as the payload says
  or as it was.
\<close>

section \<open>Reading the command line back\<close>




























section \<open>The edit that was asked for\<close>










section \<open>Running the tool\<close>










section \<open>The request\<close>










section \<open>A sample request\<close>

definition edit_host_sample :: edit_host where
  "edit_host_sample = \<lparr>eh_env = edit_sample, eh_upload_base = Path True [''up''], eh_fallback = Path True [''tmp''],
     eh_uuid = ''0a'', eh_binary = ''pensa-safe-edit'', eh_base64 = (\<lambda>_. None), eh_run = bundled_tool edit_sample\<rparr>"

definition append_payload :: payload where
  "append_payload = [(''path'', VStr ''/srv/a''), (''mode'', VStr ''append''), (''new_text'', VStr ''!'')]"



text \<open>
  The upload identifier of a chunked edit is joined to the staging directory as it came: with
  \<open>..\<close> in it the files of the upload are written, and at the end a directory is removed, outside
  the staging directory and outside the file allowlist.
\<close>

definition dotted_os :: os where
  "dotted_os = \<lparr>os_resolve = (\<lambda>p. Some (Path (is_absolute p) (rev (fold (\<lambda>w acc. if w = ''..'' then drop 1 acc else w # acc) (parts p) [])))),
     os_expanduser = Some\<rparr>"

definition dotted_host :: edit_host where
  "dotted_host = edit_host_sample\<lparr>eh_env := edit_sample\<lparr>ee_fs := plain_env\<lparr>fe_os := dotted_os\<rparr>\<rparr>\<rparr>"

definition outside_upload :: payload where
  "outside_upload = [(''upload_id'', VStr ''x/../../../etc''), (''role'', VStr ''new''), (''content'', VStr ''new'')]"

lemma upload_escapes_staging:
  "case handle_edit_upload_file dotted_host srv_policy outside_upload srv_files of
     (r, s) \<Rightarrow> \<not> isl r \<and> resolve_path dotted_os srv_policy ''/etc/new.txt'' True = None
       \<and> \<not> exists_at (Path True [''etc'', ''new.txt'']) srv_files
       \<and> exists_at (Path True [''etc'', ''new.txt'']) s"
  by code_simp

text \<open>\<open>backup_dir\<close> is passed on unchecked: a copy of the old text is written outside the allowlist.\<close>

lemma backup_dir_unchecked:
  "case handle_edit edit_host_sample srv_policy ((''backup_dir'', VStr ''/etc'') # append_payload) srv_files of
     (r, s) \<Rightarrow> \<not> isl r \<and> resolve_path (fe_os plain_env) srv_policy ''/etc/a.bak.20250101-120000-000001'' True = None
       \<and> fs_files s (Path True [''etc'', ''a.bak.20250101-120000-000001'']) = Some (FileNode ''text'' plain_meta)"
  by code_simp

end
