(* ===== verification/JobEvents.thy ===== *)
theory JobEvents
  imports ExecHandler Verification
begin

text \<open>
  The completion event of a background job (\<open>jobs.py\<close>): the status of the outcome, the clipped
  output and the sealed identity of a mutation. Text is its UTF-8 bytes here; the times and the
  duration come from the caller's clock.
\<close>

type_synonym pydict = "(string \<times> pyval) list"

datatype job_exn = MutationJobIdentity string | JobRaised py_exn

section \<open>The output\<close>

definition MAX_EVENT_OUTPUT_BYTES :: nat where
  "MAX_EVENT_OUTPUT_BYTES = 262144"

definition continuation :: "char \<Rightarrow> bool" where
  "continuation c \<longleftrightarrow> 128 \<le> (of_char c :: nat) \<and> (of_char c :: nat) < 192"

definition sequence_length :: "char \<Rightarrow> nat" where
  "sequence_length c = (let n = of_char c :: nat in if n < 128 then 1 else if n < 224 then 2 else if n < 240 then 3 else 4)"

text \<open>
  \<open>raw[:n].decode("utf-8", errors="replace")\<close> for \<open>raw\<close> the encoding of a text: a sequence that
  the cut leaves incomplete becomes one replacement character.
\<close>

definition replacement :: string where
  "replacement = [CHR 0xEF, CHR 0xBF, CHR 0xBD]"

definition utf8_clip :: "nat \<Rightarrow> string \<Rightarrow> string" where
  "utf8_clip n raw = (let p = take n raw; k = length (takeWhile continuation (rev p)); b = length p - Suc k in
     if k < length p \<and> Suc k < sequence_length (p ! b) then take b p @ replacement else p)"

definition truncate_output :: "pyval \<Rightarrow> (job_exn, string \<times> bool) result" where
  "truncate_output v = (if \<not> truthy v then Inr ([], False) else case v of
     VStr t \<Rightarrow> if length t \<le> MAX_EVENT_OUTPUT_BYTES then Inr (t, False)
       else Inr (utf8_clip MAX_EVENT_OUTPUT_BYTES t, True)
   | _ \<Rightarrow> Inl (JobRaised AttributeError))"

section \<open>The identity of a mutation\<close>

definition identity_fields :: "string list" where
  "identity_fields = [''operation_id'', ''binding_digest'', ''request_id'', ''scope_id'', ''workspace_id'', ''semantic_digest'']"

definition nonempty_text :: "pyval \<Rightarrow> bool" where
  "nonempty_text v = (case v of VStr s \<Rightarrow> s \<noteq> [] | _ \<Rightarrow> False)"

fun first_missing :: "string list \<Rightarrow> pydict \<Rightarrow> string option" where
  "first_missing [] d = None"
| "first_missing (f # fs) d = (if nonempty_text (dget d f) then first_missing fs d else Some f)"

definition validated_mutation_identity :: "pydict \<Rightarrow> string \<Rightarrow> (job_exn, pydict option) result" where
  "validated_mutation_identity r expected = (case dget r ''mutation_identity'' of
     VNull \<Rightarrow> Inr None
   | VDict identity \<Rightarrow>
       (case first_missing identity_fields identity of
          Some f \<Rightarrow> Inl (MutationJobIdentity (''mutation_identity missing '' @ f))
        | None \<Rightarrow>
            rbind (guard (case dget identity ''scope_generation'' of VInt g \<Rightarrow> 0 < g | _ \<Rightarrow> False)
              (MutationJobIdentity ''mutation_identity has invalid scope_generation'')) (\<lambda>_.
            rbind (guard (dget identity ''job_id'' \<in> {VNull, VStr expected})
              (MutationJobIdentity ''background job id does not match mutation audit identity'')) (\<lambda>_.
            Inr (Some (AList.update ''job_id'' (VStr expected) identity)))))
   | _ \<Rightarrow> Inl (MutationJobIdentity ''mutation_identity must be a mapping''))"

section \<open>The event\<close>

record job_times =
  jt_started :: string
  jt_finished :: string
  jt_duration :: pyval

text \<open>\<open>returncode == 0\<close> holds of \<open>False\<close> too, and \<open>isinstance(returncode, int)\<close> of booleans.\<close>

definition job_status :: "pydict \<Rightarrow> string" where
  "job_status r = (if truthy (dget r ''timed_out'') then ''timeout''
     else if dget r ''returncode'' \<in> {VInt 0, VBool False} then ''succeeded'' else ''failed'')"

definition failure_message :: "pyval \<Rightarrow> pyval" where
  "failure_message error = py_or (case error of VDict e \<Rightarrow> dget e ''message'' | v \<Rightarrow> VStr (py_str v)) (VStr ''operation failed'')"

definition job_outcome :: "pydict \<Rightarrow> (job_exn, string \<times> pyval \<times> pyval \<times> pyval) result" where
  "job_outcome response =
     (let r = py_or (dget response ''result'') (VDict []); error = py_or (dget response ''error'') (VDict []) in
      if \<not> truthy (dget response ''ok'') then Inr (''failed'', VNull, VStr [], failure_message error)
      else case r of
        VDict d \<Rightarrow> Inr (job_status d, if is_int (dget d ''returncode'') then dget d ''returncode'' else VNull,
          py_or (dget d ''output'') (VStr []), VNull)
      | _ \<Rightarrow> Inl (JobRaised AttributeError))"

definition build_completed_event_data ::
  "string \<Rightarrow> string \<Rightarrow> string \<Rightarrow> pydict \<Rightarrow> job_times \<Rightarrow> (job_exn, pydict) result" where
  "build_completed_event_data job_id tool host response clock =
     rbind (job_outcome response) (\<lambda>(status, exit_code, output, error).
     rbind (truncate_output output) (\<lambda>(clipped, truncated).
     let data = [(''job_id'', VStr job_id), (''tool'', VStr tool), (''host'', VStr host), (''status'', VStr status),
           (''exit_code'', exit_code), (''started_at'', VStr (jt_started clock)), (''finished_at'', VStr (jt_finished clock)),
           (''duration_s'', jt_duration clock), (''output'', VStr clipped), (''output_truncated'', VBool truncated),
           (''error'', error)] in
     case py_or (dget response ''result'') (VDict []) of
       VDict r \<Rightarrow> rbind (validated_mutation_identity r job_id) (\<lambda>identity. case identity of
           None \<Rightarrow> Inr data | Some i \<Rightarrow> Inr (data @ [(''mutation_identity'', VDict i)]))
     | _ \<Rightarrow> Inr data))"

section \<open>What the event says\<close>

lemma utf8_clip_bounded: "length (utf8_clip n raw) \<le> n + 2"
  by (auto simp: utf8_clip_def Let_def replacement_def)

lemma truncate_output_bounded: "truncate_output v = Inr (s, b) \<Longrightarrow> length s \<le> MAX_EVENT_OUTPUT_BYTES + 2"
  using utf8_clip_bounded[of MAX_EVENT_OUTPUT_BYTES]
  by (cases v) (auto simp: truncate_output_def split: if_splits)

lemma truncate_output_exact: "truncate_output v = Inr (s, False) \<Longrightarrow> v = VStr s \<or> \<not> truthy v \<and> s = []"
  by (cases v) (auto simp: truncate_output_def split: if_splits)

lemma job_outcome_status: "job_outcome response = Inr (status, x) \<Longrightarrow> status \<in> {''failed'', ''timeout'', ''succeeded''}"
  by (auto simp: job_outcome_def job_status_def Let_def split: if_splits pyval.splits)

end
