(* ===== verification/PendingResults.thy ===== *)
theory PendingResults
  imports JobEvents
begin

text \<open>
  Results that wait for a connection (\<open>pending_results.py\<close>) and the parts of the hub client that
  write them down, send and replay them (\<open>client.py\<close>). The directory is a table from file names
  to what \<open>json.loads\<close> makes of the file, \<open>None\<close> when it raises. An environment says which calls
  of an operation work. Times are whole seconds. The event message and the bounding of responses
  come from the protocol package and are parameters; so is how the sending ends.
\<close>

type_synonym pending = "(string \<times> pyval option) list"

record pending_env =
  pn_mkdir :: bool
  pn_write :: bool
  pn_unlink :: "string \<Rightarrow> bool"
  pn_readable :: "string \<Rightarrow> bool"

definition PENDING_TTL_SECONDS :: int where "PENDING_TTL_SECONDS = 86400"

definition MAX_PENDING_FILES :: nat where "MAX_PENDING_FILES = 500"

section \<open>Writing a result down\<close>

definition safe_name :: "string \<Rightarrow> string" where
  "safe_name job_id = (let keep = take 64 (filter (\<lambda>c. is_alnum c \<or> c \<in> set ''-_'') job_id) in
     if keep = [] then ''unnamed'' else keep)"

definition result_file :: "string \<Rightarrow> string" where
  "result_file job_id = safe_name job_id @ ''.json''"

text \<open>\<open>unlink(missing_ok=True)\<close> of each; the first that fails ends the loop.\<close>

fun drop_stale :: "pending_env \<Rightarrow> string list \<Rightarrow> pending \<Rightarrow> bool \<times> pending" where
  "drop_stale E [] d = (True, d)"
| "drop_stale E (n # ns) d = (if pn_unlink E n then drop_stale E ns (AList.delete n d) else (False, d))"

definition held_file :: "int \<Rightarrow> pydict \<Rightarrow> pyval option" where
  "held_file now event = Some (VDict [(''at'', VInt now), (''event'', VDict event)])"

definition record_result :: "pending_env \<Rightarrow> int \<Rightarrow> string \<Rightarrow> pydict \<Rightarrow> pending \<Rightarrow> string option \<times> pending" where
  "record_result E now job_id event d =
     (if \<not> pn_mkdir E then (None, d) else
      let existing = sort (keys d); n = length existing in
      case (if MAX_PENDING_FILES \<le> n then drop_stale E (take (n - MAX_PENDING_FILES + 1) existing) d else (True, d)) of
        (False, d') \<Rightarrow> (None, d')
      | (True, d') \<Rightarrow> if pn_write E then (Some (result_file job_id), AList.update (result_file job_id) (held_file now event) d')
          else (None, d'))"

definition clear :: "pending_env \<Rightarrow> string option \<Rightarrow> pending \<Rightarrow> pending" where
  "clear E path d = (case path of None \<Rightarrow> d | Some n \<Rightarrow> if pn_unlink E n then AList.delete n d else d)"

section \<open>Reading what waits\<close>

datatype verdict = Waiting pydict | ExpiredEntry | UnreadableEntry

text \<open>\<open>float(data.get("at") or 0)\<close>.\<close>

definition entry_time :: "pydict \<Rightarrow> int option" where
  "entry_time data = (case py_int (py_or (dget data ''at'') (VInt 0)) of Inl _ \<Rightarrow> None | Inr t \<Rightarrow> Some t)"

definition entry_verdict :: "int \<Rightarrow> pyval option \<Rightarrow> verdict" where
  "entry_verdict now content = (case content of
     Some (VDict data) \<Rightarrow> (case dget data ''event'' of
         VDict event \<Rightarrow> (case entry_time data of
             None \<Rightarrow> UnreadableEntry
           | Some t \<Rightarrow> if now - t > PENDING_TTL_SECONDS then ExpiredEntry else Waiting event)
       | _ \<Rightarrow> UnreadableEntry)
   | _ \<Rightarrow> UnreadableEntry)"

fun drain_from :: "pending_env \<Rightarrow> int \<Rightarrow> pending \<Rightarrow> pending \<Rightarrow> (string \<times> pydict) list option \<times> pending" where
  "drain_from E now [] d = (Some [], d)"
| "drain_from E now ((n, c) # rest) d =
     (case (if pn_readable E n then entry_verdict now c else UnreadableEntry) of
        Waiting event \<Rightarrow> (case drain_from E now rest d of (r, d') \<Rightarrow> (map_option (Cons (n, event)) r, d'))
      | _ \<Rightarrow> if pn_unlink E n then drain_from E now rest (AList.delete n d) else (None, d))"

definition drain :: "pending_env \<Rightarrow> int \<Rightarrow> pending \<Rightarrow> (string \<times> pydict) list option \<times> pending" where
  "drain E now d = drain_from E now (sorted_items d) d"

section \<open>The client's side\<close>

text \<open>The connection carries so many more messages.\<close>

fun send_waiting :: "pending_env \<Rightarrow> nat \<Rightarrow> (string \<times> pydict) list \<Rightarrow> pending \<Rightarrow> pydict list \<times> pending" where
  "send_waiting E up [] d = ([], d)"
| "send_waiting E up ((n, event) # ws) d = (if up = 0 then ([], d)
     else case send_waiting E (up - 1) ws (clear E (Some n) d) of (sent, d') \<Rightarrow> (event # sent, d'))"

definition replay_pending_results :: "pending_env \<Rightarrow> int \<Rightarrow> nat \<Rightarrow> pending \<Rightarrow> pydict list \<times> pending" where
  "replay_pending_results E now up d = (case drain E now d of
     (None, d') \<Rightarrow> ([], d') | (Some waiting, d') \<Rightarrow> send_waiting E up waiting d')"

datatype send_end = SendOk | SendFails | DiesBefore | DiesAfter

record hub_link =
  hl_host :: string
  hl_bound :: "pydict \<Rightarrow> pydict"
  hl_event :: "pydict \<Rightarrow> pydict"

definition run_job_and_report ::
  "hub_link \<Rightarrow> pending_env \<Rightarrow> int \<Rightarrow> string \<Rightarrow> string \<Rightarrow> pydict \<Rightarrow> job_times \<Rightarrow> send_end \<Rightarrow> pending
     \<Rightarrow> (job_exn, pydict list) result \<times> pending" where
  "run_job_and_report H E now job_id tool response clock ending d =
     (case build_completed_event_data job_id tool (hl_host H) (hl_bound H response) clock of
        Inl e \<Rightarrow> (Inl e, d)
      | Inr data \<Rightarrow>
          let event = hl_event H data in
          case record_result E now job_id event d of (path, d') \<Rightarrow>
            (case ending of SendOk \<Rightarrow> (Inr [event], clear E path d')
             | DiesAfter \<Rightarrow> (Inr [event], d') | _ \<Rightarrow> (Inr [], d')))"

section \<open>Histories\<close>

text \<open>What happens to the results of an agent: jobs end and sessions start. The process may die in between.\<close>

datatype link_event =
    JobEnds pending_env int string string pydict job_times send_end
  | Session pending_env int nat

record link_state =
  ln_disk :: pending
  ln_sent :: "pydict list"

definition link_step :: "hub_link \<Rightarrow> link_event \<Rightarrow> link_state \<Rightarrow> link_state" where
  "link_step H x l = (case x of
     JobEnds E now job tool response clock ending \<Rightarrow>
       (case run_job_and_report H E now job tool response clock ending (ln_disk l) of
          (r, d) \<Rightarrow> \<lparr>ln_disk = d, ln_sent = ln_sent l @ (case r of Inl _ \<Rightarrow> [] | Inr sent \<Rightarrow> sent)\<rparr>)
   | Session E now up \<Rightarrow> (case replay_pending_results E now up (ln_disk l) of
          (sent, d) \<Rightarrow> \<lparr>ln_disk = d, ln_sent = ln_sent l @ sent\<rparr>))"

definition link_run :: "hub_link \<Rightarrow> (nat \<Rightarrow> link_event) \<Rightarrow> nat \<Rightarrow> link_state \<Rightarrow> link_state" where
  "link_run H sched n l = fold (\<lambda>i. link_step H (sched i)) [0..<n] l"

lemma link_run_steps [simp]:
  "link_run H sched 0 l = l" "link_run H sched (Suc n) l = link_step H (sched n) (link_run H sched n l)"
  by (simp_all add: link_run_def)

end
