(* ===== verification/PendingProps.thy ===== *)
theory PendingProps
  imports PendingResults
begin

text \<open>
  A result that was written down is delivered: it stays on disk through failed sessions, other
  jobs and restarts of the agent, and the first session that can send delivers it. The lemmas
  at the end show the ways in which a result is lost all the same.
\<close>

section \<open>The table of files\<close>

abbreviation file_of :: "pending \<Rightarrow> string \<Rightarrow> pyval option option" where
  "file_of d n \<equiv> map_of d n"

lemma distinct_delete [simp]: "distinct (keys d) \<Longrightarrow> distinct (keys (AList.delete n d))"
  by (rule distinct_delete)

lemma map_of_delete [simp]: "map_of (AList.delete k d) n = (if n = k then None else map_of d n)"
  by (simp add: delete_conv')

lemma distinct_clear [simp]: "distinct (keys d) \<Longrightarrow> distinct (keys (clear E p d))"
  by (simp add: clear_def split: option.splits)











section \<open>Draining and sending\<close>










section \<open>Delivery\<close>








section \<open>A sample history\<close>

definition all_works :: pending_env where
  "all_works = \<lparr>pn_mkdir = True, pn_write = True, pn_unlink = (\<lambda>_. True), pn_readable = (\<lambda>_. True)\<rparr>"

definition link_sample :: hub_link where
  "link_sample = \<lparr>hl_host = ''h'', hl_bound = id, hl_event = (\<lambda>data. [(''kind'', VStr ''job_completed''), (''data'', VDict data)])\<rparr>"

definition clock_sample :: job_times where
  "clock_sample = \<lparr>jt_started = ''2025-01-01T00:00:00+00:00'', jt_finished = ''2025-01-01T00:00:01+00:00'', jt_duration = VInt 1\<rparr>"






section \<open>How a result is lost\<close>

text \<open>Names that differ only in dropped characters collide: the later result replaces the earlier one.\<close>

lemma colliding_names_lose_a_result:
  "result_file ''a/b'' = result_file ''ab''"
  "map_of (snd (record_result all_works 2 ''a/b'' [] (snd (record_result all_works 1 ''ab'' [(''k'', VNull)] [])))) ''ab.json''
     = Some (held_file 2 [])"
  by code_simp+

text \<open>A full directory loses the first file by name, whatever its age.\<close>

lemma full_directory_drops_first_name:
  assumes "length d = MAX_PENDING_FILES" "distinct (keys d)" "n \<in> set (keys d)" "\<forall>m \<in> set (keys d). n \<le> m" "n \<noteq> result_file job"
  shows "file_of (snd (record_result all_works now job ev d)) n = None"
proof -
  obtain m ms where sorted: "sort (keys d) = m # ms"
    using assms(1) by (cases "sort (keys d)") (auto simp: MAX_PENDING_FILES_def dest: arg_cong[where f = length])
  have "\<forall>k \<in> set (m # ms). m \<le> k" using sorted_sort[of "keys d"] sorted by auto
  moreover have "set (m # ms) = set (keys d)" using sorted by (metis set_sort)
  ultimately have "m = n" using assms(3,4) by (metis antisym list.set_intros(1))
  moreover have "length (m # ms) = MAX_PENDING_FILES" using assms(1) sorted by (metis length_map length_sort)
  ultimately show ?thesis using sorted assms(5)
    by (simp add: record_result_def Let_def all_works_def)
qed

text \<open>A file that cannot be read once is removed.\<close>

lemma read_error_loses_a_result:
  "replay_pending_results (all_works\<lparr>pn_readable := (\<lambda>_. False)\<rparr>) 200 5 [(''job_1.json'', held_file 100 [])] = ([], [])"
  by code_simp

text \<open>An operation whose sealed identity names another job ends without any event.\<close>

lemma identity_mismatch_reports_nothing:
  "run_job_and_report link_sample all_works 100 ''job_1'' ''script_run''
     [(''ok'', VBool True), (''result'', VDict [(''returncode'', VInt 0), (''mutation_identity'', VDict [(''operation_id'', VStr ''o''),
        (''binding_digest'', VStr ''b''), (''request_id'', VStr ''r''), (''scope_id'', VStr ''s''), (''workspace_id'', VStr ''w''),
        (''semantic_digest'', VStr ''d''), (''scope_generation'', VInt 1), (''job_id'', VStr ''job_2'')])])] clock_sample SendOk []
   = (Inl (MutationJobIdentity ''background job id does not match mutation audit identity''), [])"
  by code_simp

end
