(* ===== verification/HubSession.thy ===== *)
theory HubSession
  imports PendingResults Complex_Main
begin

text \<open>
  The hub client (\<open>client.py\<close>): how a request is answered on the connection, and the loop that
  keeps the agent connected. Seconds are rational numbers; rounding is not modelled. What a
  connection does, the random number of a delay and the stop signal are the environment's.
\<close>

section \<open>Answering a request\<close>

datatype outgoing = JsonFrame pydict | BinaryFrame string

record hub_request =
  hq_id :: string
  hq_op :: string
  hq_payload :: pydict

text \<open>\<open>_start_background_job\<close>: the acknowledgement; the job is then \<open>run_job_and_report\<close>.\<close>

definition background_job_id :: "hub_request \<Rightarrow> string \<Rightarrow> pyval" where
  "background_job_id q fresh = py_or (dget (hq_payload q) ''job_id'') (VStr (''job_'' @ fresh))"

definition background_ack :: "hub_link \<Rightarrow> hub_request \<Rightarrow> string \<Rightarrow> pydict" where
  "background_ack H q fresh = [(''type'', VStr ''response''), (''id'', VStr (hq_id q)), (''ok'', VBool True),
     (''result'', VDict [(''status'', VStr ''running''), (''job_id'', background_job_id q fresh),
       (''tool'', VStr (hq_op q)), (''host'', VStr (hl_host H))])]"

definition crash_response :: "hub_request \<Rightarrow> string \<Rightarrow> string \<Rightarrow> pydict" where
  "crash_response q code message = [(''type'', VStr ''response''), (''id'', VStr (hq_id q)), (''ok'', VBool False),
     (''error'', VDict [(''code'', VStr code), (''message'', VStr message)])]"

text \<open>
  The foreground answer. \<open>frame\<close> is \<open>encode_binary_frame\<close> of the protocol package on the result
  without its payload; a frame that cannot be made or sent gives an error response instead.
\<close>

definition timed_result :: "pydict \<Rightarrow> pyval \<Rightarrow> pydict" where
  "timed_result r timing = AList.update ''_sx_timing'' timing r"

definition answer_request ::
  "hub_link \<Rightarrow> (pydict \<Rightarrow> pyval \<Rightarrow> string option) \<Rightarrow> hub_request \<Rightarrow> (string, pydict) result \<Rightarrow> pyval \<Rightarrow> outgoing list" where
  "answer_request H frame q dispatched timing =
     (let response = (case dispatched of Inl message \<Rightarrow> crash_response q ''internal_error'' message | Inr r \<Rightarrow> r) in
      case dget response ''result'' of
        VDict r \<Rightarrow>
          if ''__binary_payload__'' \<notin> set (keys r)
          then [JsonFrame (hl_bound H (AList.update ''result'' (VDict (timed_result r timing)) response))]
          else if truthy (dget response ''ok'') then
            (let r' = AList.delete ''__binary_payload__'' r in
             case frame r' (dget r ''__binary_payload__'') of
               None \<Rightarrow> [JsonFrame (crash_response q ''binary_emit_error'' [])]
             | Some bytes \<Rightarrow> [BinaryFrame bytes, JsonFrame (hl_bound H (AList.update ''result'' (VDict r') response))])
          else [JsonFrame (hl_bound H response)]
      | _ \<Rightarrow> [JsonFrame (hl_bound H response)])"

definition is_json :: "outgoing \<Rightarrow> bool" where
  "is_json m = (case m of JsonFrame _ \<Rightarrow> True | BinaryFrame _ \<Rightarrow> False)"

text \<open>A request gets exactly one JSON answer, and it is the last message.\<close>

lemma one_json_answer:
  "length (filter is_json (answer_request H frame q r timing)) = 1 \<and> is_json (last (answer_request H frame q r timing))"
  by (simp add: answer_request_def Let_def is_json_def split: sum.splits pyval.splits option.splits)

section \<open>Numbers in a close reason\<close>

datatype pyfloat = Finite rat | Infinite | NotANumber

text \<open>
  \<open>float(text)\<close>: white space around, a sign, decimal digits with single underscores between them, a
  fraction, an exponent; or a name of an infinity or of no number. A number that rounds beyond
  the largest double is infinite.
\<close>

definition digit_groups :: "string \<Rightarrow> string option" where
  "digit_groups s = (let groups = split_char (CHR ''_'') s in
     if s = [] then Some [] else if list_all (\<lambda>w. w \<noteq> [] \<and> list_all is_digit w) groups then Some (concat groups) else None)"

definition digit_run :: "string \<Rightarrow> string" where
  "digit_run s = takeWhile (\<lambda>c. is_digit c \<or> c = CHR ''_'') s"

definition exponent_of :: "string \<Rightarrow> int option" where
  "exponent_of s = (if s = [] then Some 0
     else if lower_char (hd s) = CHR ''e'' \<and> tl s \<noteq> [] \<and> \<not> list_ex py_space s then read_int (tl s) else None)"

definition largest_double_bound :: rat where
  "largest_double_bound = 2 ^ 1024 - 2 ^ 970"

definition decimal_of :: "string \<Rightarrow> rat option" where
  "decimal_of s =
     (let whole = digit_run s; rest = drop (length whole) s;
          frac = (if startswith rest ''.'' then digit_run (tl rest) else []);
          tail = (if startswith rest ''.'' then drop (length frac) (tl rest) else rest) in
      case (digit_groups whole, digit_groups frac, exponent_of tail) of
        (Some w, Some f, Some e) \<Rightarrow> if w @ f = [] then None else
          (let m = of_nat (read_nat (w @ f)); k = e - int (length f) in
           Some (if 0 \<le> k then m * 10 ^ nat k else m / 10 ^ nat (- k)))
      | _ \<Rightarrow> None)"

definition read_float :: "string \<Rightarrow> pyfloat option" where
  "read_float text0 =
     (let s = strip text0; neg = startswith s ''-'';
          body = (if startswith s ''-'' \<or> startswith s ''+'' then tl s else s) in
      if casefold body \<in> {''inf'', ''infinity''} then Some Infinite
      else if casefold body = ''nan'' then Some NotANumber
      else map_option (\<lambda>x. if largest_double_bound \<le> x then Infinite else Finite (if neg then - x else x)) (decimal_of body))"

section \<open>Delays\<close>

definition BACKOFF_SCHEDULE :: "rat list" where
  "BACKOFF_SCHEDULE = [0, 1, 2, 5, 10, 20, 30, 60, 120, 300]"

definition MAX_RETRY_AFTER_SECONDS :: rat where
  "MAX_RETRY_AFTER_SECONDS = 300"

fun retry_after_of :: "string list \<Rightarrow> rat option" where
  "retry_after_of [] = None"
| "retry_after_of (w # ws) =
     (let p = strip w; key = takeWhile (\<lambda>c. c \<noteq> CHR ''='') p; value = drop (Suc (length key)) p in
      if strip key \<noteq> ''retry_after'' then retry_after_of ws
      else case read_float (strip value) of
        Some (Finite s) \<Rightarrow> Some (max 0 (min s MAX_RETRY_AFTER_SECONDS))
      | _ \<Rightarrow> None)"

definition parse_retry_after :: "string \<Rightarrow> rat option" where
  "parse_retry_after reason = (if reason = [] then None
     else retry_after_of (split_char (CHR '';'') (replace_char (CHR '','') (CHR '';'') reason)))"

text \<open>\<open>random.uniform(0, wait)\<close> is \<open>wait\<close> times a number from the unit interval.\<close>

definition apply_jitter :: "rat \<Rightarrow> rat \<Rightarrow> rat" where
  "apply_jitter u wait = (if wait \<le> 0 then 0 else wait * u)"

section \<open>The loop\<close>

datatype conn_end =
    Returned
  | Fatal
  | EnrollmentRejected
  | ConnectionClosed int string
  | OtherFailure

text \<open>A connection: whether a welcome came, and how it ended.\<close>

record connection =
  cn_established :: bool
  cn_end :: conn_end

record turn =
  tn_jitter :: rat
  tn_stop :: bool
  tn_connection :: connection

datatype client_state = Looping nat "rat option" | Ended

definition wait_before :: "nat \<Rightarrow> rat option \<Rightarrow> rat \<Rightarrow> rat" where
  "wait_before attempt hint u = (case hint of Some h \<Rightarrow> h
     | None \<Rightarrow> apply_jitter u (BACKOFF_SCHEDULE ! min attempt (length BACKOFF_SCHEDULE - 1)))"

definition after_connection :: "nat \<Rightarrow> connection \<Rightarrow> client_state" where
  "after_connection attempt c = (case cn_end c of
     Returned \<Rightarrow> Looping 0 None
   | Fatal \<Rightarrow> Ended
   | EnrollmentRejected \<Rightarrow> Looping (attempt + 1) None
   | ConnectionClosed code reason \<Rightarrow>
       if code = 1012 then Looping 0 (parse_retry_after reason)
       else if code = 1008 then Looping (attempt + 1) None
       else Looping (if cn_established c then 1 else attempt + 1) (parse_retry_after reason)
   | OtherFailure \<Rightarrow> Looping (if cn_established c then 1 else attempt + 1) None)"

text \<open>One turn: the stop signal is seen before the wait and during it.\<close>

definition client_turn :: "turn \<Rightarrow> client_state \<Rightarrow> client_state" where
  "client_turn t st = (case st of Ended \<Rightarrow> Ended
     | Looping attempt hint \<Rightarrow> if tn_stop t then Ended else after_connection attempt (tn_connection t))"

definition client_run :: "(nat \<Rightarrow> turn) \<Rightarrow> nat \<Rightarrow> client_state" where
  "client_run turns n = fold (\<lambda>i. client_turn (turns i)) [0..<n] (Looping 0 None)"

text \<open>The delay of a turn.\<close>

definition turn_wait :: "turn \<Rightarrow> client_state \<Rightarrow> rat" where
  "turn_wait t st = (case st of Ended \<Rightarrow> 0 | Looping attempt hint \<Rightarrow> wait_before attempt hint (tn_jitter t))"

end
