(* ===== verification/Credentials.thy ===== *)
theory Credentials
  imports JsonParse Paths
begin

text \<open>
  The host's credential (\<open>identity.py\<close>, \<open>rotation.py\<close>, the rotation in \<open>client.py\<close>). A file is what
  reading it gives: a text that is no JSON, a JSON value, an encoding error, or an \<open>OSError\<close>.
  Times are whole seconds and the numbers of a claim are integers. The hub's answer to a rotation
  request is a parameter.
\<close>

record identity =
  id_host :: string
  id_token :: string
  id_hub :: string

datatype identity_exn = IdentityError string | IdentityRaised py_exn

datatype file_read = ReadFails | NotUtf8 | NotJson | JsonFile pyval

section \<open>The enrolled identity\<close>

definition is_ascii :: "string \<Rightarrow> bool" where
  "is_ascii s \<longleftrightarrow> list_all (\<lambda>c. (of_char c :: nat) < 128) s"

definition validate_token :: "string \<Rightarrow> (identity_exn, string) result" where
  "validate_token token =
     rbind (guard (token \<noteq> []) (IdentityError ''empty'')) (\<lambda>_.
     rbind (guard (is_ascii token) (IdentityError ''non-ASCII'')) (\<lambda>_.
     rbind (guard (\<not> list_ex py_space token) (IdentityError ''whitespace'')) (\<lambda>_.
     rbind (guard (length (split_char (CHR ''.'') token) = 3 \<and> list_all (\<lambda>w. w \<noteq> []) (split_char (CHR ''.'') token))
       (IdentityError ''not well-formed'')) (\<lambda>_.
     Inr token))))"

fun sublist_at :: "string \<Rightarrow> string \<Rightarrow> bool" where
  "sublist_at w [] = (w = [])"
| "sublist_at w (c # cs) = (startswith (c # cs) w \<or> sublist_at w cs)"

text \<open>\<open>key in data\<close>.\<close>

definition py_in :: "string \<Rightarrow> pyval \<Rightarrow> bool py" where
  "py_in k v = (case v of
     VDict d \<Rightarrow> Inr (k \<in> set (keys d)) | VList vs \<Rightarrow> Inr (VStr k \<in> set vs) | VStr s \<Rightarrow> Inr (sublist_at k s)
   | _ \<Rightarrow> Inl TypeError)"

fun required_fields :: "string list \<Rightarrow> pyval \<Rightarrow> (identity_exn, unit) result" where
  "required_fields [] data = Inr ()"
| "required_fields (k # ks) data = (case py_in k data of
     Inl e \<Rightarrow> Inl (IdentityRaised e)
   | Inr b \<Rightarrow> if b then required_fields ks data else Inl (IdentityError (''identity file missing field: '' @ k)))"

definition load_identity :: "file_read option \<Rightarrow> (identity_exn, identity) result" where
  "load_identity file = (case file of
     None \<Rightarrow> Inl (IdentityError ''identity file not found'')
   | Some NotUtf8 \<Rightarrow> Inl (IdentityRaised ValueError)
   | Some (JsonFile data) \<Rightarrow>
       rbind (required_fields [''host_id'', ''token'', ''hub''] data) (\<lambda>_. case data of
         VDict d \<Rightarrow> rbind (validate_token (strip (py_str (dget d ''token'')))) (\<lambda>token.
           Inr \<lparr>id_host = strip (py_str (dget d ''host_id'')), id_token = token, id_hub = strip (py_str (dget d ''hub''))\<rparr>)
       | _ \<Rightarrow> Inl (IdentityRaised TypeError))
   | _ \<Rightarrow> Inl (IdentityError ''could not read''))"

section \<open>Claims\<close>

text \<open>
  \<open>base64.urlsafe_b64decode\<close>: characters outside the alphabet are skipped; the bytes come six
  bits at a time. \<open>quad\<close> counts the characters of the current group, \<open>bits\<close> are the ones left.
\<close>

definition b64_value :: "char \<Rightarrow> nat option" where
  "b64_value c = (let n = of_char c :: nat in
     if 65 \<le> n \<and> n \<le> 90 then Some (n - 65) else if 97 \<le> n \<and> n \<le> 122 then Some (n - 71)
     else if is_digit c then Some (n + 4) else if c \<in> {CHR ''-'', CHR ''+''} then Some 62
     else if c \<in> {CHR ''_'', CHR ''/''} then Some 63 else None)"

fun b64_decode :: "nat \<Rightarrow> nat \<Rightarrow> nat \<Rightarrow> string \<Rightarrow> string \<Rightarrow> string option" where
  "b64_decode quad pads bits acc [] = (if quad = 0 then Some (rev acc) else None)"
| "b64_decode quad pads bits acc (c # cs) =
     (if c = CHR ''='' then
        (if 2 \<le> quad \<and> 4 \<le> quad + pads + 1 then Some (rev acc) else b64_decode quad (if 2 \<le> quad then pads + 1 else pads) bits acc cs)
      else case b64_value c of
        None \<Rightarrow> b64_decode quad pads bits acc cs
      | Some v \<Rightarrow>
          if quad = 0 then b64_decode 1 0 v acc cs
          else if quad = 1 then b64_decode 2 0 (v mod 16) (char_of (bits * 4 + v div 16) # acc) cs
          else if quad = 2 then b64_decode 3 0 (v mod 4) (char_of (bits * 16 + v div 4) # acc) cs
          else b64_decode 0 0 0 (char_of (bits * 64 + v) # acc) cs)"

definition b64_pad :: "string \<Rightarrow> string" where
  "b64_pad seg = seg @ replicate (nat ((- int (length seg)) mod 4)) (CHR ''='')"

definition token_claims :: "string \<Rightarrow> pyval" where
  "token_claims token = (let ws = split_char (CHR ''.'') token in
     if length ws < 2 then VDict [] else
     case b64_decode 0 0 0 [] (b64_pad (ws ! 1)) of
       None \<Rightarrow> VDict []
     | Some bytes \<Rightarrow> (case json_loads bytes of None \<Rightarrow> VDict [] | Some v \<Rightarrow> v))"

text \<open>\<open>_claims(token).get(k)\<close>: a payload that is not an object has no \<open>get\<close>.\<close>

definition claim :: "string \<Rightarrow> string \<Rightarrow> pyval py" where
  "claim token k = (case token_claims token of VDict d \<Rightarrow> Inr (dget d k) | _ \<Rightarrow> Inl AttributeError)"

definition claim_number :: "pyval \<Rightarrow> int option" where
  "claim_number v = (case v of VInt i \<Rightarrow> Some i | VBool b \<Rightarrow> Some (if b then 1 else 0) | _ \<Rightarrow> None)"

section \<open>The effective identity\<close>

definition rotated_path :: "(path \<Rightarrow> bool) \<Rightarrow> path \<Rightarrow> path option" where
  "rotated_path writable identity_path =
     (let var = Path True [''var'', ''lib'', ''sentinelx'']; beside = path_parent identity_path in
      if writable var then Some (path_child var ''identity.rotated.json'')
      else if writable beside then Some (path_child beside ''identity.rotated.json'') else None)"

definition load_effective_identity :: "int \<Rightarrow> file_read option \<Rightarrow> identity \<Rightarrow> identity py" where
  "load_effective_identity now rotated base = (case rotated of
     Some (JsonFile data) \<Rightarrow> (case data of
         VDict d \<Rightarrow>
           if ''token'' \<notin> set (keys d) then Inr base else
           (let token = strip (py_str (dget d ''token''));
                host = strip (py_str (py_or (dget d ''host_id'') (VStr (id_host base)))) in
            rbind (claim token ''exp'') (\<lambda>e. case claim_number e of
              None \<Rightarrow> Inr base
            | Some exp \<Rightarrow> if exp \<le> now then Inr base else if host \<noteq> id_host base then Inr base
                else Inr \<lparr>id_host = host, id_token = token, id_hub = id_hub base\<rparr>))
       | _ \<Rightarrow> Inl TypeError)
   | _ \<Rightarrow> Inr base)"

section \<open>Rotation\<close>

definition should_rotate :: "int \<Rightarrow> string \<Rightarrow> bool py" where
  "should_rotate now token =
     rbind (claim token ''exp'') (\<lambda>e. rbind (claim token ''iat'') (\<lambda>i.
     Inr (case claim_number e of
       None \<Rightarrow> False
     | Some exp \<Rightarrow> (case claim_number i of
         Some iat \<Rightarrow> 2 * now \<ge> 2 * iat + (exp - iat)
       | None \<Rightarrow> exp - now < 182 * 86400))))"

text \<open>How far writing the new credential gets; the process may die at any point.\<close>

datatype persist_end = Persisted | PersistFails | DiesUnwritten | DiesWritten

definition persist_rotated :: "path option \<Rightarrow> persist_end \<Rightarrow> string \<Rightarrow> string \<Rightarrow> string \<Rightarrow> file_read option \<Rightarrow> bool option \<times> file_read option" where
  "persist_rotated rp ending host token hub st =
     (let new = Some (JsonFile (VDict [(''host_id'', VStr host), (''token'', VStr token), (''hub'', VStr hub)])) in
      case rp of None \<Rightarrow> (Some False, st)
      | Some _ \<Rightarrow> (case ending of Persisted \<Rightarrow> (Some True, new) | PersistFails \<Rightarrow> (Some False, st)
          | DiesUnwritten \<Rightarrow> (None, st) | DiesWritten \<Rightarrow> (None, new)))"

text \<open>The hub's answer: the body, or nothing when the request failed.\<close>

definition rotated_credential :: "pyval option \<Rightarrow> string option" where
  "rotated_credential body = (case body of
     Some (VDict d) \<Rightarrow> (case dget d ''credential'' of
         VStr cred \<Rightarrow> if length (filter (\<lambda>c. c = CHR ''.'') cred) = 2 then Some cred else None
       | _ \<Rightarrow> None)
   | _ \<Rightarrow> None)"

text \<open>The rotation of a session: any failure is logged. The running client keeps its identity.\<close>

definition maybe_rotate_credential ::
  "path option \<Rightarrow> int \<Rightarrow> identity \<Rightarrow> pyval option \<Rightarrow> persist_end \<Rightarrow> file_read option \<Rightarrow> file_read option" where
  "maybe_rotate_credential rp now me body ending st =
     (if should_rotate now (id_token me) \<noteq> Inr True then st else
      case rotated_credential body of
        None \<Rightarrow> st | Some cred \<Rightarrow> if cred = [] then st else snd (persist_rotated rp ending (id_host me) cred (id_hub me) st))"

end
