(* ===== verification/SessionProps.thy ===== *)
theory SessionProps
  imports HubSession Credentials
begin

text \<open>
  The agent stays connected: the loop of the client never gives up and never waits long, and a
  rotation of the credential leaves the host with one that it can connect with.
\<close>

section \<open>Delays\<close>

lemma retry_after_bounded: "retry_after_of ws = Some h \<Longrightarrow> 0 \<le> h \<and> h \<le> MAX_RETRY_AFTER_SECONDS"
  by (induction ws) (auto simp: Let_def MAX_RETRY_AFTER_SECONDS_def split: if_splits option.splits pyfloat.splits)

lemma parse_retry_after_bounded: "parse_retry_after r = Some h \<Longrightarrow> 0 \<le> h \<and> h \<le> 300"
  using retry_after_bounded by (auto simp: parse_retry_after_def MAX_RETRY_AFTER_SECONDS_def split: if_splits)

lemma jitter_bounded: "0 \<le> u \<Longrightarrow> u \<le> 1 \<Longrightarrow> 0 \<le> w \<Longrightarrow> 0 \<le> apply_jitter u w \<and> apply_jitter u w \<le> w"
  by (auto simp: apply_jitter_def mult_left_le)

lemma backoff_bounded: "0 \<le> BACKOFF_SCHEDULE ! min a (length BACKOFF_SCHEDULE - 1) \<and> BACKOFF_SCHEDULE ! min a (length BACKOFF_SCHEDULE - 1) \<le> 300"
proof -
  have "BACKOFF_SCHEDULE ! min a (length BACKOFF_SCHEDULE - 1) \<in> set BACKOFF_SCHEDULE"
    by (rule nth_mem) (simp add: BACKOFF_SCHEDULE_def)
  then show ?thesis by (auto simp: BACKOFF_SCHEDULE_def)
qed

text \<open>A hint that the loop holds came from the hub.\<close>

definition sane :: "nat \<Rightarrow> client_state \<Rightarrow> bool" where
  "sane n st \<longleftrightarrow> (\<exists>a h. st = Looping a h \<and> a \<le> n \<and> (\<forall>w. h = Some w \<longrightarrow> 0 \<le> w \<and> w \<le> 300))"

lemma wait_bounded:
  assumes "sane n st" "0 \<le> tn_jitter t" "tn_jitter t \<le> 1" shows "0 \<le> turn_wait t st \<and> turn_wait t st \<le> 300"
proof -
  obtain a h where st: "st = Looping a h" "\<forall>w. h = Some w \<longrightarrow> 0 \<le> w \<and> w \<le> 300" using assms(1) by (auto simp: sane_def)
  show ?thesis
  proof (cases h)
    case None
    with st jitter_bounded[OF assms(2,3)] backoff_bounded[of a] show ?thesis
      by (fastforce simp: turn_wait_def wait_before_def)
  qed (use st in \<open>simp add: turn_wait_def wait_before_def\<close>)
qed

lemma client_run_steps [simp]:
  "client_run turns 0 = Looping 0 None" "client_run turns (Suc n) = client_turn (turns n) (client_run turns n)"
  by (simp_all add: client_run_def)

lemma turn_sane:
  assumes "sane n st" "\<not> tn_stop t" "cn_end (tn_connection t) \<noteq> Fatal" shows "sane (Suc n) (client_turn t st)"
  using assms parse_retry_after_bounded
  by (auto simp: sane_def client_turn_def after_connection_def split: conn_end.splits)

lemma run_sane:
  assumes "\<forall>j<n. \<not> tn_stop (turns j) \<and> cn_end (tn_connection (turns j)) \<noteq> Fatal" shows "sane n (client_run turns n)"
  using assms
proof (induction n)
  case 0
  then show ?case by (simp add: sane_def)
next
  case (Suc n)
  then show ?case using turn_sane by simp
qed

lemma waits_add_up:
  assumes "\<forall>j<n. \<not> tn_stop (turns j) \<and> cn_end (tn_connection (turns j)) \<noteq> Fatal"
    and "\<forall>j. 0 \<le> tn_jitter (turns j) \<and> tn_jitter (turns j) \<le> 1"
  shows "(\<Sum>j\<le>n. turn_wait (turns j) (client_run turns j)) \<le> 300 * of_nat n"
  using assms(1)
proof (induction n)
  case 0
  then show ?case by (simp add: turn_wait_def wait_before_def apply_jitter_def BACKOFF_SCHEDULE_def)
next
  case (Suc n)
  have "turn_wait (turns (Suc n)) (client_run turns (Suc n)) \<le> 300"
    using wait_bounded[OF run_sane[OF Suc.prems]] assms(2) by blast
  with Suc show ?case by (simp add: algebra_simps)
qed

text \<open>
  C12: the agent stays connected. As long as nobody stops it and the hub does not send a fatal
  error, the loop goes on whatever happens to the connections, and before the connection number
  n it has waited at most five minutes for each one before it, however the hub words its hints.
  A hub that announces a restart is contacted again at once, or when it asked to be, and an
  established session that breaks without a hint is resumed within a second.
\<close>

theorem client_keeps_connecting:
  assumes "\<forall>j<n. \<not> tn_stop (turns j) \<and> cn_end (tn_connection (turns j)) \<noteq> Fatal"
    and "\<forall>j. 0 \<le> tn_jitter (turns j) \<and> tn_jitter (turns j) \<le> 1"
  shows "client_run turns n \<noteq> Ended
    \<and> (\<Sum>j\<le>n. turn_wait (turns j) (client_run turns j)) \<le> 300 * of_nat n
    \<and> (\<forall>r. 0 < n \<and> cn_end (tn_connection (turns (n - 1))) = ConnectionClosed 1012 r \<longrightarrow>
         turn_wait (turns n) (client_run turns n) = (case parse_retry_after r of None \<Rightarrow> 0 | Some h \<Rightarrow> h))
    \<and> (\<forall>code r. 0 < n \<and> cn_established (tn_connection (turns (n - 1))) \<and> code \<noteq> 1008 \<and> parse_retry_after r = None
         \<and> cn_end (tn_connection (turns (n - 1))) \<in> {OtherFailure, ConnectionClosed code r} \<longrightarrow>
         turn_wait (turns n) (client_run turns n) \<le> 1)"
proof -
  have last: "\<exists>a. client_run turns n = after_connection a (tn_connection (turns (n - 1)))" if n: "0 < n"
  proof -
    obtain m where m: "n = Suc m" using n by (cases n) auto
    then have "sane m (client_run turns m)" using run_sane[of m turns] assms(1) by simp
    with m assms(1) show ?thesis by (auto simp: sane_def client_turn_def)
  qed
  have "client_run turns n \<noteq> Ended" using run_sane[OF assms(1)] by (auto simp: sane_def)
  moreover have "turn_wait (turns n) (client_run turns n) = (case parse_retry_after r of None \<Rightarrow> 0 | Some h \<Rightarrow> h)"
    if n: "0 < n" "cn_end (tn_connection (turns (n - 1))) = ConnectionClosed 1012 r" for r
    using last[OF n(1)] n(2)
    by (auto simp: after_connection_def turn_wait_def wait_before_def BACKOFF_SCHEDULE_def apply_jitter_def split: option.splits)
  moreover have "turn_wait (turns n) (client_run turns n) \<le> 1"
    if n: "0 < n" "cn_established (tn_connection (turns (n - 1)))" "code \<noteq> 1008" "parse_retry_after r = None"
      "cn_end (tn_connection (turns (n - 1))) \<in> {OtherFailure, ConnectionClosed code r}" for code r
    using last[OF n(1)] n(2-5) assms(2)
    by (auto simp: after_connection_def turn_wait_def wait_before_def BACKOFF_SCHEDULE_def apply_jitter_def)
  ultimately show ?thesis using waits_add_up[OF assms] by blast
qed

text \<open>A session that breaks, a connection that fails, and then a restart of the hub that asks for 37 seconds.\<close>

definition sample_turns :: "nat \<Rightarrow> turn" where
  "sample_turns i = \<lparr>tn_jitter = 1 / 2, tn_stop = False, tn_connection =
     (if i = 0 then \<lparr>cn_established = True, cn_end = OtherFailure\<rparr>
      else if i = 1 then \<lparr>cn_established = False, cn_end = OtherFailure\<rparr>
      else \<lparr>cn_established = True, cn_end = ConnectionClosed 1012 ''hub_shutdown;retry_after=37''\<rparr>)\<rparr>"

lemma sample_hint: "parse_retry_after ''hub_shutdown;retry_after=37'' = Some 37"
proof -
  have parts: "split_char (CHR '';'') (replace_char (CHR '','') (CHR '';'') ''hub_shutdown;retry_after=37'')
    = [''hub_shutdown'', ''retry_after=37'']" by code_simp
  have texts: "strip ''37'' = ''37''" "strip ''hub_shutdown'' = ''hub_shutdown''" "strip ''retry_after=37'' = ''retry_after=37''"
    "strip ''retry_after'' = ''retry_after''" "casefold ''37'' \<notin> {''inf'', ''infinity'', ''nan''}" by code_simp+
  have number: "decimal_of ''37'' = Some 37" by code_simp
  have "read_float ''37'' = Some (Finite 37)"
    using texts(5) by (simp add: read_float_def texts(1) startswith_def number largest_double_bound_def)
  then show ?thesis
    by (simp add: parse_retry_after_def parts texts MAX_RETRY_AFTER_SECONDS_def)
qed

theorem client_keeps_connecting_witness:
  "client_run sample_turns 3 \<noteq> Ended \<and> turn_wait (sample_turns 3) (client_run sample_turns 3) = 37
     \<and> turn_wait (sample_turns 1) (client_run sample_turns 1) \<le> 1"
proof -
  have calm: "\<forall>j<n. \<not> tn_stop (sample_turns j) \<and> cn_end (tn_connection (sample_turns j)) \<noteq> Fatal" for n
    by (simp add: sample_turns_def)
  have unit: "\<forall>j. 0 \<le> tn_jitter (sample_turns j) \<and> tn_jitter (sample_turns j) \<le> 1" by (simp add: sample_turns_def)
  have ends: "cn_end (tn_connection (sample_turns (3 - 1))) = ConnectionClosed 1012 ''hub_shutdown;retry_after=37''"
    "cn_established (tn_connection (sample_turns (1 - 1)))" "cn_end (tn_connection (sample_turns (1 - 1))) = OtherFailure"
    by (simp_all add: sample_turns_def)
  have none: "parse_retry_after [] = None" by (simp add: parse_retry_after_def)
  note three = client_keeps_connecting[OF calm unit, of 3] and one = client_keeps_connecting[OF calm unit, of 1]
  from three have "client_run sample_turns 3 \<noteq> Ended" by blast
  moreover from three ends(1) have "turn_wait (sample_turns 3) (client_run sample_turns 3)
    = (case parse_retry_after ''hub_shutdown;retry_after=37'' of None \<Rightarrow> 0 | Some h \<Rightarrow> h)" by (meson zero_less_numeral)
  moreover have "turn_wait (sample_turns 1) (client_run sample_turns 1) \<le> 1"
    using one[THEN conjunct2, THEN conjunct2, THEN conjunct2, rule_format, of 0 "[]"] ends(2,3) none by simp
  ultimately show ?thesis by (simp only: sample_hint option.case simp_thms)
qed

section \<open>Credentials\<close>

lemma claim_of: "claim token k = (case token_claims token of VDict d \<Rightarrow> Inr (dget d k) | _ \<Rightarrow> Inl AttributeError)"
  by (rule claim_def)



definition old_token :: string where "old_token = ''h.eyJleHAiOjIwMDAsImlhdCI6MH0.s''"


definition enrolled :: identity where
  "enrolled = \<lparr>id_host = ''host'', id_token = old_token, id_hub = ''https://hub''\<rparr>"

abbreviation hub_answer :: "string \<Rightarrow> pyval option" where
  "hub_answer cred \<equiv> Some (VDict [(''credential'', VStr cred)])"



section \<open>Where rotation falls short\<close>

text \<open>
  A rotated file that is JSON but no object, or a credential whose payload is no object, raises
  at every start, although any doubt is to fall back to the enrolled identity. The check of the
  hub's answer lets such a credential through.
\<close>

lemma odd_rotated_file_raises: "load_effective_identity 5000 (Some (JsonFile (VList []))) enrolled = Inl TypeError"
  by code_simp

lemma odd_credential_strands:
  "load_effective_identity 5000 (maybe_rotate_credential (Some (Path True [])) 1000 enrolled (hub_answer ''h.MTIz.s'') Persisted None) enrolled
     = Inl AttributeError"
  by code_simp

text \<open>An identity file whose bytes are no UTF-8, or that holds a number, escapes the error for bad files.\<close>

lemma bad_identity_file_raises:
  "load_identity (Some NotUtf8) = Inl (IdentityRaised ValueError)"
  "load_identity (Some (JsonFile (VInt 1))) = Inl (IdentityRaised TypeError)"
  by code_simp+

text \<open>
  The running client keeps its old credential: it is not effective on the next reconnect, where
  the client presents the old one again and rotates again.
\<close>

lemma client_rotates_again:
  assumes "should_rotate now (id_token me) = Inr True" "now \<le> later"
    and "claim (id_token me) ''exp'' = Inr (VInt e)" "claim (id_token me) ''iat'' = Inr (VInt i)"
  shows "should_rotate later (id_token me) = Inr True"
  using assms by (simp add: should_rotate_def claim_number_def)

end
