(* ===== verification/OperationRegistry.thy ===== *)
theory OperationRegistry
  imports AgentPolicy Firewall
begin

text \<open>
  What every operation of the agent may do to a repository, and when the agent may claim that
  none of them can reach a canonical one (\<open>operation_registry.py\<close>). Handlers are left out: the
  dispatch surface is the list of operation names. A built-in endpoint provider answers for its
  own actions and is a parameter.
\<close>

section \<open>Effects\<close>

datatype exposure = ModelFacing | Internal

datatype repository_effect =
    ReadOnly | NonRepositoryMutation | StructuredMutation | ProcessMutation | MixedEffect | UnknownEffect

datatype coverage = NotRequired | Proven | Unproven

record resolution =
  rs_effect :: repository_effect
  rs_coverage :: coverage
  rs_selector :: "string option"
  rs_reason :: "string option"

definition effect_text :: "repository_effect \<Rightarrow> string" where
  "effect_text e = (case e of ReadOnly \<Rightarrow> ''read_only'' | NonRepositoryMutation \<Rightarrow> ''non_repository_mutation''
     | StructuredMutation \<Rightarrow> ''structured_mutation'' | ProcessMutation \<Rightarrow> ''process_mutation''
     | MixedEffect \<Rightarrow> ''mixed'' | UnknownEffect \<Rightarrow> ''unknown'')"

definition effect_of_text :: "string \<Rightarrow> repository_effect" where
  "effect_of_text s = (case List.find (\<lambda>e. effect_text e = s)
     [ReadOnly, NonRepositoryMutation, StructuredMutation, ProcessMutation, MixedEffect, UnknownEffect] of
       None \<Rightarrow> UnknownEffect | Some e \<Rightarrow> e)"

definition resolved :: "repository_effect \<Rightarrow> coverage \<Rightarrow> string \<Rightarrow> string option \<Rightarrow> resolution" where
  "resolved e c selector reason = \<lparr>rs_effect = e, rs_coverage = c, rs_selector = Some selector, rs_reason = reason\<rparr>"

abbreviation unknown_effect :: "string \<Rightarrow> string \<Rightarrow> resolution" where
  "unknown_effect selector reason \<equiv> resolved UnknownEffect Unproven selector (Some reason)"

definition resolution_ready :: "resolution \<Rightarrow> bool" where
  "resolution_ready r = (if rs_effect r \<in> {UnknownEffect, MixedEffect} then False
     else if rs_effect r \<in> {StructuredMutation, ProcessMutation} then rs_coverage r = Proven else True)"

section \<open>The registry\<close>

type_synonym classifier = "(string \<times> pyval) list \<Rightarrow> resolution"

record registration =
  or_exposure :: exposure
  or_effect :: repository_effect
  or_coverage :: coverage
  or_classifier :: "classifier option"
  or_inventory :: "resolution list option"

type_synonym registry = "(string \<times> registration) list"

definition register :: "string \<Rightarrow> registration \<Rightarrow> registry \<Rightarrow> registry py" where
  "register name r reg = (if or_effect r = MixedEffect \<and> or_classifier r = None then Inl ValueError
     else Inr (AList.update name r reg))"

definition resolve_effect :: "registry \<Rightarrow> string \<Rightarrow> (string \<times> pyval) list \<Rightarrow> resolution" where
  "resolve_effect reg name payload = (case map_of reg name of
     None \<Rightarrow> unknown_effect name ''operation_not_registered''
   | Some r \<Rightarrow> if or_effect r \<noteq> MixedEffect then resolved (or_effect r) (or_coverage r) name None
       else case or_classifier r of None \<Rightarrow> unknown_effect name [] | Some f \<Rightarrow> f payload)"

definition or_text :: "string option \<Rightarrow> string \<Rightarrow> string" where
  "or_text x d = (case x of None \<Rightarrow> d | Some s \<Rightarrow> if s = [] then d else s)"

definition inventory_reasons :: "string \<Rightarrow> resolution list \<Rightarrow> string list" where
  "inventory_reasons name rs = map (\<lambda>r. name @ ''/'' @ or_text (rs_selector r) ''unknown'' @ '':'' @ or_text (rs_reason r) (effect_text (rs_effect r)))
     (filter (\<lambda>r. \<not> resolution_ready r) rs)"

definition registration_reasons :: "string \<times> registration \<Rightarrow> string list" where
  "registration_reasons x = (case x of (name, r) \<Rightarrow>
     if or_exposure r = Internal then []
     else if or_effect r = MixedEffect then
       (case or_inventory r of
          None \<Rightarrow> [name @ '':mixed_effect_inventory_missing'']
        | Some [] \<Rightarrow> [name @ '':mixed_effect_inventory_empty'']
        | Some rs \<Rightarrow> inventory_reasons name rs)
     else if resolution_ready (resolved (or_effect r) (or_coverage r) name None) then []
     else [name @ '':'' @ effect_text (or_effect r)])"

definition surface_reasons :: "registry \<Rightarrow> string list" where
  "surface_reasons reg = concat (map registration_reasons reg)"

section \<open>Scripts\<close>

definition script_run_profile :: "(string \<times> pyval) list \<Rightarrow> (string, string option) result" where
  "script_run_profile payload =
     (let nested = (case dget payload ''mutation'' of VDict m \<Rightarrow> dget m ''execution_profile'' | _ \<Rightarrow> VNull);
          direct = dget payload ''execution_profile'' in
      if nested \<noteq> VNull \<and> direct \<noteq> VNull \<and> nested \<noteq> direct then Inl ''conflicting_execution_profile''
      else case (if nested \<noteq> VNull then nested else direct) of
        VNull \<Rightarrow> Inr None
      | VStr s \<Rightarrow> if strip s = [] then Inl ''invalid_execution_profile'' else Inr (Some (strip s))
      | _ \<Rightarrow> Inl ''invalid_execution_profile'')"

definition operator_process :: resolution where
  "operator_process = resolved ProcessMutation Unproven ''operator_unrestricted'' (Some ''operator_unrestricted_process_uncontained'')"

definition legacy_process :: resolution where
  "legacy_process = resolved ProcessMutation Unproven ''legacy_unprofiled'' (Some ''legacy_unprofiled_process_uncontained'')"

definition scoped_process :: resolution where
  "scoped_process = resolved ProcessMutation Proven ''scoped_mutation'' None"

definition classify_script_run :: "mutation_policy \<Rightarrow> classifier" where
  "classify_script_run p payload = (case script_run_profile payload of
     Inl error \<Rightarrow> unknown_effect ''script_run/profile'' error
   | Inr None \<Rightarrow> if mp_configured p then unknown_effect ''missing'' ''execution_profile_required'' else legacy_process
   | Inr (Some profile) \<Rightarrow>
       if profile = ''scoped_mutation'' then
         (if mp_configured p \<and> mp_scoped_mutation_enabled p then scoped_process
          else unknown_effect ''scoped_mutation'' ''scoped_mutation_profile_unavailable'')
       else if profile = ''operator_unrestricted'' then
         (if mp_configured p \<and> mp_operator_unrestricted_enabled p then operator_process
          else unknown_effect ''operator_unrestricted'' ''operator_unrestricted_disabled'')
       else unknown_effect profile ''unknown_script_run_execution_profile'')"

definition script_run_inventory :: "mutation_policy \<Rightarrow> resolution list" where
  "script_run_inventory p =
     (if \<not> mp_configured p then [legacy_process] else
      let rs = (if mp_scoped_mutation_enabled p then [scoped_process] else [])
             @ (if mp_operator_unrestricted_enabled p then [operator_process] else []) in
      if rs = [] then [unknown_effect ''no_effective_profile'' ''script_run_process_profile_unavailable''] else rs)"

section \<open>Git\<close>

definition git_effects :: "(string \<times> resolution) list" where
  "git_effects = [(''diff'', resolved ReadOnly NotRequired ''diff'' None),
     (''ls_remote'', resolved ReadOnly NotRequired ''ls_remote'' None),
     (''apply_patch'', resolved StructuredMutation Proven ''apply_patch'' None),
     (''fetch'', resolved StructuredMutation Proven ''fetch'' None),
     (''clone'', resolved StructuredMutation Proven ''clone'' None),
     (''push'', resolved NonRepositoryMutation NotRequired ''push'' None)]"

definition classify_git_effect :: classifier where
  "classify_git_effect payload =
     (let operation = text_or_empty (dget payload ''operation'') in
      if operation = ''apply_patch'' \<and> truthy (dget payload ''dry_run'') then resolved ReadOnly NotRequired ''apply_patch:dry_run'' None
      else case map_of git_effects operation of
        Some r \<Rightarrow> r
      | None \<Rightarrow> unknown_effect (if operation = [] then ''missing'' else operation) ''unknown_git_selector'')"

definition git_effect_inventory :: "resolution list" where
  "git_effect_inventory = map snd (sorted_items git_effects)"

section \<open>Local endpoints\<close>

datatype provider_answer = Answers resolution | AnswersOtherwise | ProviderRaises

record builtin_provider =
  bp_effect :: "(string \<Rightarrow> provider_answer) option"
  bp_actions :: "string list option"

definition configured_effect :: "local_api_endpoint \<Rightarrow> local_api_action \<Rightarrow> string \<Rightarrow> resolution" where
  "configured_effect endpoint action selector =
     (if or_text (le_run_as endpoint) [] \<noteq> [] then resolved ProcessMutation Unproven selector (Some ''external_local_api_run_as_unproven'')
      else let effect = (case la_repository_effect action of None \<Rightarrow> UnknownEffect | Some s \<Rightarrow> effect_of_text s) in
        resolved effect (if effect \<in> {ReadOnly, NonRepositoryMutation} then NotRequired else Unproven) selector
          (if effect = UnknownEffect then Some ''external_local_api_effect_unknown'' else None))"

definition builtin_effect :: "builtin_provider \<Rightarrow> string \<Rightarrow> string \<Rightarrow> resolution" where
  "builtin_effect provider action selector = (case bp_effect provider of
     None \<Rightarrow> unknown_effect selector ''builtin_effect_metadata_unavailable''
   | Some f \<Rightarrow> (case f action of
       Answers r \<Rightarrow> resolved (rs_effect r) (rs_coverage r) selector (rs_reason r)
     | _ \<Rightarrow> unknown_effect selector ''builtin_effect_metadata_invalid''))"

type_synonym builtins = "(string \<times> builtin_provider) list"

definition classify_local_api :: "policy \<Rightarrow> builtins \<Rightarrow> classifier" where
  "classify_local_api p builtins payload =
     (let operation = text_or_empty (dget payload ''operation'') in
      if operation \<in> {''list'', ''describe''} then resolved ReadOnly NotRequired operation None
      else if operation \<noteq> ''call'' then
        unknown_effect (if operation = [] then ''missing'' else operation) ''unknown_local_api_operation''
      else
        let endpoint_name = text_or_empty (dget payload ''endpoint''); action_name = text_or_empty (dget payload ''action'');
            selector = (if endpoint_name = [] then ''missing'' else endpoint_name) @ ''/'' @ (if action_name = [] then ''missing'' else action_name) in
        case map_of (pol_local_apis p) endpoint_name of
          Some endpoint \<Rightarrow> (case map_of (le_actions endpoint) action_name of
              None \<Rightarrow> unknown_effect selector ''configured_local_api_action_unknown''
            | Some action \<Rightarrow> configured_effect endpoint action selector)
        | None \<Rightarrow> (case map_of builtins endpoint_name of
              Some provider \<Rightarrow> builtin_effect provider action_name selector
            | None \<Rightarrow> unknown_effect selector ''local_api_endpoint_unknown''))"

definition endpoint_inventory :: "string \<times> local_api_endpoint \<Rightarrow> resolution list" where
  "endpoint_inventory x = (case x of (name, endpoint) \<Rightarrow>
     map (\<lambda>(action_name, action). configured_effect endpoint action (name @ ''/'' @ action_name)) (sorted_items (le_actions endpoint)))"

definition builtin_inventory :: "policy \<Rightarrow> string \<times> builtin_provider \<Rightarrow> resolution list" where
  "builtin_inventory p x = (case x of (name, provider) \<Rightarrow>
     if name \<in> set (keys (pol_local_apis p)) then [] else case bp_actions provider of
       None \<Rightarrow> [unknown_effect (name @ ''/unknown'') ''builtin_action_inventory_unavailable'']
     | Some actions \<Rightarrow> map (\<lambda>a. builtin_effect provider a (name @ ''/'' @ a)) actions)"

definition local_api_inventory :: "policy \<Rightarrow> builtins \<Rightarrow> resolution list" where
  "local_api_inventory p builtins =
     [resolved ReadOnly NotRequired ''list'' None, resolved ReadOnly NotRequired ''describe'' None]
     @ concat (map endpoint_inventory (sorted_items (pol_local_apis p)))
     @ concat (map (builtin_inventory p) (sorted_items builtins))"

section \<open>The effective surface\<close>

definition plain_registration :: "exposure \<Rightarrow> repository_effect \<Rightarrow> coverage \<Rightarrow> registration" where
  "plain_registration x e c = \<lparr>or_exposure = x, or_effect = e, or_coverage = c, or_classifier = None, or_inventory = None\<rparr>"

definition mixed_registration :: "classifier \<Rightarrow> resolution list \<Rightarrow> registration" where
  "mixed_registration f inventory = \<lparr>or_exposure = ModelFacing, or_effect = MixedEffect, or_coverage = Unproven,
     or_classifier = Some f, or_inventory = Some inventory\<rparr>"

definition internal_ops :: "string list" where
  "internal_ops = [''file_export_init'', ''file_export_chunk'', ''file_export_complete'']"

definition read_only_ops :: "string list" where
  "read_only_ops = [''ping'', ''capabilities'', ''help'', ''state'', ''read'', ''list'', ''search'', ''project_snapshot'', ''read_audit'']"

definition structured_ops :: "string list" where
  "structured_ops = [''edit'', ''edit_upload_init'', ''edit_upload_file'', ''edit_upload_complete'', ''move'', ''copy'',
     ''delete'', ''chmod'', ''chown'', ''upload_file'', ''upload_init'', ''upload_chunk'', ''upload_complete'']"

definition registration_for :: "policy \<Rightarrow> builtins \<Rightarrow> string \<Rightarrow> registration" where
  "registration_for p builtins name =
     (let m = pol_mutation_execution p in
      if name \<in> set internal_ops then plain_registration Internal ReadOnly NotRequired
      else if name \<in> set read_only_ops then plain_registration ModelFacing ReadOnly NotRequired
      else if name = ''mutation_scope'' then plain_registration ModelFacing NonRepositoryMutation NotRequired
      else if name \<in> {''service'', ''restart''} then plain_registration ModelFacing NonRepositoryMutation NotRequired
      else if name \<in> set structured_ops then plain_registration ModelFacing StructuredMutation Proven
      else if name = ''exec'' then plain_registration ModelFacing ProcessMutation Unproven
      else if name = ''script_run'' then mixed_registration (classify_script_run m) (script_run_inventory m)
      else if name = ''git'' then mixed_registration classify_git_effect git_effect_inventory
      else if name = ''local_api'' then mixed_registration (classify_local_api p builtins) (local_api_inventory p builtins)
      else plain_registration ModelFacing UnknownEffect Unproven)"

fun build_effect_registry :: "policy \<Rightarrow> builtins \<Rightarrow> string list \<Rightarrow> registry \<Rightarrow> registry py" where
  "build_effect_registry p builtins [] reg = Inr reg"
| "build_effect_registry p builtins (name # names) reg =
     rbind (register name (registration_for p builtins name) reg) (build_effect_registry p builtins names)"

section \<open>Readiness\<close>

record firewall_surface =
  cf_ready :: bool
  cf_inventory_ready :: bool
  cf_effective_surface_ready :: bool
  cf_platform_supported :: bool
  cf_reasons :: "string list"

definition public_readiness_reason :: "string \<Rightarrow> string" where
  "public_readiness_reason reason =
     (let first = (\<lambda>s. hd (split_char (CHR ''/'') s)); parts = split_char (CHR '':'') reason in
      if length parts < 2 then first reason
      else first (join_char (CHR '':'') (butlast parts)) @ '':'' @ last parts)"

definition firewall_surface_readiness :: "policy \<Rightarrow> builtins \<Rightarrow> string list \<Rightarrow> string \<Rightarrow> firewall_surface py" where
  "firewall_surface_readiness p builtins names platform =
     rbind (build_effect_registry p builtins names []) (\<lambda>reg.
     let inventory = readiness_of (pol_mutation_execution p); surface = surface_reasons reg; supported = platform = ''Windows'' in
     Inr \<lparr>cf_ready = (fr_ready inventory \<and> surface = [] \<and> supported), cf_inventory_ready = fr_ready inventory,
       cf_effective_surface_ready = (surface = []), cf_platform_supported = supported,
       cf_reasons = dict_fromkeys (fr_reasons inventory @ map public_readiness_reason surface
         @ (if supported then [] else [''unsupported_platform'']))\<rparr>)"

definition firewall_feature :: "firewall_surface \<Rightarrow> (string \<times> pyval) list" where
  "firewall_feature r = [(''available'', VBool (cf_ready r)), (''verified'', VBool (cf_ready r)),
     (''inventory_ready'', VBool (cf_inventory_ready r)), (''effective_surface_ready'', VBool (cf_effective_surface_ready r)),
     (''platform_supported'', VBool (cf_platform_supported r)),
     (''reason'', case cf_reasons r of [] \<Rightarrow> VNull | x # _ \<Rightarrow> VStr x),
     (''uncovered_classes'', VList (map VStr (cf_reasons r)))]"

end
