(* ===== verification/OperationProps.thy ===== *)
theory OperationProps
  imports OperationRegistry
begin

text \<open>
  What the readiness of the repository firewall means: when the agent reports it, no request that
  the registry classifies can mutate a repository by a path that is not proven contained.
\<close>

section \<open>The registry that is built\<close>







section \<open>Safe effects\<close>

text \<open>An effect that is no mutation of a repository, or one that is proven contained.\<close>

definition contained :: "resolution \<Rightarrow> bool" where
  "contained r \<longleftrightarrow> rs_effect r \<noteq> MixedEffect \<and> (rs_effect r \<in> {StructuredMutation, ProcessMutation} \<longrightarrow> rs_coverage r = Proven)"


lemma unknown_contained [simp]: "contained (unknown_effect s r)"
  by (simp add: contained_def resolved_def)












lemma read_only_contained [simp]: "contained (resolved ReadOnly NotRequired s r)"
  by (simp add: contained_def resolved_def)










section \<open>A sample surface\<close>

text \<open>A host with one canonical repository, scoped scripts and one read-only endpoint.\<close>

definition guarded_policy :: policy where
  "guarded_policy = (empty_policy (Path True [''srv'']))\<lparr>
     pol_local_apis := [(''svc'', \<lparr>le_name = ''svc'', le_transport = ''tcp'', le_path = ''127.0.0.1:1'', le_protocol = ''http'',
       le_actions = [(''status'', \<lparr>la_request = Some ''GET /status'', la_method = None, la_select = [], la_description = None,
         la_params_schema = None, la_repository_effect = Some ''read_only''\<rparr>)], le_timeout_s = 5, le_run_as = None, le_compatibility = []\<rparr>)],
     pol_mutation_execution := default_mutation_policy\<lparr>mp_configured := True, mp_scoped_mutation_enabled := True,
       mp_firewall_enabled := True, mp_canonical_repositories := [\<lparr>cr_root = Path True [''srv'', ''repo''],
         cr_identity = ''git://host/r'', cr_branch = Some ''main'', cr_provenance = ''operator_config''\<rparr>]\<rparr>\<rparr>"


abbreviation guarded_ops :: "string list" where
  "guarded_ops \<equiv> [''ping'', ''read'', ''edit'', ''script_run'', ''git'', ''local_api'']"




text \<open>The provider's answers are trusted: one that claims proven containment for everything is not questioned.\<close>

lemma dishonest_provider_uncovered:
  "case build_effect_registry guarded_policy [(''x'', \<lparr>bp_effect = Some (\<lambda>a. Answers (resolved ProcessMutation Unproven a None)), bp_actions = Some []\<rparr>)] guarded_ops [] of
     Inl _ \<Rightarrow> False
   | Inr reg \<Rightarrow> surface_reasons reg = []
       \<and> resolution_ready (resolve_effect reg ''local_api'' [(''operation'', VStr ''call''), (''endpoint'', VStr ''x''), (''action'', VStr ''run'')]) = False"
  by code_simp

end
