(* ===== verification/CodexTransport.thy ===== *)
theory CodexTransport
  imports AgentPolicy Verification Lineage Placement
begin

text \<open>
  The transport of the direct development host: the workspace it works in
  (\<open>direct_codex_workspace.py\<close>), the fixed Git calls with their closed environment
  (\<open>user_git.validate_git_env\<close>, \<open>direct_codex_transport.transport_git\<close>), the frozen
  canonicalization snapshot and the independent checkout (\<open>direct_codex_transport.py\<close>).

  Git, the file system and the moment a write fails are the parameter \<open>host\<close>, a function of a
  state \<open>'w\<close> the model says nothing about; every call may end the agent process (\<open>Died\<close>).
  What the provider itself keeps, the journal and the snapshot, is a file each: \<open>None\<close> when there
  is none, else what \<open>json.loads\<close> makes of it. Every Git call is logged with its answer. An error
  is its code; the words of the message and the time limits are not kept.
\<close>

section \<open>Errors and the interface\<close>

datatype codex_exn = Codex string | WorkspaceError string | OsError | Raised py_exn | Died

datatype git_end = Exited int string string | NoUserContext | ProcessEnds

datatype write_end = Written | WriteFails | EndsBefore | EndsAfter

datatype file_read = NoFile | Unreadable | Holds string

record git_call =
  gc_cwd :: path
  gc_argv :: "string list"
  gc_env :: "(string \<times> string) list"
  gc_end :: git_end

type_synonym stored = "pyval option option"

record 'w host =
  ho_git :: "path \<Rightarrow> string list \<Rightarrow> (string \<times> string) list \<Rightarrow> 'w \<Rightarrow> git_end \<times> 'w"
  ho_write :: "path \<Rightarrow> 'w \<Rightarrow> write_end \<times> 'w"
  ho_readable :: "path \<Rightarrow> 'w \<Rightarrow> bool \<times> 'w"
  ho_read_text :: "path \<Rightarrow> 'w \<Rightarrow> file_read \<times> 'w"
  ho_exists :: "path \<Rightarrow> 'w \<Rightarrow> bool \<times> 'w"
  ho_has_entries :: "path \<Rightarrow> 'w \<Rightarrow> bool \<times> 'w"
  ho_discard :: "path \<Rightarrow> 'w \<Rightarrow> bool \<times> 'w"
  ho_mkdir :: "path \<Rightarrow> 'w \<Rightarrow> bool \<times> 'w"
  ho_write_empty :: "path \<Rightarrow> 'w \<Rightarrow> bool \<times> 'w"
  ho_abspath :: "path \<Rightarrow> path"
  ho_sha :: "string \<Rightarrow> string"

record 'w codex =
  cx_world :: 'w
  cx_journal :: stored
  cx_snapshot :: stored
  cx_calls :: "git_call list"

type_synonym ('w, 'a) codex_op = "'w codex \<Rightarrow> (codex_exn, 'a) result \<times> 'w codex"

definition cret :: "'a \<Rightarrow> ('w, 'a) codex_op" where
  "cret x = (\<lambda>s. (Inr x, s))"

definition cfail :: "codex_exn \<Rightarrow> ('w, 'a) codex_op" where
  "cfail e = (\<lambda>s. (Inl e, s))"

definition cbind :: "('w, 'a) codex_op \<Rightarrow> ('a \<Rightarrow> ('w, 'b) codex_op) \<Rightarrow> ('w, 'b) codex_op" where
  "cbind m k = (\<lambda>s. case m s of (Inl e, t) \<Rightarrow> (Inl e, t) | (Inr x, t) \<Rightarrow> k x t)"

definition censure :: "bool \<Rightarrow> codex_exn \<Rightarrow> ('w, unit) codex_op" where
  "censure b e = (if b then cret () else cfail e)"

definition clift :: "(codex_exn, 'a) result \<Rightarrow> ('w, 'a) codex_op" where
  "clift r = (\<lambda>s. (r, s))"

definition ask :: "('w \<Rightarrow> 'a \<times> 'w) \<Rightarrow> ('w, 'a) codex_op" where
  "ask f = (\<lambda>s. let (x, w) = f (cx_world s) in (Inr x, s\<lparr>cx_world := w\<rparr>))"

definition of_py :: "'a py \<Rightarrow> (codex_exn, 'a) result" where
  "of_py r = (case r of Inl e \<Rightarrow> Inl (Raised e) | Inr x \<Rightarrow> Inr x)"

section \<open>The workspace\<close>

record codex_workspace =
  cw_root :: path
  cw_path :: path
  cw_repository_digest :: string
  cw_semantic_digest :: string
  cw_workspace_digest :: string

definition folded_relative :: "path \<Rightarrow> path \<Rightarrow> bool" where
  "folded_relative p q \<longleftrightarrow> is_relative_to (Path (is_absolute p) (map casefold (parts p)))
     (Path (is_absolute q) (map casefold (parts q)))"

definition workspace_overlap :: "path \<Rightarrow> path \<Rightarrow> bool" where
  "workspace_overlap l r \<longleftrightarrow> l = r \<or> folded_relative l r \<or> folded_relative r l"

definition derive_workspace :: "'w host \<Rightarrow> direct_codex_policy \<Rightarrow> repository_identity \<Rightarrow> semantic_identity
     \<Rightarrow> (codex_exn, codex_workspace) result" where
  "derive_workspace H p repo sem =
     (if \<not> dc_configured p \<or> \<not> dc_enabled p then Inl (WorkspaceError ''direct_codex_workspace_unavailable'') else
      case dc_workspace_root p of None \<Rightarrow> Inl (WorkspaceError ''direct_codex_workspace_root_missing'') | Some wr \<Rightarrow>
      let root = ho_abspath H wr in
      rbind (of_py (repository_canonical repo)) (\<lambda>rc.
      rbind (of_py (semantic_canonical sem)) (\<lambda>sc.
      let rd = digest (ho_sha H) (VStr rc); sd = digest (ho_sha H) (VList (map VStr sc));
          p = ho_abspath H (path_child (path_child root (take 16 rd)) (take 16 sd)) in
      if p = root \<or> \<not> folded_relative p root then Inl (WorkspaceError ''direct_codex_workspace_escape'') else
      Inr \<lparr>cw_root = root, cw_path = p, cw_repository_digest = rd, cw_semantic_digest = sd,
           cw_workspace_digest = digest (ho_sha H) (VStr (path_text p))\<rparr>)))"

definition revalidate_workspace :: "'w host \<Rightarrow> codex_workspace \<Rightarrow> direct_codex_policy \<Rightarrow> repository_identity
     \<Rightarrow> semantic_identity \<Rightarrow> (codex_exn, codex_workspace) result" where
  "revalidate_workspace H expected p repo sem =
     rbind (derive_workspace H p repo sem) (\<lambda>current.
     if current \<noteq> expected then Inl (WorkspaceError ''direct_codex_workspace_binding_mismatch'') else Inr current)"

definition ensure_outside_canonical :: "'w host \<Rightarrow> codex_workspace \<Rightarrow> path list \<Rightarrow> (codex_exn, string list) result" where
  "ensure_outside_canonical H ws roots =
     (let checked = map (ho_abspath H) roots in
      if list_ex (workspace_overlap (cw_path ws)) checked
      then Inl (WorkspaceError ''direct_codex_workspace_intersects_canonical'')
      else Inr (sort (map path_text checked)))"

section \<open>The fixed Git primitive\<close>

definition GIT_ENV_ALLOWLIST :: "string list" where
  "GIT_ENV_ALLOWLIST = [''GIT_INDEX_FILE'', ''GIT_AUTHOR_NAME'', ''GIT_AUTHOR_EMAIL'', ''GIT_AUTHOR_DATE'',
     ''GIT_COMMITTER_NAME'', ''GIT_COMMITTER_EMAIL'', ''GIT_COMMITTER_DATE'', ''GIT_CONFIG_NOSYSTEM'',
     ''GIT_CONFIG_GLOBAL'', ''GIT_CONFIG_SYSTEM'', ''GIT_ATTR_NOSYSTEM'', ''GIT_LITERAL_PATHSPECS'']"

definition validate_git_env :: "(string \<times> string) list \<Rightarrow> (string \<times> string) list option" where
  "validate_git_env env = (if list_all (\<lambda>(k, v). k \<in> set GIT_ENV_ALLOWLIST) env then Some env else None)"

definition git_unavailable :: codex_exn where
  "git_unavailable = Codex ''direct_codex_git_context_unavailable''"

definition transport_git :: "'w host \<Rightarrow> path \<Rightarrow> string list \<Rightarrow> (string \<times> string) list
     \<Rightarrow> ('w, int \<times> string \<times> string) codex_op" where
  "transport_git H cwd argv env s =
     (case validate_git_env env of None \<Rightarrow> (Inl git_unavailable, s) | Some e \<Rightarrow>
      let (r, w) = ho_git H cwd argv e (cx_world s);
          t = s\<lparr>cx_world := w, cx_calls := cx_calls s @ [\<lparr>gc_cwd = cwd, gc_argv = argv, gc_env = e, gc_end = r\<rparr>]\<rparr>
      in case r of Exited c out err \<Rightarrow> (Inr (c, out, err), t) | NoUserContext \<Rightarrow> (Inl git_unavailable, t)
         | ProcessEnds \<Rightarrow> (Inl Died, t))"

text \<open>A call whose failure is one error, with its standard output.\<close>

definition git_out :: "'w host \<Rightarrow> path \<Rightarrow> string list \<Rightarrow> (string \<times> string) list \<Rightarrow> string \<Rightarrow> ('w, string) codex_op" where
  "git_out H cwd argv env code = cbind (transport_git H cwd argv env)
     (\<lambda>(c, out, err). if c \<noteq> 0 then cfail (Codex code) else cret out)"

section \<open>Provider files\<close>

record provider_state =
  ps_directory :: path
  ps_empty_attributes :: path
  ps_empty_config :: path
  ps_hooks :: path
  ps_inspection_index :: path
  ps_snapshot :: path
  ps_journal :: path
  ps_candidate_index :: path

definition provider_state :: "codex_workspace \<Rightarrow> provider_state" where
  "provider_state ws =
     (let d = path_child (path_child (cw_root ws) ''.devforge-state'') (cw_workspace_digest ws) in
      \<lparr>ps_directory = d, ps_empty_attributes = path_child d ''attributes-empty'', ps_empty_config = path_child d ''empty-config'',
       ps_hooks = path_child d ''hooks'', ps_inspection_index = path_child d ''inspection-index'',
       ps_snapshot = path_child d ''canonicalization-snapshot.json'', ps_journal = path_child d ''persistence-journal.json'',
       ps_candidate_index = path_child d ''candidate-index''\<rparr>)"

definition must :: "('w \<Rightarrow> bool \<times> 'w) \<Rightarrow> ('w, unit) codex_op" where
  "must f = cbind (ask f) (\<lambda>ok. censure ok OsError)"

definition ensure_provider_state :: "'w host \<Rightarrow> codex_workspace \<Rightarrow> ('w, provider_state) codex_op" where
  "ensure_provider_state H ws = (let st = provider_state ws in
     cbind (must (ho_mkdir H (ps_directory st))) (\<lambda>_.
     cbind (must (ho_write_empty H (ps_empty_attributes st))) (\<lambda>_.
     cbind (must (ho_write_empty H (ps_empty_config st))) (\<lambda>_.
     cbind (must (ho_mkdir H (ps_hooks st))) (\<lambda>_. cret st)))))"

text \<open>A temporary file is written and moved over the old one; the process may end before or after.\<close>

definition write_json :: "'w host \<Rightarrow> path \<Rightarrow> ((stored \<Rightarrow> stored) \<Rightarrow> 'w codex \<Rightarrow> 'w codex) \<Rightarrow> pyval \<Rightarrow> ('w, unit) codex_op" where
  "write_json H p put v s =
     (let (e, w) = ho_write H p (cx_world s); kept = s\<lparr>cx_world := w\<rparr>;
          moved = put (\<lambda>_. Some (Some (json_norm v))) kept
      in case e of Written \<Rightarrow> (Inr (), moved) | WriteFails \<Rightarrow> (Inl OsError, kept)
         | EndsBefore \<Rightarrow> (Inl Died, kept) | EndsAfter \<Rightarrow> (Inl Died, moved))"

definition read_json :: "'w host \<Rightarrow> path \<Rightarrow> ('w codex \<Rightarrow> stored) \<Rightarrow> ('w, stored) codex_op" where
  "read_json H p get s = (case get s of None \<Rightarrow> (Inr None, s) | Some v \<Rightarrow>
     let (ok, w) = ho_readable H p (cx_world s) in (Inr (Some (if ok then v else None)), s\<lparr>cx_world := w\<rparr>))"

section \<open>Clamps\<close>

record canon_snapshot =
  cs_version :: int
  cs_scalars :: "(string \<times> string) list"
  cs_info_attributes_empty :: bool
  cs_expected_attribute_digest :: string
  cs_versioned_gitattributes_digest :: string
  cs_expected_remote_sha :: string
  cs_inspection_index_digest :: string
  cs_digest :: string

definition materialization_env :: "provider_state \<Rightarrow> (string \<times> string) list" where
  "materialization_env st = [(''GIT_CONFIG_NOSYSTEM'', ''1''), (''GIT_CONFIG_GLOBAL'', path_text (ps_empty_config st)),
     (''GIT_CONFIG_SYSTEM'', path_text (ps_empty_config st)), (''GIT_ATTR_NOSYSTEM'', ''1''), (''GIT_LITERAL_PATHSPECS'', ''1'')]"

definition index_env :: "provider_state \<Rightarrow> path \<Rightarrow> (string \<times> string) list" where
  "index_env st p = materialization_env st @ [(''GIT_INDEX_FILE'', path_text p)]"

definition scalar_clamps :: "(string \<times> string) list \<Rightarrow> string list" where
  "scalar_clamps d = concat (map (\<lambda>(k, v). if v = [] then [] else [''-c'', k @ ''='' @ v]) (sorted_items d))"

definition materialization_clamps :: "canon_snapshot option \<Rightarrow> provider_state \<Rightarrow> string list" where
  "materialization_clamps snap st =
     [''-c'', ''core.attributesFile='' @ path_text (ps_empty_attributes st), ''-c'', ''core.hooksPath='' @ path_text (ps_hooks st),
      ''-c'', ''core.fsmonitor=false'', ''-c'', ''submodule.recurse=false'', ''-c'', ''commit.gpgsign=false'',
      ''-c'', ''tag.gpgsign=false'', ''-c'', ''core.pager=cat'']
     @ (case snap of None \<Rightarrow> [] | Some n \<Rightarrow> scalar_clamps (cs_scalars n))"

section \<open>Reading what Git prints\<close>

text \<open>\<open>re.match\<close> with a final \<open>$\<close> lets one line feed follow.\<close>

definition sha_like :: "string \<Rightarrow> bool" where
  "sha_like s \<longleftrightarrow> (length s = 40 \<or> (length s = 41 \<and> last s = CHR 0x0A)) \<and> list_all is_lower_hex (take 40 s)"

text \<open>\<open>text.split("://", 1)[1]\<close>.\<close>

fun after_mark :: "string \<Rightarrow> string" where
  "after_mark [] = []"
| "after_mark (c # cs) = (if startswith (c # cs) ''://'' then drop 3 (c # cs) else after_mark cs)"

definition remote_url_for :: "repository_identity \<Rightarrow> (codex_exn, string) result" where
  "remote_url_for repo = rbind (of_py (repository_canonical repo))
     (\<lambda>c. Inr (''https://'' @ after_mark c @ ''.git''))"

fun parse_remote_head :: "string \<Rightarrow> string list \<Rightarrow> string option" where
  "parse_remote_head branch [] = None"
| "parse_remote_head branch (line # rest) = (case words line of
     sha # ref # _ \<Rightarrow> if (ref = ''refs/heads/'' @ branch \<or> ref = branch) \<and> sha_like sha then Some sha
       else parse_remote_head branch rest
   | _ \<Rightarrow> parse_remote_head branch rest)"

definition read_remote_head :: "'w host \<Rightarrow> path \<Rightarrow> repository_identity \<Rightarrow> string \<Rightarrow> ('w, string) codex_op" where
  "read_remote_head H cwd repo branch =
     cbind (clift (remote_url_for repo)) (\<lambda>url.
     cbind (git_out H cwd [''ls-remote'', ''--heads'', url, branch] [] ''direct_codex_remote_read_failed'') (\<lambda>out.
     clift (of_option (Codex ''direct_codex_remote_branch_missing'') (parse_remote_head branch (splitlines out)))))"

definition validate_relative_path :: "string \<Rightarrow> (codex_exn, unit) result" where
  "validate_relative_path p =
     (if p = [] \<or> startswith p ''/'' \<or> CHR 0x5C \<in> set p then Inl (Codex ''direct_codex_path_escape'') else
      let ps = split_char (CHR ''/'') p in
      if list_ex (\<lambda>w. w \<in> {[], ''.'', ''..''}) ps then Inl (Codex ''direct_codex_path_escape'')
      else if ''.git'' \<in> set ps then Inl (Codex ''direct_codex_repository_metadata_mutation'') else Inr ())"

definition zero_split :: "string \<Rightarrow> string list" where
  "zero_split out = split_char (CHR 0x00) out"

definition listed_paths :: "string \<Rightarrow> string list" where
  "listed_paths out = filter (\<lambda>p. p \<noteq> []) (zero_split out)"

section \<open>The canonicalization authority\<close>

definition config_scalar :: "'w host \<Rightarrow> path \<Rightarrow> string \<Rightarrow> ('w, string) codex_op" where
  "config_scalar H cwd key = cbind (transport_git H cwd [''config'', ''--get'', key] [])
     (\<lambda>(c, out, err). cret (if c \<noteq> 0 then [] else strip out))"

definition SCALAR_SCHEMA :: "(string \<times> string list) list" where
  "SCALAR_SCHEMA = [(''core.autocrlf'', ['''', ''true'', ''false'', ''input'']),
     (''core.eol'', ['''', ''native'', ''lf'', ''crlf'']), (''core.safecrlf'', ['''', ''true'', ''false'', ''warn''])]"

definition CHECK_ROUNDTRIP :: string where "CHECK_ROUNDTRIP = ''core.checkroundtripencoding''"

definition encoding_token :: "string \<Rightarrow> bool" where
  "encoding_token t \<longleftrightarrow> t \<noteq> [] \<and> is_alnum (hd t) \<and> list_all (\<lambda>c. is_alnum c \<or> c \<in> set ''_.:-'') (tl t)"

definition unsupported_value :: codex_exn where
  "unsupported_value = Codex ''direct_codex_unsupported_normalization_value''"

definition normalize_scalars :: "(string \<times> string) list \<Rightarrow> (codex_exn, (string \<times> string) list) result" where
  "normalize_scalars raw = (let field = (\<lambda>k. case map_of raw k of None \<Rightarrow> [] | Some v \<Rightarrow> v) in
     rbind (rmap (\<lambda>(k, allowed). let v = casefold (strip (field k)) in
              if v \<in> set allowed then Inr (k, v) else Inl unsupported_value) SCALAR_SCHEMA) (\<lambda>d.
     let wte = strip (field CHECK_ROUNDTRIP) in
     if list_all (\<lambda>t. t = [] \<or> encoding_token t) (map strip (split_char (CHR '','') wte))
     then Inr (d @ [(CHECK_ROUNDTRIP, wte)]) else Inl unsupported_value))"

fun config_scalars :: "'w host \<Rightarrow> path \<Rightarrow> string list \<Rightarrow> ('w, (string \<times> string) list) codex_op" where
  "config_scalars H cwd [] = cret []"
| "config_scalars H cwd (k # ks) = cbind (config_scalar H cwd k) (\<lambda>v.
     cbind (config_scalars H cwd ks) (\<lambda>d. cret ((k, v) # d)))"

definition read_normalization_scalars :: "'w host \<Rightarrow> path \<Rightarrow> ('w, (string \<times> string) list) codex_op" where
  "read_normalization_scalars H cwd =
     cbind (config_scalars H cwd (map fst SCALAR_SCHEMA @ [CHECK_ROUNDTRIP])) (\<lambda>raw. clift (normalize_scalars raw))"

type_synonym tree_entry = "string \<times> string \<times> string \<times> string"

definition parse_tree_entry :: "string \<Rightarrow> tree_entry option" where
  "parse_tree_entry r = (if CHR 0x09 \<notin> set r then None else
     case words (before_char (CHR 0x09) r) of [m, k, sha] \<Rightarrow> Some (m, k, sha, after_char (CHR 0x09) r) | _ \<Rightarrow> None)"

definition tree_entries :: "'w host \<Rightarrow> path \<Rightarrow> string \<Rightarrow> ('w, tree_entry list) codex_op" where
  "tree_entries H cwd sha = cbind (git_out H cwd [''ls-tree'', ''-r'', ''-z'', sha] [] ''direct_codex_expected_tree_unavailable'')
     (\<lambda>out. cret (List.map_filter parse_tree_entry (zero_split out)))"

definition info_attributes_empty :: "'w host \<Rightarrow> codex_workspace \<Rightarrow> ('w, bool) codex_op" where
  "info_attributes_empty H ws =
     cbind (ask (ho_read_text H (path_join (cw_path ws) (Path False [''.git'', ''info'', ''attributes''])))) (\<lambda>r.
     cret (case r of NoFile \<Rightarrow> True | Unreadable \<Rightarrow> False | Holds t \<Rightarrow> strip t = []))"

definition seed_inspection_index :: "'w host \<Rightarrow> path \<Rightarrow> provider_state \<Rightarrow> string \<Rightarrow> ('w, string) codex_op" where
  "seed_inspection_index H cwd st sha = (let env = index_env st (ps_inspection_index st) in
     cbind (must (ho_discard H (ps_inspection_index st))) (\<lambda>_.
     cbind (git_out H cwd [''read-tree'', sha] env ''direct_codex_inspection_index_failed'') (\<lambda>_.
     cbind (git_out H cwd [''ls-files'', ''-s'', ''-z''] env ''direct_codex_inspection_index_failed'') (\<lambda>out.
     cret (ho_sha H out)))))"

text \<open>The slices of \<open>n\<close> elements that start at \<open>range(0, len(xs), n)\<close>, for positive \<open>n\<close>.\<close>

fun chunks :: "nat \<Rightarrow> 'a list \<Rightarrow> 'a list list" where
  "chunks n [] = []"
| "chunks n (x # xs) = (x # take (n - 1) xs) # chunks n (drop (n - 1) xs)"

lemma concat_chunks [simp]: "concat (chunks n xs) = xs"
  by (induction n xs rule: chunks.induct) simp_all

lemma chunks_bounded: "0 < n \<Longrightarrow> \<forall>c \<in> set (chunks n xs). c \<noteq> [] \<and> length c \<le> n"
  by (induction n xs rule: chunks.induct) auto

fun check_attributes :: "'w host \<Rightarrow> path \<Rightarrow> provider_state \<Rightarrow> string list list \<Rightarrow> ('w, string list) codex_op" where
  "check_attributes H cwd st [] = cret []"
| "check_attributes H cwd st (c # cs) =
     cbind (git_out H cwd (materialization_clamps None st @ [''check-attr'', ''--cached'', ''--all'', ''--''] @ c)
       (index_env st (ps_inspection_index st)) ''direct_codex_attribute_inspection_failed'') (\<lambda>out.
     cbind (check_attributes H cwd st cs) (\<lambda>rest.
     cret (filter (\<lambda>l. l \<noteq> []) (map strip (splitlines out)) @ rest)))"

definition inspect_effective_attributes :: "'w host \<Rightarrow> path \<Rightarrow> provider_state \<Rightarrow> ('w, string list \<times> string) codex_op" where
  "inspect_effective_attributes H cwd st =
     cbind (git_out H cwd [''ls-files'', ''-z''] (index_env st (ps_inspection_index st)) ''direct_codex_attribute_inspection_failed'') (\<lambda>out.
     cbind (check_attributes H cwd st (chunks 128 (listed_paths out))) (\<lambda>ls.
     let lines = sorted_set ls in cret (lines, ho_sha H (join_char (CHR 0x0A) lines))))"

text \<open>\<open>line.rsplit(": ", 2)\<close>, on the reversed line.\<close>

fun cut_colon :: "string \<Rightarrow> (string \<times> string) option" where
  "cut_colon (a # b # r) = (if a = CHR '' '' \<and> b = CHR '':'' then Some ([], r)
     else (case cut_colon (b # r) of None \<Rightarrow> None | Some (v, q) \<Rightarrow> Some (a # v, q)))"
| "cut_colon _ = None"

definition attribute_value :: "string \<Rightarrow> (string \<times> string) option" where
  "attribute_value line = (case cut_colon (rev line) of None \<Rightarrow> None | Some (v, r) \<Rightarrow>
     (case cut_colon r of None \<Rightarrow> None | Some (a, _) \<Rightarrow> Some (rev a, rev v)))"

definition custom_filter :: "string \<Rightarrow> bool" where
  "custom_filter line = (case attribute_value line of None \<Rightarrow> False
     | Some (a, v) \<Rightarrow> a = ''filter'' \<and> v \<notin> {''unset'', ''unspecified''})"

definition reject_custom_filters :: "string list \<Rightarrow> (codex_exn, unit) result" where
  "reject_custom_filters lines = (if list_ex custom_filter lines
     then Inl (Codex ''direct_codex_unsupported_filter_attribute'') else Inr ())"

definition versioned_gitattributes :: "('w host) \<Rightarrow> tree_entry list \<Rightarrow> string" where
  "versioned_gitattributes H es = (let versioned = [(p, sha). (m, k, sha, p) \<leftarrow> es, k = ''blob'' \<and> last (split_char (CHR ''/'') p) = ''.gitattributes'']
     in ho_sha H (join_char (CHR 0x0A) (map (\<lambda>(p, sha). p @ CHR 0x09 # sha) (sort_key fst (sort_key snd versioned)))))"

section \<open>The snapshot\<close>

definition snapshot_body :: "canon_snapshot \<Rightarrow> (string \<times> pyval) list" where
  "snapshot_body n = [(''version'', VInt (cs_version n)), (''scalars'', VDict (map (\<lambda>(k, v). (k, VStr v)) (cs_scalars n))),
     (''info_attributes_empty'', VBool (cs_info_attributes_empty n)),
     (''expected_attribute_digest'', VStr (cs_expected_attribute_digest n)),
     (''versioned_gitattributes_digest'', VStr (cs_versioned_gitattributes_digest n)),
     (''expected_remote_sha'', VStr (cs_expected_remote_sha n)), (''inspection_index_digest'', VStr (cs_inspection_index_digest n))]"

definition snapshot_dict :: "canon_snapshot \<Rightarrow> pyval" where
  "snapshot_dict n = VDict (snapshot_body n @ [(''digest'', VStr (cs_digest n))])"

definition snapshot_digest :: "'w host \<Rightarrow> canon_snapshot \<Rightarrow> string" where
  "snapshot_digest H n = digest (ho_sha H) (VDict (snapshot_body n))"

text \<open>\<open>d[k]\<close> and \<open>dict(v)\<close>; pairs whose first part is not text, and objects that \<open>dict\<close> would take for
  pairs, count as refused.\<close>

definition item :: "pyval \<Rightarrow> string \<Rightarrow> pyval py" where
  "item v k = (case v of VDict d \<Rightarrow> of_option KeyError (map_of d k) | _ \<Rightarrow> Inl TypeError)"

fun dict_pairs :: "pyval list \<Rightarrow> (string \<times> pyval) list py" where
  "dict_pairs [] = Inr []"
| "dict_pairs (VList [VStr k, v] # vs) = rbind (dict_pairs vs) (\<lambda>d. Inr ((k, v) # d))"
| "dict_pairs (VStr [a, b] # vs) = rbind (dict_pairs vs) (\<lambda>d. Inr (([a], VStr [b]) # d))"
| "dict_pairs _ = Inl ValueError"

definition dict_of :: "pyval \<Rightarrow> (string \<times> pyval) list py" where
  "dict_of v = (case v of VDict d \<Rightarrow> Inr d | VStr [] \<Rightarrow> Inr [] | VStr _ \<Rightarrow> Inl ValueError
     | VList vs \<Rightarrow> rbind (dict_pairs vs) (\<lambda>d. Inr (fold (\<lambda>(k, v). AList.update k v) d []))
     | _ \<Rightarrow> Inl TypeError)"

definition text_item :: "pyval \<Rightarrow> string \<Rightarrow> string py" where
  "text_item v k = rbind (item v k) (\<lambda>x. Inr (py_str x))"

definition snapshot_from_dict :: "pyval \<Rightarrow> canon_snapshot py" where
  "snapshot_from_dict v =
     rbind (rbind (item v ''version'') py_int) (\<lambda>version.
     rbind (rbind (item v ''scalars'') dict_of) (\<lambda>scalars.
     rbind (item v ''info_attributes_empty'') (\<lambda>empty.
     rbind (text_item v ''expected_attribute_digest'') (\<lambda>ad.
     rbind (text_item v ''versioned_gitattributes_digest'') (\<lambda>gd.
     rbind (text_item v ''expected_remote_sha'') (\<lambda>sha.
     rbind (text_item v ''inspection_index_digest'') (\<lambda>ix.
     rbind (text_item v ''digest'') (\<lambda>dg.
     Inr \<lparr>cs_version = version, cs_scalars = map (\<lambda>(k, x). (k, py_str x)) scalars, cs_info_attributes_empty = truthy empty,
       cs_expected_attribute_digest = ad, cs_versioned_gitattributes_digest = gd, cs_expected_remote_sha = sha,
       cs_inspection_index_digest = ix, cs_digest = dg\<rparr>))))))))"

definition read_persisted_snapshot :: "'w host \<Rightarrow> provider_state \<Rightarrow> ('w, canon_snapshot option) codex_op" where
  "read_persisted_snapshot H st = cbind (read_json H (ps_snapshot st) cx_snapshot) (\<lambda>v.
     cret (case v of Some (Some payload) \<Rightarrow> (case snapshot_from_dict payload of Inl _ \<Rightarrow> None | Inr n \<Rightarrow> Some n) | _ \<Rightarrow> None))"

definition readback_mismatch :: codex_exn where
  "readback_mismatch = Codex ''direct_codex_snapshot_readback_mismatch''"

definition verify_snapshot :: "'w host \<Rightarrow> canon_snapshot \<Rightarrow> ('w, unit) codex_op" where
  "verify_snapshot H n = censure (cs_digest n = snapshot_digest H n) readback_mismatch"

definition persist_snapshot :: "'w host \<Rightarrow> provider_state \<Rightarrow> canon_snapshot \<Rightarrow> ('w, canon_snapshot) codex_op" where
  "persist_snapshot H st n =
     cbind (verify_snapshot H n) (\<lambda>_.
     cbind (write_json H (ps_snapshot st) cx_snapshot_update (snapshot_dict n)) (\<lambda>_.
     cbind (read_persisted_snapshot H st) (\<lambda>r.
     case r of None \<Rightarrow> cfail readback_mismatch
     | Some m \<Rightarrow> if json_norm (snapshot_dict m) = json_norm (snapshot_dict n) then cret m else cfail readback_mismatch)))"

definition info_not_empty :: codex_exn where
  "info_not_empty = Codex ''direct_codex_info_attributes_not_empty''"

definition capture_snapshot :: "'w host \<Rightarrow> codex_workspace \<Rightarrow> provider_state \<Rightarrow> string \<Rightarrow> ('w, canon_snapshot) codex_op" where
  "capture_snapshot H ws st expected = (let cwd = cw_path ws in
     cbind (read_normalization_scalars H cwd) (\<lambda>scalars.
     cbind (info_attributes_empty H ws) (\<lambda>e.
     cbind (censure e info_not_empty) (\<lambda>_.
     cbind (tree_entries H cwd expected) (\<lambda>entries.
     cbind (seed_inspection_index H cwd st expected) (\<lambda>index_digest.
     cbind (inspect_effective_attributes H cwd st) (\<lambda>(lines, attribute_digest).
     cbind (clift (reject_custom_filters lines)) (\<lambda>_.
     let n = \<lparr>cs_version = 1, cs_scalars = scalars, cs_info_attributes_empty = True,
           cs_expected_attribute_digest = attribute_digest, cs_versioned_gitattributes_digest = versioned_gitattributes H entries,
           cs_expected_remote_sha = expected, cs_inspection_index_digest = index_digest, cs_digest = []\<rparr>
     in persist_snapshot H st (n\<lparr>cs_digest := snapshot_digest H n\<rparr>)))))))))"

definition snapshot_drift :: codex_exn where
  "snapshot_drift = Codex ''direct_codex_snapshot_drift''"

definition same_scalars :: "(string \<times> string) list \<Rightarrow> (string \<times> string) list \<Rightarrow> bool" where
  "same_scalars a b \<longleftrightarrow> sorted_items a = sorted_items b"

definition revalidate_canonicalization :: "'w host \<Rightarrow> codex_workspace \<Rightarrow> provider_state \<Rightarrow> canon_snapshot
     \<Rightarrow> ('w, canon_snapshot) codex_op" where
  "revalidate_canonicalization H ws st persisted = (let cwd = cw_path ws in
     cbind (verify_snapshot H persisted) (\<lambda>_.
     cbind (info_attributes_empty H ws) (\<lambda>e.
     cbind (censure e info_not_empty) (\<lambda>_.
     cbind (read_normalization_scalars H cwd) (\<lambda>scalars.
     cbind (censure (same_scalars scalars (cs_scalars persisted)) snapshot_drift) (\<lambda>_.
     cbind (seed_inspection_index H cwd st (cs_expected_remote_sha persisted)) (\<lambda>index_digest.
     cbind (censure (index_digest = cs_inspection_index_digest persisted) snapshot_drift) (\<lambda>_.
     cbind (inspect_effective_attributes H cwd st) (\<lambda>(lines, attribute_digest).
     cbind (clift (reject_custom_filters lines)) (\<lambda>_.
     cbind (censure (attribute_digest = cs_expected_attribute_digest persisted) snapshot_drift) (\<lambda>_.
     cret persisted)))))))))))"

section \<open>The independent checkout\<close>

fun canonical_heads :: "'w host \<Rightarrow> path list \<Rightarrow> ('w, (string \<times> string) list) codex_op" where
  "canonical_heads H [] = cret []"
| "canonical_heads H (p # ps) = cbind (ask (ho_exists H (path_child p ''.git''))) (\<lambda>there.
     cbind (if there then cbind (transport_git H p [''rev-parse'', ''HEAD''] [])
              (\<lambda>(c, out, err). cret (if c = 0 then [(path_text p, strip out)] else []))
            else cret []) (\<lambda>d.
     cbind (canonical_heads H ps) (\<lambda>rest. cret (AList.merge d rest))))"

record transport_bootstrap =
  tb_workspace :: path
  tb_repository :: string
  tb_remote_url :: string
  tb_branch :: string
  tb_expected_remote_sha :: string
  tb_remote_head :: string
  tb_local_head :: string
  tb_actual_branch :: string
  tb_canonical_roots :: "string list"
  tb_canonical_checkout_mutated :: bool
  tb_git_worktree_add_used :: bool
  tb_independent_checkout :: bool
  tb_created_checkout :: bool
  tb_state :: "provider_state option"
  tb_snapshot :: "canon_snapshot option"
  tb_snapshot_reused :: bool

text \<open>Phase A: the objects are cloned or fetched, without a worktree.\<close>

definition acquire_objects :: "'w host \<Rightarrow> codex_workspace \<Rightarrow> string \<Rightarrow> string \<Rightarrow> ('w, bool) codex_op" where
  "acquire_objects H ws url branch = (let p = cw_path ws in
     cbind (ask (ho_exists H (path_child p ''.git''))) (\<lambda>cloned.
     if \<not> cloned then
       cbind (ask (ho_exists H p)) (\<lambda>there.
       cbind (if there then ask (ho_has_entries H p) else cret False) (\<lambda>occupied.
       cbind (censure (\<not> occupied) (Codex ''direct_codex_workspace_occupied'')) (\<lambda>_.
       cbind (git_out H (path_parent p) [''clone'', ''--no-checkout'', ''--branch'', branch, url, path_name p] []
         ''direct_codex_clone_failed'') (\<lambda>_. cret True))))
     else cbind (git_out H p [''fetch'', ''--no-tags'', ''--force'', ''origin'', branch] [] ''direct_codex_fetch_failed'') (\<lambda>_.
       cret False)))"

text \<open>Phase B: the snapshot of this attempt is reused or a new one is frozen.\<close>

definition reusable_snapshot :: "'w host \<Rightarrow> codex_workspace \<Rightarrow> string \<Rightarrow> canon_snapshot option \<Rightarrow> ('w, canon_snapshot option) codex_op" where
  "reusable_snapshot H ws expected existing = (case existing of None \<Rightarrow> cret None | Some n \<Rightarrow>
     if cs_expected_remote_sha n \<noteq> expected then cret None else
     cbind (ask (ho_exists H (path_join (cw_path ws) (Path False [''.git'', ''HEAD''])))) (\<lambda>there.
     if \<not> there then cret None else
     cbind (transport_git H (cw_path ws) [''rev-parse'', ''HEAD''] []) (\<lambda>(c, out, err).
     if c = 0 \<and> strip out = expected then cbind (verify_snapshot H n) (\<lambda>_. cret (Some n)) else cret None)))"

definition bootstrap_execution_checkout :: "'w host \<Rightarrow> codex_workspace \<Rightarrow> repository_identity \<Rightarrow> string \<Rightarrow> string
     \<Rightarrow> path list \<Rightarrow> ('w, transport_bootstrap) codex_op" where
  "bootstrap_execution_checkout H ws repo branch expected roots = (let cwd = cw_path ws in
     cbind (censure (sha_like expected) (Codex ''direct_codex_transport_invalid'')) (\<lambda>_.
     cbind (censure (strip branch \<noteq> [] \<and> strip branch = branch) (Codex ''direct_codex_transport_invalid'')) (\<lambda>_.
     cbind (clift (ensure_outside_canonical H ws roots)) (\<lambda>checked.
     cbind (clift (remote_url_for repo)) (\<lambda>url.
     cbind (must (ho_mkdir H (path_parent cwd))) (\<lambda>_.
     cbind (canonical_heads H roots) (\<lambda>heads_before.
     cbind (read_remote_head H (path_parent cwd) repo branch) (\<lambda>remote_head.
     cbind (censure (remote_head = expected) (Codex ''direct_codex_remote_head_mismatch'')) (\<lambda>_.
     cbind (acquire_objects H ws url branch) (\<lambda>created.
     cbind (git_out H cwd [''cat-file'', ''-e'', expected @ ''^{commit}''] [] ''direct_codex_expected_object_missing'') (\<lambda>_.
     cbind (ensure_provider_state H ws) (\<lambda>st.
     cbind (read_persisted_snapshot H st) (\<lambda>existing.
     cbind (reusable_snapshot H ws expected existing) (\<lambda>reused.
     cbind (case reused of Some n \<Rightarrow> cret n | None \<Rightarrow> capture_snapshot H ws st expected) (\<lambda>snap.
     cbind (git_out H cwd (materialization_clamps (Some snap) st @ [''checkout'', ''--force'', ''-B'', branch, expected])
       (materialization_env st) ''direct_codex_checkout_failed'') (\<lambda>_.
     cbind (git_out H cwd [''rev-parse'', ''HEAD''] [] ''direct_codex_head_read_failed'') (\<lambda>out.
     cbind (censure (strip out = expected) (Codex ''direct_codex_local_head_mismatch'')) (\<lambda>_.
     cbind (transport_git H cwd [''rev-parse'', ''--abbrev-ref'', ''HEAD''] []) (\<lambda>(c, actual, err).
     cbind (canonical_heads H roots) (\<lambda>heads_after.
     cbind (clift (of_py (repository_canonical repo))) (\<lambda>canonical.
     cret \<lparr>tb_workspace = cwd, tb_repository = canonical, tb_remote_url = url, tb_branch = branch,
       tb_expected_remote_sha = expected, tb_remote_head = remote_head, tb_local_head = strip out,
       tb_actual_branch = strip actual, tb_canonical_roots = checked,
       tb_canonical_checkout_mutated = (sorted_items heads_before \<noteq> sorted_items heads_after), tb_git_worktree_add_used = False,
       tb_independent_checkout = True, tb_created_checkout = created, tb_state = Some st, tb_snapshot = Some snap,
       tb_snapshot_reused = (reused \<noteq> None)\<rparr>)))))))))))))))))))))"

end
