(* ===== verification/CodexPersistence.thy ===== *)
theory CodexPersistence
  imports CodexTransport
begin

text \<open>
  Provider-owned persistence of what the direct development host changed
  (\<open>direct_codex_persistence.py\<close>): the eligible delta of the worktree, the candidate tree and
  commit, the recovery journal that records how far a run came, the one ordinary push, and the
  readback that decides about it. Everything is a step on the state of \<open>CodexTransport\<close>, so a
  run may stop at any Git call and at any write.
\<close>

section \<open>Identity of the commit and the journal\<close>

record commit_identity =
  ci_author_name :: string
  ci_author_email :: string
  ci_committer_name :: string
  ci_committer_email :: string
  ci_author_date :: int
  ci_committer_date :: int
  ci_timezone :: string
  ci_message_digest :: string
  ci_serialization_version :: int

definition identity_to_dict :: "commit_identity \<Rightarrow> pyval" where
  "identity_to_dict i = VDict [(''author_name'', VStr (ci_author_name i)), (''author_email'', VStr (ci_author_email i)),
     (''committer_name'', VStr (ci_committer_name i)), (''committer_email'', VStr (ci_committer_email i)),
     (''author_date_utc_seconds'', VInt (ci_author_date i)), (''committer_date_utc_seconds'', VInt (ci_committer_date i)),
     (''timezone'', VStr (ci_timezone i)), (''message_digest'', VStr (ci_message_digest i)),
     (''serialization_version'', VInt (ci_serialization_version i))]"

definition int_item :: "pyval \<Rightarrow> string \<Rightarrow> int py" where
  "int_item v k = rbind (item v k) py_int"

definition identity_from_dict :: "pyval \<Rightarrow> commit_identity py" where
  "identity_from_dict v =
     rbind (text_item v ''author_name'') (\<lambda>an. rbind (text_item v ''author_email'') (\<lambda>ae.
     rbind (text_item v ''committer_name'') (\<lambda>cn. rbind (text_item v ''committer_email'') (\<lambda>ce.
     rbind (int_item v ''author_date_utc_seconds'') (\<lambda>ad. rbind (int_item v ''committer_date_utc_seconds'') (\<lambda>cd.
     rbind (text_item v ''timezone'') (\<lambda>tz. rbind (text_item v ''message_digest'') (\<lambda>md.
     rbind (int_item v ''serialization_version'') (\<lambda>sv.
     Inr \<lparr>ci_author_name = an, ci_author_email = ae, ci_committer_name = cn, ci_committer_email = ce, ci_author_date = ad,
       ci_committer_date = cd, ci_timezone = tz, ci_message_digest = md, ci_serialization_version = sv\<rparr>)))))))))"

definition identity_git_env :: "commit_identity \<Rightarrow> (string \<times> string) list" where
  "identity_git_env i = [(''GIT_AUTHOR_NAME'', ci_author_name i), (''GIT_AUTHOR_EMAIL'', ci_author_email i),
     (''GIT_COMMITTER_NAME'', ci_committer_name i), (''GIT_COMMITTER_EMAIL'', ci_committer_email i),
     (''GIT_AUTHOR_DATE'', show_int (ci_author_date i) @ '' '' @ ci_timezone i),
     (''GIT_COMMITTER_DATE'', show_int (ci_committer_date i) @ '' '' @ ci_timezone i)]"

record journal =
  jn_identity :: "(string \<times> pyval) list"
  jn_transport :: "(string \<times> pyval) list"
  jn_clean_semantics :: "(string \<times> pyval) list"
  jn_commit_identity :: commit_identity
  jn_message :: string
  jn_state :: string
  jn_candidate_tree :: pyval
  jn_eligible_digest :: pyval
  jn_eligible_count :: pyval
  jn_candidate_commit :: pyval
  jn_version :: int

definition journal_to_dict :: "journal \<Rightarrow> pyval" where
  "journal_to_dict j = VDict [(''version'', VInt (jn_version j)), (''state'', VStr (jn_state j)),
     (''identity'', VDict (jn_identity j)), (''transport'', VDict (jn_transport j)),
     (''clean_semantics'', VDict (jn_clean_semantics j)), (''commit_identity'', identity_to_dict (jn_commit_identity j)),
     (''message'', VStr (jn_message j)), (''candidate_tree_sha'', jn_candidate_tree j),
     (''eligible_paths_digest'', jn_eligible_digest j), (''eligible_change_count'', jn_eligible_count j),
     (''candidate_commit_sha'', jn_candidate_commit j)]"

definition journal_from_dict :: "pyval \<Rightarrow> journal py" where
  "journal_from_dict v = (let get = dget (items_of v) in
     rbind (rbind (item v ''identity'') dict_of) (\<lambda>identity.
     rbind (rbind (item v ''transport'') dict_of) (\<lambda>transport.
     rbind (rbind (item v ''clean_semantics'') dict_of) (\<lambda>clean.
     rbind (rbind (item v ''commit_identity'') identity_from_dict) (\<lambda>ci.
     rbind (text_item v ''message'') (\<lambda>message.
     rbind (text_item v ''state'') (\<lambda>state.
     rbind (py_int (dget_default (items_of v) ''version'' (VInt 1))) (\<lambda>version.
     Inr \<lparr>jn_identity = identity, jn_transport = transport, jn_clean_semantics = clean, jn_commit_identity = ci,
       jn_message = message, jn_state = state, jn_candidate_tree = get ''candidate_tree_sha'',
       jn_eligible_digest = get ''eligible_paths_digest'', jn_eligible_count = get ''eligible_change_count'',
       jn_candidate_commit = get ''candidate_commit_sha'', jn_version = version\<rparr>))))))))"

definition journal_invalid :: codex_exn where
  "journal_invalid = Codex ''direct_codex_recovery_journal_invalid''"

definition read_journal :: "'w host \<Rightarrow> provider_state \<Rightarrow> ('w, journal option) codex_op" where
  "read_journal H st = cbind (read_json H (ps_journal st) cx_journal) (\<lambda>v. case v of None \<Rightarrow> cret None
     | Some None \<Rightarrow> cfail journal_invalid
     | Some (Some payload) \<Rightarrow> (case journal_from_dict payload of Inl _ \<Rightarrow> cfail journal_invalid | Inr j \<Rightarrow> cret (Some j)))"

definition write_journal :: "'w host \<Rightarrow> provider_state \<Rightarrow> journal \<Rightarrow> ('w, journal) codex_op" where
  "write_journal H st j =
     cbind (write_json H (ps_journal st) cx_journal_update (journal_to_dict j)) (\<lambda>_.
     cbind (read_journal H st) (\<lambda>r. case r of None \<Rightarrow> cfail (Codex ''direct_codex_recovery_journal_readback_mismatch'')
     | Some k \<Rightarrow> if json_norm (journal_to_dict k) = json_norm (journal_to_dict j) then cret k
         else cfail (Codex ''direct_codex_recovery_journal_readback_mismatch'')))"

definition commit_message :: "semantic_identity \<Rightarrow> string" where
  "commit_message m = join_char (CHR 0x0A)
     [''SentinelX direct/Codex provider-owned implementation persistence'', [],
      ''task_id: '' @ task_id m, ''run_id: '' @ run_id m, ''attempt_id: '' @ attempt_id m,
      ''slice_id: '' @ (case slice_id m of None \<Rightarrow> [] | Some s \<Rightarrow> s), [], ''provider: direct'', ''adapter: codex''] @ [CHR 0x0A]"

definition new_identity :: "'w host \<Rightarrow> semantic_identity \<Rightarrow> int \<Rightarrow> commit_identity" where
  "new_identity H m now = \<lparr>ci_author_name = ''SentinelX Direct Codex'', ci_author_email = ''direct-codex@sentinelx.invalid'',
     ci_committer_name = ''SentinelX Direct Codex'', ci_committer_email = ''direct-codex@sentinelx.invalid'',
     ci_author_date = now, ci_committer_date = now, ci_timezone = ''+0000'',
     ci_message_digest = ho_sha H (commit_message m), ci_serialization_version = 1\<rparr>"

definition provenance_digest :: "'w host \<Rightarrow> commit_identity \<Rightarrow> pyval \<Rightarrow> string \<Rightarrow> string \<Rightarrow> string" where
  "provenance_digest H i candidate message base = digest (ho_sha H) (VDict [(''candidate'', candidate), (''base_head'', VStr base),
     (''commit_identity'', identity_to_dict i), (''message'', VStr message)])"

definition journal_identity :: "repository_identity \<Rightarrow> semantic_identity \<Rightarrow> (codex_exn, (string \<times> pyval) list) result" where
  "journal_identity repo m = rbind (of_py (repository_canonical repo)) (\<lambda>c.
     Inr [(''repository'', VStr c), (''task_id'', VStr (task_id m)), (''run_id'', VStr (run_id m)),
       (''attempt_id'', VStr (attempt_id m)), (''slice_id'', case slice_id m of None \<Rightarrow> VNull | Some s \<Rightarrow> VStr s)])"

text \<open>\<open>v == n\<close> for an integer: \<open>True\<close> is 1.\<close>

definition equals_int :: "pyval \<Rightarrow> int \<Rightarrow> bool" where
  "equals_int v n \<longleftrightarrow> v = VInt n \<or> (v = VBool True \<and> n = 1) \<or> (v = VBool False \<and> n = 0)"

definition journal_matches :: "journal \<Rightarrow> repository_identity \<Rightarrow> semantic_identity \<Rightarrow> int \<Rightarrow> string \<Rightarrow> string
     \<Rightarrow> (codex_exn, bool) result" where
  "journal_matches j repo m pr branch expected = rbind (journal_identity repo m) (\<lambda>d.
     Inr (json_norm (VDict (jn_identity j)) = json_norm (VDict d)
       \<and> equals_int (dget (jn_transport j) ''canonical_pr'') pr
       \<and> dget (jn_transport j) ''canonical_branch'' = VStr branch
       \<and> dget (jn_transport j) ''expected_remote_sha'' = VStr expected))"

section \<open>The eligible delta\<close>

definition provider_owned :: "string \<Rightarrow> bool" where
  "provider_owned p \<longleftrightarrow> hd (split_char (CHR ''/'') p) \<in> {''.devforge'', ''.devforge-state''}"

definition allowed_modes :: "string list" where
  "allowed_modes = [''100644'', ''100755'', ''120000'']"

definition reject_unsupported_mode :: "string \<Rightarrow> string \<Rightarrow> string \<Rightarrow> (codex_exn, unit) result" where
  "reject_unsupported_mode old new status =
     (if ''160000'' \<in> {old, new} then Inl (Codex ''direct_codex_unsupported_gitlink_mutation'')
      else if take 1 status = ''T'' \<or> (old \<notin> set allowed_modes \<and> old \<noteq> ''000000'') \<or> (new \<notin> set allowed_modes \<and> new \<noteq> ''000000'')
      then Inl (Codex ''direct_codex_unsupported_mode_change'') else Inr ())"

text \<open>Pairs of a header and a path, as \<open>diff-index --raw -z\<close> prints them: modified and deleted paths.\<close>

fun parse_raw_diff :: "string list \<Rightarrow> (codex_exn, string list \<times> string list) result" where
  "parse_raw_diff (header # p # rest) =
     (case (if startswith header '':'' then words (tl header) else []) of
        old # new # os # ns # status # _ \<Rightarrow>
          rbind (reject_unsupported_mode old new status) (\<lambda>_.
          rbind (parse_raw_diff rest) (\<lambda>(modified, deleted).
          Inr (if hd status = CHR ''D'' then (modified, p # deleted) else (p # modified, deleted))))
      | _ \<Rightarrow> parse_raw_diff rest)"
| "parse_raw_diff _ = Inr ([], [])"

definition gitattributes_path :: "string \<Rightarrow> bool" where
  "gitattributes_path p \<longleftrightarrow> last (split_char (CHR ''/'') p) = ''.gitattributes''"

fun keep_eligible :: "string list \<Rightarrow> (codex_exn, string list) result" where
  "keep_eligible [] = Inr []"
| "keep_eligible (p # ps) = rbind (validate_relative_path p) (\<lambda>_.
     if provider_owned p then keep_eligible ps
     else if gitattributes_path p then Inl (Codex ''direct_codex_unsupported_attribute_mutation'')
     else rbind (keep_eligible ps) (\<lambda>ks. Inr (p # ks)))"

definition eligible_paths :: "string list \<Rightarrow> (codex_exn, string list) result" where
  "eligible_paths ps = rbind (keep_eligible ps) (\<lambda>ks. Inr (sorted_set ks))"

record worktree_delta =
  wd_modified :: "string list"
  wd_deleted :: "string list"
  wd_added :: "string list"
  wd_digest :: string

definition wd_paths :: "worktree_delta \<Rightarrow> string list" where
  "wd_paths d = sorted_set (wd_modified d @ wd_deleted d @ wd_added d)"

definition wd_count :: "worktree_delta \<Rightarrow> nat" where
  "wd_count d = length (wd_paths d)"

definition digest_lines :: "'w host \<Rightarrow> string list \<Rightarrow> string" where
  "digest_lines H ls = ho_sha H (join_char (CHR 0x0A) (sort ls))"

definition inventory_failed :: string where "inventory_failed = ''direct_codex_inventory_failed''"

definition inventory :: "'w host \<Rightarrow> path \<Rightarrow> string \<Rightarrow> ('w, worktree_delta) codex_op" where
  "inventory H cwd expected =
     cbind (git_out H cwd [''--literal-pathspecs'', ''ls-files'', ''-u'', ''-z'', ''--''] [] inventory_failed) (\<lambda>out.
     cbind (censure (strip (strip_char (CHR 0x00) out) = []) (Codex ''direct_codex_unmerged_state'')) (\<lambda>_.
     cbind (git_out H cwd [''--literal-pathspecs'', ''diff-index'', ''--raw'', ''-z'', ''--no-renames'', expected, ''--''] [] inventory_failed) (\<lambda>out.
     cbind (clift (parse_raw_diff (zero_split out))) (\<lambda>(modified, deleted).
     cbind (git_out H cwd [''--literal-pathspecs'', ''ls-files'', ''--others'', ''--exclude-standard'', ''-z'', ''--''] [] inventory_failed) (\<lambda>out.
     cbind (clift (eligible_paths modified)) (\<lambda>em.
     cbind (clift (eligible_paths deleted)) (\<lambda>ed.
     cbind (clift (eligible_paths (listed_paths out))) (\<lambda>ea.
     cret \<lparr>wd_modified = em, wd_deleted = ed, wd_added = ea, wd_digest = digest_lines H (sorted_set (em @ ed @ ea))\<rparr>))))))))"

section \<open>The candidate\<close>

definition verify_candidate_tree :: "'w host \<Rightarrow> path \<Rightarrow> string \<Rightarrow> string \<Rightarrow> worktree_delta \<Rightarrow> ('w, unit) codex_op" where
  "verify_candidate_tree H cwd expected tree delta =
     cbind (git_out H cwd [''diff-tree'', ''-r'', ''--name-only'', ''-z'', ''--no-renames'', expected, tree] []
       ''direct_codex_candidate_verification_failed'') (\<lambda>out.
     censure (sorted_set (listed_paths out) = sorted_set (wd_paths delta)) (Codex ''direct_codex_candidate_tree_mismatch''))"

fun stage_chunks :: "'w host \<Rightarrow> path \<Rightarrow> string list \<Rightarrow> (string \<times> string) list \<Rightarrow> string list list \<Rightarrow> ('w, unit) codex_op" where
  "stage_chunks H cwd clamps env [] = cret ()"
| "stage_chunks H cwd clamps env (c # cs) =
     cbind (git_out H cwd (clamps @ [''add'', ''-A'', ''--''] @ c) env ''direct_codex_candidate_stage_failed'') (\<lambda>_.
     stage_chunks H cwd clamps env cs)"

definition MAX_STAGE_PATHS_PER_CALL :: nat where "MAX_STAGE_PATHS_PER_CALL = 128"

definition write_tree :: "'w host \<Rightarrow> path \<Rightarrow> string \<Rightarrow> worktree_delta \<Rightarrow> provider_state \<Rightarrow> canon_snapshot \<Rightarrow> ('w, string) codex_op" where
  "write_tree H cwd expected delta st snap = (let env = index_env st (ps_candidate_index st) in
     cbind (must (ho_discard H (ps_candidate_index st))) (\<lambda>_.
     cbind (git_out H cwd [''read-tree'', expected] env ''direct_codex_candidate_index_failed'') (\<lambda>_.
     cbind (stage_chunks H cwd (materialization_clamps (Some snap) st) env (chunks MAX_STAGE_PATHS_PER_CALL (wd_paths delta))) (\<lambda>_.
     cbind (git_out H cwd [''write-tree''] env ''direct_codex_candidate_tree_failed'') (\<lambda>out.
     let tree = strip out in
     cbind (censure (sha_like tree) (Codex ''direct_codex_candidate_tree_failed'')) (\<lambda>_.
     cbind (verify_candidate_tree H cwd expected tree delta) (\<lambda>_. cret tree)))))))"

definition commit_tree :: "'w host \<Rightarrow> path \<Rightarrow> string \<Rightarrow> string \<Rightarrow> commit_identity \<Rightarrow> string \<Rightarrow> provider_state \<Rightarrow> canon_snapshot
     \<Rightarrow> ('w, string) codex_op" where
  "commit_tree H cwd tree parent i message st snap =
     cbind (git_out H cwd (materialization_clamps (Some snap) st @ [''commit-tree'', tree, ''-p'', parent, ''-m'', message])
       (materialization_env st @ identity_git_env i) ''direct_codex_commit_failed'') (\<lambda>out.
     cbind (censure (sha_like (strip out)) (Codex ''direct_codex_commit_failed'')) (\<lambda>_. cret (strip out)))"

definition object_mismatch :: codex_exn where
  "object_mismatch = Codex ''direct_codex_candidate_object_mismatch''"

definition verify_candidate_object :: "'w host \<Rightarrow> path \<Rightarrow> string \<Rightarrow> string \<Rightarrow> string \<Rightarrow> ('w, unit) codex_op" where
  "verify_candidate_object H cwd candidate tree parent =
     cbind (transport_git H cwd [''rev-parse'', candidate @ ''^{tree}''] []) (\<lambda>(c, out, err).
     cbind (censure (c = 0 \<and> strip out = tree) object_mismatch) (\<lambda>_.
     cbind (transport_git H cwd [''rev-parse'', candidate @ ''^''] []) (\<lambda>(c, out, err).
     censure (c = 0 \<and> strip out = parent) object_mismatch)))"

text \<open>A recorded value used as an argument of Git: anything but text is refused when the call is made.\<close>

definition text_arg :: "pyval \<Rightarrow> ('w, string) codex_op" where
  "text_arg v = (case v of VStr s \<Rightarrow> cret s | _ \<Rightarrow> cfail git_unavailable)"

section \<open>A run\<close>

record persistence_outcome =
  po_status :: string
  po_base_head :: string
  po_eligible_count :: int
  po_changed_digest :: string
  po_candidate :: pyval
  po_provenance :: "string option"
  po_published :: bool
  po_remote_readback :: string
  po_consistent :: bool
  po_actual_branch :: string
  po_local_head :: pyval
  po_snapshot_digest :: string
  po_state :: string
  po_error_code :: "string option"
  po_detail :: "string option"

record persist_args =
  pa_workspace :: codex_workspace
  pa_state :: "provider_state option"
  pa_snapshot :: "canon_snapshot option"
  pa_repository :: repository_identity
  pa_semantic :: semantic_identity
  pa_pr :: int
  pa_branch :: string
  pa_expected :: string
  pa_now :: int

abbreviation pa_cwd :: "persist_args \<Rightarrow> path" where
  "pa_cwd A \<equiv> cw_path (pa_workspace A)"

definition drift :: codex_exn where "drift = Codex ''direct_codex_transport_drift''"

definition abbrev_head :: "'w host \<Rightarrow> path \<Rightarrow> ('w, string) codex_op" where
  "abbrev_head H cwd = cbind (transport_git H cwd [''rev-parse'', ''--abbrev-ref'', ''HEAD''] []) (\<lambda>(c, out, err). cret (strip out))"

definition rev_parse :: "'w host \<Rightarrow> path \<Rightarrow> string \<Rightarrow> ('w, string) codex_op" where
  "rev_parse H cwd revision = cbind (git_out H cwd [''rev-parse'', revision] [] ''direct_codex_revision_unavailable'') (\<lambda>out. cret (strip out))"

definition recovered_count :: "journal \<Rightarrow> ('w, int) codex_op" where
  "recovered_count j = clift (of_py (py_int (py_or (jn_eligible_count j) (VInt 0))))"

definition recovered_outcome :: "'w host \<Rightarrow> persist_args \<Rightarrow> journal \<Rightarrow> pyval \<Rightarrow> string \<Rightarrow> string \<Rightarrow> int \<Rightarrow> persistence_outcome" where
  "recovered_outcome H A j candidate remote actual n =
     \<lparr>po_status = ''persisted'', po_base_head = pa_expected A, po_eligible_count = n,
      po_changed_digest = py_str (py_or (jn_eligible_digest j) (VStr [])), po_candidate = candidate,
      po_provenance = Some (provenance_digest H (jn_commit_identity j) candidate (jn_message j) (pa_expected A)),
      po_published = True, po_remote_readback = remote, po_consistent = (actual = pa_branch A), po_actual_branch = actual,
      po_local_head = candidate, po_snapshot_digest = py_str (dget (jn_clean_semantics j) ''pre_checkout_snapshot_digest''),
      po_state = ''published'', po_error_code = None, po_detail = None\<rparr>"

definition recover_published :: "'w host \<Rightarrow> persist_args \<Rightarrow> journal \<Rightarrow> ('w, persistence_outcome) codex_op" where
  "recover_published H A j = (let candidate = jn_candidate_commit j in
     cbind (censure (truthy candidate) journal_invalid) (\<lambda>_.
     cbind (read_remote_head H (pa_cwd A) (pa_repository A) (pa_branch A)) (\<lambda>remote.
     cbind (censure (VStr remote = candidate) drift) (\<lambda>_.
     cbind (abbrev_head H (pa_cwd A)) (\<lambda>actual.
     cbind (recovered_count j) (\<lambda>n.
     cret ((recovered_outcome H A j candidate remote actual n)
       \<lparr>po_base_head := py_str (dget (jn_transport j) ''expected_remote_sha'')\<rparr>)))))))"

definition recover_publish_intent :: "'w host \<Rightarrow> persist_args \<Rightarrow> provider_state \<Rightarrow> journal \<Rightarrow> ('w, persistence_outcome) codex_op" where
  "recover_publish_intent H A st j = (let candidate = py_or (jn_candidate_commit j) (VStr []) in
     cbind (read_remote_head H (pa_cwd A) (pa_repository A) (pa_branch A)) (\<lambda>remote.
     cbind (abbrev_head H (pa_cwd A)) (\<lambda>actual.
     if VStr remote = candidate \<and> truthy candidate then
       cbind (write_journal H st (j\<lparr>jn_state := ''published''\<rparr>)) (\<lambda>_.
       cbind (recovered_count j) (\<lambda>n. cret (recovered_outcome H A j candidate remote actual n)))
     else if remote = pa_expected A then
       cbind (recovered_count j) (\<lambda>n.
       cret ((recovered_outcome H A j candidate remote actual n)\<lparr>po_status := ''publication_uncertain_or_not_observed'',
         po_candidate := (if truthy candidate then candidate else VNull),
         po_provenance := (if truthy candidate then Some (provenance_digest H (jn_commit_identity j) candidate (jn_message j) (pa_expected A)) else None),
         po_published := False, po_consistent := False, po_state := ''publish_intent'',
         po_error_code := Some ''direct_codex_publication_uncertain''\<rparr>))
     else cfail drift)))"

text \<open>Identity, transport and the frozen authority are checked again before anything is built.\<close>

definition admit_run :: "'w host \<Rightarrow> persist_args \<Rightarrow> provider_state \<Rightarrow> canon_snapshot
     \<Rightarrow> ('w, string \<times> string \<times> string \<times> worktree_delta) codex_op" where
  "admit_run H A st snap =
     cbind (rev_parse H (pa_cwd A) ''HEAD'') (\<lambda>local_head.
     cbind (censure (local_head = pa_expected A) (Codex ''direct_codex_local_head_unexpected'')) (\<lambda>_.
     cbind (abbrev_head H (pa_cwd A)) (\<lambda>actual.
     cbind (censure (actual = pa_branch A) (Codex ''direct_codex_actual_branch_drift'')) (\<lambda>_.
     cbind (revalidate_canonicalization H (pa_workspace A) st snap) (\<lambda>_.
     cbind (read_remote_head H (pa_cwd A) (pa_repository A) (pa_branch A)) (\<lambda>remote.
     cbind (censure (remote = pa_expected A) drift) (\<lambda>_.
     cbind (inventory H (pa_cwd A) (pa_expected A)) (\<lambda>delta.
     cret (local_head, actual, remote, delta)))))))))"

definition prepare_journal :: "'w host \<Rightarrow> persist_args \<Rightarrow> provider_state \<Rightarrow> canon_snapshot \<Rightarrow> worktree_delta \<Rightarrow> journal option
     \<Rightarrow> ('w, journal) codex_op" where
  "prepare_journal H A st snap delta known = (case known of
     None \<Rightarrow> cbind (clift (journal_identity (pa_repository A) (pa_semantic A))) (\<lambda>d.
       write_journal H st \<lparr>jn_identity = d,
         jn_transport = [(''canonical_pr'', VInt (pa_pr A)), (''canonical_branch'', VStr (pa_branch A)), (''expected_remote_sha'', VStr (pa_expected A))],
         jn_clean_semantics = [(''pre_checkout_snapshot_digest'', VStr (cs_digest snap)),
           (''expected_attribute_snapshot_digest'', VStr (cs_expected_attribute_digest snap)),
           (''checkout_materialized_under_snapshot'', VBool True), (''info_attributes_empty'', VBool True),
           (''versioned_gitattributes_unchanged'', VBool True)],
         jn_commit_identity = new_identity H (pa_semantic A) (pa_now A), jn_message = commit_message (pa_semantic A),
         jn_state = ''prepared'', jn_candidate_tree = VNull, jn_eligible_digest = VStr (wd_digest delta),
         jn_eligible_count = VInt (int (wd_count delta)), jn_candidate_commit = VNull, jn_version = 1\<rparr>)
   | Some j \<Rightarrow> cbind (censure (dget (jn_clean_semantics j) ''pre_checkout_snapshot_digest'' = VStr (cs_digest snap)) snapshot_drift) (\<lambda>_. cret j))"

definition tree_phase :: "'w host \<Rightarrow> persist_args \<Rightarrow> provider_state \<Rightarrow> canon_snapshot \<Rightarrow> worktree_delta \<Rightarrow> journal
     \<Rightarrow> ('w, string \<times> journal) codex_op" where
  "tree_phase H A st snap delta j =
     (if jn_state j = ''prepared'' \<or> jn_candidate_tree j = VNull then
        cbind (write_tree H (pa_cwd A) (pa_expected A) delta st snap) (\<lambda>tree.
        cbind (write_journal H st (j\<lparr>jn_candidate_tree := VStr tree, jn_eligible_digest := VStr (wd_digest delta),
          jn_eligible_count := VInt (int (wd_count delta)), jn_state := ''tree_ready''\<rparr>)) (\<lambda>k. cret (tree, k)))
      else cbind (text_arg (jn_candidate_tree j)) (\<lambda>tree.
        cbind (verify_candidate_tree H (pa_cwd A) (pa_expected A) tree delta) (\<lambda>_. cret (tree, j))))"

definition candidate_phase :: "'w host \<Rightarrow> persist_args \<Rightarrow> provider_state \<Rightarrow> canon_snapshot \<Rightarrow> string \<Rightarrow> journal
     \<Rightarrow> ('w, pyval \<times> journal) codex_op" where
  "candidate_phase H A st snap tree j =
     (if jn_candidate_commit j = VNull then
        cbind (commit_tree H (pa_cwd A) tree (pa_expected A) (jn_commit_identity j) (jn_message j) st snap) (\<lambda>c.
        cbind (verify_candidate_object H (pa_cwd A) c tree (pa_expected A)) (\<lambda>_.
        cbind (write_journal H st (j\<lparr>jn_candidate_commit := VStr c, jn_state := ''candidate_ready''\<rparr>)) (\<lambda>k. cret (VStr c, k))))
      else cbind (verify_candidate_object H (pa_cwd A) (py_str (jn_candidate_commit j)) tree (pa_expected A)) (\<lambda>_.
        cret (jn_candidate_commit j, j)))"

definition push_argv :: "provider_state \<Rightarrow> string \<Rightarrow> string \<Rightarrow> string list" where
  "push_argv st c branch = [''-c'', ''core.hooksPath='' @ path_text (ps_hooks st), ''push'', ''origin'', c @ '':refs/heads/'' @ branch]"

text \<open>The reference moves, the intent is written, one ordinary push is made, and the remote is read back.\<close>

definition publish_phase :: "'w host \<Rightarrow> persist_args \<Rightarrow> provider_state \<Rightarrow> canon_snapshot \<Rightarrow> worktree_delta \<Rightarrow> string \<Rightarrow> string
     \<Rightarrow> journal \<Rightarrow> ('w, persistence_outcome) codex_op" where
  "publish_phase H A st snap delta actual c j =
     cbind (git_out H (pa_cwd A) [''update-ref'', ''refs/heads/'' @ pa_branch A, c, pa_expected A] [] ''direct_codex_local_ref_failed'') (\<lambda>_.
     cbind (write_journal H st (j\<lparr>jn_state := ''local_ref_ready''\<rparr>)) (\<lambda>j.
     cbind (read_remote_head H (pa_cwd A) (pa_repository A) (pa_branch A)) (\<lambda>remote_now.
     cbind (censure (remote_now = pa_expected A) drift) (\<lambda>_.
     cbind (write_journal H st (j\<lparr>jn_state := ''publish_intent''\<rparr>)) (\<lambda>j.
     cbind (transport_git H (pa_cwd A) (push_argv st c (pa_branch A)) []) (\<lambda>(code, out, err).
     let told = \<lparr>po_status = ''publication_failed'', po_base_head = pa_expected A, po_eligible_count = int (wd_count delta),
           po_changed_digest = wd_digest delta, po_candidate = VStr c,
           po_provenance = Some (provenance_digest H (jn_commit_identity j) (VStr c) (jn_message j) (pa_expected A)),
           po_published = False, po_remote_readback = remote_now, po_consistent = False, po_actual_branch = actual,
           po_local_head = VStr c, po_snapshot_digest = cs_digest snap, po_state = ''publish_intent'',
           po_error_code = Some ''direct_codex_publish_failed'',
           po_detail = (if strip err = [] then None else Some (take 200 (strip err)))\<rparr>
     in if code \<noteq> 0 then cret told else
     cbind (read_remote_head H (pa_cwd A) (pa_repository A) (pa_branch A)) (\<lambda>remote_after.
     if remote_after \<noteq> c then
       cret (told\<lparr>po_status := (if remote_after = pa_expected A then ''publication_uncertain_or_not_observed'' else ''transport_drift''),
         po_remote_readback := remote_after, po_error_code := Some ''direct_codex_publication_uncertain'', po_detail := None\<rparr>)
     else cbind (write_journal H st (j\<lparr>jn_state := ''published''\<rparr>)) (\<lambda>_.
       cret (told\<lparr>po_status := ''persisted'', po_published := True, po_remote_readback := remote_after, po_consistent := True,
         po_state := ''published'', po_error_code := None, po_detail := None\<rparr>)))))))))"

definition no_change :: "'w host \<Rightarrow> persist_args \<Rightarrow> provider_state \<Rightarrow> canon_snapshot \<Rightarrow> string \<Rightarrow> string \<Rightarrow> string \<Rightarrow> worktree_delta
     \<Rightarrow> journal \<Rightarrow> ('w, persistence_outcome) codex_op" where
  "no_change H A st snap local_head actual remote delta j =
     cbind (write_journal H st (j\<lparr>jn_state := ''prepared'', jn_eligible_count := VInt 0, jn_eligible_digest := VStr (wd_digest delta)\<rparr>)) (\<lambda>_.
     cret \<lparr>po_status = ''no_change'', po_base_head = pa_expected A, po_eligible_count = 0, po_changed_digest = wd_digest delta,
       po_candidate = VNull, po_provenance = None, po_published = False, po_remote_readback = remote, po_consistent = False,
       po_actual_branch = actual, po_local_head = VStr local_head, po_snapshot_digest = cs_digest snap, po_state = ''prepared'',
       po_error_code = None, po_detail = None\<rparr>)"

definition build_and_publish :: "'w host \<Rightarrow> persist_args \<Rightarrow> provider_state \<Rightarrow> canon_snapshot \<Rightarrow> journal option
     \<Rightarrow> ('w, persistence_outcome) codex_op" where
  "build_and_publish H A st snap known =
     cbind (admit_run H A st snap) (\<lambda>(local_head, actual, remote, delta).
     cbind (prepare_journal H A st snap delta known) (\<lambda>j.
     cbind (censure (ho_sha H (jn_message j) = ci_message_digest (jn_commit_identity j)) journal_invalid) (\<lambda>_.
     if wd_count delta = 0 then no_change H A st snap local_head actual remote delta j else
     cbind (tree_phase H A st snap delta j) (\<lambda>(tree, j).
     cbind (candidate_phase H A st snap tree j) (\<lambda>(c, j).
     cbind (text_arg c) (\<lambda>c. publish_phase H A st snap delta actual c j))))))"

text \<open>A known attempt: what may already be visible outside is decided by the remote alone.\<close>

definition resume_run :: "'w host \<Rightarrow> persist_args \<Rightarrow> provider_state \<Rightarrow> canon_snapshot \<Rightarrow> journal \<Rightarrow> ('w, persistence_outcome) codex_op" where
  "resume_run H A st snap j =
     (if jn_state j = ''published'' then recover_published H A j
      else if jn_state j = ''publish_intent'' then recover_publish_intent H A st j
      else build_and_publish H A st snap (Some j))"

definition persist_with :: "'w host \<Rightarrow> persist_args \<Rightarrow> provider_state \<Rightarrow> canon_snapshot \<Rightarrow> journal option \<Rightarrow> ('w, persistence_outcome) codex_op" where
  "persist_with H A st snap known = (case known of None \<Rightarrow> build_and_publish H A st snap None | Some j \<Rightarrow>
     cbind (clift (journal_matches j (pa_repository A) (pa_semantic A) (pa_pr A) (pa_branch A) (pa_expected A))) (\<lambda>same.
     cbind (censure same (Codex ''direct_codex_recovery_journal_identity_mismatch'')) (\<lambda>_.
     resume_run H A st snap j)))"

definition persist_implementation :: "'w host \<Rightarrow> persist_args \<Rightarrow> ('w, persistence_outcome) codex_op" where
  "persist_implementation H A =
     cbind (case pa_state A of Some st \<Rightarrow> cret st | None \<Rightarrow> ensure_provider_state H (pa_workspace A)) (\<lambda>st.
     cbind (case pa_snapshot A of Some n \<Rightarrow> cret (Some n) | None \<Rightarrow> read_persisted_snapshot H st) (\<lambda>snap.
     case snap of None \<Rightarrow> cfail (Codex ''direct_codex_snapshot_missing'')
     | Some snap \<Rightarrow> cbind (read_journal H st) (persist_with H A st snap)))"

end
