(* ===== verification/CodexLaws.thy ===== *)
theory CodexLaws
  imports CodexPersistence
begin

text \<open>
  Laws of the persistence of the direct development host: which Git verb each part of a run uses,
  what the log of calls shows once a part has succeeded, and the journal's invariant.
\<close>

named_theorems quiet_rules \<open>operations that leave the journal alone and push nothing\<close>

section \<open>Results of a step\<close>

lemma cbind_Inr:
  assumes "cbind m k s = (Inr y, t)"
  obtains x u where "m s = (Inr x, u)" "k x u = (Inr y, t)"
  using assms by (auto simp: cbind_def split: prod.splits sum.splits)

lemma cbind_cases:
  assumes "cbind m k s = (r, t)"
  obtains (stop) e where "m s = (Inl e, t)" "r = Inl e" | (go) x u where "m s = (Inr x, u)" "k x u = (r, t)"
  using assms by (auto simp: cbind_def split: prod.splits sum.splits)

lemma censure_Inr [simp]: "censure b e s = (Inr u, t) \<longleftrightarrow> b \<and> t = s"
  by (auto simp: censure_def cret_def cfail_def)

lemma cret_iff [simp]: "cret x s = (r, t) \<longleftrightarrow> r = Inr x \<and> t = s"
  by (auto simp: cret_def)

lemma clift_iff [simp]: "clift r s = (r', t) \<longleftrightarrow> r = r' \<and> t = s"
  by (auto simp: clift_def)

lemma cfail_iff [simp]: "cfail e s = (r, t) \<longleftrightarrow> r = Inl e \<and> t = s"
  by (auto simp: cfail_def)

section \<open>Git verbs\<close>

fun git_verb :: "string list \<Rightarrow> string" where
  "git_verb (a # b # r) = (if a = ''-c'' then git_verb r else if a = ''--literal-pathspecs'' then git_verb (b # r) else a)"
| "git_verb [a] = a"
| "git_verb [] = []"

definition is_push :: "git_call \<Rightarrow> bool" where
  "is_push c \<longleftrightarrow> git_verb (gc_argv c) = ''push''"

abbreviation pushes :: "git_call list \<Rightarrow> git_call list" where
  "pushes L \<equiv> filter is_push L"

lemma verb_scalars: "git_verb (scalar_clamps d @ r) = git_verb r"
proof -
  have "git_verb (concat (map (\<lambda>(k, v). if v = [] then [] else [''-c'', k @ ''='' @ v]) ps) @ r) = git_verb r" for ps :: "(string \<times> string) list"
    by (induction ps) auto
  then show ?thesis by (simp add: scalar_clamps_def)
qed

lemma verb_clamps [simp]: "git_verb (materialization_clamps snap st @ r) = git_verb r"
  by (cases snap) (simp_all add: materialization_clamps_def verb_scalars)

section \<open>What a run does to the journal and the log\<close>

text \<open>The journal is as it was and the log has grown by calls with one of the fixed verbs, \<open>push\<close> not
  among them, and with provider-owned environment keys only.\<close>

definition fixed_verbs :: "string list" where
  "fixed_verbs = [''rev-parse'', ''config'', ''ls-files'', ''read-tree'', ''check-attr'', ''ls-remote'', ''diff-index'', ''add'',
     ''write-tree'', ''diff-tree'', ''commit-tree'', ''update-ref'']"

definition owned_env :: "git_call \<Rightarrow> bool" where
  "owned_env c \<longleftrightarrow> list_all (\<lambda>(k, v). k \<in> set GIT_ENV_ALLOWLIST) (gc_env c)"

definition fixed_call :: "git_call \<Rightarrow> bool" where
  "fixed_call c \<longleftrightarrow> git_verb (gc_argv c) \<in> set fixed_verbs \<and> owned_env c"

lemma fixed_no_push: "list_all fixed_call L \<Longrightarrow> pushes L = []"
  by (auto simp: filter_empty_conv list_all_iff fixed_call_def fixed_verbs_def is_push_def)

definition extends :: "'w codex \<Rightarrow> 'w codex \<Rightarrow> bool" where
  "extends s t \<longleftrightarrow> cx_journal t = cx_journal s \<and> (\<exists>new. cx_calls t = cx_calls s @ new \<and> list_all fixed_call new)"

lemma extends_refl [simp]: "extends s s"
  by (simp add: extends_def)

lemma extends_trans: "extends s t \<Longrightarrow> extends t u \<Longrightarrow> extends s u"
  by (auto simp: extends_def)

definition quiet :: "('w, 'a) codex_op \<Rightarrow> bool" where
  "quiet m \<longleftrightarrow> (\<forall>s r t. m s = (r, t) \<longrightarrow> extends s t)"

lemma quietD: "quiet m \<Longrightarrow> m s = (r, t) \<Longrightarrow> extends s t"
  by (simp add: quiet_def)

lemma quiet_bind [quiet_rules]: "quiet m \<Longrightarrow> (\<And>x. quiet (k x)) \<Longrightarrow> quiet (cbind m k)"
  unfolding quiet_def by (blast elim: cbind_cases intro: extends_trans)

lemma quiet_ret [quiet_rules]: "quiet (cret x)"
  by (simp add: quiet_def)

lemma quiet_fail [quiet_rules]: "quiet (cfail e)"
  by (simp add: quiet_def)

lemma quiet_ensure [quiet_rules]: "quiet (censure b e)"
  by (simp add: censure_def quiet_ret quiet_fail)

lemma quiet_lift [quiet_rules]: "quiet (clift r)"
  by (simp add: quiet_def)

lemma quiet_ask [quiet_rules]: "quiet (ask f)"
  by (auto simp: quiet_def ask_def Let_def extends_def split: prod.splits)

lemma quiet_git: "git_verb argv \<in> set fixed_verbs \<Longrightarrow> quiet (transport_git H cwd argv env)"
  by (auto simp: quiet_def transport_git_def Let_def extends_def fixed_call_def owned_env_def validate_git_env_def
      split: option.splits prod.splits git_end.splits if_splits)

lemma quiet_out: "git_verb argv \<in> set fixed_verbs \<Longrightarrow> quiet (git_out H cwd argv env code)"
  unfolding git_out_def by (intro quiet_bind quiet_git) (auto intro: quiet_rules)

lemma quiet_must [quiet_rules]: "quiet (must f)"
  unfolding must_def by (intro quiet_rules)

lemma quiet_read_json [quiet_rules]: "quiet (read_json H p get)"
  by (auto simp: quiet_def read_json_def extends_def split: option.splits prod.splits)

lemma quiet_split [quiet_rules]: "(\<And>x y. quiet (k x y)) \<Longrightarrow> quiet (case p of (x, y) \<Rightarrow> k x y)"
  by (cases p) simp

lemma quiet_if [quiet_rules]: "quiet m \<Longrightarrow> quiet n \<Longrightarrow> quiet (if b then m else n)"
  by simp

lemma quiet_option [quiet_rules]: "quiet m \<Longrightarrow> (\<And>x. quiet (k x)) \<Longrightarrow> quiet (case v of None \<Rightarrow> m | Some x \<Rightarrow> k x)"
  by (cases v) simp_all

lemma quiet_sum [quiet_rules]: "(\<And>x. quiet (m x)) \<Longrightarrow> (\<And>x. quiet (k x)) \<Longrightarrow> quiet (case v of Inl x \<Rightarrow> m x | Inr x \<Rightarrow> k x)"
  by (cases v) simp_all

lemma quiet_let [quiet_rules]: "quiet (k x) \<Longrightarrow> quiet (let y = x in k y)"
  by simp

lemma quiet_remote_head [quiet_rules]: "quiet (read_remote_head H cwd repo branch)"
  unfolding read_remote_head_def by (intro quiet_rules quiet_out) (simp add: fixed_verbs_def)

lemma quiet_rev_parse [quiet_rules]: "quiet (rev_parse H cwd r)"
  unfolding rev_parse_def by (intro quiet_rules quiet_out) (simp add: fixed_verbs_def)

lemma quiet_abbrev [quiet_rules]: "quiet (abbrev_head H cwd)"
  unfolding abbrev_head_def by (intro quiet_rules quiet_git) (simp add: fixed_verbs_def)

lemma quiet_read_journal [quiet_rules]: "quiet (read_journal H st)"
  unfolding read_journal_def by (intro quiet_rules)

lemma quiet_snapshot [quiet_rules]: "quiet (read_persisted_snapshot H st)"
  unfolding read_persisted_snapshot_def by (intro quiet_rules)

lemma quiet_ensure_state [quiet_rules]: "quiet (ensure_provider_state H ws)"
  unfolding ensure_provider_state_def by (intro quiet_rules)

lemma quiet_config_scalars [quiet_rules]: "quiet (config_scalars H cwd ks)"
  by (induction ks) (auto simp: config_scalar_def fixed_verbs_def intro!: quiet_rules quiet_git)

lemma quiet_attributes [quiet_rules]: "quiet (check_attributes H cwd st cs)"
  by (induction cs) (auto simp: fixed_verbs_def intro!: quiet_rules quiet_out)

lemma quiet_stage [quiet_rules]: "quiet (stage_chunks H cwd (materialization_clamps n st) env cs)"
  by (induction cs) (auto simp: fixed_verbs_def intro!: quiet_rules quiet_out)

lemma quiet_revalidate [quiet_rules]: "quiet (revalidate_canonicalization H ws st n)"
  unfolding revalidate_canonicalization_def verify_snapshot_def info_attributes_empty_def read_normalization_scalars_def
    seed_inspection_index_def inspect_effective_attributes_def
  by (intro quiet_rules quiet_out) (simp_all add: fixed_verbs_def)

lemma quiet_inventory [quiet_rules]: "quiet (inventory H cwd e)"
  unfolding inventory_def by (intro quiet_rules quiet_out) (simp_all add: fixed_verbs_def)

lemma quiet_verify_tree [quiet_rules]: "quiet (verify_candidate_tree H cwd e tree d)"
  unfolding verify_candidate_tree_def by (intro quiet_rules quiet_out) (simp add: fixed_verbs_def)

lemma quiet_write_tree [quiet_rules]: "quiet (write_tree H cwd e d st n)"
  unfolding write_tree_def by (intro quiet_rules quiet_out) (simp_all add: fixed_verbs_def)

lemma quiet_commit [quiet_rules]: "quiet (commit_tree H cwd tree p i m st n)"
  unfolding commit_tree_def by (intro quiet_rules quiet_out) (simp add: fixed_verbs_def)

lemma quiet_verify_object [quiet_rules]: "quiet (verify_candidate_object H cwd c tree p)"
  unfolding verify_candidate_object_def by (intro quiet_rules quiet_git) (simp_all add: fixed_verbs_def)

lemma quiet_admit [quiet_rules]: "quiet (admit_run H A st n)"
  unfolding admit_run_def by (intro quiet_rules)

lemma quiet_count [quiet_rules]: "quiet (recovered_count j)"
  unfolding recovered_count_def by (intro quiet_rules)

lemma quiet_text_arg [quiet_rules]: "quiet (text_arg v)"
  by (cases v) (simp_all add: text_arg_def quiet_rules)

lemma quiet_recover_published [quiet_rules]: "quiet (recover_published H A j)"
  unfolding recover_published_def by (intro quiet_rules)

section \<open>What the log shows\<close>

text \<open>A call with these arguments was answered, and its answer, stripped, is \<open>x\<close>.\<close>

definition answered :: "git_call list \<Rightarrow> string list \<Rightarrow> string \<Rightarrow> bool" where
  "answered L argv x \<longleftrightarrow> (\<exists>c \<in> set L. gc_argv c = argv \<and> (\<exists>out err. gc_end c = Exited 0 out err \<and> strip out = x))"

definition eligible :: "string \<Rightarrow> bool" where
  "eligible p \<longleftrightarrow> validate_relative_path p = Inr () \<and> \<not> provider_owned p \<and> \<not> gitattributes_path p"

definition diff_argv :: "string \<Rightarrow> string \<Rightarrow> string list" where
  "diff_argv parent tree = [''diff-tree'', ''-r'', ''--name-only'', ''-z'', ''--no-renames'', parent, tree]"

definition tree_shown :: "git_call list \<Rightarrow> string \<Rightarrow> string \<Rightarrow> bool" where
  "tree_shown L parent tree \<longleftrightarrow> (\<exists>c \<in> set L. gc_argv c = diff_argv parent tree
     \<and> (\<exists>out err. gc_end c = Exited 0 out err \<and> listed_paths out \<noteq> [] \<and> list_all eligible (listed_paths out)))"

definition candidate_shown :: "git_call list \<Rightarrow> string \<Rightarrow> string \<Rightarrow> string \<Rightarrow> bool" where
  "candidate_shown L parent tree c \<longleftrightarrow> tree_shown L parent tree
     \<and> answered L [''rev-parse'', c @ ''^{tree}''] tree \<and> answered L [''rev-parse'', c @ ''^''] parent"

definition remote_shown :: "git_call list \<Rightarrow> string \<Rightarrow> string \<Rightarrow> bool" where
  "remote_shown L branch c \<longleftrightarrow> (\<exists>k \<in> set L. \<exists>url. gc_argv k = [''ls-remote'', ''--heads'', url, branch]
     \<and> (\<exists>out err. gc_end k = Exited 0 out err \<and> parse_remote_head branch (splitlines out) = Some c))"

lemma shown_mono:
  assumes "set L \<subseteq> set M"
  shows "answered L argv x \<Longrightarrow> answered M argv x" "tree_shown L p t \<Longrightarrow> tree_shown M p t"
    "candidate_shown L p t c \<Longrightarrow> candidate_shown M p t c" "remote_shown L b c \<Longrightarrow> remote_shown M b c"
  using assms unfolding answered_def tree_shown_def candidate_shown_def remote_shown_def by blast+

text \<open>A call that succeeds is in the log.\<close>

definition logged :: "'w codex \<Rightarrow> string list \<Rightarrow> int \<Rightarrow> string \<Rightarrow> bool" where
  "logged t argv n out \<longleftrightarrow> (\<exists>c \<in> set (cx_calls t). gc_argv c = argv \<and> (\<exists>err. gc_end c = Exited n out err))"

lemma git_logged:
  assumes "transport_git H cwd argv env s = (Inr (n, out, err), t)"
  shows "\<exists>c. cx_calls t = cx_calls s @ [c] \<and> gc_argv c = argv \<and> gc_end c = Exited n out err"
  using assms by (auto simp: transport_git_def Let_def split: option.splits prod.splits git_end.splits)

lemma out_logged:
  assumes "git_out H cwd argv env code s = (Inr out, t)"
  shows "\<exists>c err. cx_calls t = cx_calls s @ [c] \<and> gc_argv c = argv \<and> gc_end c = Exited 0 out err"
  using assms unfolding git_out_def
  by (auto elim!: cbind_Inr split: prod.splits if_splits dest!: git_logged)

lemma verified_tree:
  assumes "verify_candidate_tree H cwd e tree d s = (Inr (), t)" "wd_paths d \<noteq> []" "list_all eligible (wd_paths d)"
  shows "tree_shown (cx_calls t) e tree"
proof -
  obtain out u where out: "git_out H cwd (diff_argv e tree) [] ''direct_codex_candidate_verification_failed'' s = (Inr out, u)"
    and same: "sorted_set (listed_paths out) = sorted_set (wd_paths d)" "t = u"
    using assms(1) unfolding verify_candidate_tree_def diff_argv_def by (auto elim: cbind_Inr)
  obtain c err where c: "cx_calls u = cx_calls s @ [c]" "gc_argv c = diff_argv e tree" "gc_end c = Exited 0 out err"
    using out_logged[OF out] by blast
  have "set (listed_paths out) = set (wd_paths d)" using same(1) by (simp add: sorted_set_eq_iff)
  then have "listed_paths out \<noteq> []" "list_all eligible (listed_paths out)"
    using assms(2,3) by (auto simp: list_all_iff simp flip: set_empty)
  with c same(2) show ?thesis by (auto simp: tree_shown_def)
qed

lemma verified_object:
  assumes "verify_candidate_object H cwd c tree parent s = (Inr (), t)"
  shows "answered (cx_calls t) [''rev-parse'', c @ ''^{tree}''] tree" "answered (cx_calls t) [''rev-parse'', c @ ''^''] parent"
proof -
  obtain o1 e1 u where one: "transport_git H cwd [''rev-parse'', c @ ''^{tree}''] [] s = (Inr (0, o1, e1), u)" "strip o1 = tree"
    and two: "\<exists>o2 e2. transport_git H cwd [''rev-parse'', c @ ''^''] [] u = (Inr (0, o2, e2), t) \<and> strip o2 = parent"
    using assms unfolding verify_candidate_object_def by (auto elim!: cbind_Inr split: prod.splits)
  from git_logged[OF one(1)] one(2) two show "answered (cx_calls t) [''rev-parse'', c @ ''^{tree}''] tree"
      "answered (cx_calls t) [''rev-parse'', c @ ''^''] parent"
    by (fastforce simp: answered_def dest!: git_logged)+
qed

lemma remote_logged:
  assumes "read_remote_head H cwd repo branch s = (Inr c, t)"
  shows "\<exists>new. cx_calls t = cx_calls s @ new \<and> remote_shown new branch c"
proof -
  obtain url out where out: "git_out H cwd [''ls-remote'', ''--heads'', url, branch] [] ''direct_codex_remote_read_failed'' s = (Inr out, t)"
    and head: "parse_remote_head branch (splitlines out) = Some c"
    using assms unfolding read_remote_head_def by (auto elim!: cbind_Inr simp: result_simps)
  from out_logged[OF out] head show ?thesis by (auto simp: remote_shown_def)
qed

section \<open>The eligible delta\<close>

lemma keep_eligible_set: "keep_eligible ps = Inr ks \<Longrightarrow> \<forall>p \<in> set ks. eligible p"
proof (induction ps arbitrary: ks)
  case (Cons p ps)
  then show ?case by (auto simp: result_simps eligible_def split: if_splits)
qed simp

lemma eligible_paths_set: "eligible_paths ps = Inr ks \<Longrightarrow> \<forall>p \<in> set ks. eligible p"
  by (auto simp: eligible_paths_def result_simps dest: keep_eligible_set)

lemma inventory_eligible:
  assumes "inventory H cwd e s = (Inr d, t)"
  shows "list_all eligible (wd_paths d)"
proof -
  obtain em ed ea ps qs rs x where "eligible_paths ps = Inr em" "eligible_paths qs = Inr ed" "eligible_paths rs = Inr ea"
    "d = \<lparr>wd_modified = em, wd_deleted = ed, wd_added = ea, wd_digest = x\<rparr>"
    using assms unfolding inventory_def by (auto elim!: cbind_Inr split: prod.splits)
  then show ?thesis by (auto simp: wd_paths_def list_all_iff dest: eligible_paths_set)
qed

section \<open>The journal on disk\<close>

lemma item_norm:
  assumes "distinct (keys d)"
  shows "item (json_norm (VDict d)) k = of_option KeyError (map_option json_norm (map_of d k))"
proof -
  have "distinct (keys (map (\<lambda>(k, v). (k, json_norm v)) d))" using assms by (simp only: keys_map_values)
  from map_of_sorted_items[OF this] show ?thesis by (simp add: item_def map_of_map)
qed

definition norm_dict :: "(string \<times> pyval) list \<Rightarrow> (string \<times> pyval) list" where
  "norm_dict d = items_of (json_norm (VDict d))"

definition norm_journal :: "journal \<Rightarrow> journal" where
  "norm_journal j = j\<lparr>jn_identity := norm_dict (jn_identity j), jn_transport := norm_dict (jn_transport j),
     jn_clean_semantics := norm_dict (jn_clean_semantics j), jn_candidate_tree := json_norm (jn_candidate_tree j),
     jn_eligible_digest := json_norm (jn_eligible_digest j), jn_eligible_count := json_norm (jn_eligible_count j),
     jn_candidate_commit := json_norm (jn_candidate_commit j)\<rparr>"

lemma dict_of_norm: "dict_of (json_norm (VDict d)) = Inr (norm_dict d)"
  by (simp add: dict_of_def norm_dict_def)

lemma identity_keys: "distinct (keys (items_of (identity_to_dict i)))"
  by (simp add: identity_to_dict_def)

lemma identity_roundtrip: "identity_from_dict (json_norm (identity_to_dict i)) = Inr i"
proof -
  have *: "item (json_norm (identity_to_dict i)) k = of_option KeyError (map_option json_norm (map_of (items_of (identity_to_dict i)) k))" for k
    using item_norm[OF identity_keys] by (simp add: identity_to_dict_def del: json_norm.simps)
  show ?thesis unfolding identity_from_dict_def text_item_def int_item_def *
    by (simp add: identity_to_dict_def)
qed

lemma journal_keys: "distinct (keys (items_of (journal_to_dict j)))"
  by (simp add: journal_to_dict_def)

lemma journal_roundtrip: "journal_from_dict (json_norm (journal_to_dict j)) = Inr (norm_journal j)"
proof -
  let ?v = "json_norm (journal_to_dict j)"
  have *: "item ?v k = of_option KeyError (map_option json_norm (map_of (items_of (journal_to_dict j)) k))" for k
    using item_norm[OF journal_keys] by (simp add: journal_to_dict_def del: json_norm.simps)
  have **: "dget (items_of ?v) k = json_norm (dget (items_of (journal_to_dict j)) k)" for k
    using dget_norm[OF journal_keys] by (simp add: journal_to_dict_def del: json_norm.simps)
  have ***: "dget_default (items_of ?v) ''version'' (VInt 1) = VInt (jn_version j)"
    using *[of "''version''"] by (auto simp: journal_to_dict_def item_def dget_default_def split: option.splits)
  show ?thesis unfolding journal_from_dict_def text_item_def * ** ***
    by (simp add: journal_to_dict_def dict_of_norm identity_roundtrip dget_def norm_journal_def del: json_norm.simps(2))
qed

end
