(* ===== verification/CodexRun.thy ===== *)
theory CodexRun
  imports CodexLaws
begin

text \<open>
  The invariant of the recovery journal of the direct development host, rules that carry it through
  a run, what a published outcome rests on, and the Git calls a run can make.
\<close>

section \<open>The journal's invariant\<close>

definition transport_is :: "journal \<Rightarrow> string \<Rightarrow> string \<Rightarrow> bool" where
  "transport_is j e b \<longleftrightarrow> distinct (keys (jn_transport j)) \<and> dget (jn_transport j) ''expected_remote_sha'' = VStr e
     \<and> dget (jn_transport j) ''canonical_branch'' = VStr b"

definition tree_ok :: "git_call list \<Rightarrow> string \<Rightarrow> journal \<Rightarrow> bool" where
  "tree_ok L e j \<longleftrightarrow> jn_candidate_tree j = VNull \<or> (\<exists>t. jn_candidate_tree j = VStr t \<and> tree_shown L e t)"

definition commit_ok :: "git_call list \<Rightarrow> string \<Rightarrow> journal \<Rightarrow> bool" where
  "commit_ok L e j \<longleftrightarrow> jn_candidate_commit j = VNull \<or> (\<exists>c t. jn_candidate_commit j = VStr c \<and> candidate_shown L e t c)"

definition intended :: "journal \<Rightarrow> bool" where
  "intended j \<longleftrightarrow> jn_state j \<in> {''publish_intent'', ''published''}"

text \<open>The only kind of push there is: one candidate to one branch, never forced.\<close>

definition ordinary_push :: "string \<Rightarrow> string \<Rightarrow> git_call \<Rightarrow> bool" where
  "ordinary_push c b k \<longleftrightarrow> (\<exists>hooks. gc_argv k = [''-c'', ''core.hooksPath='' @ hooks, ''push'', ''origin'', c @ '':refs/heads/'' @ b])"

definition push_ok :: "git_call list \<Rightarrow> string \<Rightarrow> journal \<Rightarrow> bool" where
  "push_ok L b j \<longleftrightarrow> pushes L = [] \<or> (intended j \<and> (\<exists>c k. jn_candidate_commit j = VStr c \<and> pushes L = [k] \<and> ordinary_push c b k))"

definition sound :: "git_call list \<Rightarrow> string \<Rightarrow> string \<Rightarrow> journal \<Rightarrow> bool" where
  "sound L e b j \<longleftrightarrow> transport_is j e b \<and> tree_ok L e j \<and> commit_ok L e j \<and> (intended j \<longrightarrow> jn_candidate_commit j \<noteq> VNull)
     \<and> push_ok L b j"

definition held :: "'w codex \<Rightarrow> journal \<Rightarrow> bool" where
  "held s j \<longleftrightarrow> (\<exists>v. cx_journal s = Some (Some v) \<and> journal_from_dict v = Inr j)"

definition journal_inv :: "'w codex \<Rightarrow> bool" where
  "journal_inv s \<longleftrightarrow> (cx_journal s = None \<and> pushes (cx_calls s) = []) \<or> (\<exists>j e b. held s j \<and> sound (cx_calls s) e b j)"

lemma sound_norm:
  assumes "sound L e b j" shows "sound L e b (norm_journal j)"
proof -
  have "distinct (keys (norm_dict (jn_transport j)))" if "distinct (keys (jn_transport j))"
    using that by (simp only: norm_dict_def json_norm.simps items_of.simps distinct_sorted_items keys_map_values)
  moreover have "dget (norm_dict (jn_transport j)) k = json_norm (dget (jn_transport j) k)" if "distinct (keys (jn_transport j))" for k
    using dget_norm[OF that] by (simp add: norm_dict_def)
  moreover have "jn_candidate_commit (norm_journal j) = jn_candidate_commit j" "jn_candidate_tree (norm_journal j) = jn_candidate_tree j"
    using assms by (auto simp: sound_def commit_ok_def tree_ok_def norm_journal_def)
  ultimately show ?thesis using assms
    by (simp add: sound_def transport_is_def tree_ok_def commit_ok_def push_ok_def intended_def) (simp add: norm_journal_def)
qed

lemma extends_calls: "extends s t \<Longrightarrow> set (cx_calls s) \<subseteq> set (cx_calls t)"
  by (auto simp: extends_def)

lemma extends_pushes: "extends s t \<Longrightarrow> pushes (cx_calls t) = pushes (cx_calls s)"
  by (auto simp: extends_def dest: fixed_no_push)

lemma extends_length: "extends s t \<Longrightarrow> n \<le> length (cx_calls s) \<Longrightarrow> n \<le> length (cx_calls t)"
  by (auto simp: extends_def)

lemma sound_extends:
  assumes "extends s t" "sound (cx_calls s) e b j" shows "sound (cx_calls t) e b j"
proof -
  have "tree_ok (cx_calls t) e j" "commit_ok (cx_calls t) e j"
    using assms(2) shown_mono(2,3)[OF extends_calls[OF assms(1)]] unfolding sound_def tree_ok_def commit_ok_def by blast+
  with assms(2) show ?thesis by (simp add: sound_def push_ok_def extends_pushes[OF assms(1)])
qed

lemma held_extends: "extends s t \<Longrightarrow> held s j \<Longrightarrow> held t j"
  by (simp add: held_def extends_def)

lemma inv_extends:
  assumes "extends s t" "journal_inv s" shows "journal_inv t"
proof -
  have "cx_journal t = cx_journal s" using assms(1) by (simp add: extends_def)
  with assms(2) extends_pushes[OF assms(1)] show ?thesis
    unfolding journal_inv_def by (metis sound_extends[OF assms(1)] held_extends[OF assms(1)])
qed

section \<open>Reading and writing it\<close>

lemma read_journal_held: "read_journal H st s = (Inr (Some j), t) \<Longrightarrow> extends s t \<and> held t j"
  using quietD[OF quiet_read_journal, of H st s "Inr (Some j)" t]
  unfolding read_journal_def by (auto elim!: cbind_Inr simp: read_json_def held_def split: option.splits prod.splits sum.splits if_splits)

lemma read_journal_none: "read_journal H st s = (Inr None, t) \<Longrightarrow> t = s \<and> cx_journal s = None"
  unfolding read_journal_def by (auto elim!: cbind_Inr simp: read_json_def split: option.splits prod.splits sum.splits if_splits)

lemma write_json_journal:
  assumes "write_json H p cx_journal_update v s = (r, t)"
  shows "cx_calls t = cx_calls s" "cx_journal t = cx_journal s \<or> cx_journal t = Some (Some (json_norm v))"
    "r = Inr u \<Longrightarrow> cx_journal t = Some (Some (json_norm v))"
  using assms by (auto simp: write_json_def Let_def split: prod.splits write_end.splits)

lemma write_journal_sound:
  assumes "write_journal H st j s = (r, t)" "journal_inv s" "sound (cx_calls s) e b j"
  shows "cx_calls t = cx_calls s" "journal_inv t" "r = Inr k \<Longrightarrow> held t k \<and> k = norm_journal j"
proof -
  have calls: "cx_calls u = cx_calls v" "cx_journal u = cx_journal v" if "read_journal H st v = (q, u)" for q u v
    using that by (auto simp: read_journal_def cbind_def read_json_def cret_def cfail_def split: option.splits prod.splits sum.splits if_splits)
  have kept: "journal_inv v" if "cx_calls v = cx_calls s" "cx_journal v = Some (Some (json_norm (journal_to_dict j)))" for v :: "'a codex"
    using that sound_norm[OF assms(3)] journal_roundtrip[of j] by (auto simp: journal_inv_def held_def)
  have old: "journal_inv v" if "cx_calls v = cx_calls s" "cx_journal v = cx_journal s" for v :: "'a codex"
    using that assms(2) by (simp add: journal_inv_def held_def)
  obtain u q where w: "write_json H (ps_journal st) cx_journal_update (journal_to_dict j) s = (q, u)"
    by (cases "write_json H (ps_journal st) cx_journal_update (journal_to_dict j) s") blast
  note wj = write_json_journal[OF w]
  have end1: "cx_calls t = cx_calls u \<and> cx_journal t = cx_journal u"
    using assms(1) w calls unfolding write_journal_def
    by (auto simp: cbind_def cfail_def cret_def split: sum.splits prod.splits option.splits if_splits)
  then show "cx_calls t = cx_calls s" "journal_inv t" using wj(1,2) kept old by auto
  assume r: "r = Inr k"
  then obtain x where q: "q = Inr ()" and rj: "read_journal H st u = (Inr (Some k), t)"
    using assms(1) w unfolding write_journal_def
    by (auto elim!: cbind_Inr split: option.splits if_splits)
  have "cx_journal t = Some (Some (json_norm (journal_to_dict j)))" using wj(3)[OF q] end1 by simp
  with read_journal_held[OF rj] journal_roundtrip[of j] show "held t k \<and> k = norm_journal j" by (auto simp: held_def)
qed

section \<open>Rules for a run\<close>

text \<open>From a state in \<open>P\<close> the step ends with the invariant, and in \<open>Q\<close> if it succeeds.\<close>

definition keeps :: "('w codex \<Rightarrow> bool) \<Rightarrow> ('w, 'a) codex_op \<Rightarrow> ('a \<Rightarrow> 'w codex \<Rightarrow> bool) \<Rightarrow> bool" where
  "keeps P m Q \<longleftrightarrow> (\<forall>s r t. P s \<longrightarrow> m s = (r, t) \<longrightarrow> journal_inv t \<and> (\<forall>x. r = Inr x \<longrightarrow> Q x t))"

lemma trackD: "keeps P m Q \<Longrightarrow> P s \<Longrightarrow> m s = (r, t) \<Longrightarrow> journal_inv t \<and> (\<forall>x. r = Inr x \<longrightarrow> Q x t)"
  by (simp add: keeps_def)

lemma track_bind: "keeps P m Q \<Longrightarrow> (\<And>x. keeps (Q x) (k x) R) \<Longrightarrow> keeps P (cbind m k) R"
proof (unfold keeps_def, intro allI impI)
  fix s r t
  assume m: "\<forall>s r t. P s \<longrightarrow> m s = (r, t) \<longrightarrow> journal_inv t \<and> (\<forall>x. r = Inr x \<longrightarrow> Q x t)"
    and k: "\<And>x. \<forall>s r t. Q x s \<longrightarrow> k x s = (r, t) \<longrightarrow> journal_inv t \<and> (\<forall>y. r = Inr y \<longrightarrow> R y t)"
    and p: "P s" and run: "cbind m k s = (r, t)"
  from run show "journal_inv t \<and> (\<forall>y. r = Inr y \<longrightarrow> R y t)"
  proof (cases rule: cbind_cases)
    case (stop e)
    with m p show ?thesis by blast
  next
    case (go x u)
    then have "Q x u" using m p by blast
    with k go(2) show ?thesis by blast
  qed
qed

lemma track_ret: "(\<And>s. P s \<Longrightarrow> journal_inv s \<and> Q x s) \<Longrightarrow> keeps P (cret x) Q"
  by (auto simp: keeps_def)

lemma track_fail: "(\<And>s. P s \<Longrightarrow> journal_inv s) \<Longrightarrow> keeps P (cfail e) Q"
  by (auto simp: keeps_def)

lemma track_if: "(b \<Longrightarrow> keeps P m Q) \<Longrightarrow> (\<not> b \<Longrightarrow> keeps P n Q) \<Longrightarrow> keeps P (if b then m else n) Q"
  by simp

lemma track_split: "(\<And>x y. keeps P (k x y) Q) \<Longrightarrow> keeps P (case p of (x, y) \<Rightarrow> k x y) Q"
  by (cases p) simp

lemma track_imp: "keeps P m Q \<Longrightarrow> (\<And>s. P' s \<Longrightarrow> P s) \<Longrightarrow> (\<And>x s. Q x s \<Longrightarrow> Q' x s) \<Longrightarrow> keeps P' m Q'"
  unfolding keeps_def by blast

definition stable :: "('w codex \<Rightarrow> bool) \<Rightarrow> bool" where
  "stable P \<longleftrightarrow> (\<forall>s t. extends s t \<longrightarrow> P s \<longrightarrow> P t \<and> journal_inv t)"

text \<open>A step that pushes nothing keeps a stable state and what its success shows.\<close>

lemma track_quiet:
  assumes "quiet m" "stable P" "\<And>s x t. P s \<Longrightarrow> m s = (Inr x, t) \<Longrightarrow> extends s t \<Longrightarrow> F x t"
  shows "keeps P m (\<lambda>x t. P t \<and> F x t)"
  unfolding keeps_def
proof (intro allI impI)
  fix s r t assume p: "P s" and m: "m s = (r, t)"
  have e: "extends s t" by (rule quietD[OF assms(1) m])
  with p assms(2) have "P t" "journal_inv t" by (auto simp: stable_def)
  with assms(3)[OF p] m e show "journal_inv t \<and> (\<forall>x. r = Inr x \<longrightarrow> P t \<and> F x t)" by auto
qed

lemma track_plain: "quiet m \<Longrightarrow> stable P \<Longrightarrow> keeps P m (\<lambda>x. P)"
  by (rule track_imp[OF track_quiet[where F = "\<lambda>_ _. True"]]) simp_all

text \<open>Nothing is known yet, or a journal is held and nothing was pushed; \<open>n\<close> calls were made before the run.\<close>

definition blank :: "nat \<Rightarrow> 'w codex \<Rightarrow> bool" where
  "blank n s \<longleftrightarrow> cx_journal s = None \<and> pushes (cx_calls s) = [] \<and> n \<le> length (cx_calls s)"

definition fresh :: "nat \<Rightarrow> string \<Rightarrow> string \<Rightarrow> journal \<Rightarrow> 'w codex \<Rightarrow> bool" where
  "fresh n e b j s \<longleftrightarrow> held s j \<and> sound (cx_calls s) e b j \<and> pushes (cx_calls s) = [] \<and> n \<le> length (cx_calls s)"

lemma fresh_inv: "fresh n e b j s \<Longrightarrow> journal_inv s"
  by (auto simp: fresh_def journal_inv_def)

lemma stable_blank: "stable (blank n)"
  by (auto simp: stable_def blank_def journal_inv_def extends_def dest: fixed_no_push)

lemma stable_fresh: "stable (fresh n e b j)"
  unfolding stable_def fresh_def
  by (metis sound_extends held_extends extends_pushes extends_length journal_inv_def)

lemma stable_shown: "stable P \<Longrightarrow> stable (\<lambda>s. P s \<and> tree_shown (cx_calls s) e tr)"
  unfolding stable_def using shown_mono(2)[OF extends_calls] by blast

lemma stable_candidate: "stable P \<Longrightarrow> stable (\<lambda>s. P s \<and> candidate_shown (cx_calls s) e tr c)"
  unfolding stable_def using shown_mono(3)[OF extends_calls] by blast

definition owns :: "nat \<Rightarrow> string \<Rightarrow> string \<Rightarrow> journal \<Rightarrow> 'w codex \<Rightarrow> bool" where
  "owns n e b j s \<longleftrightarrow> held s j \<and> sound (cx_calls s) e b j \<and> n \<le> length (cx_calls s)"

lemma owns_inv: "owns n e b j s \<Longrightarrow> journal_inv s"
  by (auto simp: owns_def journal_inv_def)

lemma stable_owns: "stable (owns n e b j)"
  unfolding stable_def owns_def by (metis sound_extends held_extends extends_length journal_inv_def)

lemma fresh_owns: "fresh n e b j s \<longleftrightarrow> owns n e b j s \<and> pushes (cx_calls s) = []"
  by (auto simp: fresh_def owns_def)

text \<open>Writing the journal over the one held.\<close>

lemma track_write_over:
  assumes "\<And>s. P s \<Longrightarrow> journal_inv s \<and> sound (cx_calls s) e b j \<and> n \<le> length (cx_calls s) \<and> G (cx_calls s)"
  shows "keeps P (write_journal H st j) (\<lambda>k t. k = norm_journal j \<and> owns n e b k t \<and> G (cx_calls t))"
  unfolding keeps_def
proof (intro allI impI)
  fix s r t assume p: "P s" and w: "write_journal H st j s = (r, t)"
  note a = assms[OF p]
  note ws = write_journal_sound[OF w conjunct1[OF a] conjunct1[OF conjunct2[OF a]]]
  show "journal_inv t \<and> (\<forall>k. r = Inr k \<longrightarrow> k = norm_journal j \<and> owns n e b k t \<and> G (cx_calls t))"
    using ws sound_norm[of "cx_calls s" e b j] a by (auto simp: owns_def)
qed

lemma track_write:
  assumes "\<And>s. P s \<Longrightarrow> journal_inv s \<and> sound (cx_calls s) e b j \<and> pushes (cx_calls s) = [] \<and> n \<le> length (cx_calls s) \<and> G (cx_calls s)"
  shows "keeps P (write_journal H st j) (\<lambda>k t. k = norm_journal j \<and> fresh n e b k t \<and> G (cx_calls t))"
  by (rule track_imp[OF track_write_over[where G = "\<lambda>L. pushes L = [] \<and> G L" and P = P and n = n]])
    (use assms in \<open>simp_all add: fresh_owns\<close>)

lemma track_rewrite:
  assumes "\<And>s. P s \<Longrightarrow> fresh n e b i s \<and> G (cx_calls s)" "\<And>s. P s \<Longrightarrow> sound (cx_calls s) e b j"
  shows "keeps P (write_journal H st j) (\<lambda>k t. k = norm_journal j \<and> fresh n e b k t \<and> G (cx_calls t))"
proof (rule track_write)
  fix s assume "P s"
  from assms[OF this] fresh_inv[of n e b i s]
  show "journal_inv s \<and> sound (cx_calls s) e b j \<and> pushes (cx_calls s) = [] \<and> n \<le> length (cx_calls s) \<and> G (cx_calls s)"
    by (simp add: fresh_def)
qed

lemma sound_update:
  assumes "sound L e b j" "pushes L = []" "jn_transport k = jn_transport j"
    "tree_ok L e k" "commit_ok L e k" "intended k \<longrightarrow> jn_candidate_commit k \<noteq> VNull"
  shows "sound L e b k"
  using assms by (simp add: sound_def transport_is_def push_ok_def)

section \<open>The parts of a run\<close>

lemma admit_keeps:
  assumes "stable P"
  shows "keeps P (admit_run H A st snap) (\<lambda>(h, a, r, d) s. P s \<and> list_all eligible (wd_paths d))"
proof -
  have E: "list_all eligible (wd_paths d)" if "admit_run H A st snap s = (Inr (h, a, r, d), t)" for s h a r d t
    using that unfolding admit_run_def by (elim cbind_Inr) (simp, elim conjE, hypsubst, erule inventory_eligible)
  have "keeps P (admit_run H A st snap) (\<lambda>x s. P s \<and> list_all eligible (wd_paths (snd (snd (snd x)))))"
    by (rule track_quiet[OF quiet_admit assms]) (metis E prod.collapse)
  then show ?thesis by (rule track_imp) (auto simp: split_beta)
qed

lemma prepare_keeps:
  assumes "\<And>j. known = Some j \<Longrightarrow> P = fresh n (pa_expected A) (pa_branch A) j" "known = None \<Longrightarrow> P = blank n"
  shows "keeps P (prepare_journal H A st snap d known) (\<lambda>k. fresh n (pa_expected A) (pa_branch A) k)"
proof (cases known)
  case None
  have "keeps (blank n) (prepare_journal H A st snap d None) (\<lambda>k. fresh n (pa_expected A) (pa_branch A) k)"
    unfolding prepare_journal_def option.case
    by (rule track_bind[OF track_plain[OF quiet_lift stable_blank]],
        rule track_imp[OF track_write[where P = "blank n" and n = n and G = "\<lambda>_. True"]])
      (auto simp: blank_def journal_inv_def sound_def transport_is_def tree_ok_def commit_ok_def intended_def push_ok_def dget_def)
  with None assms(2) show ?thesis by simp
next
  case (Some j)
  then show ?thesis unfolding prepare_journal_def assms(1)[OF Some] option.case
    by (auto intro!: track_bind[OF track_plain[OF quiet_ensure stable_fresh]] track_ret simp: fresh_inv)
qed

lemma write_tree_shown:
  assumes "write_tree H cwd e d st snap s = (Inr tr, t)" "wd_count d \<noteq> 0" "list_all eligible (wd_paths d)"
  shows "tree_shown (cx_calls t) e tr"
proof -
  have "wd_paths d \<noteq> []" using assms(2) by (auto simp: wd_count_def)
  with assms(1) show ?thesis unfolding write_tree_def Let_def
    by (elim cbind_Inr) (clarsimp, erule verified_tree[OF _ _ assms(3)], assumption)
qed

lemma tree_keeps:
  assumes "wd_count d \<noteq> 0" "list_all eligible (wd_paths d)"
  shows "keeps (fresh n (pa_expected A) b j) (tree_phase H A st snap d j)
    (\<lambda>(tr, k) s. fresh n (pa_expected A) b k s \<and> tree_shown (cx_calls s) (pa_expected A) tr)"
proof -
  let ?e = "pa_expected A"
  let ?F = "\<lambda>tr s. fresh n ?e b j s \<and> tree_shown (cx_calls s) ?e tr"
  have made: "keeps (fresh n ?e b j) (write_tree H (pa_cwd A) ?e d st snap) ?F"
    by (rule track_quiet[OF quiet_write_tree stable_fresh], erule write_tree_shown[OF _ assms])
  have again: "keeps (fresh n ?e b j) (verify_candidate_tree H (pa_cwd A) ?e tr d) (\<lambda>_. ?F tr)" for tr
    by (rule track_quiet[OF quiet_verify_tree stable_fresh], rule verified_tree[OF _ _ assms(2)])
      (use assms(1) in \<open>auto simp: wd_count_def\<close>)
  have sound: "sound (cx_calls s) ?e b (j\<lparr>jn_candidate_tree := VStr tr, jn_eligible_digest := x, jn_eligible_count := y, jn_state := ''tree_ready''\<rparr>)"
    if "?F tr s" for s tr x y
  proof (rule sound_update[where j = j])
    show "sound (cx_calls s) ?e b j" "pushes (cx_calls s) = []" using that by (simp_all add: fresh_def)
    then show "commit_ok (cx_calls s) ?e (j\<lparr>jn_candidate_tree := VStr tr, jn_eligible_digest := x, jn_eligible_count := y, jn_state := ''tree_ready''\<rparr>)"
      by (simp add: sound_def commit_ok_def)
  qed (use that in \<open>simp_all add: tree_ok_def intended_def\<close>)
  have written: "keeps (?F tr) (write_journal H st (j\<lparr>jn_candidate_tree := VStr tr, jn_eligible_digest := x, jn_eligible_count := y, jn_state := ''tree_ready''\<rparr>))
      (\<lambda>k s. fresh n ?e b k s \<and> tree_shown (cx_calls s) ?e tr)" for tr x y
    by (rule track_imp[OF track_rewrite[where P = "?F tr" and i = j and G = "\<lambda>L. tree_shown L ?e tr", OF _ sound]]) simp_all
  have arg: "keeps (fresh n ?e b j) (text_arg v) (\<lambda>_. fresh n ?e b j)" for v
    by (rule track_plain[OF quiet_text_arg stable_fresh])
  have known: "keeps (?F tr) (cret (tr, j)) (\<lambda>(tr, k) s. fresh n ?e b k s \<and> tree_shown (cx_calls s) ?e tr)" for tr
    by (rule track_ret) (auto simp: fresh_inv)
  have done1: "keeps (\<lambda>s. fresh n ?e b k s \<and> tree_shown (cx_calls s) ?e tr) (cret (tr, k))
      (\<lambda>(tr, k) s. fresh n ?e b k s \<and> tree_shown (cx_calls s) ?e tr)" for tr k
    by (rule track_ret) (auto simp: fresh_inv)
  show ?thesis unfolding tree_phase_def
    by (intro track_if track_bind[OF made] track_bind[OF written] track_bind[OF arg] track_bind[OF again] done1 known)
qed

lemma candidate_keeps:
  shows "keeps (\<lambda>s. fresh n (pa_expected A) b j s \<and> tree_shown (cx_calls s) (pa_expected A) tr) (candidate_phase H A st snap tr j)
    (\<lambda>(c, k) s. fresh n (pa_expected A) b k s \<and> jn_candidate_commit k = c \<and> c \<noteq> VNull)"
proof -
  let ?e = "pa_expected A"
  let ?P = "\<lambda>s. fresh n ?e b j s \<and> tree_shown (cx_calls s) ?e tr"
  let ?Q = "\<lambda>(c, k) s. fresh n ?e b k s \<and> jn_candidate_commit k = c \<and> c \<noteq> VNull"
  let ?G = "\<lambda>c L. candidate_shown L ?e tr c"
  have P: "stable ?P" by (rule stable_shown[OF stable_fresh])
  have made: "keeps ?P (commit_tree H (pa_cwd A) tr ?e i m st snap) (\<lambda>_. ?P)" for i m by (rule track_plain[OF quiet_commit P])
  have checked: "keeps ?P (verify_candidate_object H (pa_cwd A) c tr ?e) (\<lambda>_ s. ?P s \<and> ?G c (cx_calls s))" for c
  proof (rule track_quiet[OF quiet_verify_object P])
    fix s x t assume "?P s" and v: "verify_candidate_object H (pa_cwd A) c tr ?e s = (Inr x, t)" and "extends s t"
    then have "tree_shown (cx_calls t) ?e tr" using shown_mono(2)[OF extends_calls] by blast
    moreover have "verify_candidate_object H (pa_cwd A) c tr ?e s = (Inr (), t)" using v by simp
    ultimately show "?G c (cx_calls t)" using verified_object by (auto simp: candidate_shown_def)
  qed
  have sound: "sound (cx_calls s) ?e b (j\<lparr>jn_candidate_commit := VStr c, jn_state := ''candidate_ready''\<rparr>)"
    if "?P s \<and> ?G c (cx_calls s)" for s c
  proof (rule sound_update[where j = j])
    show "sound (cx_calls s) ?e b j" "pushes (cx_calls s) = []" using that by (simp_all add: fresh_def)
    then show "tree_ok (cx_calls s) ?e (j\<lparr>jn_candidate_commit := VStr c, jn_state := ''candidate_ready''\<rparr>)"
      by (simp add: sound_def tree_ok_def)
    show "commit_ok (cx_calls s) ?e (j\<lparr>jn_candidate_commit := VStr c, jn_state := ''candidate_ready''\<rparr>)"
      using that by (auto simp: commit_ok_def)
  qed simp_all
  have written: "keeps (\<lambda>s. ?P s \<and> ?G c (cx_calls s)) (write_journal H st (j\<lparr>jn_candidate_commit := VStr c, jn_state := ''candidate_ready''\<rparr>))
      (\<lambda>k s. fresh n ?e b k s \<and> jn_candidate_commit k = VStr c)" for c
    by (rule track_imp[OF track_rewrite[where P = "\<lambda>s. ?P s \<and> ?G c (cx_calls s)" and i = j and G = "\<lambda>L. True", OF _ sound]])
      (simp_all add: norm_journal_def)
  have new: "keeps (\<lambda>s. fresh n ?e b k s \<and> jn_candidate_commit k = VStr c) (cret (VStr c, k)) ?Q" for c k
    by (rule track_ret) (auto dest: fresh_inv)
  have old: "keeps (\<lambda>s. ?P s \<and> ?G c (cx_calls s)) (cret (jn_candidate_commit j, j)) ?Q" if "jn_candidate_commit j \<noteq> VNull" for c
    using that by (intro track_ret) (auto dest: fresh_inv)
  show ?thesis unfolding candidate_phase_def
    by (intro track_if track_bind[OF made] track_bind[OF checked] track_bind[OF written] new old)
qed

section \<open>Publication\<close>

text \<open>What a published outcome rests on.\<close>

definition rests_on :: "nat \<Rightarrow> string \<Rightarrow> string \<Rightarrow> persistence_outcome \<Rightarrow> git_call list \<Rightarrow> bool" where
  "rests_on n e b r L \<longleftrightarrow> (po_published r \<longrightarrow> (\<exists>c tr. po_candidate r = VStr c \<and> po_remote_readback r = c \<and> po_base_head r = e
     \<and> candidate_shown L e tr c \<and> remote_shown (drop n L) b c))"

lemma remote_after:
  assumes "read_remote_head H cwd repo b s = (Inr c, t)" "n \<le> length (cx_calls s)"
  shows "remote_shown (drop n (cx_calls t)) b c"
proof -
  from remote_logged[OF assms(1)] obtain new where new: "cx_calls t = cx_calls s @ new" "remote_shown new b c" by blast
  then have "set new \<subseteq> set (drop n (cx_calls t))" using assms(2) by simp
  from shown_mono(4)[OF this new(2)] show ?thesis .
qed

lemma push_keeps:
  assumes "jn_candidate_commit j = VStr c" "intended j"
  shows "keeps (fresh n e b j) (transport_git H cwd (push_argv st c b) []) (\<lambda>_. owns n e b j)"
  unfolding keeps_def
proof (intro allI impI)
  fix s r t assume f: "fresh n e b j s" and g: "transport_git H cwd (push_argv st c b) [] s = (r, t)"
  obtain k where k: "cx_calls t = cx_calls s @ [k]" "gc_argv k = push_argv st c b" "cx_journal t = cx_journal s"
    using g by (auto simp: transport_git_def validate_git_env_def Let_def split: prod.splits git_end.splits)
  have push: "is_push k" "ordinary_push c b k" by (simp_all add: k(2) is_push_def push_argv_def ordinary_push_def)
  have "set (cx_calls s) \<subseteq> set (cx_calls t)" by (auto simp: k(1))
  then have "tree_ok (cx_calls t) e j" "commit_ok (cx_calls t) e j"
    using f shown_mono(2,3)[of "cx_calls s" "cx_calls t"] unfolding fresh_def sound_def tree_ok_def commit_ok_def by blast+
  moreover have "pushes (cx_calls t) = [k]" using f push(1) by (simp add: k(1) fresh_def)
  ultimately have "sound (cx_calls t) e b j" using f push(2) assms by (simp add: fresh_def sound_def push_ok_def)
  then have "owns n e b j t" using f k by (simp add: fresh_def owns_def held_def)
  then show "journal_inv t \<and> (\<forall>x. r = Inr x \<longrightarrow> owns n e b j t)" by (simp add: owns_inv)
qed

lemma sound_state:
  assumes "sound L e b j" "pushes L = [] \<or> intended (j\<lparr>jn_state := x\<rparr>)" "jn_candidate_commit j \<noteq> VNull"
  shows "sound L e b (j\<lparr>jn_state := x\<rparr>)"
  using assms by (auto simp: sound_def transport_is_def tree_ok_def commit_ok_def push_ok_def)

lemma state_keeps:
  assumes "jn_candidate_commit j = VStr c"
  shows "keeps (fresh n e b j) (write_journal H st (j\<lparr>jn_state := x\<rparr>))
    (\<lambda>k s. fresh n e b k s \<and> jn_candidate_commit k = VStr c \<and> jn_state k = x)"
  by (rule track_imp[OF track_rewrite[where P = "fresh n e b j" and i = j and G = "\<lambda>L. True" and e = e and b = b]])
    (auto simp: assms fresh_def norm_journal_def intro: sound_state)

lemma known_candidate:
  assumes "owns n e b j s" "jn_candidate_commit j = VStr c"
  shows "\<exists>tr. candidate_shown (cx_calls s) e tr c"
  using assms by (auto simp: owns_def sound_def commit_ok_def)

lemma published_write:
  assumes "jn_candidate_commit j = VStr c"
  shows "keeps (\<lambda>s. owns n e b j s \<and> remote_shown (drop n (cx_calls s)) b c) (write_journal H st (j\<lparr>jn_state := ''published''\<rparr>))
      (\<lambda>k s. owns n e b k s \<and> jn_candidate_commit k = VStr c \<and> remote_shown (drop n (cx_calls s)) b c)"
  by (rule track_imp[OF track_write_over[where P = "\<lambda>s. owns n e b j s \<and> remote_shown (drop n (cx_calls s)) b c"
        and G = "\<lambda>L. remote_shown (drop n L) b c"]])
    (auto simp: owns_def journal_inv_def intended_def assms norm_journal_def intro!: sound_state)

lemma published_ret:
  assumes "po_candidate r = VStr c" "po_remote_readback r = c" "po_base_head r = e"
  shows "keeps (\<lambda>s. owns n e b k s \<and> jn_candidate_commit k = VStr c \<and> remote_shown (drop n (cx_calls s)) b c)
    (cret r) (\<lambda>r s. rests_on n e b r (cx_calls s))"
  by (rule track_ret) (auto simp: rests_on_def assms dest: owns_inv known_candidate)

lemma not_published: "\<not> po_published r \<Longrightarrow> rests_on n e b r L"
  by (simp add: rests_on_def)

lemma publish_keeps:
  assumes "jn_candidate_commit j = VStr c"
  shows "keeps (fresh n (pa_expected A) (pa_branch A) j) (publish_phase H A st snap d actual c j)
    (\<lambda>r s. rests_on n (pa_expected A) (pa_branch A) r (cx_calls s))"
proof -
  let ?e = "pa_expected A" and ?b = "pa_branch A"
  let ?R = "\<lambda>r s. rests_on n ?e ?b r (cx_calls s)"
  let ?F = "\<lambda>x k s. fresh n ?e ?b k s \<and> jn_candidate_commit k = VStr c \<and> jn_state k = x"
  have F: "stable (?F x k)" for x k using stable_fresh[of n ?e ?b k] by (auto simp: stable_def)
  have ref: "keeps (fresh n ?e ?b j) (git_out H (pa_cwd A) [''update-ref'', r, c, ?e] [] z) (\<lambda>_. fresh n ?e ?b j)" for r z
    by (rule track_plain[OF quiet_out stable_fresh]) (simp add: fixed_verbs_def)
  have look: "keeps (?F x k) (read_remote_head H (pa_cwd A) (pa_repository A) ?b) (\<lambda>_. ?F x k)" for x k
    by (rule track_plain[OF quiet_remote_head F])
  have same: "keeps (?F x k) (censure q z) (\<lambda>_. ?F x k)" for x k q z by (rule track_plain[OF quiet_ensure F])
  have intent: "keeps (?F ''local_ref_ready'' k) (write_journal H st (k\<lparr>jn_state := ''publish_intent''\<rparr>)) (?F ''publish_intent'')" for k
    using state_keeps[of k c n ?e ?b H st "''publish_intent''"] by (auto simp: keeps_def)
  have push: "keeps (?F ''publish_intent'' k) (transport_git H (pa_cwd A) (push_argv st c ?b) [])
      (\<lambda>_ s. owns n ?e ?b k s \<and> jn_candidate_commit k = VStr c)" for k
    using push_keeps[of k c n ?e ?b H "pa_cwd A" st] by (auto simp: keeps_def intended_def)
  have stop: "keeps (\<lambda>s. owns n ?e ?b k s \<and> jn_candidate_commit k = VStr c \<and> G s) (cret r) ?R" if "\<not> po_published r" for r k G
    by (rule track_ret) (auto simp: not_published[OF that] dest: owns_inv)
  have after: "keeps (\<lambda>s. owns n ?e ?b k s \<and> jn_candidate_commit k = VStr c) (read_remote_head H (pa_cwd A) (pa_repository A) ?b)
      (\<lambda>q s. owns n ?e ?b k s \<and> jn_candidate_commit k = VStr c \<and> remote_shown (drop n (cx_calls s)) ?b q)" for k
  proof -
    have "stable (\<lambda>s. owns n ?e ?b k s \<and> jn_candidate_commit k = VStr c)" using stable_owns[of n ?e ?b k] by (auto simp: stable_def)
    from track_quiet[OF quiet_remote_head this, where F = "\<lambda>q s. remote_shown (drop n (cx_calls s)) ?b q"]
    show ?thesis by (rule track_imp) (auto simp: owns_def intro: remote_after)
  qed
  have won: "keeps (\<lambda>s. owns n ?e ?b k s \<and> jn_candidate_commit k = VStr c \<and> remote_shown (drop n (cx_calls s)) ?b c)
      (cbind (write_journal H st (k\<lparr>jn_state := ''published''\<rparr>)) (\<lambda>_. cret r)) ?R"
    if "po_candidate r = VStr c" "po_remote_readback r = c" "po_base_head r = ?e" for k r
  proof (cases "jn_candidate_commit k = VStr c")
    case True
    from track_bind[OF published_write[OF True] published_ret[OF that]] show ?thesis by (simp add: True)
  qed (simp add: keeps_def)
  show ?thesis unfolding publish_phase_def Let_def
    apply (rule track_bind[OF ref])
    apply (rule track_bind[OF state_keeps[OF assms]])
    apply (rule track_bind[OF look])
    apply (rule track_bind[OF same])
    apply (rule track_bind[OF intent])
    apply (rule track_bind[OF push])
    apply (intro track_split)
    apply (intro track_if)
     apply (rule track_imp[OF stop[of _ _ "\<lambda>_. True"]])
       apply simp_all[3]
    apply (rule track_bind[OF after])
    apply (intro track_if)
     apply (rule stop, simp)
    apply simp
    apply (rule won)
    apply simp_all
    done
qed

lemma stable_remote: "stable P \<Longrightarrow> stable (\<lambda>s. P s \<and> remote_shown (drop n (cx_calls s)) b c)"
  unfolding stable_def
proof (intro allI impI)
  fix s t :: "'a codex"
  assume P: "\<forall>s t. extends s t \<longrightarrow> P s \<longrightarrow> P t \<and> journal_inv t" and e: "extends s t" and p: "P s \<and> remote_shown (drop n (cx_calls s)) b c"
  have "set (drop n (cx_calls s)) \<subseteq> set (drop n (cx_calls t))" using e by (auto simp: extends_def)
  from shown_mono(4)[OF this] P e p show "(P t \<and> remote_shown (drop n (cx_calls t)) b c) \<and> journal_inv t" by blast
qed

lemma owns_base: "owns n e b j s \<Longrightarrow> py_str (dget (jn_transport j) ''expected_remote_sha'') = e"
  by (simp add: owns_def sound_def transport_is_def)

text \<open>The readback of a recovery, and the branch that is looked up after it.\<close>

lemma readback_keeps:
  "keeps (owns n e b j) (read_remote_head H cwd repo b) (\<lambda>c s. owns n e b j s \<and> remote_shown (drop n (cx_calls s)) b c)"
  by (rule track_quiet[OF quiet_remote_head stable_owns]) (auto simp: owns_def intro: remote_after)

lemma recover_published_keeps:
  shows "keeps (owns n (pa_expected A) (pa_branch A) j) (recover_published H A j)
    (\<lambda>r s. rests_on n (pa_expected A) (pa_branch A) r (cx_calls s))"
proof -
  let ?e = "pa_expected A" and ?b = "pa_branch A"
  let ?S = "\<lambda>c s. owns n ?e ?b j s \<and> remote_shown (drop n (cx_calls s)) ?b c"
  note S = stable_remote[OF stable_owns, of n ?e ?b j n ?b]
  have check: "keeps (?S c) (censure (VStr c = jn_candidate_commit j) z) (\<lambda>_ s. ?S c s \<and> jn_candidate_commit j = VStr c)" for c z
    by (rule track_quiet[OF quiet_ensure S]) simp
  have T: "stable (\<lambda>s. ?S c s \<and> jn_candidate_commit j = VStr c)" for c using S[of c] by (auto simp: stable_def)
  show ?thesis unfolding recover_published_def Let_def
    by (rule track_bind[OF track_plain[OF quiet_ensure stable_owns]], rule track_bind[OF readback_keeps], rule track_bind[OF check],
        rule track_bind[OF track_plain[OF quiet_abbrev T]], rule track_bind[OF track_plain[OF quiet_count T]], rule track_ret)
      (auto simp: rests_on_def recovered_outcome_def dest: owns_inv owns_base known_candidate)
qed

lemma recover_intent_keeps:
  shows "keeps (owns n (pa_expected A) (pa_branch A) j) (recover_publish_intent H A st j)
    (\<lambda>r s. rests_on n (pa_expected A) (pa_branch A) r (cx_calls s))"
proof -
  let ?e = "pa_expected A" and ?b = "pa_branch A"
  let ?S = "\<lambda>c s. owns n ?e ?b j s \<and> remote_shown (drop n (cx_calls s)) ?b c"
  let ?T = "\<lambda>c k s. owns n ?e ?b k s \<and> jn_candidate_commit k = VStr c \<and> remote_shown (drop n (cx_calls s)) ?b c"
  note S = stable_remote[OF stable_owns, of n ?e ?b _ n ?b]
  have T: "stable (?T c k)" for c k using S[of k c] by (auto simp: stable_def)
  have name: "jn_candidate_commit j = VStr c" if "VStr c = py_or (jn_candidate_commit j) (VStr []) \<and> truthy (py_or (jn_candidate_commit j) (VStr []))" for c
    using that by (auto simp: py_or_def split: if_splits)
  have landed: "keeps (?S c) (cbind (write_journal H st (j\<lparr>jn_state := ''published''\<rparr>)) (\<lambda>_. cbind (recovered_count j)
      (\<lambda>m. cret (recovered_outcome H A j (py_or (jn_candidate_commit j) (VStr [])) c a m)))) (\<lambda>r s. rests_on n ?e ?b r (cx_calls s))"
    if x: "VStr c = py_or (jn_candidate_commit j) (VStr []) \<and> truthy (py_or (jn_candidate_commit j) (VStr []))" for c a
    by (rule track_bind[OF published_write[OF name[OF x]]], rule track_bind[OF track_plain[OF quiet_count T]], rule published_ret)
      (use x in \<open>simp_all add: recovered_outcome_def\<close>)
  show ?thesis unfolding recover_publish_intent_def Let_def
    by (rule track_bind[OF readback_keeps], rule track_bind[OF track_plain[OF quiet_abbrev S]], intro track_if landed,
        assumption, rule track_bind[OF track_plain[OF quiet_count S]], rule track_ret, rule_tac[2] track_fail)
      (auto simp: not_published dest: owns_inv)
qed

section \<open>A whole run\<close>

lemma no_change_keeps:
  "keeps (fresh n e b k) (no_change H A st snap h a r d k) (\<lambda>r s. rests_on n e b r (cx_calls s))"
proof -
  have "sound (cx_calls s) e b (k\<lparr>jn_state := ''prepared'', jn_eligible_count := VInt 0, jn_eligible_digest := x\<rparr>)"
    if "fresh n e b k s" for s :: "'a codex" and x
  proof (rule sound_update[where j = k])
    show s: "sound (cx_calls s) e b k" "pushes (cx_calls s) = []" using that by (simp_all add: fresh_def)
    show "tree_ok (cx_calls s) e (k\<lparr>jn_state := ''prepared'', jn_eligible_count := VInt 0, jn_eligible_digest := x\<rparr>)"
      "commit_ok (cx_calls s) e (k\<lparr>jn_state := ''prepared'', jn_eligible_count := VInt 0, jn_eligible_digest := x\<rparr>)"
      using s(1) by (simp_all add: sound_def tree_ok_def commit_ok_def)
  qed (simp_all add: intended_def)
  note w = track_rewrite[where P = "fresh n e b k" and i = k and G = "\<lambda>_. True", OF _ this]
  show ?thesis unfolding no_change_def
    by (rule track_bind[OF w], simp, assumption, rule track_ret) (auto simp: not_published dest: fresh_inv)
qed

lemma build_keeps:
  assumes "\<And>j. known = Some j \<Longrightarrow> P = fresh n (pa_expected A) (pa_branch A) j" "known = None \<Longrightarrow> P = blank n"
  shows "keeps P (build_and_publish H A st snap known) (\<lambda>r s. rests_on n (pa_expected A) (pa_branch A) r (cx_calls s))"
proof -
  let ?e = "pa_expected A" and ?b = "pa_branch A"
  let ?R = "\<lambda>r s. rests_on n ?e ?b r (cx_calls s)"
  have P: "stable P" using assms stable_fresh stable_blank by (cases known) auto
  have prepared: "keeps (\<lambda>s. P s \<and> q) (prepare_journal H A st snap d known) (\<lambda>k s. fresh n ?e ?b k s \<and> q)" for q d
    using prepare_keeps[OF assms, where H = H and st = st and snap = snap and d = d] by (auto simp: keeps_def)
  have pure: "keeps (\<lambda>s. fresh n ?e ?b k s \<and> q) (censure z x) (\<lambda>_ s. fresh n ?e ?b k s \<and> q)" for k q z x
    by (rule track_plain[OF quiet_ensure]) (use stable_fresh[of n ?e ?b k] in \<open>auto simp: stable_def\<close>)
  have none: "keeps (\<lambda>s. fresh n ?e ?b k s \<and> q) (no_change H A st snap h a r d k) ?R" for k q h a r d
    by (rule track_imp[OF no_change_keeps]) auto
  have tree: "keeps (\<lambda>s. fresh n ?e ?b k s \<and> list_all eligible (wd_paths d)) (tree_phase H A st snap d k)
      (\<lambda>(tr, k) s. fresh n ?e ?b k s \<and> tree_shown (cx_calls s) ?e tr)" if "wd_count d \<noteq> 0" for k d
    using tree_keeps[OF that, where H = H and A = A and st = st and snap = snap and n = n and b = ?b and j = k] by (auto simp: keeps_def)
  have arg: "keeps (\<lambda>s. fresh n ?e ?b k s \<and> jn_candidate_commit k = c \<and> c \<noteq> VNull) (text_arg c)
      (\<lambda>c s. fresh n ?e ?b k s \<and> jn_candidate_commit k = VStr c)" for c k
    using stable_fresh[of n ?e ?b k] by (auto simp: keeps_def text_arg_def stable_def split: pyval.splits dest: fresh_inv)
  have out: "keeps (\<lambda>s. fresh n ?e ?b k s \<and> jn_candidate_commit k = VStr c) (publish_phase H A st snap d a c k) ?R" for k c d a
    using publish_keeps[where j = k and c = c and n = n and A = A and H = H and st = st and snap = snap and d = d and actual = a] by (auto simp: keeps_def)
  show ?thesis unfolding build_and_publish_def
    apply (rule track_bind[OF admit_keeps[OF P]])
    apply (simp only: split_beta)
    apply (rule track_bind[OF prepared])
    apply (rule track_bind[OF pure])
    apply (rule track_if[OF none])
    apply (rule track_bind[OF tree], assumption)
    apply (simp only: split_beta)
    apply (rule track_bind[OF candidate_keeps])
    apply (simp only: split_beta)
    apply (rule track_bind[OF arg])
    apply (rule out)
    done
qed

lemma held_unique: "held s j \<Longrightarrow> held s k \<Longrightarrow> j = k"
  by (auto simp: held_def)

definition started :: "nat \<Rightarrow> 'w codex \<Rightarrow> bool" where
  "started n s \<longleftrightarrow> journal_inv s \<and> n \<le> length (cx_calls s)"

lemma stable_started: "stable (started n)"
  by (auto simp: stable_def started_def intro: inv_extends extends_length)

lemma read_keeps:
  "keeps (started n) (read_journal H st) (\<lambda>r s. case r of None \<Rightarrow> blank n s | Some j \<Rightarrow> \<exists>e b. owns n e b j s)"
proof -
  have *: "case r of None \<Rightarrow> blank n t | Some j \<Rightarrow> \<exists>e b. owns n e b j t"
    if s: "started n s" and rd: "read_journal H st s = (Inr r, t)" and e: "extends s t" for s r t
  proof -
    have t: "journal_inv t" "n \<le> length (cx_calls t)"
      using stable_started[of n] s e by (auto simp: stable_def started_def)
    show ?thesis
    proof (cases r)
      case None
      with rd read_journal_none have "cx_journal t = None" by blast
      moreover have "\<not> held t j" for j using calculation by (simp add: held_def)
      ultimately show ?thesis using None t by (simp add: blank_def journal_inv_def)
    next
      case (Some j)
      with rd read_journal_held have h: "held t j" by blast
      then have "cx_journal t \<noteq> None" by (auto simp: held_def)
      with t(1) obtain k e b where k: "held t k" "sound (cx_calls t) e b k" unfolding journal_inv_def by blast
      then have "owns n e b j t" using t(2) held_unique[OF h k(1)] by (simp add: owns_def)
      with Some show ?thesis by auto
    qed
  qed
  show ?thesis by (rule track_imp[OF track_quiet[OF quiet_read_journal stable_started *]]) auto
qed

lemma match_keeps:
  assumes "keeps (owns n (pa_expected A) (pa_branch A) j) K R"
  shows "keeps (\<lambda>s. \<exists>e b. owns n e b j s) (cbind (clift (journal_matches j (pa_repository A) (pa_semantic A) (pa_pr A) (pa_branch A) (pa_expected A)))
    (\<lambda>same. cbind (censure same z) (\<lambda>_. K))) R"
  unfolding keeps_def
proof (intro allI impI)
  fix s r t
  assume "\<exists>e b. owns n e b j s" and run: "cbind (clift (journal_matches j (pa_repository A) (pa_semantic A) (pa_pr A) (pa_branch A) (pa_expected A)))
    (\<lambda>same. cbind (censure same z) (\<lambda>_. K)) s = (r, t)"
  then obtain e b where o: "owns n e b j s" by blast
  show "journal_inv t \<and> (\<forall>x. r = Inr x \<longrightarrow> R x t)"
  proof (cases "journal_matches j (pa_repository A) (pa_semantic A) (pa_pr A) (pa_branch A) (pa_expected A) = Inr True")
    case True
    then have "dget (jn_transport j) ''expected_remote_sha'' = VStr (pa_expected A)" "dget (jn_transport j) ''canonical_branch'' = VStr (pa_branch A)"
      by (auto simp: journal_matches_def result_simps)
    with o have "owns n (pa_expected A) (pa_branch A) j s" by (auto simp: owns_def sound_def transport_is_def)
    moreover have "K s = (r, t)" using run True by (simp add: cbind_def clift_def censure_def cret_def)
    ultimately show ?thesis using trackD[OF assms] by blast
  next
    case False
    then have "t = s" "\<exists>x. r = Inl x" using run
      by (auto simp: cbind_def clift_def censure_def cfail_def cret_def split: sum.splits if_splits)
    with o show ?thesis by (auto dest: owns_inv)
  qed
qed

lemma persist_keeps:
  "keeps (started n) (persist_implementation H A) (\<lambda>r s. rests_on n (pa_expected A) (pa_branch A) r (cx_calls s))"
proof -
  let ?e = "pa_expected A" and ?b = "pa_branch A"
  let ?R = "\<lambda>r s. rests_on n ?e ?b r (cx_calls s)"
  note any = track_plain[OF _ stable_started]
  have fresh: "fresh n ?e ?b j s" if "owns n ?e ?b j s" "\<not> intended j" for s j
    using that by (simp add: fresh_owns owns_def sound_def push_ok_def)
  have none: "keeps (blank n) (build_and_publish H A st snap None) ?R" for st snap by (rule build_keeps) simp_all
  have more: "keeps (owns n ?e ?b j) (build_and_publish H A st snap (Some j)) ?R" if "\<not> intended j" for st snap j
    by (rule track_imp[OF build_keeps[where known = "Some j" and P = "fresh n ?e ?b j"]]) (simp_all add: fresh that)
  have resumed: "keeps (owns n ?e ?b j) (resume_run H A st snap j) ?R" for st snap j
    unfolding resume_run_def
    by (intro track_if recover_published_keeps recover_intent_keeps more) (simp add: intended_def)
  have journal: "keeps (started n) (cbind (read_journal H st) (persist_with H A st snap)) ?R" for st snap
  proof (rule track_bind[OF read_keeps])
    fix x show "keeps (\<lambda>s. case x of None \<Rightarrow> blank n s | Some j \<Rightarrow> \<exists>e b. owns n e b j s) (persist_with H A st snap x) ?R"
      by (cases x) (simp_all only: option.case persist_with_def match_keeps[OF resumed] none)
  qed
  have missing: "keeps (started n) (cfail z) ?R" for z by (rule track_fail) (simp add: started_def)
  have rest: "keeps (started n) (case snap of None \<Rightarrow> cfail z | Some snap \<Rightarrow> cbind (read_journal H st) (persist_with H A st snap)) ?R" for snap z st
    by (cases snap) (simp_all only: option.case missing journal)
  show ?thesis unfolding persist_implementation_def
    by (rule track_bind[OF any], intro quiet_rules, rule track_bind[OF any], intro quiet_rules, rule rest)
qed

section \<open>The Git surface of a run\<close>

text \<open>A call is admissible if its verb is one of the fixed ones or it is an ordinary push.\<close>

definition admissible :: "git_call \<Rightarrow> bool" where
  "admissible k \<longleftrightarrow> owned_env k \<and> (git_verb (gc_argv k) \<in> set fixed_verbs \<or> (\<exists>c b. ordinary_push c b k))"

definition bounded_surface :: "('w, 'a) codex_op \<Rightarrow> bool" where
  "bounded_surface m \<longleftrightarrow> (\<forall>s r t. m s = (r, t) \<longrightarrow> (\<exists>new. cx_calls t = cx_calls s @ new \<and> list_all admissible new))"

lemma surface_quiet: "quiet m \<Longrightarrow> bounded_surface m"
  unfolding quiet_def bounded_surface_def extends_def fixed_call_def admissible_def list_all_iff by blast

lemma surface_bind: "bounded_surface m \<Longrightarrow> (\<And>x. bounded_surface (k x)) \<Longrightarrow> bounded_surface (cbind m k)"
  unfolding bounded_surface_def
proof (intro allI impI)
  fix s r t
  assume m: "\<forall>s r t. m s = (r, t) \<longrightarrow> (\<exists>new. cx_calls t = cx_calls s @ new \<and> list_all admissible new)"
    and k: "\<And>x. \<forall>s r t. k x s = (r, t) \<longrightarrow> (\<exists>new. cx_calls t = cx_calls s @ new \<and> list_all admissible new)"
    and run: "cbind m k s = (r, t)"
  from run show "\<exists>new. cx_calls t = cx_calls s @ new \<and> list_all admissible new"
  proof (cases rule: cbind_cases)
    case (stop e) with m show ?thesis by blast
  next
    case (go x u)
    with m k[of x] obtain a b where "cx_calls u = cx_calls s @ a" "list_all admissible a" "cx_calls t = cx_calls u @ b" "list_all admissible b"
      by blast
    then show ?thesis by (intro exI[of _ "a @ b"]) simp
  qed
qed

lemma surface_if: "bounded_surface m \<Longrightarrow> bounded_surface n \<Longrightarrow> bounded_surface (if b then m else n)"
  by simp

lemma surface_split: "(\<And>x y. bounded_surface (k x y)) \<Longrightarrow> bounded_surface (case p of (x, y) \<Rightarrow> k x y)"
  by (cases p) simp

lemma surface_option: "bounded_surface m \<Longrightarrow> (\<And>x. bounded_surface (k x)) \<Longrightarrow> bounded_surface (case v of None \<Rightarrow> m | Some x \<Rightarrow> k x)"
  by (cases v) simp_all

lemma surface_let: "bounded_surface (k x) \<Longrightarrow> bounded_surface (let y = x in k y)"
  by simp

lemmas surface_rules = surface_bind surface_if surface_split surface_option surface_let

lemma surface_write: "bounded_surface (write_journal H st j)"
proof -
  have "bounded_surface (write_json H p cx_journal_update v)" for p v
    by (auto simp: bounded_surface_def dest: write_json_journal(1))
  then show ?thesis unfolding write_journal_def by (rule surface_bind) (intro surface_quiet quiet_rules)
qed

lemma surface_push: "bounded_surface (transport_git H cwd (push_argv st c b) [])"
  by (auto simp: bounded_surface_def transport_git_def Let_def validate_git_env_def admissible_def owned_env_def ordinary_push_def
      push_argv_def split: prod.splits git_end.splits)

lemma surface_persist: "bounded_surface (persist_implementation H A)"
proof -
  have ref: "bounded_surface (git_out H cwd [''update-ref'', r, c, e] [] z)" for cwd r c e z
    by (intro surface_quiet quiet_out) (simp add: fixed_verbs_def)
  have publish: "bounded_surface (publish_phase H A st snap d actual c j)" for st snap d actual c j
    unfolding publish_phase_def
    by (intro surface_rules ref surface_write surface_push) (intro surface_quiet quiet_rules)+
  have build: "bounded_surface (build_and_publish H A st snap known)" for st snap known
    unfolding build_and_publish_def prepare_journal_def no_change_def tree_phase_def candidate_phase_def
    by (intro surface_rules publish surface_write) (intro surface_quiet quiet_rules)+
  have resume: "bounded_surface (resume_run H A st snap j)" for st snap j
    unfolding resume_run_def recover_publish_intent_def
    by (intro surface_rules build surface_write) (intro surface_quiet quiet_rules)+
  show ?thesis unfolding persist_implementation_def persist_with_def
    by (intro surface_rules build resume) (intro surface_quiet quiet_rules)+
qed

end
