(* ===== verification/CodexProps.thy ===== *)
theory CodexProps
  imports CodexRun
begin

text \<open>
  Properties of the persistence of the direct development host over any history of runs, and a
  sample host on which they are applied.
\<close>

section \<open>Any history of runs in one workspace\<close>

record run_report =
  rr_args :: persist_args
  rr_result :: "(codex_exn, persistence_outcome) result"
  rr_before :: nat
  rr_log :: "git_call list"

fun persist_history :: "('w host \<times> persist_args) list \<Rightarrow> 'w codex \<Rightarrow> run_report list \<times> 'w codex" where
  "persist_history [] s = ([], s)"
| "persist_history ((H, A) # runs) s =
     (let (r, t) = persist_implementation H A s; (rs, u) = persist_history runs t in
      (\<lparr>rr_args = A, rr_result = r, rr_before = length (cx_calls s), rr_log = cx_calls t\<rparr> # rs, u))"

definition report_ok :: "run_report \<Rightarrow> bool" where
  "report_ok q \<longleftrightarrow> (\<forall>r. rr_result q = Inr r \<longrightarrow> rests_on (rr_before q) (pa_expected (rr_args q)) (pa_branch (rr_args q)) r (rr_log q))"

lemma history_keeps:
  "journal_inv s \<Longrightarrow> list_all admissible (cx_calls s) \<Longrightarrow> persist_history runs s = (rs, u) \<Longrightarrow>
     journal_inv u \<and> list_all admissible (cx_calls u) \<and> (\<forall>q \<in> set rs. report_ok q)"
proof (induction runs arbitrary: s rs u)
  case (Cons run runs)
  obtain H A where run: "run = (H, A)" by (cases run)
  obtain r t where one: "persist_implementation H A s = (r, t)" by (cases "persist_implementation H A s") blast
  obtain qs v where more: "persist_history runs t = (qs, v)" by (cases "persist_history runs t") blast
  have "started (length (cx_calls s)) s" using Cons.prems(1) by (simp add: started_def)
  from trackD[OF persist_keeps this one] have t: "journal_inv t"
      "\<And>x. r = Inr x \<Longrightarrow> rests_on (length (cx_calls s)) (pa_expected A) (pa_branch A) x (cx_calls t)" by auto
  have "list_all admissible (cx_calls t)"
    using surface_persist[of H A] one Cons.prems(2) unfolding bounded_surface_def by fastforce
  from Cons.IH[OF t(1) this more] t(2) Cons.prems(3) one more show ?case
    by (auto simp: run report_ok_def)
qed simp

text \<open>
  C9: publication happens at most once and rests on what was checked. In any history of runs of one
  workspace that starts without a journal, with any arguments, whatever Git answers, wherever a
  write fails and wherever the agent dies: at most one push is ever made. It sends one candidate
  to one branch without force, and only after a journal that names this candidate and says that
  it is to be published was on disk. Every Git call has one of the fixed verbs and only
  provider-owned environment keys. A run that reports a published candidate read this very
  candidate back from the remote branch, and Git has told the provider that the candidate's parent
  is the admitted head, and that its tree differs from that head in at least one path and only in
  eligible ones: relative paths that name neither Git metadata, nor provider files, nor attributes.
\<close>

theorem published_once_as_verified:
  assumes "cx_journal s = None" "cx_calls s = []" "persist_history runs s = (rs, t)"
  shows "length (pushes (cx_calls t)) \<le> 1
    \<and> (\<forall>k \<in> set (pushes (cx_calls t)). \<exists>j b c. held t j \<and> intended j \<and> jn_candidate_commit j = VStr c \<and> ordinary_push c b k)
    \<and> list_all admissible (cx_calls t)
    \<and> (\<forall>q \<in> set rs. \<forall>r. rr_result q = Inr r \<and> po_published r \<longrightarrow> (\<exists>c tr. po_candidate r = VStr c
         \<and> candidate_shown (rr_log q) (pa_expected (rr_args q)) tr c
         \<and> remote_shown (drop (rr_before q) (rr_log q)) (pa_branch (rr_args q)) c))"
proof -
  have "journal_inv s" "list_all admissible (cx_calls s)" using assms(1,2) by (simp_all add: journal_inv_def)
  from history_keeps[OF this assms(3)] have h: "journal_inv t" "list_all admissible (cx_calls t)" "\<forall>q \<in> set rs. report_ok q" by blast+
  from h(1) have "length (pushes (cx_calls t)) \<le> 1
    \<and> (\<forall>k \<in> set (pushes (cx_calls t)). \<exists>j b c. held t j \<and> intended j \<and> jn_candidate_commit j = VStr c \<and> ordinary_push c b k)"
    unfolding journal_inv_def sound_def push_ok_def by fastforce
  with h(2,3) show ?thesis unfolding report_ok_def rests_on_def by blast
qed

section \<open>Where recovery ends\<close>

text \<open>Once the local reference has moved and no intent is written, no later run gets further.\<close>

lemma moved_ref_unrecoverable:
  assumes "rev_parse H (pa_cwd A) ''HEAD'' s = (Inr h, t)" "h \<noteq> pa_expected A"
  shows "build_and_publish H A st snap known s = (Inl (Codex ''direct_codex_local_head_unexpected''), t)"
  using assms by (simp add: build_and_publish_def admit_run_def cbind_def censure_def cfail_def)

text \<open>A checkout is prepared only while the remote branch is at the admitted head: a candidate that has
  landed is never looked at again by a request that prepares the checkout first.\<close>

lemma checkout_needs_base:
  assumes "bootstrap_execution_checkout H ws repo branch expected roots s = (Inr b, t)"
  shows "tb_remote_head b = expected \<and> (\<exists>u v. read_remote_head H (path_parent (cw_path ws)) repo branch u = (Inr expected, v))"
  using assms unfolding bootstrap_execution_checkout_def Let_def
  by (elim cbind_Inr) (auto simp: split_beta elim!: cbind_Inr)

section \<open>A sample host\<close>

text \<open>The state says whether the candidate has landed; the worktree has one changed file.\<close>

definition base_sha :: string where "base_sha = replicate 40 (CHR ''a'')"
definition tree_sha :: string where "tree_sha = replicate 40 (CHR ''b'')"
definition cand_sha :: string where "cand_sha = replicate 40 (CHR ''c'')"

definition sample_answer :: "bool \<Rightarrow> string list \<Rightarrow> string" where
  "sample_answer landed argv =
     (if argv = [''rev-parse'', ''HEAD''] then base_sha
      else if argv = [''rev-parse'', ''--abbrev-ref'', ''HEAD''] then ''main''
      else if argv = [''rev-parse'', cand_sha @ ''^{tree}''] then tree_sha
      else if argv = [''rev-parse'', cand_sha @ ''^''] then base_sha
      else if take 1 argv = [''ls-remote''] then (if landed then cand_sha else base_sha) @ '' refs/heads/main''
      else if git_verb argv = ''diff-index'' then '':100644 100644 x y M'' @ [CHR 0x00] @ ''note.txt'' @ [CHR 0x00]
      else if argv = [''write-tree''] then tree_sha
      else if take 1 argv = [''diff-tree''] then ''note.txt'' @ [CHR 0x00]
      else if git_verb argv = ''commit-tree'' then cand_sha else [])"

definition sample_git :: "path \<Rightarrow> string list \<Rightarrow> (string \<times> string) list \<Rightarrow> bool \<Rightarrow> git_end \<times> bool" where
  "sample_git cwd argv env landed =
     (if git_verb argv = ''push'' then (Exited 0 [] [], True)
      else if take 1 argv = [''config''] then (Exited 1 [] [], landed)
      else (Exited 0 (sample_answer landed argv) [], landed))"

definition sample_host :: "bool host" where
  "sample_host = \<lparr>ho_git = sample_git, ho_write = (\<lambda>_ w. (Written, w)), ho_readable = (\<lambda>_ w. (True, w)),
     ho_read_text = (\<lambda>_ w. (NoFile, w)), ho_exists = (\<lambda>_ w. (True, w)), ho_has_entries = (\<lambda>_ w. (True, w)),
     ho_discard = (\<lambda>_ w. (True, w)), ho_mkdir = (\<lambda>_ w. (True, w)), ho_write_empty = (\<lambda>_ w. (True, w)),
     ho_abspath = (\<lambda>p. p), ho_sha = (\<lambda>_. ''d'')\<rparr>"

definition sample_snapshot :: canon_snapshot where
  "sample_snapshot = \<lparr>cs_version = 1, cs_scalars = [(''core.autocrlf'', []), (''core.eol'', []), (''core.safecrlf'', []),
       (CHECK_ROUNDTRIP, [])], cs_info_attributes_empty = True, cs_expected_attribute_digest = ''d'',
       cs_versioned_gitattributes_digest = ''d'', cs_expected_remote_sha = base_sha, cs_inspection_index_digest = ''d'', cs_digest = ''d''\<rparr>"

definition sample_persist :: persist_args where
  "sample_persist = \<lparr>pa_workspace = \<lparr>cw_root = Path True [''ws''], cw_path = Path True [''ws'', ''r'', ''a''],
       cw_repository_digest = ''d'', cw_semantic_digest = ''d'', cw_workspace_digest = ''d''\<rparr>,
     pa_state = None, pa_snapshot = Some sample_snapshot,
     pa_repository = \<lparr>rid_vcs = ''git'', rid_authority = ''h'', rid_path = ''r''\<rparr>,
     pa_semantic = \<lparr>project_id = ''p'', task_id = ''t'', run_id = ''r'', attempt_id = ''a'', slice_id = None\<rparr>,
     pa_pr = 7, pa_branch = ''main'', pa_expected = base_sha, pa_now = 1700000000\<rparr>"

definition empty_codex :: "bool codex" where
  "empty_codex = \<lparr>cx_world = False, cx_journal = None, cx_snapshot = None, cx_calls = []\<rparr>"

abbreviation sample_state :: provider_state where "sample_state \<equiv> provider_state (pa_workspace sample_persist)"
abbreviation sample_cwd :: path where "sample_cwd \<equiv> pa_cwd sample_persist"

definition sample_delta :: worktree_delta where
  "sample_delta = \<lparr>wd_modified = [''note.txt''], wd_deleted = [], wd_added = [], wd_digest = ''d''\<rparr>"

text \<open>A step returns \<open>x\<close> and leaves the candidate landed or not and the journal as said.\<close>

definition gives :: "bool \<Rightarrow> stored \<Rightarrow> (bool, 'a) codex_op \<Rightarrow> 'a \<Rightarrow> bool \<Rightarrow> stored \<Rightarrow> bool" where
  "gives l j m x l' j' \<longleftrightarrow> (\<forall>s. cx_world s = l \<and> cx_journal s = j \<longrightarrow> (\<exists>t. m s = (Inr x, t) \<and> cx_world t = l' \<and> cx_journal t = j'))"

lemma gives_leaf:
  assumes "\<And>n L. case m \<lparr>cx_world = l, cx_journal = j, cx_snapshot = n, cx_calls = L\<rparr> of (r, t) \<Rightarrow> r = Inr x \<and> cx_world t = l' \<and> cx_journal t = j'"
  shows "gives l j m x l' j'"
proof -
  have "\<exists>t. m s = (Inr x, t) \<and> cx_world t = l' \<and> cx_journal t = j'" if "cx_world s = l \<and> cx_journal s = j" for s
    using that assms[of "cx_snapshot s" "cx_calls s"] by (cases s) auto
  then show ?thesis by (simp add: gives_def)
qed

lemma gives_bind: "gives l j m x l' j' \<Longrightarrow> gives l' j' (k x) y l'' j'' \<Longrightarrow> gives l j (cbind m k) y l'' j''"
  unfolding gives_def cbind_def by fastforce

lemma gives_ret: "gives l j (cret x) x l j"
  by (simp add: gives_def)

lemma gives_lift: "r = Inr x \<Longrightarrow> gives l j (clift r) x l j"
  by (simp add: gives_def)

lemma gives_ensure: "b \<Longrightarrow> gives l j (censure b z) () l j"
  by (simp add: gives_def)

abbreviation on_disk :: "journal \<Rightarrow> stored" where
  "on_disk j \<equiv> Some (Some (json_norm (journal_to_dict j)))"

lemma sorted_items_map:
  fixes d :: "('k::linorder \<times> 'v) list"
  shows "sorted_items (map (\<lambda>(k, v). (k, f v)) d) = map (\<lambda>(k, v). (k, f v)) (sorted_items d)"
proof -
  let ?g = "\<lambda>(k, v). (k, f v)"
  have "insort_key fst (?g x) (map ?g xs) = map ?g (insort_key fst x xs)" for x :: "'k \<times> 'v" and xs
    by (induction xs) (auto simp: split_beta)
  then show ?thesis unfolding sorted_items_def by (induction d) simp_all
qed

lemma json_norm_idem [simp]: "json_norm (json_norm v) = json_norm v"
proof (induction v)
  case (VDict d)
  have "map ((\<lambda>(k, v). (k, json_norm v)) \<circ> (\<lambda>(k, v). (k, json_norm v))) d = map (\<lambda>(k, v). (k, json_norm v)) d"
    by (rule map_cong[OF refl]) (use VDict in \<open>fastforce simp: comp_def\<close>)
  moreover have "sorted_items (sorted_items e) = sorted_items e" for e :: "(string \<times> pyval) list"
    by (simp add: sorted_items_def sort_key_id_if_sorted)
  ultimately show ?case by (simp add: sorted_items_map[symmetric] del: map_eq_conv)
qed (auto simp: map_idI)

lemma norm_journal_dict: "json_norm (journal_to_dict (norm_journal j)) = json_norm (journal_to_dict j)"
proof -
  have "json_norm (VDict (norm_dict d)) = json_norm (VDict d)" for d
    using json_norm_idem[of "VDict d"] by (simp add: norm_dict_def)
  then show ?thesis by (simp add: journal_to_dict_def norm_journal_def)
qed

lemma gives_write:
  "gives l v (write_journal sample_host st j) (norm_journal j) l (on_disk j)"
  using norm_journal_dict[of j] by (auto simp: gives_def write_journal_def cbind_def write_json_def read_journal_def read_json_def
      sample_host_def Let_def journal_roundtrip cret_def)

lemma sample_leaves:
  "gives False j (rev_parse sample_host sample_cwd ''HEAD'') base_sha False j"
  "gives False j (abbrev_head sample_host sample_cwd) ''main'' False j"
  "gives False j (revalidate_canonicalization sample_host (pa_workspace sample_persist) sample_state sample_snapshot) sample_snapshot False j"
  "gives False j (read_remote_head sample_host sample_cwd (pa_repository sample_persist) ''main'') base_sha False j"
  "gives True j (read_remote_head sample_host sample_cwd (pa_repository sample_persist) ''main'') cand_sha True j"
  "gives False j (inventory sample_host sample_cwd base_sha) sample_delta False j"
  "gives False j (write_tree sample_host sample_cwd base_sha sample_delta sample_state sample_snapshot) tree_sha False j"
  "gives False j (verify_candidate_object sample_host sample_cwd cand_sha tree_sha base_sha) () False j"
  "gives False j (commit_tree sample_host sample_cwd tree_sha base_sha (new_identity sample_host (pa_semantic sample_persist) 1700000000)
     (commit_message (pa_semantic sample_persist)) sample_state sample_snapshot) cand_sha False j"
  "gives False j (git_out sample_host sample_cwd [''update-ref'', r, c, e] [] z) [] False j"
  "gives False j (transport_git sample_host sample_cwd (push_argv sample_state cand_sha ''main'') []) (0, [], []) True j"
  by (rule gives_leaf, code_simp)+

definition first_journal :: journal where
  "first_journal = \<lparr>jn_identity = [(''repository'', VStr ''git://h/r''), (''task_id'', VStr ''t''), (''run_id'', VStr ''r''),
       (''attempt_id'', VStr ''a''), (''slice_id'', VNull)],
     jn_transport = [(''canonical_pr'', VInt 7), (''canonical_branch'', VStr ''main''), (''expected_remote_sha'', VStr base_sha)],
     jn_clean_semantics = [(''pre_checkout_snapshot_digest'', VStr ''d''), (''expected_attribute_snapshot_digest'', VStr ''d''),
       (''checkout_materialized_under_snapshot'', VBool True), (''info_attributes_empty'', VBool True),
       (''versioned_gitattributes_unchanged'', VBool True)],
     jn_commit_identity = new_identity sample_host (pa_semantic sample_persist) 1700000000,
     jn_message = commit_message (pa_semantic sample_persist), jn_state = ''prepared'', jn_candidate_tree = VNull,
     jn_eligible_digest = VStr ''d'', jn_eligible_count = VInt 1, jn_candidate_commit = VNull, jn_version = 1\<rparr>"

definition tree_journal :: journal where
  "tree_journal = (norm_journal first_journal)\<lparr>jn_candidate_tree := VStr tree_sha, jn_eligible_digest := VStr ''d'',
     jn_eligible_count := VInt 1, jn_state := ''tree_ready''\<rparr>"

definition candidate_journal :: journal where
  "candidate_journal = (norm_journal tree_journal)\<lparr>jn_candidate_commit := VStr cand_sha, jn_state := ''candidate_ready''\<rparr>"

definition ref_journal :: journal where
  "ref_journal = (norm_journal candidate_journal)\<lparr>jn_state := ''local_ref_ready''\<rparr>"

definition intent_journal :: journal where
  "intent_journal = (norm_journal ref_journal)\<lparr>jn_state := ''publish_intent''\<rparr>"

definition published_journal :: journal where
  "published_journal = (norm_journal intent_journal)\<lparr>jn_state := ''published''\<rparr>"

lemma codex_sample_fields:
  "jn_state (norm_journal first_journal) = ''prepared''" "wd_count sample_delta = 1" "wd_digest sample_delta = ''d''"
  "jn_candidate_commit (norm_journal tree_journal) = VNull"
  "jn_commit_identity (norm_journal tree_journal) = new_identity sample_host (pa_semantic sample_persist) 1700000000"
  "jn_message (norm_journal tree_journal) = commit_message (pa_semantic sample_persist)"
  "ho_sha sample_host (jn_message (norm_journal first_journal)) = ci_message_digest (jn_commit_identity (norm_journal first_journal))"
  by (simp_all add: norm_journal_def first_journal_def tree_journal_def sample_delta_def wd_count_def wd_paths_def new_identity_def
      sample_host_def sorted_set_def)

lemma sample_identity:
  "journal_identity (pa_repository sample_persist) (pa_semantic sample_persist) = Inr (jn_identity first_journal)"
  by code_simp

lemma sample_args:
  "pa_expected sample_persist = base_sha" "pa_branch sample_persist = ''main''" "pa_state sample_persist = None"
  "pa_snapshot sample_persist = Some sample_snapshot" "pa_now sample_persist = 1700000000" "pa_pr sample_persist = 7"
  "cs_digest sample_snapshot = ''d''" "cs_expected_attribute_digest sample_snapshot = ''d''"
  by (simp_all add: sample_persist_def sample_snapshot_def)

lemma sample_tree: "gives False v (tree_phase sample_host sample_persist sample_state sample_snapshot sample_delta (norm_journal first_journal))
    (tree_sha, norm_journal tree_journal) False (on_disk tree_journal)"
  unfolding tree_phase_def sample_args codex_sample_fields
  by (simp, rule gives_bind[OF sample_leaves(7)], rule gives_bind[OF gives_write[of _ _ _ tree_journal, unfolded tree_journal_def]])
    (simp add: gives_ret tree_journal_def)

lemma sample_candidate: "gives False v (candidate_phase sample_host sample_persist sample_state sample_snapshot tree_sha (norm_journal tree_journal))
    (VStr cand_sha, norm_journal candidate_journal) False (on_disk candidate_journal)"
  unfolding candidate_phase_def sample_args codex_sample_fields
  by (simp, rule gives_bind[OF sample_leaves(9)], rule gives_bind[OF sample_leaves(8)],
      rule gives_bind[OF gives_write[of _ _ _ candidate_journal, unfolded candidate_journal_def]]) (simp add: gives_ret candidate_journal_def)

lemma sample_publish: "\<exists>r. gives False v (publish_phase sample_host sample_persist sample_state sample_snapshot sample_delta ''main'' cand_sha
    (norm_journal candidate_journal)) r True (on_disk published_journal) \<and> po_published r"
  unfolding publish_phase_def sample_args Let_def
  apply (intro exI conjI)
   apply (rule gives_bind[OF sample_leaves(10)])
   apply (rule gives_bind[OF gives_write[of _ _ _ ref_journal, unfolded ref_journal_def]])
   apply (rule gives_bind[OF sample_leaves(4)])
   apply (rule gives_bind[OF gives_ensure], rule refl)
   apply (fold ref_journal_def)
   apply (rule gives_bind[OF gives_write[of _ _ _ intent_journal, unfolded intent_journal_def]])
   apply (fold intent_journal_def)
   apply (rule gives_bind[OF sample_leaves(11)])
   apply (simp only: prod.case simp_thms if_False)
   apply (rule gives_bind[OF sample_leaves(5)])
   apply (simp only: simp_thms if_False)
   apply (rule gives_bind[OF gives_write[of _ _ _ published_journal, unfolded published_journal_def]])
   apply (fold published_journal_def)
   apply (rule gives_ret)
  apply simp
  done

lemma sample_run: "\<exists>r. gives False None (persist_implementation sample_host sample_persist) r True (on_disk published_journal) \<and> po_published r"
proof -
  obtain r where r: "gives False (on_disk candidate_journal) (publish_phase sample_host sample_persist sample_state sample_snapshot sample_delta ''main'' cand_sha
    (norm_journal candidate_journal)) r True (on_disk published_journal)" "po_published r" using sample_publish by blast
  have admit: "gives False None (admit_run sample_host sample_persist sample_state sample_snapshot) (base_sha, ''main'', base_sha, sample_delta) False None"
    unfolding admit_run_def sample_args
    by (rule gives_bind[OF sample_leaves(1)] gives_bind[OF gives_ensure[OF refl]] gives_bind[OF sample_leaves(2)]
        gives_bind[OF sample_leaves(3)] gives_bind[OF sample_leaves(4)] gives_bind[OF sample_leaves(6)] gives_ret)+
  have prepare: "gives False None (prepare_journal sample_host sample_persist sample_state sample_snapshot sample_delta None)
      (norm_journal first_journal) False (on_disk first_journal)"
    using gives_write[of False None sample_state first_journal] unfolding prepare_journal_def option.case
    by (intro gives_bind[OF gives_lift[OF sample_identity]]) (simp add: first_journal_def sample_args codex_sample_fields)
  have build: "gives False None (build_and_publish sample_host sample_persist sample_state sample_snapshot None) r True (on_disk published_journal)"
    unfolding build_and_publish_def
    by (rule gives_bind[OF admit], simp only: prod.case, rule gives_bind[OF prepare], rule gives_bind[OF gives_ensure[OF codex_sample_fields(7)]],
        simp only: codex_sample_fields one_neq_zero if_False, rule gives_bind[OF sample_tree], simp only: prod.case,
        rule gives_bind[OF sample_candidate], simp only: prod.case text_arg_def pyval.case, rule gives_bind[OF gives_ret], rule r(1))
  have start: "gives False None (ensure_provider_state sample_host (pa_workspace sample_persist)) sample_state False None"
    "gives False None (read_journal sample_host sample_state) None False None"
    by (rule gives_leaf, code_simp)+
  have "gives False None (persist_implementation sample_host sample_persist) r True (on_disk published_journal)"
    unfolding persist_implementation_def sample_args option.case
    by (rule gives_bind[OF start(1)], rule gives_bind[OF gives_ret]) (simp add: gives_bind[OF start(2)] persist_with_def build)
  with r(2) show ?thesis by blast
qed

theorem published_once_as_verified_witness:
  "\<exists>L b c tr. remote_shown L b c \<and> candidate_shown L base_sha tr c \<and> length (pushes L) \<le> 1"
proof -
  obtain r t where run: "persist_implementation sample_host sample_persist empty_codex = (Inr r, t)" "po_published r"
  proof -
    obtain r where "gives False None (persist_implementation sample_host sample_persist) r True (on_disk published_journal)" "po_published r"
      using sample_run by blast
    moreover have "cx_world empty_codex = False \<and> cx_journal empty_codex = None" by (simp add: empty_codex_def)
    ultimately show ?thesis using that unfolding gives_def by blast
  qed
  have h: "persist_history [(sample_host, sample_persist)] empty_codex
      = ([\<lparr>rr_args = sample_persist, rr_result = Inr r, rr_before = 0, rr_log = cx_calls t\<rparr>], t)"
    using run(1) by (simp add: empty_codex_def)
  from published_once_as_verified[OF _ _ h] run(2) show ?thesis
    by (auto simp: empty_codex_def sample_args)
qed

end
