(* ===== verification/ScopeHandler.thy ===== *)
theory ScopeHandler
  imports ScopedRun ScopeRuntimeProps SandboxSample
begin

text \<open>
  The life cycle of mutation scopes as an operation (\<open>handlers/mutation_scope.py\<close>): a strict
  payload, then one operation of the scope store, or the clean-up path of the Windows sandbox when
  the scope to be terminated still holds authority. The store's directory is resolved once more for
  every request; it and the identifiers a new scope gets are parameters.
\<close>

section \<open>The payload\<close>












section \<open>The service\<close>








section \<open>What the store operations leave\<close>










section \<open>What a request can do\<close>










section \<open>A sample request\<close>









end
