(* ===== verification/GitOps.thy ===== *)
theory GitOps
  imports FileMutation SafeEdit JsonParse Verification
begin

text \<open>
  The structured Git operations (\<open>handlers/git_ops.py\<close>): the bounded diff view, the patch
  application and the four network operations, with the part of \<open>user_git.py\<close> that
  classifies a failed call. Git, the file tests and the removal of a partial clone are the
  parameter \<open>git_host\<close>, a function of a state \<open>'w\<close> the model says nothing about; every Git call is
  logged with its answer. A call may exceed its own limit (\<open>Expired\<close>), use up the total time of
  the operation (\<open>OverBudget\<close>, only looked at by the two operations that have such a limit), have
  no user context, or fail to start. Bytes and text are the same strings; the texts and details
  of the refusals are left out, those of the firewall apart.
\<close>

section \<open>The Git program\<close>

datatype git_outcome = Ended int string string | Expired | OverBudget | NoUserGit string | NotStarted

record git_run =
  gr_user :: bool
  gr_root :: path
  gr_args :: "string list"
  gr_stdin :: "string option"
  gr_limit :: int
  gr_end :: git_outcome

record 'w git_host =
  gh_os :: os
  gh_run :: "string list \<Rightarrow> (string \<times> string) list \<Rightarrow> string option \<Rightarrow> int \<Rightarrow> 'w \<Rightarrow> git_outcome \<times> 'w"
  gh_user_run :: "path \<Rightarrow> string list \<Rightarrow> int \<Rightarrow> 'w \<Rightarrow> git_outcome \<times> 'w"
  gh_exists :: "path \<Rightarrow> 'w \<Rightarrow> bool"
  gh_is_dir :: "path \<Rightarrow> 'w \<Rightarrow> bool"
  gh_entries :: "path \<Rightarrow> 'w \<Rightarrow> bool option"
  gh_rmtree :: "path \<Rightarrow> 'w \<Rightarrow> 'w"
  gh_cwd :: path

record 'w git_state =
  gs_world :: 'w
  gs_runs :: "git_run list"

type_synonym ('w, 'a) git_op = "'w git_state \<Rightarrow> (handler_exn, 'a) result \<times> 'w git_state"

definition glift :: "'a handler \<Rightarrow> ('w, 'a) git_op" where
  "glift r = (\<lambda>s. (r, s))"

abbreviation gret :: "'a \<Rightarrow> ('w, 'a) git_op" where "gret x \<equiv> glift (Inr x)"
abbreviation gfail :: "string \<Rightarrow> ('w, 'a) git_op" where "gfail code \<equiv> glift (Inl (refused code))"

definition gbind :: "('w, 'a) git_op \<Rightarrow> ('a \<Rightarrow> ('w, 'b) git_op) \<Rightarrow> ('w, 'b) git_op" where
  "gbind m k = (\<lambda>s. case m s of (Inl e, t) \<Rightarrow> (Inl e, t) | (Inr x, t) \<Rightarrow> k x t)"

definition gensure :: "bool \<Rightarrow> string \<Rightarrow> ('w, unit) git_op" where
  "gensure b code = (if b then gret () else gfail code)"

definition glook :: "('w \<Rightarrow> 'a) \<Rightarrow> ('w, 'a) git_op" where
  "glook f = (\<lambda>s. (Inr (f (gs_world s)), s))"

definition MAX_FILES_CEILING :: int where "MAX_FILES_CEILING = 50"
definition MAX_PATCH_BYTES_CEILING :: int where "MAX_PATCH_BYTES_CEILING = 131072"
definition MAX_TOTAL_PATCH_BYTES :: int where "MAX_TOTAL_PATCH_BYTES = 524288"
definition MAX_CONTEXT_LINES :: int where "MAX_CONTEXT_LINES = 10"
definition DEFAULT_CONTEXT_LINES :: int where "DEFAULT_CONTEXT_LINES = 3"
definition MAX_APPLY_PATCH_BYTES :: int where "MAX_APPLY_PATCH_BYTES = 5 * 1024 * 1024"
definition GIT_CMD_TIMEOUT :: int where "GIT_CMD_TIMEOUT = 15"
definition NET_TIMEOUT :: int where "NET_TIMEOUT = 50"

definition GIT_ENV :: "(string \<times> string) list" where
  "GIT_ENV = [(''GIT_TERMINAL_PROMPT'', ''0''), (''GIT_OPTIONAL_LOCKS'', ''0''), (''GIT_PAGER'', ''cat''),
     (''GIT_CONFIG_NOSYSTEM'', ''1''), (''LC_ALL'', ''C'')]"

definition git_argv :: "path \<Rightarrow> string list \<Rightarrow> string list" where
  "git_argv root args = [''git'', ''-C'', path_text root, ''-c'', ''core.fsmonitor=false''] @ args"

definition log_run :: "bool \<Rightarrow> path \<Rightarrow> string list \<Rightarrow> string option \<Rightarrow> int \<Rightarrow> git_outcome \<times> 'w \<Rightarrow> 'w git_state \<Rightarrow> 'w git_state" where
  "log_run user root args inp limit r s = s\<lparr>gs_world := snd r, gs_runs := gs_runs s @
     [\<lparr>gr_user = user, gr_root = root, gr_args = args, gr_stdin = inp, gr_limit = limit, gr_end = fst r\<rparr>]\<rparr>"

definition run_git_for :: "'w git_host \<Rightarrow> bool \<Rightarrow> int \<Rightarrow> string option \<Rightarrow> path \<Rightarrow> string list
     \<Rightarrow> ('w, int \<times> string \<times> string) git_op" where
  "run_git_for H timed limit inp root args s =
     (let r = gh_run H (git_argv root args) GIT_ENV inp limit (gs_world s); t = log_run False root args inp limit r s in
      case fst r of Ended rc out err \<Rightarrow> (Inr (rc, out, err), t) | Expired \<Rightarrow> (Inl (refused ''git_timeout''), t)
      | OverBudget \<Rightarrow> (Inl (refused (if timed then ''timeout'' else ''git_timeout'')), t)
      | _ \<Rightarrow> (Inl (Raised OSError), t))"

abbreviation run_git :: "'w git_host \<Rightarrow> bool \<Rightarrow> string option \<Rightarrow> path \<Rightarrow> string list
     \<Rightarrow> ('w, int \<times> string \<times> string) git_op" where
  "run_git H timed \<equiv> run_git_for H timed GIT_CMD_TIMEOUT"

section \<open>Shared helpers\<close>

definition git_flag :: "pyval \<Rightarrow> bool \<Rightarrow> bool" where
  "git_flag v d = (case v of VNull \<Rightarrow> d | VBool b \<Rightarrow> b
     | VStr s \<Rightarrow> casefold (strip s) \<in> {''1'', ''true'', ''yes'', ''on''} | _ \<Rightarrow> truthy v)"

definition clamp_int :: "pyval \<Rightarrow> int \<Rightarrow> int \<Rightarrow> int \<Rightarrow> int" where
  "clamp_int v d lo hi = (case v of VInt i \<Rightarrow> max lo (min i hi) | _ \<Rightarrow> d)"

definition dubious_ownership :: "string \<Rightarrow> bool" where
  "dubious_ownership err \<longleftrightarrow> contains err ''dubious ownership''"

definition permission_denied :: "string \<Rightarrow> bool" where
  "permission_denied err \<longleftrightarrow> contains (casefold err) ''permission denied'' \<and> \<not> contains (casefold err) ''publickey''"

definition resolve_or_reject :: "os \<Rightarrow> policy \<Rightarrow> string \<Rightarrow> path handler" where
  "resolve_or_reject sys p path =
     (if pol_file_ops_paths p = [] then Inl (refused ''path_not_allowed'')
      else of_option (refused ''path_not_allowed'') (resolve_path sys p path False))"

text \<open>The answer of \<open>rev-parse --show-toplevel\<close>, which both revalidations of a root read alike.\<close>

definition toplevel :: "int \<times> string \<times> string \<Rightarrow> string handler" where
  "toplevel answer = (case answer of (rc, out, err) \<Rightarrow>
     if rc \<noteq> 0 \<and> dubious_ownership err then Inl (refused ''git_dubious_ownership'')
     else if rc \<noteq> 0 \<and> permission_denied err then Inl (refused ''permission_denied'')
     else if rc \<noteq> 0 \<or> strip out = [] then Inl (refused ''not_a_git_repo'')
     else Inr (strip out))"

definition revalidate_git_root :: "'w git_host \<Rightarrow> bool \<Rightarrow> policy \<Rightarrow> path \<Rightarrow> ('w, path) git_op" where
  "revalidate_git_root H timed p root =
     gbind (run_git H timed None root [''rev-parse'', ''--show-toplevel'']) (\<lambda>answer.
     gbind (glift (toplevel answer)) (\<lambda>toplevel_text.
     glift (case resolve_or_reject (gh_os H) p toplevel_text of Inl _ \<Rightarrow> Inl (refused ''git_root_outside_allowlist'')
       | Inr r \<Rightarrow> Inr r)))"

section \<open>The output of \<open>git diff\<close>\<close>

definition NUL :: char where "NUL = CHR 0x00"
definition TAB :: char where "TAB = CHR 0x09"

text \<open>\<open>int(x) if x != "-" else 0\<close>; \<open>None\<close> where it raises \<open>ValueError\<close>.\<close>

definition stat_number :: "string \<Rightarrow> int option" where
  "stat_number x = (if x = ''-'' then Some 0 else read_int x)"

text \<open>The two additions of one \<open>try\<close> block: the second is lost when its number does not parse.\<close>

definition add_counts :: "string \<Rightarrow> string \<Rightarrow> int \<times> int \<Rightarrow> int \<times> int" where
  "add_counts a b acc = (case stat_number a of None \<Rightarrow> acc
     | Some i \<Rightarrow> (fst acc + i, snd acc + (case stat_number b of None \<Rightarrow> 0 | Some d \<Rightarrow> d)))"

definition digits_only :: "string \<Rightarrow> bool" where
  "digits_only s \<longleftrightarrow> s \<noteq> [] \<and> list_all is_digit s"

definition numstat_token :: "string \<Rightarrow> int \<times> int \<times> int \<Rightarrow> int \<times> int \<times> int" where
  "numstat_token tok acc = (if strip tok = [] then acc else
     case split_char TAB tok of
       a # b # _ \<Rightarrow> if digits_only a \<or> a = ''-'' then (fst acc + 1, add_counts a b (snd acc)) else acc
     | _ \<Rightarrow> acc)"

definition sum_numstat :: "string \<Rightarrow> int \<times> int \<times> int" where
  "sum_numstat raw = fold numstat_token (split_char NUL raw) (0, 0, 0)"

fun file_numstat_tokens :: "string list \<Rightarrow> int \<times> int \<times> bool" where
  "file_numstat_tokens [] = (0, 0, False)"
| "file_numstat_tokens (tok # toks) = (if strip tok = [] then file_numstat_tokens toks else
     case split_char TAB tok of
       a # b # _ \<Rightarrow> if a = ''-'' \<and> b = ''-'' then (0, 0, True)
         else (case (read_int a, read_int b) of (Some i, Some d) \<Rightarrow> (i, d, False) | _ \<Rightarrow> (0, 0, False))
     | _ \<Rightarrow> file_numstat_tokens toks)"

definition file_numstat :: "string \<Rightarrow> int \<times> int \<times> bool" where
  "file_numstat raw = file_numstat_tokens (split_char NUL raw)"

record git_change =
  ch_path :: string
  ch_old :: "string option"
  ch_status :: string

definition STATUS_LABEL :: "(char \<times> string) list" where
  "STATUS_LABEL = [(CHR ''A'', ''added''), (CHR ''M'', ''modified''), (CHR ''D'', ''deleted''), (CHR ''R'', ''renamed''),
     (CHR ''C'', ''copied''), (CHR ''T'', ''typechange''), (CHR ''U'', ''unmerged'')]"

definition status_label :: "char \<Rightarrow> string" where
  "status_label c = (case map_of STATUS_LABEL c of Some l \<Rightarrow> l | None \<Rightarrow> [lower_char c])"

definition token_at :: "string list \<Rightarrow> nat \<Rightarrow> string" where
  "token_at tokens i = (if i < length tokens then tokens ! i else [])"

text \<open>The loop over the tokens, from index \<open>i\<close>.\<close>

function name_status_from :: "string list \<Rightarrow> nat \<Rightarrow> git_change list" where
  "name_status_from tokens i =
     (if i \<ge> length tokens then [] else
      case tokens ! i of [] \<Rightarrow> name_status_from tokens (i + 1)
      | letter # _ \<Rightarrow> if letter = CHR ''R'' \<or> letter = CHR ''C''
          then \<lparr>ch_path = token_at tokens (i + 2), ch_old = Some (token_at tokens (i + 1)), ch_status = status_label letter\<rparr>
               # name_status_from tokens (i + 3)
          else \<lparr>ch_path = token_at tokens (i + 1), ch_old = None, ch_status = status_label letter\<rparr>
               # name_status_from tokens (i + 2))"
  by pat_completeness auto

termination by (relation "measure (\<lambda>(tokens, i). length tokens - i)") auto

declare name_status_from.simps [simp del]

definition parse_name_status :: "string \<Rightarrow> git_change list" where
  "parse_name_status raw = name_status_from (split_char NUL raw) 0"

section \<open>diff\<close>

record diff_entry =
  de_path :: string
  de_status :: string
  de_insertions :: int
  de_deletions :: int
  de_binary :: bool
  de_patch :: "string option"
  de_old_path :: "string option"

record diff_view =
  dv_root :: path
  dv_base_ref :: string
  dv_files :: int
  dv_insertions :: int
  dv_deletions :: int
  dv_untracked :: nat
  dv_entries :: "diff_entry list"
  dv_cut_files :: bool
  dv_cut_patch :: bool

definition diff_selector :: "string \<Rightarrow> bool \<Rightarrow> bool \<Rightarrow> string list" where
  "diff_selector base_ref staged unstaged =
     (if staged \<and> unstaged then [''diff'', base_ref]
      else if staged then [''diff'', ''--cached'', base_ref] else [''diff''])"

definition old_name :: "git_change \<Rightarrow> string option" where
  "old_name c = (case ch_old c of Some (x # xs) \<Rightarrow> Some (x # xs) | _ \<Rightarrow> None)"

definition pathspec :: "git_change \<Rightarrow> string list" where
  "pathspec c = (case old_name c of Some q \<Rightarrow> [q, ch_path c] | None \<Rightarrow> [ch_path c])"

text \<open>One entry, and whether its patch was withheld.\<close>

definition diff_entry_of :: "'w git_host \<Rightarrow> path \<Rightarrow> string list \<Rightarrow> int \<Rightarrow> int \<Rightarrow> int \<Rightarrow> git_change
     \<Rightarrow> ('w, diff_entry \<times> bool) git_op" where
  "diff_entry_of H root sel ctx max_patch budget c =
     gbind (run_git H True None root (sel @ [''--no-ext-diff'', ''--numstat'', ''-z'', ''--''] @ pathspec c)) (\<lambda>(_, fns, _).
     let (fi, fd, binary) = file_numstat fns;
         entry = \<lparr>de_path = ch_path c, de_status = ch_status c, de_insertions = fi, de_deletions = fd,
           de_binary = binary, de_patch = None, de_old_path = old_name c\<rparr> in
     if binary then gret (entry, False) else
     gbind (run_git H True None root (sel @ [''--no-ext-diff'', ''--unified='' @ show_int ctx, ''--''] @ pathspec c))
       (\<lambda>(_, praw, _).
     gret (if int (length praw) > max_patch \<or> int (length praw) > budget then (entry, True)
       else (entry\<lparr>de_patch := Some praw\<rparr>, False))))"

definition patch_bytes :: "diff_entry \<Rightarrow> int" where
  "patch_bytes e = (case de_patch e of None \<Rightarrow> 0 | Some p \<Rightarrow> int (length p))"

fun diff_entries :: "'w git_host \<Rightarrow> path \<Rightarrow> string list \<Rightarrow> int \<Rightarrow> int \<Rightarrow> int \<Rightarrow> git_change list
     \<Rightarrow> ('w, diff_entry list \<times> bool) git_op" where
  "diff_entries H root sel ctx max_patch budget [] = gret ([], False)"
| "diff_entries H root sel ctx max_patch budget (c # cs) =
     gbind (diff_entry_of H root sel ctx max_patch budget c) (\<lambda>(e, cut).
     gbind (diff_entries H root sel ctx max_patch (budget - patch_bytes e) cs) (\<lambda>(es, cuts).
     gret (e # es, cut \<or> cuts)))"

definition untracked_entry :: "string \<Rightarrow> diff_entry" where
  "untracked_entry up = \<lparr>de_path = up, de_status = ''untracked'', de_insertions = 0, de_deletions = 0,
     de_binary = False, de_patch = None, de_old_path = None\<rparr>"

definition untracked_files :: "'w git_host \<Rightarrow> bool \<Rightarrow> path \<Rightarrow> ('w, string list) git_op" where
  "untracked_files H include root = (if \<not> include then gret [] else
     gbind (run_git H True None root [''ls-files'', ''--others'', ''--exclude-standard'', ''-z'']) (\<lambda>(_, uo, _).
     gret (filter (\<lambda>q. q \<noteq> []) (split_char NUL uo))))"

definition diff_work :: "'w git_host \<Rightarrow> policy \<Rightarrow> path \<Rightarrow> string \<Rightarrow> bool \<Rightarrow> bool \<Rightarrow> bool \<Rightarrow> int \<Rightarrow> nat \<Rightarrow> int
     \<Rightarrow> ('w, diff_view) git_op" where
  "diff_work H p root base_ref staged unstaged include ctx max_files max_patch =
     gbind (revalidate_git_root H True p root) (\<lambda>git_root.
     let sel = diff_selector base_ref staged unstaged in
     gbind (run_git H True None git_root (sel @ [''--no-ext-diff'', ''--numstat'', ''-z''])) (\<lambda>(_, ns_all, _).
     gbind (run_git H True None git_root (sel @ [''--no-ext-diff'', ''--name-status'', ''-z''])) (\<lambda>(_, nstat, _).
     let changed = parse_name_status nstat; (files, ins, dels) = sum_numstat ns_all in
     gbind (untracked_files H include git_root) (\<lambda>untracked.
     gbind (diff_entries H git_root sel ctx max_patch MAX_TOTAL_PATCH_BYTES (take max_files changed)) (\<lambda>(es, cut).
     let room = max_files - length es in
     gret \<lparr>dv_root = git_root, dv_base_ref = base_ref, dv_files = files, dv_insertions = ins, dv_deletions = dels,
       dv_untracked = length untracked,
       dv_entries = es @ (if include then map untracked_entry (take room untracked) else []),
       dv_cut_files = (length changed > max_files \<or> include \<and> length untracked > room),
       dv_cut_patch = cut\<rparr>)))))"

definition op_diff :: "'w git_host \<Rightarrow> policy \<Rightarrow> payload \<Rightarrow> ('w, diff_view) git_op" where
  "op_diff H p payload =
     gbind (glift (require_str payload ''path'')) (\<lambda>path.
     gbind (glift (resolve_or_reject (gh_os H) p path)) (\<lambda>root.
     gbind (glook (\<lambda>w. (gh_exists H root w, gh_is_dir H root w))) (\<lambda>(there, dir).
     gbind (gensure there ''not_found'') (\<lambda>_.
     gbind (gensure dir ''is_file'') (\<lambda>_.
     gbind (case py_or (dget payload ''base_ref'') (VStr ''HEAD'') of VStr b \<Rightarrow> gret b | _ \<Rightarrow> gfail ''invalid_payload'') (\<lambda>base_ref.
     let staged = git_flag (dget payload ''staged'') True; unstaged = git_flag (dget payload ''unstaged'') True;
         include = git_flag (dget payload ''include_untracked'') True in
     gbind (gensure (staged \<or> unstaged) ''invalid_payload'') (\<lambda>_.
     diff_work H p root base_ref staged unstaged include
       (clamp_int (dget payload ''context_lines'') DEFAULT_CONTEXT_LINES 0 MAX_CONTEXT_LINES)
       (nat (clamp_int (dget payload ''max_files'') MAX_FILES_CEILING 1 MAX_FILES_CEILING))
       (clamp_int (dget payload ''max_patch_bytes'') MAX_PATCH_BYTES_CEILING 1024 MAX_PATCH_BYTES_CEILING))))))))"

definition diff_entry_value :: "diff_entry \<Rightarrow> pyval" where
  "diff_entry_value e = VDict ([(''path'', VStr (de_path e)), (''status'', VStr (de_status e)),
     (''insertions'', VInt (de_insertions e)), (''deletions'', VInt (de_deletions e)), (''binary'', VBool (de_binary e)),
     (''patch'', case de_patch e of None \<Rightarrow> VNull | Some q \<Rightarrow> VStr q)]
     @ (case de_old_path e of None \<Rightarrow> [] | Some q \<Rightarrow> [(''old_path'', VStr q)]))"

definition diff_answer :: "diff_view \<Rightarrow> payload" where
  "diff_answer v = [(''ok'', VBool True), (''version'', VInt 1), (''root'', path_value (dv_root v)),
     (''base_ref'', VStr (dv_base_ref v)),
     (''summary'', VDict [(''files'', VInt (dv_files v)), (''insertions'', VInt (dv_insertions v)),
        (''deletions'', VInt (dv_deletions v)), (''untracked'', VInt (int (dv_untracked v)))]),
     (''files'', VList (map diff_entry_value (dv_entries v))),
     (''truncated'', VDict [(''files'', VBool (dv_cut_files v)), (''patch'', VBool (dv_cut_patch v))])]"

end
