(* ===== verification/GitPatch.thy ===== *)
theory GitPatch
  imports GitOps
begin

text \<open>
  Applying a unified diff (\<open>_op_apply_patch\<close> of \<open>handlers/git_ops.py\<close>): the paths the diff names, their validation,
  the three phases of \<open>git apply\<close> (a summary, a check, the application) with the single
  retry on a corrupt patch.
\<close>

section \<open>The paths of a patch\<close>

definition header_path :: "string \<Rightarrow> string option" where
  "header_path r = (let q = strip (before_char TAB r) in
     if q = [] \<or> q = ''/dev/null'' then None else
     let q = (if startswith q ''a/'' \<or> startswith q ''b/'' then drop 2 q else q) in
     if q = [] then None else Some q)"

definition line_path :: "string \<Rightarrow> string option" where
  "line_path raw =
     (if startswith raw ''--- '' \<or> startswith raw ''+++ '' then header_path (drop 4 raw)
      else if list_ex (startswith raw) [''rename from '', ''rename to '', ''copy from '', ''copy to '']
      then (let q = strip (after_char (CHR '' '') (after_char (CHR '' '') raw)) in if q = [] then None else Some q)
      else None)"

definition add_path :: "string \<Rightarrow> string list \<Rightarrow> string list" where
  "add_path raw out = (case line_path raw of None \<Rightarrow> out | Some q \<Rightarrow> if q \<in> set out then out else out @ [q])"

definition extract_patch_paths :: "string \<Rightarrow> string list" where
  "extract_patch_paths patch = fold add_path (splitlines patch) []"

definition validate_patch_path :: "os \<Rightarrow> policy \<Rightarrow> path \<Rightarrow> string \<Rightarrow> unit handler" where
  "validate_patch_path sys p git_root q =
     (if startswith q [CHR 0x22] then Inl (refused ''patch_unsafe_path'')
      else if startswith q ''/'' then Inl (refused ''patch_unsafe_path'')
      else if ''..'' \<in> set (parts (path_of_text q)) then Inl (refused ''patch_unsafe_path'')
      else case resolve_path sys p (path_text (path_child git_root q)) True of
        None \<Rightarrow> Inl (refused ''path_not_allowed'')
      | Some r \<Rightarrow> if r \<noteq> git_root \<and> \<not> is_relative_to r git_root then Inl (refused ''patch_unsafe_path'') else Inr ())"

fun validate_patch_paths :: "os \<Rightarrow> policy \<Rightarrow> path \<Rightarrow> string list \<Rightarrow> unit handler" where
  "validate_patch_paths sys p git_root [] = Inr ()"
| "validate_patch_paths sys p git_root (q # qs) =
     rbind (validate_patch_path sys p git_root q) (\<lambda>_. validate_patch_paths sys p git_root qs)"

section \<open>\<open>git apply\<close>\<close>

definition apply_numstat_line :: "string \<Rightarrow> int \<times> int \<times> int \<Rightarrow> int \<times> int \<times> int" where
  "apply_numstat_line line acc = (if strip line = [] then acc else
     case split_char TAB line of
       a # b # _ # _ \<Rightarrow> (fst acc + 1, add_counts a b (snd acc)) | _ \<Rightarrow> acc)"

definition parse_apply_numstat :: "string \<Rightarrow> int \<times> int \<times> int" where
  "parse_apply_numstat raw = fold apply_numstat_line (splitlines raw) (0, 0, 0)"

text \<open>The text a host path is stripped from, at most 1000 characters of it.\<close>

definition scrub :: "string \<Rightarrow> path \<Rightarrow> string" where
  "scrub t git_root = (let gr = path_text git_root in
     take 1000 (strip (str_replace (str_replace t (gr @ ''/'') [] (length t)) gr [] (length t))))"

text \<open>One phase, and whether it went through only because the hunks were counted again.\<close>

definition git_apply :: "'w git_host \<Rightarrow> path \<Rightarrow> string \<Rightarrow> string list \<Rightarrow> ('w, (int \<times> string \<times> string) \<times> bool) git_op" where
  "git_apply H git_root patch args =
     gbind (run_git H True (Some patch) git_root (''apply'' # args)) (\<lambda>(rc, out, err).
     if rc = 0 \<or> \<not> contains err ''corrupt patch'' then gret ((rc, out, err), False) else
     gbind (run_git H True (Some patch) git_root (''apply'' # ''--recount'' # args)) (\<lambda>(rc2, out2, err2).
     gret (if rc2 = 0 then ((rc2, out2, err2), True) else ((rc, out, err), False))))"

record patch_result =
  pt_applied :: bool
  pt_root :: path
  pt_files :: int
  pt_insertions :: int
  pt_deletions :: int
  pt_recounted :: bool

definition patch_answer :: "patch_result \<Rightarrow> payload" where
  "patch_answer r = [(''ok'', VBool True), (''version'', VInt 1), (''applied'', VBool (pt_applied r)),
     (''dry_run'', VBool (\<not> pt_applied r)), (''root'', path_value (pt_root r)),
     (''summary'', VDict [(''files'', VInt (pt_files r)), (''insertions'', VInt (pt_insertions r)),
        (''deletions'', VInt (pt_deletions r))])]
     @ (if pt_recounted r then [(''recounted'', VBool True)] else [])"

text \<open>The root of a patch: under an entry that is read-write, and when the patch is to be applied, outside
  the canonical repositories.\<close>

definition patch_root :: "os \<Rightarrow> policy \<Rightarrow> bool \<Rightarrow> string \<Rightarrow> path handler" where
  "patch_root sys p dry_run toplevel_text =
     rbind (of_option (refused ''git_root_outside_allowlist'') (resolve_path sys p toplevel_text True)) (\<lambda>r.
     if dry_run then Inr r else
     enforce_material_write_target sys (pol_mutation_execution p) r ''git.apply_patch'' ''repository_root'')"

definition check_patch_paths :: "os \<Rightarrow> policy \<Rightarrow> path \<Rightarrow> string \<Rightarrow> unit handler" where
  "check_patch_paths sys p git_root patch =
     (let qs = extract_patch_paths patch in
      if qs = [] then Inl invalid_payload else validate_patch_paths sys p git_root qs)"

definition apply_phases :: "'w git_host \<Rightarrow> path \<Rightarrow> string \<Rightarrow> bool \<Rightarrow> ('w, patch_result) git_op" where
  "apply_phases H git_root patch dry_run =
     gbind (git_apply H git_root patch [''--numstat'', ''--no-3way'', ''-'']) (\<lambda>((rc_ns, ns_out, _), r1).
     let (files, ins, dels) = (if rc_ns = 0 then parse_apply_numstat ns_out else (0, 0, 0)) in
     gbind (git_apply H git_root patch [''--check'', ''--no-3way'', ''-'']) (\<lambda>((rc_chk, _, _), r2).
     gbind (gensure (rc_chk = 0) ''patch_does_not_apply'') (\<lambda>_.
     if dry_run then gret \<lparr>pt_applied = False, pt_root = git_root, pt_files = files, pt_insertions = ins,
       pt_deletions = dels, pt_recounted = r1 \<or> r2\<rparr> else
     gbind (git_apply H git_root patch [''--no-3way'', ''-'']) (\<lambda>((rc_app, _, _), r3).
     gbind (gensure (rc_app = 0) ''patch_does_not_apply'') (\<lambda>_.
     gret \<lparr>pt_applied = True, pt_root = git_root, pt_files = files, pt_insertions = ins,
       pt_deletions = dels, pt_recounted = r1 \<or> r2 \<or> r3\<rparr>)))))"

definition op_apply_patch :: "'w git_host \<Rightarrow> policy \<Rightarrow> payload \<Rightarrow> ('w, patch_result) git_op" where
  "op_apply_patch H p payload =
     (case py_or (dget payload ''root'') (dget payload ''path'') of VStr req \<Rightarrow>
        if strip req = [] then gfail ''invalid_payload'' else
        (case dget payload ''patch'' of VStr patch \<Rightarrow>
           if strip patch = [] \<or> int (length patch) > MAX_APPLY_PATCH_BYTES then gfail ''invalid_payload'' else
           let dry_run = git_flag (dget payload ''dry_run'') False in
           gbind (glift (of_option (refused ''path_not_allowed'') (resolve_path (gh_os H) p req True))) (\<lambda>resolved.
           gbind (glook (\<lambda>w. (gh_exists H resolved w, gh_is_dir H resolved w))) (\<lambda>(there, dir).
           gbind (gensure there ''not_found'') (\<lambda>_.
           gbind (gensure dir ''is_file'') (\<lambda>_.
           gbind (run_git H True None resolved [''rev-parse'', ''--show-toplevel'']) (\<lambda>answer.
           gbind (glift (toplevel answer)) (\<lambda>toplevel_text.
           gbind (glift (patch_root (gh_os H) p dry_run toplevel_text)) (\<lambda>git_root.
           gbind (glift (check_patch_paths (gh_os H) p git_root patch)) (\<lambda>_.
           apply_phases H git_root patch dry_run))))))))
         | _ \<Rightarrow> gfail ''invalid_payload'')
      | _ \<Rightarrow> gfail ''invalid_payload'')"

end
