(* ===== verification/GitRemote.thy ===== *)
theory GitRemote
  imports GitPatch
begin

text \<open>
  The network operations (\<open>ls_remote\<close>, \<open>fetch\<close>, \<open>clone\<close>, \<open>push\<close>) of \<open>handlers/git_ops.py\<close>, the choice
  between the agent's own Git and the Git of the signed-in user (\<open>user_git.py\<close>), and the
  dispatch of the handler.
\<close>

section \<open>Failures of a call of the signed-in user\<close>

text \<open>\<open>_SECRET_URL_RE\<close> at the head of a text: the scheme, and what follows the credentials.\<close>

definition user_char :: "char \<Rightarrow> bool" where
  "user_char c \<longleftrightarrow> c \<noteq> CHR ''/'' \<and> c \<noteq> CHR ''@'' \<and> \<not> py_space c"

definition secret_after :: "string \<Rightarrow> string option" where
  "secret_after s =
     (let u = takeWhile (\<lambda>c. user_char c \<and> c \<noteq> CHR '':'') s; r = drop (length u) s in
      if u = [] \<or> r = [] \<or> hd r \<noteq> CHR '':'' then None else
      let pw = takeWhile user_char (tl r); e = drop (length pw) (tl r) in
      if pw = [] \<or> e = [] \<or> hd e \<noteq> CHR ''@'' then None else Some (tl e))"

definition secret_url :: "string \<Rightarrow> (string \<times> string) option" where
  "secret_url s =
     (let try = (\<lambda>n. map_option (Pair (take n s)) (secret_after (drop n s))) in
      if startswith (casefold s) ''https://'' then try 8
      else if startswith (casefold s) ''http://'' then try 7 else None)"

lemma secret_after_shorter: "secret_after s = Some r \<Longrightarrow> length r < length s"
proof -
  assume a: "secret_after s = Some r"
  define u where "u = takeWhile (\<lambda>c. user_char c \<and> c \<noteq> CHR '':'') s"
  define q where "q = tl (drop (length u) s)"
  have "r = tl (drop (length (takeWhile user_char q)) q)" "u \<noteq> []"
    using a by (auto simp: secret_after_def Let_def u_def q_def split: if_splits)
  moreover have "length u \<le> length s" by (simp add: u_def length_takeWhile_le)
  ultimately show ?thesis by (cases u) (auto simp: q_def)
qed

lemma secret_url_shorter: "secret_url s = Some (a, r) \<Longrightarrow> length r < length s"
  by (auto simp: secret_url_def Let_def split: if_splits dest!: secret_after_shorter)

function redact_git_output :: "string \<Rightarrow> string" where
  "redact_git_output s = (case secret_url s of Some (scheme, r) \<Rightarrow> scheme @ ''***:***@'' @ redact_git_output r
     | None \<Rightarrow> (case s of [] \<Rightarrow> [] | c # cs \<Rightarrow> c # redact_git_output cs))"
  by pat_completeness auto

termination by (relation "measure length") (auto dest: secret_url_shorter)

declare redact_git_output.simps [simp del]

definition classify_git_failure :: "string \<Rightarrow> string" where
  "classify_git_failure err =
     (let low = casefold err; has = contains low in
      if has ''authentication failed'' \<or> has ''permission denied (publickey)'' then ''GitCredentialRejected''
      else if has ''could not read username'' \<or> has ''terminal prompts disabled'' \<or> has ''cannot prompt''
      then ''GitCredentialInteractiveRequired''
      else if has ''connection was reset'' \<or> has ''recv failure'' then ''GitTransportReset''
      else if has ''failed to connect'' \<or> has ''connection timed out'' \<or> has ''operation timed out'' then ''GitTransportTimeout''
      else if has ''could not resolve host'' \<or> has ''name or service not known'' then ''GitRemoteTemporarilyUnavailable''
      else ''GitRemoteFailed'')"

definition classify_result :: "int \<Rightarrow> string \<Rightarrow> string option" where
  "classify_result rc err = (if rc = 0 then None else Some (classify_git_failure (redact_git_output err)))"

section \<open>Whose credentials\<close>

definition credential_context_for_remote :: "policy \<Rightarrow> payload \<Rightarrow> string \<Rightarrow> string handler" where
  "credential_context_for_remote p payload operation =
     (let explicit = dget payload ''credential_context'' in
      if explicit \<noteq> VNull then
        (let context = strip (py_str explicit) in
         if context \<notin> {''current'', ''user_scoped''} then Inl invalid_payload
         else if context = ''user_scoped'' \<and> \<not> pol_git_enabled p then Inl (refused ''GitExecutionContextUnavailable'')
         else if context = ''user_scoped'' \<and> operation = ''push'' \<and> \<not> pol_git_allow_push p
         then Inl (refused ''GitExecutionContextUnavailable'')
         else Inr context)
      else if \<not> pol_git_enabled p then Inr ''current''
      else if operation \<in> {''ls_remote'', ''fetch''} then Inr ''user_scoped''
      else if operation = ''push'' \<and> pol_git_allow_push p then Inr ''user_scoped''
      else Inr ''current'')"

definition remote_token :: "string list \<Rightarrow> string option" where
  "remote_token args = List.find (\<lambda>t. t \<noteq> [] \<and> \<not> startswith t ''-'') (tl args)"

definition names_a_place :: "string \<Rightarrow> bool" where
  "names_a_place r \<longleftrightarrow> contains r ''://'' \<or> CHR ''@'' \<in> set r \<or> CHR ''/'' \<in> set r \<or> CHR 0x5C \<in> set r"

definition run_user_git :: "'w git_host \<Rightarrow> int \<Rightarrow> path \<Rightarrow> string list \<Rightarrow> ('w, int \<times> string \<times> string) git_op" where
  "run_user_git H limit root args s =
     (let r = gh_user_run H root args limit (gs_world s); t = log_run True root args None limit r s in
      case fst r of Ended rc out err \<Rightarrow> (Inr (rc, out, err), t) | NoUserGit code \<Rightarrow> (Inl (refused code), t)
      | _ \<Rightarrow> (Inl (refused ''GitExecutionContextUnavailable''), t))"

definition check_remote :: "'w git_host \<Rightarrow> path \<Rightarrow> string option \<Rightarrow> ('w, unit) git_op" where
  "check_remote H root remote = (case remote of None \<Rightarrow> gret () | Some r \<Rightarrow>
     if names_a_place r then gfail ''GitRemoteIdentityConflict'' else
     gbind (run_git H False None root [''remote'', ''get-url'', r]) (\<lambda>(rc, _, _).
     gensure (rc = 0) ''GitRemoteIdentityConflict''))"

definition run_remote_git :: "'w git_host \<Rightarrow> policy \<Rightarrow> path \<Rightarrow> payload \<Rightarrow> string \<Rightarrow> string list
     \<Rightarrow> ('w, int \<times> string \<times> string \<times> string) git_op" where
  "run_remote_git H p root payload operation args =
     gbind (glift (credential_context_for_remote p payload operation)) (\<lambda>context.
     if context = ''current'' then
       gbind (run_git_for H False NET_TIMEOUT None root args) (\<lambda>(rc, out, err). gret (rc, out, err, context))
     else
       gbind (check_remote H root (remote_token args)) (\<lambda>_.
       gbind (run_user_git H (pol_git_timeout_seconds p) root args) (\<lambda>(rc, out, err).
       case classify_result rc err of Some reason \<Rightarrow> gfail reason | None \<Rightarrow> gret (rc, out, err, context))))"

section \<open>The operations\<close>

definition remote_name :: "payload \<Rightarrow> string" where
  "remote_name payload = strip (py_str (py_or (dget payload ''remote'') (VStr ''origin'')))"

definition text_field :: "payload \<Rightarrow> string \<Rightarrow> string" where
  "text_field payload key = strip (py_str (py_or (dget payload key) (VStr [])))"

definition git_repository :: "'w git_host \<Rightarrow> policy \<Rightarrow> pyval \<Rightarrow> ('w, path) git_op" where
  "git_repository H p path =
     gbind (glift (resolve_or_reject (gh_os H) p (py_str path))) (\<lambda>root. revalidate_git_root H False p root)"

definition ref_line :: "string \<Rightarrow> pyval list" where
  "ref_line line = (if TAB \<in> set line then [VDict [(''sha'', VStr (strip (before_char TAB line))),
     (''ref'', VStr (strip (after_char TAB line)))]] else [])"

definition op_ls_remote :: "'w git_host \<Rightarrow> policy \<Rightarrow> payload \<Rightarrow> ('w, payload) git_op" where
  "op_ls_remote H p payload =
     (let remote = remote_name payload; pattern = dget payload ''ref_pattern''; path = dget payload ''path'';
          args = [''ls-remote'', remote] @ (if truthy pattern then [py_str pattern] else []) in
     gbind (if truthy path then gbind (git_repository H p path) (\<lambda>r. gret (Some r)) else gret None) (\<lambda>root.
     gbind (glift (credential_context_for_remote p payload ''ls_remote'')) (\<lambda>context.
     gbind (gensure (context \<noteq> ''user_scoped'' \<or> root \<noteq> None) ''GitRemoteIdentityConflict'') (\<lambda>_.
     gbind (run_remote_git H p (case root of None \<Rightarrow> gh_cwd H | Some r \<Rightarrow> r) payload ''ls_remote'' args) (\<lambda>(rc, out, _, context).
     gbind (gensure (rc = 0) ''remote_failed'') (\<lambda>_.
     let refs = concat (map ref_line (splitlines out)) in
     gret [(''ok'', VBool True), (''version'', VInt 1), (''operation'', VStr ''ls_remote''), (''remote'', VStr remote),
       (''refs'', VList (take 200 refs)), (''count'', VInt (int (length refs))), (''credential_context'', VStr context)]))))))"

definition op_fetch :: "'w git_host \<Rightarrow> policy \<Rightarrow> payload \<Rightarrow> ('w, payload) git_op" where
  "op_fetch H p payload =
     (let path = dget payload ''path''; remote = remote_name payload; ref = dget payload ''ref'' in
     gbind (gensure (truthy path) ''invalid_payload'') (\<lambda>_.
     gbind (git_repository H p path) (\<lambda>readable.
     gbind (glift (of_option (refused ''path_not_allowed'') (resolve_path (gh_os H) p (path_text readable) True))) (\<lambda>writable.
     gbind (glift (enforce_material_write_target (gh_os H) (pol_mutation_execution p) writable ''git.fetch'' ''repository_root'')) (\<lambda>root.
     gbind (run_remote_git H p root payload ''fetch''
       ([''fetch'', ''--prune'', remote] @ (if truthy ref then [py_str ref] else []))) (\<lambda>(rc, _, err, context).
     gbind (gensure (rc = 0) ''remote_failed'') (\<lambda>_.
     gret [(''ok'', VBool True), (''version'', VInt 1), (''operation'', VStr ''fetch''), (''root'', path_value root),
       (''remote'', VStr remote), (''credential_context'', VStr context),
       (''output'', VStr (take 2000 (strip (scrub err root))))])))))))"

text \<open>What \<open>rmtree\<close> leaves when it fails is part of the host; the failure is swallowed.\<close>

definition discard_partial_clone :: "'w git_host \<Rightarrow> path \<Rightarrow> bool \<Rightarrow> ('w, unit) git_op" where
  "discard_partial_clone H target created s =
     (if \<not> created \<or> \<not> gh_exists H target (gs_world s) then (Inr (), s)
      else (Inr (), s\<lparr>gs_world := gh_rmtree H target (gs_world s)\<rparr>))"

definition clone_args :: "payload \<Rightarrow> string \<Rightarrow> path \<Rightarrow> string list" where
  "clone_args payload url target = [''clone'']
     @ (if truthy (dget payload ''depth'') then [''--depth'', show_int (clamp_int (dget payload ''depth'') 1 1 1000)] else [])
     @ (if truthy (dget payload ''branch'') then [''--branch'', py_str (dget payload ''branch'')] else [])
     @ [url, path_text target]"

text \<open>How the one call of \<open>clone\<close> ended: unless it succeeded, what it made itself is removed again.\<close>

definition clone_ended :: "'w git_host \<Rightarrow> path \<Rightarrow> bool \<Rightarrow> string \<Rightarrow> (int \<times> string \<times> string) handler \<Rightarrow> ('w, payload) git_op" where
  "clone_ended H target created url r = (case r of
     Inl e \<Rightarrow> if e = refused ''git_timeout''
       then gbind (discard_partial_clone H target created) (\<lambda>_. gfail ''clone_timeout'') else glift (Inl e)
   | Inr (rc, _, _) \<Rightarrow> if rc \<noteq> 0
       then gbind (discard_partial_clone H target created) (\<lambda>_. gfail ''remote_failed'')
       else gret [(''ok'', VBool True), (''version'', VInt 1), (''operation'', VStr ''clone''),
         (''root'', path_value target), (''url'', VStr url)])"

definition op_clone :: "'w git_host \<Rightarrow> policy \<Rightarrow> payload \<Rightarrow> ('w, payload) git_op" where
  "op_clone H p payload =
     (let url = text_field payload ''url''; dest = text_field payload ''dest'' in
     gbind (gensure (url \<noteq> [] \<and> dest \<noteq> []) ''invalid_payload'') (\<lambda>_.
     gbind (glift (of_option (refused ''path_not_allowed'') (resolve_path (gh_os H) p dest True))) (\<lambda>resolved.
     gbind (glift (enforce_material_write_target (gh_os H) (pol_mutation_execution p) resolved ''git.clone'' ''destination'')) (\<lambda>target.
     gbind (glook (\<lambda>w. (gh_exists H target w, gh_entries H target w))) (\<lambda>(there, listed).
     gbind (glift (if \<not> there then Inr () else case listed of None \<Rightarrow> Inl (Raised OSError)
       | Some some \<Rightarrow> if some then Inl (refused ''dest_not_empty'') else Inr ())) (\<lambda>_ s.
     case run_git_for H False NET_TIMEOUT None (path_parent target) (clone_args payload url target) s of
       (r, t) \<Rightarrow> clone_ended H target (\<not> there) url r t))))))"

definition lease_option :: "string \<Rightarrow> pyval \<Rightarrow> string" where
  "lease_option branch expected = ''--force-with-lease='' @ branch @ '':'' @ py_str expected"

definition op_push :: "'w git_host \<Rightarrow> policy \<Rightarrow> payload \<Rightarrow> ('w, payload) git_op" where
  "op_push H p payload =
     (let path = dget payload ''path''; remote = remote_name payload; branch = text_field payload ''branch'';
          expected = dget payload ''expected_remote_sha''; force = git_flag (dget payload ''force'') False in
     gbind (gensure (truthy path) ''invalid_payload'') (\<lambda>_.
     gbind (git_repository H p path) (\<lambda>root.
     gbind (gensure (branch \<noteq> []) ''invalid_payload'') (\<lambda>_.
     gbind (gensure (\<not> force \<or> truthy expected) ''force_requires_lease'') (\<lambda>_.
     gbind (run_remote_git H p root payload ''push''
       ([''push''] @ (if force then [lease_option branch expected] else []) @ [remote, branch])) (\<lambda>(rc, _, err, context).
     let output = strip (scrub err root) in
     if rc \<noteq> 0 then gfail (if contains (casefold output) ''stale info'' then ''lease_stale'' else ''remote_failed'') else
     gret [(''ok'', VBool True), (''version'', VInt 1), (''operation'', VStr ''push''), (''root'', path_value root),
       (''remote'', VStr remote), (''branch'', VStr branch), (''forced'', VBool force),
       (''credential_context'', VStr context), (''output'', VStr (take 2000 output))]))))))"

definition git_handler :: "'w git_host \<Rightarrow> policy \<Rightarrow> payload \<Rightarrow> ('w, payload) git_op" where
  "git_handler H p payload =
     (let operation = dget payload ''operation'' in
      if operation = VStr ''diff'' then gbind (op_diff H p payload) (\<lambda>v. gret (diff_answer v))
      else if operation = VStr ''apply_patch'' then gbind (op_apply_patch H p payload) (\<lambda>r. gret (patch_answer r))
      else if operation = VStr ''ls_remote'' then op_ls_remote H p payload
      else if operation = VStr ''fetch'' then op_fetch H p payload
      else if operation = VStr ''clone'' then op_clone H p payload
      else if operation = VStr ''push'' then op_push H p payload
      else gfail ''invalid_payload'')"

end
