(* ===== verification/GitLaws.thy ===== *)
theory GitLaws
  imports GitRemote
begin

text \<open>
  What a Git operation adds to the log of Git calls: at most a number of calls, each with a
  property. The rules follow the structure of the programs; the lemmas after them say which
  calls each step of the handler makes.
\<close>

definition adds :: "nat \<Rightarrow> (git_run \<Rightarrow> bool) \<Rightarrow> ('w, 'a) git_op \<Rightarrow> bool" where
  "adds n P m \<longleftrightarrow> (\<forall>s. \<exists>new. gs_runs (snd (m s)) = gs_runs s @ new \<and> length new \<le> n \<and> list_all P new)"

lemma adds_log: "adds n P m \<Longrightarrow> m s = (r, t) \<Longrightarrow> \<exists>new. gs_runs t = gs_runs s @ new \<and> list_all P new"
  unfolding adds_def by (metis snd_conv)

lemma adds_lift: "adds 0 P (glift r)"
  by (simp add: adds_def glift_def)

lemma adds_ensure: "adds 0 P (gensure b code)"
  by (simp add: gensure_def adds_lift)

lemma adds_look: "adds 0 P (glook f)"
  by (simp add: adds_def glook_def)

lemma adds_bind:
  assumes "adds a P m" "\<And>x. adds b P (k x)" "a + b \<le> n"
  shows "adds n P (gbind m k)"
  unfolding adds_def
proof
  fix s
  obtain r t where m: "m s = (r, t)" by fastforce
  obtain one where one: "gs_runs t = gs_runs s @ one" "length one \<le> a" "list_all P one"
    using assms(1) m unfolding adds_def by (metis snd_conv)
  show "\<exists>new. gs_runs (snd (gbind m k s)) = gs_runs s @ new \<and> length new \<le> n \<and> list_all P new"
  proof (cases r)
    case (Inl e)
    then show ?thesis using m one assms(3) by (auto simp: gbind_def)
  next
    case (Inr x)
    obtain two where "gs_runs (snd (k x t)) = gs_runs t @ two" "length two \<le> b" "list_all P two"
      using assms(2)[of x] unfolding adds_def by meson
    then show ?thesis using Inr m one assms(3) by (auto simp: gbind_def intro!: exI[of _ "one @ two"])
  qed
qed

lemma adds_more: "adds a P m \<Longrightarrow> a \<le> n \<Longrightarrow> adds n P m"
  unfolding adds_def by (meson le_trans)

lemma adds_split: "(\<And>x y. adds n P (k x y)) \<Longrightarrow> adds n P (case q of (x, y) \<Rightarrow> k x y)"
  by (cases q) simp

lemma adds_inner: "(\<And>x y. adds n P (k x y z)) \<Longrightarrow> adds n P ((case q of (x, y) \<Rightarrow> k x y) z)"
  by (cases q) simp

lemma adds_if: "(b \<Longrightarrow> adds n P m) \<Longrightarrow> (\<not> b \<Longrightarrow> adds n P m') \<Longrightarrow> adds n P (if b then m else m')"
  by simp

lemma adds_let: "(\<And>y. adds n P (k y)) \<Longrightarrow> adds n P (let y = x in k y)"
  by simp

text \<open>Binding a step that makes no call, or exactly one.\<close>

lemma adds_then: "adds 0 P m \<Longrightarrow> (\<And>x. adds n P (k x)) \<Longrightarrow> adds n P (gbind m k)"
  by (rule adds_bind[where a = 0 and b = n]) simp_all

lemma adds_one: "adds 1 P m \<Longrightarrow> (\<And>x. adds n P (k x)) \<Longrightarrow> adds (Suc n) P (gbind m k)"
  by (rule adds_bind[where a = 1 and b = n]) simp_all

lemma adds_none: "adds n P (glift r)"
  by (rule adds_more[OF adds_lift]) simp

lemmas adds_rules = adds_split adds_if adds_let adds_then[OF adds_lift] adds_then[OF adds_ensure]
  adds_then[OF adds_look] adds_none

lemma adds_run: "(\<And>e. P \<lparr>gr_user = False, gr_root = root, gr_args = args, gr_stdin = inp, gr_limit = limit, gr_end = e\<rparr>)
    \<Longrightarrow> adds 1 P (run_git_for H timed limit inp root args)"
  by (auto simp: adds_def run_git_for_def log_run_def Let_def split: git_outcome.splits)

lemma adds_user: "(\<And>e. P \<lparr>gr_user = True, gr_root = root, gr_args = args, gr_stdin = None, gr_limit = limit, gr_end = e\<rparr>)
    \<Longrightarrow> adds 1 P (run_user_git H limit root args)"
  by (auto simp: adds_def run_user_git_def log_run_def Let_def split: git_outcome.splits)

lemma adds_discard: "adds 0 P (discard_partial_clone H target created)"
  by (simp add: adds_def discard_partial_clone_def)

section \<open>How many calls\<close>

text \<open>A call is given a limit, one of the three the operations use; the third is that of the signed-in user.\<close>

definition local_run :: "git_run \<Rightarrow> bool" where
  "local_run r \<longleftrightarrow> \<not> gr_user r \<and> (gr_limit r = GIT_CMD_TIMEOUT \<or> gr_limit r = NET_TIMEOUT)"

definition limited :: "policy \<Rightarrow> git_run \<Rightarrow> bool" where
  "limited p r \<longleftrightarrow> local_run r \<or> gr_user r \<and> gr_limit r = pol_git_timeout_seconds p"

lemma local_cmd: "adds 1 local_run (run_git H timed inp root args)"
  by (rule adds_run) (simp add: local_run_def)

lemma local_net: "adds 1 local_run (run_git_for H timed NET_TIMEOUT inp root args)"
  by (rule adds_run) (simp add: local_run_def)

lemmas local_rules = adds_rules adds_one[OF local_cmd] adds_one[OF local_net]

lemma local_root: "adds (Suc 0) local_run (revalidate_git_root H timed q root)"
  unfolding revalidate_git_root_def by (intro local_rules)

lemma local_entry: "adds (Suc (Suc 0)) local_run (diff_entry_of H root sel ctx max_patch budget c)"
  unfolding diff_entry_of_def by (intro local_rules)

lemma local_entries: "adds (2 * length cs) local_run (diff_entries H root sel ctx max_patch budget cs)"
proof (induction cs arbitrary: budget)
  case (Cons c cs)
  show ?case unfolding diff_entries.simps
    by (rule adds_bind[OF local_entry, where b = "2 * length cs"],
        intro adds_split, rule adds_bind[OF Cons.IH, where b = 0], intro adds_rules) simp_all
qed (simp add: adds_lift)

lemma local_untracked: "adds (Suc 0) local_run (untracked_files H include root)"
  unfolding untracked_files_def by (intro local_rules)

lemma local_work: "adds (2 * n + 4) local_run (diff_work H q root base_ref staged unstaged inc ctx n max_patch)"
proof -
  have es: "adds (2 * n) local_run (diff_entries H r sel ctx max_patch b (take n cs))" for r sel b cs
    by (rule adds_more[OF local_entries]) simp
  show ?thesis unfolding diff_work_def Let_def
    by (rule adds_bind[OF local_root, where b = "2 * n + 3"], rule adds_bind[OF local_cmd, where b = "2 * n + 2"], intro adds_split,
        rule adds_bind[OF local_cmd, where b = "2 * n + 1"], intro adds_split,
        rule adds_bind[OF local_untracked, where b = "2 * n"], rule adds_bind[OF es, where b = 0], intro adds_rules) simp_all
qed

lemma local_diff: "adds 104 local_run (op_diff H q payload)"
proof -
  have n: "nat (clamp_int v 50 1 50) \<le> 50" for v :: pyval by (cases v) (simp_all add: clamp_int_def)
  have work: "adds 104 local_run (diff_work H q root base_ref staged unstaged inc ctx
      (nat (clamp_int v MAX_FILES_CEILING 1 MAX_FILES_CEILING)) max_patch)" for root base_ref staged unstaged inc ctx v max_patch
    using n[of v] by (intro adds_more[OF local_work]) (simp add: MAX_FILES_CEILING_def)
  show ?thesis unfolding op_diff_def
    by (intro adds_rules adds_then work) (simp_all add: adds_lift split: pyval.split)
qed

lemma local_apply: "adds (Suc (Suc 0)) local_run (git_apply H root patch args)"
  unfolding git_apply_def by (intro local_rules)

lemma local_phases: "adds 6 local_run (apply_phases H root patch dry_run)"
proof -
  have last: "adds 2 local_run (if dry_run then gret x else gbind (git_apply H root patch args) (\<lambda>((rc_app, _, _), r3).
     gbind (gensure (rc_app = 0) code) (\<lambda>_. gret (y r3))))" for x y args code
    by (auto intro!: adds_rules adds_bind[OF local_apply, where b = 0] split: prod.split)
  show ?thesis unfolding apply_phases_def
    apply (rule adds_bind[OF local_apply, where b = 4])
     apply (intro adds_split adds_inner adds_let)
     apply (rule adds_bind[OF local_apply, where b = 2])
      apply (intro adds_split adds_inner adds_then[OF adds_ensure] last)
    by simp_all
qed

lemma local_patch: "adds 7 local_run (op_apply_patch H q payload)"
  unfolding op_apply_patch_def
  by (auto split: pyval.split simp: Let_def adds_none intro!: adds_rules adds_bind[OF local_cmd, where b = 6] local_phases)

lemma local_check: "adds (Suc 0) local_run (check_remote H root remote)"
  unfolding check_remote_def by (cases remote) (auto intro!: local_rules adds_more[OF adds_ensure] simp: adds_none)

lemma limited_user: "adds 1 (limited p) (run_user_git H (pol_git_timeout_seconds p) root args)"
  by (rule adds_user) (simp add: limited_def)

lemma limited_local: "adds n local_run m \<Longrightarrow> adds n (limited p) m"
  unfolding adds_def limited_def list_all_iff by blast

lemma limited_remote: "adds 2 (limited p) (run_remote_git H p root payload operation args)"
proof -
  have user: "adds 1 (limited p) (gbind (run_user_git H (pol_git_timeout_seconds p) root args) (\<lambda>(rc, out, err).
       case classify_result rc err of Some reason \<Rightarrow> gfail reason | None \<Rightarrow> gret (rc, out, err, x)))" for x
    by (rule adds_bind[OF limited_user, where b = 0]) (auto simp: adds_none split: option.split)
  show ?thesis unfolding run_remote_git_def
    by (intro adds_then[OF adds_lift] adds_if, rule adds_bind[OF limited_local[OF local_net], where b = 1], intro adds_rules, simp,
        rule adds_bind[OF limited_local[OF local_check], where b = 1], rule user, simp)
qed

lemma local_repository: "adds 1 local_run (git_repository H q path)"
  unfolding git_repository_def using local_root by (intro adds_then[OF adds_lift]) simp

lemma limited_ls_remote: "adds 3 (limited p) (op_ls_remote H p payload)"
proof -
  have root: "adds 1 (limited p) (if b then gbind (git_repository H p path) (\<lambda>r. gret (Some r)) else gret None)" for b path
    by (intro adds_if adds_none, rule adds_bind[OF limited_local[OF local_repository], where b = 0]) (simp_all add: adds_none)
  show ?thesis unfolding op_ls_remote_def Let_def
    by (rule adds_bind[OF root, where b = 2], intro adds_then[OF adds_lift] adds_then[OF adds_ensure],
        rule adds_bind[OF limited_remote, where b = 0], intro adds_rules) simp_all
qed

lemma limited_fetch: "adds 3 (limited p) (op_fetch H p payload)"
  unfolding op_fetch_def Let_def
  by (intro adds_then[OF adds_ensure], rule adds_bind[OF limited_local[OF local_repository], where b = 2], intro adds_then[OF adds_lift],
      rule adds_bind[OF limited_remote, where b = 0], intro adds_rules) simp_all

lemma limited_push: "adds 3 (limited p) (op_push H p payload)"
  unfolding op_push_def Let_def
  by (intro adds_then[OF adds_ensure], rule adds_bind[OF limited_local[OF local_repository], where b = 2], intro adds_then[OF adds_ensure],
      rule adds_bind[OF limited_remote, where b = 0], intro adds_rules) simp_all

text \<open>\<open>clone\<close> looks at how its one call ended.\<close>

lemma adds_ended:
  assumes "adds a P m" "\<And>r. adds 0 P (k r)"
  shows "adds a P (\<lambda>s. case m s of (r, t) \<Rightarrow> k r t)"
proof -
  have "gs_runs (snd (k r t)) = gs_runs t" for r t using assms(2)[of r] unfolding adds_def by (metis append_Nil2 le_zero_eq length_0_conv)
  then show ?thesis using assms(1) by (auto simp: adds_def split: prod.splits) (metis snd_conv)
qed

lemma local_clone: "adds 1 local_run (op_clone H q payload)"
proof -
  have "adds 0 P (clone_ended H target created url r)" for P target created url r
    by (auto simp: clone_ended_def intro!: adds_rules adds_then[OF adds_discard] split: sum.split)
  then show ?thesis unfolding op_clone_def Let_def
    by (intro adds_rules adds_ended[OF local_net])
qed

theorem limited_handler: "adds 104 (limited p) (git_handler H p payload)"
proof -
  have d: "adds 104 (limited p) (gbind (op_diff H p payload) (\<lambda>v. gret (diff_answer v)))"
    by (rule adds_bind[OF limited_local[OF local_diff], where b = 0]) (simp_all add: adds_none)
  have a: "adds 104 (limited p) (gbind (op_apply_patch H p payload) (\<lambda>r. gret (patch_answer r)))"
    by (rule adds_bind[OF limited_local[OF local_patch], where b = 0]) (simp_all add: adds_none)
  show ?thesis unfolding git_handler_def Let_def
    by (intro adds_if d a adds_none adds_more[OF limited_ls_remote] adds_more[OF limited_fetch]
        adds_more[OF limited_local[OF local_clone]] adds_more[OF limited_push]) simp_all
qed

end
