(* ===== verification/GitSample.thy ===== *)
theory GitSample
  imports GitLaws FileMutationProps
begin

text \<open>Concrete requests on a small host: the repository \<open>/r\<close>, read-write, where every Git call succeeds.\<close>

definition tiny_git :: "unit git_host" where
  "tiny_git = \<lparr>gh_os = plain_os,
     gh_run = (\<lambda>argv env inp limit w. (Ended 0 (if ''rev-parse'' \<in> set argv then ''/r'' else []) [], w)),
     gh_user_run = (\<lambda>root args limit w. (Ended 0 [] [], w)),
     gh_exists = (\<lambda>q w. True), gh_is_dir = (\<lambda>q w. True), gh_entries = (\<lambda>q w. Some False),
     gh_rmtree = (\<lambda>q w. w), gh_cwd = Path True []\<rparr>"

definition repo_policy :: policy where
  "repo_policy = (empty_policy (Path True []))\<lparr>pol_file_ops_paths := [make_file_ops_path ''/r'' ''rw'']\<rparr>"

definition idle :: "unit git_state" where
  "idle = \<lparr>gs_world = (), gs_runs = []\<rparr>"

definition tiny_patch :: string where
  "tiny_patch = ''--- a/x'' @ [CHR 0x0A] @ ''+++ b/x'' @ [CHR 0x0A]"

definition patch_request :: payload where
  "patch_request = [(''operation'', VStr ''apply_patch''), (''root'', VStr ''/r''), (''patch'', VStr tiny_patch)]"


text \<open>What the caller's strings become: every one is an argument of Git, with no \<open>--\<close> before it.\<close>

definition tiny_args :: "payload \<Rightarrow> string list list" where
  "tiny_args payload = map gr_args (gs_runs (snd (git_handler tiny_git repo_policy payload idle)))"

text \<open>A forced push is documented to carry a lease; a branch name with a leading plus forces without one.\<close>

lemma push_forces_without_lease:
  "tiny_args [(''operation'', VStr ''push''), (''path'', VStr ''/r''), (''branch'', VStr ''+main'')]
   = [[''rev-parse'', ''--show-toplevel''], [''push'', ''origin'', ''+main'']]"
  by code_simp

text \<open>The read-only view passes an option of \<open>git diff\<close> that writes a file anywhere.\<close>

lemma diff_takes_options:
  "[''diff'', ''--output=/etc/x'', ''--no-ext-diff'', ''--numstat'', ''-z''] \<in> set (tiny_args
     [(''operation'', VStr ''diff''), (''path'', VStr ''/r''), (''base_ref'', VStr ''--output=/etc/x'')])"
  by code_simp

text \<open>A fetch passes an option that names the program to run.\<close>

lemma fetch_takes_options:
  "tiny_args [(''operation'', VStr ''fetch''), (''path'', VStr ''/r''), (''remote'', VStr ''--upload-pack=/tmp/x''), (''ref'', VStr ''/r'')]
   = [[''rev-parse'', ''--show-toplevel''], [''fetch'', ''--prune'', ''--upload-pack=/tmp/x'', ''/r'']]"
  by code_simp

text \<open>The paths of a patch are those of its text headers: a binary part, or a change of mode, names a file that is
  not among them.\<close>

lemma binary_target_unseen:
  "extract_patch_paths (join_char (CHR 0x0A) [''--- a/x'', ''+++ b/x'', ''diff --git a/y b/y'', ''GIT binary patch'']) = [''x'']"
  by code_simp

text \<open>A removed line that starts with two dashes, as a comment of SQL or Lua does, is taken for a header.\<close>

lemma removed_comment_refused:
  "check_patch_paths plain_os repo_policy (Path True [''r''])
     (join_char (CHR 0x0A) [''--- a/x'', ''+++ b/x'', ''@@ -1 +0,0 @@'', ''--- /usr/bin/env lua'']) = Inl (refused ''patch_unsafe_path'')"
  by code_simp

text \<open>A clone that runs out of time into a directory that was there, and empty, leaves what it wrote.\<close>

lemma clone_leftover:
  "clone_ended H target False url (Inl (refused ''git_timeout'')) s = (Inl (refused ''clone_timeout''), s)"
  by (simp add: clone_ended_def gbind_def discard_partial_clone_def glift_def)

end
