(* ===== verification/GitPatchProps.thy ===== *)
theory GitPatchProps
  imports GitSample
begin

text \<open>
  A patch is applied only to a checked root, with checked targets, and after \<open>git apply --check\<close>
  accepted the same text there.
\<close>

section \<open>The calls of one phase\<close>







section \<open>The three phases\<close>






section \<open>Root and targets\<close>







section \<open>Requests\<close>










end
