(* ===== verification/GitDiffProps.thy ===== *)
theory GitDiffProps
  imports GitPatchProps
begin
















end
