(* ===== verification/GitRemoteProps.thy ===== *)
theory GitRemoteProps
  imports GitDiffProps
begin

text \<open>
  The Git of the signed-in user runs only where the policy allows it, and only against a remote
  that the repository itself has configured. A request makes a bounded number of calls.
\<close>

section \<open>Whose credentials\<close>



















section \<open>The number of calls\<close>

text \<open>
  C11: a Git request ends. Whatever the request and whatever Git answers, the handler makes at most
  104 calls, and the sum of the time limits it gives them is at most 104 times the larger of 50
  seconds and the limit of the policy.
\<close>

theorem git_request_ends:
  "\<exists>new. gs_runs (snd (git_handler H p payload s)) = gs_runs s @ new \<and> length new \<le> 104
     \<and> sum_list (map gr_limit new) \<le> 104 * max NET_TIMEOUT (pol_git_timeout_seconds p)"
proof -
  obtain new where new: "gs_runs (snd (git_handler H p payload s)) = gs_runs s @ new" "length new \<le> 104" "list_all (limited p) new"
    using limited_handler[of p H payload] unfolding adds_def by blast
  let ?m = "max NET_TIMEOUT (pol_git_timeout_seconds p)"
  have "sum_list (map gr_limit xs) \<le> int (length xs) * ?m" if "list_all (limited p) xs" for xs
    using that by (induction xs) (auto simp: limited_def local_run_def NET_TIMEOUT_def GIT_CMD_TIMEOUT_def algebra_simps)
  moreover have "int (length new) * ?m \<le> 104 * ?m"
    using new(2) by (intro mult_right_mono) (auto simp: NET_TIMEOUT_def)
  ultimately show ?thesis using new by (meson order_trans)
qed

end
