(* ===== verification/Spec2Isabelle.thy ===== *)
theory Spec2Isabelle
  imports ScopeRuntimeProps PolicyProps ExecHandler AuditProps Dispatch ScriptRun SandboxProps ScopedProps EditProps PendingProps SessionProps OperationProps CodexProps ScopeHandler GitRemoteProps
begin

text \<open>
  A model of the SentinelX agent (\<open>src/src/sentinelx_core\<close>) and the properties that make its core
  correct. The agent runs on a host, takes requests of a hub over a web socket and executes them
  under the policy of the host's owner. Its hard part is scoped mutation: a caller may run a
  script only inside a scope, a durable, sealed, expiring record of one workspace for one
  Attempt, under an AppContainer that can reach that workspace and little else, with every step
  written ahead to an audit journal.

  \<^bold>\<open>Parts and how they interact.\<close> \<open>executor.py\<close> turns a request into the call of a handler, a log
  entry and exactly one response. The handlers ask the policy (\<open>policy.py\<close>) what they may do.
  The scoped \<open>script_run\<close> handler (\<open>handlers/scoped_script.py\<close>) asks the scope store
  (\<open>mutation_scope.py\<close>, over the placement rules of \<open>mutation_placement.py\<close>) to admit the request,
  retains the script as evidence and writes START (\<open>mutation_audit.py\<close>), activates the sandbox
  and spawns the process (\<open>windows_mutation_sandbox.py\<close>, which reserves every authority in the
  scope store before it touches Windows), waits, closes the scope through the sandbox, and
  writes FINISH.

  \<^bold>\<open>Theories.\<close>
  \<^item> \<open>Prelude\<close>, \<open>Json\<close>, \<open>JsonParse\<close>, \<open>Paths\<close>, \<open>Clock\<close>: the result type and its monad, strings, Python
    values with the canonical JSON printer and its injectivity, a parser of JSON, lexical paths,
    ISO time stamps. \<open>JsonParse\<close> runs on fuel; \<open>2 * length + 2\<close> is enough for every document,
    since each call consumes a character or descends into one that did.
  \<^item> \<open>Identity\<close>, \<open>Placement\<close>, \<open>MutationPolicy\<close>, \<open>Verification\<close>: \<open>mutation_placement.py\<close>, the mutation
    part of \<open>policy.py\<close>, and the profile contracts of \<open>verification_profile.py\<close> that it reads.
  \<^item> \<open>ScopeStore\<close>, \<open>ScopeOps\<close>, \<open>ScopeRuntime\<close>, \<open>ScopeLifecycle\<close>: \<open>mutation_scope.py\<close>. An operation is a
    function from the document on disk to the documents it publishes, in order, and its result;
    so the document a crash leaves behind is the initial one or one of those.
    \<open>ScopeInvariant\<close>, \<open>ScopeSteps\<close>, \<open>ScopeMint\<close> prove the invariant of the store and that every
    operation and every crash keeps it; \<open>ScopeProtocol\<close> is the step relation and its reachable
    documents; \<open>ScopeProps\<close> and \<open>ScopeRuntimeProps\<close> hold the properties C1 to C14.
  \<^item> \<open>PolicyProps\<close>, \<open>AgentPolicy\<close>, \<open>SegmentCheck\<close>, \<open>ExecHandler\<close>: the loading of the policy, the path and
    command checks, strict mode and the exec handler (C15 to C19).
  \<^item> \<open>Lineage\<close>, \<open>AuditRecords\<close>, \<open>AuditJournal\<close>, \<open>AuditLaws\<close>, \<open>AuditRun\<close>, \<open>AuditProps\<close>: \<open>request_context.py\<close>
    and \<open>mutation_audit.py\<close>: evidence store and journal as a disk of bytes, where an append may
    be torn after any number of bytes (C20 to C26).
  \<^item> \<open>LocalAudit\<close>, \<open>Dispatch\<close>: \<open>local_audit.py\<close>, \<open>executor.py\<close> and \<open>staging.py\<close> (C27 to C29).
  \<^item> \<open>ScriptRun\<close>: the historical \<open>script_run\<close> handler of \<open>handlers/script.py\<close> (C30).
  \<^item> \<open>SandboxApi\<close>, \<open>WindowsSandbox\<close>, \<open>SandboxProcess\<close>: the sandbox broker as programs over the calls it
    makes of Windows. \<open>SandboxLaws\<close> states what those calls promise, \<open>SandboxLogic\<close> a Hoare logic for
    such programs, \<open>SandboxSteps\<close>, \<open>SandboxGrants\<close>, \<open>SandboxRun\<close> the triples of every operation and the
    relation of everything that can happen to a scope; \<open>SandboxSample\<close> a concrete Windows that
    obeys the laws, \<open>SandboxProps\<close> C31 and C32.
  \<^item> \<open>ScopedScript\<close>, \<open>ScopedRun\<close>, \<open>ScopedLaws\<close>, \<open>ScopedProps\<close>: the scoped \<open>script_run\<close> handler from the
    request to the response, where it crosses every component above (C33 to C35).

  \<^bold>\<open>What stands for code outside the repository.\<close> SHA-256 (\<open>w_sha\<close>) is any function; a property that
  needs it to be collision-free says so. \<open>Path.resolve\<close> (\<open>w_os\<close>) is any function, so symbolic links
  may point anywhere. The Windows calls of the sandbox are the fields of \<open>win_api\<close>, any function
  with any failure; C31 and C32 assume \<open>windows_laws\<close>, that a call which succeeds changes the access
  lists it names as documented and one that fails changes no others. C33 assumes \<open>never_torn\<close>, that
  an append to the journal is whole or absent; C20 shows what a torn one can do.

  \<^bold>\<open>Not modelled.\<close> Locks, fsync and temporary files appear as the atomicity they give. Messages of
  exceptions are left out where no code reads them. The components of the manifest with the
  status not modelled name their reasons: mostly calls into git, the shell, the network or the
  Windows API, and texts.
\<close>

end
